(* ===== verification/Prelude.thy ===== *)
theory Prelude
  imports Complex_Main "HOL-Library.AList" "HOL-Library.Multiset" "HOL-Library.Word"
    "HOL-Library.Sublist"
begin

text \<open>
  Shared vocabulary of the development: JavaScript numbers and loosely typed wire values,
  the insertion-ordered \<^verbatim>\<open>Set\<close> and \<^verbatim>\<open>Map\<close> of the language as duplicate-free lists and
  association lists, sequencing of operations that may throw after they have already
  changed the state, and the two generic interfaces the components are proved against: a
  set container and a machine with an invariant.

  Numbers. Clock readings are integers (milliseconds, as \<^verbatim>\<open>Date.now()\<close> returns them) and
  positions and speeds are exact rationals; the rounding of IEEE doubles is abstracted.
  Where the code itself asks \<^verbatim>\<open>Number.isFinite\<close> or \<^verbatim>\<open>Number.isInteger\<close>, the value is a
  \<open>js_number\<close> or a \<open>js_value\<close>, so that NaN, the infinities and wrongly typed inputs are
  branches of the model.
\<close>

named_theorems frame \<open>fields an operation leaves alone\<close>
named_theorems keeps \<open>operations that keep an invariant\<close>

section \<open>Numbers and wire values\<close>

datatype js_number = Fin rat | PosInf | NegInf | NaN

datatype js_value =
    JUndefined
  | JNull
  | JBool bool
  | JNumber js_number
  | JString string
  | JObject

primrec isFinite :: "js_number \<Rightarrow> bool" where
  "isFinite (Fin x) = True"
| "isFinite PosInf = False"
| "isFinite NegInf = False"
| "isFinite NaN = False"

text \<open>\<^verbatim>\<open>Number.isInteger\<close>: only finite numbers without a fractional part.\<close>

fun isInteger :: "js_value \<Rightarrow> bool" where
  "isInteger (JNumber (Fin x)) = (snd (quotient_of x) = 1)"
| "isInteger _ = False"

text \<open>The integer a value denotes once \<^verbatim>\<open>Number.isInteger\<close> has accepted it.\<close>

fun js_int :: "js_value \<Rightarrow> int" where
  "js_int (JNumber (Fin x)) = \<lfloor>x\<rfloor>"
| "js_int _ = 0"

text \<open>JavaScript truthiness of an optional string: \<^verbatim>\<open>undefined\<close> and \<^verbatim>\<open>""\<close> are falsy.\<close>

fun truthy_str :: "string option \<Rightarrow> bool" where
  "truthy_str None = False"
| "truthy_str (Some s) = (s \<noteq> [])"

text \<open>Truthiness of an optional number id: \<^verbatim>\<open>undefined\<close> and 0 are falsy.\<close>

fun truthy_num :: "int option \<Rightarrow> bool" where
  "truthy_num None = False"
| "truthy_num (Some n) = (n \<noteq> 0)"

lemma isInteger_of_int [simp]: "isInteger (JNumber (Fin (of_int k)))"
  by (simp add: quotient_of_int)

lemma js_int_of_int [simp]: "js_int (JNumber (Fin (of_int k))) = k"
  by simp

section \<open>Operations that may throw\<close>

text \<open>
  A handler returns the exception it threw, if any, together with the state it left
  behind: an exception does not undo the assignments made before it. \<open>seq\<close> is the
  semicolon of such handlers.
\<close>

type_synonym ('e, 's) thrown = "'e option \<times> 's"

definition seq :: "('e, 's) thrown \<Rightarrow> ('s \<Rightarrow> ('e, 's) thrown) \<Rightarrow> ('e, 's) thrown" where
  "seq p f = (case p of (None, s) \<Rightarrow> f s | (Some e, s) \<Rightarrow> (Some e, s))"

lemma seq_None [simp]: "seq (None, s) f = f s"
  by (simp add: seq_def)

lemma seq_Some [simp]: "seq (Some e, s) f = (Some e, s)"
  by (simp add: seq_def)

text \<open>An invariant of the state passes through a semicolon.\<close>

lemma seq_keeps:
  assumes "I (snd p)" and "\<And>s. I s \<Longrightarrow> I (snd (f s))"
  shows "I (snd (seq p f))"
  using assms by (cases p rule: prod.exhaust) (simp add: seq_def split: option.split)

section \<open>The language's Set\<close>

text \<open>A \<^verbatim>\<open>Set\<close> keeps the order of insertion; adding a present element does nothing.\<close>

definition js_add :: "'a \<Rightarrow> 'a list \<Rightarrow> 'a list" where
  "js_add x xs = (if x \<in> set xs then xs else xs @ [x])"

definition js_delete :: "'a \<Rightarrow> 'a list \<Rightarrow> 'a list" where
  "js_delete x xs = filter (\<lambda>y. y \<noteq> x) xs"

definition js_Set :: "'a list \<Rightarrow> 'a list" where
  "js_Set xs = foldl (\<lambda>s x. js_add x s) [] xs"

lemma set_js_add [simp]: "set (js_add x xs) = insert x (set xs)"
  by (auto simp: js_add_def)

lemma set_js_delete [simp]: "set (js_delete x xs) = set xs - {x}"
  by (auto simp: js_delete_def)

lemma distinct_js_add [simp]: "distinct (js_add x xs) = distinct xs"
  by (auto simp: js_add_def)

lemma distinct_js_delete [simp]: "distinct xs \<Longrightarrow> distinct (js_delete x xs)"
  by (simp add: js_delete_def)

lemma js_Set_fold:
  "set (foldl (\<lambda>s x. js_add x s) acc xs) = set acc \<union> set xs
   \<and> (distinct acc \<longrightarrow> distinct (foldl (\<lambda>s x. js_add x s) acc xs))"
  by (induction xs arbitrary: acc) auto

lemma set_js_Set [simp]: "set (js_Set xs) = set xs"
  by (simp add: js_Set_def js_Set_fold)

lemma distinct_js_Set [simp]: "distinct (js_Set xs)"
  by (simp add: js_Set_def js_Set_fold)

text \<open>
  What the room relies on when it keeps votes and client ids in a \<^verbatim>\<open>Set\<close>. \<open>toggle\<close> is the
  client's operation: a second vote withdraws the first.
\<close>

locale set_container =
  fixes none :: "'s"
    and add :: "'a \<Rightarrow> 's \<Rightarrow> 's"
    and del :: "'a \<Rightarrow> 's \<Rightarrow> 's"
    and has :: "'s \<Rightarrow> 'a \<Rightarrow> bool"
    and count :: "'s \<Rightarrow> nat"
    and elems :: "'s \<Rightarrow> 'a set"
    and wf :: "'s \<Rightarrow> bool"
  assumes elems_none: "elems none = {}"
    and elems_add: "wf s \<Longrightarrow> elems (add x s) = insert x (elems s)"
    and elems_del: "wf s \<Longrightarrow> elems (del x s) = elems s - {x}"
    and has_elems: "wf s \<Longrightarrow> has s x = (x \<in> elems s)"
    and count_elems: "wf s \<Longrightarrow> count s = card (elems s)"
    and finite_elems: "wf s \<Longrightarrow> finite (elems s)"
    and wf_none: "wf none"
    and wf_add: "wf s \<Longrightarrow> wf (add x s)"
    and wf_del: "wf s \<Longrightarrow> wf (del x s)"
begin

lemma wf_toggle: "wf s \<Longrightarrow> wf (if has s x then del x s else add x s)"
  by (simp add: wf_add wf_del)

lemma elems_toggle:
  "wf s \<Longrightarrow> elems (if has s x then del x s else add x s) =
     (if x \<in> elems s then elems s - {x} else insert x (elems s))"
  by (simp add: has_elems elems_add elems_del)

lemma count_toggle:
  "wf s \<Longrightarrow> count (if has s x then del x s else add x s) =
     (if x \<in> elems s then count s - 1 else Suc (count s))"
  by (simp add: wf_add wf_del has_elems elems_add elems_del count_elems finite_elems)

lemma toggle_twice:
  assumes "wf s"
  shows "elems ((\<lambda>t. if has t x then del x t else add x t)
           (if has s x then del x s else add x s)) = elems s"
  using assms by (auto simp: wf_add wf_del has_elems elems_add elems_del)

end

interpretation js_set: set_container "[]" js_add js_delete "\<lambda>s x. x \<in> set s" length set distinct
  by unfold_locales (auto simp: distinct_card)

section \<open>The language's Map\<close>

text \<open>
  A \<^verbatim>\<open>Map\<close> is an association list in insertion order: \<^const>\<open>AList.update\<close> overwrites in
  place or appends, as \<^verbatim>\<open>Map.set\<close> does, and \<^const>\<open>AList.delete\<close> is \<^verbatim>\<open>Map.delete\<close>.
\<close>

definition js_Map :: "('k \<times> 'v) list \<Rightarrow> ('k \<times> 'v) list" where
  "js_Map entries = foldl (\<lambda>m (k, v). AList.update k v m) [] entries"

lemma update_fresh: "k \<notin> fst ` set al \<Longrightarrow> AList.update k v al = al @ [(k, v)]"
  by (induction al) auto

lemma js_Map_distinct_acc:
  "distinct (map fst (acc @ es)) \<Longrightarrow>
     foldl (\<lambda>m (k, v). AList.update k v m) acc es = acc @ es"
proof (induction es arbitrary: acc)
  case Nil
  then show ?case by simp
next
  case (Cons e es)
  obtain k v where e: "e = (k, v)" by force
  have "AList.update k v acc = acc @ [(k, v)]"
    using Cons.prems e by (intro update_fresh) auto
  with Cons.IH [of "acc @ [(k, v)]"] Cons.prems e show ?case by simp
qed

text \<open>Rebuilding a Map from its own entries gives it back: keys are unique.\<close>

lemma js_Map_id: "distinct (map fst m) \<Longrightarrow> js_Map m = m"
  by (simp add: js_Map_def js_Map_distinct_acc)

section \<open>Machines with an invariant\<close>

text \<open>
  Many components are a step function over events with an invariant that every step keeps.
  The run of a list of events then keeps it too, and so does every state on the way.
\<close>

locale invariant_machine =
  fixes step :: "'s \<Rightarrow> 'e \<Rightarrow> 's"
    and inv :: "'s \<Rightarrow> bool"
    and ok :: "'e \<Rightarrow> bool"
  assumes step_inv: "inv s \<Longrightarrow> ok e \<Longrightarrow> inv (step s e)"
begin

lemma run_inv: "inv s \<Longrightarrow> list_all ok es \<Longrightarrow> inv (foldl step s es)"
  by (induction es arbitrary: s) (auto intro: step_inv)

lemma prefix_inv:
  assumes "inv s" and "list_all ok es" and "prefix ds es"
  shows "inv (foldl step s ds)"
  using assms by (auto simp: prefix_def intro: run_inv)

end

text \<open>A key made of parts is taken apart at its first separator.\<close>

lemma split_first:
  assumes "xs @ c # ys = xs' @ c # ys'" "c \<notin> set xs" "c \<notin> set xs'"
  shows "xs = xs' \<and> ys = ys'"
  using assms
proof (induction xs arbitrary: xs')
  case Nil
  then show ?case by (cases xs') auto
next
  case (Cons x xs)
  then show ?case by (cases xs') auto
qed

section \<open>Bit masks\<close>

text \<open>\<open>or_all\<close> joins a list of masks; \<open>mask_le\<close> says that every bit of one is set in the other.\<close>

unbundle bit_operations_syntax

definition or_all :: "'a::semiring_bit_operations list \<Rightarrow> 'a" where
  "or_all ws = foldr (OR) ws 0"

definition mask_le :: "'a::semiring_bit_operations \<Rightarrow> 'a \<Rightarrow> bool" where
  "mask_le a b \<longleftrightarrow> a AND b = a"

lemma or_all_simps [simp]: "or_all [] = 0" "or_all (w # ws) = w OR or_all ws"
  by (simp_all add: or_all_def)

lemma foldl_or_if:
  "foldl (\<lambda>m (k, v). if P k then m OR v else m) acc es =
     acc OR or_all (map snd (filter (\<lambda>e. P (fst e)) es))"
  by (induction es arbitrary: acc) (auto simp: or.assoc)

lemma foldl_or: "foldl (OR) m ms = m OR or_all ms"
  by (induction ms arbitrary: m) (auto simp: or.assoc)

lemma mask_le_bit: "mask_le a b \<longleftrightarrow> (\<forall>n. bit a n \<longrightarrow> bit b n)"
proof
  assume "mask_le a b"
  then have "bit (a AND b) n = bit a n" for n by (simp add: mask_le_def)
  then show "\<forall>n. bit a n \<longrightarrow> bit b n" by (auto simp: bit_and_iff)
next
  assume "\<forall>n. bit a n \<longrightarrow> bit b n"
  then show "mask_le a b" unfolding mask_le_def by (intro bit_eqI) (auto simp: bit_and_iff)
qed

lemma mask_le_refl [simp]: "mask_le a a"
  by (simp add: mask_le_bit)

lemma mask_le_zero [simp]: "mask_le 0 a"
  by (simp add: mask_le_bit)

lemma mask_le_or_iff: "mask_le (a OR b) c \<longleftrightarrow> mask_le a c \<and> mask_le b c"
  by (auto simp: mask_le_bit bit_or_iff)

lemma mask_le_orI1: "mask_le a b \<Longrightarrow> mask_le a (b OR c)"
  by (auto simp: mask_le_bit bit_or_iff)

lemma mask_le_orI2: "mask_le a c \<Longrightarrow> mask_le a (b OR c)"
  by (auto simp: mask_le_bit bit_or_iff)

lemma mask_le_and: "mask_le (a AND b) b"
  by (auto simp: mask_le_bit bit_and_iff)

lemma mask_le_trans: "mask_le a b \<Longrightarrow> mask_le b c \<Longrightarrow> mask_le a c"
  by (auto simp: mask_le_bit)

lemma mask_le_antisym: "mask_le a b \<Longrightarrow> mask_le b a \<Longrightarrow> a = b"
  by (metis and.commute mask_le_def)

lemma bit_or_all: "bit (or_all ws) n \<longleftrightarrow> (\<exists>w\<in>set ws. bit w n)"
  by (induction ws) (auto simp: bit_or_iff)

section \<open>Lists\<close>

text \<open>\<^verbatim>\<open>Array.prototype.splice(i, 1)\<close> and \<^verbatim>\<open>splice(i, 0, x)\<close> within the bounds.\<close>

definition splice_out :: "nat \<Rightarrow> 'a list \<Rightarrow> 'a list" where
  "splice_out i xs = take i xs @ drop (Suc i) xs"

definition splice_in :: "nat \<Rightarrow> 'a \<Rightarrow> 'a list \<Rightarrow> 'a list" where
  "splice_in i x xs = take i xs @ x # drop i xs"

lemma length_splice_out [simp]: "i < length xs \<Longrightarrow> length (splice_out i xs) = length xs - 1"
  by (simp add: splice_out_def)

lemma length_splice_in [simp]: "length (splice_in i x xs) = Suc (length xs)"
  by (simp add: splice_in_def)

lemma mset_splice_in [simp]: "mset (splice_in i x xs) = add_mset x (mset xs)"
proof -
  have "mset (take i xs) + mset (drop i xs) = mset xs"
    by (metis append_take_drop_id mset_append)
  then show ?thesis by (simp add: splice_in_def)
qed

lemma splice_out_in:
  assumes "i < length xs"
  shows "splice_in i (xs ! i) (splice_out i xs) = xs"
  using assms by (simp add: splice_in_def splice_out_def id_take_nth_drop [symmetric])

lemma mset_splice_out:
  assumes "i < length xs"
  shows "add_mset (xs ! i) (mset (splice_out i xs)) = mset xs"
  using splice_out_in [OF assms] by (metis mset_splice_in)

lemma nth_splice_in: "i \<le> length xs \<Longrightarrow> splice_in i x xs ! i = x"
  by (simp add: splice_in_def nth_append)

lemma splice_out_splice_in: "i \<le> length xs \<Longrightarrow> splice_out i (splice_in i x xs) = xs"
  by (simp add: splice_in_def splice_out_def)

lemma set_splice_out: "set (splice_out i xs) \<subseteq> set xs"
  by (auto simp: splice_out_def dest: in_set_takeD in_set_dropD)

end
