(* ===== verification/Permissions.thy ===== *)
theory Permissions
  imports Prelude
begin

text \<open>
  \<^verbatim>\<open>common/permissions.ts\<close>, \<^verbatim>\<open>common/userutils.ts\<close> and \<^verbatim>\<open>common/voteskip.ts\<close>: the roles, the
  table of permissions, grant masks as 32-bit words (the width of JavaScript's bitwise
  operators), the class \<^verbatim>\<open>Grants\<close> with its inheritance between roles, the migration of
  stored masks to a newer revision, and the checks for kicking and for vote-skipping.

  The lemmas show that every name is one bit of the mask, that masks stay monotone in the
  role and inside what the role may hold, that administrators and owners keep everything,
  and that the serialized form reads back as the same grants.
\<close>

section \<open>Roles and errors\<close>

datatype Role = Owner | UnregisteredUser | RegisteredUser | TrustedUser | Moderator | Administrator

primrec role_num :: "Role \<Rightarrow> int" where
  "role_num Owner = -1"
| "role_num UnregisteredUser = 0"
| "role_num RegisteredUser = 1"
| "role_num TrustedUser = 2"
| "role_num Moderator = 3"
| "role_num Administrator = 4"

text \<open>Roles compare as their numbers do in the source, so the owner is the least of them.\<close>

lemma role_num_inject [simp]: "role_num r = role_num s \<longleftrightarrow> r = s"
  by (cases r; cases s) auto

instantiation Role :: linorder
begin

definition less_eq_Role :: "Role \<Rightarrow> Role \<Rightarrow> bool" where
  "less_eq_Role r s \<longleftrightarrow> role_num r \<le> role_num s"

definition less_Role :: "Role \<Rightarrow> Role \<Rightarrow> bool" where
  "less_Role r s \<longleftrightarrow> role_num r < role_num s"

instance
  by standard (auto simp: less_eq_Role_def less_Role_def simp flip: role_num_inject)

end

text \<open>The number of a role that arrives from outside; other numbers are not roles.\<close>

definition role_of_num :: "int \<Rightarrow> Role option" where
  "role_of_num n =
     (if n = -1 then Some Owner
      else if n = 0 then Some UnregisteredUser
      else if n = 1 then Some RegisteredUser
      else if n = 2 then Some TrustedUser
      else if n = 3 then Some Moderator
      else if n = 4 then Some Administrator
      else None)"

lemma role_of_num_role_num [simp]: "role_of_num (role_num r) = Some r"
  by (cases r) (auto simp: role_of_num_def)

text \<open>The exceptions the modelled code throws; \<open>GenericError\<close> is a plain \<^verbatim>\<open>Error\<close>.\<close>

datatype ott_error =
    PermissionDenied string
  | InvalidRole int
  | BadApiArgument string
  | VideoAlreadyQueued
  | VideoNotFound
  | UnsupportedSubtitleType
  | UnsupportedSubtitleUrl
  | UndoEventUnavailable
  | ImpossiblePromotion
  | ClientNotFoundInRoom string
  | FeatureDisabled string
  | NoteTooLong nat
  | TooManyNotes nat
  | NoteNotFound
  | RoomNotFound string
  | RoomNameTaken string
  | OttException string
  | GenericError string

section \<open>The permission table\<close>

type_synonym GrantMask = "32 word"

record Permission =
  perm_name :: string
  perm_mask :: GrantMask
  perm_minRole :: Role

abbreviation permission :: "string \<Rightarrow> nat \<Rightarrow> Role \<Rightarrow> Permission" where
  "permission n b r \<equiv> \<lparr>perm_name = n, perm_mask = push_bit b 1, perm_minRole = r\<rparr>"

definition PERMISSIONS :: "Permission list" where
  "PERMISSIONS =
    [permission ''playback.play-pause'' 0 UnregisteredUser,
     permission ''playback.skip'' 1 UnregisteredUser,
     permission ''playback.seek'' 2 UnregisteredUser,
     permission ''manage-queue.add'' 3 UnregisteredUser,
     permission ''manage-queue.remove'' 4 RegisteredUser,
     permission ''manage-queue.order'' 5 UnregisteredUser,
     permission ''manage-queue.vote'' 6 UnregisteredUser,
     permission ''chat'' 7 UnregisteredUser,
     permission ''configure-room.set-title'' 8 RegisteredUser,
     permission ''configure-room.set-description'' 9 RegisteredUser,
     permission ''configure-room.set-visibility'' 10 RegisteredUser,
     permission ''configure-room.set-queue-mode'' 11 RegisteredUser,
     permission ''configure-room.set-permissions.for-moderator'' 12 Administrator,
     permission ''configure-room.set-permissions.for-trusted-users'' 13 Moderator,
     permission ''configure-room.set-permissions.for-all-registered-users'' 14 TrustedUser,
     permission ''configure-room.set-permissions.for-all-unregistered-users'' 15 RegisteredUser,
     permission ''manage-users.promote-admin'' 16 Administrator,
     permission ''manage-users.demote-admin'' 17 Administrator,
     permission ''manage-users.promote-moderator'' 18 Moderator,
     permission ''manage-users.demote-moderator'' 19 Moderator,
     permission ''manage-users.promote-trusted-user'' 20 TrustedUser,
     permission ''manage-users.demote-trusted-user'' 21 TrustedUser,
     permission ''configure-room.other'' 22 RegisteredUser,
     permission ''playback.speed'' 23 UnregisteredUser,
     permission ''manage-users.kick'' 24 TrustedUser,
     permission ''manage-queue.play-now'' 25 UnregisteredUser,
     permission ''manage-queue.edit'' 26 UnregisteredUser,
     permission ''configure-room.set-notes'' 27 UnregisteredUser,
     permission ''configure-room.set-danmaku-source'' 28 UnregisteredUser]"

definition permMaskMap :: "(string \<times> GrantMask) list" where
  "permMaskMap = js_Map (map (\<lambda>p. (perm_name p, perm_mask p)) PERMISSIONS)"

text \<open>
  A name selects every permission it is a prefix of, and \<^verbatim>\<open>*\<close> selects all of them. A name
  that is no prefix of any permission selects nothing and contributes the empty mask.
\<close>

definition parseIntoGrantMask :: "string list \<Rightarrow> GrantMask" where
  "parseIntoGrantMask perms =
     foldl (\<lambda>mask perm.
        foldl (\<lambda>m (key, value). if prefix perm key \<or> perm = ''*'' then m OR value else m)
          mask permMaskMap) 0 perms"

definition getValidationMask :: "Role \<Rightarrow> GrantMask" where
  "getValidationMask role =
     (let masks = map perm_mask (filter (\<lambda>p. perm_minRole p \<le> role) PERMISSIONS) in
      case masks of
        [] \<Rightarrow> parseIntoGrantMask [''*'']
      | m # ms \<Rightarrow> foldl (OR) m ms)"

definition isRoleValid :: "int \<Rightarrow> bool" where
  "isRoleValid role \<longleftrightarrow> -1 \<le> role \<and> role \<le> 4"

section \<open>The class Grants\<close>

text \<open>The only field of the class is \<^verbatim>\<open>masks\<close>, a Map from roles to masks.\<close>

type_synonym Grants = "(Role \<times> GrantMask) list"

definition getMask :: "Grants \<Rightarrow> Role \<Rightarrow> GrantMask option" where
  "getMask g role = map_of g role"

text \<open>\<^verbatim>\<open>undefined\<close> is 0 under the bitwise operators.\<close>

definition bits :: "GrantMask option \<Rightarrow> GrantMask" where
  "bits m = (case m of None \<Rightarrow> 0 | Some w \<Rightarrow> w)"

definition inherited_roles :: "Role list" where
  "inherited_roles = [UnregisteredUser, RegisteredUser, TrustedUser, Moderator, Administrator]"

fun processInheiritance_from :: "GrantMask \<Rightarrow> Role list \<Rightarrow> Grants \<Rightarrow> Grants" where
  "processInheiritance_from fullmask [] g = g"
| "processInheiritance_from fullmask (i # is) g =
     (let full = fullmask OR bits (getMask g i) in
      processInheiritance_from full is (AList.update i full g))"

definition processInheiritance :: "Grants \<Rightarrow> Grants" where
  "processInheiritance g = processInheiritance_from 0 inherited_roles g"

datatype perm_input = Names "string list" | Mask GrantMask

primrec normalizePermissionsInput :: "perm_input \<Rightarrow> GrantMask" where
  "normalizePermissionsInput (Names ps) = parseIntoGrantMask ps"
| "normalizePermissionsInput (Mask m) = m"

definition setRoleGrants :: "int \<Rightarrow> perm_input \<Rightarrow> Grants \<Rightarrow> ott_error + Grants" where
  "setRoleGrants role permissions g =
     (if \<not> isRoleValid role then Inl (InvalidRole role)
      else case role_of_num role of
        None \<Rightarrow> Inl (InvalidRole role)
      | Some r \<Rightarrow>
          Inr (processInheiritance
            (AList.update r (normalizePermissionsInput permissions AND getValidationMask r) g)))"

text \<open>
  The three shapes \<^verbatim>\<open>setAllGrants\<close> accepts. A Map and an array of pairs skip a role whose
  mask is zero; the deprecated object form does not. Roles are numbers here, since stored
  and received grants may name any.
\<close>

datatype grants_input =
    FromGrants Grants
  | FromMap "(int \<times> GrantMask) list"
  | FromArray "(int \<times> GrantMask) list"
  | FromObject "(int \<times> GrantMask) list"

fun setMapGrants :: "(int \<times> GrantMask) list \<Rightarrow> Grants \<Rightarrow> ott_error + Grants" where
  "setMapGrants [] g = Inr g"
| "setMapGrants ((role, w) # es) g =
     (if w = 0 then setMapGrants es g
      else case setRoleGrants role (Mask w) g of
          Inl e \<Rightarrow> Inl e
        | Inr g' \<Rightarrow> setMapGrants es g')"

fun setObjectGrants :: "(int \<times> GrantMask) list \<Rightarrow> Grants \<Rightarrow> ott_error + Grants" where
  "setObjectGrants [] g = Inr g"
| "setObjectGrants ((role, w) # es) g =
     (case setRoleGrants role (Mask w) g of
          Inl e \<Rightarrow> Inl e
        | Inr g' \<Rightarrow> setObjectGrants es g')"

definition entries :: "Grants \<Rightarrow> (int \<times> GrantMask) list" where
  "entries g = map (\<lambda>(r, m). (role_num r, m)) g"

fun setAllGrants :: "grants_input \<Rightarrow> ott_error + Grants" where
  "setAllGrants (FromGrants g) = setMapGrants (entries g) []"
| "setAllGrants (FromMap m) = setMapGrants m []"
| "setAllGrants (FromArray es) = setMapGrants (js_Map es) []"
| "setAllGrants (FromObject obj) = setObjectGrants obj []"

definition force_all :: "Role \<Rightarrow> Grants \<Rightarrow> ott_error + Grants" where
  "force_all role g = setRoleGrants (role_num role) (Mask (parseIntoGrantMask [''*''])) g"

definition bind_result :: "ott_error + 'a \<Rightarrow> ('a \<Rightarrow> ott_error + 'b) \<Rightarrow> ott_error + 'b" where
  "bind_result r f = (case r of Inl e \<Rightarrow> Inl e | Inr x \<Rightarrow> f x)"

text \<open>The constructor, for given grants and for the defaults.\<close>

definition new_Grants :: "grants_input \<Rightarrow> ott_error + Grants" where
  "new_Grants i =
     bind_result (setAllGrants i) (\<lambda>g. bind_result (force_all Administrator g) (force_all Owner))"

definition default_input :: grants_input where
  "default_input = FromObject
     [(0, parseIntoGrantMask [''playback'', ''manage-queue.add'', ''manage-queue.order'',
            ''manage-queue.vote'', ''manage-queue.play-now'', ''manage-queue.edit'', ''chat'',
            ''configure-room.set-notes'', ''configure-room.set-danmaku-source'']),
      (1, parseIntoGrantMask [''manage-queue.remove'', ''configure-room.set-title'',
            ''configure-room.set-description'', ''configure-room.set-visibility'',
            ''configure-room.set-queue-mode'', ''configure-room.other'']),
      (2, parseIntoGrantMask []),
      (3, parseIntoGrantMask [''manage-users.promote-trusted-user'',
            ''manage-users.demote-trusted-user'', ''manage-users.kick'']),
      (4, parseIntoGrantMask [''*'']),
      (-1, parseIntoGrantMask [''*''])]"

definition defaultPermissions :: "ott_error + Grants" where
  "defaultPermissions = new_Grants default_input"

definition granted :: "Grants \<Rightarrow> Role \<Rightarrow> string \<Rightarrow> bool" where
  "granted g role perm =
     (let checkmask = parseIntoGrantMask [perm] in
      bits (getMask g role) AND checkmask = checkmask)"

text \<open>\<^verbatim>\<open>check\<close> throws where \<^verbatim>\<open>granted\<close> is false.\<close>

definition check :: "Grants \<Rightarrow> Role \<Rightarrow> string \<Rightarrow> ott_error option" where
  "check g role perm = (if granted g role perm then None else Some (PermissionDenied perm))"

definition deleteRole :: "Role \<Rightarrow> Grants \<Rightarrow> Grants" where
  "deleteRole role g = AList.delete role g"

definition filterRoles :: "Role list \<Rightarrow> Grants \<Rightarrow> Grants" where
  "filterRoles roles g =
     foldl (\<lambda>g' role. if role \<in> set roles then g' else deleteRole role g') g (map fst g)"

definition getRoles :: "Grants \<Rightarrow> Role list" where
  "getRoles g = map fst g"

definition isEmpty :: "Grants \<Rightarrow> bool" where
  "isEmpty g \<longleftrightarrow> g = []"

text \<open>
  The stored form is the JSON text of the entries; the text layer is left to JSON and the
  model keeps the entries themselves.
\<close>

definition serialize :: "Grants \<Rightarrow> (int \<times> GrantMask) list" where
  "serialize g = entries g"

definition deserialize :: "(int \<times> GrantMask) list \<Rightarrow> ott_error + Grants" where
  "deserialize value = bind_result (setAllGrants (FromArray value)) (force_all Owner)"

section \<open>Permission revisions\<close>

definition ROOM_PERMISSIONS_REVISION :: int where
  "ROOM_PERMISSIONS_REVISION = 1"

definition PERMISSION_ADDITIONS :: "int \<Rightarrow> string list" where
  "PERMISSION_ADDITIONS revision =
     (if revision = 1 then [''configure-room.set-danmaku-source''] else [])"

fun apply_additions :: "int list \<Rightarrow> Grants \<Rightarrow> ott_error + Grants" where
  "apply_additions [] g = Inr g"
| "apply_additions (revision # rs) g =
     (if PERMISSION_ADDITIONS revision = [] then apply_additions rs g
      else bind_result
        (setRoleGrants (role_num UnregisteredUser)
          (Mask (bits (getMask g UnregisteredUser)
             OR parseIntoGrantMask (PERMISSION_ADDITIONS revision))) g)
        (apply_additions rs))"

definition applyPermissionAdditions :: "Grants \<Rightarrow> int \<Rightarrow> ott_error + Grants" where
  "applyPermissionAdditions g fromRevision =
     apply_additions [fromRevision + 1 .. ROOM_PERMISSIONS_REVISION] g"

section \<open>Kicking and vote-skipping\<close>

definition canKickUser :: "Role \<Rightarrow> Role \<Rightarrow> bool" where
  "canKickUser yourRole targetRole \<longleftrightarrow>
     yourRole = Owner \<or> (targetRole < yourRole \<and> targetRole \<noteq> Owner)"

definition voteSkipThreshold :: "nat \<Rightarrow> nat" where
  "voteSkipThreshold users = nat \<lceil>(of_nat users :: rat) * (1 / 2)\<rceil>"

fun countEligibleVoters :: "Role list \<Rightarrow> Grants \<Rightarrow> nat" where
  "countEligibleVoters [] g = 0"
| "countEligibleVoters (role # rs) g =
     (if granted g role ''playback.skip'' then 1 else 0) + countEligibleVoters rs g"

section \<open>The table\<close>

lemma names_distinct: "distinct (map perm_name PERMISSIONS)"
  by (simp add: PERMISSIONS_def)

lemma permMaskMap_eq: "permMaskMap = map (\<lambda>p. (perm_name p, perm_mask p)) PERMISSIONS"
  unfolding permMaskMap_def
  by (rule js_Map_id) (use names_distinct in \<open>simp add: comp_def\<close>)

lemma parse_single:
  "parseIntoGrantMask [perm] =
     or_all (map perm_mask (filter (\<lambda>p. prefix perm (perm_name p) \<or> perm = ''*'') PERMISSIONS))"
  by (simp add: parseIntoGrantMask_def foldl_or_if permMaskMap_eq filter_map comp_def)

lemma parse_all: "parseIntoGrantMask [''*''] = 536870911"
  by (simp add: parse_single PERMISSIONS_def)

lemma parse_permission_all:
  "list_all (\<lambda>p. parseIntoGrantMask [perm_name p] = perm_mask p) PERMISSIONS"
  by (simp add: parse_single PERMISSIONS_def)

lemmas parse_names = parse_permission_all [unfolded PERMISSIONS_def, simplified]

lemma parse_permission: "p \<in> set PERMISSIONS \<Longrightarrow> parseIntoGrantMask [perm_name p] = perm_mask p"
  using parse_permission_all by (simp add: list_all_iff)

lemma validation_masks:
  "getValidationMask Owner = 536870911"
  "getValidationMask UnregisteredUser = 511705327"
  "getValidationMask RegisteredUser = 515936255"
  "getValidationMask TrustedUser = 535875583"
  "getValidationMask Moderator = 536670207"
  "getValidationMask Administrator = 536870911"
  by (simp_all add: getValidationMask_def PERMISSIONS_def less_eq_Role_def parse_all)

lemma validation_mono: "r \<noteq> Owner \<Longrightarrow> r \<le> s \<Longrightarrow> mask_le (getValidationMask r) (getValidationMask s)"
  by (cases r; cases s) (simp_all add: validation_masks less_eq_Role_def mask_le_def)

lemma validation_le_all: "mask_le (getValidationMask r) 536870911"
  by (cases r) (simp_all add: validation_masks mask_le_def)

section \<open>Well-formed grants\<close>

abbreviation mask_of :: "Grants \<Rightarrow> Role \<Rightarrow> GrantMask" where
  "mask_of g r \<equiv> bits (getMask g r)"

text \<open>
  The invariant of \<^verbatim>\<open>Grants\<close>. Closed grants are monotone in the role (a higher role holds
  what a lower one holds) and hold no bit that is reserved for a higher role. Well-formed
  grants, what the constructor delivers, moreover have one mask for each inheriting role,
  and administrators and owners hold everything.
\<close>

definition closed_grants :: "Grants \<Rightarrow> bool" where
  "closed_grants g \<longleftrightarrow>
     (\<forall>r s. r \<noteq> Owner \<longrightarrow> s \<noteq> Owner \<longrightarrow> r \<le> s \<longrightarrow> mask_le (mask_of g r) (mask_of g s))
     \<and> (\<forall>r. mask_le (mask_of g r) (getValidationMask r))"

definition wf_grants :: "Grants \<Rightarrow> bool" where
  "wf_grants g \<longleftrightarrow>
     distinct (map fst g)
     \<and> set inherited_roles \<subseteq> fst ` set g
     \<and> closed_grants g
     \<and> mask_of g Administrator = 536870911
     \<and> mask_of g Owner = 536870911"

lemma bits_simps [simp]: "bits None = 0" "bits (Some w) = w"
  by (simp_all add: bits_def)

lemma inherited_iff: "r \<in> set inherited_roles \<longleftrightarrow> r \<noteq> Owner"
  by (cases r) (simp_all add: inherited_roles_def)

text \<open>What inheritance computes: each role ends up with its own bits and those below it.\<close>

lemma bit_from:
  "distinct rs \<Longrightarrow>
   bit (mask_of (processInheiritance_from full rs g) r) n \<longleftrightarrow>
     (if r \<in> set rs then bit full n \<or> (\<exists>q\<in>set (takeWhile (\<lambda>x. x \<noteq> r) rs @ [r]). bit (mask_of g q) n)
      else bit (mask_of g r) n)"
proof (induction rs arbitrary: full g)
  case Nil
  then show ?case by simp
next
  case (Cons i rs)
  let ?full = "full OR mask_of g i" and ?g = "AList.update i (full OR mask_of g i) g"
  have same: "q \<noteq> i \<Longrightarrow> mask_of ?g q = mask_of g q" for q
    by (simp add: getMask_def update_conv')
  have at: "mask_of ?g i = ?full" by (simp add: getMask_def update_conv')
  have IH: "bit (mask_of (processInheiritance_from ?full rs ?g) r) n \<longleftrightarrow>
     (if r \<in> set rs then bit ?full n \<or> (\<exists>q\<in>set (takeWhile (\<lambda>x. x \<noteq> r) rs @ [r]). bit (mask_of ?g q) n)
      else bit (mask_of ?g r) n)"
    using Cons.prems by (intro Cons.IH) simp
  show ?case
  proof (cases "r = i")
    case True
    with Cons.prems IH show ?thesis by (simp add: Let_def at bit_or_iff)
  next
    case False
    have "q \<in> set (takeWhile (\<lambda>x. x \<noteq> r) rs @ [r]) \<Longrightarrow> q \<noteq> i" for q
      using Cons.prems False set_takeWhileD [of q "\<lambda>x. x \<noteq> r" rs] by auto
    then have "q \<in> set (takeWhile (\<lambda>x. x \<noteq> r) rs @ [r]) \<Longrightarrow> mask_of ?g q = mask_of g q" for q
      using same by blast
    then have "(\<exists>q\<in>set (takeWhile (\<lambda>x. x \<noteq> r) rs @ [r]). bit (mask_of ?g q) n)
        = (\<exists>q\<in>set (takeWhile (\<lambda>x. x \<noteq> r) rs @ [r]). bit (mask_of g q) n)"
      by auto
    with Cons.prems IH False show ?thesis
      by (auto simp: Let_def same bit_or_iff)
  qed
qed

lemma below_inherited:
  "r \<noteq> Owner \<Longrightarrow> q \<in> set (takeWhile (\<lambda>x. x \<noteq> r) inherited_roles @ [r]) \<longleftrightarrow> q \<noteq> Owner \<and> q \<le> r"
  by (cases r; cases q) (simp_all add: inherited_roles_def less_eq_Role_def)

lemma bit_processInheiritance:
  "bit (mask_of (processInheiritance g) r) n \<longleftrightarrow>
     (if r = Owner then bit (mask_of g Owner) n
      else \<exists>q. q \<noteq> Owner \<and> q \<le> r \<and> bit (mask_of g q) n)"
proof -
  have d: "distinct inherited_roles" by (simp add: inherited_roles_def)
  show ?thesis
  proof (cases "r = Owner")
    case True
    then show ?thesis unfolding processInheiritance_def using bit_from [OF d] inherited_iff by simp
  next
    case False
    have "(\<exists>q\<in>set (takeWhile (\<lambda>x. x \<noteq> r) inherited_roles @ [r]). bit (mask_of g q) n)
        = (\<exists>q. q \<noteq> Owner \<and> q \<le> r \<and> bit (mask_of g q) n)"
      using below_inherited [OF False] by metis
    with False show ?thesis
      unfolding processInheiritance_def bit_from [OF d] by (simp add: inherited_iff)
  qed
qed

lemma keys_from: "fst ` set (processInheiritance_from f rs g) = fst ` set g \<union> set rs"
  by (induction rs arbitrary: f g) (auto simp: Let_def dom_update)

lemma distinct_from: "distinct (map fst g) \<Longrightarrow> distinct (map fst (processInheiritance_from f rs g))"
  by (induction rs arbitrary: f g) (auto simp: Let_def distinct_update)

lemma setRoleGrants_Inr:
  "setRoleGrants (role_num r) p g =
     Inr (processInheiritance (AList.update r (normalizePermissionsInput p AND getValidationMask r) g))"
proof -
  have "isRoleValid (role_num r)" by (cases r) (simp_all add: isRoleValid_def)
  then show ?thesis by (simp add: setRoleGrants_def)
qed

lemma role_of_num_Some: "role_of_num n = Some r \<Longrightarrow> n = role_num r"
  by (auto simp: role_of_num_def split: if_splits)

lemma isRoleValid_iff: "isRoleValid n \<longleftrightarrow> (\<exists>r. n = role_num r)"
proof
  assume "isRoleValid n"
  then have "role_of_num n \<noteq> None" by (auto simp: isRoleValid_def role_of_num_def)
  then show "\<exists>r. n = role_num r" using role_of_num_Some by blast
next
  assume "\<exists>r. n = role_num r"
  then obtain r where "n = role_num r" by blast
  then show "isRoleValid n" by (cases r) (simp_all add: isRoleValid_def)
qed

lemma setRoleGrants_cases:
  "setRoleGrants n p g =
     (if \<exists>r. n = role_num r then setRoleGrants n p g else Inl (InvalidRole n))"
  by (simp add: setRoleGrants_def flip: isRoleValid_iff)

text \<open>One call of \<^verbatim>\<open>setRoleGrants\<close>, read bit by bit.\<close>

lemma bit_setRoleGrants:
  assumes "setRoleGrants (role_num r) p g = Inr g'"
  shows "bit (mask_of g' s) n \<longleftrightarrow>
    (let m = normalizePermissionsInput p AND getValidationMask r in
     if s = Owner then bit (if r = Owner then m else mask_of g Owner) n
     else (r \<noteq> Owner \<and> r \<le> s \<and> bit m n) \<or> (\<exists>q. q \<noteq> Owner \<and> q \<noteq> r \<and> q \<le> s \<and> bit (mask_of g q) n))"
proof -
  have g': "g' = processInheiritance
      (AList.update r (normalizePermissionsInput p AND getValidationMask r) g)"
    using assms by (simp add: setRoleGrants_Inr)
  have upd: "mask_of (AList.update r m g) q = (if q = r then m else mask_of g q)" for q m
    by (simp add: getMask_def update_conv')
  show ?thesis unfolding g' bit_processInheiritance upd Let_def by auto
qed

lemma setRoleGrants_keys:
  assumes "setRoleGrants (role_num r) p g = Inr g'"
  shows "fst ` set g' = insert r (fst ` set g) \<union> set inherited_roles"
proof -
  have g': "g' = processInheiritance_from 0 inherited_roles
      (AList.update r (normalizePermissionsInput p AND getValidationMask r) g)"
    using assms by (simp add: setRoleGrants_Inr processInheiritance_def)
  show ?thesis unfolding g' keys_from dom_update by blast
qed

lemma setRoleGrants_distinct:
  assumes "setRoleGrants (role_num r) p g = Inr g'" and "distinct (map fst g)"
  shows "distinct (map fst g')"
  using assms by (auto simp: setRoleGrants_Inr processInheiritance_def
      intro!: distinct_from distinct_update)

text \<open>Every successful call leaves the masks monotone and inside their limits.\<close>

lemma closed_empty: "closed_grants []"
  by (simp add: closed_grants_def getMask_def)

lemma setRoleGrants_closed:
  assumes "closed_grants g" and eq: "setRoleGrants (role_num r) p g = Inr g'"
  shows "closed_grants g'"
proof -
  let ?m = "normalizePermissionsInput p AND getValidationMask r"
  note b = bit_setRoleGrants [OF eq]
  have mono: "mask_le (mask_of g' q) (mask_of g' s)" if "q \<noteq> Owner" "s \<noteq> Owner" "q \<le> s" for q s
    using that by (auto simp: mask_le_bit b Let_def dest: order_trans)
  have lim: "mask_le (mask_of g q) (getValidationMask s)" if "q \<noteq> Owner" "q \<le> s" for q s
    using assms(1) that validation_mono mask_le_trans unfolding closed_grants_def by blast
  have m: "mask_le ?m (getValidationMask s)" if "r \<noteq> Owner \<and> r \<le> s \<or> s = r" for s
    using that validation_mono mask_le_trans mask_le_and by blast
  have "mask_le (mask_of g' s) (getValidationMask s)" for s
    unfolding mask_le_bit
  proof (intro allI impI)
    fix n
    assume "bit (mask_of g' s) n"
    then consider "s = Owner" "bit (if r = Owner then ?m else mask_of g Owner) n"
      | "r \<noteq> Owner" "r \<le> s" "bit ?m n"
      | q where "q \<noteq> Owner" "q \<le> s" "bit (mask_of g q) n"
      unfolding b Let_def by (auto split: if_splits)
    then show "bit (getValidationMask s) n"
    proof cases
      case 1
      then show ?thesis
        using m [of Owner] assms(1) by (auto simp: closed_grants_def mask_le_bit split: if_splits)
    next
      case 2
      then show ?thesis using m [of s] by (auto simp: mask_le_bit)
    next
      case 3
      then show ?thesis using lim by (auto simp: mask_le_bit)
    qed
  qed
  with mono show ?thesis by (simp add: closed_grants_def)
qed

lemma setRoleGrants_wf:
  assumes wf: "wf_grants g" and eq: "setRoleGrants (role_num r) p g = Inr g'"
    and r: "r \<noteq> Owner" "r \<noteq> Administrator"
  shows "wf_grants g'"
proof -
  have "mask_of g' Administrator = 536870911"
  proof (rule mask_le_antisym)
    have "closed_grants g'" using wf eq by (auto simp: wf_grants_def intro: setRoleGrants_closed)
    then show "mask_le (mask_of g' Administrator) 536870911"
      using validation_le_all mask_le_trans unfolding closed_grants_def by blast
    have "bit (mask_of g' Administrator) n" if "bit (mask_of g Administrator) n" for n
      using that r by (auto simp: bit_setRoleGrants [OF eq] Let_def)
    then show "mask_le 536870911 (mask_of g' Administrator)"
      using wf by (auto simp: mask_le_bit wf_grants_def)
  qed
  moreover have "mask_of g' Owner = mask_of g Owner"
    using r by (intro bit_eqI) (simp add: bit_setRoleGrants [OF eq] Let_def)
  moreover have "distinct (map fst g')" "set inherited_roles \<subseteq> fst ` set g'"
    using setRoleGrants_keys [OF eq] setRoleGrants_distinct [OF eq] wf
    by (auto simp: wf_grants_def)
  ultimately show ?thesis
    using wf setRoleGrants_closed [OF _ eq] by (simp add: wf_grants_def)
qed

text \<open>Loading grants from outside: only the number of a role can be rejected.\<close>

lemma setMapGrants_closed:
  "setMapGrants es g = Inr g' \<Longrightarrow> closed_grants g \<and> distinct (map fst g) \<Longrightarrow>
   closed_grants g' \<and> distinct (map fst g')"
proof (induction es g rule: setMapGrants.induct)
  case (1 g)
  then show ?case by simp
next
  case (2 role w es g)
  show ?case
  proof (cases "w = 0")
    case True
    with 2 show ?thesis by simp
  next
    case False
    with 2(3) obtain h where h: "setRoleGrants role (Mask w) g = Inr h" "setMapGrants es h = Inr g'"
      by (auto split: sum.splits)
    from h(1) obtain r where "role = role_num r"
      by (metis Inl_Inr_False setRoleGrants_cases)
    with h 2 False show ?thesis
      using setRoleGrants_closed setRoleGrants_distinct by metis
  qed
qed

lemma setObjectGrants_closed:
  "setObjectGrants es g = Inr g' \<Longrightarrow> closed_grants g \<and> distinct (map fst g) \<Longrightarrow>
   closed_grants g' \<and> distinct (map fst g')"
proof (induction es g rule: setObjectGrants.induct)
  case (1 g)
  then show ?case by simp
next
  case (2 role w es g)
  then obtain h where h: "setRoleGrants role (Mask w) g = Inr h" "setObjectGrants es h = Inr g'"
    by (auto split: sum.splits)
  from h(1) obtain r where "role = role_num r"
    by (metis Inl_Inr_False setRoleGrants_cases)
  with h 2 show ?case using setRoleGrants_closed setRoleGrants_distinct by metis
qed

lemma setAllGrants_closed:
  "setAllGrants i = Inr g \<Longrightarrow> closed_grants g \<and> distinct (map fst g)"
  by (cases i) (auto simp: closed_empty dest!: setMapGrants_closed setObjectGrants_closed)

lemma force_all_mask:
  assumes "closed_grants g" and eq: "force_all r g = Inr g'" and r: "r = Administrator \<or> r = Owner"
  shows "mask_of g' r = 536870911" and "s = Owner \<Longrightarrow> r \<noteq> Owner \<Longrightarrow> mask_of g' s = mask_of g s"
    and "r = Owner \<Longrightarrow> s \<noteq> Owner \<Longrightarrow> mask_of g' s = mask_of g s"
proof -
  have eq': "setRoleGrants (role_num r) (Mask 536870911) g = Inr g'"
    using eq by (simp add: force_all_def parse_all)
  have full: "getValidationMask r = 536870911" using r validation_masks by auto
  have m: "normalizePermissionsInput (Mask 536870911) AND getValidationMask r = 536870911"
    by (simp add: full)
  show "mask_of g' r = 536870911"
  proof (rule mask_le_antisym)
    show "mask_le (mask_of g' r) 536870911"
      using setRoleGrants_closed [OF assms(1) eq'] full by (metis closed_grants_def)
    show "mask_le 536870911 (mask_of g' r)"
      unfolding mask_le_bit bit_setRoleGrants [OF eq'] m Let_def by auto
  qed
  show "s = Owner \<Longrightarrow> r \<noteq> Owner \<Longrightarrow> mask_of g' s = mask_of g s"
    by (intro bit_eqI) (simp add: bit_setRoleGrants [OF eq'] Let_def)
  show "r = Owner \<Longrightarrow> s \<noteq> Owner \<Longrightarrow> mask_of g' s = mask_of g s"
    using assms(1) by (intro bit_eqI)
      (auto simp: bit_setRoleGrants [OF eq'] Let_def closed_grants_def mask_le_bit)
qed

lemma new_Grants_wf: "new_Grants i = Inr g \<Longrightarrow> wf_grants g"
proof -
  assume "new_Grants i = Inr g"
  then obtain a b where a: "setAllGrants i = Inr a" and b: "force_all Administrator a = Inr b"
    and g: "force_all Owner b = Inr g"
    by (auto simp: new_Grants_def bind_result_def split: sum.splits)
  note ca = setAllGrants_closed [OF a]
  have cb: "closed_grants b" "distinct (map fst b)"
    using ca b setRoleGrants_closed setRoleGrants_distinct unfolding force_all_def by blast+
  have cg: "closed_grants g" "distinct (map fst g)" "set inherited_roles \<subseteq> fst ` set g"
    using cb g setRoleGrants_closed setRoleGrants_distinct setRoleGrants_keys
    unfolding force_all_def by blast+
  have "mask_of g Administrator = 536870911"
    using force_all_mask(1) [OF _ b] force_all_mask(3) [OF cb(1) g] ca by simp
  moreover have "mask_of g Owner = 536870911"
    using force_all_mask(1) [OF cb(1) g] by simp
  ultimately show ?thesis using cg by (simp add: wf_grants_def)
qed

lemma granted_iff: "granted g r perm \<longleftrightarrow> mask_le (parseIntoGrantMask [perm]) (mask_of g r)"
  by (simp add: granted_def mask_le_def Let_def and.commute)

lemma check_None [simp]: "check g r perm = None \<longleftrightarrow> granted g r perm"
  by (simp add: check_def)

lemma check_Some [simp]: "check g r perm = Some e \<longleftrightarrow> \<not> granted g r perm \<and> e = PermissionDenied perm"
  by (auto simp: check_def)

lemma minRole_table:
  "list_all (\<lambda>p. list_all (\<lambda>r. mask_le (perm_mask p) (getValidationMask r) \<longrightarrow>
      r = Owner \<or> perm_minRole p \<le> r) (Owner # inherited_roles)) PERMISSIONS"
  by (simp add: PERMISSIONS_def inherited_roles_def validation_masks mask_le_def less_eq_Role_def)

lemma closed_no_escalation:
  assumes "closed_grants g" and p: "p \<in> set PERMISSIONS" and "granted g r (perm_name p)"
  shows "r = Owner \<or> perm_minRole p \<le> r"
proof -
  have "mask_le (perm_mask p) (mask_of g r)"
    using assms(3) p by (simp add: granted_iff parse_permission)
  then have "mask_le (perm_mask p) (getValidationMask r)"
    using assms(1) by (auto simp: closed_grants_def intro: mask_le_trans)
  moreover have "r \<in> set (Owner # inherited_roles)" using inherited_iff by auto
  ultimately show ?thesis using minRole_table p unfolding list_all_iff by blast
qed

text \<open>
  The grants as a machine: a rejected role number leaves them as they were, since the
  check comes before the assignment.
\<close>

definition grants_step :: "Grants \<Rightarrow> int \<times> perm_input \<Rightarrow> Grants" where
  "grants_step g e = (case setRoleGrants (fst e) (snd e) g of Inl _ \<Rightarrow> g | Inr g' \<Rightarrow> g')"

lemma grants_step_cases:
  obtains "grants_step g e = g"
  | r where "fst e = role_num r" "setRoleGrants (role_num r) (snd e) g = Inr (grants_step g e)"
  by (metis (mono_tags, lifting) grants_step_def setRoleGrants_Inr setRoleGrants_cases
      sum.simps(5,6))

interpretation closed_machine: invariant_machine grants_step closed_grants "\<lambda>_. True"
  by unfold_locales (metis grants_step_cases setRoleGrants_closed)

interpretation wf_machine: invariant_machine grants_step wf_grants
  "\<lambda>e. fst e \<noteq> role_num Owner \<and> fst e \<noteq> role_num Administrator"
  by unfold_locales (metis grants_step_cases setRoleGrants_wf)

section \<open>The stored form\<close>

text \<open>
  After loading the entries \<open>ps\<close>, a role holds exactly the bits of the loaded roles at or
  below it.
\<close>

definition loads :: "(Role \<times> GrantMask) list \<Rightarrow> Grants \<Rightarrow> bool" where
  "loads ps g \<longleftrightarrow>
     (\<forall>s n. s \<noteq> Owner \<longrightarrow> bit (mask_of g s) n =
        (\<exists>(q, w)\<in>set ps. q \<noteq> Owner \<and> q \<le> s \<and> bit (w AND getValidationMask q) n))"

lemma loads_step:
  assumes "loads ps g" and eq: "setRoleGrants (role_num r) (Mask w) g = Inr g'"
    and "r \<notin> fst ` set ps"
  shows "loads (ps @ [(r, w)]) g'"
  unfolding loads_def
proof (intro allI impI)
  fix s n
  assume s: "s \<noteq> Owner"
  have old: "q \<noteq> Owner \<Longrightarrow> bit (mask_of g q) n =
      (\<exists>(p, w)\<in>set ps. p \<noteq> Owner \<and> p \<le> q \<and> bit (w AND getValidationMask p) n)" for q
    using assms(1) by (simp add: loads_def)
  have "(\<exists>q. q \<noteq> Owner \<and> q \<noteq> r \<and> q \<le> s \<and> bit (mask_of g q) n) =
      (\<exists>(p, w)\<in>set ps. p \<noteq> Owner \<and> p \<le> s \<and> bit (w AND getValidationMask p) n)" (is "?L = ?R")
  proof
    assume ?L
    then obtain q where "q \<noteq> Owner" "q \<le> s" "bit (mask_of g q) n" by blast
    with old [of q] show ?R by (fastforce intro: order_trans)
  next
    assume ?R
    then obtain p w where p: "(p, w) \<in> set ps" "p \<noteq> Owner" "p \<le> s"
      "bit (w AND getValidationMask p) n" by blast
    with old [of p] have "bit (mask_of g p) n" by blast
    moreover have "p \<noteq> r" using p assms(3) by force
    ultimately show ?L using p by blast
  qed
  with s show "bit (mask_of g' s) n =
      (\<exists>(q, w)\<in>set (ps @ [(r, w)]). q \<noteq> Owner \<and> q \<le> s \<and> bit (w AND getValidationMask q) n)"
    unfolding bit_setRoleGrants [OF eq] Let_def by auto
qed

lemma loads_skip: "loads ps g \<Longrightarrow> loads (ps @ [(r, 0)]) g"
  by (auto simp: loads_def)

lemma setMapGrants_loads:
  assumes "loads ps g" and "distinct (map fst (ps @ es))"
  shows "\<exists>g'. setMapGrants (entries es) g = Inr g' \<and> loads (ps @ es) g'"
  using assms
proof (induction es arbitrary: ps g)
  case Nil
  then show ?case by (simp add: entries_def)
next
  case (Cons e es)
  obtain r w where e: "e = (r, w)" by force
  show ?case
  proof (cases "w = 0")
    case True
    with Cons.IH [of "ps @ [(r, 0)]" g] Cons.prems e loads_skip show ?thesis
      by (auto simp: entries_def)
  next
    case False
    obtain h where h: "setRoleGrants (role_num r) (Mask w) g = Inr h"
      by (simp add: setRoleGrants_Inr)
    have "loads (ps @ [(r, w)]) h"
      using loads_step [OF Cons.prems(1) h] Cons.prems(2) e by auto
    with Cons.IH [of "ps @ [(r, w)]" h] Cons.prems(2) e h False show ?thesis
      by (auto simp: entries_def)
  qed
qed

lemma loads_wf:
  assumes wf: "wf_grants g" and ld: "loads g h" and s: "s \<noteq> Owner"
  shows "mask_of h s = mask_of g s"
proof (rule bit_eqI)
  fix n
  have mem: "(q, w) \<in> set g \<Longrightarrow> w = mask_of g q" for q w
    using wf by (simp add: wf_grants_def getMask_def)
  have lim: "mask_of g q AND getValidationMask q = mask_of g q" for q
    using wf by (simp add: wf_grants_def closed_grants_def mask_le_def)
  have mono: "q \<noteq> Owner \<Longrightarrow> q \<le> s \<Longrightarrow> bit (mask_of g q) n \<Longrightarrow> bit (mask_of g s) n" for q
    using wf s by (auto simp: wf_grants_def closed_grants_def mask_le_bit)
  have "s \<in> fst ` set g" using wf s inherited_iff by (auto simp: wf_grants_def)
  then have ex: "(s, mask_of g s) \<in> set g" using mem by force
  have "bit (mask_of h s) n =
      (\<exists>(q, w)\<in>set g. q \<noteq> Owner \<and> q \<le> s \<and> bit (w AND getValidationMask q) n)"
    using ld s by (simp add: loads_def)
  also have "\<dots> = bit (mask_of g s) n" (is "?L = ?R")
  proof
    assume ?L
    then obtain q w where q: "(q, w) \<in> set g" "q \<noteq> Owner" "q \<le> s"
      "bit (w AND getValidationMask q) n" by blast
    with mem lim have "bit (mask_of g q) n" by (simp add: bit_and_iff)
    with mono q show ?R by blast
  next
    assume ?R
    with ex s lim show ?L by (intro bexI [OF _ ex]) simp
  qed
  finally show "bit (mask_of h s) n = bit (mask_of g s) n" .
qed

lemma entries_keys: "distinct (map fst g) \<Longrightarrow> distinct (map fst (entries g))"
  by (auto simp: entries_def distinct_map comp_def inj_on_def split_def)

lemma loads_Nil: "loads [] []"
  by (simp add: loads_def getMask_def)

lemma parse_or: "parseIntoGrantMask ps = or_all (map (\<lambda>p. parseIntoGrantMask [p]) ps)"
proof -
  have "foldl (\<lambda>m p. m OR parseIntoGrantMask [p]) acc ps = acc OR or_all (map (\<lambda>p. parseIntoGrantMask [p]) ps)"
    for acc by (induction ps arbitrary: acc) (auto simp: or.assoc)
  moreover have "parseIntoGrantMask ps = foldl (\<lambda>m p. m OR parseIntoGrantMask [p]) 0 ps"
    by (simp add: parseIntoGrantMask_def foldl_or_if)
  ultimately show ?thesis by simp
qed

lemma parse_playback: "parseIntoGrantMask [''playback''] = 8388615"
  by (simp add: parse_single PERMISSIONS_def)

text \<open>The default grants, evaluated.\<close>

lemma default_grants:
  "defaultPermissions =
     Inr [(UnregisteredUser, 511705327), (RegisteredUser, 515903487), (TrustedUser, 515903487),
          (Moderator, 535826431), (Administrator, 536870911), (Owner, 536870911)]"
proof -
  have m0: "parseIntoGrantMask [''playback'', ''manage-queue.add'', ''manage-queue.order'',
      ''manage-queue.vote'', ''manage-queue.play-now'', ''manage-queue.edit'', ''chat'',
      ''configure-room.set-notes'', ''configure-room.set-danmaku-source''] = 511705327"
    by (subst parse_or) (simp add: parse_names parse_playback)
  have m1: "parseIntoGrantMask [''manage-queue.remove'', ''configure-room.set-title'',
      ''configure-room.set-description'', ''configure-room.set-visibility'',
      ''configure-room.set-queue-mode'', ''configure-room.other''] = 4198160"
    by (subst parse_or) (simp add: parse_names)
  have m3: "parseIntoGrantMask [''manage-users.promote-trusted-user'',
      ''manage-users.demote-trusted-user'', ''manage-users.kick''] = 19922944"
    by (subst parse_or) (simp add: parse_names)
  have m2: "parseIntoGrantMask [] = 0" by (simp add: parseIntoGrantMask_def)
  have "default_input = FromObject [(0, 511705327), (1, 4198160), (2, 0), (3, 19922944),
      (4, 536870911), (-1, 536870911)]"
    unfolding default_input_def m0 m1 m2 m3 parse_all ..
  note eval = setRoleGrants_def isRoleValid_def role_of_num_def validation_masks
    processInheiritance_def inherited_roles_def getMask_def
  have s0: "setRoleGrants 0 (Mask 511705327) [] =
    Inr [(UnregisteredUser, 511705327), (RegisteredUser, 511705327), (TrustedUser, 511705327),
      (Moderator, 511705327), (Administrator, 511705327)]"
    by (simp add: eval)
  have s1: "setRoleGrants 1 (Mask 4198160) [(UnregisteredUser, 511705327), (RegisteredUser, 511705327), (TrustedUser, 511705327),
      (Moderator, 511705327), (Administrator, 511705327)] =
    Inr [(UnregisteredUser, 511705327), (RegisteredUser, 515903487), (TrustedUser, 515903487),
      (Moderator, 515903487), (Administrator, 515903487)]"
    by (simp add: eval)
  have s2: "setRoleGrants 2 (Mask 0) [(UnregisteredUser, 511705327), (RegisteredUser, 515903487), (TrustedUser, 515903487),
      (Moderator, 515903487), (Administrator, 515903487)] =
    Inr [(UnregisteredUser, 511705327), (RegisteredUser, 515903487), (TrustedUser, 515903487),
      (Moderator, 515903487), (Administrator, 515903487)]"
    by (simp add: eval)
  have s3: "setRoleGrants 3 (Mask 19922944) [(UnregisteredUser, 511705327), (RegisteredUser, 515903487), (TrustedUser, 515903487),
      (Moderator, 515903487), (Administrator, 515903487)] =
    Inr [(UnregisteredUser, 511705327), (RegisteredUser, 515903487), (TrustedUser, 515903487),
      (Moderator, 535826431), (Administrator, 535826431)]"
    by (simp add: eval)
  have s4: "setRoleGrants 4 (Mask 536870911) [(UnregisteredUser, 511705327), (RegisteredUser, 515903487), (TrustedUser, 515903487),
      (Moderator, 535826431), (Administrator, 535826431)] =
    Inr [(UnregisteredUser, 511705327), (RegisteredUser, 515903487), (TrustedUser, 515903487),
      (Moderator, 535826431), (Administrator, 536870911)]"
    by (simp add: eval)
  have s5: "setRoleGrants (- 1) (Mask 536870911) [(UnregisteredUser, 511705327), (RegisteredUser, 515903487), (TrustedUser, 515903487),
      (Moderator, 535826431), (Administrator, 536870911)] =
    Inr [(UnregisteredUser, 511705327), (RegisteredUser, 515903487), (TrustedUser, 515903487),
      (Moderator, 535826431), (Administrator, 536870911), (Owner, 536870911)]"
    by (simp add: eval)
  have s6: "setRoleGrants 4 (Mask 536870911) [(UnregisteredUser, 511705327), (RegisteredUser, 515903487), (TrustedUser, 515903487),
      (Moderator, 535826431), (Administrator, 536870911), (Owner, 536870911)] =
    Inr [(UnregisteredUser, 511705327), (RegisteredUser, 515903487), (TrustedUser, 515903487),
      (Moderator, 535826431), (Administrator, 536870911), (Owner, 536870911)]"
    by (simp add: eval)
  have s7: "setRoleGrants (- 1) (Mask 536870911) [(UnregisteredUser, 511705327), (RegisteredUser, 515903487), (TrustedUser, 515903487),
      (Moderator, 535826431), (Administrator, 536870911), (Owner, 536870911)] =
    Inr [(UnregisteredUser, 511705327), (RegisteredUser, 515903487), (TrustedUser, 515903487),
      (Moderator, 535826431), (Administrator, 536870911), (Owner, 536870911)]"
    by (simp add: eval)
  show ?thesis
    by (simp add: defaultPermissions_def new_Grants_def bind_result_def force_all_def parse_all
        \<open>default_input = _\<close> s0 s1 s2 s3 s4 s5 s6 s7)
qed

abbreviation default_Grants :: Grants where
  "default_Grants \<equiv>
     [(UnregisteredUser, 511705327), (RegisteredUser, 515903487), (TrustedUser, 515903487),
      (Moderator, 535826431), (Administrator, 536870911), (Owner, 536870911)]"

lemma wf_default: "wf_grants default_Grants"
  using default_grants unfolding defaultPermissions_def by (rule new_Grants_wf)

lemma deserialize_masks:
  assumes wf: "wf_grants g"
  shows "\<exists>h. deserialize (serialize g) = Inr h \<and> (\<forall>r. getMask h r = getMask g r)"
proof -
  have d: "distinct (map fst g)" using wf by (simp add: wf_grants_def)
  then have "js_Map (serialize g) = entries g"
    by (simp add: serialize_def entries_keys js_Map_id)
  then obtain h where h: "setAllGrants (FromArray (serialize g)) = Inr h" and ld: "loads g h"
    using setMapGrants_loads [OF loads_Nil, of g] d by auto
  note ch = setAllGrants_closed [OF h]
  obtain k where k: "force_all Owner h = Inr k"
    unfolding force_all_def using setRoleGrants_Inr by blast
  have masks: "mask_of k r = mask_of g r" for r
  proof (cases "r = Owner")
    case True
    then show ?thesis using force_all_mask(1) [OF _ k] ch wf by (simp add: wf_grants_def)
  next
    case False
    then show ?thesis using force_all_mask(3) [OF _ k] ch loads_wf [OF wf ld] by simp
  qed
  have keys: "fst ` set k = UNIV"
    using setRoleGrants_keys [OF k [unfolded force_all_def]] inherited_iff by auto
  have "Owner \<in> fst ` set g"
    using wf by (force simp: wf_grants_def getMask_def bits_def split: option.splits dest: map_of_SomeD)
  then have "fst ` set g = UNIV" using wf inherited_iff unfolding wf_grants_def by blast
  with keys have "map_of k r \<noteq> None \<and> map_of g r \<noteq> None" for r
    unfolding map_of_eq_None_iff by blast
  then have ex: "\<exists>v w. map_of k r = Some v \<and> map_of g r = Some w" for r by fast
  have "getMask k r = getMask g r" for r
    using masks [of r] ex [of r] by (auto simp: getMask_def)
  with h k show ?thesis by (auto simp: deserialize_def bind_result_def)
qed

lemma apply_current: "applyPermissionAdditions g 1 = Inr g"
  by (simp add: applyPermissionAdditions_def ROOM_PERMISSIONS_REVISION_def)

lemma applyPermissionAdditions_0:
  "applyPermissionAdditions g 0 =
     setRoleGrants (role_num UnregisteredUser)
       (Mask (mask_of g UnregisteredUser OR parseIntoGrantMask [''configure-room.set-danmaku-source''])) g"
proof -
  have "[0 + 1..1] = [1::int]" by simp
  then show ?thesis
    by (simp add: applyPermissionAdditions_def ROOM_PERMISSIONS_REVISION_def PERMISSION_ADDITIONS_def
        bind_result_def split: sum.split)
qed

lemma additions_old:
  assumes wf: "wf_grants g"
  obtains h where "applyPermissionAdditions g 0 = Inr h" "wf_grants h"
    "\<And>r. granted h r ''configure-room.set-danmaku-source''"
    "\<And>r perm. granted g r perm \<Longrightarrow> granted h r perm"
proof -
  let ?d = "parseIntoGrantMask [''configure-room.set-danmaku-source'']"
  obtain h where h: "applyPermissionAdditions g 0 = Inr h"
    unfolding applyPermissionAdditions_0 using setRoleGrants_Inr by blast
  note eq = h [unfolded applyPermissionAdditions_0]
  have wfh: "wf_grants h" using setRoleGrants_wf [OF wf eq] by simp
  have v: "mask_le ?d (getValidationMask UnregisteredUser)"
    by (simp add: parse_names validation_masks mask_le_def)
  have base: "mask_le (mask_of g UnregisteredUser) (getValidationMask UnregisteredUser)"
    using wf by (simp add: wf_grants_def closed_grants_def)
  have new: "mask_le ?d (mask_of h r)" for r
  proof (cases "r = Owner")
    case True
    then show ?thesis using wfh by (simp add: wf_grants_def parse_names mask_le_def)
  next
    case False
    moreover have "UnregisteredUser \<le> r" using False by (cases r) (simp_all add: less_eq_Role_def)
    ultimately show ?thesis
      using v by (auto simp: mask_le_bit bit_setRoleGrants [OF eq] Let_def bit_and_iff bit_or_iff)
  qed
  have kept: "mask_le (mask_of g r) (mask_of h r)" for r
    using base by (auto simp: mask_le_bit bit_setRoleGrants [OF eq] Let_def bit_and_iff bit_or_iff)
  show thesis
    using that [OF h wfh] new kept mask_le_trans by (simp add: granted_iff) blast
qed

lemma voteSkipThreshold_half: "voteSkipThreshold n = (n + 1) div 2"
proof -
  have "\<lceil>(of_nat n :: rat) * (1 / 2)\<rceil> = int ((n + 1) div 2)"
  proof (rule ceiling_unique)
    have n: "n = 2 * (n div 2) + n mod 2" by simp
    show "of_int (int ((n + 1) div 2)) - 1 < (of_nat n :: rat) * (1 / 2)"
      and "(of_nat n :: rat) * (1 / 2) \<le> of_int (int ((n + 1) div 2))"
      by (cases "even n"; auto elim!: evenE oddE)+
  qed
  then show ?thesis by (simp add: voteSkipThreshold_def)
qed

text \<open>
  A name outside the table selects no bit, and the empty mask is contained in every mask:
  such a check succeeds for every role.
\<close>

lemma unknown_permission_granted:
  assumes "\<forall>p\<in>set PERMISSIONS. \<not> prefix perm (perm_name p)" and "perm \<noteq> ''*''"
  shows "granted g r perm"
proof -
  have "filter (\<lambda>p. prefix perm (perm_name p) \<or> perm = ''*'') PERMISSIONS = []"
    using assms by (simp add: filter_empty_conv)
  then show ?thesis unfolding granted_iff parse_single by simp
qed

lemma parse_le_all: "mask_le (parseIntoGrantMask [perm]) 536870911"
proof -
  have "list_all (\<lambda>p. mask_le (perm_mask p) 536870911) PERMISSIONS"
    by (simp add: PERMISSIONS_def mask_le_def)
  then show ?thesis unfolding parse_single mask_le_bit by (auto simp: bit_or_all list_all_iff)
qed

section \<open>Properties\<close>

text \<open>Every permission name in the table denotes exactly its own bit: it is a prefix of no
  other permission's name, and different permissions have disjoint masks.\<close>

lemma permission_names_exact:
  assumes "p \<in> set PERMISSIONS" and "q \<in> set PERMISSIONS"
  shows "parseIntoGrantMask [perm_name p] = perm_mask p
    \<and> (perm_mask p AND perm_mask q = 0 \<or> p = q)"
proof -
  have "list_all (\<lambda>p. list_all (\<lambda>q. perm_mask p AND perm_mask q = 0 \<or> perm_mask p = perm_mask q)
      PERMISSIONS) PERMISSIONS" and "distinct (map perm_mask PERMISSIONS)"
    by (simp_all add: PERMISSIONS_def)
  then show ?thesis
    using assms parse_permission unfolding list_all_iff distinct_map inj_on_def by metis
qed

text \<open>C40. No sequence of grant changes, from whatever grants a room is loaded with, gives a
  role a permission that the table reserves for a higher role; only the owner is exempt.\<close>

theorem grants_no_escalation:
  assumes "new_Grants i = Inr g" and "p \<in> set PERMISSIONS"
    and "granted (foldl grants_step g es) r (perm_name p)"
  shows "r = Owner \<or> perm_minRole p \<le> r"
proof -
  have "closed_grants g" using new_Grants_wf [OF assms(1)] by (simp add: wf_grants_def)
  then have "closed_grants (foldl grants_step g es)"
    by (rule closed_machine.run_inv) (simp add: list_all_iff)
  then show ?thesis using assms(2,3) by (rule closed_no_escalation)
qed

theorem grants_no_escalation_witness:
  "Moderator = Owner \<or> perm_minRole (permission ''manage-users.kick'' 24 TrustedUser) \<le> Moderator"
proof (rule grants_no_escalation [where i = default_input and es = "[]"])
  show "new_Grants default_input = Inr default_Grants"
    using default_grants by (simp add: defaultPermissions_def)
  show "permission ''manage-users.kick'' 24 TrustedUser \<in> set PERMISSIONS"
    by (simp add: PERMISSIONS_def)
  show "granted (foldl grants_step default_Grants []) Moderator
      (perm_name (permission ''manage-users.kick'' 24 TrustedUser))"
    by (simp add: granted_def getMask_def parse_names)
qed

text \<open>After any sequence of grant changes to roles below administrator, whatever a role is
  granted the higher roles are granted too, and administrators and the owner are granted
  everything.\<close>

lemma grants_inherit:
  assumes "new_Grants i = Inr g"
    and "list_all (\<lambda>e. fst e \<noteq> role_num Owner \<and> fst e \<noteq> role_num Administrator) es"
  shows "(r \<noteq> Owner \<and> r \<le> s \<and> granted (foldl grants_step g es) r perm
       \<longrightarrow> granted (foldl grants_step g es) s perm)
    \<and> (s = Owner \<or> s = Administrator \<longrightarrow> granted (foldl grants_step g es) s perm)"
proof -
  let ?h = "foldl grants_step g es"
  have wf: "wf_grants ?h"
    using new_Grants_wf [OF assms(1)] assms(2) by (rule wf_machine.run_inv)
  have "granted ?h s perm" if "s = Owner \<or> s = Administrator"
    using that wf parse_le_all by (auto simp: granted_iff wf_grants_def)
  moreover have "granted ?h s perm" if "r \<noteq> Owner" "r \<le> s" "granted ?h r perm"
  proof -
    have "s \<noteq> Owner" using that(1,2) by (cases r; cases s) (auto simp: less_eq_Role_def)
    then have "mask_le (mask_of ?h r) (mask_of ?h s)"
      using that wf by (simp add: wf_grants_def closed_grants_def)
    with that(3) show ?thesis unfolding granted_iff by (rule mask_le_trans)
  qed
  ultimately show ?thesis by blast
qed

text \<open>Well-formed grants survive being stored: serializing and deserializing them gives
  every role the same mask.\<close>

lemma grants_roundtrip:
  assumes "wf_grants g"
  shows "\<exists>h. deserialize (serialize g) = Inr h \<and> (\<forall>r. getMask h r = getMask g r)"
  using assms by (rule deserialize_masks)

text \<open>Loading a room whose stored grants predate the danmaku permission grants it to every
  role, takes nothing away, and keeps the grants well formed; grants of the current
  revision are left exactly as they are, so a later restriction sticks.\<close>

lemma permission_revision_migrates:
  assumes "wf_grants g"
  shows "applyPermissionAdditions g ROOM_PERMISSIONS_REVISION = Inr g
    \<and> (\<exists>h. applyPermissionAdditions g 0 = Inr h \<and> wf_grants h
         \<and> (\<forall>r. granted h r ''configure-room.set-danmaku-source'')
         \<and> (\<forall>r perm. granted g r perm \<longrightarrow> granted h r perm))"
proof -
  obtain h where "applyPermissionAdditions g 0 = Inr h" "wf_grants h"
    "\<And>r. granted h r ''configure-room.set-danmaku-source''"
    "\<And>r perm. granted g r perm \<Longrightarrow> granted h r perm"
    using assms by (rule additions_old) blast
  then show ?thesis using apply_current by (auto simp: ROOM_PERMISSIONS_REVISION_def)
qed

end
