(* ===== verification/Models.thy ===== *)
theory Models
  imports Permissions
begin

text \<open>
  The shared data model: \<^verbatim>\<open>common/constants.ts\<close>, \<^verbatim>\<open>common/models/types.ts\<close>,
  \<^verbatim>\<open>common/models/video.ts\<close>, \<^verbatim>\<open>common/models/messages.ts\<close> and \<^verbatim>\<open>common/timestamp.ts\<close>. Field
  names carry a short prefix where the source's name would clash with another record or
  with a constant of HOL; optional properties are \<open>option\<close>s.

  Requests are taken with the types their TypeScript declarations give them, except for the
  numeric fields the handlers check themselves (a seek position, a speed, queue indices, a
  role, a note id), which are wire values.
\<close>

section \<open>Constants\<close>

definition TEMPORARY_PLAYBACK_SPEED :: rat where "TEMPORARY_PLAYBACK_SPEED = 2"
definition TEMPORARY_PLAYBACK_SPEED_LEASE_MS :: int where
  "TEMPORARY_PLAYBACK_SPEED_LEASE_MS = 5000"
definition BUFFER_GATE_MAX_WAIT_MS :: int where "BUFFER_GATE_MAX_WAIT_MS = 15000"
definition BUFFER_GATE_START_GRACE_MS :: int where "BUFFER_GATE_START_GRACE_MS = 2000"
definition BUFFER_GATE_COOLDOWN_MS :: int where "BUFFER_GATE_COOLDOWN_MS = 30000"
definition PLAYBACK_READY_WAIT_MS :: int where "PLAYBACK_READY_WAIT_MS = 8000"
definition PLAYBACK_HARD_FALLBACK_MS :: int where "PLAYBACK_HARD_FALLBACK_MS = 20000"
definition PLAYBACK_START_LEAD_MS :: int where "PLAYBACK_START_LEAD_MS = 1000"
definition PLAYBACK_READY_BUFFER_DIRECT_SECONDS :: rat where
  "PLAYBACK_READY_BUFFER_DIRECT_SECONDS = 3"
definition PLAYBACK_READY_BUFFER_STREAM_SECONDS :: rat where
  "PLAYBACK_READY_BUFFER_STREAM_SECONDS = 6"

definition playbackReadyBufferSeconds :: "string \<Rightarrow> rat" where
  "playbackReadyBufferSeconds service =
     (if service = ''hls'' \<or> service = ''dash'' then PLAYBACK_READY_BUFFER_STREAM_SECONDS
      else PLAYBACK_READY_BUFFER_DIRECT_SECONDS)"

definition ALL_VIDEO_SERVICES :: "string list" where
  "ALL_VIDEO_SERVICES =
     [''youtube'', ''vimeo'', ''direct'', ''hls'', ''dash'', ''tubi'', ''reddit'', ''googledrive'',
      ''peertube'', ''pluto'', ''invidious'', ''odysee'', ''bilibili'']"

definition MAX_NOTES_PER_ROOM :: nat where "MAX_NOTES_PER_ROOM = 200"
definition MAX_NOTE_LENGTH :: nat where "MAX_NOTE_LENGTH = 1000"
definition MAX_CHAT_MESSAGE_LENGTH :: nat where "MAX_CHAT_MESSAGE_LENGTH = 300"
definition MAX_QUEUE_ITEMS :: nat where "MAX_QUEUE_ITEMS = 200"
definition MAX_VIDEO_ID_LENGTH :: nat where "MAX_VIDEO_ID_LENGTH = 2048"
definition MAX_SEEK_SECONDS :: rat where "MAX_SEEK_SECONDS = 86400"

definition ALL_SKIP_CATEGORIES :: "string list" where
  "ALL_SKIP_CATEGORIES =
     [''sponsor'', ''intro'', ''outro'', ''interaction'', ''selfpromo'', ''music_offtopic'', ''preview'']"

section \<open>The position of the playback head\<close>

definition calculateCurrentPosition :: "int \<Rightarrow> int \<Rightarrow> rat \<Rightarrow> rat \<Rightarrow> rat" where
  "calculateCurrentPosition start_time now_time offset playbackSpeed =
     offset + (of_int (now_time - start_time) / 1000) * playbackSpeed"

lemma position_same_time [simp]: "calculateCurrentPosition t t off sp = off"
  by (simp add: calculateCurrentPosition_def)

text \<open>Splitting an interval at any reading of the clock adds up.\<close>

lemma position_split:
  "calculateCurrentPosition a c off sp =
     calculateCurrentPosition b c (calculateCurrentPosition a b off sp) sp"
  by (simp add: calculateCurrentPosition_def field_simps)

lemma position_offset:
  "calculateCurrentPosition a b off sp = off + calculateCurrentPosition a b 0 sp"
  by (simp add: calculateCurrentPosition_def)

section \<open>Types\<close>

type_synonym ClientId = string
type_synonym AuthToken = string

datatype Visibility = Public | Unlisted | Private
datatype QueueMode = Manual | Vote | Loop | Dj
datatype BehaviorOption = Always | Prompt | Never
datatype BufferGateMode = GateOff | GatePause
datatype PlayerStatus = StatusNone | StatusReady | StatusBuffering | StatusError

text \<open>
  The health snapshot of a viewer is only logged; of its fields the room uses the two time
  stamps.
\<close>

record PlaybackDiagnostics =
  sampledAt :: rat
  receivedAt :: "int option"

record ClientInfo =
  ci_id :: ClientId
  ci_username :: "string option"
  ci_user_id :: "int option"
  ci_status :: "PlayerStatus option"
  ci_diagnostics :: "PlaybackDiagnostics option"

datatype RoomDanmakuProvider = DanmuApi | Girigiri

record RoomDanmakuSource =
  dm_videoUrl :: string
  dm_provider :: RoomDanmakuProvider
  dm_label :: string
  dm_page :: "string option"
  dm_episodeId :: "string option"
  dm_offset :: rat

record RoomUserInfo =
  ui_id :: ClientId
  ui_name :: string
  ui_isLoggedIn :: bool
  ui_status :: PlayerStatus
  ui_role :: Role

record UserAccount =
  user_id :: int
  username :: string
  user_email :: "string option"
  user_salt :: "string option"
  user_hash :: "string option"
  user_discordId :: "string option"

section \<open>Videos\<close>

text \<open>A video is identified by its service and its id within the service.\<close>

type_synonym VideoId = "string \<times> string"

record MediaAccess =
  referrerPolicy :: "string option"
  requiresOriginReferer :: "bool option"
  containerMismatch :: "bool option"

record QueueItem =
  v_service :: string
  v_id :: string
  v_title :: "string option"
  v_description :: "string option"
  v_length :: "js_number option"
  v_isLive :: "bool option"
  v_thumbnail :: "string option"
  v_mime :: "string option"
  v_width :: "nat option"
  v_height :: "nat option"
  v_cors :: "bool option"
  v_mediaAccess :: "MediaAccess option"
  v_highlight :: bool
  v_hls_url :: "string option"
  v_dash_url :: "string option"
  v_src_url :: "string option"
  v_subtitleUrl :: "string option"
  v_startAt :: "rat option"
  v_endAt :: "js_number option"

abbreviation video_id :: "QueueItem \<Rightarrow> VideoId" where
  "video_id v \<equiv> (v_service v, v_id v)"

text \<open>A video about which nothing but its identity is known.\<close>

definition bare_video :: "string \<Rightarrow> string \<Rightarrow> QueueItem" where
  "bare_video service vid =
     \<lparr>v_service = service, v_id = vid, v_title = None, v_description = None, v_length = None,
      v_isLive = None, v_thumbnail = None, v_mime = None, v_width = None, v_height = None,
      v_cors = None, v_mediaAccess = None, v_highlight = False, v_hls_url = None,
      v_dash_url = None, v_src_url = None, v_subtitleUrl = None, v_startAt = None,
      v_endAt = None\<rparr>"

text \<open>\<^verbatim>\<open>Partial<QueueItemExtras>\<close>: the outer option is whether the key is present.\<close>

record QueueItemExtras =
  x_startAt :: "rat option option"
  x_endAt :: "js_number option option"
  x_subtitleUrl :: "string option option"

record VideoAdd =
  va_video :: VideoId
  va_startAt :: "rat option"
  va_endAt :: "js_number option"
  va_subtitleUrl :: "string option"

text \<open>A SponsorBlock segment of the current video.\<close>

record Segment =
  seg_startTime :: rat
  seg_endTime :: rat
  seg_category :: string

section \<open>Playback preparation\<close>

datatype Fallback = FallbackPartial | FallbackNone | FallbackForced

record PlaybackReadyInfo =
  rd_clientId :: ClientId
  rd_firstFrame :: bool
  rd_bufferAhead :: "rat option"
  rd_at :: int

record PlaybackPreparation =
  pp_id :: string
  pp_clientId :: ClientId
  pp_video :: VideoId
  pp_position :: rat
  pp_eligible :: "ClientId list"
  pp_ready :: "PlaybackReadyInfo list"
  pp_deadlineAt :: int
  pp_hardDeadlineAt :: int
  pp_startAt :: "int option"
  pp_fallback :: "Fallback option"

record PlaybackPrepared =
  pd_id :: string
  pd_position :: js_number
  pd_bufferAhead :: "rat option"
  pd_firstFrame :: "bool option"
  pd_visible :: "bool option"
  pd_failed :: "bool option"

record TemporaryPlaybackSpeed =
  ts_clientId :: ClientId
  ts_gestureId :: string
  ts_speed :: rat
  ts_previousSpeed :: rat

section \<open>Requests and events\<close>

record RoomRequestAuthorization =
  au_token :: AuthToken
  au_clientId :: "ClientId option"

record RoomRequestContext =
  cx_username :: string
  cx_role :: Role
  cx_clientId :: "ClientId option"
  cx_auth :: "RoomRequestAuthorization option"

record RoomEventContext =
  ev_video :: "QueueItem option"
  ev_videos :: "QueueItem list option"
  ev_prevPosition :: "rat option"
  ev_queueIdx :: "nat option"
  ev_user :: "RoomUserInfo option"

definition no_context :: RoomEventContext where
  "no_context = \<lparr>ev_video = None, ev_videos = None, ev_prevPosition = None, ev_queueIdx = None,
     ev_user = None\<rparr>"

text \<open>\<^verbatim>\<open>Partial<RoomSettings>\<close>; \<^verbatim>\<open>danmakuSource: null\<close> clears the track.\<close>

record RoomSettings =
  st_title :: "string option"
  st_description :: "string option"
  st_visibility :: "Visibility option"
  st_queueMode :: "QueueMode option"
  st_grants :: "Grants option"
  st_autoSkipSegmentCategories :: "string list option"
  st_restoreQueueBehavior :: "BehaviorOption option"
  st_enableVoteSkip :: "bool option"
  st_bufferGateMode :: "BufferGateMode option"
  st_danmakuSource :: "RoomDanmakuSource option option"

datatype GestureAction = GestureStart | GestureRenew | GestureStop | GestureOther

datatype RoomRequest =
    JoinRequest ClientInfo bool
  | LeaveRequest
  | PlaybackRequest bool
  | SkipRequest
  | SeekRequest js_value
  | AddRequest (add_video: "VideoAdd option") (add_videos: "VideoAdd list option")
      (add_url: "string option")
  | RemoveRequest VideoId
  | OrderRequest js_value js_value
  | VoteRequest VideoId bool
  | PromoteRequest ClientId js_value
  | UpdateUser ClientInfo "PlaybackPrepared option"
  | ChatRequest js_value
  | UndoRequest ServerMessageEvent
  | ApplySettingsRequest RoomSettings
  | PlayNowRequest VideoAdd
  | ShuffleRequest
  | PlaybackSpeedRequest js_number
  | RestoreQueueRequest bool
  | KickRequest ClientId
  | UpdateQueueItemRequest VideoId "string option option"
  | TemporaryPlaybackSpeedRequest GestureAction string "VideoId option"
  | AddNoteRequest js_value
  | DeleteNoteRequest js_value
and ServerMessageEvent =
  Event (event_request: RoomRequest) (event_user: RoomUserInfo) (event_additional: RoomEventContext)

end
