(* ===== verification/VideoQueue.thy ===== *)
theory VideoQueue
  imports Models
begin

text \<open>
  \<^verbatim>\<open>server/videoqueue.ts\<close> and \<^verbatim>\<open>server/util/dirtyable.ts\<close>: the orderable queue of a room.
  Every operation checks its arguments before it touches the items, so a thrown error leaves
  the queue as it was and the model returns either the error or the new queue. The mutex
  that serializes the operations is what makes each of them one step here. The sorting and
  shuffling of \<^verbatim>\<open>lodash\<close> are parameters; what the queue relies on is stated as
  \<open>stable_desc\<close> and \<open>permuting\<close>.

  Shown: the cap of 200 items, that moving, sorting and shuffling lose nothing, that
  inserting an evicted item back undoes the eviction, that a full queue keeps looping, and
  that a vote order is stable.
\<close>

section \<open>State and operations\<close>

record VideoQueue =
  items :: "QueueItem list"
  q_dirty :: bool

definition markDirty_queue :: "VideoQueue \<Rightarrow> VideoQueue" where
  "markDirty_queue q = q\<lparr>q_dirty := True\<rparr>"

definition clean :: "VideoQueue \<Rightarrow> VideoQueue" where
  "clean q = q\<lparr>q_dirty := False\<rparr>"

definition new_VideoQueue :: "QueueItem list \<Rightarrow> VideoQueue" where
  "new_VideoQueue xs = \<lparr>items = xs, q_dirty = False\<rparr>"

definition queue_length :: "VideoQueue \<Rightarrow> nat" where
  "queue_length q = length (items q)"

definition set_items :: "QueueItem list \<Rightarrow> VideoQueue \<Rightarrow> VideoQueue" where
  "set_items xs q = markDirty_queue (q\<lparr>items := xs\<rparr>)"

definition enqueue :: "QueueItem list \<Rightarrow> VideoQueue \<Rightarrow> ott_error + VideoQueue" where
  "enqueue videos q =
     (if videos = [] then Inr q
      else if length (items q) + length videos > MAX_QUEUE_ITEMS then Inl (BadApiArgument ''queue'')
      else Inr (set_items (items q @ videos) q))"

text \<open>\<^verbatim>\<open>Array.shift\<close> on an empty array gives \<^verbatim>\<open>undefined\<close>.\<close>

definition dequeue :: "VideoQueue \<Rightarrow> QueueItem option \<times> VideoQueue" where
  "dequeue q =
     (case items q of
        [] \<Rightarrow> (None, markDirty_queue q)
      | x # xs \<Rightarrow> (Some x, set_items xs q))"

definition enqueueOverflow :: "QueueItem list \<Rightarrow> VideoQueue \<Rightarrow> VideoQueue" where
  "enqueueOverflow videos q = (if videos = [] then q else set_items (items q @ videos) q)"

definition pushTop :: "QueueItem list \<Rightarrow> VideoQueue \<Rightarrow> ott_error + VideoQueue" where
  "pushTop videos q =
     (if videos = [] then Inr q
      else if length (items q) + length videos > MAX_QUEUE_ITEMS then Inl (BadApiArgument ''queue'')
      else Inr (set_items (videos @ items q) q))"

definition insert_at :: "QueueItem \<Rightarrow> int \<Rightarrow> VideoQueue \<Rightarrow> ott_error + VideoQueue" where
  "insert_at video index q =
     (if index < 0 \<or> int (length (items q)) < index then Inl (GenericError ''Index out of bounds'')
      else if length (items q) + 1 > MAX_QUEUE_ITEMS then Inl (BadApiArgument ''queue'')
      else Inr (set_items (take (nat index) (items q) @ [video] @ drop (nat index) (items q)) q))"

definition move :: "int \<Rightarrow> int \<Rightarrow> VideoQueue \<Rightarrow> ott_error + VideoQueue" where
  "move fromIdx toIdx q =
     (if fromIdx = toIdx then Inr q
      else if fromIdx < 0 \<or> int (length (items q)) \<le> fromIdx
        then Inl (GenericError '''fromIdx' out of bounds'')
      else if toIdx < 0 \<or> int (length (items q)) \<le> toIdx
        then Inl (GenericError '''toIdx' out of bounds'')
      else
        (let item = items q ! nat fromIdx in
         Inr (set_items (splice_in (nat toIdx) item (splice_out (nat fromIdx) (items q))) q)))"

fun findIndex_from :: "nat \<Rightarrow> VideoId \<Rightarrow> QueueItem list \<Rightarrow> nat option" where
  "findIndex_from n video [] = None"
| "findIndex_from n video (x # xs) =
     (if v_service x = fst video \<and> v_id x = snd video then Some n
      else findIndex_from (Suc n) video xs)"

definition findIndex :: "VideoId \<Rightarrow> VideoQueue \<Rightarrow> nat option" where
  "findIndex video q = findIndex_from 0 video (items q)"

definition contains :: "VideoId \<Rightarrow> VideoQueue \<Rightarrow> bool" where
  "contains video q \<longleftrightarrow> findIndex video q \<noteq> None"

definition evict :: "VideoId \<Rightarrow> VideoQueue \<Rightarrow> ott_error + (nat \<times> QueueItem \<times> VideoQueue)" where
  "evict video q =
     (case findIndex video q of
        None \<Rightarrow> Inl VideoNotFound
      | Some i \<Rightarrow> Inr (i, items q ! i, set_items (splice_out i (items q)) q))"

definition assign_extras :: "QueueItemExtras \<Rightarrow> QueueItem \<Rightarrow> QueueItem" where
  "assign_extras patch v =
     v\<lparr>v_startAt := (case x_startAt patch of None \<Rightarrow> v_startAt v | Some s \<Rightarrow> s),
       v_endAt := (case x_endAt patch of None \<Rightarrow> v_endAt v | Some s \<Rightarrow> s),
       v_subtitleUrl := (case x_subtitleUrl patch of None \<Rightarrow> v_subtitleUrl v | Some s \<Rightarrow> s)\<rparr>"

definition update :: "VideoId \<Rightarrow> QueueItemExtras \<Rightarrow> VideoQueue \<Rightarrow> ott_error + VideoQueue" where
  "update video patch q =
     (case findIndex video q of
        None \<Rightarrow> Inl VideoNotFound
      | Some i \<Rightarrow> Inr (set_items ((items q)[i := assign_extras patch (items q ! i)]) q))"

text \<open>The queue is only marked dirty when sorting changed the order.\<close>

definition orderBy :: "(QueueItem list \<Rightarrow> QueueItem list) \<Rightarrow> VideoQueue \<Rightarrow> VideoQueue" where
  "orderBy sort_fn q =
     (let sorted_items = sort_fn (items q); q' = q\<lparr>items := sorted_items\<rparr> in
      if sorted_items \<noteq> [] \<and> sorted_items \<noteq> items q then markDirty_queue q' else q')"

definition shuffle :: "(QueueItem list \<Rightarrow> QueueItem list) \<Rightarrow> VideoQueue \<Rightarrow> VideoQueue" where
  "shuffle shuffle_fn q = set_items (shuffle_fn (items q)) q"

section \<open>What the queue relies on of lodash\<close>

definition permuting :: "('a list \<Rightarrow> 'a list) \<Rightarrow> bool" where
  "permuting f \<longleftrightarrow> (\<forall>xs. mset (f xs) = mset xs)"

text \<open>
  \<^verbatim>\<open>_.orderBy(xs, [key], ["desc"])\<close>: a stable sort by falling keys. \<open>f key\<close> is the sort.
\<close>

definition stable_desc :: "(('a \<Rightarrow> nat) \<Rightarrow> 'a list \<Rightarrow> 'a list) \<Rightarrow> bool" where
  "stable_desc f \<longleftrightarrow>
     (\<forall>key xs. mset (f key xs) = mset xs
        \<and> sorted_wrt (\<lambda>x y. key y \<le> key x) (f key xs)
        \<and> (\<forall>k. filter (\<lambda>x. key x = k) (f key xs) = filter (\<lambda>x. key x = k) xs))"

definition sort_desc :: "('a \<Rightarrow> nat) \<Rightarrow> 'a list \<Rightarrow> 'a list" where
  "sort_desc key xs = sort_key (\<lambda>x. - int (key x)) xs"

section \<open>Lemmas\<close>

lemmas queue_defs = set_items_def markDirty_queue_def enqueue_def dequeue_def enqueueOverflow_def
  pushTop_def insert_at_def move_def evict_def update_def orderBy_def shuffle_def

lemma items_set_items [simp]: "items (set_items xs q) = xs"
  by (simp add: set_items_def markDirty_queue_def)

lemma set_items_dirty [simp]: "q_dirty (set_items xs q)"
  by (simp add: set_items_def markDirty_queue_def)

lemma findIndex_from_Some:
  "findIndex_from n video xs = Some i \<Longrightarrow>
     n \<le> i \<and> i - n < length xs \<and> video_id (xs ! (i - n)) = video
     \<and> (\<forall>j < i - n. video_id (xs ! j) \<noteq> video)"
proof (induction n video xs rule: findIndex_from.induct)
  case (1 n video)
  then show ?case by simp
next
  case (2 n video x xs)
  show ?case
  proof (cases "v_service x = fst video \<and> v_id x = snd video")
    case True
    with 2(2) show ?thesis by (auto simp: prod_eq_iff)
  next
    case False
    with 2 have IH: "Suc n \<le> i \<and> i - Suc n < length xs \<and> video_id (xs ! (i - Suc n)) = video
       \<and> (\<forall>j < i - Suc n. video_id (xs ! j) \<noteq> video)" by simp
    then have "i - n = Suc (i - Suc n)" by linarith
    with IH False show ?thesis by (auto simp: less_Suc_eq_0_disj)
  qed
qed

lemma findIndex_from_None: "findIndex_from n video xs = None \<longleftrightarrow> video \<notin> video_id ` set xs"
  by (induction n video xs rule: findIndex_from.induct) (auto simp: prod_eq_iff)

lemma findIndex_Some:
  assumes "findIndex video q = Some i"
  shows "i < length (items q)" and "video_id (items q ! i) = video"
    and "j < i \<Longrightarrow> video_id (items q ! j) \<noteq> video"
  using findIndex_from_Some [of 0 video "items q" i] assms by (auto simp: findIndex_def)

lemma contains_iff: "contains video q \<longleftrightarrow> video \<in> video_id ` set (items q)"
  by (simp add: contains_def findIndex_def findIndex_from_None)

lemma evict_Inr:
  assumes "evict video q = Inr (i, v, q')"
  shows "i < length (items q)" "v = items q ! i" "video_id v = video"
    "items q' = splice_out i (items q)" "j < i \<Longrightarrow> video_id (items q ! j) \<noteq> video"
  using assms findIndex_Some [of video q] by (auto simp: evict_def split: option.splits)

lemma evict_contains: "contains video q \<longleftrightarrow> (\<exists>i v q'. evict video q = Inr (i, v, q'))"
  by (auto simp: evict_def contains_def split: option.splits)

lemma sort_desc_stable: "stable_desc sort_desc"
  unfolding stable_desc_def sort_desc_def
proof (intro allI conjI)
  fix key :: "'a \<Rightarrow> nat" and xs k
  show "mset (sort_key (\<lambda>x. - int (key x)) xs) = mset xs" by simp
  have "sorted (map (\<lambda>x. - int (key x)) (sort_key (\<lambda>x. - int (key x)) xs))" by simp
  then show "sorted_wrt (\<lambda>x y. key y \<le> key x) (sort_key (\<lambda>x. - int (key x)) xs)"
    by (simp add: sorted_map)
  have "filter (\<lambda>x. - int (key x) = - int k) (sort_key (\<lambda>x. - int (key x)) xs)
      = filter (\<lambda>x. - int (key x) = - int k) xs" by (rule sort_key_stable)
  then show "filter (\<lambda>x. key x = k) (sort_key (\<lambda>x. - int (key x)) xs) = filter (\<lambda>x. key x = k) xs"
    by simp
qed

text \<open>The operations a client request reaches, as events of one machine.\<close>

datatype queue_event =
    Enqueue "QueueItem list" | Dequeue | PushTop "QueueItem list" | InsertAt QueueItem int
  | Move int int | Evict VideoId | Update VideoId QueueItemExtras
  | OrderBy "QueueItem list \<Rightarrow> QueueItem list" | Shuffle "QueueItem list \<Rightarrow> QueueItem list"

definition keep_on_error :: "VideoQueue \<Rightarrow> ott_error + VideoQueue \<Rightarrow> VideoQueue" where
  "keep_on_error q r = (case r of Inl _ \<Rightarrow> q | Inr q' \<Rightarrow> q')"

fun queue_step :: "VideoQueue \<Rightarrow> queue_event \<Rightarrow> VideoQueue" where
  "queue_step q (Enqueue vs) = keep_on_error q (enqueue vs q)"
| "queue_step q Dequeue = snd (dequeue q)"
| "queue_step q (PushTop vs) = keep_on_error q (pushTop vs q)"
| "queue_step q (InsertAt v i) = keep_on_error q (insert_at v i q)"
| "queue_step q (Move i j) = keep_on_error q (move i j q)"
| "queue_step q (Evict v) = (case evict v q of Inl _ \<Rightarrow> q | Inr (_, _, q') \<Rightarrow> q')"
| "queue_step q (Update v p) = keep_on_error q (update v p q)"
| "queue_step q (OrderBy f) = orderBy f q"
| "queue_step q (Shuffle f) = shuffle f q"

fun queue_event_ok :: "queue_event \<Rightarrow> bool" where
  "queue_event_ok (OrderBy f) = permuting f"
| "queue_event_ok (Shuffle f) = permuting f"
| "queue_event_ok _ = True"

definition within_cap :: "VideoQueue \<Rightarrow> bool" where
  "within_cap q \<longleftrightarrow> length (items q) \<le> MAX_QUEUE_ITEMS"

lemma permuting_length: "permuting f \<Longrightarrow> length (f xs) = length xs"
  by (metis permuting_def size_mset)

lemma queue_step_cap: "within_cap q \<Longrightarrow> queue_event_ok e \<Longrightarrow> within_cap (queue_step q e)"
  by (cases e)
    (auto simp: within_cap_def keep_on_error_def queue_defs Let_def permuting_length
      dest: findIndex_Some split: if_splits list.splits option.splits)

interpretation queue_machine: invariant_machine queue_step within_cap queue_event_ok
  by unfold_locales (rule queue_step_cap)

section \<open>Properties\<close>

text \<open>The head of a stable descending sort is the first element with the largest key.\<close>

lemma stable_desc_head:
  assumes f: "stable_desc f" and "xs \<noteq> []"
  shows "f key xs \<noteq> []"
    and "\<forall>y\<in>set xs. key y \<le> key (hd (f key xs))"
    and "hd (f key xs) = hd (filter (\<lambda>x. key x = key (hd (f key xs))) xs)"
proof -
  have m: "mset (f key xs) = mset xs" and s: "sorted_wrt (\<lambda>x y. key y \<le> key x) (f key xs)"
    and st: "filter (\<lambda>x. key x = k) (f key xs) = filter (\<lambda>x. key x = k) xs" for k
    using f by (simp_all add: stable_desc_def)
  show ne: "f key xs \<noteq> []" using m assms(2) by (metis mset_zero_iff)
  then obtain z zs where z: "f key xs = z # zs" by (cases "f key xs") auto
  have "set (f key xs) = set xs" using m by (metis set_mset_mset)
  then show "\<forall>y\<in>set xs. key y \<le> key (hd (f key xs))" using s z by auto
  have "hd (filter (\<lambda>x. key x = key z) (f key xs)) = z" using z by simp
  then show "hd (f key xs) = hd (filter (\<lambda>x. key x = key (hd (f key xs))) xs)"
    using st [of "key z"] z by (metis list.sel(1))
qed

text \<open>Looping: a full queue takes the playing item back because it gives up its first.\<close>

lemma dequeue_overflow:
  assumes "items q \<noteq> []"
  shows "\<exists>q'. dequeue (enqueueOverflow [v] q) = (Some (hd (items q)), q')
    \<and> items q' = tl (items q) @ [v]"
  using assms by (cases "items q") (auto simp: dequeue_def enqueueOverflow_def)

text \<open>Whatever requests reach the queue, in whatever order, it never holds more than
  \<^verbatim>\<open>MAX_QUEUE_ITEMS\<close> videos.\<close>

lemma queue_never_exceeds_cap:
  assumes "length (items q) \<le> MAX_QUEUE_ITEMS" and "list_all queue_event_ok es"
  shows "length (items (foldl queue_step q es)) \<le> MAX_QUEUE_ITEMS"
  using queue_machine.run_inv [of q es] assms by (simp add: within_cap_def)

text \<open>Moving an item puts it at the wanted index and leaves the other items in their
  order; nothing is lost or duplicated, and indices inside the queue are never rejected.\<close>

lemma queue_move_places_item:
  assumes "0 \<le> f" "f < int (length (items q))" "0 \<le> t" "t < int (length (items q))"
  shows "\<exists>q'. move f t q = Inr q' \<and> items q' ! nat t = items q ! nat f
    \<and> splice_out (nat t) (items q') = splice_out (nat f) (items q)
    \<and> mset (items q') = mset (items q)"
proof (cases "f = t")
  case True
  then show ?thesis by (simp add: move_def)
next
  case False
  have f: "nat f < length (items q)" and t: "nat t \<le> length (splice_out (nat f) (items q))"
    using assms by (auto simp: nat_less_iff)
  then show ?thesis
    using False assms by (simp add: move_def Let_def nth_splice_in splice_out_splice_in mset_splice_out)
qed

text \<open>Evicting a video removes its first occurrence, and inserting the removed item at the
  reported index restores the queue exactly; this is what undoing a removal relies on.\<close>

lemma evict_then_insert_restores:
  assumes "evict video q = Inr (i, v, q')" and "length (items q) \<le> MAX_QUEUE_ITEMS"
  shows "video_id v = video \<and> (\<forall>j<i. video_id (items q ! j) \<noteq> video)
    \<and> (\<exists>q''. insert_at v (int i) q' = Inr q'' \<and> items q'' = items q)"
proof -
  note ev = evict_Inr [OF assms(1)]
  have len: "length (items q') = length (items q) - 1" using ev(1,4) by simp
  have "insert_at v (int i) q' = Inr (set_items (splice_in i v (items q')) q')"
    using ev(1) len assms(2) by (auto simp: insert_at_def splice_in_def)
  moreover have "splice_in i v (items q') = items q"
    unfolding ev(2,4) by (rule splice_out_in) (rule ev(1))
  ultimately show ?thesis using ev(3,5) by simp
qed

end
