(* ===== verification/RoomState.thy ===== *)
theory RoomState
  imports VideoQueue
begin

text \<open>
  The state of \<^verbatim>\<open>class Room\<close> in \<^verbatim>\<open>server/room.ts\<close>, its accessors, the clock of the playback
  head, roles, user lookups and the publishing of events.

  A method becomes a function from the room to the room. What the method reads from outside
  (the clock, the session store, the user table, the media extractor, DNS, random ids, the
  configuration, lodash) is a field of the record \<open>env\<close>. Messages a method publishes are
  appended to \<open>outbox\<close> and commands to the client manager to \<open>commands\<close>. Timers are the
  instants at which they fire, and their bodies are operations of their own. Metrics and log
  lines are left out. The rows of the note table that belong to the room are \<open>db_notes\<close>.
\<close>

section \<open>State\<close>

record RoomUser =
  ru_id :: ClientId
  ru_token :: AuthToken
  ru_user_id :: "int option"
  ru_unregisteredUsername :: string
  ru_user :: "UserAccount option"
  ru_playerStatus :: PlayerStatus
  ru_diagnostics :: "PlaybackDiagnostics option"

record BufferGate =
  bg_startedAt :: int
  bg_waitingOn :: "ClientId list"
  bg_pausedByGate :: bool

record PendingLeave =
  pl_firesAt :: int
  pl_context :: RoomRequestContext
  pl_user :: RoomUserInfo

record RoomNote =
  nt_id :: int
  nt_authorName :: string
  nt_authorId :: ClientId
  nt_text :: string

text \<open>The properties that are synchronized to clients, \<^verbatim>\<open>keyof RoomStateSyncable\<close>.\<close>

datatype sync_prop =
    Pname | Ptitle | Pdescription | PisTemporary | Pvisibility | PqueueMode | PcurrentSource
  | Pqueue | PisPlaying | PplaybackPosition | PplaybackSpeed | PtemporaryPlaybackSpeed
  | PplaybackPreparation | Pgrants | PhasOwner | PhasPassword | PvoteCounts | PvideoSegments
  | PautoSkipSegmentCategories | PprevQueue | PrestoreQueueBehavior | PenableVoteSkip
  | PbufferGateMode | PdanmakuSource | PvotesToSkip

datatype sync_value =
    VString string | VBool bool | VNumber rat | VVisibility Visibility | VQueueMode QueueMode
  | VSource "QueueItem option" | VItems "QueueItem list" | VPrevQueue "QueueItem list option"
  | VTemporary "(ClientId \<times> string \<times> rat) option" | VPreparation "PlaybackPreparation option"
  | VGrants "(int \<times> GrantMask) list" | VCounts "(string \<times> nat) list" | VSegments "Segment list"
  | VCategories "string list" | VBehavior BehaviorOption | VGateMode BufferGateMode
  | VDanmaku "RoomDanmakuSource option" | VClients "ClientId list"

datatype ServerMessage =
    MsgSync "(sync_prop \<times> sync_value) list"
  | MsgEvent ServerMessageEvent
  | MsgEventCustom string
  | MsgUser RoomUserInfo
  | MsgChat RoomUserInfo string
  | MsgNotes "RoomNote list" nat nat

datatype ClientManagerCommand = KickCommand ClientId

record Room =
  room_name :: string
  room_title :: string
  room_description :: string
  visibility :: Visibility
  queueMode :: QueueMode
  isTemporary :: bool
  owner :: "UserAccount option"
  grants :: Grants
  userRoles :: "(Role \<times> int list) list"
  autoSkipSegmentCategories :: "string list"
  restoreQueueBehavior :: BehaviorOption
  enableVoteSkip :: bool
  bufferGateMode :: BufferGateMode
  danmakuSource :: "RoomDanmakuSource option"
  bufferGateExhausted :: "ClientId list"
  pendingLeaveEvents :: "(AuthToken \<times> PendingLeave) list"
  passwordHash :: "string option"
  permissionsRevision :: int
  bufferGate :: "BufferGate option"
  lastPlayAt :: "int option"
  bufferGateCooldownUntil :: "int option"
  restoredFromStorage :: bool
  currentSource :: "QueueItem option"
  queue :: VideoQueue
  prevQueue :: "QueueItem list option"
  isPlaying :: bool
  playbackPosition :: rat
  playbackSpeed :: rat
  temporarySpeed :: "TemporaryPlaybackSpeed option"
  temporarySpeedTimer :: "int option"
  playbackStartTimer :: "int option"
  playbackPreparation :: "PlaybackPreparation option"
  resumeOnNextJoin :: bool
  realusers :: "RoomUser list"
  votes :: "(string \<times> ClientId list) list"
  videoSegments :: "Segment list"
  votesToSkip :: "ClientId list"
  dirty :: "sync_prop list"
  recentEvents :: "ServerMessageEvent list"
  playbackStart :: "int option"
  keepAlivePing :: int
  wantSponsorBlock :: bool
  dontSkipSegmentsUntil :: "rat option"
  db_notes :: "RoomNote list"
  outbox :: "ServerMessage list"
  commands :: "ClientManagerCommand list"

text \<open>What the methods take from outside the room.\<close>

datatype SessionInfo = SessionAnonymous string | SessionUser int

record URL =
  url_protocol :: string
  url_hostname :: string
  url_username :: string
  url_password :: string
  url_pathname :: string

record env =
  now :: int
  e_randomUUID :: string
  e_getUserCachedById :: "int \<Rightarrow> ott_error + UserAccount"
  e_getUser :: "int \<Rightarrow> ott_error + UserAccount"
  e_getSessionInfo :: "AuthToken \<Rightarrow> ott_error + SessionInfo"
  e_sponsorblock_enabled :: bool
  e_unload_after :: rat
  e_fetchSegments :: "string \<Rightarrow> Segment list option"
  e_orderBy :: "(QueueItem \<Rightarrow> nat) \<Rightarrow> QueueItem list \<Rightarrow> QueueItem list"
  e_shuffle :: "QueueItem list \<Rightarrow> QueueItem list"
  e_videoIdForUrl :: "string \<Rightarrow> ott_error + VideoId"
  e_getVideoInfo :: "VideoId \<Rightarrow> ott_error + QueueItem"
  e_getManyVideoInfo :: "VideoAdd list \<Rightarrow> ott_error + QueueItem list"
  e_parseURL :: "string \<Rightarrow> URL option"
  e_assertPublicMediaUrl :: "string \<Rightarrow> bool"
  e_nextNoteId :: int
  e_persist_ok :: bool

type_synonym outcome = "(ott_error, Room) thrown"

section \<open>Dirty marks and plain accessors\<close>

definition markDirty :: "sync_prop \<Rightarrow> Room \<Rightarrow> Room" where
  "markDirty p r = r\<lparr>dirty := js_add p (dirty r)\<rparr>"

definition cleanDirty :: "Room \<Rightarrow> Room" where
  "cleanDirty r = r\<lparr>dirty := [], queue := clean (queue r)\<rparr>"

definition publish :: "ServerMessage \<Rightarrow> Room \<Rightarrow> Room" where
  "publish msg r = r\<lparr>outbox := outbox r @ [msg]\<rparr>"

definition command :: "ClientManagerCommand \<Rightarrow> Room \<Rightarrow> Room" where
  "command cmd r = r\<lparr>commands := commands r @ [cmd]\<rparr>"

text \<open>The queue tells the room when it was changed (\<^verbatim>\<open>queue.onDirty\<close>).\<close>

definition changed_queue :: "VideoQueue \<Rightarrow> Room \<Rightarrow> Room" where
  "changed_queue q r = markDirty Pqueue (r\<lparr>queue := q\<rparr>)"

definition hasPassword :: "Room \<Rightarrow> bool" where
  "hasPassword r = truthy_str (passwordHash r)"

definition setPasswordHash :: "string option \<Rightarrow> Room \<Rightarrow> Room" where
  "setPasswordHash hash r = markDirty PhasPassword (r\<lparr>passwordHash := hash\<rparr>)"

definition set_title :: "string \<Rightarrow> Room \<Rightarrow> Room" where
  "set_title v r = markDirty Ptitle (r\<lparr>room_title := v\<rparr>)"

definition set_description :: "string \<Rightarrow> Room \<Rightarrow> Room" where
  "set_description v r = markDirty Pdescription (r\<lparr>room_description := v\<rparr>)"

definition set_visibility :: "Visibility \<Rightarrow> Room \<Rightarrow> Room" where
  "set_visibility v r = markDirty Pvisibility (r\<lparr>visibility := v\<rparr>)"

definition set_queueMode :: "QueueMode \<Rightarrow> Room \<Rightarrow> Room" where
  "set_queueMode v r = markDirty PqueueMode (r\<lparr>queueMode := v\<rparr>)"

definition set_autoSkipSegmentCategories :: "string list \<Rightarrow> Room \<Rightarrow> Room" where
  "set_autoSkipSegmentCategories v r =
     markDirty PautoSkipSegmentCategories (r\<lparr>autoSkipSegmentCategories := v\<rparr>)"

definition set_playbackPosition :: "rat \<Rightarrow> Room \<Rightarrow> Room" where
  "set_playbackPosition v r = markDirty PplaybackPosition (r\<lparr>playbackPosition := v\<rparr>)"

definition set_playbackSpeed :: "rat \<Rightarrow> Room \<Rightarrow> Room" where
  "set_playbackSpeed v r = markDirty PplaybackSpeed (r\<lparr>playbackSpeed := v\<rparr>)"

definition set_owner :: "UserAccount option \<Rightarrow> Room \<Rightarrow> Room" where
  "set_owner v r = markDirty PhasOwner (r\<lparr>owner := v\<rparr>)"

definition set_videoSegments :: "Segment list \<Rightarrow> Room \<Rightarrow> Room" where
  "set_videoSegments v r = markDirty PvideoSegments (r\<lparr>videoSegments := v\<rparr>)"

definition set_prevQueue :: "QueueItem list option \<Rightarrow> Room \<Rightarrow> Room" where
  "set_prevQueue v r =
     (if v = None \<and> prevQueue r = None then r
      else markDirty PprevQueue (r\<lparr>prevQueue := v\<rparr>))"

definition set_enableVoteSkip :: "bool \<Rightarrow> Room \<Rightarrow> Room" where
  "set_enableVoteSkip v r = markDirty PenableVoteSkip (r\<lparr>enableVoteSkip := v\<rparr>)"

definition set_bufferGateMode :: "BufferGateMode \<Rightarrow> Room \<Rightarrow> Room" where
  "set_bufferGateMode v r = markDirty PbufferGateMode (r\<lparr>bufferGateMode := v\<rparr>)"

definition set_danmakuSource :: "RoomDanmakuSource option \<Rightarrow> Room \<Rightarrow> Room" where
  "set_danmakuSource v r = markDirty PdanmakuSource (r\<lparr>danmakuSource := v\<rparr>)"

definition temporaryPlaybackSpeed :: "Room \<Rightarrow> (ClientId \<times> string \<times> rat) option" where
  "temporaryPlaybackSpeed r =
     map_option (\<lambda>s. (ts_clientId s, ts_gestureId s, ts_speed s)) (temporarySpeed r)"

definition bufferingGateHeld :: "Room \<Rightarrow> bool" where
  "bufferingGateHeld r = (case bufferGate r of None \<Rightarrow> False | Some g \<Rightarrow> bg_pausedByGate g)"

definition hasOwner :: "Room \<Rightarrow> bool" where
  "hasOwner r \<longleftrightarrow> owner r \<noteq> None"

definition voteCounts :: "Room \<Rightarrow> (string \<times> nat) list" where
  "voteCounts r = map (\<lambda>(vid, cs). (vid, length cs)) (votes r)"

text \<open>The key of a video in the vote map: \<^verbatim>\<open>service + id\<close>.\<close>

definition vote_key :: "VideoId \<Rightarrow> string" where
  "vote_key v = fst v @ snd v"

section \<open>The clock\<close>

definition calcDurationFromPlaybackStart :: "int \<Rightarrow> Room \<Rightarrow> rat" where
  "calcDurationFromPlaybackStart t r =
     (case playbackStart r of
        None \<Rightarrow> 0
      | Some start \<Rightarrow> calculateCurrentPosition start t 0 (playbackSpeed r))"

definition realPlaybackPosition :: "int \<Rightarrow> Room \<Rightarrow> rat" where
  "realPlaybackPosition t r =
     (if playbackStart r \<noteq> None \<and> isPlaying r
      then playbackPosition r + calcDurationFromPlaybackStart t r
      else playbackPosition r)"

definition flushPlaybackPosition :: "int \<Rightarrow> Room \<Rightarrow> Room" where
  "flushPlaybackPosition t r =
     (set_playbackPosition (realPlaybackPosition t r) r)\<lparr>playbackStart := Some t\<rparr>"

fun getSegment_in :: "rat \<Rightarrow> Segment list \<Rightarrow> Segment option" where
  "getSegment_in time [] = None"
| "getSegment_in time (s # ss) =
     (if seg_startTime s \<le> time \<and> time \<le> seg_endTime s then Some s else getSegment_in time ss)"

definition getSegmentForTime :: "rat \<Rightarrow> Room \<Rightarrow> Segment option" where
  "getSegmentForTime time r = getSegment_in time (videoSegments r)"

section \<open>Users and roles\<close>

definition isLoggedIn :: "RoomUser \<Rightarrow> bool" where
  "isLoggedIn u = truthy_num (ru_user_id u)"

definition ru_username :: "RoomUser \<Rightarrow> string" where
  "ru_username u =
     (case ru_user u of
        Some acc \<Rightarrow> (if isLoggedIn u then username acc else ru_unregisteredUsername u)
      | None \<Rightarrow> ru_unregisteredUsername u)"

definition new_RoomUser :: "ClientId \<Rightarrow> AuthToken \<Rightarrow> RoomUser" where
  "new_RoomUser cid token =
     \<lparr>ru_id = cid, ru_token = token, ru_user_id = None, ru_unregisteredUsername = [],
      ru_user = None, ru_playerStatus = StatusNone, ru_diagnostics = None\<rparr>"

text \<open>The lookup of the account may fail after the id was already stored.\<close>

definition updateInfo :: "env \<Rightarrow> ClientInfo \<Rightarrow> RoomUser \<Rightarrow> (ott_error, RoomUser) thrown" where
  "updateInfo e info u =
     seq (if truthy_num (ci_user_id info) then
            (let u1 = u\<lparr>ru_user_id := ci_user_id info\<rparr> in
             case e_getUserCachedById e (the (ci_user_id info)) of
               Inl err \<Rightarrow> (Some err, u1)
             | Inr acc \<Rightarrow> (None, u1\<lparr>ru_user := Some acc\<rparr>))
          else if truthy_str (ci_username info) then
            (None, u\<lparr>ru_unregisteredUsername := the (ci_username info), ru_user_id := None,
                     ru_user := None\<rparr>)
          else (None, u))
       (\<lambda>u2.
          let u3 = (case ci_status info of None \<Rightarrow> u2 | Some s \<Rightarrow> u2\<lparr>ru_playerStatus := s\<rparr>) in
          (None, case ci_diagnostics info of
             None \<Rightarrow> u3
           | Some d \<Rightarrow> u3\<lparr>ru_diagnostics := Some (d\<lparr>receivedAt := Some (now e)\<rparr>)\<rparr>))"

definition isOwner :: "Room \<Rightarrow> RoomUser \<Rightarrow> bool" where
  "isOwner r u =
     (case (ru_user u, owner r) of
        (Some acc, Some own) \<Rightarrow> user_id acc = user_id own
      | _ \<Rightarrow> False)"

fun role_in :: "(Role \<times> int list) list \<Rightarrow> int \<Rightarrow> Role list \<Rightarrow> Role option" where
  "role_in roles uid [] = None"
| "role_in roles uid (i # is) =
     (if (case map_of roles i of None \<Rightarrow> False | Some s \<Rightarrow> uid \<in> set s) then Some i
      else role_in roles uid is)"

definition promotable_desc :: "Role list" where
  "promotable_desc = [Administrator, Moderator, TrustedUser]"

definition getRole :: "Room \<Rightarrow> RoomUser option \<Rightarrow> Role" where
  "getRole r user =
     (case user of
        None \<Rightarrow> UnregisteredUser
      | Some u \<Rightarrow>
          if isOwner r u then Owner
          else (case (case ru_user u of
                        None \<Rightarrow> None
                      | Some acc \<Rightarrow> role_in (userRoles r) (user_id acc) promotable_desc) of
              Some i \<Rightarrow> i
            | None \<Rightarrow> if isLoggedIn u then RegisteredUser else UnregisteredUser))"

abbreviation role_of :: "Room \<Rightarrow> RoomUser \<Rightarrow> Role" where
  "role_of r u \<equiv> getRole r (Some u)"

definition getRoleFromSession :: "Room \<Rightarrow> SessionInfo \<Rightarrow> Role" where
  "getRoleFromSession r session =
     (case session of
        SessionAnonymous _ \<Rightarrow> UnregisteredUser
      | SessionUser uid \<Rightarrow>
          if (case owner r of None \<Rightarrow> False | Some own \<Rightarrow> user_id own = uid) then Owner
          else (case role_in (userRoles r) uid promotable_desc of
              Some i \<Rightarrow> i
            | None \<Rightarrow> RegisteredUser))"

definition user_info :: "Room \<Rightarrow> RoomUser \<Rightarrow> RoomUserInfo" where
  "user_info r u =
     \<lparr>ui_id = ru_id u, ui_name = ru_username u, ui_isLoggedIn = isLoggedIn u,
      ui_status = ru_playerStatus u, ui_role = role_of r u\<rparr>"

definition users :: "Room \<Rightarrow> RoomUserInfo list" where
  "users r = map (user_info r) (realusers r)"

definition getUser :: "Room \<Rightarrow> ClientId \<Rightarrow> RoomUser option" where
  "getUser r cid = List.find (\<lambda>u. ru_id u = cid) (realusers r)"

definition getUserFromToken :: "Room \<Rightarrow> AuthToken \<Rightarrow> RoomUser option" where
  "getUserFromToken r token = List.find (\<lambda>u. ru_token u = token) (realusers r)"

definition getUserInfo :: "Room \<Rightarrow> ClientId \<Rightarrow> ott_error + RoomUserInfo" where
  "getUserInfo r cid =
     (case List.find (\<lambda>i. ui_id i = cid) (users r) of
        None \<Rightarrow> Inl (GenericError ''Client not found'')
      | Some i \<Rightarrow> Inr i)"

definition getClientIdFromToken :: "Room \<Rightarrow> AuthToken \<Rightarrow> ott_error + ClientId" where
  "getClientIdFromToken r token =
     (case getUserFromToken r token of
        None \<Rightarrow> Inl (ClientNotFoundInRoom (room_name r))
      | Some u \<Rightarrow> Inr (ru_id u))"

definition getGrantsForUser :: "Room \<Rightarrow> ClientId \<Rightarrow> GrantMask" where
  "getGrantsForUser r cid =
     (case getUser r cid of
        None \<Rightarrow> 0
      | Some u \<Rightarrow> bits (getMask (grants r) (role_of r u)))"

text \<open>Whether a user currently holds a permission.\<close>

abbreviation user_granted :: "Room \<Rightarrow> RoomUser \<Rightarrow> string \<Rightarrow> bool" where
  "user_granted r u perm \<equiv> granted (grants r) (role_of r u) perm"

definition deriveRequestContext ::
    "env \<Rightarrow> Room \<Rightarrow> RoomRequestAuthorization \<Rightarrow> ott_error + RoomRequestContext" where
  "deriveRequestContext e r au =
     (case (if truthy_str (au_clientId au) then getUser r (the (au_clientId au)) else None) of
        Some u \<Rightarrow>
          Inr \<lparr>cx_username = ru_username u, cx_role = role_of r u, cx_clientId = au_clientId au,
               cx_auth = Some au\<rparr>
      | None \<Rightarrow>
          bind_result (e_getSessionInfo e (au_token au)) (\<lambda>session.
          bind_result
            (case session of
               SessionUser uid \<Rightarrow> bind_result (e_getUser e uid) (\<lambda>acc. Inr (username acc))
             | SessionAnonymous name \<Rightarrow> Inr name) (\<lambda>name.
          Inr \<lparr>cx_username = name, cx_role = getRoleFromSession r session,
               cx_clientId = au_clientId au, cx_auth = Some au\<rparr>)))"

section \<open>Publishing\<close>

definition RECENT_EVENTS_LIMIT :: nat where "RECENT_EVENTS_LIMIT = 20"
definition LEAVE_EVENT_GRACE_MS :: int where "LEAVE_EVENT_GRACE_MS = 5000"

definition record_event :: "ServerMessageEvent \<Rightarrow> Room \<Rightarrow> Room" where
  "record_event msg r =
     (let es = recentEvents r @ [msg] in
      r\<lparr>recentEvents := (if length es > RECENT_EVENTS_LIMIT then tl es else es)\<rparr>)"

definition publishRoomEvent ::
    "RoomRequest \<Rightarrow> RoomRequestContext \<Rightarrow> RoomEventContext \<Rightarrow> RoomUserInfo option \<Rightarrow> Room \<Rightarrow> Room" where
  "publishRoomEvent request context additional knownUser r =
     (case cx_clientId context of
        None \<Rightarrow> r
      | Some cid \<Rightarrow>
          (case (case knownUser of
                   Some u \<Rightarrow> Some u
                 | None \<Rightarrow> (case getUserInfo r cid of Inl _ \<Rightarrow> None | Inr u \<Rightarrow> Some u)) of
             None \<Rightarrow> r
           | Some u \<Rightarrow>
               (let msg = Event request u additional in
                publish (MsgEvent msg) (record_event msg r))))"

definition syncUser :: "RoomUserInfo \<Rightarrow> Room \<Rightarrow> Room" where
  "syncUser info r = publish (MsgUser info) r"

end
