(* ===== verification/RoomPlayback.thy ===== *)
theory RoomPlayback
  imports RoomState
begin

text \<open>
  The playback engine of \<^verbatim>\<open>server/room.ts\<close>: the temporary speed of a held gesture, starting
  and pausing the clock, the buffer gate, the preparation round that holds a new source until
  its viewers have a first frame, and the dequeueing of the next video. \<open>t\<close> is the reading
  of the clock during the call.
\<close>

section \<open>Temporary speed\<close>

definition endTemporaryPlaybackSpeed :: "int \<Rightarrow> bool \<Rightarrow> Room \<Rightarrow> Room" where
  "endTemporaryPlaybackSpeed t restore r =
     (let r1 = r\<lparr>temporarySpeedTimer := None\<rparr> in
      case temporarySpeed r1 of
        None \<Rightarrow> r1
      | Some previous \<Rightarrow>
          (let r2 = r1\<lparr>temporarySpeed := None\<rparr>;
               r3 = (if restore
                     then set_playbackSpeed (ts_previousSpeed previous) (flushPlaybackPosition t r2)
                     else r2)
           in markDirty PtemporaryPlaybackSpeed r3))"

definition renewTemporaryPlaybackSpeed :: "int \<Rightarrow> Room \<Rightarrow> Room" where
  "renewTemporaryPlaybackSpeed t r =
     r\<lparr>temporarySpeedTimer := Some (t + TEMPORARY_PLAYBACK_SPEED_LEASE_MS)\<rparr>"

section \<open>Preparation: cancelling and the guarded accessors\<close>

definition clearPlaybackStartTimer :: "Room \<Rightarrow> Room" where
  "clearPlaybackStartTimer r = r\<lparr>playbackStartTimer := None\<rparr>"

definition cancelPlaybackPreparation :: "Room \<Rightarrow> Room" where
  "cancelPlaybackPreparation r =
     (let r1 = clearPlaybackStartTimer r;
          r2 = (if playbackPreparation r1 \<noteq> None
                then markDirty PplaybackPreparation (r1\<lparr>playbackPreparation := None\<rparr>)
                else r1)
      in if resumeOnNextJoin r2 then markDirty PisPlaying (r2\<lparr>resumeOnNextJoin := False\<rparr>) else r2)"

definition set_currentSource :: "int \<Rightarrow> QueueItem option \<Rightarrow> Room \<Rightarrow> Room" where
  "set_currentSource t v r =
     (let r1 = r\<lparr>bufferGate := None, bufferGateExhausted := [], lastPlayAt := Some t\<rparr>;
          r2 = cancelPlaybackPreparation (endTemporaryPlaybackSpeed t True r1)
      in markDirty PcurrentSource (r2\<lparr>currentSource := v\<rparr>))"

definition set_isPlaying :: "int \<Rightarrow> bool \<Rightarrow> Room \<Rightarrow> Room" where
  "set_isPlaying t v r =
     (let r1 = (if v then r else endTemporaryPlaybackSpeed t True r)
      in markDirty PisPlaying (r1\<lparr>isPlaying := v\<rparr>))"

section \<open>Playing and pausing\<close>

definition play :: "int \<Rightarrow> Room \<Rightarrow> Room" where
  "play t r =
     (let r1 = (if bufferGate r \<noteq> None
                then r\<lparr>bufferGate := None,
                       bufferGateCooldownUntil := Some (t + BUFFER_GATE_COOLDOWN_MS)\<rparr>
                else r);
          r2 = (cancelPlaybackPreparation r1)\<lparr>restoredFromStorage := False\<rparr>
      in if isPlaying r2 then r2
         else (set_isPlaying t True (r2\<lparr>lastPlayAt := Some t\<rparr>))\<lparr>playbackStart := Some t\<rparr>)"

definition pausePlaybackClock :: "int \<Rightarrow> Room \<Rightarrow> Room" where
  "pausePlaybackClock t r =
     (let r1 = endTemporaryPlaybackSpeed t True r
      in if \<not> isPlaying r1 then r1
         else set_isPlaying t False ((flushPlaybackPosition t r1)\<lparr>playbackStart := None\<rparr>))"

definition pause :: "int \<Rightarrow> bool \<Rightarrow> Room \<Rightarrow> Room" where
  "pause t byBufferGate r =
     (let r1 = (if byBufferGate then r else r\<lparr>bufferGate := None\<rparr>)
      in pausePlaybackClock t (cancelPlaybackPreparation r1))"

definition seekRaw :: "int \<Rightarrow> rat \<Rightarrow> Room \<Rightarrow> Room" where
  "seekRaw t value r =
     (set_playbackPosition value (cancelPlaybackPreparation r))\<lparr>playbackStart := Some t\<rparr>"

section \<open>The preparation round\<close>

definition NATIVE_SERVICES :: "string list" where
  "NATIVE_SERVICES = [''direct'', ''googledrive'', ''hls'', ''reddit'', ''tubi'', ''pluto'', ''dash'']"

text \<open>The regular expression is unanchored: it asks for one of three substrings.\<close>

definition NATIVE_ODYSEE_MIME :: "string \<Rightarrow> bool" where
  "NATIVE_ODYSEE_MIME m \<longleftrightarrow>
     sublist ''video/mp4'' m \<or> sublist ''application/vnd.apple.mpegurl'' m
     \<or> sublist ''application/x-mpegURL'' m"

text \<open>A finite positive length; unknown, infinite and NaN lengths are not.\<close>

definition positive_length :: "js_number option \<Rightarrow> bool" where
  "positive_length len = (case len of Some (Fin x) \<Rightarrow> 0 < x | _ \<Rightarrow> False)"

definition canPrepare_source :: "QueueItem \<Rightarrow> bool" where
  "canPrepare_source v \<longleftrightarrow>
     v_isLive v \<noteq> Some True \<and> positive_length (v_length v)
     \<and> (v_service v \<in> set NATIVE_SERVICES
        \<or> v_service v = ''odysee'' \<and> (case v_mime v of None \<Rightarrow> False | Some m \<Rightarrow> NATIVE_ODYSEE_MIME m))"

definition canPreparePlayback :: "Room \<Rightarrow> bool" where
  "canPreparePlayback r = (case currentSource r of None \<Rightarrow> False | Some v \<Rightarrow> canPrepare_source v)"

definition eligiblePreparers :: "Room \<Rightarrow> RoomUser list" where
  "eligiblePreparers r = filter (\<lambda>u. user_granted r u ''playback.play-pause'') (realusers r)"

definition playbackEligibleIds :: "Room \<Rightarrow> PlaybackPreparation \<Rightarrow> ClientId list" where
  "playbackEligibleIds r p =
     filter (\<lambda>cid. case getUser r cid of
          None \<Rightarrow> False
        | Some u \<Rightarrow> user_granted r u ''playback.play-pause'') (pp_eligible p)"

definition allEligibleReady :: "Room \<Rightarrow> PlaybackPreparation \<Rightarrow> bool" where
  "allEligibleReady r p =
     (let eligible = playbackEligibleIds r p in
      eligible \<noteq> [] \<and> list_all (\<lambda>cid. cid \<in> set (map rd_clientId (pp_ready p))) eligible)"

definition readyBufferIsEnough :: "PlaybackPreparation \<Rightarrow> PlaybackPrepared \<Rightarrow> bool" where
  "readyBufferIsEnough p prepared =
     (case pd_bufferAhead prepared of
        None \<Rightarrow> True
      | Some ahead \<Rightarrow> playbackReadyBufferSeconds (fst (pp_video p)) \<le> ahead)"

definition startPreparedPlayback :: "int \<Rightarrow> Room \<Rightarrow> Room" where
  "startPreparedPlayback t r =
     (case playbackPreparation r of
        None \<Rightarrow> r
      | Some p \<Rightarrow>
          (case pp_startAt p of
             None \<Rightarrow> r
           | Some startAt \<Rightarrow>
               if t + 50 < startAt then r
               else
                 (let r1 = (clearPlaybackStartTimer r)
                        \<lparr>playbackPreparation := None, resumeOnNextJoin := False\<rparr>;
                      r2 = set_isPlaying t True (set_playbackPosition (pp_position p) r1);
                      r3 = r2\<lparr>playbackStart := Some startAt\<rparr>
                  in markDirty PplaybackPosition (markDirty PisPlaying
                       (markDirty PplaybackPreparation r3)))))"

definition schedulePlaybackStart :: "int \<Rightarrow> Fallback option \<Rightarrow> Room \<Rightarrow> Room" where
  "schedulePlaybackStart t fallback r =
     (case playbackPreparation r of
        None \<Rightarrow> r
      | Some p \<Rightarrow>
          if pp_startAt p \<noteq> None then r
          else
            (let p1 = p\<lparr>pp_fallback := fallback\<rparr> in
             if length (playbackEligibleIds r p) \<le> 1 then
               startPreparedPlayback t
                 (markDirty PplaybackPreparation
                    (r\<lparr>playbackPreparation := Some (p1\<lparr>pp_startAt := Some t\<rparr>)\<rparr>))
             else
               (let startAt = t + PLAYBACK_START_LEAD_MS;
                    r1 = markDirty PplaybackPreparation
                      (r\<lparr>playbackPreparation := Some (p1\<lparr>pp_startAt := Some startAt\<rparr>)\<rparr>)
                in (clearPlaybackStartTimer r1)
                     \<lparr>playbackStartTimer := Some (t + max 0 (startAt - t))\<rparr>)))"

definition dropPlaybackParticipant :: "int \<Rightarrow> ClientId \<Rightarrow> Room \<Rightarrow> Room" where
  "dropPlaybackParticipant t cid r =
     (case playbackPreparation r of
        None \<Rightarrow> r
      | Some p \<Rightarrow>
          if cid \<notin> set (pp_eligible p) then r
          else
            (let eligible = filter (\<lambda>i. i \<noteq> cid) (pp_eligible p);
                 p1 = p\<lparr>pp_eligible := eligible,
                        pp_ready := filter (\<lambda>rd. rd_clientId rd \<noteq> cid) (pp_ready p)\<rparr>
             in case eligible of
                  [] \<Rightarrow> markDirty PplaybackPreparation
                         (r\<lparr>playbackPreparation := Some (p1\<lparr>pp_fallback := Some FallbackNone\<rparr>)\<rparr>)
                | c # _ \<Rightarrow>
                    (let p2 = p1\<lparr>pp_clientId := c\<rparr>;
                         r1 = markDirty PplaybackPreparation (r\<lparr>playbackPreparation := Some p2\<rparr>)
                     in if allEligibleReady r1 p2 then schedulePlaybackStart t None r1 else r1)))"

definition refreshPlaybackPreparation :: "Room \<Rightarrow> Room" where
  "refreshPlaybackPreparation r =
     (case playbackPreparation r of
        None \<Rightarrow> r
      | Some p \<Rightarrow>
          (let eligible = playbackEligibleIds r p in
           if eligible = pp_eligible p then r
           else
             (let p1 = p\<lparr>pp_eligible := eligible,
                         pp_ready := filter (\<lambda>rd. rd_clientId rd \<in> set eligible) (pp_ready p)\<rparr>;
                  r1 = r\<lparr>playbackPreparation := Some p1\<rparr>
              in case eligible of
                   [] \<Rightarrow> if eligiblePreparers r = [] then cancelPlaybackPreparation r1
                         else markDirty PplaybackPreparation
                           (r\<lparr>playbackPreparation := Some (p1\<lparr>pp_fallback := Some FallbackNone\<rparr>)\<rparr>)
                 | c # _ \<Rightarrow> markDirty PplaybackPreparation
                     (r\<lparr>playbackPreparation := Some (p1\<lparr>pp_clientId := c\<rparr>)\<rparr>))))"

definition canHoldPlaybackForPreparation :: "Room \<Rightarrow> bool" where
  "canHoldPlaybackForPreparation r \<longleftrightarrow> canPreparePlayback r \<and> eligiblePreparers r \<noteq> []"

definition prepareEmptyRoomPlayback :: "env \<Rightarrow> Room \<Rightarrow> Room" where
  "prepareEmptyRoomPlayback e r =
     (if \<not> resumeOnNextJoin r \<or> isPlaying r \<or> playbackPreparation r \<noteq> None
         \<or> \<not> canPreparePlayback r \<or> playbackPosition r < 0 then r
      else
        (case (currentSource r, map ru_id (eligiblePreparers r)) of
           (Some v, c # cs) \<Rightarrow>
             markDirty PplaybackPreparation
               (r\<lparr>playbackPreparation := Some
                    \<lparr>pp_id = e_randomUUID e, pp_clientId = c, pp_video = video_id v,
                     pp_position = playbackPosition r, pp_eligible = c # cs, pp_ready = [],
                     pp_deadlineAt = now e + PLAYBACK_READY_WAIT_MS,
                     pp_hardDeadlineAt = now e + PLAYBACK_HARD_FALLBACK_MS,
                     pp_startAt = None, pp_fallback = None\<rparr>,
                  playbackStart := None\<rparr>)
         | _ \<Rightarrow> r))"

definition holdPlaybackForPreparation :: "env \<Rightarrow> Room \<Rightarrow> Room" where
  "holdPlaybackForPreparation e r =
     (let r1 = endTemporaryPlaybackSpeed (now e) True r;
          r2 = set_isPlaying (now e) False (r1\<lparr>playbackStart := None\<rparr>);
          r3 = markDirty PisPlaying (r2\<lparr>resumeOnNextJoin := True\<rparr>)
      in prepareEmptyRoomPlayback e r3)"

definition restoreFromStorage :: "Room \<Rightarrow> Room" where
  "restoreFromStorage r = r\<lparr>restoredFromStorage := True\<rparr>"

definition holdEmptyPlaybackForJoin :: "int \<Rightarrow> bool \<Rightarrow> Room \<Rightarrow> Room" where
  "holdEmptyPlaybackForJoin t skipForReconnect r =
     (if realusers r \<noteq> [] \<or> skipForReconnect \<or> (\<not> isPlaying r \<and> \<not> bufferingGateHeld r)
         \<or> \<not> canPreparePlayback r then r
      else markDirty PisPlaying
        ((pausePlaybackClock t (r\<lparr>bufferGate := None\<rparr>))\<lparr>resumeOnNextJoin := True\<rparr>))"

definition finishPlaybackPreparation ::
    "int \<Rightarrow> ClientId \<Rightarrow> PlayerStatus option \<Rightarrow> PlaybackPrepared option \<Rightarrow> Room \<Rightarrow> Room" where
  "finishPlaybackPreparation t cid status prepared r =
     (case (playbackPreparation r, prepared) of
        (Some p, Some pd) \<Rightarrow>
          if pd_id pd \<noteq> pp_id p \<or> cid \<notin> set (playbackEligibleIds r p)
             \<or> map_option video_id (currentSource r) \<noteq> Some (pp_video p)
             \<or> playbackPosition r \<noteq> pp_position p \<or> isPlaying r then r
          else if pd_failed pd = Some True \<or> pd_visible pd = Some False
            then dropPlaybackParticipant t cid r
          else if status \<noteq> Some StatusReady \<or> pd_firstFrame pd = Some False
             \<or> (case pd_position pd of
                  Fin x \<Rightarrow> x < 0 \<or> 1 < \<bar>x - pp_position p\<bar>
                | _ \<Rightarrow> True)
             \<or> \<not> readyBufferIsEnough p pd then r
          else
            (let report = \<lparr>rd_clientId = cid, rd_firstFrame = True,
                           rd_bufferAhead = pd_bufferAhead pd, rd_at = t\<rparr>;
                 p1 = p\<lparr>pp_ready :=
                     filter (\<lambda>rd. rd_clientId rd \<noteq> cid) (pp_ready p) @ [report]\<rparr>;
                 r1 = markDirty PplaybackPreparation (r\<lparr>playbackPreparation := Some p1\<rparr>)
             in if allEligibleReady r1 p1 then schedulePlaybackStart t None r1 else r1)
      | _ \<Rightarrow> r)"

section \<open>The buffer gate\<close>

definition releaseBufferGate :: "int \<Rightarrow> bool \<Rightarrow> Room \<Rightarrow> Room" where
  "releaseBufferGate t timedOut r =
     (case bufferGate r of
        None \<Rightarrow> r\<lparr>bufferGate := None\<rparr>
      | Some gate \<Rightarrow>
          (let r1 = r\<lparr>bufferGate := None\<rparr>;
               r2 = (if timedOut
                     then r1\<lparr>bufferGateCooldownUntil := Some (t + BUFFER_GATE_COOLDOWN_MS),
                             bufferGateExhausted :=
                               (if length (realusers r1) = 1
                                then foldl (\<lambda>s cid. js_add cid s) (bufferGateExhausted r1)
                                       (bg_waitingOn gate)
                                else bufferGateExhausted r1)\<rparr>
                     else r1)
           in if bg_pausedByGate gate \<and> \<not> isPlaying r2 \<and> realusers r2 \<noteq> []
                 \<and> currentSource r2 \<noteq> None \<and> playbackPreparation r2 = None
              then play t r2 else r2))"

text \<open>The viewers whose buffering may hold the room.\<close>

definition gate_waiting :: "Room \<Rightarrow> RoomUser list" where
  "gate_waiting r =
     filter (\<lambda>u. ru_playerStatus u = StatusBuffering \<and> ru_id u \<notin> set (bufferGateExhausted r))
       (filter (\<lambda>u. user_granted r u ''playback.play-pause'') (realusers r))"

definition evaluateBufferGate :: "int \<Rightarrow> Room \<Rightarrow> Room" where
  "evaluateBufferGate t r =
     (if (case bufferGate r of
            None \<Rightarrow> False
          | Some g \<Rightarrow> BUFFER_GATE_MAX_WAIT_MS \<le> t - bg_startedAt g)
      then releaseBufferGate t True r
      else if (bufferGateMode r \<noteq> GatePause \<and> length (realusers r) \<noteq> 1)
         \<or> temporarySpeed r \<noteq> None \<or> playbackPreparation r \<noteq> None \<or> currentSource r = None
      then releaseBufferGate t False r
      else
        (let waiting = gate_waiting r in
         if waiting = [] then releaseBufferGate t False r
         else case bufferGate r of
             Some g \<Rightarrow> r\<lparr>bufferGate := Some (g\<lparr>bg_waitingOn := map ru_id waiting\<rparr>)\<rparr>
           | None \<Rightarrow>
               if \<not> isPlaying r
                  \<or> (case lastPlayAt r of None \<Rightarrow> False | Some l \<Rightarrow> t - l < BUFFER_GATE_START_GRACE_MS)
                  \<or> (case bufferGateCooldownUntil r of None \<Rightarrow> False | Some c \<Rightarrow> t < c)
               then r
               else pause t True
                 (r\<lparr>bufferGate := Some \<lparr>bg_startedAt = t, bg_waitingOn = map ru_id waiting,
                                       bg_pausedByGate = True\<rparr>\<rparr>)))"

section \<open>The next video\<close>

definition clearQueueItemTrim :: "QueueItem \<Rightarrow> QueueItem" where
  "clearQueueItemTrim v = v\<lparr>v_startAt := None, v_endAt := None\<rparr>"

text \<open>After the dequeue: hand the item over paused, hold it for preparation, or play.\<close>

definition start_dequeued :: "env \<Rightarrow> Room \<Rightarrow> Room" where
  "start_dequeued e r =
     (if restoredFromStorage r then r\<lparr>playbackStart := None\<rparr>
      else if canHoldPlaybackForPreparation r then holdPlaybackForPreparation e r
      else if \<not> isPlaying r then play (now e) r
      else r)"

definition take_next :: "env \<Rightarrow> Room \<Rightarrow> Room" where
  "take_next e r =
     (let (item, q) = dequeue (queue r);
          r1 = set_currentSource (now e) item (changed_queue q r);
          r2 = set_playbackPosition
                 (case item of None \<Rightarrow> 0 | Some v \<Rightarrow> (case v_startAt v of None \<Rightarrow> 0 | Some s \<Rightarrow> s)) r1;
          r3 = r2\<lparr>playbackStart := Some (now e)\<rparr>;
          r4 = (if videoSegments r3 \<noteq> [] then set_videoSegments [] r3 else r3);
          r5 = (case currentSource r4 of
                  None \<Rightarrow> r4
                | Some v \<Rightarrow> markDirty PvoteCounts
                    (r4\<lparr>votes := AList.delete (vote_key (video_id v)) (votes r4)\<rparr>))
      in start_dequeued e r5)"

definition clear_source :: "env \<Rightarrow> Room \<Rightarrow> Room" where
  "clear_source e r =
     (let r1 = (if isPlaying r then set_isPlaying (now e) False r else r);
          r2 = (set_playbackPosition 0 r1)\<lparr>playbackStart := Some (now e)\<rparr>
      in set_currentSource (now e) None r2)"

definition finish_dequeue :: "env \<Rightarrow> Room \<Rightarrow> Room" where
  "finish_dequeue e r =
     (let r1 = (if e_sponsorblock_enabled e \<and> autoSkipSegmentCategories r \<noteq> [] \<and> currentSource r \<noteq> None
                then r\<lparr>wantSponsorBlock := True\<rparr> else r);
          r2 = (if currentSource r1 = None \<and> videoSegments r1 \<noteq> []
                then set_videoSegments [] r1 else r1)
      in set_playbackSpeed 1 r2)"

text \<open>First the gate and the votes to skip are cleared, then the queue mode decides.\<close>

definition clear_for_dequeue :: "env \<Rightarrow> Room \<Rightarrow> Room" where
  "clear_for_dequeue e r =
     (let r1 = releaseBufferGate (now e) False r
      in if enableVoteSkip r1 then markDirty PvotesToSkip (r1\<lparr>votesToSkip := []\<rparr>) else r1)"

definition dequeue_by_mode :: "env \<Rightarrow> Room \<Rightarrow> Room" where
  "dequeue_by_mode e r =
     (case currentSource r of
        Some v \<Rightarrow>
          if queueMode r = Dj then
            (let r1 = set_currentSource (now e) (Some (clearQueueItemTrim v)) r;
                 r2 = (set_playbackPosition 0 r1)\<lparr>playbackStart := Some (now e)\<rparr>
             in if \<not> isPlaying r2 then play (now e) r2 else r2)
          else
            (let r1 = (if queueMode r = Loop
                       then changed_queue (enqueueOverflow [clearQueueItemTrim v] (queue r)) r
                       else r)
             in finish_dequeue e
                  (if queue_length (queue r1) > 0 then take_next e r1 else clear_source e r1))
      | None \<Rightarrow>
          finish_dequeue e (if queue_length (queue r) > 0 then take_next e r else r))"

definition dequeueNext :: "env \<Rightarrow> Room \<Rightarrow> Room" where
  "dequeueNext e r = dequeue_by_mode e (clear_for_dequeue e r)"

end
