(* ===== verification/RoomSync.thy ===== *)
theory RoomSync
  imports RoomPlayback
begin

text \<open>
  How the state of the room leaves the process: the projection sent to clients, the snapshot
  for Redis, the queue snapshot and the dirty-field checkpoint of \<^verbatim>\<open>server/room.ts\<close>, and the
  constructor that builds a room from stored options. JSON text is not modelled; a snapshot is
  a record of the picked properties.
\<close>

section \<open>Projections\<close>

definition syncableProps :: "sync_prop list" where
  "syncableProps =
     [Pname, Ptitle, Pdescription, PisTemporary, Pvisibility, PqueueMode, PcurrentSource, Pqueue,
      PisPlaying, PplaybackPosition, PplaybackSpeed, PtemporaryPlaybackSpeed,
      PplaybackPreparation, Pgrants, PhasOwner, PhasPassword, PvoteCounts, PvideoSegments,
      PautoSkipSegmentCategories, PprevQueue, PrestoreQueueBehavior, PenableVoteSkip,
      PbufferGateMode, PdanmakuSource, PvotesToSkip]"

text \<open>The dirty properties whose change has to reach the Redis snapshot.\<close>

definition storableProps :: "sync_prop list" where
  "storableProps =
     [Pname, Ptitle, Pdescription, PisTemporary, Pvisibility, PqueueMode, PcurrentSource, Pqueue,
      PisPlaying, PplaybackPosition, PplaybackSpeed, Pgrants, PvideoSegments,
      PautoSkipSegmentCategories, PprevQueue, PrestoreQueueBehavior, PenableVoteSkip,
      PbufferGateMode, PdanmakuSource]"

text \<open>One property of \<^verbatim>\<open>syncableState()\<close>; the position is the one the head has right now.\<close>

fun syncable_value :: "int \<Rightarrow> Room \<Rightarrow> sync_prop \<Rightarrow> sync_value" where
  "syncable_value t r Pname = VString (room_name r)"
| "syncable_value t r Ptitle = VString (room_title r)"
| "syncable_value t r Pdescription = VString (room_description r)"
| "syncable_value t r PisTemporary = VBool (isTemporary r)"
| "syncable_value t r Pvisibility = VVisibility (visibility r)"
| "syncable_value t r PqueueMode = VQueueMode (queueMode r)"
| "syncable_value t r PcurrentSource = VSource (currentSource r)"
| "syncable_value t r Pqueue = VItems (items (queue r))"
| "syncable_value t r PisPlaying = VBool (isPlaying r)"
| "syncable_value t r PplaybackPosition = VNumber (realPlaybackPosition t r)"
| "syncable_value t r PplaybackSpeed = VNumber (playbackSpeed r)"
| "syncable_value t r PtemporaryPlaybackSpeed = VTemporary (temporaryPlaybackSpeed r)"
| "syncable_value t r PplaybackPreparation = VPreparation (playbackPreparation r)"
| "syncable_value t r Pgrants = VGrants (entries (grants r))"
| "syncable_value t r PhasOwner = VBool (hasOwner r)"
| "syncable_value t r PhasPassword = VBool (hasPassword r)"
| "syncable_value t r PvoteCounts = VCounts (voteCounts r)"
| "syncable_value t r PvideoSegments = VSegments (videoSegments r)"
| "syncable_value t r PautoSkipSegmentCategories = VCategories (autoSkipSegmentCategories r)"
| "syncable_value t r PprevQueue = VPrevQueue (prevQueue r)"
| "syncable_value t r PrestoreQueueBehavior = VBehavior (restoreQueueBehavior r)"
| "syncable_value t r PenableVoteSkip = VBool (enableVoteSkip r)"
| "syncable_value t r PbufferGateMode = VGateMode (bufferGateMode r)"
| "syncable_value t r PdanmakuSource = VDanmaku (danmakuSource r)"
| "syncable_value t r PvotesToSkip = VClients (votesToSkip r)"

definition syncableState :: "int \<Rightarrow> Room \<Rightarrow> (sync_prop \<times> sync_value) list" where
  "syncableState t r = map (\<lambda>p. (p, syncable_value t r p)) syncableProps"

text \<open>The Redis snapshot. The owner is reduced to its id.\<close>

record RoomStateStorable =
  ss_name :: string
  ss_title :: string
  ss_description :: string
  ss_isTemporary :: bool
  ss_visibility :: Visibility
  ss_queueMode :: QueueMode
  ss_currentSource :: "QueueItem option"
  ss_queue :: "QueueItem list"
  ss_isPlaying :: bool
  ss_playbackPosition :: rat
  ss_playbackSpeed :: rat
  ss_resumeOnNextJoin :: bool
  ss_grants :: "(int \<times> GrantMask) list"
  ss_userRoles :: "(Role \<times> int list) list"
  ss_owner :: "int option"
  ss_playbackStart :: "int option"
  ss_videoSegments :: "Segment list"
  ss_autoSkipSegmentCategories :: "string list"
  ss_prevQueue :: "QueueItem list option"
  ss_restoreQueueBehavior :: BehaviorOption
  ss_enableVoteSkip :: bool
  ss_bufferGateMode :: BufferGateMode
  ss_danmakuSource :: "RoomDanmakuSource option"
  ss_permissionsRevision :: int

definition serializeState :: "int \<Rightarrow> Room \<Rightarrow> RoomStateStorable" where
  "serializeState t r =
     \<lparr>ss_name = room_name r, ss_title = room_title r, ss_description = room_description r,
      ss_isTemporary = isTemporary r, ss_visibility = visibility r, ss_queueMode = queueMode r,
      ss_currentSource = currentSource r, ss_queue = items (queue r), ss_isPlaying = isPlaying r,
      ss_playbackPosition = (if temporarySpeed r \<noteq> None then realPlaybackPosition t r
                             else playbackPosition r),
      ss_playbackSpeed = (case temporarySpeed r of None \<Rightarrow> playbackSpeed r
                          | Some s \<Rightarrow> ts_previousSpeed s),
      ss_resumeOnNextJoin = (bufferingGateHeld r \<or> resumeOnNextJoin r),
      ss_grants = entries (grants r), ss_userRoles = userRoles r,
      ss_owner = map_option user_id (owner r),
      ss_playbackStart = (if temporarySpeed r \<noteq> None then (if isPlaying r then Some t else None)
                          else playbackStart r),
      ss_videoSegments = videoSegments r,
      ss_autoSkipSegmentCategories = autoSkipSegmentCategories r, ss_prevQueue = prevQueue r,
      ss_restoreQueueBehavior = restoreQueueBehavior r, ss_enableVoteSkip = enableVoteSkip r,
      ss_bufferGateMode = bufferGateMode r, ss_danmakuSource = danmakuSource r,
      ss_permissionsRevision = permissionsRevision r\<rparr>"

definition queueSnapshot :: "int \<Rightarrow> Room \<Rightarrow> QueueItem list option" where
  "queueSnapshot t r =
     (let snap = (case currentSource r of
                    None \<Rightarrow> items (queue r)
                  | Some v \<Rightarrow> v\<lparr>v_startAt := Some (realPlaybackPosition t r)\<rparr> # items (queue r))
      in if snap \<noteq> [] then Some snap else prevQueue r)"

section \<open>The checkpoint\<close>

text \<open>
  The settings that are written to the database for a permanent room: \<open>None\<close> when there is
  nothing to write. Of the values only the queue snapshot is computed.
\<close>

definition persistentSettings :: "sync_prop list" where
  "persistentSettings =
     [Ptitle, Pdescription, Pvisibility, PqueueMode, PautoSkipSegmentCategories, Pgrants,
      PprevQueue, PrestoreQueueBehavior, PenableVoteSkip, PbufferGateMode, PdanmakuSource,
      PhasOwner]"

definition queueProps :: "sync_prop list" where
  "queueProps = [Pqueue, PcurrentSource, PisPlaying, PplaybackPosition, PprevQueue]"

definition needs_persist :: "Room \<Rightarrow> bool" where
  "needs_persist r \<longleftrightarrow>
     list_ex (\<lambda>p. p \<in> set (dirty r)) persistentSettings
     \<or> list_ex (\<lambda>p. p \<in> set (dirty r)) queueProps"

definition sync_message :: "int \<Rightarrow> Room \<Rightarrow> ServerMessage" where
  "sync_message t r = MsgSync (map (\<lambda>p. (p, syncable_value t r p)) (dirty r))"

text \<open>
  \<^verbatim>\<open>syncDirty\<close>: the dirty set is taken before the I/O and put back when the database write of a
  permanent room fails; the message has then already been published.
\<close>

definition syncDirty :: "env \<Rightarrow> Room \<Rightarrow> outcome" where
  "syncDirty e r =
     (if dirty r = [] then (None, r)
      else
        (let saved = dirty r;
             r1 = publish (sync_message (now e) r) (cleanDirty r)
         in if \<not> isTemporary r \<and> needs_persist r \<and> \<not> e_persist_ok e
            then (Some (GenericError ''Failed to persist permanent room state''),
                  r1\<lparr>dirty := foldl (\<lambda>d p. js_add p d) (dirty r1) saved\<rparr>)
            else (None, r1)))"

definition onBeforeUnload :: "env \<Rightarrow> Room \<Rightarrow> outcome" where
  "onBeforeUnload e r =
     (let r1 = endTemporaryPlaybackSpeed (now e) True (clearPlaybackStartTimer r);
          r2 = r1\<lparr>pendingLeaveEvents := []\<rparr>;
          r3 = (if \<not> isTemporary r2
                then markDirty PcurrentSource (pausePlaybackClock (now e) r2) else r2)
      in syncDirty e r3)"

definition isStale :: "env \<Rightarrow> Room \<Rightarrow> bool" where
  "isStale e r \<longleftrightarrow> e_unload_after e < of_int ((now e - keepAlivePing r) div 1000)"

definition isVideoInQueue :: "VideoId \<Rightarrow> Room \<Rightarrow> bool" where
  "isVideoInQueue video r \<longleftrightarrow>
     map_option video_id (currentSource r) = Some video \<or> contains video (queue r)"

section \<open>Building a room\<close>

text \<open>
  The options of the constructor, from the API, the database or Redis. Missing properties keep
  the initial values of the class; where \<^verbatim>\<open>null\<close> is a value of its own, the outer option says
  whether the property is present.
\<close>

record RoomOptions =
  op_name :: string
  op_title :: "string option"
  op_description :: "string option"
  op_visibility :: "Visibility option"
  op_queueMode :: "QueueMode option"
  op_isTemporary :: "bool option"
  op_owner :: "UserAccount option"
  op_currentSource :: "QueueItem option option"
  op_queue :: "QueueItem list"
  op_playbackPosition :: "rat option"
  op_isPlaying :: "bool option"
  op_playbackSpeed :: "rat option"
  op_autoSkipSegmentCategories :: "string list option"
  op_prevQueue :: "QueueItem list option"
  op_restoreQueueBehavior :: "BehaviorOption option"
  op_enableVoteSkip :: "bool option"
  op_bufferGateMode :: "BufferGateMode option"
  op_danmakuSource :: "RoomDanmakuSource option option"
  op_passwordHash :: "string option"
  op_votesToSkip :: "ClientId list"
  op_resumeOnNextJoin :: bool
  op_grants :: "grants_input option"
  op_permissionsRevision :: "int option"
  op_userRoles :: "(Role \<times> int list) list option"
  op_playbackStart :: "int option"

definition or_else :: "'a option \<Rightarrow> 'a \<Rightarrow> 'a" where
  "or_else x d = (case x of None \<Rightarrow> d | Some v \<Rightarrow> v)"

text \<open>Grants of the options, or the defaults, brought to the current revision.\<close>

definition constructor_grants :: "RoomOptions \<Rightarrow> ott_error + Grants" where
  "constructor_grants op =
     bind_result
       (case op_grants op of
          None \<Rightarrow> defaultPermissions
        | Some (FromGrants g) \<Rightarrow> Inr g
        | Some i \<Rightarrow> new_Grants i)
       (\<lambda>g. if or_else (op_permissionsRevision op) 0 < ROOM_PERMISSIONS_REVISION
             then applyPermissionAdditions g (or_else (op_permissionsRevision op) 0)
             else Inr g)"

text \<open>The initial values of the fields, and \<^verbatim>\<open>this.owner = null\<close> of the constructor.\<close>

definition blank_room :: "int \<Rightarrow> Grants \<Rightarrow> Room" where
  "blank_room t g = set_owner None
     \<lparr>room_name = [], room_title = [], room_description = [], visibility = Unlisted,
      queueMode = Manual, isTemporary = False, owner = None, grants = g,
      userRoles = [(TrustedUser, []), (Moderator, []), (Administrator, [])],
      autoSkipSegmentCategories = ALL_SKIP_CATEGORIES, restoreQueueBehavior = Always,
      enableVoteSkip = False, bufferGateMode = GateOff, danmakuSource = None,
      bufferGateExhausted = [], pendingLeaveEvents = [], passwordHash = None,
      permissionsRevision = 0, bufferGate = None, lastPlayAt = None,
      bufferGateCooldownUntil = None, restoredFromStorage = False, currentSource = None,
      queue = new_VideoQueue [], prevQueue = None, isPlaying = False, playbackPosition = 0,
      playbackSpeed = 1, temporarySpeed = None, temporarySpeedTimer = None,
      playbackStartTimer = None, playbackPreparation = None, resumeOnNextJoin = False,
      realusers = [], votes = [], videoSegments = [], votesToSkip = [], dirty = [],
      recentEvents = [], playbackStart = None, keepAlivePing = t, wantSponsorBlock = False,
      dontSkipSegmentsUntil = None, db_notes = [], outbox = [], commands = []\<rparr>"

definition set_name :: "string \<Rightarrow> Room \<Rightarrow> Room" where
  "set_name v r = markDirty Pname (r\<lparr>room_name := v\<rparr>)"

text \<open>An assignment of \<^verbatim>\<open>Object.assign\<close>, which runs the setter of a property that is present.\<close>

definition assign :: "('a \<Rightarrow> Room \<Rightarrow> Room) \<Rightarrow> 'a option \<Rightarrow> Room \<Rightarrow> Room" where
  "assign setter v r = (case v of None \<Rightarrow> r | Some x \<Rightarrow> setter x r)"

definition assign_options :: "int \<Rightarrow> RoomOptions \<Rightarrow> Room \<Rightarrow> Room" where
  "assign_options t op r0 =
     (let r1 = assign set_title (op_title op) (set_name (op_name op) r0);
          r2 = assign set_visibility (op_visibility op) (assign set_description (op_description op) r1);
          r3 = assign set_queueMode (op_queueMode op) r2;
          r4 = assign (\<lambda>v r. r\<lparr>isTemporary := v\<rparr>) (op_isTemporary op) r3;
          r5 = set_owner (op_owner op) r4;
          r6 = assign (set_currentSource t) (op_currentSource op) r5;
          r7 = r6\<lparr>queue := new_VideoQueue (op_queue op)\<rparr>;
          r8 = assign (set_isPlaying t) (op_isPlaying op)
                 (assign set_playbackPosition (op_playbackPosition op) r7);
          r9 = assign set_playbackSpeed (op_playbackSpeed op) r8;
          r10 = assign set_autoSkipSegmentCategories (op_autoSkipSegmentCategories op) r9;
          r11 = set_prevQueue (op_prevQueue op) r10;
          r12 = assign (\<lambda>v r. r\<lparr>restoreQueueBehavior := v\<rparr>) (op_restoreQueueBehavior op) r11;
          r13 = assign set_bufferGateMode (op_bufferGateMode op)
                  (assign set_enableVoteSkip (op_enableVoteSkip op) r12);
          r14 = assign set_danmakuSource (op_danmakuSource op) r13
      in r14\<lparr>passwordHash := op_passwordHash op, resumeOnNextJoin := op_resumeOnNextJoin op\<rparr>)"

text \<open>A queue saved at unload comes back only into an otherwise empty room.\<close>

definition restore_prevQueue :: "Room \<Rightarrow> Room" where
  "restore_prevQueue r =
     (let r1 = (if restoreQueueBehavior r = Never then set_prevQueue None r else r) in
      case prevQueue r1 of
        Some saved \<Rightarrow>
          if currentSource r1 = None \<and> items (queue r1) = [] \<and> restoreQueueBehavior r1 = Always
          then (set_prevQueue None (markDirty Pqueue
                  (r1\<lparr>queue := (queue r1)\<lparr>items := items (queue r1) @ saved\<rparr>\<rparr>)))
                 \<lparr>restoredFromStorage := True\<rparr>
          else r1
      | None \<Rightarrow> r1)"

definition new_Room :: "int \<Rightarrow> RoomOptions \<Rightarrow> ott_error + Room" where
  "new_Room t op =
     bind_result (constructor_grants op) (\<lambda>g.
       (let r = restore_prevQueue (assign_options t op (blank_room t g)) in
        Inr (r\<lparr>permissionsRevision :=
                 max (or_else (op_permissionsRevision op) 0) ROOM_PERMISSIONS_REVISION,
               userRoles := or_else (op_userRoles op) (userRoles r),
               playbackStart := op_playbackStart op,
               votesToSkip := js_Set (op_votesToSkip op)\<rparr>)))"

end
