(* ===== verification/Subtitles.thy ===== *)
theory Subtitles
  imports RoomState
begin

text \<open>
  \<^verbatim>\<open>common/subtitles.ts\<close> and the subtitle check of \<^verbatim>\<open>server/room.ts\<close>: which subtitle links a
  queue item may carry. The URL parser and the DNS check are fields of \<open>env\<close>.

  \<^verbatim>\<open>SUBTITLE_EXTENSIONS[ext]\<close> reads a property of a plain object, so the two lower-case names
  that objects inherit, \<^verbatim>\<open>constructor\<close> and \<^verbatim>\<open>__proto__\<close>, are found as well; the model keeps
  them as \<open>InheritedMember\<close>.
\<close>

datatype SubtitleFormat = Vtt | Ass | InheritedMember

definition MAX_SUBTITLE_URL_LENGTH :: nat where "MAX_SUBTITLE_URL_LENGTH = 2048"

definition to_lower :: "char \<Rightarrow> char" where
  "to_lower c =
     (let n = of_char c :: nat in if 65 \<le> n \<and> n \<le> 90 then char_of (n + 32) else c)"

definition lower :: "string \<Rightarrow> string" where
  "lower s = map to_lower s"

definition ends_with :: "string \<Rightarrow> string \<Rightarrow> bool" where
  "ends_with suf s \<longleftrightarrow> suffix suf s"

definition NUMERIC_HOST :: "string \<Rightarrow> bool" where
  "NUMERIC_HOST h \<longleftrightarrow> h \<noteq> [] \<and> list_all (\<lambda>c. c \<in> set ''0123456789.'') h"

definition LOCAL_HOST :: "string \<Rightarrow> bool" where
  "LOCAL_HOST h \<longleftrightarrow>
     list_ex (\<lambda>n. h = n \<or> ends_with (CHR ''.'' # n) h)
       [''localhost'', ''local'', ''internal'', ''test'', ''invalid'']"

definition HTTP_PROTOCOL :: "string \<Rightarrow> bool" where
  "HTTP_PROTOCOL p \<longleftrightarrow> p = ''http:'' \<or> p = ''https:''"

definition isPublicSubtitleUrl :: "env \<Rightarrow> string \<Rightarrow> bool" where
  "isPublicSubtitleUrl e value =
     (case e_parseURL e value of
        None \<Rightarrow> False
      | Some url \<Rightarrow>
          (let host = lower (url_hostname url) in
           HTTP_PROTOCOL (url_protocol url) \<and> url_username url = [] \<and> url_password url = []
           \<and> length value \<le> MAX_SUBTITLE_URL_LENGTH \<and> CHR ''.'' \<in> set host
           \<and> \<not> NUMERIC_HOST host \<and> CHR '':'' \<notin> set host \<and> take 1 host \<noteq> ''['' \<and> \<not> LOCAL_HOST host))"

text \<open>\<^verbatim>\<open>pathname.split(".").pop()\<close>: what follows the last dot, or everything.\<close>

definition extension :: "string \<Rightarrow> string" where
  "extension pathname = rev (takeWhile (\<lambda>c. c \<noteq> CHR ''.'') (rev pathname))"

definition SUBTITLE_EXTENSIONS :: "string \<Rightarrow> SubtitleFormat option" where
  "SUBTITLE_EXTENSIONS ext =
     (if ext = ''vtt'' then Some Vtt
      else if ext = ''ass'' \<or> ext = ''ssa'' then Some Ass
      else if ext = ''constructor'' \<or> ext = ''__proto__'' then Some InheritedMember
      else None)"

definition getSubtitleFormatFromUrl :: "env \<Rightarrow> string \<Rightarrow> SubtitleFormat option" where
  "getSubtitleFormatFromUrl e value =
     (case e_parseURL e value of
        None \<Rightarrow> None
      | Some url \<Rightarrow>
          (let ext = lower (extension (url_pathname url)) in
           if ext = [] then None else SUBTITLE_EXTENSIONS ext))"

definition assertUsableSubtitleUrl :: "env \<Rightarrow> string \<Rightarrow> ott_error option" where
  "assertUsableSubtitleUrl e subtitleUrl =
     (if getSubtitleFormatFromUrl e subtitleUrl = None then Some UnsupportedSubtitleType
      else if \<not> isPublicSubtitleUrl e subtitleUrl then Some UnsupportedSubtitleUrl
      else if \<not> e_assertPublicMediaUrl e subtitleUrl then Some UnsupportedSubtitleUrl
      else None)"

lemma assertUsable_public:
  "assertUsableSubtitleUrl e url = None \<Longrightarrow>
     isPublicSubtitleUrl e url \<and> e_assertPublicMediaUrl e url"
  by (auto simp: assertUsableSubtitleUrl_def split: if_splits)

end
