(* ===== verification/RoomQueueOps.thy ===== *)
theory RoomQueueOps
  imports RoomSync Subtitles
begin

text \<open>
  The requests of \<^verbatim>\<open>server/room.ts\<close> that change the queue. A handler returns the exception it
  threw, if any, with the state it left behind. \<^verbatim>\<open>addToQueue\<close> gives up control while it waits
  for the extractor, so it is split at that point into \<open>add_begin\<close> and \<open>add_commit\<close>; the
  handler is their composition, and other requests can be put between the two.
\<close>

text \<open>
  The result of a queue operation becomes the room's queue; \<open>changed\<close> says whether the operation
  reported a change (\<^verbatim>\<open>markDirty\<close>).
\<close>

definition apply_queue :: "bool \<Rightarrow> ott_error + VideoQueue \<Rightarrow> Room \<Rightarrow> outcome" where
  "apply_queue changed res r =
     (case res of
        Inl err \<Rightarrow> (Some err, r)
      | Inr q \<Rightarrow> (None, if changed then changed_queue q r else r\<lparr>queue := q\<rparr>))"

text \<open>A check that may throw, before anything is done.\<close>

definition guard :: "ott_error option \<Rightarrow> Room \<Rightarrow> outcome" where
  "guard err r = (err, r)"

section \<open>Adding\<close>

definition assertUsableVideoId :: "VideoId \<Rightarrow> ott_error option" where
  "assertUsableVideoId video =
     (if snd video = [] \<or> length (snd video) > MAX_VIDEO_ID_LENGTH
      then Some (BadApiArgument ''video'') else None)"

fun first_error :: "('a \<Rightarrow> ott_error option) \<Rightarrow> 'a list \<Rightarrow> ott_error option" where
  "first_error f [] = None"
| "first_error f (x # xs) = (case f x of Some err \<Rightarrow> Some err | None \<Rightarrow> first_error f xs)"

definition requestedItems :: "VideoAdd option \<Rightarrow> VideoAdd list option \<Rightarrow> string option \<Rightarrow> nat" where
  "requestedItems video videos url =
     (case videos of
        Some vs \<Rightarrow> length vs
      | None \<Rightarrow> if video \<noteq> None \<or> truthy_str url then 1 else 0)"

definition plain_add :: "VideoId \<Rightarrow> VideoAdd" where
  "plain_add video = \<lparr>va_video = video, va_startAt = None, va_endAt = None, va_subtitleUrl = None\<rparr>"

text \<open>A link is turned into a video id by the service adapter and replaces \<^verbatim>\<open>request.video\<close>.\<close>

definition resolve_url :: "env \<Rightarrow> string option \<Rightarrow> VideoAdd option \<Rightarrow> ott_error + VideoAdd option" where
  "resolve_url e url video =
     (if truthy_str url then
        bind_result (e_videoIdForUrl e (the url)) (\<lambda>vid.
          case assertUsableVideoId vid of
            Some err \<Rightarrow> Inl err
          | None \<Rightarrow> Inr (Some (plain_add vid)))
      else Inr video)"

definition validate_add ::
    "VideoAdd option \<Rightarrow> VideoAdd list option \<Rightarrow> string option \<Rightarrow> Room \<Rightarrow> ott_error option" where
  "validate_add video videos url r =
     (if (case url of None \<Rightarrow> False | Some u \<Rightarrow> length u > MAX_VIDEO_ID_LENGTH)
      then Some (BadApiArgument ''url'')
      else case (case video of None \<Rightarrow> None | Some v \<Rightarrow> assertUsableVideoId (va_video v)) of
        Some err \<Rightarrow> Some err
      | None \<Rightarrow>
          case (case videos of
                  None \<Rightarrow> None
                | Some vs \<Rightarrow> first_error (\<lambda>v. assertUsableVideoId (va_video v)) vs) of
            Some err \<Rightarrow> Some err
          | None \<Rightarrow>
              if requestedItems video videos url > 0
                 \<and> queue_length (queue r) + requestedItems video videos url > MAX_QUEUE_ITEMS
              then Some (BadApiArgument ''queue'') else None)"

text \<open>What is left to do once the information about the videos has arrived.\<close>

datatype pending_add = PendingOne VideoAdd | PendingMany "VideoAdd list" | PendingNothing

definition add_begin ::
    "env \<Rightarrow> VideoAdd option \<Rightarrow> VideoAdd list option \<Rightarrow> string option \<Rightarrow> Room \<Rightarrow> ott_error + pending_add" where
  "add_begin e video videos url r =
     (case validate_add video videos url r of
        Some err \<Rightarrow> Inl err
      | None \<Rightarrow>
          bind_result (resolve_url e url video) (\<lambda>resolved.
            case resolved of
              Some v \<Rightarrow> if isVideoInQueue (va_video v) r then Inl VideoAlreadyQueued
                        else Inr (PendingOne v)
            | None \<Rightarrow> (case videos of Some vs \<Rightarrow> Inr (PendingMany vs) | None \<Rightarrow> Inr PendingNothing)))"

definition commit_one :: "env \<Rightarrow> VideoAdd \<Rightarrow> RoomRequest \<Rightarrow> RoomRequestContext \<Rightarrow> Room \<Rightarrow> outcome" where
  "commit_one e v request context r =
     (case e_getVideoInfo e (va_video v) of
        Inl err \<Rightarrow> (Some err, r)
      | Inr info \<Rightarrow>
          seq (guard (if truthy_str (va_subtitleUrl v)
                      then assertUsableSubtitleUrl e (the (va_subtitleUrl v)) else None) r)
            (\<lambda>r.
              (let video = (if truthy_str (va_subtitleUrl v)
                            then info\<lparr>v_subtitleUrl := va_subtitleUrl v\<rparr> else info)
               in seq (apply_queue True (enqueue [video] (queue r)) r)
                    (\<lambda>r. (None, publishRoomEvent request context
                            (no_context\<lparr>ev_video := Some video\<rparr>) None (set_prevQueue None r))))))"

text \<open>
  The loop over a batch: every video is checked for its subtitle link, and one that the room
  already holds is dropped. Videos are compared with the room, not with each other.
\<close>

fun batch_filter :: "env \<Rightarrow> Room \<Rightarrow> QueueItem list \<Rightarrow> ott_error + QueueItem list" where
  "batch_filter e r [] = Inr []"
| "batch_filter e r (v # vs) =
     (case (if truthy_str (v_subtitleUrl v) then assertUsableSubtitleUrl e (the (v_subtitleUrl v))
            else None) of
        Some err \<Rightarrow> Inl err
      | None \<Rightarrow>
          bind_result (batch_filter e r vs) (\<lambda>rest.
            Inr (if isVideoInQueue (video_id v) r then rest else v # rest)))"

definition commit_many ::
    "env \<Rightarrow> VideoAdd list \<Rightarrow> RoomRequest \<Rightarrow> RoomRequestContext \<Rightarrow> Room \<Rightarrow> outcome" where
  "commit_many e vs request context r =
     (case bind_result (e_getManyVideoInfo e vs) (batch_filter e r) of
        Inl err \<Rightarrow> (Some err, r)
      | Inr [] \<Rightarrow> (Some VideoAlreadyQueued, r)
      | Inr (w # ws) \<Rightarrow>
          seq (apply_queue True (enqueue (w # ws) (queue r)) r)
            (\<lambda>r. (None, publishRoomEvent request context
                    (no_context\<lparr>ev_videos := Some (w # ws)\<rparr>) None r)))"

text \<open>The published request carries the resolved video.\<close>

definition add_commit ::
    "env \<Rightarrow> pending_add \<Rightarrow> VideoAdd list option \<Rightarrow> string option \<Rightarrow> RoomRequestContext \<Rightarrow> Room \<Rightarrow> outcome" where
  "add_commit e p videos url context r =
     (case p of
        PendingOne v \<Rightarrow> commit_one e v (AddRequest (Some v) videos url) context r
      | PendingMany vs \<Rightarrow> commit_many e vs (AddRequest None videos url) context r
      | PendingNothing \<Rightarrow> (None, r))"

definition addToQueue ::
    "env \<Rightarrow> VideoAdd option \<Rightarrow> VideoAdd list option \<Rightarrow> string option \<Rightarrow> RoomRequestContext \<Rightarrow> Room \<Rightarrow> outcome" where
  "addToQueue e video videos url context r =
     (case add_begin e video videos url r of
        Inl err \<Rightarrow> (Some err, r)
      | Inr p \<Rightarrow> add_commit e p videos url context r)"

section \<open>Changing\<close>

definition queueItem_patch :: "env \<Rightarrow> string option option \<Rightarrow> ott_error + QueueItemExtras" where
  "queueItem_patch e subtitleUrl =
     (let none = \<lparr>x_startAt = None, x_endAt = None, x_subtitleUrl = None\<rparr> in
      case subtitleUrl of
        None \<Rightarrow> Inr none
      | Some s \<Rightarrow>
          if truthy_str s then
            (case assertUsableSubtitleUrl e (the s) of
               Some err \<Rightarrow> Inl err
             | None \<Rightarrow> Inr (none\<lparr>x_subtitleUrl := Some s\<rparr>))
          else Inr (none\<lparr>x_subtitleUrl := Some None\<rparr>))"

definition updateQueueItem ::
    "env \<Rightarrow> VideoId \<Rightarrow> string option option \<Rightarrow> RoomRequestContext \<Rightarrow> Room \<Rightarrow> outcome" where
  "updateQueueItem e video subtitleUrl context r =
     (case queueItem_patch e subtitleUrl of
        Inl err \<Rightarrow> (Some err, r)
      | Inr patch \<Rightarrow>
          seq (apply_queue True (update video patch (queue r)) r)
            (\<lambda>r. (None, publishRoomEvent (UpdateQueueItemRequest video subtitleUrl) context
                    no_context None r)))"

definition removeFromQueue :: "VideoId \<Rightarrow> RoomRequestContext \<Rightarrow> Room \<Rightarrow> outcome" where
  "removeFromQueue video context r =
     (if \<not> contains video (queue r) then (Some VideoNotFound, r)
      else case evict video (queue r) of
          Inl err \<Rightarrow> (Some err, r)
        | Inr (matchIdx, removed, q) \<Rightarrow>
            (let r1 = changed_queue q r;
                 r2 = markDirty PvoteCounts (r1\<lparr>votes := AList.delete (vote_key video) (votes r1)\<rparr>)
             in (None, publishRoomEvent (RemoveRequest video) context
                   (no_context\<lparr>ev_video := Some removed, ev_queueIdx := Some matchIdx\<rparr>) None r2)))"

definition reorderQueue :: "js_value \<Rightarrow> js_value \<Rightarrow> Room \<Rightarrow> outcome" where
  "reorderQueue fromIdx toIdx r =
     (if \<not> isInteger fromIdx \<or> \<not> isInteger toIdx \<or> js_int fromIdx < 0 \<or> js_int toIdx < 0
      then (Some (BadApiArgument ''indices''), r)
      else apply_queue (js_int fromIdx \<noteq> js_int toIdx)
             (move (js_int fromIdx) (js_int toIdx) (queue r)) r)"

definition vote :: "VideoId \<Rightarrow> bool \<Rightarrow> RoomRequestContext \<Rightarrow> Room \<Rightarrow> outcome" where
  "vote video add context r =
     (if \<not> truthy_str (cx_clientId context)
      then (Some (OttException ''Can't vote if not connected to room.''), r)
      else if \<not> contains video (queue r) then (Some VideoNotFound, r)
      else
        (let cid = the (cx_clientId context); key = vote_key video;
             vs = (case map_of (votes r) key of
                     Some cs \<Rightarrow> AList.update key (if add then js_add cid cs else js_delete cid cs) (votes r)
                   | None \<Rightarrow> if add then AList.update key [cid] (votes r) else votes r)
         in (None, markDirty PvoteCounts (r\<lparr>votes := vs\<rparr>))))"

definition shuffle_queue :: "env \<Rightarrow> RoomRequestContext \<Rightarrow> Room \<Rightarrow> outcome" where
  "shuffle_queue e context r =
     seq (guard (check (grants r) (cx_role context) ''manage-queue.order'') r)
       (\<lambda>r. apply_queue True (Inr (shuffle (e_shuffle e) (queue r))) r)"

definition restoreQueue :: "bool \<Rightarrow> RoomRequestContext \<Rightarrow> Room \<Rightarrow> outcome" where
  "restoreQueue discard context r =
     seq (guard (check (grants r) (cx_role context)
            (if discard then ''manage-queue.remove'' else ''manage-queue.add'')) r)
       (\<lambda>r. case prevQueue r of
          None \<Rightarrow> (Some (GenericError ''No previous queue to restore''), r)
        | Some saved \<Rightarrow>
            if discard then (None, set_prevQueue None r)
            else if queue_length (queue r) + length saved > MAX_QUEUE_ITEMS
            then (Some (BadApiArgument ''queue''), r)
            else seq (apply_queue (saved \<noteq> []) (enqueue saved (queue r)) r)
                   (\<lambda>r. (None, set_prevQueue None r)))"

section \<open>Playing a video at once\<close>

text \<open>The permissions and the room that \<^verbatim>\<open>playNow\<close> needs, before it evicts anything.\<close>

definition playNow_checks :: "env \<Rightarrow> VideoAdd \<Rightarrow> RoomRequestContext \<Rightarrow> Room \<Rightarrow> ott_error option" where
  "playNow_checks e v context r =
     (case (if isVideoInQueue (va_video v) r
            then check (grants r) (cx_role context) ''manage-queue.order''
            else case check (grants r) (cx_role context) ''manage-queue.add'' of
                Some err \<Rightarrow> Some err
              | None \<Rightarrow> if queue_length (queue r) \<ge> MAX_QUEUE_ITEMS
                        then Some (BadApiArgument ''queue'') else None) of
        Some err \<Rightarrow> Some err
      | None \<Rightarrow> if truthy_str (va_subtitleUrl v)
                then assertUsableSubtitleUrl e (the (va_subtitleUrl v)) else None)"

definition playNow_take :: "env \<Rightarrow> VideoAdd \<Rightarrow> Room \<Rightarrow> ott_error + (QueueItem \<times> Room)" where
  "playNow_take e v r =
     bind_result
       (if isVideoInQueue (va_video v) r
        then bind_result (evict (va_video v) (queue r)) (\<lambda>(_, item, q). Inr (item, changed_queue q r))
        else bind_result (e_getVideoInfo e (va_video v)) (\<lambda>info. Inr (info, r)))
       (\<lambda>(video, r1).
          Inr (if truthy_str (va_subtitleUrl v) then video\<lparr>v_subtitleUrl := va_subtitleUrl v\<rparr> else video,
               r1))"

text \<open>The current video goes back to the front of the queue, with the position it had.\<close>

definition requeue_current :: "env \<Rightarrow> Room \<Rightarrow> outcome" where
  "requeue_current e r =
     (case currentSource r of
        None \<Rightarrow> (None, r)
      | Some v \<Rightarrow>
          (let v' = v\<lparr>v_startAt := Some (realPlaybackPosition (now e) r)\<rparr>;
               r1 = r\<lparr>currentSource := Some v'\<rparr>
           in apply_queue True (pushTop [v'] (queue r1)) r1))"

definition playNow_start :: "env \<Rightarrow> QueueItem \<Rightarrow> Room \<Rightarrow> Room" where
  "playNow_start e video r =
     (let r1 = markDirty Pqueue (set_currentSource (now e) (Some video) r);
          r2 = set_videoSegments [] ((set_playbackPosition 0 r1)\<lparr>playbackStart := Some (now e)\<rparr>);
          r3 = (if canHoldPlaybackForPreparation r2 then holdPlaybackForPreparation e r2
                else if \<not> isPlaying r2 then play (now e) r2
                else r2)
      in if autoSkipSegmentCategories r3 \<noteq> [] then r3\<lparr>wantSponsorBlock := True\<rparr> else r3)"

definition playNow :: "env \<Rightarrow> VideoAdd \<Rightarrow> RoomRequestContext \<Rightarrow> Room \<Rightarrow> outcome" where
  "playNow e v context r =
     (case assertUsableVideoId (va_video v) of
        Some err \<Rightarrow> (Some err, r)
      | None \<Rightarrow>
          if map_option video_id (currentSource r) = Some (va_video v) then (None, r)
          else seq (guard (playNow_checks e v context r) r)
            (\<lambda>r. case playNow_take e v r of
               Inl err \<Rightarrow> (Some err, r)
             | Inr (video, r1) \<Rightarrow>
                 seq (requeue_current e r1) (\<lambda>r2. (None, playNow_start e video r2))))"

end
