(* ===== verification/RoomUsers.thy ===== *)
theory RoomUsers
  imports RoomQueueOps
begin

text \<open>
  The requests of \<^verbatim>\<open>server/room.ts\<close> about viewers and the room itself: joining, leaving and the
  delayed leave event, status updates, chat, notes, promotion, kicking and settings, with the
  note table of \<^verbatim>\<open>server/storage/roomnote.ts\<close>.
\<close>

section \<open>Joining\<close>

definition sessionInRoom :: "AuthToken \<Rightarrow> ClientId option \<Rightarrow> Room \<Rightarrow> bool" where
  "sessionInRoom token except r =
     list_ex (\<lambda>u. ru_token u = token \<and> Some (ru_id u) \<noteq> except) (realusers r)"

text \<open>\<open>True\<close> when the join continues an earlier session.\<close>

definition noteJoin :: "AuthToken \<Rightarrow> ClientId \<Rightarrow> Room \<Rightarrow> bool \<times> Room" where
  "noteJoin token cid r =
     (if token = [] then (False, r)
      else case map_of (pendingLeaveEvents r) token of
          Some _ \<Rightarrow> (True, r\<lparr>pendingLeaveEvents := AList.delete token (pendingLeaveEvents r)\<rparr>)
        | None \<Rightarrow> (sessionInRoom token (Some cid) r, r))"

text \<open>A returning viewer who is alone resumes at once; anybody else may be asked to prepare.\<close>

definition resume_or_prepare :: "env \<Rightarrow> bool \<Rightarrow> Role \<Rightarrow> Room \<Rightarrow> Room" where
  "resume_or_prepare e reconnect role r =
     (if reconnect \<and> resumeOnNextJoin r \<and> length (realusers r) = 1
         \<and> granted (grants r) role ''playback.play-pause'' \<and> canPreparePlayback r
      then markDirty PplaybackPosition
             (play (now e) (markDirty PisPlaying (r\<lparr>resumeOnNextJoin := False\<rparr>)))
      else prepareEmptyRoomPlayback e r)"

definition sync_client :: "ClientId \<Rightarrow> Room \<Rightarrow> outcome" where
  "sync_client cid r =
     (case getUserInfo r cid of
        Inl err \<Rightarrow> (Some err, r)
      | Inr info \<Rightarrow> (None, syncUser info r))"

definition context_token :: "RoomRequestContext \<Rightarrow> AuthToken" where
  "context_token context = (case cx_auth context of None \<Rightarrow> [] | Some au \<Rightarrow> au_token au)"

definition joinRoom :: "env \<Rightarrow> ClientInfo \<Rightarrow> bool \<Rightarrow> RoomRequestContext \<Rightarrow> Room \<Rightarrow> outcome" where
  "joinRoom e info reconnect context r =
     (let token = context_token context in
      if token = [] then (Some (GenericError ''No auth token''), r)
      else
        (let r1 = holdEmptyPlaybackForJoin (now e) reconnect r in
         case updateInfo e info (new_RoomUser (ci_id info) token) of
           (Some err, _) \<Rightarrow> (Some err, r1)
         | (None, user) \<Rightarrow>
             (let r2 = resume_or_prepare e reconnect (cx_role context)
                         (r1\<lparr>realusers := realusers r1 @ [user]\<rparr>);
                  (resumed, r3) = noteJoin token (ru_id user) r2;
                  r4 = (if resumed then r3
                        else publishRoomEvent (JoinRequest info reconnect) context no_context None r3)
              in sync_client (ru_id user) r4)))"

section \<open>Leaving\<close>

definition publishLeaveEvent ::
    "int \<Rightarrow> RoomRequestContext \<Rightarrow> RoomUserInfo \<Rightarrow> AuthToken option \<Rightarrow> Room \<Rightarrow> Room" where
  "publishLeaveEvent t context user token r =
     (if \<not> truthy_str token
      then publishRoomEvent LeaveRequest context (no_context\<lparr>ev_user := Some user\<rparr>) None r
      else if sessionInRoom (the token) (cx_clientId context) r then r
      else r\<lparr>pendingLeaveEvents := AList.update (the token)
               \<lparr>pl_firesAt = t + LEAVE_EVENT_GRACE_MS, pl_context = context, pl_user = user\<rparr>
               (pendingLeaveEvents r)\<rparr>)"

text \<open>The timer of a delayed leave event fires.\<close>

definition leave_timer :: "AuthToken \<Rightarrow> Room \<Rightarrow> Room" where
  "leave_timer token r =
     (case map_of (pendingLeaveEvents r) token of
        None \<Rightarrow> r
      | Some pl \<Rightarrow>
          (let r1 = r\<lparr>pendingLeaveEvents := AList.delete token (pendingLeaveEvents r)\<rparr> in
           if sessionInRoom token None r1 then r1
           else publishRoomEvent LeaveRequest (pl_context pl) (no_context\<lparr>ev_user := Some (pl_user pl)\<rparr>)
                  (Some (pl_user pl)) r1))"

definition withdraw_votes :: "ClientId \<Rightarrow> Room \<Rightarrow> Room" where
  "withdraw_votes cid r =
     (let r1 = (if enableVoteSkip r
                then markDirty PvotesToSkip (r\<lparr>votesToSkip := js_delete cid (votesToSkip r)\<rparr>) else r)
      in if queueMode r1 = Vote
         then (let r2 = r1\<lparr>votes := map (\<lambda>(k, cs). (k, js_delete cid cs)) (votes r1)\<rparr>
               in if list_ex (\<lambda>(k, cs). cid \<in> set cs) (votes r1) then markDirty PvoteCounts r2 else r2)
         else r1)"

fun remove_first :: "('a \<Rightarrow> bool) \<Rightarrow> 'a list \<Rightarrow> 'a list" where
  "remove_first P [] = []"
| "remove_first P (x # xs) = (if P x then xs else x # remove_first P xs)"

text \<open>The last viewer is gone: stop the clock, remember whether to resume, checkpoint.\<close>

definition empty_room :: "env \<Rightarrow> Room \<Rightarrow> outcome" where
  "empty_room e r =
     (let shouldResume = (isPlaying r \<or> bufferingGateHeld r \<or> playbackPreparation r \<noteq> None
                          \<or> resumeOnNextJoin r);
          r1 = cancelPlaybackPreparation
                 (pausePlaybackClock (now e) (releaseBufferGate (now e) False r));
          r2 = markDirty PisPlaying
                 (r1\<lparr>resumeOnNextJoin := (shouldResume \<and> canPreparePlayback r1)\<rparr>)
      in syncDirty e (r2\<lparr>keepAlivePing := now e\<rparr>))"

definition rebuild_preparation :: "env \<Rightarrow> ClientId \<Rightarrow> Room \<Rightarrow> Room" where
  "rebuild_preparation e cid r =
     (case playbackPreparation r of
        None \<Rightarrow> r
      | Some p \<Rightarrow>
          if cid \<in> set (pp_eligible p)
          then prepareEmptyRoomPlayback e
                 (markDirty PisPlaying ((cancelPlaybackPreparation r)\<lparr>resumeOnNextJoin := True\<rparr>))
          else r)"

text \<open>A leaving viewer lets go of their gesture.\<close>

definition end_own_gesture :: "int \<Rightarrow> ClientId \<Rightarrow> Room \<Rightarrow> Room" where
  "end_own_gesture t cid r =
     (if map_option ts_clientId (temporarySpeed r) = Some cid
      then endTemporaryPlaybackSpeed t True r else r)"

definition leaveRoom :: "env \<Rightarrow> RoomRequestContext \<Rightarrow> Room \<Rightarrow> outcome" where
  "leaveRoom e context r =
     (case cx_clientId context of
        None \<Rightarrow> (Some (GenericError ''context.clientId was undefined''), r)
      | Some cid \<Rightarrow>
          (let r1 = end_own_gesture (now e) cid r
           in case getUserInfo r1 cid of
                Inl err \<Rightarrow> (Some err, r1)
              | Inr removed \<Rightarrow>
                  (let r2 = withdraw_votes cid
                         (publishLeaveEvent (now e) context removed
                            (map_option ru_token (getUser r1 cid)) r1);
                       r3 = r2\<lparr>realusers := remove_first (\<lambda>u. ru_id u = cid) (realusers r2)\<rparr>
                   in seq (if realusers r3 = [] then empty_room e r3
                           else (None, rebuild_preparation e cid r3))
                        (\<lambda>r. (None, evaluateBufferGate (now e) r)))))"

section \<open>Updates, chat and notes\<close>

fun index_of_user :: "ClientId \<Rightarrow> RoomUser list \<Rightarrow> nat option" where
  "index_of_user cid [] = None"
| "index_of_user cid (u # us) =
     (if ru_id u = cid then Some 0 else map_option Suc (index_of_user cid us))"

definition updateUser ::
    "env \<Rightarrow> ClientInfo \<Rightarrow> PlaybackPrepared option \<Rightarrow> Room \<Rightarrow> outcome" where
  "updateUser e info prepared r =
     seq (case index_of_user (ci_id info) (realusers r) of
            None \<Rightarrow> (None, r)
          | Some i \<Rightarrow>
              (case updateInfo e info (realusers r ! i) of
                 (Some err, u) \<Rightarrow> (Some err, r\<lparr>realusers := (realusers r)[i := u]\<rparr>)
               | (None, u) \<Rightarrow>
                   (let r1 = r\<lparr>realusers := (realusers r)[i := u]\<rparr>;
                        r2 = (case ci_status info of
                                None \<Rightarrow> r1
                              | Some s \<Rightarrow>
                                  if s \<noteq> StatusBuffering
                                  then r1\<lparr>bufferGateExhausted :=
                                         js_delete (ci_id info) (bufferGateExhausted r1)\<rparr>
                                  else r1)
                    in seq (sync_client (ci_id info) r2)
                         (\<lambda>r. (None, finishPlaybackPreparation (now e) (ci_id info) (ci_status info)
                                 prepared r)))))
       (\<lambda>r. (None, evaluateBufferGate (now e) r))"

definition chat :: "js_value \<Rightarrow> RoomRequestContext \<Rightarrow> Room \<Rightarrow> outcome" where
  "chat txt context r =
     (case cx_clientId context of
        None \<Rightarrow> (Some (GenericError ''context.clientId was undefined''), r)
      | Some cid \<Rightarrow>
          (case txt of
             JString s \<Rightarrow>
               if length s > MAX_CHAT_MESSAGE_LENGTH then (Some (BadApiArgument ''text''), r)
               else (case getUserInfo r cid of
                   Inl err \<Rightarrow> (Some err, r)
                 | Inr user \<Rightarrow> (None, publish (MsgChat user s) r))
           | _ \<Rightarrow> (Some (BadApiArgument ''text''), r)))"

text \<open>The white space \<^verbatim>\<open>trim\<close> removes, among the 8-bit characters.\<close>

definition js_space :: "char \<Rightarrow> bool" where
  "js_space c = (let n = of_char c :: nat in 9 \<le> n \<and> n \<le> 13 \<or> n = 32 \<or> n = 160)"

definition trim :: "string \<Rightarrow> string" where
  "trim s = rev (dropWhile js_space (rev (dropWhile js_space s)))"

definition listNotes :: "Room \<Rightarrow> RoomNote list" where
  "listNotes r = sort_key nt_id (db_notes r)"

definition countNotes :: "Room \<Rightarrow> nat" where
  "countNotes r = length (db_notes r)"

definition insert_note :: "int \<Rightarrow> string \<Rightarrow> ClientId \<Rightarrow> string \<Rightarrow> Room \<Rightarrow> Room" where
  "insert_note nid authorName authorId txt r =
     r\<lparr>db_notes := db_notes r @
        [\<lparr>nt_id = nid, nt_authorName = authorName, nt_authorId = authorId, nt_text = txt\<rparr>]\<rparr>"

definition delete_note :: "int \<Rightarrow> Room \<Rightarrow> bool \<times> Room" where
  "delete_note nid r =
     (list_ex (\<lambda>n. nt_id n = nid) (db_notes r),
      r\<lparr>db_notes := filter (\<lambda>n. nt_id n \<noteq> nid) (db_notes r)\<rparr>)"

definition publishNotes :: "Room \<Rightarrow> Room" where
  "publishNotes r = publish (MsgNotes (listNotes r) MAX_NOTES_PER_ROOM MAX_NOTE_LENGTH) r"

definition addNote :: "env \<Rightarrow> js_value \<Rightarrow> RoomRequestContext \<Rightarrow> Room \<Rightarrow> outcome" where
  "addNote e txt context r =
     (if isTemporary r
      then (Some (FeatureDisabled ''notes are only available in permanent rooms''), r)
      else case cx_clientId context of
          None \<Rightarrow> (Some (GenericError ''context.clientId was undefined''), r)
        | Some cid \<Rightarrow>
            (let s = (case txt of JString s \<Rightarrow> trim s | _ \<Rightarrow> []) in
             if s = [] then (None, r)
             else if length s > MAX_NOTE_LENGTH then (Some (NoteTooLong MAX_NOTE_LENGTH), r)
             else if countNotes r \<ge> MAX_NOTES_PER_ROOM
             then (Some (TooManyNotes MAX_NOTES_PER_ROOM), r)
             else (case getUserInfo r cid of
                 Inl err \<Rightarrow> (Some err, r)
               | Inr user \<Rightarrow>
                   (None, publishNotes (insert_note (e_nextNoteId e) (ui_name user) cid s r)))))"

definition deleteNote :: "js_value \<Rightarrow> Room \<Rightarrow> outcome" where
  "deleteNote noteId r =
     (if isTemporary r
      then (Some (FeatureDisabled ''notes are only available in permanent rooms''), r)
      else if \<not> isInteger noteId then (Some (BadApiArgument ''noteId''), r)
      else (case delete_note (js_int noteId) r of
          (deleted, r1) \<Rightarrow> if deleted then (None, publishNotes r1) else (Some NoteNotFound, r1)))"

section \<open>Roles\<close>

fun promote_perm :: "Role \<Rightarrow> string option" where
  "promote_perm Administrator = Some ''manage-users.promote-admin''"
| "promote_perm Moderator = Some ''manage-users.promote-moderator''"
| "promote_perm TrustedUser = Some ''manage-users.promote-trusted-user''"
| "promote_perm _ = None"

fun demote_perm :: "Role \<Rightarrow> string option" where
  "demote_perm Administrator = Some ''manage-users.demote-admin''"
| "demote_perm Moderator = Some ''manage-users.demote-moderator''"
| "demote_perm TrustedUser = Some ''manage-users.demote-trusted-user''"
| "demote_perm _ = None"

text \<open>The checks of a promotion, in the order of the source.\<close>

definition promote_error :: "Role \<Rightarrow> Role \<Rightarrow> Role \<Rightarrow> Grants \<Rightarrow> ott_error option" where
  "promote_error actor target role g =
     (case (case promote_perm role of None \<Rightarrow> None | Some perm \<Rightarrow> check g actor perm) of
        Some err \<Rightarrow> Some err
      | None \<Rightarrow>
          (case (if role < target then
                   (case demote_perm target of
                      None \<Rightarrow> Some ImpossiblePromotion
                    | Some perm \<Rightarrow> check g actor perm)
                 else None) of
             Some err \<Rightarrow> Some err
           | None \<Rightarrow> if target = UnregisteredUser \<or> target = Owner then Some ImpossiblePromotion
                     else None))"

definition assign_role :: "int \<Rightarrow> Role \<Rightarrow> (Role \<times> int list) list \<Rightarrow> (Role \<times> int list) list" where
  "assign_role uid role roles =
     (let cleared = map (\<lambda>(i, s). if i \<in> set promotable_desc then (i, js_delete uid s) else (i, s)) roles
      in if TrustedUser \<le> role
         then map (\<lambda>(i, s). if i = role then (i, js_add uid s) else (i, s)) cleared
         else cleared)"

definition promoteUser :: "ClientId \<Rightarrow> js_value \<Rightarrow> RoomRequestContext \<Rightarrow> Room \<Rightarrow> outcome" where
  "promoteUser targetId wire_role context r =
     (case (if isInteger wire_role then role_of_num (js_int wire_role) else None) of
        None \<Rightarrow> (Some (BadApiArgument ''role''), r)
      | Some role \<Rightarrow>
          if role < RegisteredUser \<or> Administrator < role then (Some (BadApiArgument ''role''), r)
          else case getUser r targetId of
              None \<Rightarrow> (Some (OttException ''Client not found.''), r)
            | Some target \<Rightarrow>
                seq (guard (promote_error (cx_role context) (role_of r target) role (grants r)) r)
                  (\<lambda>r. sync_client (ru_id target)
                     (case ru_user_id target of
                        None \<Rightarrow> r
                      | Some uid \<Rightarrow> r\<lparr>userRoles := assign_role uid role (userRoles r)\<rparr>)))"

definition kickUser :: "ClientId \<Rightarrow> RoomRequestContext \<Rightarrow> Room \<Rightarrow> outcome" where
  "kickUser cid context r =
     (case getUser r cid of
        None \<Rightarrow> (Some (ClientNotFoundInRoom (room_name r)), r)
      | Some u \<Rightarrow> (None, if canKickUser (cx_role context) (role_of r u)
                        then command (KickCommand cid) r else r))"

definition setGrants :: "env \<Rightarrow> Grants \<Rightarrow> Room \<Rightarrow> outcome" where
  "setGrants e g r =
     (case setAllGrants (FromGrants g) of
        Inl err \<Rightarrow> (Some err, r)
      | Inr g' \<Rightarrow> (None, evaluateBufferGate (now e) (markDirty Pgrants (r\<lparr>grants := g'\<rparr>))))"

section \<open>Settings\<close>

text \<open>
  A property equal to the present value is dropped from the request. Lists and objects compare
  by reference, so a list of categories is never dropped and a danmaku source only when both
  are \<^verbatim>\<open>null\<close>.
\<close>

definition drop_same :: "'a \<Rightarrow> 'a option \<Rightarrow> 'a option" where
  "drop_same current v = (if v = Some current then None else v)"

fun role_perm :: "Role \<Rightarrow> string option" where
  "role_perm UnregisteredUser = Some ''configure-room.set-permissions.for-all-unregistered-users''"
| "role_perm RegisteredUser = Some ''configure-room.set-permissions.for-all-registered-users''"
| "role_perm TrustedUser = Some ''configure-room.set-permissions.for-trusted-users''"
| "role_perm Moderator = Some ''configure-room.set-permissions.for-moderator''"
| "role_perm _ = None"

definition changed_grants :: "Room \<Rightarrow> Grants \<Rightarrow> Grants" where
  "changed_grants r g =
     foldl (\<lambda>g' role. if role_perm role \<noteq> None \<and> getMask g' role \<noteq> getMask (grants r) role then g'
                      else deleteRole role g') g (getRoles g)"

definition changed_settings :: "RoomSettings \<Rightarrow> Room \<Rightarrow> RoomSettings" where
  "changed_settings s r =
     s\<lparr>st_title := drop_same (room_title r) (st_title s),
       st_description := drop_same (room_description r) (st_description s),
       st_visibility := drop_same (visibility r) (st_visibility s),
       st_queueMode := drop_same (queueMode r) (st_queueMode s),
       st_restoreQueueBehavior := drop_same (restoreQueueBehavior r) (st_restoreQueueBehavior s),
       st_enableVoteSkip := drop_same (enableVoteSkip r) (st_enableVoteSkip s),
       st_bufferGateMode := drop_same (bufferGateMode r) (st_bufferGateMode s),
       st_danmakuSource := (if st_danmakuSource s = Some None \<and> danmakuSource r = None then None
                            else st_danmakuSource s),
       st_grants := (case st_grants s of
                       None \<Rightarrow> None
                     | Some g \<Rightarrow> (let g' = changed_grants r g in if isEmpty g' then None else Some g'))\<rparr>"

text \<open>
  The permissions the remaining properties need, in the order in which the properties are
  declared.
\<close>

definition needed :: "string \<Rightarrow> 'a option \<Rightarrow> string list" where
  "needed perm v = (if v = None then [] else [perm])"

definition settings_perms :: "RoomSettings \<Rightarrow> string list" where
  "settings_perms s =
     needed ''configure-room.set-title'' (st_title s)
     @ needed ''configure-room.set-description'' (st_description s)
     @ needed ''configure-room.set-visibility'' (st_visibility s)
     @ needed ''configure-room.set-queue-mode'' (st_queueMode s)
     @ needed ''configure-room.other'' (st_autoSkipSegmentCategories s)
     @ needed ''configure-room.other'' (st_restoreQueueBehavior s)
     @ needed ''configure-room.other'' (st_enableVoteSkip s)
     @ needed ''configure-room.other'' (st_bufferGateMode s)
     @ needed ''configure-room.set-danmaku-source'' (st_danmakuSource s)
     @ (case st_grants s of
          None \<Rightarrow> []
        | Some g \<Rightarrow> List.map_filter role_perm (getRoles g))"

text \<open>A new set of categories is brought into the canonical order.\<close>

definition canonical_categories :: "Room \<Rightarrow> string list option \<Rightarrow> bool \<times> string list option" where
  "canonical_categories r v =
     (case v of
        None \<Rightarrow> (False, None)
      | Some cs \<Rightarrow>
          if set cs = set (autoSkipSegmentCategories r) then (False, Some cs)
          else (True, Some (filter (\<lambda>c. c \<in> set cs) ALL_SKIP_CATEGORIES)))"

definition assign_settings :: "RoomSettings \<Rightarrow> Room \<Rightarrow> Room" where
  "assign_settings s r0 =
     (let r1 = assign set_description (st_description s) (assign set_title (st_title s) r0);
          r2 = assign set_queueMode (st_queueMode s) (assign set_visibility (st_visibility s) r1);
          r3 = assign set_autoSkipSegmentCategories (st_autoSkipSegmentCategories s) r2;
          r4 = assign (\<lambda>v r. r\<lparr>restoreQueueBehavior := v\<rparr>) (st_restoreQueueBehavior s) r3;
          r5 = assign set_bufferGateMode (st_bufferGateMode s)
                 (assign set_enableVoteSkip (st_enableVoteSkip s) r4)
      in assign set_danmakuSource (st_danmakuSource s) r5)"

fun apply_grants :: "(Role \<times> GrantMask) list \<Rightarrow> Room \<Rightarrow> outcome" where
  "apply_grants [] r = (None, r)"
| "apply_grants ((role, w) # es) r =
     (if role_perm role = None then apply_grants es r
      else case setRoleGrants (role_num role) (Mask w) (grants r) of
          Inl err \<Rightarrow> (Some err, r)
        | Inr g \<Rightarrow> apply_grants es (markDirty Pgrants (r\<lparr>grants := g\<rparr>)))"

definition applySettings :: "env \<Rightarrow> RoomSettings \<Rightarrow> RoomRequestContext \<Rightarrow> Room \<Rightarrow> outcome" where
  "applySettings e settings context r =
     (let s = changed_settings settings r in
      seq (guard (first_error (check (grants r) (cx_role context)) (settings_perms s)) r)
        (\<lambda>r.
          (let (categoriesChanged, cs) = canonical_categories r (st_autoSkipSegmentCategories s);
               s1 = s\<lparr>st_autoSkipSegmentCategories := cs\<rparr>
           in if st_visibility s1 = Some Private \<and> \<not> truthy_str (passwordHash r)
              then (Some (BadApiArgument ''visibility''), r)
              else seq (apply_grants (case st_grants s1 of None \<Rightarrow> [] | Some g \<Rightarrow> g) (assign_settings s1 r))
                (\<lambda>r. (None, evaluateBufferGate (now e)
                   (if categoriesChanged \<and> autoSkipSegmentCategories r \<noteq> [] \<and> videoSegments r = []
                       \<and> currentSource r \<noteq> None
                    then r\<lparr>wantSponsorBlock := True\<rparr> else r))))))"

end
