(* ===== verification/RoomRequests.thy ===== *)
theory RoomRequests
  imports RoomUsers
begin

text \<open>
  The playback requests of \<^verbatim>\<open>server/room.ts\<close>, undo, and the dispatcher \<^verbatim>\<open>processRequest\<close> with its
  table of permissions and its two entry points.
\<close>

section \<open>Playback\<close>

definition playback :: "env \<Rightarrow> bool \<Rightarrow> RoomRequestContext \<Rightarrow> Room \<Rightarrow> outcome" where
  "playback e state context r =
     (None, publishRoomEvent (PlaybackRequest state) context no_context None
        (if state then play (now e) r else pause (now e) False r))"

text \<open>The roles of the viewers, looked up by client id as \<^verbatim>\<open>getUserInfo\<close> does.\<close>

definition voter_roles :: "Room \<Rightarrow> Role list" where
  "voter_roles r =
     map (\<lambda>u. case getUserInfo r (ru_id u) of Inr i \<Rightarrow> ui_role i | Inl _ \<Rightarrow> UnregisteredUser) (realusers r)"

definition toggle_skip_vote :: "RoomRequestContext \<Rightarrow> Room \<Rightarrow> Room" where
  "toggle_skip_vote context r =
     (if truthy_str (cx_clientId context) then
        (let cid = the (cx_clientId context) in
         markDirty PvotesToSkip
           (r\<lparr>votesToSkip := (if cid \<in> set (votesToSkip r) then js_delete cid (votesToSkip r)
                             else js_add cid (votesToSkip r))\<rparr>))
      else r)"

definition skip_now :: "env \<Rightarrow> RoomRequestContext \<Rightarrow> Room \<Rightarrow> Room" where
  "skip_now e context r =
     set_videoSegments []
       (publishRoomEvent SkipRequest context
          (no_context\<lparr>ev_video := currentSource r,
                      ev_prevPosition := Some (realPlaybackPosition (now e) r)\<rparr>) None
          (dequeueNext e r))"

definition skip_threshold_met :: "Room \<Rightarrow> bool" where
  "skip_threshold_met r \<longleftrightarrow>
     length (votesToSkip r) \<ge> voteSkipThreshold (countEligibleVoters (voter_roles r) (grants r))"

definition skip :: "env \<Rightarrow> RoomRequestContext \<Rightarrow> Room \<Rightarrow> outcome" where
  "skip e context r =
     (if currentSource r = None then (None, r)
      else if enableVoteSkip r then
        (let r1 = toggle_skip_vote context r
         in (None, if skip_threshold_met r1 then skip_now e context r1 else r1))
      else (None, skip_now e context r))"

definition seek :: "env \<Rightarrow> js_value \<Rightarrow> RoomRequestContext \<Rightarrow> Room \<Rightarrow> outcome" where
  "seek e value context r =
     (case value of
        JUndefined \<Rightarrow> (None, r)
      | JNull \<Rightarrow> (None, r)
      | JNumber (Fin x) \<Rightarrow>
          if x < 0 \<or> MAX_SEEK_SECONDS < x then (Some (BadApiArgument ''value''), r)
          else
            (let r1 = publishRoomEvent (SeekRequest value) context
                   (no_context\<lparr>ev_prevPosition := Some (realPlaybackPosition (now e) r)\<rparr>) None
                   (seekRaw (now e) x r)
             in (None, r1\<lparr>dontSkipSegmentsUntil :=
                   map_option seg_endTime (getSegmentForTime (playbackPosition r1) r1)\<rparr>))
      | _ \<Rightarrow> (Some (BadApiArgument ''value''), r))"

definition setPlaybackSpeed :: "env \<Rightarrow> js_number \<Rightarrow> Room \<Rightarrow> outcome" where
  "setPlaybackSpeed e speed r =
     (case speed of
        Fin x \<Rightarrow>
          if x < 1 / 4 \<or> 4 < x then (Some (BadApiArgument ''speed''), r)
          else (None, set_playbackSpeed x
                  (flushPlaybackPosition (now e) (endTemporaryPlaybackSpeed (now e) False r)))
      | _ \<Rightarrow> (Some (BadApiArgument ''speed''), r))"

definition gesture_char :: "char \<Rightarrow> bool" where
  "gesture_char c =
     (let n = of_char c :: nat in
      97 \<le> n \<and> n \<le> 122 \<or> 65 \<le> n \<and> n \<le> 90 \<or> 48 \<le> n \<and> n \<le> 57 \<or> n = 95 \<or> n = 45)"

definition gesture_id_ok :: "string \<Rightarrow> bool" where
  "gesture_id_ok g \<longleftrightarrow> list_all gesture_char g \<and> 1 \<le> length g \<and> length g \<le> 64"

definition gesture_start :: "env \<Rightarrow> ClientId \<Rightarrow> string \<Rightarrow> VideoId option \<Rightarrow> Room \<Rightarrow> Room" where
  "gesture_start e cid gestureId video r =
     (if (\<not> isPlaying r \<and> \<not> bufferingGateHeld r)
         \<or> (case currentSource r of
              None \<Rightarrow> True
            | Some v \<Rightarrow> \<not> positive_length (v_length v) \<or> Some (video_id v) \<noteq> video)
         \<or> temporarySpeed r \<noteq> None
      then r
      else
        (let r1 = releaseBufferGate (now e) False r in
         if \<not> isPlaying r1 then r1
         else
           (let r2 = flushPlaybackPosition (now e) r1;
                r3 = r2\<lparr>temporarySpeed := Some
                       \<lparr>ts_clientId = cid, ts_gestureId = gestureId,
                        ts_speed = TEMPORARY_PLAYBACK_SPEED, ts_previousSpeed = playbackSpeed r2\<rparr>\<rparr>
            in renewTemporaryPlaybackSpeed (now e)
                 (markDirty PtemporaryPlaybackSpeed
                    (set_playbackSpeed TEMPORARY_PLAYBACK_SPEED r3)))))"

definition setTemporaryPlaybackSpeed ::
    "env \<Rightarrow> GestureAction \<Rightarrow> string \<Rightarrow> VideoId option \<Rightarrow> RoomRequestContext \<Rightarrow> Room \<Rightarrow> outcome" where
  "setTemporaryPlaybackSpeed e action gestureId video context r =
     (if \<not> gesture_id_ok gestureId \<or> action = GestureOther then (Some (BadApiArgument ''gesture''), r)
      else if \<not> truthy_str (cx_clientId context) \<or> getUser r (the (cx_clientId context)) = None
      then (Some (ClientNotFoundInRoom (room_name r)), r)
      else
        (let cid = the (cx_clientId context);
             ownsGesture = (case temporarySpeed r of
                              None \<Rightarrow> False
                            | Some s \<Rightarrow> ts_clientId s = cid \<and> ts_gestureId s = gestureId)
         in if action = GestureStop
            then (None, if ownsGesture then endTemporaryPlaybackSpeed (now e) True r else r)
            else seq (guard (check (grants r) (cx_role context) ''playback.speed'') r)
              (\<lambda>r. (None,
                 if action = GestureRenew
                 then (if ownsGesture then renewTemporaryPlaybackSpeed (now e) r else r)
                 else gesture_start e cid gestureId video r))))"

section \<open>Dispatch\<close>

fun request_permission :: "RoomRequest \<Rightarrow> string option" where
  "request_permission (PlaybackRequest _) = Some ''playback.play-pause''"
| "request_permission SkipRequest = Some ''playback.skip''"
| "request_permission (SeekRequest _) = Some ''playback.seek''"
| "request_permission (AddRequest _ _ _) = Some ''manage-queue.add''"
| "request_permission (UpdateQueueItemRequest _ _) = Some ''manage-queue.edit''"
| "request_permission (RemoveRequest _) = Some ''manage-queue.remove''"
| "request_permission (OrderRequest _ _) = Some ''manage-queue.order''"
| "request_permission (VoteRequest _ _) = Some ''manage-queue.vote''"
| "request_permission (ChatRequest _) = Some ''chat''"
| "request_permission (PlayNowRequest _) = Some ''manage-queue.play-now''"
| "request_permission ShuffleRequest = Some ''manage-queue.order''"
| "request_permission (PlaybackSpeedRequest _) = Some ''playback.speed''"
| "request_permission (KickRequest _) = Some ''manage-users.kick''"
| "request_permission (AddNoteRequest _) = Some ''configure-room.set-notes''"
| "request_permission (DeleteNoteRequest _) = Some ''configure-room.set-notes''"
| "request_permission _ = None"

text \<open>
  The handlers other than \<^verbatim>\<open>undo\<close>, which itself sends two kinds of request through the
  dispatcher and follows below.
\<close>

fun handle :: "env \<Rightarrow> RoomRequest \<Rightarrow> RoomRequestContext \<Rightarrow> Room \<Rightarrow> outcome" where
  "handle e (JoinRequest info reconnect) c r = joinRoom e info reconnect c r"
| "handle e LeaveRequest c r = leaveRoom e c r"
| "handle e (PlaybackRequest state) c r = playback e state c r"
| "handle e SkipRequest c r = skip e c r"
| "handle e (SeekRequest value) c r = seek e value c r"
| "handle e (AddRequest video videos url) c r = addToQueue e video videos url c r"
| "handle e (UpdateQueueItemRequest video sub) c r = updateQueueItem e video sub c r"
| "handle e (RemoveRequest video) c r = removeFromQueue video c r"
| "handle e (OrderRequest fromIdx toIdx) c r = reorderQueue fromIdx toIdx r"
| "handle e (VoteRequest video add) c r = vote video add c r"
| "handle e (PromoteRequest target role) c r = promoteUser target role c r"
| "handle e (UpdateUser info prepared) c r = updateUser e info prepared r"
| "handle e (ChatRequest txt) c r = chat txt c r"
| "handle e (ApplySettingsRequest s) c r = applySettings e s c r"
| "handle e (PlayNowRequest v) c r = playNow e v c r"
| "handle e ShuffleRequest c r = shuffle_queue e c r"
| "handle e (PlaybackSpeedRequest speed) c r = setPlaybackSpeed e speed r"
| "handle e (RestoreQueueRequest discard) c r = restoreQueue discard c r"
| "handle e (KickRequest cid) c r = kickUser cid c r"
| "handle e (TemporaryPlaybackSpeedRequest action g video) c r =
     setTemporaryPlaybackSpeed e action g video c r"
| "handle e (AddNoteRequest txt) c r = addNote e txt c r"
| "handle e (DeleteNoteRequest nid) c r = deleteNote nid r"
| "handle e (UndoRequest _) c r = (None, r)"

definition authorize :: "RoomRequest \<Rightarrow> RoomRequestContext \<Rightarrow> Room \<Rightarrow> outcome" where
  "authorize request context r =
     guard (case request_permission request of
              None \<Rightarrow> None
            | Some perm \<Rightarrow> check (grants r) (cx_role context) perm) r"

definition process_basic :: "env \<Rightarrow> RoomRequest \<Rightarrow> RoomRequestContext \<Rightarrow> Room \<Rightarrow> outcome" where
  "process_basic e request context r =
     seq (authorize request context r) (handle e request context)"

section \<open>Undo\<close>

text \<open>\<^verbatim>\<open>undoEventSchema\<close>: the four undoable kinds, known services, bounded ids and positions.\<close>

datatype undo_kind = UndoSeek | UndoSkip | UndoAdd | UndoRemove

fun undo_kind_of :: "RoomRequest \<Rightarrow> undo_kind option" where
  "undo_kind_of (SeekRequest _) = Some UndoSeek"
| "undo_kind_of SkipRequest = Some UndoSkip"
| "undo_kind_of (AddRequest _ _ _) = Some UndoAdd"
| "undo_kind_of (RemoveRequest _) = Some UndoRemove"
| "undo_kind_of _ = None"

text \<open>\<^verbatim>\<open>request.video\<close> of a request, as far as undoable requests have one.\<close>

fun request_video :: "RoomRequest \<Rightarrow> VideoAdd option" where
  "request_video (AddRequest video _ _) = video"
| "request_video (RemoveRequest video) = Some (plain_add video)"
| "request_video _ = None"

definition undo_video_ok :: "VideoId \<Rightarrow> bool" where
  "undo_video_ok v \<longleftrightarrow>
     fst v \<in> set ALL_VIDEO_SERVICES \<and> snd v \<noteq> [] \<and> length (snd v) \<le> MAX_VIDEO_ID_LENGTH"

definition undoEventSchema :: "ServerMessageEvent \<Rightarrow> bool" where
  "undoEventSchema ev \<longleftrightarrow>
     undo_kind_of (event_request ev) \<noteq> None
     \<and> (case request_video (event_request ev) of None \<Rightarrow> True | Some v \<Rightarrow> undo_video_ok (va_video v))
     \<and> (case ev_video (event_additional ev) of None \<Rightarrow> True | Some v \<Rightarrow> undo_video_ok (video_id v))
     \<and> (case ev_prevPosition (event_additional ev) of None \<Rightarrow> True | Some x \<Rightarrow> 0 \<le> x)"

text \<open>The fields by which an echo is matched with a recorded event.\<close>

definition undo_fields ::
    "ServerMessageEvent \<Rightarrow> undo_kind option \<times> QueueItem option \<times> rat option \<times> nat option \<times> VideoAdd option" where
  "undo_fields ev =
     (undo_kind_of (event_request ev), ev_video (event_additional ev),
      ev_prevPosition (event_additional ev), ev_queueIdx (event_additional ev),
      request_video (event_request ev))"

fun find_index :: "('a \<Rightarrow> bool) \<Rightarrow> 'a list \<Rightarrow> nat option" where
  "find_index P [] = None"
| "find_index P (x # xs) = (if P x then Some 0 else map_option Suc (find_index P xs))"

definition findRecentEvent :: "ServerMessageEvent \<Rightarrow> Room \<Rightarrow> nat option" where
  "findRecentEvent echo r = find_index (\<lambda>c. undo_fields c = undo_fields echo) (recentEvents r)"

definition undo_seek :: "env \<Rightarrow> ServerMessageEvent \<Rightarrow> RoomRequestContext \<Rightarrow> Room \<Rightarrow> outcome" where
  "undo_seek e ev context r =
     (case ev_prevPosition (event_additional ev) of
        None \<Rightarrow> (None, r)
      | Some x \<Rightarrow> process_basic e (SeekRequest (JNumber (Fin x))) context r)"

definition undo_skip :: "env \<Rightarrow> ServerMessageEvent \<Rightarrow> RoomRequestContext \<Rightarrow> Room \<Rightarrow> outcome" where
  "undo_skip e ev context r =
     seq (guard (first_error (check (grants r) (cx_role context))
            [''playback.skip'', ''playback.seek'', ''manage-queue.add'', ''manage-queue.play-now'']) r)
       (\<lambda>r. seq (case currentSource r of
                   None \<Rightarrow> (None, r)
                 | Some v \<Rightarrow> if contains (video_id v) (queue r) then (None, r)
                             else apply_queue True (pushTop [v] (queue r)) r)
         (\<lambda>r. case (ev_video (event_additional ev), ev_prevPosition (event_additional ev)) of
             (Some v, Some x) \<Rightarrow>
               (None, (set_playbackPosition x (set_currentSource (now e) (Some v) r))
                        \<lparr>playbackStart := Some (now e)\<rparr>)
           | _ \<Rightarrow> (None, r)))"

definition undo_add :: "env \<Rightarrow> ServerMessageEvent \<Rightarrow> RoomRequestContext \<Rightarrow> Room \<Rightarrow> outcome" where
  "undo_add e ev context r =
     seq (guard (check (grants r) (cx_role context) ''manage-queue.remove'') r)
       (\<lambda>r. case request_video (event_request ev) of
           Some v \<Rightarrow>
             if queue_length (queue r) > 0 then process_basic e (RemoveRequest (va_video v)) context r
             else seq (guard (check (grants r) (cx_role context) ''playback.skip'') r)
               (\<lambda>r. (None, set_currentSource (now e) None r))
         | None \<Rightarrow> seq (guard (check (grants r) (cx_role context) ''playback.skip'') r)
               (\<lambda>r. (None, set_currentSource (now e) None r)))"

definition undo_remove :: "ServerMessageEvent \<Rightarrow> RoomRequestContext \<Rightarrow> Room \<Rightarrow> outcome" where
  "undo_remove ev context r =
     seq (guard (first_error (check (grants r) (cx_role context))
            [''manage-queue.add'', ''manage-queue.order'']) r)
       (\<lambda>r. case (ev_video (event_additional ev), ev_queueIdx (event_additional ev)) of
           (Some v, Some i) \<Rightarrow> apply_queue True (insert_at v (int i) (queue r)) r
         | _ \<Rightarrow> (None, r))"

definition undo_apply :: "env \<Rightarrow> ServerMessageEvent \<Rightarrow> RoomRequestContext \<Rightarrow> Room \<Rightarrow> outcome" where
  "undo_apply e ev context r =
     (case undo_kind_of (event_request ev) of
        Some UndoSeek \<Rightarrow> undo_seek e ev context r
      | Some UndoSkip \<Rightarrow> undo_skip e ev context r
      | Some UndoAdd \<Rightarrow> undo_add e ev context r
      | Some UndoRemove \<Rightarrow> undo_remove ev context r
      | None \<Rightarrow> (None, r))"

text \<open>
  The applied event is found again by identity. Applying it may itself have published an event
  and so have pushed the oldest one out of a full list, which moves the others by one place.
\<close>

definition forget_event :: "nat \<Rightarrow> Room \<Rightarrow> Room \<Rightarrow> Room" where
  "forget_event i before r =
     (let shifted = (length (recentEvents before) = RECENT_EVENTS_LIMIT
                     \<and> length (outbox before) < length (outbox r))
      in if shifted \<and> i = 0 then r
         else r\<lparr>recentEvents := splice_out (if shifted then i - 1 else i) (recentEvents r)\<rparr>)"

definition undo :: "env \<Rightarrow> ServerMessageEvent \<Rightarrow> RoomRequestContext \<Rightarrow> Room \<Rightarrow> outcome" where
  "undo e echo context r =
     (if \<not> undoEventSchema echo then (Some (BadApiArgument ''event''), r)
      else case findRecentEvent echo r of
          None \<Rightarrow> (Some UndoEventUnavailable, r)
        | Some i \<Rightarrow> seq (undo_apply e (recentEvents r ! i) context r)
                     (\<lambda>r1. (None, forget_event i r r1)))"

section \<open>The entry points\<close>

definition processRequest :: "env \<Rightarrow> RoomRequest \<Rightarrow> RoomRequestContext \<Rightarrow> Room \<Rightarrow> outcome" where
  "processRequest e request context r =
     (case request of
        UndoRequest ev \<Rightarrow> undo e ev context r
      | _ \<Rightarrow> process_basic e request context r)"

definition processUnauthorizedRequest ::
    "env \<Rightarrow> RoomRequest \<Rightarrow> RoomRequestAuthorization \<Rightarrow> Room \<Rightarrow> outcome" where
  "processUnauthorizedRequest e request au r =
     (let au' = (if truthy_str (au_clientId au) then au
                 else case getClientIdFromToken r (au_token au) of
                     Inl _ \<Rightarrow> au
                   | Inr cid \<Rightarrow> au\<lparr>au_clientId := Some cid\<rparr>)
      in case deriveRequestContext e r au' of
           Inl err \<Rightarrow> (Some err, r)
         | Inr context \<Rightarrow> processRequest e request context r)"

definition processRequestUnsafe :: "env \<Rightarrow> RoomRequest \<Rightarrow> ClientId \<Rightarrow> Room \<Rightarrow> outcome" where
  "processRequestUnsafe e request cid r =
     (case getUserInfo r cid of
        Inl err \<Rightarrow> (Some err, r)
      | Inr info \<Rightarrow>
          processRequest e request
            \<lparr>cx_username = ui_name info, cx_role = ui_role info, cx_clientId = Some cid,
             cx_auth = None\<rparr> r)"

end
