(* ===== verification/RoomTick.thy ===== *)
theory RoomTick
  imports RoomRequests
begin

text \<open>
  The periodic tick \<^verbatim>\<open>Room.update\<close>, the bodies of the room's timers, and the room as a machine
  whose events are requests, ticks, timers, checkpoints and unloading.
\<close>

section \<open>The tick\<close>

text \<open>Whether the preparation round is released in this tick, and how.\<close>

definition tick_schedule :: "int \<Rightarrow> Room \<Rightarrow> Room" where
  "tick_schedule t r =
     (case playbackPreparation r of
        None \<Rightarrow> r
      | Some p \<Rightarrow>
          if pp_startAt p \<noteq> None then r
          else if allEligibleReady r p then schedulePlaybackStart t None r
          else if pp_deadlineAt p \<le> t then
            (if pp_ready p \<noteq> [] then schedulePlaybackStart t (Some FallbackPartial) r
             else if pp_hardDeadlineAt p \<le> t then schedulePlaybackStart t (Some FallbackForced) r
             else if pp_fallback p \<noteq> Some FallbackNone
             then markDirty PplaybackPreparation
                    (r\<lparr>playbackPreparation := Some (p\<lparr>pp_fallback := Some FallbackNone\<rparr>)\<rparr>)
             else r)
          else r)"

definition tick_start :: "int \<Rightarrow> Room \<Rightarrow> Room" where
  "tick_start t r =
     (case playbackPreparation r of
        None \<Rightarrow> r
      | Some p \<Rightarrow>
          (case pp_startAt p of
             None \<Rightarrow> r
           | Some startAt \<Rightarrow> if startAt \<le> t then startPreparedPlayback t r else r))"

definition tick_preparation :: "int \<Rightarrow> Room \<Rightarrow> Room" where
  "tick_preparation t r =
     (if playbackPreparation r = None then r
      else tick_start t (tick_schedule t (refreshPlaybackPreparation r)))"

text \<open>A gesture whose owner is gone or may no longer change the speed ends.\<close>

definition tick_gesture :: "int \<Rightarrow> Room \<Rightarrow> Room" where
  "tick_gesture t r =
     (case temporarySpeed r of
        None \<Rightarrow> r
      | Some s \<Rightarrow>
          (case getUser r (ts_clientId s) of
             None \<Rightarrow> endTemporaryPlaybackSpeed t True r
           | Some u \<Rightarrow> if user_granted r u ''playback.speed'' then r
                       else endTemporaryPlaybackSpeed t True r))"

text \<open>The end of a video: \<^verbatim>\<open>endAt\<close> or the length; unknown, endless and live ones have none.\<close>

definition source_end :: "QueueItem \<Rightarrow> rat option" where
  "source_end v =
     (if v_isLive v = Some True then None
      else case (case v_endAt v of Some x \<Rightarrow> Some x | None \<Rightarrow> v_length v) of
          Some (Fin x) \<Rightarrow> if 0 < x then Some x else None
        | _ \<Rightarrow> None)"

definition currentEnded :: "int \<Rightarrow> Room \<Rightarrow> bool" where
  "currentEnded t r =
     (case currentSource r of
        None \<Rightarrow> False
      | Some v \<Rightarrow>
          isPlaying r
          \<and> (case source_end v of None \<Rightarrow> False | Some stop \<Rightarrow> stop < realPlaybackPosition t r))"

definition tick_next :: "env \<Rightarrow> Room \<Rightarrow> Room" where
  "tick_next e r =
     (if (currentSource r = None \<and> queue_length (queue r) > 0) \<or> currentEnded (now e) r
      then dequeueNext e r else r)"

definition tick_keepalive :: "env \<Rightarrow> Room \<Rightarrow> Room" where
  "tick_keepalive e r =
     (if users r \<noteq> [] \<and> of_int (keepAlivePing r) + e_unload_after e * (9 / 10) * 1000 < of_int (now e)
      then r\<lparr>keepAlivePing := now e\<rparr> else r)"

definition vote_count :: "Room \<Rightarrow> QueueItem \<Rightarrow> nat" where
  "vote_count r v =
     (case map_of (votes r) (vote_key (video_id v)) of None \<Rightarrow> 0 | Some cs \<Rightarrow> length cs)"

definition tick_order :: "env \<Rightarrow> Room \<Rightarrow> Room" where
  "tick_order e r =
     (if queueMode r = Vote then
        (let sorted_items = e_orderBy e (vote_count r) (items (queue r));
             q = orderBy (e_orderBy e (vote_count r)) (queue r)
         in if sorted_items \<noteq> [] \<and> sorted_items \<noteq> items (queue r) then changed_queue q r
            else r\<lparr>queue := q\<rparr>)
      else r)"

definition fetchSponsorBlockSegments :: "env \<Rightarrow> Room \<Rightarrow> Room" where
  "fetchSponsorBlockSegments e r =
     (case currentSource r of
        Some v \<Rightarrow>
          if v_service v = ''youtube'' then
            (case e_fetchSegments e (v_id v) of
               None \<Rightarrow> r
             | Some segs \<Rightarrow> set_videoSegments segs r)
          else if videoSegments r \<noteq> [] then set_videoSegments [] r else r
      | None \<Rightarrow> if videoSegments r \<noteq> [] then set_videoSegments [] r else r)"

definition skip_segment :: "int \<Rightarrow> Room \<Rightarrow> Room" where
  "skip_segment t r =
     (if isPlaying r \<and> videoSegments r \<noteq> [] \<and> dontSkipSegmentsUntil r = None then
        (case getSegmentForTime (realPlaybackPosition t r) r of
           None \<Rightarrow> r
         | Some s \<Rightarrow>
             if seg_category s \<in> set (autoSkipSegmentCategories r)
             then publish (MsgEventCustom (''Skipped '' @ seg_category s)) (seekRaw t (seg_endTime s) r)
             else r)
      else r)"

definition tick_segments :: "env \<Rightarrow> Room \<Rightarrow> Room" where
  "tick_segments e r =
     (if e_sponsorblock_enabled e \<and> autoSkipSegmentCategories r \<noteq> [] then
        (let r1 = (if wantSponsorBlock r
                   then fetchSponsorBlockSegments e (r\<lparr>wantSponsorBlock := False\<rparr>) else r);
             r2 = (case dontSkipSegmentsUntil r1 of
                     None \<Rightarrow> r1
                   | Some until \<Rightarrow>
                       if until \<noteq> 0 \<and> until \<le> realPlaybackPosition (now e) r1
                       then r1\<lparr>dontSkipSegmentsUntil := None\<rparr> else r1)
         in skip_segment (now e) r2)
      else r)"

definition update_room :: "env \<Rightarrow> Room \<Rightarrow> Room" where
  "update_room e r =
     tick_segments e (tick_order e (tick_keepalive e (tick_next e
       (tick_gesture (now e) (tick_preparation (now e) (evaluateBufferGate (now e) r))))))"

section \<open>Timers\<close>

definition temporary_speed_timer :: "int \<Rightarrow> Room \<Rightarrow> Room" where
  "temporary_speed_timer t r =
     (case temporarySpeedTimer r of
        None \<Rightarrow> r
      | Some due \<Rightarrow> if due \<le> t then endTemporaryPlaybackSpeed t True r else r)"

definition playback_start_timer :: "int \<Rightarrow> Room \<Rightarrow> Room" where
  "playback_start_timer t r =
     (case playbackStartTimer r of
        None \<Rightarrow> r
      | Some due \<Rightarrow> if due \<le> t then startPreparedPlayback t r else r)"

section \<open>The room as a machine\<close>

text \<open>
  One event of the event loop, with the environment it reads. A request that throws leaves the
  state its handler had reached.
\<close>

datatype room_event =
    Request env RoomRequest RoomRequestContext
  | Tick env
  | SpeedTimer int
  | StartTimer int
  | LeaveTimer AuthToken
  | Checkpoint env
  | Unload env
  | SetGrants env Grants
  | SetPassword "string option"

primrec room_step :: "Room \<Rightarrow> room_event \<Rightarrow> Room" where
  "room_step r (Request e req c) = snd (processRequest e req c r)"
| "room_step r (Tick e) = update_room e r"
| "room_step r (SpeedTimer t) = temporary_speed_timer t r"
| "room_step r (StartTimer t) = playback_start_timer t r"
| "room_step r (LeaveTimer token) = leave_timer token r"
| "room_step r (Checkpoint e) = snd (syncDirty e r)"
| "room_step r (Unload e) = snd (onBeforeUnload e r)"
| "room_step r (SetGrants e g) = snd (setGrants e g r)"
| "room_step r (SetPassword h) = setPasswordHash h r"

end
