(* ===== verification/RoomInv.thy ===== *)
theory RoomInv
  imports RoomTick
begin

text \<open>
  The invariants of a room and that every event keeps them. Two projections carry the proofs:
  \<open>outside\<close> forgets everything the playback engine writes, so one equation per operation frames
  all the other fields; \<open>playstate\<close> is the part the playback invariant speaks about.
\<close>

section \<open>Frames\<close>

definition outside :: "Room \<Rightarrow> Room" where
  "outside r =
     r\<lparr>bufferGateExhausted := [], bufferGate := None, lastPlayAt := None,
       bufferGateCooldownUntil := None, restoredFromStorage := False, currentSource := None,
       isPlaying := False, playbackPosition := 0, playbackSpeed := 1, temporarySpeed := None,
       temporarySpeedTimer := None, playbackStartTimer := None, playbackPreparation := None,
       resumeOnNextJoin := False, dirty := [], playbackStart := None\<rparr>"

lemmas setter_defs = markDirty_def set_playbackPosition_def set_playbackSpeed_def
  set_videoSegments_def flushPlaybackPosition_def

lemma outside_set [frame]:
  "outside (markDirty p r) = outside r"
  "outside (set_playbackPosition x r) = outside r"
  "outside (set_playbackSpeed x r) = outside r"
  "outside (flushPlaybackPosition t r) = outside r"
  "outside (r\<lparr>playbackStart := s\<rparr>) = outside r"
  "outside (r\<lparr>bufferGate := g\<rparr>) = outside r"
  "outside (r\<lparr>bufferGateExhausted := cs\<rparr>) = outside r"
  "outside (r\<lparr>lastPlayAt := l\<rparr>) = outside r"
  "outside (r\<lparr>bufferGateCooldownUntil := l\<rparr>) = outside r"
  "outside (r\<lparr>restoredFromStorage := b\<rparr>) = outside r"
  "outside (r\<lparr>currentSource := c\<rparr>) = outside r"
  "outside (r\<lparr>isPlaying := b\<rparr>) = outside r"
  "outside (r\<lparr>temporarySpeed := ts\<rparr>) = outside r"
  "outside (r\<lparr>temporarySpeedTimer := l\<rparr>) = outside r"
  "outside (r\<lparr>playbackStartTimer := l\<rparr>) = outside r"
  "outside (r\<lparr>playbackPreparation := p'\<rparr>) = outside r"
  "outside (r\<lparr>resumeOnNextJoin := b\<rparr>) = outside r"
  by (simp_all add: outside_def setter_defs)

lemma outside_ops [frame]:
  "outside (endTemporaryPlaybackSpeed t b r) = outside r"
  "outside (renewTemporaryPlaybackSpeed t r) = outside r"
  "outside (clearPlaybackStartTimer r) = outside r"
  "outside (cancelPlaybackPreparation r) = outside r"
  by (simp_all add: endTemporaryPlaybackSpeed_def renewTemporaryPlaybackSpeed_def
      clearPlaybackStartTimer_def cancelPlaybackPreparation_def Let_def frame split: option.split)

lemma outside_accessors [frame]:
  "outside (set_currentSource t c r) = outside r"
  "outside (set_isPlaying t b r) = outside r"
  by (simp_all add: set_currentSource_def set_isPlaying_def Let_def frame)

lemma outside_play [frame]:
  "outside (play t r) = outside r"
  "outside (pausePlaybackClock t r) = outside r"
  "outside (pause t b r) = outside r"
  "outside (seekRaw t x r) = outside r"
  by (simp_all add: play_def pausePlaybackClock_def pause_def seekRaw_def Let_def frame)

lemma outside_start [frame]: "outside (startPreparedPlayback t r) = outside r"
  by (simp add: startPreparedPlayback_def Let_def frame split: option.split)

lemma outside_schedule [frame]: "outside (schedulePlaybackStart t f r) = outside r"
  by (simp add: schedulePlaybackStart_def Let_def frame split: option.split)

lemma outside_drop [frame]: "outside (dropPlaybackParticipant t c r) = outside r"
  by (simp add: dropPlaybackParticipant_def Let_def frame split: option.split list.split)

lemma outside_refresh [frame]: "outside (refreshPlaybackPreparation r) = outside r"
  by (simp add: refreshPlaybackPreparation_def Let_def frame split: option.split list.split)

lemma outside_prepare [frame]:
  "outside (prepareEmptyRoomPlayback e r) = outside r"
  by (simp add: prepareEmptyRoomPlayback_def frame split: option.split list.split)

lemma outside_hold [frame]:
  "outside (holdPlaybackForPreparation e r) = outside r"
  "outside (holdEmptyPlaybackForJoin t b r) = outside r"
  by (simp_all add: holdPlaybackForPreparation_def holdEmptyPlaybackForJoin_def Let_def frame)

lemma outside_finish [frame]: "outside (finishPlaybackPreparation t c s p r) = outside r"
  by (simp add: finishPlaybackPreparation_def Let_def frame split: option.split)

lemma outside_gate [frame]:
  "outside (releaseBufferGate t b r) = outside r"
  by (simp add: releaseBufferGate_def Let_def frame split: option.split)

lemma outside_evaluate [frame]: "outside (evaluateBufferGate t r) = outside r"
  by (simp add: evaluateBufferGate_def Let_def frame split: option.split)

text \<open>What a frame says about the single fields.\<close>

lemma outside_fields:
  assumes "outside a = outside b"
  shows "queue a = queue b" "recentEvents a = recentEvents b" "grants a = grants b"
    "userRoles a = userRoles b" "owner a = owner b" "votes a = votes b"
    "votesToSkip a = votesToSkip b" "pendingLeaveEvents a = pendingLeaveEvents b"
    "realusers a = realusers b" "db_notes a = db_notes b" "outbox a = outbox b"
    "queueMode a = queueMode b" "enableVoteSkip a = enableVoteSkip b" "isTemporary a = isTemporary b"
    "prevQueue a = prevQueue b" "videoSegments a = videoSegments b" "visibility a = visibility b"
    "passwordHash a = passwordHash b"
    "autoSkipSegmentCategories a = autoSkipSegmentCategories b" "bufferGateMode a = bufferGateMode b"
proof -
  have sel: "queue (outside r) = queue r" "recentEvents (outside r) = recentEvents r"
    "grants (outside r) = grants r" "userRoles (outside r) = userRoles r" "owner (outside r) = owner r"
    "votes (outside r) = votes r" "votesToSkip (outside r) = votesToSkip r"
    "pendingLeaveEvents (outside r) = pendingLeaveEvents r" "realusers (outside r) = realusers r"
    "db_notes (outside r) = db_notes r" "outbox (outside r) = outbox r"
    "queueMode (outside r) = queueMode r" "enableVoteSkip (outside r) = enableVoteSkip r"
    "isTemporary (outside r) = isTemporary r" "prevQueue (outside r) = prevQueue r"
    "videoSegments (outside r) = videoSegments r" "visibility (outside r) = visibility r"
    "passwordHash (outside r) = passwordHash r"
    "autoSkipSegmentCategories (outside r) = autoSkipSegmentCategories r"
    "bufferGateMode (outside r) = bufferGateMode r" for r
    by (simp_all add: outside_def)
  show "queue a = queue b" "recentEvents a = recentEvents b" "grants a = grants b"
    "userRoles a = userRoles b" "owner a = owner b" "votes a = votes b"
    "votesToSkip a = votesToSkip b" "pendingLeaveEvents a = pendingLeaveEvents b"
    "realusers a = realusers b" "db_notes a = db_notes b" "outbox a = outbox b"
    "queueMode a = queueMode b" "enableVoteSkip a = enableVoteSkip b" "isTemporary a = isTemporary b"
    "prevQueue a = prevQueue b" "videoSegments a = videoSegments b" "visibility a = visibility b"
    "passwordHash a = passwordHash b"
    "autoSkipSegmentCategories a = autoSkipSegmentCategories b" "bufferGateMode a = bufferGateMode b"
    using assms by (metis sel)+
qed

lemmas outside_frames [simp] =
  frame [THEN outside_fields(1)]
  frame [THEN outside_fields(2)]
  frame [THEN outside_fields(3)]
  frame [THEN outside_fields(4)]
  frame [THEN outside_fields(5)]
  frame [THEN outside_fields(6)]
  frame [THEN outside_fields(7)]
  frame [THEN outside_fields(8)]
  frame [THEN outside_fields(9)]
  frame [THEN outside_fields(10)]
  frame [THEN outside_fields(11)]
  frame [THEN outside_fields(12)]
  frame [THEN outside_fields(13)]
  frame [THEN outside_fields(14)]
  frame [THEN outside_fields(15)]
  frame [THEN outside_fields(16)]
  frame [THEN outside_fields(17)]
  frame [THEN outside_fields(18)]
  frame [THEN outside_fields(19)]
  frame [THEN outside_fields(20)]

section \<open>The playback invariant\<close>

text \<open>
  A preparation round is about the current video at the current position, in a paused room that
  means to resume; only its eligible viewers have reported.
\<close>

definition prep_inv :: "Room \<Rightarrow> bool" where
  "prep_inv r =
     (case playbackPreparation r of
        None \<Rightarrow> True
      | Some p \<Rightarrow>
          \<not> isPlaying r \<and> resumeOnNextJoin r \<and> canPreparePlayback r
          \<and> map_option video_id (currentSource r) = Some (pp_video p)
          \<and> pp_position p = playbackPosition r \<and> 0 \<le> pp_position p
          \<and> rd_clientId ` set (pp_ready p) \<subseteq> set (pp_eligible p)
          \<and> distinct (map rd_clientId (pp_ready p))
          \<and> pp_deadlineAt p \<le> pp_hardDeadlineAt p)"

text \<open>A held gesture doubles the speed of a playing video.\<close>

definition gesture_inv :: "Room \<Rightarrow> bool" where
  "gesture_inv r =
     (case temporarySpeed r of
        None \<Rightarrow> True
      | Some s \<Rightarrow> isPlaying r \<and> currentSource r \<noteq> None \<and> bufferGate r = None
                  \<and> playbackSpeed r = TEMPORARY_PLAYBACK_SPEED
                  \<and> ts_speed s = TEMPORARY_PLAYBACK_SPEED)"

text \<open>The buffer gate holds a paused room that has a video and no other reason to be paused.\<close>

definition gate_inv :: "Room \<Rightarrow> bool" where
  "gate_inv r =
     (case bufferGate r of
        None \<Rightarrow> True
      | Some g \<Rightarrow> bg_pausedByGate g \<and> \<not> isPlaying r \<and> \<not> resumeOnNextJoin r \<and> currentSource r \<noteq> None)"

definition play_inv :: "Room \<Rightarrow> bool" where
  "play_inv r \<longleftrightarrow>
     prep_inv r \<and> gesture_inv r \<and> gate_inv r \<and> (resumeOnNextJoin r \<longrightarrow> \<not> isPlaying r)"

lemmas play_inv_defs = play_inv_def prep_inv_def gesture_inv_def gate_inv_def

definition playstate where
  "playstate r = (currentSource r, isPlaying r, playbackPosition r, playbackSpeed r,
     temporarySpeed r, playbackPreparation r, resumeOnNextJoin r, bufferGate r)"

lemma play_inv_cong: "playstate a = playstate b \<Longrightarrow> play_inv a \<longleftrightarrow> play_inv b"
  by (simp add: playstate_def play_inv_defs canPreparePlayback_def split: option.split)

lemma play_inv_markDirty [simp]: "play_inv (markDirty p r) = play_inv r"
  by (rule play_inv_cong) (simp add: playstate_def markDirty_def)

lemma canPrepare_cong [simp]:
  "canPreparePlayback (markDirty p r) = canPreparePlayback r"
  by (simp add: canPreparePlayback_def markDirty_def)

text \<open>The engine's operations, from the inside out.\<close>

lemma endTemporary_fields [simp]:
  "temporarySpeed (endTemporaryPlaybackSpeed t b r) = None"
  "isPlaying (endTemporaryPlaybackSpeed t b r) = isPlaying r"
  "currentSource (endTemporaryPlaybackSpeed t b r) = currentSource r"
  "playbackPreparation (endTemporaryPlaybackSpeed t b r) = playbackPreparation r"
  "resumeOnNextJoin (endTemporaryPlaybackSpeed t b r) = resumeOnNextJoin r"
  "bufferGate (endTemporaryPlaybackSpeed t b r) = bufferGate r"
  "restoredFromStorage (endTemporaryPlaybackSpeed t b r) = restoredFromStorage r"
  by (simp_all add: endTemporaryPlaybackSpeed_def setter_defs Let_def split: option.split)

lemma endTemporary_position:
  "\<not> isPlaying r \<Longrightarrow> playbackPosition (endTemporaryPlaybackSpeed t b r) = playbackPosition r"
  by (simp add: endTemporaryPlaybackSpeed_def setter_defs realPlaybackPosition_def Let_def
      split: option.split)

lemma cancel_fields [simp]:
  "temporarySpeed (cancelPlaybackPreparation r) = temporarySpeed r"
  "isPlaying (cancelPlaybackPreparation r) = isPlaying r"
  "currentSource (cancelPlaybackPreparation r) = currentSource r"
  "playbackPreparation (cancelPlaybackPreparation r) = None"
  "resumeOnNextJoin (cancelPlaybackPreparation r) = False"
  "bufferGate (cancelPlaybackPreparation r) = bufferGate r"
  "playbackPosition (cancelPlaybackPreparation r) = playbackPosition r"
  "playbackSpeed (cancelPlaybackPreparation r) = playbackSpeed r"
  "playbackStart (cancelPlaybackPreparation r) = playbackStart r"
  "restoredFromStorage (cancelPlaybackPreparation r) = restoredFromStorage r"
  by (simp_all add: cancelPlaybackPreparation_def clearPlaybackStartTimer_def setter_defs Let_def)

lemma markDirty_fields [simp]:
  "temporarySpeed (markDirty p r) = temporarySpeed r"
  "isPlaying (markDirty p r) = isPlaying r"
  "currentSource (markDirty p r) = currentSource r"
  "playbackPreparation (markDirty p r) = playbackPreparation r"
  "resumeOnNextJoin (markDirty p r) = resumeOnNextJoin r"
  "bufferGate (markDirty p r) = bufferGate r"
  "playbackPosition (markDirty p r) = playbackPosition r"
  "playbackSpeed (markDirty p r) = playbackSpeed r"
  "playbackStart (markDirty p r) = playbackStart r"
  "restoredFromStorage (markDirty p r) = restoredFromStorage r"
  by (simp_all add: markDirty_def)

lemma flush_fields [simp]:
  "temporarySpeed (flushPlaybackPosition t r) = temporarySpeed r"
  "isPlaying (flushPlaybackPosition t r) = isPlaying r"
  "currentSource (flushPlaybackPosition t r) = currentSource r"
  "playbackPreparation (flushPlaybackPosition t r) = playbackPreparation r"
  "resumeOnNextJoin (flushPlaybackPosition t r) = resumeOnNextJoin r"
  "bufferGate (flushPlaybackPosition t r) = bufferGate r"
  "playbackPosition (flushPlaybackPosition t r) = realPlaybackPosition t r"
  "playbackSpeed (flushPlaybackPosition t r) = playbackSpeed r"
  "playbackStart (flushPlaybackPosition t r) = Some t"
  by (simp_all add: setter_defs)

lemma set_position_fields [simp]:
  "temporarySpeed (set_playbackPosition x r) = temporarySpeed r"
  "isPlaying (set_playbackPosition x r) = isPlaying r"
  "currentSource (set_playbackPosition x r) = currentSource r"
  "playbackPreparation (set_playbackPosition x r) = playbackPreparation r"
  "resumeOnNextJoin (set_playbackPosition x r) = resumeOnNextJoin r"
  "bufferGate (set_playbackPosition x r) = bufferGate r"
  "playbackPosition (set_playbackPosition x r) = x"
  "playbackSpeed (set_playbackPosition x r) = playbackSpeed r"
  "playbackStart (set_playbackPosition x r) = playbackStart r"
  "restoredFromStorage (set_playbackPosition x r) = restoredFromStorage r"
  by (simp_all add: setter_defs)

lemma set_speed_fields [simp]:
  "temporarySpeed (set_playbackSpeed x r) = temporarySpeed r"
  "isPlaying (set_playbackSpeed x r) = isPlaying r"
  "currentSource (set_playbackSpeed x r) = currentSource r"
  "playbackPreparation (set_playbackSpeed x r) = playbackPreparation r"
  "resumeOnNextJoin (set_playbackSpeed x r) = resumeOnNextJoin r"
  "bufferGate (set_playbackSpeed x r) = bufferGate r"
  "playbackPosition (set_playbackSpeed x r) = playbackPosition r"
  "playbackSpeed (set_playbackSpeed x r) = x"
  "playbackStart (set_playbackSpeed x r) = playbackStart r"
  by (simp_all add: setter_defs)

lemma set_source_fields [simp]:
  "temporarySpeed (set_currentSource t c r) = None"
  "isPlaying (set_currentSource t c r) = isPlaying r"
  "currentSource (set_currentSource t c r) = c"
  "playbackPreparation (set_currentSource t c r) = None"
  "resumeOnNextJoin (set_currentSource t c r) = False"
  "bufferGate (set_currentSource t c r) = None"
  "restoredFromStorage (set_currentSource t c r) = restoredFromStorage r"
  by (simp_all add: set_currentSource_def Let_def)

lemma set_playing_fields [simp]:
  "temporarySpeed (set_isPlaying t b r) = (if b then temporarySpeed r else None)"
  "isPlaying (set_isPlaying t b r) = b"
  "currentSource (set_isPlaying t b r) = currentSource r"
  "playbackPreparation (set_isPlaying t b r) = playbackPreparation r"
  "resumeOnNextJoin (set_isPlaying t b r) = resumeOnNextJoin r"
  "bufferGate (set_isPlaying t b r) = bufferGate r"
  "restoredFromStorage (set_isPlaying t b r) = restoredFromStorage r"
  by (simp_all add: set_isPlaying_def Let_def)

lemma play_inv_source [keeps]: "play_inv (set_currentSource t c r)"
  by (simp add: play_inv_defs)

lemma play_fields [simp]:
  "isPlaying (play t r)" "currentSource (play t r) = currentSource r"
  "playbackPreparation (play t r) = None" "resumeOnNextJoin (play t r) = False"
  "bufferGate (play t r) = None" "temporarySpeed (play t r) = temporarySpeed r"
  "playbackSpeed (play t r) = playbackSpeed r" "restoredFromStorage (play t r) = False"
  by (simp_all add: play_def Let_def set_isPlaying_def)

lemma play_inv_play [keeps]: "play_inv r \<Longrightarrow> play_inv (play t r)"
  by (auto simp: play_inv_defs split: option.splits)

lemma pauseClock_fields [simp]:
  "\<not> isPlaying (pausePlaybackClock t r)"
  "currentSource (pausePlaybackClock t r) = currentSource r"
  "playbackPreparation (pausePlaybackClock t r) = playbackPreparation r"
  "resumeOnNextJoin (pausePlaybackClock t r) = resumeOnNextJoin r"
  "bufferGate (pausePlaybackClock t r) = bufferGate r"
  "temporarySpeed (pausePlaybackClock t r) = None"
  by (simp_all add: pausePlaybackClock_def Let_def)

lemma pauseClock_position:
  "\<not> isPlaying r \<Longrightarrow> playbackPosition (pausePlaybackClock t r) = playbackPosition r"
  by (simp add: pausePlaybackClock_def Let_def endTemporary_position)

lemma canPrepare_source_cong:
  "currentSource a = currentSource b \<Longrightarrow> canPreparePlayback a = canPreparePlayback b"
  by (simp add: canPreparePlayback_def)

lemma play_inv_pauseClock [keeps]: "play_inv r \<Longrightarrow> play_inv (pausePlaybackClock t r)"
  by (auto simp: play_inv_defs pauseClock_position
      canPrepare_source_cong [of "pausePlaybackClock t r" r] split: option.splits)

lemma play_inv_cancel [keeps]: "play_inv r \<Longrightarrow> play_inv (cancelPlaybackPreparation r)"
  by (auto simp: play_inv_defs split: option.splits)

lemma play_inv_pause [keeps]: "play_inv r \<Longrightarrow> play_inv (pause t b r)"
  by (cases b) (auto simp: pause_def Let_def play_inv_defs split: option.splits)

lemma play_inv_seekRaw [keeps]: "play_inv r \<Longrightarrow> play_inv (seekRaw t x r)"
  by (auto simp: seekRaw_def play_inv_defs split: option.splits)

lemma play_inv_endTemporary [keeps]: "play_inv r \<Longrightarrow> play_inv (endTemporaryPlaybackSpeed t b r)"
  by (auto simp: play_inv_defs endTemporary_position
      canPrepare_source_cong [of "endTemporaryPlaybackSpeed t b r" r] split: option.splits)

text \<open>The preparation round.\<close>

lemma role_cong:
  assumes "outside a = outside b"
  shows "getRole a = getRole b" "getUser a = getUser b"
  using outside_fields [OF assms]
  by (auto simp: fun_eq_iff getRole_def isOwner_def getUser_def split: option.splits)

lemma eligible_cong:
  assumes "outside a = outside b"
  shows "playbackEligibleIds a = playbackEligibleIds b" "eligiblePreparers a = eligiblePreparers b"
    "allEligibleReady a = allEligibleReady b"
proof -
  show e: "playbackEligibleIds a = playbackEligibleIds b"
    and "eligiblePreparers a = eligiblePreparers b"
    using outside_fields [OF assms] role_cong [OF assms]
    by (simp_all add: playbackEligibleIds_def [abs_def] eligiblePreparers_def cong: option.case_cong)
  show "allEligibleReady a = allEligibleReady b"
    by (simp add: fun_eq_iff allEligibleReady_def e)
qed

lemmas eligible_frame [simp] = frame [THEN eligible_cong(1)] frame [THEN eligible_cong(2)]
  frame [THEN eligible_cong(3)]

lemma prep_inv_replace:
  assumes "play_inv r" and "playbackPreparation r = Some p"
    and "pp_video q = pp_video p" "pp_position q = pp_position p"
    and "rd_clientId ` set (pp_ready q) \<subseteq> set (pp_eligible q)"
    and "distinct (map rd_clientId (pp_ready q))"
    and "pp_deadlineAt q \<le> pp_hardDeadlineAt q"
  shows "play_inv (r\<lparr>playbackPreparation := Some q\<rparr>)"
  using assms by (auto simp: play_inv_defs canPreparePlayback_def split: option.splits)

lemma play_inv_prep:
  assumes "play_inv r" and "playbackPreparation r = Some p"
  shows "rd_clientId ` set (pp_ready p) \<subseteq> set (pp_eligible p)"
    and "distinct (map rd_clientId (pp_ready p))"
    and "pp_deadlineAt p \<le> pp_hardDeadlineAt p" and "0 \<le> pp_position p"
    and "\<not> isPlaying r" and "resumeOnNextJoin r" and "temporarySpeed r = None"
    and "bufferGate r = None" and "canPreparePlayback r"
    and "pp_position p = playbackPosition r"
    and "map_option video_id (currentSource r) = Some (pp_video p)"
  using assms by (auto simp: play_inv_defs split: option.splits)

lemma play_inv_gate:
  assumes "play_inv r" and "bufferGate r = Some g"
  shows "bg_pausedByGate g" "\<not> isPlaying r" "\<not> resumeOnNextJoin r" "currentSource r \<noteq> None"
    "playbackPreparation r = None" "temporarySpeed r = None"
proof -
  show "bg_pausedByGate g" "\<not> isPlaying r" "\<not> resumeOnNextJoin r" "currentSource r \<noteq> None"
    using assms by (simp_all add: play_inv_def gate_inv_def)
  show "playbackPreparation r = None"
    using play_inv_prep(8) [OF assms(1)] assms(2) by (cases "playbackPreparation r") auto
  show "temporarySpeed r = None"
    using assms by (cases "temporarySpeed r") (simp_all add: play_inv_def gesture_inv_def)
qed

lemma play_inv_start [keeps]:
  assumes "play_inv r"
  shows "play_inv (startPreparedPlayback t r)"
proof (cases "playbackPreparation r")
  case None
  with assms show ?thesis by (simp add: startPreparedPlayback_def)
next
  case (Some p)
  note facts = play_inv_prep [OF assms Some]
  show ?thesis
    using assms facts Some
    by (auto simp: startPreparedPlayback_def play_inv_defs clearPlaybackStartTimer_def Let_def
        split: option.splits)
qed

lemma play_inv_schedule [keeps]:
  assumes "play_inv r"
  shows "play_inv (schedulePlaybackStart t f r)"
proof (cases "playbackPreparation r")
  case None
  with assms show ?thesis by (simp add: schedulePlaybackStart_def)
next
  case (Some p)
  note facts = play_inv_prep [OF assms Some]
  have "play_inv (r\<lparr>playbackPreparation := Some (p\<lparr>pp_fallback := f, pp_startAt := s\<rparr>)\<rparr>)" for s
    by (rule prep_inv_replace [OF assms Some]) (use facts in simp_all)
  moreover have "play_inv ((clearPlaybackStartTimer a)\<lparr>playbackStartTimer := x\<rparr>) = play_inv a" for a x
    by (rule play_inv_cong) (simp add: playstate_def clearPlaybackStartTimer_def)
  ultimately show ?thesis
    using assms Some by (simp add: schedulePlaybackStart_def play_inv_start Let_def)
qed

lemma play_inv_drop [keeps]:
  assumes "play_inv r"
  shows "play_inv (dropPlaybackParticipant t cid r)"
proof (cases "playbackPreparation r")
  case None
  with assms show ?thesis by (simp add: dropPlaybackParticipant_def)
next
  case (Some p)
  note facts = play_inv_prep [OF assms Some]
  let ?p = "p\<lparr>pp_eligible := filter (\<lambda>i. i \<noteq> cid) (pp_eligible p),
              pp_ready := filter (\<lambda>rd. rd_clientId rd \<noteq> cid) (pp_ready p)\<rparr>"
  have "play_inv (r\<lparr>playbackPreparation := Some (?p\<lparr>pp_clientId := c, pp_fallback := f\<rparr>)\<rparr>)" for c f
    by (rule prep_inv_replace [OF assms Some]) (use facts in \<open>auto simp: distinct_map_filter\<close>)
  note inv = this
  from inv [of _ "pp_clientId p"] inv [of "pp_fallback p"]
  show ?thesis
    using assms Some
    by (auto simp: dropPlaybackParticipant_def Let_def intro!: play_inv_schedule split: list.split)
qed

lemma play_inv_refresh [keeps]:
  assumes "play_inv r"
  shows "play_inv (refreshPlaybackPreparation r)"
proof (cases "playbackPreparation r")
  case None
  with assms show ?thesis by (simp add: refreshPlaybackPreparation_def)
next
  case (Some p)
  note facts = play_inv_prep [OF assms Some]
  let ?el = "playbackEligibleIds r p"
  let ?p = "p\<lparr>pp_eligible := ?el, pp_ready := filter (\<lambda>rd. rd_clientId rd \<in> set ?el) (pp_ready p)\<rparr>"
  have "play_inv (r\<lparr>playbackPreparation := Some (?p\<lparr>pp_clientId := c, pp_fallback := f\<rparr>)\<rparr>)" for c f
    by (rule prep_inv_replace [OF assms Some]) (use facts in \<open>auto simp: distinct_map_filter\<close>)
  note inv = this
  from inv [of _ "pp_clientId p"] inv [of "pp_fallback p"] inv [of "pp_fallback p" "pp_clientId p"]
  show ?thesis
    using assms Some
    by (auto simp: refreshPlaybackPreparation_def Let_def intro!: play_inv_cancel split: list.split)
qed

lemma play_inv_prepareEmpty [keeps]:
  assumes "play_inv r"
  shows "play_inv (prepareEmptyRoomPlayback e r)"
  using assms
  by (auto simp: prepareEmptyRoomPlayback_def play_inv_defs canPreparePlayback_def
      PLAYBACK_READY_WAIT_MS_def PLAYBACK_HARD_FALLBACK_MS_def split: option.splits list.splits)

lemma play_inv_hold [keeps]:
  assumes "play_inv r" and "bufferGate r = None" and "playbackPreparation r = None"
  shows "play_inv (holdPlaybackForPreparation e r)"
  unfolding holdPlaybackForPreparation_def Let_def
  using assms by (intro play_inv_prepareEmpty) (auto simp: play_inv_defs split: option.splits)

lemma play_inv_holdEmpty [keeps]: "play_inv r \<Longrightarrow> play_inv (holdEmptyPlaybackForJoin t b r)"
  by (auto simp: holdEmptyPlaybackForJoin_def play_inv_defs bufferingGateHeld_def
      split: option.splits)

lemma distinct_filter_append:
  "distinct (map f xs) \<Longrightarrow> distinct (map f (filter (\<lambda>x. f x \<noteq> f y) xs @ [y]))"
  by (auto simp: distinct_map_filter)

lemma play_inv_finish [keeps]:
  assumes "play_inv r"
  shows "play_inv (finishPlaybackPreparation t cid status prepared r)"
proof (cases "playbackPreparation r")
  case None
  with assms show ?thesis by (simp add: finishPlaybackPreparation_def)
next
  case (Some p)
  note facts = play_inv_prep [OF assms Some]
  let ?rep = "\<lambda>pd. \<lparr>rd_clientId = cid, rd_firstFrame = True, rd_bufferAhead = pd_bufferAhead pd, rd_at = t\<rparr>"
  let ?p = "\<lambda>pd. p\<lparr>pp_ready := filter (\<lambda>rd. rd_clientId rd \<noteq> cid) (pp_ready p) @ [?rep pd]\<rparr>"
  have new: "play_inv (r\<lparr>playbackPreparation := Some (?p pd)\<rparr>)"
    if "cid \<in> set (playbackEligibleIds r p)" for pd
    using facts that
    by (intro prep_inv_replace [OF assms Some])
      (auto simp: playbackEligibleIds_def distinct_map_filter)
  show ?thesis
    using assms Some new
    by (auto simp: finishPlaybackPreparation_def Let_def intro!: play_inv_schedule play_inv_drop
        split: option.split)
qed

text \<open>The buffer gate.\<close>

lemma play_inv_release [keeps]:
  assumes "play_inv r"
  shows "play_inv (releaseBufferGate t b r)"
proof (cases "bufferGate r")
  case None
  then have "play_inv (r\<lparr>bufferGate := None\<rparr>) = play_inv r"
    by (intro play_inv_cong) (simp add: playstate_def)
  with assms None show ?thesis by (simp add: releaseBufferGate_def)
next
  case (Some g)
  have "play_inv (r\<lparr>bufferGate := None, bufferGateCooldownUntil := c, bufferGateExhausted := x\<rparr>)"
    "play_inv (r\<lparr>bufferGate := None\<rparr>)" for c x
    using assms by (auto simp: play_inv_defs canPreparePlayback_def split: option.splits)
  with Some show ?thesis
    by (simp add: releaseBufferGate_def Let_def play_inv_play)
qed

lemma release_gate_None [simp]: "bufferGate (releaseBufferGate t b r) = None"
  by (simp add: releaseBufferGate_def Let_def split: option.split)

lemma release_fields [simp]:
  "currentSource (releaseBufferGate t b r) = currentSource r"
  "temporarySpeed (releaseBufferGate t b r) = temporarySpeed r"
  "playbackSpeed (releaseBufferGate t b r) = playbackSpeed r"
  by (simp_all add: releaseBufferGate_def Let_def split: option.split)

lemma play_inv_evaluate [keeps]:
  assumes "play_inv r"
  shows "play_inv (evaluateBufferGate t r)"
proof -
  have held: "play_inv (r\<lparr>bufferGate := Some (g\<lparr>bg_waitingOn := w\<rparr>)\<rparr>)" if "bufferGate r = Some g" for g w
    using assms that by (auto simp: play_inv_defs canPreparePlayback_def split: option.splits)
  have fresh: "play_inv (pause t True (r\<lparr>bufferGate := Some g\<rparr>))"
    if "currentSource r \<noteq> None" "bg_pausedByGate g" "temporarySpeed r = None" for g
    using assms that by (auto simp: pause_def play_inv_defs split: option.splits)
  show ?thesis
    using assms held fresh
    by (auto simp: evaluateBufferGate_def Let_def intro!: play_inv_release split: option.split)
qed

text \<open>Fields the invariant does not mention.\<close>

lemma play_inv_upd [simp]:
  "play_inv (r\<lparr>room_name := v1\<rparr>) = play_inv r"
  "play_inv (r\<lparr>room_title := v1\<rparr>) = play_inv r"
  "play_inv (r\<lparr>room_description := v1\<rparr>) = play_inv r"
  "play_inv (r\<lparr>visibility := v2\<rparr>) = play_inv r"
  "play_inv (r\<lparr>queueMode := v3\<rparr>) = play_inv r"
  "play_inv (r\<lparr>grants := v4\<rparr>) = play_inv r"
  "play_inv (r\<lparr>userRoles := v5\<rparr>) = play_inv r"
  "play_inv (r\<lparr>autoSkipSegmentCategories := v6\<rparr>) = play_inv r"
  "play_inv (r\<lparr>restoreQueueBehavior := v7\<rparr>) = play_inv r"
  "play_inv (r\<lparr>enableVoteSkip := b\<rparr>) = play_inv r"
  "play_inv (r\<lparr>bufferGateMode := v8\<rparr>) = play_inv r"
  "play_inv (r\<lparr>danmakuSource := v9\<rparr>) = play_inv r"
  "play_inv (r\<lparr>bufferGateExhausted := v10\<rparr>) = play_inv r"
  "play_inv (r\<lparr>pendingLeaveEvents := v11\<rparr>) = play_inv r"
  "play_inv (r\<lparr>passwordHash := v12\<rparr>) = play_inv r"
  "play_inv (r\<lparr>lastPlayAt := v13\<rparr>) = play_inv r"
  "play_inv (r\<lparr>restoredFromStorage := b\<rparr>) = play_inv r"
  "play_inv (r\<lparr>queue := v14\<rparr>) = play_inv r"
  "play_inv (r\<lparr>prevQueue := v15\<rparr>) = play_inv r"
  "play_inv (r\<lparr>temporarySpeedTimer := v13\<rparr>) = play_inv r"
  "play_inv (r\<lparr>playbackStartTimer := v13\<rparr>) = play_inv r"
  "play_inv (r\<lparr>realusers := v16\<rparr>) = play_inv r"
  "play_inv (r\<lparr>votes := v17\<rparr>) = play_inv r"
  "play_inv (r\<lparr>videoSegments := v18\<rparr>) = play_inv r"
  "play_inv (r\<lparr>votesToSkip := v19\<rparr>) = play_inv r"
  "play_inv (r\<lparr>dirty := v20\<rparr>) = play_inv r"
  "play_inv (r\<lparr>recentEvents := v21\<rparr>) = play_inv r"
  "play_inv (r\<lparr>playbackStart := v13\<rparr>) = play_inv r"
  "play_inv (r\<lparr>keepAlivePing := v22\<rparr>) = play_inv r"
  "play_inv (r\<lparr>wantSponsorBlock := b\<rparr>) = play_inv r"
  "play_inv (r\<lparr>dontSkipSegmentsUntil := v23\<rparr>) = play_inv r"
  "play_inv (r\<lparr>db_notes := v24\<rparr>) = play_inv r"
  "play_inv (r\<lparr>outbox := v25\<rparr>) = play_inv r"
  "play_inv (r\<lparr>commands := v26\<rparr>) = play_inv r"
  by (rule play_inv_cong, simp add: playstate_def)+

lemma play_inv_misc [simp]:
  "play_inv (changed_queue q r) = play_inv r"
  "play_inv (publish m r) = play_inv r"
  "play_inv (publishRoomEvent req c a k r) = play_inv r"
  "play_inv (set_videoSegments sg r) = play_inv r"
  "play_inv (set_prevQueue pq r) = play_inv r"
  "play_inv (renewTemporaryPlaybackSpeed t r) = play_inv r"
  "play_inv (clearPlaybackStartTimer r) = play_inv r"
  "play_inv (syncUser info r) = play_inv r"
  by (simp_all add: changed_queue_def publish_def publishRoomEvent_def record_event_def
      set_videoSegments_def set_prevQueue_def renewTemporaryPlaybackSpeed_def
      clearPlaybackStartTimer_def syncUser_def Let_def split: option.split sum.split)

section \<open>The data invariant\<close>

text \<open>
  The bounds on what a room stores, the well-formedness of its grants, and that nobody is
  counted twice in a vote.
\<close>

definition votes_ok :: "(string \<times> ClientId list) list \<Rightarrow> bool" where
  "votes_ok vs \<longleftrightarrow> distinct (map fst vs) \<and> list_all (\<lambda>(k, cs). distinct cs) vs"

definition data_inv :: "Room \<Rightarrow> bool" where
  "data_inv r \<longleftrightarrow>
     queue_length (queue r) \<le> MAX_QUEUE_ITEMS
     \<and> length (recentEvents r) \<le> RECENT_EVENTS_LIMIT
     \<and> length (db_notes r) \<le> MAX_NOTES_PER_ROOM
     \<and> wf_grants (grants r)
     \<and> votes_ok (votes r)
     \<and> distinct (votesToSkip r)"

lemma data_inv_cong: "outside a = outside b \<Longrightarrow> data_inv a \<longleftrightarrow> data_inv b"
  by (simp add: data_inv_def outside_fields [of a b])

lemmas data_inv_frame [simp] = frame [THEN data_inv_cong]

lemma data_inv_upd [simp]:
  "data_inv (r\<lparr>room_name := v1\<rparr>) = data_inv r"
  "data_inv (r\<lparr>room_title := v1\<rparr>) = data_inv r"
  "data_inv (r\<lparr>room_description := v1\<rparr>) = data_inv r"
  "data_inv (r\<lparr>visibility := v2\<rparr>) = data_inv r"
  "data_inv (r\<lparr>queueMode := v3\<rparr>) = data_inv r"
  "data_inv (r\<lparr>userRoles := v5\<rparr>) = data_inv r"
  "data_inv (r\<lparr>autoSkipSegmentCategories := v6\<rparr>) = data_inv r"
  "data_inv (r\<lparr>restoreQueueBehavior := v7\<rparr>) = data_inv r"
  "data_inv (r\<lparr>enableVoteSkip := b\<rparr>) = data_inv r"
  "data_inv (r\<lparr>bufferGateMode := v8\<rparr>) = data_inv r"
  "data_inv (r\<lparr>danmakuSource := v9\<rparr>) = data_inv r"
  "data_inv (r\<lparr>pendingLeaveEvents := v11\<rparr>) = data_inv r"
  "data_inv (r\<lparr>passwordHash := v12\<rparr>) = data_inv r"
  "data_inv (r\<lparr>prevQueue := v15\<rparr>) = data_inv r"
  "data_inv (r\<lparr>realusers := v16\<rparr>) = data_inv r"
  "data_inv (r\<lparr>videoSegments := v18\<rparr>) = data_inv r"
  "data_inv (r\<lparr>keepAlivePing := v22\<rparr>) = data_inv r"
  "data_inv (r\<lparr>wantSponsorBlock := b\<rparr>) = data_inv r"
  "data_inv (r\<lparr>dontSkipSegmentsUntil := v23\<rparr>) = data_inv r"
  "data_inv (r\<lparr>outbox := v25\<rparr>) = data_inv r"
  "data_inv (r\<lparr>commands := v26\<rparr>) = data_inv r"
  "data_inv (r\<lparr>dirty := v20\<rparr>) = data_inv r"
  by (simp_all add: data_inv_def)

lemma record_event_bound:
  "length (recentEvents r) \<le> RECENT_EVENTS_LIMIT \<Longrightarrow>
     length (recentEvents (record_event m r)) \<le> RECENT_EVENTS_LIMIT"
  by (simp add: record_event_def Let_def)

lemma data_inv_record [keeps]: "data_inv r \<Longrightarrow> data_inv (record_event m r)"
  using record_event_bound [of r m] by (simp add: data_inv_def record_event_def Let_def)

lemma data_inv_misc [simp]:
  "data_inv (publish m r) = data_inv r"
  "data_inv (set_videoSegments sg r) = data_inv r"
  "data_inv (set_prevQueue pq r) = data_inv r"
  "data_inv (syncUser info r) = data_inv r"
  by (simp_all add: publish_def set_videoSegments_def set_prevQueue_def syncUser_def)

lemma data_inv_publish [keeps]: "data_inv r \<Longrightarrow> data_inv (publishRoomEvent req c a k r)"
  by (simp add: publishRoomEvent_def data_inv_record Let_def split: option.split sum.split)

lemma data_inv_queue [keeps]:
  "data_inv r \<Longrightarrow> queue_length q \<le> MAX_QUEUE_ITEMS \<Longrightarrow> data_inv (changed_queue q r)"
  by (simp add: changed_queue_def data_inv_def)

text \<open>Both together.\<close>

definition room_inv :: "Room \<Rightarrow> bool" where
  "room_inv r \<longleftrightarrow> play_inv r \<and> data_inv r"

lemma data_inv_bound: "data_inv r \<Longrightarrow> queue_length (queue r) \<le> MAX_QUEUE_ITEMS"
  and data_inv_votes_ok: "data_inv r \<Longrightarrow> votes_ok (votes r)"
  by (simp_all add: data_inv_def)

lemma data_inv_set:
  "data_inv r \<Longrightarrow> queue_length q \<le> MAX_QUEUE_ITEMS \<Longrightarrow> data_inv (r\<lparr>queue := q\<rparr>)"
  "data_inv r \<Longrightarrow> votes_ok vs \<Longrightarrow> data_inv (r\<lparr>votes := vs\<rparr>)"
  "data_inv r \<Longrightarrow> distinct cs \<Longrightarrow> data_inv (r\<lparr>votesToSkip := cs\<rparr>)"
  "data_inv r \<Longrightarrow> wf_grants g \<Longrightarrow> data_inv (r\<lparr>grants := g\<rparr>)"
  "data_inv r \<Longrightarrow> length ns \<le> MAX_NOTES_PER_ROOM \<Longrightarrow> data_inv (r\<lparr>db_notes := ns\<rparr>)"
  by (simp_all add: data_inv_def)

lemma votes_ok_delete: "votes_ok vs \<Longrightarrow> votes_ok (AList.delete k vs)"
  by (auto simp: votes_ok_def list_all_iff distinct_delete) (auto simp: AList.delete_eq)

lemma votes_ok_update:
  assumes "votes_ok vs" and "distinct cs"
  shows "votes_ok (AList.update k cs vs)"
proof -
  have "list_all (\<lambda>(k, cs). distinct cs) vs \<Longrightarrow> list_all (\<lambda>(k, cs). distinct cs) (AList.update k cs vs)"
    using assms(2) by (induction vs) auto
  with assms show ?thesis by (simp add: votes_ok_def distinct_update)
qed

end
