(* ===== verification/RoomSafety.thy ===== *)
theory RoomSafety
  imports RoomInv
begin

text \<open>
  Every event of the room machine keeps the invariants of \<open>RoomInv\<close>: the next video, the
  requests, the tick, the timers, the checkpoint and unloading.
\<close>

section \<open>The next video\<close>

lemma play_inv_position:
  "playbackPreparation r = None \<Longrightarrow> play_inv (set_playbackPosition x r) = play_inv r"
  by (simp add: play_inv_defs split: option.split)

lemma play_inv_speed:
  "temporarySpeed r = None \<Longrightarrow> play_inv (set_playbackSpeed x r) = play_inv r"
  by (simp add: play_inv_defs canPreparePlayback_def split: option.split)

lemma set_videoSegments_fields [simp]:
  "temporarySpeed (set_videoSegments sg r) = temporarySpeed r"
  "isPlaying (set_videoSegments sg r) = isPlaying r"
  "currentSource (set_videoSegments sg r) = currentSource r"
  "playbackPreparation (set_videoSegments sg r) = playbackPreparation r"
  "bufferGate (set_videoSegments sg r) = bufferGate r"
  "votes (set_videoSegments sg r) = votes r"
  by (simp_all add: set_videoSegments_def)

lemma prepareEmpty_fields [simp]:
  "temporarySpeed (prepareEmptyRoomPlayback e r) = temporarySpeed r"
  "isPlaying (prepareEmptyRoomPlayback e r) = isPlaying r"
  "currentSource (prepareEmptyRoomPlayback e r) = currentSource r"
  by (simp_all add: prepareEmptyRoomPlayback_def split: option.split list.split)

lemma hold_fields [simp]:
  "temporarySpeed (holdPlaybackForPreparation e r) = None"
  "\<not> isPlaying (holdPlaybackForPreparation e r)"
  "currentSource (holdPlaybackForPreparation e r) = currentSource r"
  by (simp_all add: holdPlaybackForPreparation_def Let_def)

lemma start_dequeued_keeps:
  assumes "play_inv r" "temporarySpeed r = None" "playbackPreparation r = None" "bufferGate r = None"
  shows "play_inv (start_dequeued e r)" "temporarySpeed (start_dequeued e r) = None"
    "outside (start_dequeued e r) = outside r"
  using assms by (simp_all add: start_dequeued_def keeps frame)

lemma take_next_keeps:
  shows "play_inv (take_next e r)" "temporarySpeed (take_next e r) = None"
proof -
  obtain item q where d: "dequeue (queue r) = (item, q)" by force
  let ?r = "set_currentSource (now e) item (changed_queue q r)"
  have base: "play_inv (set_playbackPosition x ?r)" for x
    by (simp add: play_inv_position play_inv_source)
  show "play_inv (take_next e r)" "temporarySpeed (take_next e r) = None"
    using base
    by (auto simp: take_next_def d Let_def intro!: start_dequeued_keeps split: option.split)
qed

lemma data_inv_take_next:
  assumes "data_inv (r\<lparr>queue := snd (dequeue (queue r))\<rparr>)"
  shows "data_inv (take_next e r)"
proof -
  obtain item q where d: "dequeue (queue r) = (item, q)" by force
  have q: "data_inv (changed_queue q r)" using assms by (simp add: d changed_queue_def)
  have sd: "data_inv (start_dequeued e a) = data_inv a" for a
    by (rule data_inv_cong) (simp add: start_dequeued_def frame)
  show ?thesis
    using q by (auto simp: take_next_def d Let_def sd intro!: data_inv_set votes_ok_delete
        dest: data_inv_votes_ok split: option.split)
qed

lemma dequeue_length: "queue_length (snd (dequeue q)) = queue_length q - 1"
  by (cases "items q") (simp_all add: dequeue_def queue_length_def markDirty_queue_def)

lemma overflow_length [simp]: "queue_length (enqueueOverflow [x] q) = Suc (queue_length q)"
  by (simp add: enqueueOverflow_def queue_length_def)

lemma clear_source_keeps:
  "play_inv (clear_source e r)" "temporarySpeed (clear_source e r) = None"
  "outside (clear_source e r) = outside r"
  by (simp_all add: clear_source_def Let_def play_inv_source frame)

lemma finish_dequeue_keeps:
  "temporarySpeed r = None \<Longrightarrow> play_inv (finish_dequeue e r) = play_inv r"
  "data_inv (finish_dequeue e r) = data_inv r"
  by (simp_all add: finish_dequeue_def Let_def play_inv_speed)

lemma dequeueNext_play [keeps]:
  assumes "play_inv r"
  shows "play_inv (dequeueNext e r)"
proof -
  define s where "s = clear_for_dequeue e r"
  have inv: "play_inv s"
    using assms by (simp add: s_def clear_for_dequeue_def Let_def play_inv_release)
  then have nosrc: "currentSource s = None \<Longrightarrow> temporarySpeed s = None"
    by (auto simp: play_inv_defs split: option.splits)
  show ?thesis
    unfolding dequeueNext_def s_def [symmetric]
    using inv nosrc
    by (auto simp: dequeue_by_mode_def Let_def finish_dequeue_keeps take_next_keeps
        clear_source_keeps play_inv_position play_inv_source intro!: play_inv_play split: option.split)
qed

lemma changed_queue_fields [simp]: "queue (changed_queue q r) = q"
  by (simp add: changed_queue_def)

lemma dequeueNext_data [keeps]:
  assumes "data_inv r"
  shows "data_inv (dequeueNext e r)"
proof -
  define s where "s = clear_for_dequeue e r"
  have inv: "data_inv s"
    using assms by (simp add: s_def clear_for_dequeue_def Let_def data_inv_set)
  have bound: "queue_length (queue s) \<le> MAX_QUEUE_ITEMS" by (rule data_inv_bound [OF inv])
  have "data_inv (s\<lparr>queue := snd (dequeue (queue s))\<rparr>)"
    by (rule data_inv_set(1) [OF inv]) (use bound in \<open>simp add: dequeue_length\<close>)
  then have "data_inv (take_next e s)" "data_inv (clear_source e s)"
    using inv by (auto intro: data_inv_take_next simp: data_inv_cong [OF clear_source_keeps(3)])
  moreover
  have "data_inv (take_next e (changed_queue (enqueueOverflow [v] (queue s)) s))" for v
  proof (rule data_inv_take_next)
    let ?q = "enqueueOverflow [v] (queue s)"
    have "queue_length (snd (dequeue ?q)) \<le> MAX_QUEUE_ITEMS"
      using bound by (simp add: dequeue_length)
    from data_inv_set(1) [OF inv this]
    show "data_inv (changed_queue ?q s\<lparr>queue := snd (dequeue (queue (changed_queue ?q s)))\<rparr>)"
      by (simp add: changed_queue_def data_inv_def)
  qed
  ultimately show ?thesis
    unfolding dequeueNext_def s_def [symmetric]
    using inv by (simp add: dequeue_by_mode_def Let_def finish_dequeue_keeps split: option.split)
qed

section \<open>Queue requests\<close>

text \<open>
  The environment: shuffling and sorting only permute. What the other parameters return does not
  matter to the invariants.
\<close>

definition env_ok :: "env \<Rightarrow> bool" where
  "env_ok e \<longleftrightarrow> permuting (e_shuffle e) \<and> stable_desc (e_orderBy e)"

lemma apply_queue_play [simp]: "play_inv (snd (apply_queue c res r)) = play_inv r"
  by (simp add: apply_queue_def split: sum.split)

lemma apply_queue_data [keeps]:
  "data_inv r \<Longrightarrow> (\<And>q. res = Inr q \<Longrightarrow> queue_length q \<le> MAX_QUEUE_ITEMS) \<Longrightarrow>
     data_inv (snd (apply_queue c res r))"
  by (simp add: apply_queue_def data_inv_queue data_inv_set split: sum.split)

lemma guard_keeps [simp]: "snd (guard err r) = r"
  by (simp add: guard_def)

lemma apply_queue_inv [keeps]:
  "room_inv r \<Longrightarrow> (\<And>q. res = Inr q \<Longrightarrow> queue_length q \<le> MAX_QUEUE_ITEMS) \<Longrightarrow>
     room_inv (snd (apply_queue c res r))"
  by (simp add: room_inv_def apply_queue_data)

lemma publishRoomEvent_inv [keeps]: "room_inv r \<Longrightarrow> room_inv (publishRoomEvent req c a k r)"
  by (simp add: room_inv_def data_inv_publish)

lemma room_inv_simps [simp]:
  "room_inv (markDirty p r) = room_inv r"
  "room_inv (set_prevQueue pq r) = room_inv r"
  "room_inv (set_videoSegments sg r) = room_inv r"
  "room_inv (publish m r) = room_inv r"
  "room_inv (syncUser i r) = room_inv r"
  by (simp_all add: room_inv_def)

lemma room_inv_bound: "room_inv r \<Longrightarrow> queue_length (queue r) \<le> MAX_QUEUE_ITEMS"
  by (simp add: room_inv_def data_inv_bound)

lemma enqueue_bound:
  "enqueue vs q = Inr q' \<Longrightarrow> queue_length q \<le> MAX_QUEUE_ITEMS \<Longrightarrow> queue_length q' \<le> MAX_QUEUE_ITEMS"
  by (auto simp: enqueue_def queue_length_def split: if_splits)

lemma pushTop_bound:
  "pushTop vs q = Inr q' \<Longrightarrow> queue_length q \<le> MAX_QUEUE_ITEMS \<Longrightarrow> queue_length q' \<le> MAX_QUEUE_ITEMS"
  by (auto simp: pushTop_def queue_length_def split: if_splits)

lemma insert_bound: "insert_at v i q = Inr q' \<Longrightarrow> queue_length q' \<le> MAX_QUEUE_ITEMS"
  by (auto simp: insert_at_def queue_length_def split: if_splits)

lemma update_length: "update vid x q = Inr q' \<Longrightarrow> queue_length q' = queue_length q"
  by (auto simp: update_def queue_length_def split: option.splits)

lemma move_length: "move i j q = Inr q' \<Longrightarrow> queue_length q' = queue_length q"
  by (auto simp: move_def queue_length_def Let_def nat_less_iff split: if_splits)

lemma evict_length: "evict vid q = Inr (n, v, q') \<Longrightarrow> Suc (queue_length q') = queue_length q"
  using evict_Inr(1,4) [of vid q n v q'] by (simp add: queue_length_def)

lemma room_bounds:
  "enqueue vs (queue r) = Inr q \<Longrightarrow> room_inv r \<Longrightarrow> queue_length q \<le> MAX_QUEUE_ITEMS"
  "pushTop vs (queue r) = Inr q \<Longrightarrow> room_inv r \<Longrightarrow> queue_length q \<le> MAX_QUEUE_ITEMS"
  "update vid x (queue r) = Inr q \<Longrightarrow> room_inv r \<Longrightarrow> queue_length q \<le> MAX_QUEUE_ITEMS"
  "move i j (queue r) = Inr q \<Longrightarrow> room_inv r \<Longrightarrow> queue_length q \<le> MAX_QUEUE_ITEMS"
  "evict vid (queue r) = Inr (n, v, q) \<Longrightarrow> room_inv r \<Longrightarrow> queue_length q \<le> MAX_QUEUE_ITEMS"
  using room_inv_bound [of r] by (auto dest: enqueue_bound pushTop_bound update_length move_length evict_length)

lemma addToQueue_inv [keeps]:
  assumes "room_inv r"
  shows "room_inv (snd (addToQueue e video videos url c r))"
proof -
  have one: "room_inv (snd (commit_one e v req c r))" for v req
    using assms
    by (auto simp: commit_one_def Let_def intro!: seq_keeps [where I = room_inv] apply_queue_inv
        publishRoomEvent_inv intro: room_bounds split: sum.split)
  have many: "room_inv (snd (commit_many e vs req c r))" for vs req
    using assms
    by (auto simp: commit_many_def Let_def intro!: seq_keeps [where I = room_inv] apply_queue_inv
        publishRoomEvent_inv intro: room_bounds split: sum.split list.split)
  show ?thesis
    using assms one many by (simp add: addToQueue_def add_commit_def split: sum.split pending_add.split)
qed

lemma updateQueueItem_inv [keeps]:
  "room_inv r \<Longrightarrow> room_inv (snd (updateQueueItem e video sub c r))"
  by (auto simp: updateQueueItem_def
      intro: room_bounds intro!: seq_keeps [where I = room_inv] apply_queue_inv publishRoomEvent_inv split: sum.split)

lemma removeFromQueue_inv [keeps]:
  assumes "room_inv r"
  shows "room_inv (snd (removeFromQueue video c r))"
proof -
  have "room_inv ((changed_queue q r)\<lparr>votes := AList.delete k (votes (changed_queue q r))\<rparr>)"
    if "evict video (queue r) = Inr (n, v, q)" for n v q k
  proof -
    have "queue_length q \<le> MAX_QUEUE_ITEMS"
      using that assms by (rule room_bounds)
    then have d: "data_inv (changed_queue q r)"
      using assms by (simp add: room_inv_def data_inv_queue)
    then have "data_inv ((changed_queue q r)\<lparr>votes := AList.delete k (votes (changed_queue q r))\<rparr>)"
      by (intro data_inv_set votes_ok_delete data_inv_votes_ok)
    with assms show ?thesis by (simp add: room_inv_def)
  qed
  with assms show ?thesis
    by (auto simp: removeFromQueue_def Let_def intro!: publishRoomEvent_inv split: sum.split)
qed

lemma reorderQueue_inv [keeps]: "room_inv r \<Longrightarrow> room_inv (snd (reorderQueue i j r))"
  by (auto simp: reorderQueue_def intro: room_bounds intro!: apply_queue_inv)

lemma votes_ok_distinct: "votes_ok vs \<Longrightarrow> map_of vs k = Some cs \<Longrightarrow> distinct cs"
  by (auto simp: votes_ok_def list_all_iff dest!: map_of_SomeD)

lemma vote_inv [keeps]:
  assumes "room_inv r"
  shows "room_inv (snd (vote video add c r))"
proof -
  let ?k = "vote_key video"
  have ok: "votes_ok (votes r)" using assms by (simp add: room_inv_def data_inv_votes_ok)
  have inv: "room_inv (r\<lparr>votes := vs\<rparr>)" if "votes_ok vs" for vs
    using assms that by (simp add: room_inv_def data_inv_set)
  show ?thesis
  proof (cases "map_of (votes r) ?k")
    case None
    with assms show ?thesis
      by (simp add: vote_def Let_def inv votes_ok_update ok)
  next
    case (Some cs)
    then have "distinct cs" by (rule votes_ok_distinct [OF ok])
    with assms Some show ?thesis
      by (simp add: vote_def Let_def inv votes_ok_update ok)
  qed
qed

lemma shuffle_inv [keeps]:
  "env_ok e \<Longrightarrow> room_inv r \<Longrightarrow> room_inv (snd (shuffle_queue e c r))"
  by (auto simp: shuffle_queue_def env_ok_def shuffle_def queue_length_def permuting_length
      intro!: seq_keeps [where I = room_inv] apply_queue_inv dest: room_inv_bound)

lemma restoreQueue_inv [keeps]: "room_inv r \<Longrightarrow> room_inv (snd (restoreQueue d c r))"
  by (auto simp: restoreQueue_def intro!: seq_keeps [where I = room_inv] apply_queue_inv
      intro: room_bounds split: option.split)

lemma room_inv_start [keeps]:
  assumes "room_inv r"
  shows "room_inv (playNow_start e v r)"
proof -
  let ?s = "set_videoSegments [] ((set_playbackPosition 0
     (markDirty Pqueue (set_currentSource (now e) (Some v) r)))\<lparr>playbackStart := Some (now e)\<rparr>)"
  have "play_inv ?s" by (simp add: play_inv_position play_inv_source)
  then have "play_inv (play (now e) ?s)" "play_inv (holdPlaybackForPreparation e ?s)"
    by (auto intro: play_inv_play play_inv_hold)
  with assms \<open>play_inv ?s\<close> show ?thesis
    by (simp add: room_inv_def playNow_start_def Let_def)
qed

lemma playNow_take_inv:
  "playNow_take e v r = Inr (w, r') \<Longrightarrow> room_inv r \<Longrightarrow> room_inv r'"
  by (auto simp: playNow_take_def bind_result_def split: sum.splits if_splits prod.splits
      dest: room_bounds(5) simp: room_inv_def intro!: data_inv_queue)

lemma requeue_current_inv:
  assumes "room_inv r"
  shows "room_inv (snd (requeue_current e r))"
proof -
  have "play_inv (r\<lparr>currentSource := Some (v\<lparr>v_startAt := s\<rparr>)\<rparr>)" if "currentSource r = Some v" for v s
    using assms that
    by (auto simp: room_inv_def play_inv_defs canPreparePlayback_def canPrepare_source_def
        split: option.splits)
  then have "room_inv (r\<lparr>currentSource := Some (v\<lparr>v_startAt := s\<rparr>)\<rparr>)" if "currentSource r = Some v" for v s
    using assms that by (simp add: room_inv_def)
  with assms show ?thesis
    by (auto simp: requeue_current_def Let_def intro!: apply_queue_inv
        intro: room_bounds split: option.split)
qed

lemma playNow_inv [keeps]:
  assumes "room_inv r"
  shows "room_inv (snd (playNow e v c r))"
  using assms
  by (auto simp: playNow_def intro!: seq_keeps [where I = room_inv] requeue_current_inv room_inv_start
      dest: playNow_take_inv split: sum.split option.split)

section \<open>Viewers and settings\<close>

lemma engine_inv [keeps]:
  "room_inv r \<Longrightarrow> room_inv (evaluateBufferGate t r)"
  "room_inv r \<Longrightarrow> room_inv (releaseBufferGate t b r)"
  "room_inv r \<Longrightarrow> room_inv (play t r)"
  "room_inv r \<Longrightarrow> room_inv (pause t b r)"
  "room_inv r \<Longrightarrow> room_inv (pausePlaybackClock t r)"
  "room_inv r \<Longrightarrow> room_inv (seekRaw t x r)"
  "room_inv r \<Longrightarrow> room_inv (endTemporaryPlaybackSpeed t b r)"
  "room_inv r \<Longrightarrow> room_inv (cancelPlaybackPreparation r)"
  "room_inv r \<Longrightarrow> room_inv (prepareEmptyRoomPlayback e r)"
  "room_inv r \<Longrightarrow> room_inv (holdEmptyPlaybackForJoin t b r)"
  "room_inv r \<Longrightarrow> room_inv (finishPlaybackPreparation t cid st pd r)"
  "room_inv r \<Longrightarrow> room_inv (refreshPlaybackPreparation r)"
  "room_inv r \<Longrightarrow> room_inv (schedulePlaybackStart t f r)"
  "room_inv r \<Longrightarrow> room_inv (startPreparedPlayback t r)"
  "room_inv r \<Longrightarrow> room_inv (dequeueNext e r)"
  "room_inv (renewTemporaryPlaybackSpeed t r) = room_inv r"
  "room_inv (clearPlaybackStartTimer r) = room_inv r"
  by (simp_all add: room_inv_def keeps)

lemma room_inv_upd [simp]:
  "room_inv (r\<lparr>pendingLeaveEvents := v11\<rparr>) = room_inv r"
  "room_inv (r\<lparr>realusers := v16\<rparr>) = room_inv r"
  "room_inv (r\<lparr>bufferGateExhausted := v10\<rparr>) = room_inv r"
  "room_inv (r\<lparr>keepAlivePing := v22\<rparr>) = room_inv r"
  "room_inv (r\<lparr>wantSponsorBlock := b\<rparr>) = room_inv r"
  "room_inv (r\<lparr>dontSkipSegmentsUntil := v23\<rparr>) = room_inv r"
  "room_inv (r\<lparr>userRoles := v5\<rparr>) = room_inv r"
  "room_inv (r\<lparr>commands := v26\<rparr>) = room_inv r"
  "room_inv (r\<lparr>playbackStart := v13\<rparr>) = room_inv r"
  "room_inv (r\<lparr>dirty := v20\<rparr>) = room_inv r"
  "room_inv (r\<lparr>passwordHash := v12\<rparr>) = room_inv r"
  "room_inv (r\<lparr>restoreQueueBehavior := v7\<rparr>) = room_inv r"
  by (simp_all add: room_inv_def)

lemma noteJoin_inv: "room_inv (snd (noteJoin tok cid r)) = room_inv r"
  by (simp add: noteJoin_def split: option.split)

lemma play_inv_gesture:
  "gesture_inv r \<Longrightarrow> play_inv (play t r)"
  by (auto simp: play_inv_defs split: option.splits)

lemma resume_or_prepare_inv:
  assumes "room_inv r"
  shows "room_inv (resume_or_prepare e b role r)"
proof -
  have "gesture_inv (markDirty PisPlaying (r\<lparr>resumeOnNextJoin := False\<rparr>))"
    using assms by (simp add: room_inv_def play_inv_def gesture_inv_def split: option.splits)
  then have "room_inv (play t (markDirty PisPlaying (r\<lparr>resumeOnNextJoin := False\<rparr>)))" for t
    using assms by (simp add: room_inv_def play_inv_gesture)
  with assms show ?thesis by (simp add: resume_or_prepare_def engine_inv)
qed

lemma sync_client_inv [simp]: "room_inv (snd (sync_client cid r)) = room_inv r"
  by (simp add: sync_client_def split: sum.split)

lemma joinRoom_inv [keeps]:
  assumes "room_inv r"
  shows "room_inv (snd (joinRoom e info b c r))"
proof -
  have "room_inv (holdEmptyPlaybackForJoin (now e) b r)" using assms by (rule engine_inv)
  then have "room_inv (resume_or_prepare e b role
      ((holdEmptyPlaybackForJoin (now e) b r)\<lparr>realusers := us\<rparr>))" for role us
    by (intro resume_or_prepare_inv) simp
  with assms show ?thesis
    using noteJoin_inv
    by (auto simp: joinRoom_def Let_def engine_inv publishRoomEvent_inv split: prod.split option.split)
      (metis publishRoomEvent_inv snd_conv noteJoin_inv)+
qed

lemma withdraw_votes_inv:
  assumes "room_inv r"
  shows "room_inv (withdraw_votes cid r)"
proof -
  have ok: "votes_ok (map (\<lambda>(k, cs). (k, js_delete cid cs)) vs)" if "votes_ok vs" for vs
    using that by (auto simp: votes_ok_def list_all_iff comp_def split_def)
  have skip: "data_inv (r\<lparr>votesToSkip := js_delete cid (votesToSkip r)\<rparr>)"
    using assms by (intro data_inv_set) (auto simp: room_inv_def data_inv_def)
  define s where "s = (if enableVoteSkip r
     then markDirty PvotesToSkip (r\<lparr>votesToSkip := js_delete cid (votesToSkip r)\<rparr>) else r)"
  have s: "room_inv s" using assms skip by (simp add: s_def room_inv_def)
  then have "room_inv (s\<lparr>votes := map (\<lambda>(k, cs). (k, js_delete cid cs)) (votes s)\<rparr>)"
    by (auto simp: room_inv_def intro!: data_inv_set ok data_inv_votes_ok)
  with s show ?thesis
    by (simp add: withdraw_votes_def Let_def s_def [symmetric])
qed

lemma publishLeaveEvent_inv [keeps]: "room_inv r \<Longrightarrow> room_inv (publishLeaveEvent t c u tok r)"
  by (simp add: publishLeaveEvent_def publishRoomEvent_inv)

lemma cleanDirty_inv [simp]: "room_inv (cleanDirty r) = room_inv r"
  by (simp add: cleanDirty_def room_inv_def data_inv_def clean_def queue_length_def)

lemma syncDirty_inv [simp]: "room_inv (snd (syncDirty e r)) = room_inv r"
  by (simp add: syncDirty_def Let_def)

lemma resume_flag_inv:
  assumes "room_inv r" "\<not> isPlaying r" "bufferGate r = None" "playbackPreparation r = None"
  shows "room_inv (r\<lparr>resumeOnNextJoin := b\<rparr>)"
  using assms by (auto simp: room_inv_def play_inv_defs split: option.splits)

lemma empty_room_inv:
  assumes "room_inv r"
  shows "room_inv (snd (empty_room e r))"
  using assms
  by (simp add: empty_room_def Let_def resume_flag_inv engine_inv)

lemma rebuild_preparation_inv:
  assumes "room_inv r"
  shows "room_inv (rebuild_preparation e cid r)"
proof (cases "playbackPreparation r")
  case None
  with assms show ?thesis by (simp add: rebuild_preparation_def)
next
  case (Some p)
  then have "\<not> isPlaying r" "bufferGate r = None"
    using assms play_inv_prep(5,8) [of r p] by (simp_all add: room_inv_def)
  with assms Some show ?thesis
    by (simp add: rebuild_preparation_def engine_inv resume_flag_inv)
qed

lemma leaveRoom_inv [keeps]:
  assumes "room_inv r"
  shows "room_inv (snd (leaveRoom e c r))"
  using assms
  by (auto simp: leaveRoom_def end_own_gesture_def Let_def engine_inv withdraw_votes_inv publishLeaveEvent_inv
      empty_room_inv rebuild_preparation_inv intro!: seq_keeps [where I = room_inv]
      split: option.split sum.split)

lemma leave_timer_inv [keeps]: "room_inv r \<Longrightarrow> room_inv (leave_timer tok r)"
  by (simp add: leave_timer_def Let_def publishRoomEvent_inv split: option.split)

lemma updateUser_inv [keeps]:
  assumes "room_inv r"
  shows "room_inv (snd (updateUser e info pd r))"
  using assms
  by (auto simp: updateUser_def Let_def engine_inv intro!: seq_keeps [where I = room_inv]
      split: option.split prod.split)

lemma chat_inv [simp]: "room_inv (snd (chat txt c r)) = room_inv r"
  by (simp add: chat_def split: option.split js_value.split sum.split)

lemma addNote_inv [keeps]:
  assumes "room_inv r"
  shows "room_inv (snd (addNote e txt c r))"
proof -
  have "room_inv (insert_note n a u s r)" if "countNotes r < MAX_NOTES_PER_ROOM" for n a u s
    using assms that
    by (auto simp: room_inv_def insert_note_def countNotes_def intro!: data_inv_set(5))
  with assms show ?thesis
    by (simp add: addNote_def Let_def publishNotes_def split: option.split sum.split)
qed

lemma deleteNote_inv [keeps]:
  assumes "room_inv r"
  shows "room_inv (snd (deleteNote nid r))"
proof -
  have "length (filter P (db_notes r)) \<le> MAX_NOTES_PER_ROOM" for P
    using assms le_trans [OF length_filter_le] by (auto simp: room_inv_def data_inv_def)
  then have "room_inv (snd (delete_note n r))" for n
    using assms by (simp add: room_inv_def delete_note_def data_inv_set)
  with assms show ?thesis
    by (auto simp: deleteNote_def publishNotes_def split: prod.split) (metis snd_conv)+
qed

lemma promoteUser_inv [simp]: "room_inv r \<Longrightarrow> room_inv (snd (promoteUser t role c r))"
  by (auto simp: promoteUser_def intro!: seq_keeps [where I = room_inv] split: option.split)

lemma kickUser_inv [simp]: "room_inv (snd (kickUser cid c r)) = room_inv r"
  by (simp add: kickUser_def command_def split: option.split)

lemma set_fields_inv [simp]:
  "room_inv (set_title v r) = room_inv r"
  "room_inv (set_description v r) = room_inv r"
  "room_inv (set_visibility v' r) = room_inv r"
  "room_inv (set_queueMode m r) = room_inv r"
  "room_inv (set_autoSkipSegmentCategories cs r) = room_inv r"
  "room_inv (set_enableVoteSkip b r) = room_inv r"
  "room_inv (set_bufferGateMode g r) = room_inv r"
  "room_inv (set_danmakuSource d r) = room_inv r"
  "room_inv (setPasswordHash h r) = room_inv r"
  by (simp_all add: set_title_def set_description_def set_visibility_def set_queueMode_def
      set_autoSkipSegmentCategories_def set_enableVoteSkip_def set_bufferGateMode_def
      set_danmakuSource_def setPasswordHash_def) (simp_all add: room_inv_def)

lemma assign_inv: "(\<And>x s. room_inv (f x s) = room_inv s) \<Longrightarrow> room_inv (assign f v r) = room_inv r"
  by (simp add: assign_def split: option.split)

lemma assign_settings_inv [simp]: "room_inv (assign_settings s r) = room_inv r"
  by (simp add: assign_settings_def Let_def assign_inv)

lemma apply_grants_inv [keeps]:
  "room_inv r \<Longrightarrow> room_inv (snd (apply_grants es r))"
proof (induction es r rule: apply_grants.induct)
  case (1 r)
  then show ?case by simp
next
  case (2 role w es r)
  have "room_inv (r\<lparr>grants := g\<rparr>)"
    if "setRoleGrants (role_num role) (Mask w) (grants r) = Inr g" "role_perm role \<noteq> None" for g
  proof -
    have "role \<noteq> Owner" "role \<noteq> Administrator" using that(2) by auto
    then have "wf_grants g"
      using setRoleGrants_wf [OF _ that(1)] "2.prems" by (simp add: room_inv_def data_inv_def)
    with "2.prems" show ?thesis by (simp add: room_inv_def data_inv_set)
  qed
  with 2 show ?case by (auto split: sum.split)
qed

lemma applySettings_inv [keeps]:
  assumes "room_inv r"
  shows "room_inv (snd (applySettings e s c r))"
  using assms
  by (auto simp: applySettings_def Let_def engine_inv intro!: seq_keeps [where I = room_inv] apply_grants_inv
      split: prod.split)

section \<open>Playback requests and undo\<close>

lemma playback_inv [keeps]: "room_inv r \<Longrightarrow> room_inv (snd (playback e b c r))"
  by (simp add: playback_def publishRoomEvent_inv engine_inv)

lemma toggle_skip_inv: "room_inv r \<Longrightarrow> room_inv (toggle_skip_vote c r)"
  by (auto simp: toggle_skip_vote_def Let_def room_inv_def data_inv_def intro!: data_inv_set)

lemma skip_now_inv: "room_inv r \<Longrightarrow> room_inv (skip_now e c r)"
  by (simp add: skip_now_def publishRoomEvent_inv engine_inv)

lemma skip_inv [keeps]: "room_inv r \<Longrightarrow> room_inv (snd (skip e c r))"
  by (simp add: skip_def Let_def skip_now_inv toggle_skip_inv)

lemma seek_inv [keeps]: "room_inv r \<Longrightarrow> room_inv (snd (seek e v c r))"
  by (simp add: seek_def Let_def publishRoomEvent_inv engine_inv split: js_value.split js_number.split)

lemma flush_inv:
  assumes "room_inv r"
  shows "room_inv (flushPlaybackPosition t r)"
proof -
  have "play_inv (flushPlaybackPosition t r)"
    using assms
    by (auto simp: room_inv_def play_inv_defs realPlaybackPosition_def
        canPrepare_source_cong [of "flushPlaybackPosition t r" r] split: option.splits)
  with assms show ?thesis by (simp add: room_inv_def)
qed

lemma setPlaybackSpeed_inv [keeps]: "room_inv r \<Longrightarrow> room_inv (snd (setPlaybackSpeed e x r))"
  using flush_inv [OF engine_inv(7), of r "now e" "now e" False]
  by (auto simp: setPlaybackSpeed_def room_inv_def play_inv_speed split: js_number.split)

lemma gesture_start_inv:
  assumes "room_inv r"
  shows "room_inv (gesture_start e cid g video r)"
proof -
  define s where "s = flushPlaybackPosition (now e) (releaseBufferGate (now e) False r)"
  have "room_inv s" unfolding s_def by (intro flush_inv engine_inv assms)
  then have "room_inv (set_playbackSpeed TEMPORARY_PLAYBACK_SPEED (s\<lparr>temporarySpeed := Some
      \<lparr>ts_clientId = cid, ts_gestureId = g, ts_speed = TEMPORARY_PLAYBACK_SPEED, ts_previousSpeed = v\<rparr>\<rparr>))"
    if "isPlaying s" "currentSource s \<noteq> None" "bufferGate s = None" for v
    using that by (auto simp: room_inv_def play_inv_defs split: option.splits)
  then show ?thesis
    using assms engine_inv(2) [OF assms, of "now e" False]
    by (auto simp: gesture_start_def Let_def engine_inv s_def split: option.splits)
qed

lemma setTemporaryPlaybackSpeed_inv [keeps]:
  "room_inv r \<Longrightarrow> room_inv (snd (setTemporaryPlaybackSpeed e a g v c r))"
  by (auto simp: setTemporaryPlaybackSpeed_def Let_def engine_inv gesture_start_inv
      intro!: seq_keeps [where I = room_inv])

lemma handle_inv [keeps]:
  assumes "env_ok e" and "room_inv r"
  shows "room_inv (snd (handle e req c r))"
  using assms by (cases req) (simp_all add: keeps)

lemma process_basic_inv [keeps]:
  "env_ok e \<Longrightarrow> room_inv r \<Longrightarrow> room_inv (snd (process_basic e req c r))"
  by (auto simp: process_basic_def authorize_def intro!: seq_keeps [where I = room_inv] handle_inv)

lemma set_source_inv: "room_inv r \<Longrightarrow> room_inv (set_currentSource t v r)"
  by (simp add: room_inv_def play_inv_source)

lemma source_position_inv:
  "room_inv r \<Longrightarrow> room_inv (set_playbackPosition x (set_currentSource t v r))"
  by (simp add: room_inv_def play_inv_position play_inv_source)

lemma undo_apply_inv:
  assumes e: "env_ok e" and r: "room_inv r"
  shows "room_inv (snd (undo_apply e ev c r))"
proof -
  have "room_inv (snd (undo_seek e ev c r))"
    using e r by (simp add: undo_seek_def process_basic_inv split: option.split)
  moreover have "room_inv (snd (undo_skip e ev c r))"
    using r by (auto simp: undo_skip_def simp del: first_error.simps
        intro!: seq_keeps [where I = room_inv] apply_queue_inv source_position_inv
        intro: room_bounds split: option.split)
  moreover have "room_inv (snd (undo_add e ev c r))"
    using e r by (auto simp: undo_add_def intro!: seq_keeps [where I = room_inv] process_basic_inv
        set_source_inv split: option.split)
  moreover have "room_inv (snd (undo_remove ev c r))"
    using r by (auto simp: undo_remove_def intro!: seq_keeps [where I = room_inv] apply_queue_inv
        intro: insert_bound simp del: first_error.simps split: option.split)
  ultimately show ?thesis
    using r by (simp add: undo_apply_def split: option.split undo_kind.split)
qed

lemma forget_event_inv: "room_inv r \<Longrightarrow> room_inv (forget_event i b r)"
  by (auto simp: forget_event_def Let_def room_inv_def data_inv_def splice_out_def)

lemma undo_inv [keeps]:
  "env_ok e \<Longrightarrow> room_inv r \<Longrightarrow> room_inv (snd (undo e ev c r))"
  by (auto simp: undo_def intro!: seq_keeps [where I = room_inv] undo_apply_inv forget_event_inv
      split: option.split)

lemma processRequest_inv [keeps]:
  "env_ok e \<Longrightarrow> room_inv r \<Longrightarrow> room_inv (snd (processRequest e req c r))"
  by (simp add: processRequest_def undo_inv process_basic_inv split: RoomRequest.split)

section \<open>The tick, the timers and unloading\<close>

lemma tick_schedule_inv: "room_inv r \<Longrightarrow> room_inv (tick_schedule t r)"
proof (cases "playbackPreparation r")
  case None
  then show "room_inv r \<Longrightarrow> ?thesis" by (simp add: tick_schedule_def)
next
  case (Some p)
  assume inv: "room_inv r"
  note facts = play_inv_prep [of r p, OF _ Some]
  have "play_inv (r\<lparr>playbackPreparation := Some (p\<lparr>pp_fallback := f\<rparr>)\<rparr>)" for f
    using inv facts by (intro prep_inv_replace [OF _ Some]) (auto simp: room_inv_def)
  with inv show ?thesis
    by (simp add: tick_schedule_def Some engine_inv) (simp add: room_inv_def)
qed

lemma tick_preparation_inv: "room_inv r \<Longrightarrow> room_inv (tick_preparation t r)"
  by (simp add: tick_preparation_def tick_start_def tick_schedule_inv engine_inv split: option.split)

lemma stable_desc_length: "stable_desc f \<Longrightarrow> length (f key xs) = length xs"
  unfolding stable_desc_def by (metis size_mset)

lemma tick_order_inv:
  assumes "env_ok e" and "room_inv r"
  shows "room_inv (tick_order e r)"
proof -
  let ?q = "orderBy (e_orderBy e (vote_count r)) (queue r)"
  have "queue_length ?q = queue_length (queue r)"
    using assms(1) stable_desc_length [of "e_orderBy e" "vote_count r" "items (queue r)"]
    by (simp add: orderBy_def queue_length_def Let_def markDirty_queue_def env_ok_def)
  then have "queue_length ?q \<le> MAX_QUEUE_ITEMS" using room_inv_bound [OF assms(2)] by simp
  with assms(2) show ?thesis
    by (simp add: tick_order_def Let_def room_inv_def data_inv_queue data_inv_set)
qed

lemma tick_inv [keeps]:
  assumes e: "env_ok e" and r: "room_inv r"
  shows "room_inv (update_room e r)"
proof -
  have g: "room_inv (tick_gesture t s)" if "room_inv s" for t s
    using that by (simp add: tick_gesture_def engine_inv split: option.split)
  have n: "room_inv (tick_next e s)" if "room_inv s" for s
    using that by (simp add: tick_next_def engine_inv)
  have k: "room_inv (tick_keepalive e s)" if "room_inv s" for s
    using that by (simp add: tick_keepalive_def)
  have f: "room_inv (fetchSponsorBlockSegments e s)" if "room_inv s" for s
    using that by (simp add: fetchSponsorBlockSegments_def split: option.split)
  have s: "room_inv (tick_segments e s)" if "room_inv s" for s
    using that
    by (auto simp: tick_segments_def skip_segment_def Let_def engine_inv f split: option.splits)
  show ?thesis
    unfolding update_room_def using r
    by (intro s tick_order_inv [OF e] k n g tick_preparation_inv engine_inv)
qed

lemma unload_inv [keeps]: "room_inv r \<Longrightarrow> room_inv (snd (onBeforeUnload e r))"
  by (simp add: onBeforeUnload_def Let_def engine_inv)

section \<open>Grants from outside\<close>

lemma setMapGrants_owner:
  "setMapGrants (entries es) g = Inr h \<Longrightarrow> distinct (map fst es) \<Longrightarrow>
     mask_of h Owner = (case map_of es Owner of
       None \<Rightarrow> mask_of g Owner
     | Some w \<Rightarrow> if w = 0 then mask_of g Owner else w AND getValidationMask Owner)"
proof (induction es arbitrary: g)
  case Nil
  then show ?case by (simp add: entries_def)
next
  case (Cons e es)
  obtain r w where e: "e = (r, w)" by force
  have fresh: "map_of es Owner = None" if "r = Owner"
    using Cons.prems(2) e that by (simp add: map_of_eq_None_iff)
  show ?case
  proof (cases "w = 0")
    case True
    with Cons.IH [of g] Cons.prems e fresh show ?thesis
      by (auto simp: entries_def split: option.splits)
  next
    case False
    obtain k where k: "setRoleGrants (role_num r) (Mask w) g = Inr k" using setRoleGrants_Inr by blast
    have "mask_of k Owner = (if r = Owner then w AND getValidationMask Owner else mask_of g Owner)"
      by (rule bit_eqI) (simp add: bit_setRoleGrants [OF k] Let_def)
    with Cons.IH [of k] Cons.prems e k False fresh show ?thesis
      by (auto simp: entries_def split: option.splits)
  qed
qed

lemma setMapGrants_keys:
  assumes "setMapGrants (entries es) g = Inr h"
  shows "fst ` set g \<subseteq> fst ` set h \<and> ((\<exists>e\<in>set es. snd e \<noteq> 0) \<longrightarrow> set inherited_roles \<subseteq> fst ` set h)"
  using assms
proof (induction es arbitrary: g)
  case Nil
  then show ?case by (simp add: entries_def)
next
  case (Cons e es)
  obtain r w where e: "e = (r, w)" by force
  obtain k where k: "setRoleGrants (role_num r) (Mask w) g = Inr k" using setRoleGrants_Inr by blast
  show ?case
  proof (cases "w = 0")
    case True
    with Cons.IH [of g] Cons.prems e show ?thesis by (simp add: entries_def)
  next
    case False
    with Cons.IH [of k] Cons.prems e k setRoleGrants_keys [OF k] show ?thesis
      by (auto simp: entries_def)
  qed
qed

text \<open>Copying well-formed grants gives well-formed grants.\<close>

lemma setAllGrants_wf:
  assumes wf: "wf_grants g" and h: "setAllGrants (FromGrants g) = Inr h"
  shows "wf_grants h"
proof -
  have d: "distinct (map fst g)" using wf by (simp add: wf_grants_def)
  have "\<exists>h. setMapGrants (entries g) [] = Inr h \<and> loads g h"
    using setMapGrants_loads [OF loads_Nil, of g] d by simp
  with h have "loads g h" by auto
  then have admin: "mask_of h Administrator = 536870911"
    using loads_wf [OF wf] wf by (simp add: wf_grants_def)
  have full: "map_of g Owner = Some 536870911"
    using wf by (simp add: wf_grants_def getMask_def bits_def split: option.splits)
  then have "(Owner, 536870911) \<in> set g" by (rule map_of_SomeD)
  then have "\<exists>e\<in>set g. snd e \<noteq> 0" by force
  then have "set inherited_roles \<subseteq> fst ` set h" using setMapGrants_keys [of g "[]" h] h by simp
  moreover have "mask_of h Owner = 536870911"
    using setMapGrants_owner [of g "[]" h] h d full by (simp add: validation_masks)
  ultimately show ?thesis
    using setAllGrants_closed [OF h] admin by (simp add: wf_grants_def)
qed

lemma setGrants_inv [keeps]:
  assumes "wf_grants g" and "room_inv r"
  shows "room_inv (snd (setGrants e g r))"
proof -
  have "room_inv (r\<lparr>grants := h\<rparr>)" if "setAllGrants (FromGrants g) = Inr h" for h
    using assms setAllGrants_wf that by (simp add: room_inv_def data_inv_set)
  with assms(2) show ?thesis by (simp add: setGrants_def engine_inv split: sum.split)
qed

lemma apply_additions_wf:
  "apply_additions rs g = Inr h \<Longrightarrow> wf_grants g \<Longrightarrow> wf_grants h"
proof (induction rs g rule: apply_additions.induct)
  case (1 g)
  then show ?case by simp
next
  case (2 rev rs g)
  then show ?case
    using setRoleGrants_wf [of g UnregisteredUser]
    by (fastforce simp: bind_result_def split: if_splits sum.splits)
qed

section \<open>The machine\<close>

text \<open>Options a room can be built from without exceeding its bounds.\<close>

definition options_ok :: "RoomOptions \<Rightarrow> bool" where
  "options_ok op \<longleftrightarrow>
     length (op_queue op) \<le> MAX_QUEUE_ITEMS
     \<and> (case op_prevQueue op of None \<Rightarrow> True | Some vs \<Rightarrow> length vs \<le> MAX_QUEUE_ITEMS)
     \<and> (op_resumeOnNextJoin op \<longrightarrow> op_isPlaying op \<noteq> Some True)
     \<and> (case op_grants op of Some (FromGrants g) \<Rightarrow> wf_grants g | _ \<Rightarrow> True)"

definition event_ok :: "room_event \<Rightarrow> bool" where
  "event_ok ev =
     (case ev of
        Request e _ _ \<Rightarrow> env_ok e
      | Tick e \<Rightarrow> env_ok e
      | SetGrants _ g \<Rightarrow> wf_grants g
      | _ \<Rightarrow> True)"

lemma timer_inv:
  "room_inv r \<Longrightarrow> room_inv (temporary_speed_timer t r)"
  "room_inv r \<Longrightarrow> room_inv (playback_start_timer t r)"
  by (simp_all add: temporary_speed_timer_def playback_start_timer_def engine_inv split: option.split)

lemma room_step_inv: "room_inv r \<Longrightarrow> event_ok ev \<Longrightarrow> room_inv (room_step r ev)"
  by (cases ev) (simp_all add: event_ok_def keeps timer_inv)

text \<open>A new room satisfies the invariant.\<close>

lemma constructor_grants_wf:
  assumes "constructor_grants op = Inr g" and "options_ok op"
  shows "wf_grants g"
proof -
  have "wf_grants h" if "(case op_grants op of None \<Rightarrow> defaultPermissions
      | Some (FromGrants g) \<Rightarrow> Inr g | Some i \<Rightarrow> new_Grants i) = Inr h" for h
    using that assms(2) new_Grants_wf
    by (auto simp: options_ok_def defaultPermissions_def split: option.splits grants_input.splits)
  with assms(1) show ?thesis
    unfolding constructor_grants_def applyPermissionAdditions_def bind_result_def
    by (auto dest: apply_additions_wf split: sum.splits if_splits)
qed

lemma blank_room_inv: "wf_grants g \<Longrightarrow> room_inv (blank_room t g)"
  by (simp add: blank_room_def set_owner_def room_inv_def)
    (simp add: play_inv_defs data_inv_def queue_length_def new_VideoQueue_def votes_ok_def)

text \<open>A room in which nothing has happened yet.\<close>

definition idle :: "Room \<Rightarrow> bool" where
  "idle r \<longleftrightarrow>
     temporarySpeed r = None \<and> playbackPreparation r = None \<and> bufferGate r = None
     \<and> \<not> resumeOnNextJoin r \<and> data_inv r"

lemma idle_inv:
  "idle r \<Longrightarrow> (b \<longrightarrow> \<not> isPlaying r) \<Longrightarrow> room_inv (r\<lparr>passwordHash := h, resumeOnNextJoin := b\<rparr>)"
  by (auto simp: idle_def room_inv_def play_inv_defs)

lemma assign_frame: "(\<And>x s. F (f x s) = F s) \<Longrightarrow> F (assign f v r) = F r"
  by (simp add: assign_def split: option.split)

lemma idle_setters:
  "idle (set_name n r) = idle r" "idle (set_title n r) = idle r" "idle (set_description n r) = idle r"
  "idle (set_visibility v r) = idle r" "idle (set_queueMode m r) = idle r"
  "idle (r\<lparr>isTemporary := b\<rparr>) = idle r" "idle (set_owner u r) = idle r"
  "idle (set_playbackPosition x r) = idle r" "idle (set_playbackSpeed x r) = idle r"
  "idle (set_autoSkipSegmentCategories cs r) = idle r" "idle (set_prevQueue pq r) = idle r"
  "idle (r\<lparr>restoreQueueBehavior := bh\<rparr>) = idle r" "idle (set_enableVoteSkip b r) = idle r"
  "idle (set_bufferGateMode gm r) = idle r" "idle (set_danmakuSource d r) = idle r"
  by (simp_all add: idle_def set_name_def set_title_def set_description_def set_visibility_def
      set_queueMode_def set_owner_def set_autoSkipSegmentCategories_def set_prevQueue_def
      set_enableVoteSkip_def set_bufferGateMode_def set_danmakuSource_def)
    (simp_all add: data_inv_def)

lemma idle_assign:
  "idle r \<Longrightarrow> idle (assign (set_currentSource t) c r)"
  "idle r \<Longrightarrow> idle (assign (set_isPlaying t) b r)"
  by (simp_all add: assign_def idle_def split: option.split)

lemma playing_setters:
  "isPlaying (set_name n r) = isPlaying r" "isPlaying (set_title n r) = isPlaying r"
  "isPlaying (set_description n r) = isPlaying r" "isPlaying (set_visibility v r) = isPlaying r"
  "isPlaying (set_queueMode m r) = isPlaying r" "isPlaying (set_owner u r) = isPlaying r"
  "isPlaying (set_autoSkipSegmentCategories cs r) = isPlaying r"
  "isPlaying (set_prevQueue pq r) = isPlaying r" "isPlaying (set_enableVoteSkip b r) = isPlaying r"
  "isPlaying (set_bufferGateMode gm r) = isPlaying r" "isPlaying (set_danmakuSource d r) = isPlaying r"
  by (simp_all add: set_name_def set_title_def set_description_def set_visibility_def
      set_queueMode_def set_owner_def set_autoSkipSegmentCategories_def set_prevQueue_def
      set_enableVoteSkip_def set_bufferGateMode_def set_danmakuSource_def)

lemma assign_options_idle:
  assumes "idle r" and "options_ok op" and "\<not> isPlaying r"
  shows "room_inv (assign_options t op r)"
proof -
  note fr = idle_setters assign_frame [where F = idle] idle_assign
  note pl = playing_setters assign_frame [where F = isPlaying]
  have q: "idle (s\<lparr>queue := new_VideoQueue (op_queue op)\<rparr>)" if "idle s" for s
    using that assms(2)
    by (auto simp: idle_def options_ok_def queue_length_def new_VideoQueue_def intro!: data_inv_set)
  have playing: "isPlaying (assign (set_isPlaying t) b s) = (case b of None \<Rightarrow> isPlaying s | Some x \<Rightarrow> x)"
    for b s by (simp add: assign_def split: option.split)
  show ?thesis
    unfolding assign_options_def Let_def
    by (rule idle_inv) (use assms in \<open>auto simp: fr q pl playing options_ok_def split: option.split\<close>)
qed

lemma prevQueue_setters:
  "prevQueue (set_name n r) = prevQueue r" "prevQueue (set_title n r) = prevQueue r"
  "prevQueue (set_description n r) = prevQueue r" "prevQueue (set_visibility v r) = prevQueue r"
  "prevQueue (set_queueMode m r) = prevQueue r" "prevQueue (set_owner u r) = prevQueue r"
  "prevQueue (set_autoSkipSegmentCategories cs r) = prevQueue r"
  "prevQueue (set_prevQueue pq r) = pq" "prevQueue (set_enableVoteSkip b r) = prevQueue r"
  "prevQueue (set_bufferGateMode gm r) = prevQueue r" "prevQueue (set_danmakuSource d r) = prevQueue r"
  by (simp_all add: set_name_def set_title_def set_description_def set_visibility_def
      set_queueMode_def set_owner_def set_autoSkipSegmentCategories_def set_prevQueue_def
      set_enableVoteSkip_def set_bufferGateMode_def set_danmakuSource_def)

lemma assign_options_prevQueue: "prevQueue (assign_options t op r) = op_prevQueue op"
  unfolding assign_options_def Let_def
  by (simp add: assign_frame [where F = prevQueue] prevQueue_setters)

lemma restore_prevQueue_inv:
  assumes "room_inv r"
    and "case prevQueue r of None \<Rightarrow> True | Some vs \<Rightarrow> length vs \<le> MAX_QUEUE_ITEMS"
  shows "room_inv (restore_prevQueue r)"
proof -
  have "room_inv (s\<lparr>queue := (queue s)\<lparr>items := items (queue s) @ vs\<rparr>\<rparr>)"
    if "room_inv s" "length vs \<le> MAX_QUEUE_ITEMS" "items (queue s) = []" for s vs
    using that by (auto simp: room_inv_def queue_length_def intro!: data_inv_set)
  moreover have "room_inv (s\<lparr>restoredFromStorage := b\<rparr>) = room_inv s" for s b
    by (simp add: room_inv_def)
  ultimately show ?thesis
    using assms by (auto simp: restore_prevQueue_def Let_def prevQueue_setters split: option.split)
qed

lemma new_Room_inv:
  assumes "new_Room t op = Inr r" and "options_ok op"
  shows "room_inv r"
proof -
  obtain g where g: "constructor_grants op = Inr g"
    using assms(1) by (auto simp: new_Room_def bind_result_def split: sum.splits)
  let ?b = "restore_prevQueue (assign_options t op (blank_room t g))"
  have "idle (blank_room t g)" "\<not> isPlaying (blank_room t g)"
    using blank_room_inv [OF constructor_grants_wf [OF g assms(2)]]
    by (simp_all add: idle_def room_inv_def) (simp_all add: blank_room_def set_owner_def)
  then have "room_inv ?b"
    using assms(2)
    by (intro restore_prevQueue_inv assign_options_idle)
      (auto simp: assign_options_prevQueue options_ok_def)
  then have b: "play_inv ?b" "data_inv ?b" by (simp_all add: room_inv_def)
  have r: "r = ?b\<lparr>permissionsRevision := max (or_else (op_permissionsRevision op) 0) ROOM_PERMISSIONS_REVISION,
      userRoles := or_else (op_userRoles op) (userRoles ?b), playbackStart := op_playbackStart op,
      votesToSkip := js_Set (op_votesToSkip op)\<rparr>"
    using assms(1) g by (simp add: new_Room_def bind_result_def Let_def)
  have "playstate r = playstate ?b" by (simp add: r playstate_def)
  then have "play_inv r" using play_inv_cong b(1) by blast
  moreover have "data_inv r" using b(2) by (simp add: r data_inv_def)
  ultimately show ?thesis by (simp add: room_inv_def)
qed

interpretation room_machine: invariant_machine room_step room_inv event_ok
  by unfold_locales (rule room_step_inv)

text \<open>The rooms that can exist: built from well-formed options and driven by any events.\<close>

inductive reachable :: "Room \<Rightarrow> bool" where
  built: "options_ok op \<Longrightarrow> new_Room t op = Inr r \<Longrightarrow> reachable r"
| stepped: "reachable r \<Longrightarrow> event_ok ev \<Longrightarrow> reachable (room_step r ev)"

inductive_cases reachableE: "reachable r"

lemma reachable_inv: "reachable r \<Longrightarrow> room_inv r"
  by (induction rule: reachable.induct) (auto intro: new_Room_inv room_machine.step_inv)

lemma reachable_run: "reachable r \<Longrightarrow> list_all event_ok es \<Longrightarrow> reachable (foldl room_step r es)"
  by (induction es arbitrary: r) (auto intro: stepped)

end
