(* ===== verification/RoomClock.thy ===== *)
theory RoomClock
  imports RoomSafety
begin

text \<open>
  The clock of the playback head: no request but a seek, a skip, an undo and a play-now moves the
  position that viewers are shown, whatever it does to the anchor and to the speed.
\<close>

section \<open>The engine keeps the position\<close>

lemma real_markDirty [simp]: "realPlaybackPosition t (markDirty p r) = realPlaybackPosition t r"
  by (simp add: realPlaybackPosition_def calcDurationFromPlaybackStart_def split: option.split)

lemma real_same:
  assumes "playbackStart a = playbackStart b" "isPlaying a = isPlaying b"
    "playbackPosition a = playbackPosition b" "playbackSpeed a = playbackSpeed b"
  shows "realPlaybackPosition t a = realPlaybackPosition t b"
  using assms
  by (simp add: realPlaybackPosition_def calcDurationFromPlaybackStart_def split: option.split)

lemma real_stopped: "\<not> isPlaying r \<Longrightarrow> realPlaybackPosition t r = playbackPosition r"
  by (simp add: realPlaybackPosition_def)

lemma real_at_anchor: "playbackStart r = Some t \<Longrightarrow> realPlaybackPosition t r = playbackPosition r"
  by (simp add: realPlaybackPosition_def calcDurationFromPlaybackStart_def)

lemma real_flush [simp]: "realPlaybackPosition t (flushPlaybackPosition t r) = realPlaybackPosition t r"
  by (simp add: real_at_anchor)

lemma real_endTemporary [simp]:
  "realPlaybackPosition t (endTemporaryPlaybackSpeed t b r) = realPlaybackPosition t r"
proof (cases "temporarySpeed r")
  case None
  then show ?thesis
    by (simp add: endTemporaryPlaybackSpeed_def) (rule real_same; simp)
next
  case (Some s)
  have same: "realPlaybackPosition t (r\<lparr>temporarySpeedTimer := None, temporarySpeed := None\<rparr>)
      = realPlaybackPosition t r" by (rule real_same) simp_all
  show ?thesis
    using Some same by (simp add: endTemporaryPlaybackSpeed_def Let_def real_at_anchor)
qed

lemma endTemporary_none:
  "temporarySpeed r = None \<Longrightarrow> endTemporaryPlaybackSpeed t b r = r\<lparr>temporarySpeedTimer := None\<rparr>"
  by (simp add: endTemporaryPlaybackSpeed_def)

lemma real_cancel [simp]:
  "realPlaybackPosition t (cancelPlaybackPreparation r) = realPlaybackPosition t r"
  by (rule real_same) simp_all

lemma play_playing:
  "isPlaying r \<Longrightarrow> playbackStart (play t r) = playbackStart r"
  "isPlaying r \<Longrightarrow> playbackPosition (play t r) = playbackPosition r"
  "\<not> isPlaying r \<Longrightarrow> playbackStart (play t r) = Some t"
  "\<not> isPlaying r \<Longrightarrow> playbackPosition (play t r) = playbackPosition r"
  by (simp_all add: play_def Let_def set_isPlaying_def)

lemma real_play [simp]: "realPlaybackPosition t (play t r) = realPlaybackPosition t r"
proof (cases "isPlaying r")
  case True
  then show ?thesis by (intro real_same) (simp_all add: play_playing)
next
  case False
  then show ?thesis by (simp add: play_playing real_at_anchor real_stopped)
qed

lemma real_pauseClock [simp]: "realPlaybackPosition t (pausePlaybackClock t r) = realPlaybackPosition t r"
proof -
  let ?e = "endTemporaryPlaybackSpeed t True r"
  have "realPlaybackPosition t ?e = realPlaybackPosition t r" by simp
  moreover have "playbackPosition (set_isPlaying t False
      ((flushPlaybackPosition t ?e)\<lparr>playbackStart := None\<rparr>)) = realPlaybackPosition t ?e"
    by (simp add: set_isPlaying_def endTemporary_none)
  ultimately show ?thesis
    by (auto simp: pausePlaybackClock_def Let_def real_stopped endTemporary_position)
qed

lemma real_gate [simp]:
  "realPlaybackPosition t (r\<lparr>bufferGate := g\<rparr>) = realPlaybackPosition t r"
  "realPlaybackPosition t (r\<lparr>bufferGateExhausted := cs\<rparr>) = realPlaybackPosition t r"
  "realPlaybackPosition t (r\<lparr>bufferGateCooldownUntil := l\<rparr>) = realPlaybackPosition t r"
  "realPlaybackPosition t (r\<lparr>resumeOnNextJoin := b\<rparr>) = realPlaybackPosition t r"
  "realPlaybackPosition t (r\<lparr>temporarySpeed := ts\<rparr>) = realPlaybackPosition t r"
  "realPlaybackPosition t (r\<lparr>temporarySpeedTimer := l\<rparr>) = realPlaybackPosition t r"
  "realPlaybackPosition t (r\<lparr>playbackStartTimer := l\<rparr>) = realPlaybackPosition t r"
  "realPlaybackPosition t (r\<lparr>playbackPreparation := p\<rparr>) = realPlaybackPosition t r"
  "realPlaybackPosition t (r\<lparr>realusers := us\<rparr>) = realPlaybackPosition t r"
  "realPlaybackPosition t (r\<lparr>votes := vs\<rparr>) = realPlaybackPosition t r"
  "realPlaybackPosition t (r\<lparr>votesToSkip := ws\<rparr>) = realPlaybackPosition t r"
  "realPlaybackPosition t (r\<lparr>queue := q\<rparr>) = realPlaybackPosition t r"
  "realPlaybackPosition t (r\<lparr>keepAlivePing := k\<rparr>) = realPlaybackPosition t r"
  "realPlaybackPosition t (r\<lparr>pendingLeaveEvents := pl\<rparr>) = realPlaybackPosition t r"
  "realPlaybackPosition t (r\<lparr>outbox := ob\<rparr>) = realPlaybackPosition t r"
  "realPlaybackPosition t (r\<lparr>commands := co\<rparr>) = realPlaybackPosition t r"
  "realPlaybackPosition t (r\<lparr>recentEvents := es\<rparr>) = realPlaybackPosition t r"
  "realPlaybackPosition t (r\<lparr>userRoles := ur\<rparr>) = realPlaybackPosition t r"
  "realPlaybackPosition t (r\<lparr>grants := gr\<rparr>) = realPlaybackPosition t r"
  "realPlaybackPosition t (r\<lparr>db_notes := ns\<rparr>) = realPlaybackPosition t r"
  "realPlaybackPosition t (r\<lparr>dirty := ds\<rparr>) = realPlaybackPosition t r"
  "realPlaybackPosition t (r\<lparr>prevQueue := pq\<rparr>) = realPlaybackPosition t r"
  "realPlaybackPosition t (r\<lparr>wantSponsorBlock := b\<rparr>) = realPlaybackPosition t r"
  "realPlaybackPosition t (r\<lparr>restoreQueueBehavior := bh\<rparr>) = realPlaybackPosition t r"
  by (rule real_same, simp_all)+

lemma real_release [simp]:
  "realPlaybackPosition t (releaseBufferGate t b r) = realPlaybackPosition t r"
  by (simp add: releaseBufferGate_def Let_def split: option.split)

lemma real_pause [simp]: "realPlaybackPosition t (pause t b r) = realPlaybackPosition t r"
  by (simp add: pause_def)

lemma real_evaluate [simp]:
  "realPlaybackPosition t (evaluateBufferGate t r) = realPlaybackPosition t r"
  by (simp add: evaluateBufferGate_def Let_def split: option.split)

text \<open>The prepared start: the round is about the position the paused room shows.\<close>

lemma start_at_once:
  assumes "play_inv r" "playbackPreparation r = Some p"
  shows "realPlaybackPosition t
     (startPreparedPlayback t (markDirty x (r\<lparr>playbackPreparation := Some (p\<lparr>pp_fallback := f, pp_startAt := Some t\<rparr>)\<rparr>)))
     = realPlaybackPosition t r"
  using play_inv_prep(5,10) [OF assms]
  by (simp add: startPreparedPlayback_def Let_def real_at_anchor real_stopped)
    (simp add: set_isPlaying_def)

lemma real_schedule:
  assumes "play_inv r"
  shows "realPlaybackPosition t (schedulePlaybackStart t f r) = realPlaybackPosition t r"
proof (cases "playbackPreparation r")
  case None
  then show ?thesis by (simp add: schedulePlaybackStart_def)
next
  case (Some p)
  show ?thesis
    using start_at_once [OF assms Some] Some
    by (simp add: schedulePlaybackStart_def Let_def clearPlaybackStartTimer_def)
qed

lemma real_drop:
  assumes "play_inv r"
  shows "realPlaybackPosition t (dropPlaybackParticipant t cid r) = realPlaybackPosition t r"
proof (cases "playbackPreparation r")
  case None
  then show ?thesis by (simp add: dropPlaybackParticipant_def)
next
  case (Some p)
  note facts = play_inv_prep [OF assms Some]
  let ?el = "filter (\<lambda>i. i \<noteq> cid) (pp_eligible p)"
  let ?p = "\<lambda>el c. p\<lparr>pp_eligible := el,
              pp_ready := filter (\<lambda>rd. rd_clientId rd \<noteq> cid) (pp_ready p), pp_clientId := c\<rparr>"
  have "play_inv (markDirty x (r\<lparr>playbackPreparation := Some (?p ?el c)\<rparr>))" for c x
    unfolding play_inv_markDirty
    by (rule prep_inv_replace [OF assms Some]) (use facts in \<open>auto simp: distinct_map_filter\<close>)
  from real_schedule [OF this]
  have "?el = c # cs \<Longrightarrow> realPlaybackPosition t (schedulePlaybackStart t f
      (markDirty x (r\<lparr>playbackPreparation := Some (?p (c # cs) c)\<rparr>))) = realPlaybackPosition t r" for c cs x f
    by (metis real_gate(8) real_markDirty)
  then show ?thesis
    using Some by (simp add: dropPlaybackParticipant_def Let_def split: list.split)
qed

lemma real_finish:
  assumes "play_inv r"
  shows "realPlaybackPosition t (finishPlaybackPreparation t cid st pd r) = realPlaybackPosition t r"
proof (cases "playbackPreparation r")
  case None
  then show ?thesis by (simp add: finishPlaybackPreparation_def)
next
  case (Some p)
  note facts = play_inv_prep [OF assms Some]
  let ?p = "\<lambda>a. p\<lparr>pp_ready := filter (\<lambda>rd. rd_clientId rd \<noteq> cid) (pp_ready p) @
     [\<lparr>rd_clientId = cid, rd_firstFrame = True, rd_bufferAhead = a, rd_at = t\<rparr>]\<rparr>"
  have "play_inv (markDirty x (r\<lparr>playbackPreparation := Some (?p a)\<rparr>))"
    if "cid \<in> set (playbackEligibleIds r p)" for a x
    unfolding play_inv_markDirty using facts that
    by (intro prep_inv_replace [OF assms Some]) (auto simp: playbackEligibleIds_def distinct_map_filter)
  from real_schedule [OF this] show ?thesis
    using Some real_drop [OF assms]
    by (simp add: finishPlaybackPreparation_def Let_def split: option.split)
qed

lemma real_prepare:
  "realPlaybackPosition t (prepareEmptyRoomPlayback e r) = realPlaybackPosition t r"
  by (simp add: prepareEmptyRoomPlayback_def real_stopped split: option.split list.split)

lemma real_holdEmpty [simp]:
  "realPlaybackPosition t (holdEmptyPlaybackForJoin t b r) = realPlaybackPosition t r"
  by (simp add: holdEmptyPlaybackForJoin_def)

section \<open>The requests\<close>

lemma real_publish [simp]:
  "realPlaybackPosition t (publish m r) = realPlaybackPosition t r"
  "realPlaybackPosition t (publishRoomEvent req c a k r) = realPlaybackPosition t r"
  "realPlaybackPosition t (syncUser i r) = realPlaybackPosition t r"
  "realPlaybackPosition t (snd (sync_client cid r)) = realPlaybackPosition t r"
  "realPlaybackPosition t (changed_queue q r) = realPlaybackPosition t r"
  "realPlaybackPosition t (set_prevQueue pq r) = realPlaybackPosition t r"
  "realPlaybackPosition t (snd (apply_queue b res r)) = realPlaybackPosition t r"
  by (simp_all add: publish_def publishRoomEvent_def record_event_def syncUser_def sync_client_def
      changed_queue_def set_prevQueue_def apply_queue_def Let_def split: option.split sum.split)

lemma real_sync [simp]:
  "realPlaybackPosition t (snd (syncDirty e r)) = realPlaybackPosition t r"
  by (simp add: syncDirty_def cleanDirty_def Let_def)

lemma real_noteJoin: "realPlaybackPosition t (snd (noteJoin tok cid r)) = realPlaybackPosition t r"
  by (simp add: noteJoin_def split: option.split)

lemma real_seq:
  assumes "realPlaybackPosition t (snd p) = x"
    and "\<And>s. realPlaybackPosition t s = x \<Longrightarrow> realPlaybackPosition t (snd (f s)) = x"
  shows "realPlaybackPosition t (snd (seq p f)) = x"
  using seq_keeps [of "\<lambda>s. realPlaybackPosition t s = x" p f] assms by blast

lemma real_join: "realPlaybackPosition (now e) (snd (joinRoom e info b c r)) = realPlaybackPosition (now e) r"
proof -
  have "realPlaybackPosition (now e) (resume_or_prepare e b role s) = realPlaybackPosition (now e) s" for role s
    by (simp add: resume_or_prepare_def real_prepare)
  then show ?thesis
    by (auto simp: joinRoom_def Let_def split: prod.split option.split)
      (metis real_noteJoin real_holdEmpty real_gate(9) snd_conv)+
qed

lemma real_leave: "realPlaybackPosition (now e) (snd (leaveRoom e c r)) = realPlaybackPosition (now e) r"
proof -
  have w: "realPlaybackPosition t (withdraw_votes cid s) = realPlaybackPosition t s" for t cid s
    by (simp add: withdraw_votes_def Let_def)
  have p: "realPlaybackPosition t (publishLeaveEvent t' c u tok s) = realPlaybackPosition t s" for t t' u tok s
    by (simp add: publishLeaveEvent_def)
  have em: "realPlaybackPosition (now e) (snd (empty_room e s)) = realPlaybackPosition (now e) s" for s
    by (simp add: empty_room_def Let_def)
  have rb: "realPlaybackPosition t (rebuild_preparation e cid s) = realPlaybackPosition t s" for t cid s
    by (simp add: rebuild_preparation_def real_prepare split: option.split)
  show ?thesis
    by (auto simp: leaveRoom_def end_own_gesture_def Let_def w p em rb intro!: real_seq split: option.split sum.split)
qed

lemma real_updateUser:
  assumes "room_inv r"
  shows "realPlaybackPosition (now e) (snd (updateUser e info pd r)) = realPlaybackPosition (now e) r"
proof -
  let ?I = "\<lambda>s. room_inv s \<and> realPlaybackPosition (now e) s = realPlaybackPosition (now e) r"
  have "?I (snd (updateUser e info pd r))"
    unfolding updateUser_def using assms
    by (auto simp: Let_def engine_inv real_finish room_inv_def [THEN iffD1]
        intro!: seq_keeps [where I = ?I] split: option.split prod.split)
  then show ?thesis by simp
qed

lemma real_addToQueue: "realPlaybackPosition t (snd (addToQueue e v vs url c r)) = realPlaybackPosition t r"
  by (auto simp: addToQueue_def add_commit_def commit_one_def commit_many_def Let_def
      intro!: real_seq split: sum.split pending_add.split list.split)

lemma real_queue_requests:
  "realPlaybackPosition t (snd (updateQueueItem e video sub c r)) = realPlaybackPosition t r"
  "realPlaybackPosition t (snd (removeFromQueue video c r)) = realPlaybackPosition t r"
  "realPlaybackPosition t (snd (reorderQueue i j r)) = realPlaybackPosition t r"
  "realPlaybackPosition t (snd (vote video add c r)) = realPlaybackPosition t r"
  "realPlaybackPosition t (snd (shuffle_queue e c r)) = realPlaybackPosition t r"
  "realPlaybackPosition t (snd (restoreQueue d c r)) = realPlaybackPosition t r"
  by (auto simp: updateQueueItem_def removeFromQueue_def reorderQueue_def vote_def shuffle_queue_def
      restoreQueue_def Let_def intro!: real_seq split: sum.split option.split)

lemma real_user_requests:
  "realPlaybackPosition t (snd (promoteUser target role c r)) = realPlaybackPosition t r"
  "realPlaybackPosition t (snd (chat txt c r)) = realPlaybackPosition t r"
  "realPlaybackPosition t (snd (kickUser cid c r)) = realPlaybackPosition t r"
  "realPlaybackPosition t (snd (addNote e txt c r)) = realPlaybackPosition t r"
  "realPlaybackPosition t (snd (deleteNote nid r)) = realPlaybackPosition t r"
  by (auto simp: promoteUser_def chat_def kickUser_def command_def addNote_def deleteNote_def
      publishNotes_def insert_note_def delete_note_def Let_def intro!: real_seq
      split: sum.split option.split js_value.split prod.split)

lemma real_setters [simp]:
  "realPlaybackPosition t (set_title v1 r) = realPlaybackPosition t r"
  "realPlaybackPosition t (set_description v1 r) = realPlaybackPosition t r"
  "realPlaybackPosition t (set_visibility v2 r) = realPlaybackPosition t r"
  "realPlaybackPosition t (set_queueMode v3 r) = realPlaybackPosition t r"
  "realPlaybackPosition t (set_autoSkipSegmentCategories v4 r) = realPlaybackPosition t r"
  "realPlaybackPosition t (set_enableVoteSkip b r) = realPlaybackPosition t r"
  "realPlaybackPosition t (set_bufferGateMode v5 r) = realPlaybackPosition t r"
  "realPlaybackPosition t (set_danmakuSource v6 r) = realPlaybackPosition t r"
  by (simp_all add: set_title_def set_description_def set_visibility_def set_queueMode_def
      set_autoSkipSegmentCategories_def set_enableVoteSkip_def set_bufferGateMode_def
      set_danmakuSource_def) (rule real_same, simp_all)+

lemma real_settings:
  "realPlaybackPosition (now e) (snd (applySettings e s c r)) = realPlaybackPosition (now e) r"
proof -
  have a: "realPlaybackPosition t (assign_settings x y) = realPlaybackPosition t y" for t x y
    unfolding assign_settings_def Let_def
    by (simp add: assign_frame [where F = "realPlaybackPosition t"])
  have g: "realPlaybackPosition t (snd (apply_grants es y)) = realPlaybackPosition t y" for t es y
    by (induction es y rule: apply_grants.induct) (auto split: sum.split)
  show ?thesis
    by (auto simp: applySettings_def Let_def a g intro!: real_seq split: prod.split)
qed

lemma real_playback_requests:
  "realPlaybackPosition (now e) (snd (playback e b c r)) = realPlaybackPosition (now e) r"
  "realPlaybackPosition (now e) (snd (setPlaybackSpeed e x r)) = realPlaybackPosition (now e) r"
  by (auto simp: playback_def setPlaybackSpeed_def real_at_anchor split: js_number.split)

lemma real_gesture:
  "realPlaybackPosition (now e) (snd (setTemporaryPlaybackSpeed e a g v c r)) = realPlaybackPosition (now e) r"
proof -
  have "realPlaybackPosition (now e) (gesture_start e cid g v s) = realPlaybackPosition (now e) s" for cid s
    by (simp add: gesture_start_def Let_def renewTemporaryPlaybackSpeed_def real_at_anchor split: option.split)
  then show ?thesis
    by (auto simp: setTemporaryPlaybackSpeed_def Let_def renewTemporaryPlaybackSpeed_def
        intro!: real_seq)
qed

end
