(* ===== verification/RoomSample.thy ===== *)
theory RoomSample
  imports RoomClock
begin

text \<open>
  A small concrete room and environment, on which the properties are exercised: two anonymous
  viewers, a video that has been playing since instant 0, and two more in the queue.
\<close>

definition sample_video :: "string \<Rightarrow> QueueItem" where
  "sample_video vid = (bare_video ''direct'' vid)\<lparr>v_length := Some (Fin 100)\<rparr>"

definition sample_env :: "int \<Rightarrow> env" where
  "sample_env t =
     \<lparr>now = t, e_randomUUID = ''uuid'', e_getUserCachedById = (\<lambda>_. Inl (GenericError ''no user'')),
      e_getUser = (\<lambda>_. Inl (GenericError ''no user'')),
      e_getSessionInfo = (\<lambda>_. Inr (SessionAnonymous ''anon'')), e_sponsorblock_enabled = False,
      e_unload_after = 240, e_fetchSegments = (\<lambda>_. None), e_orderBy = sort_desc, e_shuffle = rev,
      e_videoIdForUrl = (\<lambda>u. Inr (''direct'', u)),
      e_getVideoInfo = (\<lambda>v. Inr ((bare_video (fst v) (snd v))\<lparr>v_length := Some (Fin 100)\<rparr>)),
      e_getManyVideoInfo = (\<lambda>vs. Inr (map (\<lambda>v. sample_video (snd (va_video v))) vs)),
      e_parseURL = (\<lambda>_. None), e_assertPublicMediaUrl = (\<lambda>_. False), e_nextNoteId = 1,
      e_persist_ok = True\<rparr>"

definition sample_user :: "ClientId \<Rightarrow> RoomUser" where
  "sample_user cid = (new_RoomUser cid (cid @ ''-token''))\<lparr>ru_unregisteredUsername := cid\<rparr>"

definition sample_room :: Room where
  "sample_room = (blank_room 0 default_Grants)
     \<lparr>realusers := [sample_user ''alice'', sample_user ''bob''],
      currentSource := Some (sample_video ''a''),
      queue := new_VideoQueue [sample_video ''b'', sample_video ''c''],
      isPlaying := True, playbackStart := Some 0\<rparr>"

definition sample_context :: "ClientId \<Rightarrow> Role \<Rightarrow> RoomRequestContext" where
  "sample_context cid role =
     \<lparr>cx_username = cid, cx_role = role, cx_clientId = Some cid,
      cx_auth = Some \<lparr>au_token = cid @ ''-token'', au_clientId = Some cid\<rparr>\<rparr>"

lemma env_ok_sample [simp]: "env_ok (sample_env t)"
  by (simp add: env_ok_def sample_env_def permuting_def sort_desc_stable)

lemma sample_env_now [simp]: "now (sample_env t) = t"
  by (simp add: sample_env_def)

lemma sample_fields [simp]:
  "grants sample_room = default_Grants"
  "realusers sample_room = [sample_user ''alice'', sample_user ''bob'']"
  "currentSource sample_room = Some (sample_video ''a'')"
  "items (queue sample_room) = [sample_video ''b'', sample_video ''c'']"
  "isPlaying sample_room" "playbackStart sample_room = Some 0" "playbackPosition sample_room = 0"
  "playbackSpeed sample_room = 1" "temporarySpeed sample_room = None"
  "playbackPreparation sample_room = None" "bufferGate sample_room = None"
  "\<not> resumeOnNextJoin sample_room" "recentEvents sample_room = []" "db_notes sample_room = []"
  "votes sample_room = []" "votesToSkip sample_room = []" "owner sample_room = None"
  "queueMode sample_room = Manual" "\<not> enableVoteSkip sample_room" "outbox sample_room = []"
  "restoredFromStorage sample_room = False" "prevQueue sample_room = None"
  "videoSegments sample_room = []" "isTemporary sample_room = False"
  "userRoles sample_room = [(TrustedUser, []), (Moderator, []), (Administrator, [])]"
  by (simp_all add: sample_room_def blank_room_def set_owner_def new_VideoQueue_def)

lemma sample_room_inv [simp]: "room_inv sample_room"
  by (simp add: room_inv_def play_inv_defs data_inv_def votes_ok_def wf_default queue_length_def
      MAX_QUEUE_ITEMS_def)

lemma sample_users [simp]:
  "ru_id (sample_user cid) = cid" "ru_user (sample_user cid) = None"
  "ru_user_id (sample_user cid) = None" "ru_token (sample_user cid) = cid @ ''-token''"
  "ru_playerStatus (sample_user cid) = StatusNone" "ru_unregisteredUsername (sample_user cid) = cid"
  by (simp_all add: sample_user_def new_RoomUser_def)

lemma sample_role [simp]: "getRole r (Some (sample_user cid)) = UnregisteredUser"
  by (simp add: getRole_def isOwner_def isLoggedIn_def)

lemma sample_video_fields [simp]:
  "v_service (sample_video x) = ''direct''" "v_id (sample_video x) = x"
  "v_length (sample_video x) = Some (Fin 100)" "v_startAt (sample_video x) = None"
  "v_endAt (sample_video x) = None" "v_isLive (sample_video x) = None"
  by (simp_all add: sample_video_def bare_video_def)

lemma sample_context_fields [simp]:
  "cx_role (sample_context cid role) = role" "cx_clientId (sample_context cid role) = Some cid"
  by (simp_all add: sample_context_def)

lemma sample_alice [simp]:
  "getUserInfo sample_room ''alice'' = Inr (user_info sample_room (sample_user ''alice''))"
  by (simp add: getUserInfo_def users_def user_info_def)

text \<open>What an unregistered viewer may do by default.\<close>

lemma default_unregistered [simp]:
  "granted default_Grants UnregisteredUser ''playback.skip''"
  "granted default_Grants UnregisteredUser ''playback.seek''"
  "granted default_Grants UnregisteredUser ''playback.play-pause''"
  "granted default_Grants UnregisteredUser ''playback.speed''"
  "granted default_Grants UnregisteredUser ''manage-queue.add''"
  "granted default_Grants UnregisteredUser ''manage-queue.order''"
  "granted default_Grants UnregisteredUser ''manage-queue.play-now''"
  "\<not> granted default_Grants UnregisteredUser ''manage-queue.remove''"
  by (simp_all add: granted_def getMask_def parse_names)

text \<open>Options of a temporary room and the first events it may see.\<close>

definition sample_options :: RoomOptions where
  "sample_options =
     \<lparr>op_name = ''lobby'', op_title = None, op_description = None, op_visibility = None,
      op_queueMode = None, op_isTemporary = Some True, op_owner = None, op_currentSource = None,
      op_queue = [], op_playbackPosition = None, op_isPlaying = None, op_playbackSpeed = None,
      op_autoSkipSegmentCategories = None, op_prevQueue = None, op_restoreQueueBehavior = None,
      op_enableVoteSkip = None, op_bufferGateMode = None, op_danmakuSource = None,
      op_passwordHash = None, op_votesToSkip = [], op_resumeOnNextJoin = False, op_grants = None,
      op_permissionsRevision = Some 1, op_userRoles = None, op_playbackStart = None\<rparr>"

definition sample_events :: "room_event list" where
  "sample_events =
     [Request (sample_env 0) (JoinRequest \<lparr>ci_id = ''alice'', ci_username = Some ''alice'',
          ci_user_id = None, ci_status = None, ci_diagnostics = None\<rparr> False)
        (sample_context ''alice'' UnregisteredUser),
      Request (sample_env 10) (AddRequest (Some (plain_add (''direct'', ''a''))) None None)
        (sample_context ''alice'' UnregisteredUser),
      Tick (sample_env 1000)]"

lemma sample_reachable:
  obtains r where "new_Room 0 sample_options = Inr r"
    and "reachable (foldl room_step r sample_events)"
proof -
  have "constructor_grants sample_options = Inr default_Grants"
    by (simp add: constructor_grants_def sample_options_def or_else_def bind_result_def
        ROOM_PERMISSIONS_REVISION_def default_grants)
  then obtain r where r: "new_Room 0 sample_options = Inr r"
    by (simp add: new_Room_def bind_result_def Let_def)
  have "options_ok sample_options"
    by (simp add: options_ok_def sample_options_def)
  then have "reachable r" using r by (rule built)
  then have "reachable (foldl room_step r sample_events)"
    by (rule reachable_run) (simp add: sample_events_def event_ok_def)
  with r show thesis by (rule that)
qed

end
