(* ===== verification/RoomAccess.thy ===== *)
theory RoomAccess
  imports RoomSample
begin

text \<open>
  Who may do what: requests against the grants of the room, undo, promotion, kicking and settings.
\<close>

section \<open>Requests\<close>

lemma authorize_denied:
  "request_permission req = Some perm \<Longrightarrow> \<not> granted (grants r) (cx_role c) perm \<Longrightarrow>
     authorize req c r = (Some (PermissionDenied perm), r)"
  by (simp add: authorize_def guard_def check_def)

lemma process_basic_denied:
  "request_permission req = Some perm \<Longrightarrow> \<not> granted (grants r) (cx_role c) perm \<Longrightarrow>
     process_basic e req c r = (Some (PermissionDenied perm), r)"
  by (simp add: process_basic_def authorize_denied)

text \<open>
  The permission that stands for each request, one line for each group of the table of permissions:
  playback, the queue, the chat, the notes and the viewers. The other requests check for themselves.
\<close>

definition guarded_by :: "string \<Rightarrow> RoomRequest \<Rightarrow> bool" where
  "guarded_by perm req \<longleftrightarrow>
     (case req of
        PlaybackRequest _ \<Rightarrow> perm = ''playback.play-pause'' | SkipRequest \<Rightarrow> perm = ''playback.skip''
      | SeekRequest _ \<Rightarrow> perm = ''playback.seek'' | PlaybackSpeedRequest _ \<Rightarrow> perm = ''playback.speed''
      | AddRequest _ _ _ \<Rightarrow> perm = ''manage-queue.add'' | RemoveRequest _ \<Rightarrow> perm = ''manage-queue.remove''
      | OrderRequest _ _ \<Rightarrow> perm = ''manage-queue.order'' | ShuffleRequest \<Rightarrow> perm = ''manage-queue.order''
      | VoteRequest _ _ \<Rightarrow> perm = ''manage-queue.vote'' | PlayNowRequest _ \<Rightarrow> perm = ''manage-queue.play-now''
      | UpdateQueueItemRequest _ _ \<Rightarrow> perm = ''manage-queue.edit'' | ChatRequest _ \<Rightarrow> perm = ''chat''
      | AddNoteRequest _ \<Rightarrow> perm = ''configure-room.set-notes'' | DeleteNoteRequest _ \<Rightarrow> perm = ''configure-room.set-notes''
      | KickRequest _ \<Rightarrow> perm = ''manage-users.kick'' | _ \<Rightarrow> False)"

lemma guarded_request: "guarded_by perm req \<Longrightarrow> request_permission req = Some perm"
  by (cases req) (simp_all add: guarded_by_def)

text \<open>C6.
  A viewer who lacks the permission of a request gets exactly the error of that permission and
  the room is left untouched. The role that decides is the one the room itself computes for the
  connection; nothing in the request or in the authorization can raise it.\<close>

theorem denied_request_changes_nothing:
  assumes "au_clientId au = Some cid" "cid \<noteq> []" "getUser r cid = Some u"
    and "guarded_by perm req" "\<not> granted (grants r) (getRole r (Some u)) perm"
  shows "processUnauthorizedRequest e req au r = (Some (PermissionDenied perm), r)"
proof -
  have "deriveRequestContext e r au =
      Inr \<lparr>cx_username = ru_username u, cx_role = role_of r u, cx_clientId = au_clientId au, cx_auth = Some au\<rparr>"
    using assms(1-3) by (simp add: deriveRequestContext_def)
  then show ?thesis
    using assms guarded_request [OF assms(4)]
    by (cases req) (simp_all add: processUnauthorizedRequest_def processRequest_def process_basic_denied)
qed

theorem denied_request_changes_nothing_witness:
  "processUnauthorizedRequest (sample_env 1000) (RemoveRequest (''direct'', ''b''))
     \<lparr>au_token = ''alice-token'', au_clientId = Some ''alice''\<rparr> sample_room
   = (Some (PermissionDenied ''manage-queue.remove''), sample_room)"
proof -
  have "\<not> granted default_Grants UnregisteredUser ''manage-queue.remove''"
    by (simp add: granted_def getMask_def parse_names)
  then show ?thesis
    by (intro denied_request_changes_nothing [where u = "sample_user ''alice''" and cid = "''alice''"])
      (simp_all add: getUser_def guarded_by_def)
qed

section \<open>Undo\<close>

text \<open>What the undo of each kind of event has to be allowed to do.\<close>

fun undo_needs :: "undo_kind \<Rightarrow> ServerMessageEvent \<Rightarrow> string list" where
  "undo_needs UndoSeek ev =
     (if ev_prevPosition (event_additional ev) = None then [] else [''playback.seek''])"
| "undo_needs UndoSkip ev =
     [''playback.skip'', ''playback.seek'', ''manage-queue.add'', ''manage-queue.play-now'']"
| "undo_needs UndoAdd ev = [''manage-queue.remove'']"
| "undo_needs UndoRemove ev = [''manage-queue.add'', ''manage-queue.order'']"

lemma first_error_check:
  "first_error (check g role) perms = None \<longleftrightarrow> list_all (granted g role) perms"
  by (induction perms) (auto split: option.split)

lemma first_error_guard:
  assumes "\<not> list_all (granted (grants r) role) perms"
  obtains err where "guard (first_error (check (grants r) role) perms) r = (Some err, r)"
proof -
  have "first_error (check (grants r) role) perms \<noteq> None"
    using assms first_error_check by blast
  with that show thesis by (auto simp: guard_def)
qed

lemma find_index_Some:
  "find_index P xs = Some i \<Longrightarrow> i < length xs \<and> P (xs ! i)"
  by (induction xs arbitrary: i) (auto split: if_splits)

lemma find_index_None: "find_index P xs = None \<longleftrightarrow> (\<forall>x\<in>set xs. \<not> P x)"
  by (induction xs) auto

lemma undo_apply_denied:
  assumes "undo_kind_of (event_request ev) = Some k"
    and "\<not> list_all (granted (grants r) (cx_role c)) (undo_needs k ev)"
  shows "\<exists>err. undo_apply e ev c r = (Some err, r)"
proof (cases k)
  case UndoSeek
  with assms have "ev_prevPosition (event_additional ev) \<noteq> None"
    "\<not> granted (grants r) (cx_role c) ''playback.seek''" by (auto split: if_splits)
  then show ?thesis
    using assms(1) UndoSeek
    by (auto simp: undo_apply_def undo_seek_def process_basic_denied split: option.split)
next
  case UndoSkip
  with assms(2) obtain err where "guard (first_error (check (grants r) (cx_role c))
      [''playback.skip'', ''playback.seek'', ''manage-queue.add'', ''manage-queue.play-now'']) r = (Some err, r)"
    by (metis first_error_guard undo_needs.simps(2))
  with assms(1) UndoSkip show ?thesis by (simp add: undo_apply_def undo_skip_def del: first_error.simps)
next
  case UndoAdd
  with assms show ?thesis by (simp add: undo_apply_def undo_add_def guard_def check_def)
next
  case UndoRemove
  with assms(2) obtain err where "guard (first_error (check (grants r) (cx_role c))
      [''manage-queue.add'', ''manage-queue.order'']) r = (Some err, r)"
    by (metis first_error_guard undo_needs.simps(4))
  with assms(1) UndoRemove show ?thesis by (simp add: undo_apply_def undo_remove_def del: first_error.simps)
qed

lemma undo_needs_fields: "undo_fields ev = undo_fields echo \<Longrightarrow> undo_needs k ev = undo_needs k echo"
  by (cases k) (simp_all add: undo_fields_def)


definition sample_event :: ServerMessageEvent where
  "sample_event = Event (AddRequest (Some (plain_add (''direct'', ''b''))) None None)
     (user_info sample_room (sample_user ''alice'')) (no_context\<lparr>ev_video := Some (sample_video ''b'')\<rparr>)"


text \<open>What applying an undo may publish: nothing, or one event.\<close>

definition at_most_one_event :: "Room \<Rightarrow> Room \<Rightarrow> bool" where
  "at_most_one_event r r' \<longleftrightarrow>
     outbox r' = outbox r \<and> recentEvents r' = recentEvents r
     \<or> (\<exists>m. outbox r' = outbox r @ [MsgEvent m] \<and> recentEvents r' = recentEvents (record_event m r))"

lemma publish_one: "outbox s = outbox r \<Longrightarrow> recentEvents s = recentEvents r \<Longrightarrow>
    at_most_one_event r (publishRoomEvent req c a k s)"
  by (auto simp: at_most_one_event_def publishRoomEvent_def publish_def record_event_def Let_def
      split: option.split sum.split)

lemma one_refl: "outbox s = outbox r \<Longrightarrow> recentEvents s = recentEvents r \<Longrightarrow> at_most_one_event r s"
  by (simp add: at_most_one_event_def)

lemma apply_queue_silent:
  "outbox (snd (apply_queue b res r)) = outbox r"
  "recentEvents (snd (apply_queue b res r)) = recentEvents r"
  by (simp_all add: apply_queue_def changed_queue_def split: sum.split)

lemma seek_one: "at_most_one_event r (snd (seek e v c r))"
proof -
  have "at_most_one_event r ((publishRoomEvent req c a k s)\<lparr>dontSkipSegmentsUntil := d\<rparr>)"
    if "outbox s = outbox r" "recentEvents s = recentEvents r" for req a k s d
    using publish_one [OF that] by (simp add: at_most_one_event_def)
  then show ?thesis
    by (auto simp: seek_def Let_def intro: one_refl split: js_value.split js_number.split)
qed

lemma remove_one: "at_most_one_event r (snd (removeFromQueue v c r))"
  by (auto simp: removeFromQueue_def Let_def changed_queue_def intro!: one_refl publish_one split: sum.split)

lemma process_basic_one:
  assumes "\<And>s. at_most_one_event s (snd (handle e req c s))"
  shows "at_most_one_event r (snd (process_basic e req c r))"
  using assms [of r] by (cases "authorize req c r" rule: prod.exhaust)
    (auto simp: process_basic_def authorize_def guard_def seq_def intro: one_refl split: option.split)

lemma undo_apply_one: "at_most_one_event r (snd (undo_apply e ev c r))"
proof -
  let ?I = "\<lambda>s. outbox s = outbox r \<and> recentEvents s = recentEvents r"
  have "at_most_one_event r (snd (undo_seek e ev c r))"
    by (auto simp: undo_seek_def intro!: process_basic_one seek_one intro: one_refl split: option.split)
  moreover have "?I (snd (undo_skip e ev c r))"
    unfolding undo_skip_def
    by (intro seq_keeps [where I = ?I])
      (auto simp: apply_queue_silent simp del: first_error.simps split: option.split)
  moreover have "at_most_one_event r (snd (undo_add e ev c r))"
    by (auto simp: undo_add_def guard_def seq_def intro!: process_basic_one remove_one intro: one_refl
        split: option.split)
  moreover have "?I (snd (undo_remove ev c r))"
    unfolding undo_remove_def
    by (intro seq_keeps [where I = ?I])
      (auto simp: apply_queue_silent simp del: first_error.simps split: option.split)
  ultimately show ?thesis
    by (auto simp: undo_apply_def intro: one_refl split: option.split undo_kind.split)
qed

lemma forget_removes:
  assumes "at_most_one_event r s" and i: "i < length (recentEvents r)"
    and bound: "length (recentEvents r) \<le> RECENT_EVENTS_LIMIT"
  shows "\<exists>k new. k \<le> 1 \<and> length new \<le> 1
    \<and> recentEvents (forget_event i r s) = drop k (splice_out i (recentEvents r)) @ new"
proof -
  let ?es = "recentEvents r"
  consider (none) "outbox s = outbox r" "recentEvents s = ?es"
    | (one) m where "outbox s = outbox r @ [MsgEvent m]" "recentEvents s = recentEvents (record_event m r)"
    using assms(1) unfolding at_most_one_event_def by blast
  then show ?thesis
  proof cases
    case none
    then have "recentEvents (forget_event i r s) = drop 0 (splice_out i ?es) @ []"
      by (simp add: forget_event_def)
    then show ?thesis by (metis le0 list.size(3))
  next
    case one
    show ?thesis
    proof (cases "length ?es = RECENT_EVENTS_LIMIT")
      case False
      then have ev: "recentEvents s = ?es @ [m]" using one(2) bound by (simp add: record_event_def Let_def)
      then have "recentEvents (forget_event i r s) = drop 0 (splice_out i ?es) @ [m]"
        using False i by (simp add: forget_event_def splice_out_def)
      then show ?thesis by (metis le0 le_refl length_Cons list.size(3) One_nat_def)
    next
      case True
      then have ev: "recentEvents s = tl ?es @ [m]"
        using one(2) i by (cases ?es) (simp_all add: record_event_def Let_def)
      have "recentEvents (forget_event i r s) = drop (if i = 0 then 0 else 1) (splice_out i ?es) @ [m]"
      proof (cases i)
        case 0
        with True ev one(1) i show ?thesis
          by (cases ?es) (simp_all add: forget_event_def splice_out_def)
      next
        case (Suc j)
        with True ev one(1) i show ?thesis
          by (cases ?es) (simp_all add: forget_event_def splice_out_def)
      qed
      then show ?thesis by (intro exI conjI) auto
    qed
  qed
qed

text \<open>An undo applies only what the room itself has published, and only once: a successful undo has
  found a recorded event with the echoed fields, has applied that recorded copy, and has taken it
  off the record, so that a replay of the echo no longer finds it. An echo that matches no recorded
  event is refused and changes nothing.\<close>

lemma undo_is_recorded_and_single_use:
  assumes "room_inv r"
  shows "(fst (undo e echo c r) = None \<longrightarrow>
      (\<exists>i k new. i < length (recentEvents r) \<and> undo_fields (recentEvents r ! i) = undo_fields echo
         \<and> undo e echo c r = (None, forget_event i r (snd (undo_apply e (recentEvents r ! i) c r)))
         \<and> k \<le> 1 \<and> length new \<le> 1
         \<and> recentEvents (snd (undo e echo c r)) = drop k (splice_out i (recentEvents r)) @ new))
    \<and> ((\<forall>ev\<in>set (recentEvents r). undo_fields ev \<noteq> undo_fields echo) \<longrightarrow>
         (\<exists>err. undo e echo c r = (Some err, r)))"
proof (intro conjI impI)
  assume ok: "fst (undo e echo c r) = None"
  then obtain i where i: "findRecentEvent echo r = Some i"
    by (auto simp: undo_def split: if_splits option.splits)
  note ev = find_index_Some [OF i [unfolded findRecentEvent_def]]
  obtain s where s: "undo_apply e (recentEvents r ! i) c r = (None, s)"
    using ok i by (cases "undo_apply e (recentEvents r ! i) c r" rule: prod.exhaust)
      (auto simp: undo_def seq_def split: if_splits option.splits)
  have eq: "undo e echo c r = (None, forget_event i r s)"
    using ok i s by (auto simp: undo_def split: if_splits)
  have "length (recentEvents r) \<le> RECENT_EVENTS_LIMIT"
    using assms by (simp add: room_inv_def data_inv_def)
  from forget_removes [OF _ _ this, of s i] undo_apply_one [of r e "recentEvents r ! i" c] ev s
  obtain k new where kn: "k \<le> 1" "length new \<le> 1"
    "recentEvents (forget_event i r s) = drop k (splice_out i (recentEvents r)) @ new" by auto
  show "\<exists>i k new. i < length (recentEvents r) \<and> undo_fields (recentEvents r ! i) = undo_fields echo
      \<and> undo e echo c r = (None, forget_event i r (snd (undo_apply e (recentEvents r ! i) c r)))
      \<and> k \<le> 1 \<and> length new \<le> 1
      \<and> recentEvents (snd (undo e echo c r)) = drop k (splice_out i (recentEvents r)) @ new"
    using ev s eq kn by (intro exI [of _ i] exI [of _ k] exI [of _ new]) simp
next
  assume "\<forall>ev\<in>set (recentEvents r). undo_fields ev \<noteq> undo_fields echo"
  then have "findRecentEvent echo r = None"
    unfolding findRecentEvent_def find_index_None by blast
  then show "\<exists>err. undo e echo c r = (Some err, r)" by (simp add: undo_def)
qed

section \<open>Promotion\<close>

lemma js_int_exact: "isInteger v \<Longrightarrow> v = JNumber (Fin (of_int (js_int v)))"
proof (induction v rule: isInteger.induct)
  case (1 x)
  obtain p q where pq: "quotient_of x = (p, q)" by force
  with 1 have "x = of_int p" using quotient_of_div [OF pq] by simp
  then show ?case by simp
qed simp_all

text \<open>The role table has one set for each role that can be assigned.\<close>

definition roles_ok :: "(Role \<times> int list) list \<Rightarrow> bool" where
  "roles_ok roles \<longleftrightarrow> (\<forall>i\<in>set promotable_desc. map_of roles i \<noteq> None)"

lemma map_of_pair_map:
  "map_of (map (\<lambda>(i, s). (i, f i s)) xs) k = map_option (f k) (map_of xs k)"
  by (induction xs) auto

lemma map_of_assign_role:
  "map_of (assign_role uid role roles) i =
     map_option (\<lambda>s. let s' = (if i \<in> set promotable_desc then js_delete uid s else s)
                     in if TrustedUser \<le> role \<and> i = role then js_add uid s' else s') (map_of roles i)"
proof -
  have a: "(\<lambda>(i, s). if i \<in> set promotable_desc then (i, js_delete uid s) else (i, s))
      = (\<lambda>(i, s). (i, if i \<in> set promotable_desc then js_delete uid s else s))" by auto
  have b: "(\<lambda>(i, s). if i = role then (i, js_add uid s) else (i, s))
      = (\<lambda>(i, s). (i, if i = role then js_add uid s else s))" by auto
  show ?thesis
    unfolding assign_role_def Let_def a b
    by (simp add: map_of_pair_map option.map_comp comp_def del: map_map)
qed

lemma role_in_cong:
  "(\<And>i. i \<in> set is \<Longrightarrow> (case map_of m i of None \<Rightarrow> False | Some s \<Rightarrow> uid \<in> set s)
      = (case map_of m' i of None \<Rightarrow> False | Some s \<Rightarrow> uid \<in> set s)) \<Longrightarrow>
     role_in m uid is = role_in m' uid is"
  by (induction "is") auto

text \<open>After an assignment a user has exactly the new role; nobody else's role has changed.\<close>

lemma role_after_assign:
  assumes "roles_ok roles" "RegisteredUser \<le> role" "role \<le> Administrator"
  shows "role_in (assign_role uid role roles) uid promotable_desc =
     (if role = RegisteredUser then None else Some role)"
proof -
  have has: "\<exists>s. map_of roles i = Some s" if "i \<in> set promotable_desc" for i
    using assms(1) that by (auto simp: roles_ok_def)
  show ?thesis
    using has [of Administrator] has [of Moderator] has [of TrustedUser] assms(2,3)
    by (cases role) (auto simp: map_of_assign_role promotable_desc_def less_eq_Role_def Let_def)
qed

lemma role_other:
  assumes "uid' \<noteq> uid"
  shows "role_in (assign_role uid role roles) uid' promotable_desc = role_in roles uid' promotable_desc"
  using assms
  by (intro role_in_cong) (auto simp: map_of_assign_role Let_def split: option.split)

lemma promote_error_None:
  assumes "promote_error actor old role g = None" "RegisteredUser \<le> role"
  shows "old \<noteq> Owner" "old \<noteq> UnregisteredUser"
    "promote_perm role = Some p \<Longrightarrow> granted g actor p"
    "role < old \<Longrightarrow> \<exists>p. demote_perm old = Some p \<and> granted g actor p"
  using assms by (auto simp: promote_error_def split: option.splits if_splits)

text \<open>C32.
  A promotion that goes through was allowed and does what it says: the actor holds the permission
  to assign the new role and, for a demotion, the one to take the old role away; owners and
  unregistered viewers cannot be changed; afterwards a registered target has exactly the requested
  role, the owner is the same, and everybody else's role is as before.\<close>

theorem promotion_is_authorized_and_exact:
  assumes "promoteUser tid wire c r = (None, r')" and "getUser r tid = Some target"
    and "ru_user target = Some acc" "ru_user_id target = Some (user_id acc)" "user_id acc \<noteq> 0"
    and "roles_ok (userRoles r)"
  shows "\<exists>role. wire = JNumber (Fin (of_int (role_num role)))
    \<and> (\<forall>p. promote_perm role = Some p \<longrightarrow> granted (grants r) (cx_role c) p)
    \<and> (role < role_of r target \<longrightarrow>
         (\<exists>p. demote_perm (role_of r target) = Some p \<and> granted (grants r) (cx_role c) p))
    \<and> role_of r target \<noteq> Owner \<and> role_of r target \<noteq> UnregisteredUser
    \<and> role_of r' target = role \<and> owner r' = owner r
    \<and> (\<forall>u. ru_user u \<noteq> None \<and> map_option user_id (ru_user u) \<noteq> Some (user_id acc) \<longrightarrow>
         role_of r' u = role_of r u)"
proof -
  obtain role where wire: "isInteger wire" "role_of_num (js_int wire) = Some role"
    and bounds: "RegisteredUser \<le> role" "role \<le> Administrator"
    using assms(1) by (auto simp: promoteUser_def split: option.splits if_splits)
  have err: "promote_error (cx_role c) (role_of r target) role (grants r) = None"
    and r': "(None, r') = sync_client (ru_id target)
        (r\<lparr>userRoles := assign_role (user_id acc) role (userRoles r)\<rparr>)"
    using assms(1,2,4) wire bounds
    by (cases "promote_error (cx_role c) (role_of r target) role (grants r)";
        simp add: promoteUser_def guard_def not_less [symmetric])+
  have "userRoles r' = assign_role (user_id acc) role (userRoles r)" "owner r' = owner r"
    using r' by (auto simp: sync_client_def syncUser_def publish_def split: sum.splits)
  note st = this
  note ok = promote_error_None [OF err bounds(1)]
  have notOwner: "\<not> isOwner r target" using ok(1) by (auto simp: getRole_def)
  have own: "isOwner r' u = isOwner r u" for u by (simp add: isOwner_def st)
  have "role_of r' target = role"
    using notOwner assms(3-5) role_after_assign [OF assms(6) bounds]
    by (simp add: getRole_def own st isLoggedIn_def)
  moreover have "role_of r' u = role_of r u"
    if "ru_user u \<noteq> None" "map_option user_id (ru_user u) \<noteq> Some (user_id acc)" for u
    using that role_other by (auto simp: getRole_def own st)
  moreover have "wire = JNumber (Fin (of_int (role_num role)))"
    using js_int_exact [OF wire(1)] role_of_num_Some [OF wire(2)] by simp
  ultimately show ?thesis
    using ok st(2) by (intro exI [of _ role]) blast
qed

definition registered_user :: "ClientId \<Rightarrow> int \<Rightarrow> RoomUser" where
  "registered_user cid uid = (new_RoomUser cid (cid @ ''-token''))\<lparr>ru_user_id := Some uid,
     ru_user := Some \<lparr>user_id = uid, username = cid, user_email = None, user_salt = None,
       user_hash = None, user_discordId = None\<rparr>\<rparr>"

theorem promotion_is_authorized_and_exact_witness:
  "\<exists>r'. promoteUser ''carol'' (JNumber (Fin 3)) (sample_context ''alice'' Administrator)
       (sample_room\<lparr>realusers := [registered_user ''carol'' 7]\<rparr>) = (None, r')
     \<and> role_of r' (registered_user ''carol'' 7) = Moderator"
proof -
  let ?r = "sample_room\<lparr>realusers := [registered_user ''carol'' 7]\<rparr>"
  let ?u = "registered_user ''carol'' 7"
  have u: "ru_user_id ?u = Some 7" "ru_id ?u = ''carol''" "isLoggedIn ?u"
    by (simp_all add: registered_user_def new_RoomUser_def isLoggedIn_def)
  obtain acc where acc: "ru_user ?u = Some acc" "user_id acc = 7" by (simp add: registered_user_def)
  have role: "role_of ?r ?u = RegisteredUser"
    using acc u by (simp add: getRole_def isOwner_def promotable_desc_def)
  have g: "granted default_Grants Administrator ''manage-users.promote-moderator''"
    by (simp add: granted_def getMask_def parse_names)
  have "promote_error Administrator RegisteredUser Moderator default_Grants = None"
    using g by (simp add: promote_error_def less_Role_def check_def)
  then have "\<exists>r'. promoteUser ''carol'' (JNumber (Fin 3)) (sample_context ''alice'' Administrator) ?r = (None, r')"
    using role u
    by (simp add: promoteUser_def role_of_num_def less_Role_def getUser_def guard_def sync_client_def
        getUserInfo_def users_def user_info_def)
  then obtain r' where r': "promoteUser ''carol'' (JNumber (Fin 3))
      (sample_context ''alice'' Administrator) ?r = (None, r')" ..
  have found: "getUser ?r ''carol'' = Some ?u" by (simp add: getUser_def u)
  have "JNumber (Fin 3) = JNumber (Fin (of_int (role_num (role_of r' ?u))))"
    using promotion_is_authorized_and_exact [OF r' found acc(1)] u acc
    by (auto simp: roles_ok_def promotable_desc_def)
  then have "role_of r' ?u = Moderator" by (cases "role_of r' ?u") simp_all
  with r' show ?thesis by blast
qed

section \<open>Kicking\<close>

text \<open>A kick reaches the client manager exactly when the actor holds the permission and outranks the
  target (an owner outranks everybody): in particular nobody but an owner can remove an owner, and
  equals cannot remove each other.\<close>

lemma kick_needs_rank:
  "commands (snd (processRequest e (KickRequest cid) c r)) =
     (if granted (grants r) (cx_role c) ''manage-users.kick''
         \<and> (\<exists>u. getUser r cid = Some u
              \<and> (cx_role c = Owner \<or> role_of r u < cx_role c \<and> role_of r u \<noteq> Owner))
      then commands r @ [KickCommand cid] else commands r)"
proof (cases "granted (grants r) (cx_role c) ''manage-users.kick''")
  case True
  then have "processRequest e (KickRequest cid) c r = kickUser cid c r"
    by (simp add: processRequest_def process_basic_def authorize_def guard_def check_def)
  with True show ?thesis
    by (auto simp: kickUser_def canKickUser_def command_def split: option.split)
next
  case False
  then show ?thesis by (simp add: processRequest_def process_basic_denied)
qed

section \<open>Settings\<close>

lemma apply_grants_ok: "fst (apply_grants es r) = None"
  by (induction es r rule: apply_grants.induct) (auto simp: setRoleGrants_Inr)

lemma apply_grants_frame:
  "visibility (snd (apply_grants es r)) = visibility r"
  "queueMode (snd (apply_grants es r)) = queueMode r"
  "enableVoteSkip (snd (apply_grants es r)) = enableVoteSkip r"
  "bufferGateMode (snd (apply_grants es r)) = bufferGateMode r"
  "passwordHash (snd (apply_grants es r)) = passwordHash r"
  by (induction es r rule: apply_grants.induct) (auto split: sum.split)

lemma settings_frames:
  "visibility (set_title v1 r) = visibility r" "visibility (set_description v1 r) = visibility r"
  "visibility (set_queueMode m r) = visibility r" "visibility (set_visibility v r) = v"
  "visibility (set_autoSkipSegmentCategories cs r) = visibility r"
  "visibility (set_bufferGateMode gm r) = visibility r" "visibility (set_enableVoteSkip b r) = visibility r"
  "visibility (set_danmakuSource d r) = visibility r"
  "queueMode (set_title v1 r) = queueMode r" "queueMode (set_description v1 r) = queueMode r"
  "queueMode (set_queueMode m r) = m" "queueMode (set_visibility v r) = queueMode r"
  "queueMode (set_autoSkipSegmentCategories cs r) = queueMode r"
  "queueMode (set_bufferGateMode gm r) = queueMode r" "queueMode (set_enableVoteSkip b r) = queueMode r"
  "queueMode (set_danmakuSource d r) = queueMode r"
  "passwordHash (set_title v1 r) = passwordHash r" "passwordHash (set_description v1 r) = passwordHash r"
  "passwordHash (set_queueMode m r) = passwordHash r" "passwordHash (set_visibility v r) = passwordHash r"
  "passwordHash (set_autoSkipSegmentCategories cs r) = passwordHash r"
  "passwordHash (set_bufferGateMode gm r) = passwordHash r" "passwordHash (set_enableVoteSkip b r) = passwordHash r"
  "passwordHash (set_danmakuSource d r) = passwordHash r"
  by (simp_all add: set_title_def set_description_def set_visibility_def set_queueMode_def
      set_autoSkipSegmentCategories_def set_enableVoteSkip_def set_bufferGateMode_def
      set_danmakuSource_def)

lemma assign_at: "F (assign f v r) = (case v of None \<Rightarrow> F r | Some x \<Rightarrow> F (f x r))"
  by (simp add: assign_def split: option.split)

lemma assign_settings_effect:
  "visibility (assign_settings s r) = or_else (st_visibility s) (visibility r)"
  "queueMode (assign_settings s r) = or_else (st_queueMode s) (queueMode r)"
  "passwordHash (assign_settings s r) = passwordHash r"
  unfolding assign_settings_def Let_def
  by (simp_all add: assign_frame [where F = visibility] assign_frame [where F = queueMode]
      assign_frame [where F = passwordHash] settings_frames
      assign_at [where f = set_visibility and F = visibility]
      assign_at [where f = set_queueMode and F = queueMode] or_else_def cong: option.case_cong)

text \<open>C33.
  Settings are all or nothing. A request that fails leaves the room as it was. One that succeeds
  had every permission its changes need, sets the visibility and the queue mode it names, never
  makes a room private that has no password, and cannot take a permission from administrators
  or owners.\<close>

theorem settings_all_or_nothing:
  assumes "room_inv r" and "applySettings e s c r = (err, r')"
  shows "(err \<noteq> None \<longrightarrow> r' = r)
    \<and> (err = None \<longrightarrow>
         list_all (granted (grants r) (cx_role c)) (settings_perms (changed_settings s r))
         \<and> visibility r' = or_else (st_visibility s) (visibility r)
         \<and> queueMode r' = or_else (st_queueMode s) (queueMode r)
         \<and> (visibility r' = Private \<longrightarrow> visibility r = Private \<or> hasPassword r)
         \<and> (\<forall>p\<in>set PERMISSIONS. granted (grants r') Administrator (perm_name p)
              \<and> granted (grants r') Owner (perm_name p)))"
proof -
  define t where "t = changed_settings s r"
  have inv: "room_inv r'" using applySettings_inv [OF assms(1), of e s c] assms(2) by simp
  then have wf: "wf_grants (grants r')" by (simp add: room_inv_def data_inv_def)
  have all: "granted (grants r') q (perm_name p)" if "q = Administrator \<or> q = Owner" for p q
    using wf that parse_le_all [of "perm_name p"] by (auto simp: granted_iff wf_grants_def)
  have vis: "or_else (st_visibility t) (visibility r) = or_else (st_visibility s) (visibility r)"
    and mode: "or_else (st_queueMode t) (queueMode r) = or_else (st_queueMode s) (queueMode r)"
    by (auto simp: t_def changed_settings_def drop_same_def or_else_def split: option.split)
  have new: "st_visibility t = None \<or> st_visibility t \<noteq> Some (visibility r)"
    by (simp add: t_def changed_settings_def drop_same_def)
  show ?thesis
  proof (cases "first_error (check (grants r) (cx_role c)) (settings_perms t)")
    case (Some x)
    with assms(2) show ?thesis by (auto simp: applySettings_def guard_def t_def [symmetric] Let_def)
  next
    case None
    obtain ch cs where cc: "canonical_categories r (st_autoSkipSegmentCategories t) = (ch, cs)" by force
    show ?thesis
    proof (cases "st_visibility t = Some Private \<and> \<not> truthy_str (passwordHash r)")
      case True
      with assms(2) None cc show ?thesis
        by (auto simp: applySettings_def guard_def t_def [symmetric] Let_def)
    next
      case False
      let ?t = "t\<lparr>st_autoSkipSegmentCategories := cs\<rparr>"
      define u where "u = apply_grants (case st_grants t of None \<Rightarrow> [] | Some g \<Rightarrow> g) (assign_settings ?t r)"
      have "u = (None, snd u)" using apply_grants_ok unfolding u_def by (metis prod.collapse)
      then obtain w where w: "err = None" "r' = evaluateBufferGate (now e) w"
        "visibility w = visibility (snd u)" "queueMode w = queueMode (snd u)"
        using assms(2) None cc False
        by (auto simp: applySettings_def guard_def t_def [symmetric] u_def Let_def seq_def split: option.splits prod.splits if_splits)
      have "visibility r' = or_else (st_visibility t) (visibility r)"
        "queueMode r' = or_else (st_queueMode t) (queueMode r)"
        using w by (simp_all add: u_def apply_grants_frame assign_settings_effect)
      moreover have "list_all (granted (grants r) (cx_role c)) (settings_perms t)"
        using None first_error_check by blast
      ultimately show ?thesis
        using w(1) all vis mode new False
        by (auto simp: t_def [symmetric] hasPassword_def or_else_def split: option.splits)
    qed
  qed
qed

definition only_queueMode :: "QueueMode \<Rightarrow> RoomSettings" where
  "only_queueMode m =
     \<lparr>st_title = None, st_description = None, st_visibility = None, st_queueMode = Some m,
      st_grants = None, st_autoSkipSegmentCategories = None, st_restoreQueueBehavior = None,
      st_enableVoteSkip = None, st_bufferGateMode = None, st_danmakuSource = None\<rparr>"

theorem settings_all_or_nothing_witness:
  "queueMode (snd (applySettings (sample_env 1000) (only_queueMode Vote)
     (sample_context ''alice'' RegisteredUser) sample_room)) = Vote"
proof -
  let ?p = "applySettings (sample_env 1000) (only_queueMode Vote) (sample_context ''alice'' RegisteredUser) sample_room"
  have g: "granted default_Grants RegisteredUser ''configure-room.set-queue-mode''"
    by (simp add: granted_def getMask_def parse_names)
  have t: "settings_perms (changed_settings (only_queueMode Vote) sample_room) = [''configure-room.set-queue-mode'']"
    by (simp add: settings_perms_def changed_settings_def only_queueMode_def drop_same_def needed_def)
  have "fst ?p = None"
    using g by (simp add: applySettings_def t guard_def check_def Let_def)
      (simp add: changed_settings_def only_queueMode_def drop_same_def canonical_categories_def)
  then have "?p = (None, snd ?p)" by (metis prod.collapse)
  from settings_all_or_nothing [OF sample_room_inv this] show ?thesis
    by (simp add: only_queueMode_def or_else_def)
qed

end
