(* ===== verification/RoomTiming.thy ===== *)
theory RoomTiming
  imports RoomSample
begin

text \<open>
  Properties of the playback engine: the position viewers are shown, the buffer gate, the
  preparation round, held gestures and the presence messages of a page refresh.
\<close>

section \<open>The position\<close>

text \<open>The requests whose purpose is to move the playback head.\<close>

fun moves_head :: "RoomRequest \<Rightarrow> bool" where
  "moves_head (SeekRequest _) = True"
| "moves_head SkipRequest = True"
| "moves_head (PlayNowRequest _) = True"
| "moves_head (UndoRequest _) = True"
| "moves_head _ = False"

lemma real_handle:
  assumes "room_inv r" and "\<not> moves_head req"
  shows "realPlaybackPosition (now e) (snd (handle e req c r)) = realPlaybackPosition (now e) r"
  using assms
  by (cases req) (simp_all add: real_join real_leave real_updateUser real_addToQueue
      real_queue_requests real_user_requests real_settings real_playback_requests real_gesture)

text \<open>C1.
  The clock is continuous: a request that is not a seek, a skip, an undo or a play-now leaves the
  position that viewers see at that instant exactly as it was, although it may start, stop or
  re-anchor the clock, change the speed, open or close the buffer gate, end a held gesture or
  start a prepared video.\<close>

theorem position_continuous:
  assumes "room_inv r" and "\<not> moves_head req"
  shows "realPlaybackPosition (now e) (snd (processRequest e req c r)) = realPlaybackPosition (now e) r"
proof -
  have "realPlaybackPosition (now e) (snd (process_basic e req c r)) = realPlaybackPosition (now e) r"
  proof -
    have "authorize req c r = (err, r)" if "fst (authorize req c r) = err" for err
      using that by (auto simp: authorize_def guard_def)
    then show ?thesis
      using real_handle [OF assms] by (cases "fst (authorize req c r)") (auto simp: process_basic_def)
  qed
  then show ?thesis using assms(2) by (cases req) (simp_all add: processRequest_def)
qed

theorem position_continuous_witness:
  "realPlaybackPosition 5000
     (snd (processRequest (sample_env 5000) (PlaybackSpeedRequest (Fin 2))
        (sample_context ''alice'' UnregisteredUser) sample_room)) = 5"
proof -
  have "realPlaybackPosition (now (sample_env 5000))
     (snd (processRequest (sample_env 5000) (PlaybackSpeedRequest (Fin 2))
        (sample_context ''alice'' UnregisteredUser) sample_room))
     = realPlaybackPosition (now (sample_env 5000)) sample_room"
    by (rule position_continuous) simp_all
  then show ?thesis
    by (simp add: realPlaybackPosition_def calcDurationFromPlaybackStart_def calculateCurrentPosition_def)
qed

section \<open>The buffer gate\<close>

text \<open>C35.
  A room never waits for a buffering viewer longer than the limit: once the gate has been closed
  for 15 seconds, the next evaluation opens it, resumes playback from the held position, and for
  the 30 seconds that follow no evaluation closes it again, whoever is buffering.\<close>

theorem buffer_gate_bounded:
  assumes "room_inv r" and "bufferGate r = Some g" and "realusers r \<noteq> []"
    and "bg_startedAt g + BUFFER_GATE_MAX_WAIT_MS \<le> t"
  shows "bufferGate (evaluateBufferGate t r) = None \<and> isPlaying (evaluateBufferGate t r)
    \<and> realPlaybackPosition t (evaluateBufferGate t r) = playbackPosition r
    \<and> (\<forall>t'. t' < t + BUFFER_GATE_COOLDOWN_MS \<longrightarrow>
          bufferGate (evaluateBufferGate t' (evaluateBufferGate t r)) = None)"
proof -
  note g = play_inv_gate [OF assms(1) [unfolded room_inv_def, THEN conjunct1] assms(2)]
  let ?s = "evaluateBufferGate t r"
  have eval: "?s = releaseBufferGate t True r"
    using assms(2,4) by (simp add: evaluateBufferGate_def)
  then have none: "bufferGate ?s = None" by simp
  have playing: "isPlaying ?s"
    using g assms(2,3) by (simp add: eval releaseBufferGate_def Let_def)
  have pos: "realPlaybackPosition t ?s = playbackPosition r" using g(2) by (simp add: real_stopped)
  have cool: "bufferGateCooldownUntil ?s = Some (t + BUFFER_GATE_COOLDOWN_MS)"
    using g assms(2,3)
    by (simp add: eval releaseBufferGate_def Let_def play_def set_isPlaying_def markDirty_def
        cancelPlaybackPreparation_def clearPlaybackStartTimer_def)
  have "bufferGate (evaluateBufferGate t' ?s) = None" if "t' < t + BUFFER_GATE_COOLDOWN_MS" for t'
    using that cool none by (simp add: evaluateBufferGate_def [of t' ?s] Let_def)
  with none playing pos show ?thesis by blast
qed

theorem buffer_gate_bounded_witness:
  "isPlaying (evaluateBufferGate 20000 (sample_room\<lparr>isPlaying := False, playbackStart := None,
     playbackPosition := 7, bufferGate := Some \<lparr>bg_startedAt = 5000, bg_waitingOn = [''bob''],
       bg_pausedByGate = True\<rparr>\<rparr>))"
proof -
  let ?g = "\<lparr>bg_startedAt = 5000, bg_waitingOn = [''bob''], bg_pausedByGate = True\<rparr>"
  let ?r = "sample_room\<lparr>isPlaying := False, playbackStart := None, playbackPosition := 7,
     bufferGate := Some ?g\<rparr>"
  have "data_inv ?r = data_inv sample_room" by (rule data_inv_cong) (simp add: frame outside_def)
  then have "room_inv ?r"
    using sample_room_inv by (simp add: room_inv_def play_inv_defs)
  from buffer_gate_bounded [OF this, of ?g 20000] show ?thesis
    by (simp add: BUFFER_GATE_MAX_WAIT_MS_def)
qed

section \<open>The preparation round\<close>

lemma refresh_cases:
  assumes "playbackPreparation r = Some p"
  obtains "playbackPreparation (refreshPlaybackPreparation r) = None" "eligiblePreparers r = []"
  | q where "playbackPreparation (refreshPlaybackPreparation r) = Some q"
      "pp_startAt q = pp_startAt p" "pp_hardDeadlineAt q = pp_hardDeadlineAt p"
      "pp_deadlineAt q = pp_deadlineAt p" "pp_position q = pp_position p"
  using assms
  by (cases "playbackEligibleIds r p = pp_eligible p"; cases "playbackEligibleIds r p";
      cases "eligiblePreparers r = []")
    (auto simp: refreshPlaybackPreparation_def Let_def)

lemma startPrepared_starts:
  assumes "playbackPreparation r = Some p" "pp_startAt p = Some s" "s \<le> t + 50"
  shows "playbackPreparation (startPreparedPlayback t r) = None" "isPlaying (startPreparedPlayback t r)"
    "playbackPosition (startPreparedPlayback t r) = pp_position p"
    "playbackStart (startPreparedPlayback t r) = Some s"
  using assms by (simp_all add: startPreparedPlayback_def Let_def) (simp add: set_isPlaying_def)

lemma schedule_cases:
  assumes "playbackPreparation r = Some p" "pp_startAt p = None"
  obtains "playbackPreparation (schedulePlaybackStart t f r) = None"
      "isPlaying (schedulePlaybackStart t f r)"
      "playbackPosition (schedulePlaybackStart t f r) = pp_position p"
  | q where "playbackPreparation (schedulePlaybackStart t f r) = Some q"
      "pp_startAt q = Some (t + PLAYBACK_START_LEAD_MS)" "pp_position q = pp_position p"
proof (cases "length (playbackEligibleIds r p) \<le> 1")
  case True
  let ?q = "p\<lparr>pp_fallback := f, pp_startAt := Some t\<rparr>"
  let ?r = "markDirty PplaybackPreparation (r\<lparr>playbackPreparation := Some ?q\<rparr>)"
  have "schedulePlaybackStart t f r = startPreparedPlayback t ?r"
    using assms True by (simp add: schedulePlaybackStart_def Let_def)
  with startPrepared_starts [of ?r ?q t t] that(1) show thesis by simp
next
  case False
  with assms that(2) show thesis
    by (auto simp: schedulePlaybackStart_def Let_def clearPlaybackStartTimer_def)
qed

lemma tick_scheduled:
  assumes "playbackPreparation r = Some p" "pp_startAt p = Some s" "s \<le> t"
  shows "playbackPreparation (tick_preparation t r) = None
    \<and> (isPlaying (tick_preparation t r) \<and> playbackPosition (tick_preparation t r) = pp_position p
       \<or> eligiblePreparers r = [])"
proof (rule refresh_cases [OF assms(1)])
  assume "playbackPreparation (refreshPlaybackPreparation r) = None" "eligiblePreparers r = []"
  with assms show ?thesis by (simp add: tick_preparation_def tick_schedule_def tick_start_def)
next
  fix q
  assume q: "playbackPreparation (refreshPlaybackPreparation r) = Some q"
    "pp_startAt q = pp_startAt p" "pp_position q = pp_position p"
  then have "tick_preparation t r = startPreparedPlayback t (refreshPlaybackPreparation r)"
    using assms by (simp add: tick_preparation_def tick_schedule_def tick_start_def)
  with startPrepared_starts [OF q(1)] q assms show ?thesis by simp
qed

lemma tick_overdue:
  assumes "playbackPreparation r = Some p" "pp_startAt p = None"
    "pp_deadlineAt p \<le> t" "pp_hardDeadlineAt p \<le> t"
  obtains "playbackPreparation (tick_preparation t r) = None"
      "isPlaying (tick_preparation t r) \<and> playbackPosition (tick_preparation t r) = pp_position p
       \<or> eligiblePreparers r = []"
  | q where "playbackPreparation (tick_preparation t r) = Some q"
      "pp_startAt q = Some (t + PLAYBACK_START_LEAD_MS)" "pp_position q = pp_position p"
proof (rule refresh_cases [OF assms(1)])
  assume "playbackPreparation (refreshPlaybackPreparation r) = None" "eligiblePreparers r = []"
  with assms that(1) show thesis by (simp add: tick_preparation_def tick_schedule_def tick_start_def)
next
  fix q
  let ?s = "refreshPlaybackPreparation r"
  assume q: "playbackPreparation ?s = Some q" "pp_startAt q = pp_startAt p"
    "pp_hardDeadlineAt q = pp_hardDeadlineAt p" "pp_deadlineAt q = pp_deadlineAt p"
    "pp_position q = pp_position p"
  then have "\<exists>f. tick_schedule t ?s = schedulePlaybackStart t f ?s"
    using assms by (auto simp: tick_schedule_def)
  then obtain f where f: "tick_schedule t ?s = schedulePlaybackStart t f ?s" ..
  have none: "pp_startAt q = None" using q assms by simp
  show thesis
  proof (rule schedule_cases [OF q(1) none, of t f])
    assume "playbackPreparation (schedulePlaybackStart t f ?s) = None"
      "isPlaying (schedulePlaybackStart t f ?s)"
      "playbackPosition (schedulePlaybackStart t f ?s) = pp_position q"
    with that(1) q f assms(1) show thesis by (simp add: tick_preparation_def tick_start_def)
  next
    fix q'
    assume "playbackPreparation (schedulePlaybackStart t f ?s) = Some q'"
      "pp_startAt q' = Some (t + PLAYBACK_START_LEAD_MS)" "pp_position q' = pp_position q"
    with that(2) q f assms(1) show thesis
      by (simp add: tick_preparation_def tick_start_def PLAYBACK_START_LEAD_MS_def)
  qed
qed

lemma outside_tick [frame]:
  "outside (tick_schedule t r) = outside r"
  "outside (tick_start t r) = outside r"
  by (simp_all add: tick_schedule_def tick_start_def frame split: option.split)

lemma eligible_tick [simp]: "eligiblePreparers (tick_preparation t r) = eligiblePreparers r"
  by (rule eligible_cong) (simp add: tick_preparation_def frame)



end
