(* ===== verification/RoomPresence.thy ===== *)
theory RoomPresence
  imports RoomTiming
begin

text \<open>
  Held gestures and presence: what the owner of a gesture sees when it ends, and that a viewer who
  refreshes the page neither leaves nor arrives in the eyes of the others.
\<close>

section \<open>Held gestures\<close>

lemma gesture_start_effect:
  assumes "isPlaying r" "bufferGate r = None" "temporarySpeed r = None"
    and "currentSource r = Some v" "positive_length (v_length v)"
  shows "gesture_start e cid g (Some (video_id v)) r =
    renewTemporaryPlaybackSpeed (now e) (markDirty PtemporaryPlaybackSpeed
      (set_playbackSpeed TEMPORARY_PLAYBACK_SPEED ((flushPlaybackPosition (now e) (r\<lparr>bufferGate := None\<rparr>))
        \<lparr>temporarySpeed := Some \<lparr>ts_clientId = cid, ts_gestureId = g,
           ts_speed = TEMPORARY_PLAYBACK_SPEED, ts_previousSpeed = playbackSpeed r\<rparr>\<rparr>)))"
  using assms by (simp add: gesture_start_def Let_def releaseBufferGate_def)

lemma real_running:
  "isPlaying r \<Longrightarrow> playbackStart r = Some s \<Longrightarrow>
     realPlaybackPosition t r = playbackPosition r + of_int (t - s) / 1000 * playbackSpeed r"
  by (simp add: realPlaybackPosition_def calcDurationFromPlaybackStart_def calculateCurrentPosition_def)

lemma end_gesture:
  assumes "temporarySpeed r = Some s"
  shows "playbackSpeed (endTemporaryPlaybackSpeed t True r) = ts_previousSpeed s"
  using assms by (simp add: endTemporaryPlaybackSpeed_def Let_def)

text \<open>A held gesture is a loan: while it is held the video runs at double speed from the position it
  had, and when its owner lets go, or the lease of five seconds runs out without a renewal, the
  former speed is back and the head stands where double speed has taken it.\<close>

lemma gesture_is_returned:
  assumes "isPlaying r" "bufferGate r = None" "temporarySpeed r = None"
    and "currentSource r = Some v" "positive_length (v_length v)"
    and "gesture_id_ok g" "getUser r cid = Some u" "cid \<noteq> []" "cx_clientId c = Some cid"
    and "granted (grants r) (cx_role c) ''playback.speed''"
    and "r1 = snd (setTemporaryPlaybackSpeed e1 GestureStart g (Some (video_id v)) c r)"
    and "r2 = snd (setTemporaryPlaybackSpeed e2 GestureStop g vid c r1)
       \<or> r2 = temporary_speed_timer (now e2) r1 \<and> now e1 + TEMPORARY_PLAYBACK_SPEED_LEASE_MS \<le> now e2"
  shows "playbackSpeed r1 = 2 \<and> playbackSpeed r2 = playbackSpeed r \<and> temporarySpeed r2 = None
    \<and> realPlaybackPosition (now e2) r2
        = realPlaybackPosition (now e1) r + of_int (now e2 - now e1) / 1000 * 2"
proof -
  let ?s = "\<lparr>ts_clientId = cid, ts_gestureId = g, ts_speed = TEMPORARY_PLAYBACK_SPEED,
     ts_previousSpeed = playbackSpeed r\<rparr>"
  have g: "check (grants r) (cx_role c) ''playback.speed'' = None" using assms(10) by simp
  have r1: "r1 = gesture_start e1 cid g (Some (video_id v)) r"
    using assms(6-9,11) g by (simp add: setTemporaryPlaybackSpeed_def guard_def)
  note r1 = r1 [unfolded gesture_start_effect [OF assms(1-5)]]
  have f1: "temporarySpeed r1 = Some ?s" "isPlaying r1" "playbackStart r1 = Some (now e1)"
    "playbackPosition r1 = realPlaybackPosition (now e1) r" "playbackSpeed r1 = 2"
    "temporarySpeedTimer r1 = Some (now e1 + TEMPORARY_PLAYBACK_SPEED_LEASE_MS)"
    using assms(1) by (simp_all add: r1 renewTemporaryPlaybackSpeed_def TEMPORARY_PLAYBACK_SPEED_def)
  have "getUser r1 cid = getUser r cid"
    by (rule arg_cong2 [where f = "\<lambda>f x. f x"], rule role_cong(2)) (simp_all add: r1 frame)
  then have stop: "snd (setTemporaryPlaybackSpeed e2 GestureStop g vid c r1)
      = endTemporaryPlaybackSpeed (now e2) True r1"
    using assms(6-9) f1 by (simp add: setTemporaryPlaybackSpeed_def)
  then have r2: "r2 = endTemporaryPlaybackSpeed (now e2) True r1"
    using assms(12) f1(6) by (auto simp: temporary_speed_timer_def)
  show ?thesis
    using f1 by (simp add: r2 end_gesture [OF f1(1)] real_running [OF f1(2,3)])
qed

section \<open>Refreshing the page\<close>

text \<open>Messages that tell the others about an arrival or a departure.\<close>

fun presence_event :: "ServerMessage \<Rightarrow> bool" where
  "presence_event (MsgEvent ev) =
     (case event_request ev of JoinRequest _ _ \<Rightarrow> True | LeaveRequest \<Rightarrow> True | _ \<Rightarrow> False)"
| "presence_event _ = False"

text \<open>Nothing but quiet messages has been added to what was published.\<close>

definition quiet :: "Room \<Rightarrow> Room \<Rightarrow> bool" where
  "quiet r r' \<longleftrightarrow> (\<exists>ms. outbox r' = outbox r @ ms \<and> list_all (\<lambda>m. \<not> presence_event m) ms)"

lemma quiet_refl: "outbox r' = outbox r \<Longrightarrow> quiet r r'"
  by (simp add: quiet_def)

lemma quiet_trans: "quiet a b \<Longrightarrow> quiet b c \<Longrightarrow> quiet a c"
  by (auto simp: quiet_def)

lemma quiet_publish: "outbox a = outbox b \<Longrightarrow> \<not> presence_event m \<Longrightarrow> quiet a (publish m b)"
  by (simp add: quiet_def publish_def)

text \<open>Pending leave events survive everything the engine does.\<close>

lemma syncDirty_quiet:
  "quiet r (snd (syncDirty e r))"
  "pendingLeaveEvents (snd (syncDirty e r)) = pendingLeaveEvents r"
  by (auto simp: syncDirty_def Let_def quiet_def publish_def cleanDirty_def sync_message_def)

lemma empty_room_quiet:
  "quiet r (snd (empty_room e r))"
  "pendingLeaveEvents (snd (empty_room e r)) = pendingLeaveEvents r"
proof -
  define s where "s = (\<lambda>b. (markDirty PisPlaying ((cancelPlaybackPreparation (pausePlaybackClock (now e)
     (releaseBufferGate (now e) False r)))\<lparr>resumeOnNextJoin := b\<rparr>))\<lparr>keepAlivePing := now e\<rparr>)"
  have s: "outbox (s b) = outbox r" "pendingLeaveEvents (s b) = pendingLeaveEvents r" for b
    by (simp_all add: s_def)
  obtain b where b: "empty_room e r = syncDirty e (s b)"
    by (simp add: empty_room_def s_def Let_def)
  show "quiet r (snd (empty_room e r))"
    "pendingLeaveEvents (snd (empty_room e r)) = pendingLeaveEvents r"
    using syncDirty_quiet [where r = "s b" and e = e] s [of b] by (auto simp: b quiet_def)
qed

lemma leave_suppressed:
  assumes "cx_clientId c = Some cid" "getUser r cid = Some u" "ru_token u = tok" "tok \<noteq> []"
    and "\<not> sessionInRoom tok (Some cid) r"
  shows "quiet r (snd (leaveRoom e c r))
    \<and> map_of (pendingLeaveEvents (snd (leaveRoom e c r))) tok \<noteq> None"
proof -
  define r1 where "r1 = end_own_gesture (now e) cid r"
  have out: "outside r1 = outside r" by (simp add: r1_def end_own_gesture_def frame)
  note same = outside_fields [OF out] role_cong [OF out]
  have info: "\<exists>i. getUserInfo r1 cid = Inr i"
  proof -
    have "find (\<lambda>u. ru_id u = cid) us = Some w \<Longrightarrow>
        find (\<lambda>i. ui_id i = cid) (map (user_info r1) us) = Some (user_info r1 w)" for us w
      by (induction us) (auto simp: user_info_def)
    then show ?thesis
      using assms(2) by (auto simp: getUserInfo_def users_def same getUser_def)
  qed
  then obtain i where i: "getUserInfo r1 cid = Inr i" ..
  have tok: "map_option ru_token (getUser r1 cid) = Some tok"
    using assms(2,3) by (simp add: same)
  have ses: "\<not> sessionInRoom tok (Some cid) r1" using assms(5) by (simp add: sessionInRoom_def same)
  define r2 where "r2 = withdraw_votes cid (publishLeaveEvent (now e) c i (Some tok) r1)"
  have r2: "outbox r2 = outbox r" "map_of (pendingLeaveEvents r2) tok \<noteq> None"
    using ses assms(1,4)
    by (simp_all add: r2_def withdraw_votes_def publishLeaveEvent_def Let_def same update_conv')
  define r3 where "r3 = r2\<lparr>realusers := remove_first (\<lambda>u. ru_id u = cid) (realusers r2)\<rparr>"
  have leave: "leaveRoom e c r =
      seq (if realusers r3 = [] then empty_room e r3 else (None, rebuild_preparation e cid r3))
        (\<lambda>r. (None, evaluateBufferGate (now e) r))"
    by (simp only: leaveRoom_def assms(1) option.case Let_def r1_def [symmetric] i sum.case tok
        r2_def r3_def)
  let ?I = "\<lambda>s. quiet r s \<and> map_of (pendingLeaveEvents s) tok \<noteq> None"
  have r3: "?I r3" using r2 by (simp add: r3_def quiet_refl)
  have rb: "outside (rebuild_preparation e cid r3) = outside r3"
    by (simp add: rebuild_preparation_def frame split: option.split)
  have ev: "outside (evaluateBufferGate t s) = outside s" for t s by (simp add: frame)
  show ?thesis
    unfolding leave
  proof (rule seq_keeps [where I = ?I])
    show "?I (snd (if realusers r3 = [] then empty_room e r3 else (None, rebuild_preparation e cid r3)))"
      using r3 empty_room_quiet [where r = r3 and e = e] outside_fields(8,11) [OF rb]
      by (auto intro: quiet_trans quiet_refl)
    show "?I (snd (None, evaluateBufferGate (now e) s))" if "?I s" for s
      using that by (auto intro: quiet_trans [OF _ quiet_refl])
  qed
qed

lemma prepare_or_resume_outside: "outside (resume_or_prepare e b role r) = outside r"
  by (simp add: resume_or_prepare_def frame)

text \<open>A page refresh is silent: when a viewer's only connection leaves and the same session joins
  again before the leave event was due, neither the departure nor the return is announced to the
  room; other messages (the state, the new entry of the user list) still go out.\<close>

lemma refresh_is_silent:
  assumes "cx_clientId c = Some cid" "getUser r cid = Some u" "ru_token u = tok" "tok \<noteq> []"
    and "\<not> sessionInRoom tok (Some cid) r"
    and "r1 = snd (leaveRoom e1 c r)"
    and "context_token c' = tok" and "joinRoom e2 info b c' r1 = (None, r2)"
  shows "quiet r r2"
proof -
  note lv = leave_suppressed [OF assms(1-5), of e1, folded assms(6)]
  let ?h = "holdEmptyPlaybackForJoin (now e2) b r1"
  obtain user where user: "updateInfo e2 info (new_RoomUser (ci_id info) tok) = (None, user)"
    using assms(4,7,8) by (auto simp: joinRoom_def Let_def split: prod.splits option.splits)
  define s where "s = resume_or_prepare e2 b (cx_role c') (?h\<lparr>realusers := realusers r1 @ [user]\<rparr>)"
  have "outside s = outside (?h\<lparr>realusers := realusers r1 @ [user]\<rparr>)"
    unfolding s_def by (rule prepare_or_resume_outside)
  from outside_fields(8,11) [OF this]
  have s: "pendingLeaveEvents s = pendingLeaveEvents r1" "outbox s = outbox r1" by simp_all
  let ?s = "s\<lparr>pendingLeaveEvents := AList.delete tok (pendingLeaveEvents s)\<rparr>"
  have "noteJoin tok (ru_id user) s = (True, ?s)"
    using lv assms(4) s by (auto simp: noteJoin_def split: option.split)
  then have "joinRoom e2 info b c' r1 = sync_client (ru_id user) ?s"
    using assms(4,7) user by (simp add: joinRoom_def Let_def s_def [symmetric])
  with assms(8) have "(None, r2) = sync_client (ru_id user) ?s" by simp
  then have "quiet r1 r2"
    using s by (auto simp: sync_client_def syncUser_def intro!: quiet_publish split: sum.splits)
  with lv show ?thesis by (blast intro: quiet_trans)
qed

lemma sync_client_ok: "u \<in> set (realusers r) \<Longrightarrow> fst (sync_client (ru_id u) r) = None"
proof -
  have "u \<in> set us \<Longrightarrow> find (\<lambda>i. ui_id i = ru_id u) (map (user_info r) us) \<noteq> None" for us
    by (induction us) (auto simp: user_info_def)
  then show "u \<in> set (realusers r) \<Longrightarrow> ?thesis"
    by (auto simp: sync_client_def getUserInfo_def users_def split: option.split sum.split)
qed

lemma realusers_publish: "realusers (publishRoomEvent req c a k r) = realusers r"
  by (simp add: publishRoomEvent_def publish_def record_event_def Let_def split: option.split sum.split)

lemma joinRoom_succeeds:
  assumes "context_token c \<noteq> []"
    and "updateInfo e info (new_RoomUser (ci_id info) (context_token c)) = (None, u)"
  shows "fst (joinRoom e info b c r) = None"
proof -
  let ?h = "(holdEmptyPlaybackForJoin (now e) b r)\<lparr>realusers := realusers r @ [u]\<rparr>"
  define s where "s = resume_or_prepare e b (cx_role c) ?h"
  have "realusers s = realusers r @ [u]"
    using outside_fields(9) [OF prepare_or_resume_outside [of e b "cx_role c" ?h]] by (simp add: s_def)
  then have note_users: "u \<in> set (realusers (snd (noteJoin tok cid s)))" for tok cid
    by (simp add: noteJoin_def split: option.split)
  have "joinRoom e info b c r =
     (let (resumed, r3) = noteJoin (context_token c) (ru_id u) s
      in sync_client (ru_id u)
           (if resumed then r3 else publishRoomEvent (JoinRequest info b) c no_context None r3))"
    using assms by (simp add: joinRoom_def Let_def s_def)
  then show ?thesis
    using note_users [of "context_token c" "ru_id u"]
    by (auto simp: split_def Let_def realusers_publish intro!: sync_client_ok)
qed

end
