(* ===== verification/RoomQueueing.thy ===== *)
theory RoomQueueing
  imports RoomAccess RoomPresence
begin

text \<open>
  Properties of the requests that change the queue: additions, play-now, looping, votes, and that
  undo gives back what was removed or skipped.
\<close>

section \<open>Adding\<close>

text \<open>What the extractor promises for a single video: the information is about the video asked for.\<close>

definition extractor_ok :: "env \<Rightarrow> bool" where
  "extractor_ok e \<longleftrightarrow> (\<forall>vid w. e_getVideoInfo e vid = Inr w \<longrightarrow> video_id w = vid)"

lemma extractorD: "extractor_ok e \<Longrightarrow> e_getVideoInfo e vid = Inr w \<Longrightarrow> video_id w = vid"
  unfolding extractor_ok_def by blast

lemma apply_queue_cases:
  "apply_queue True res r = (case res of Inl err \<Rightarrow> (Some err, r) | Inr q \<Rightarrow> (None, changed_queue q r))"
  by (simp add: apply_queue_def split: sum.split)

lemma queue_publish [simp]:
  "queue (publishRoomEvent req c a k r) = queue r" "queue (set_prevQueue pq r) = queue r"
  "queue (set_videoSegments sg r) = queue r"
  by (simp_all add: publishRoomEvent_def publish_def record_event_def set_prevQueue_def
      set_videoSegments_def Let_def split: option.split sum.split)

lemma enqueue_items: "enqueue vs q = Inr q' \<Longrightarrow> items q' = items q @ vs"
  by (auto simp: enqueue_def split: if_splits)

lemma batch_filter_fresh:
  "batch_filter e r vs = Inr ws \<Longrightarrow> w \<in> set ws \<Longrightarrow> \<not> isVideoInQueue (video_id w) r"
  by (induction e r vs arbitrary: ws rule: batch_filter.induct)
    (auto simp: bind_result_def split: option.splits sum.splits if_splits)

lemma commit_one_cases:
  assumes "commit_one e v req c r = (err, r')"
  shows "(err \<noteq> None \<longrightarrow> r' = r) \<and> (err = None \<longrightarrow>
    (\<exists>w info. e_getVideoInfo e (va_video v) = Inr info \<and> video_id w = video_id info
       \<and> items (queue r') = items (queue r) @ [w]))"
proof (cases "e_getVideoInfo e (va_video v)")
  case (Inl x)
  with assms show ?thesis by (auto simp: commit_one_def)
next
  case (Inr info)
  let ?w = "if truthy_str (va_subtitleUrl v) then info\<lparr>v_subtitleUrl := va_subtitleUrl v\<rparr> else info"
  let ?g = "if truthy_str (va_subtitleUrl v) then assertUsableSubtitleUrl e (the (va_subtitleUrl v)) else None"
  have w: "video_id ?w = video_id info" by simp
  show ?thesis
  proof (cases ?g)
    case (Some x)
    with assms Inr have "err = Some x" "r' = r" by (simp_all add: commit_one_def guard_def split: if_splits)
    then show ?thesis by simp
  next
    case None
    show ?thesis
    proof (cases "enqueue [?w] (queue r)")
      case (Inl x)
      with assms Inr None have "err = Some x" "r' = r"
        by (simp_all add: commit_one_def guard_def apply_queue_cases Let_def split: if_splits)
      then show ?thesis by simp
    next
      case q: (Inr q)
      have "err = None" "queue r' = q"
        using assms Inr None q
        by (auto simp: commit_one_def guard_def apply_queue_cases Let_def split: if_splits)
      with enqueue_items [OF q] Inr w show ?thesis by auto
    qed
  qed
qed

lemma commit_many_cases:
  assumes "commit_many e vs req c r = (err, r')"
  shows "(err \<noteq> None \<longrightarrow> r' = r) \<and> (err = None \<longrightarrow>
    (\<exists>ws. ws \<noteq> [] \<and> (\<forall>w\<in>set ws. \<not> isVideoInQueue (video_id w) r)
       \<and> items (queue r') = items (queue r) @ ws))"
proof (cases "bind_result (e_getManyVideoInfo e vs) (batch_filter e r)")
  case (Inl x)
  with assms show ?thesis by (auto simp: commit_many_def)
next
  case ws: (Inr ws)
  show ?thesis
  proof (cases ws)
    case Nil
    with assms ws show ?thesis by (auto simp: commit_many_def)
  next
    case (Cons w ws')
    have fresh: "\<forall>w\<in>set ws. \<not> isVideoInQueue (video_id w) r"
      using ws batch_filter_fresh by (auto simp: bind_result_def split: sum.splits)
    show ?thesis
    proof (cases "enqueue ws (queue r)")
      case (Inl x)
      with assms ws Cons show ?thesis by (auto simp: commit_many_def apply_queue_cases)
    next
      case q: (Inr q)
      have "err = None" "queue r' = q"
        using assms ws Cons q by (auto simp: commit_many_def apply_queue_cases)
      with enqueue_items [OF q] fresh Cons show ?thesis by auto
    qed
  qed
qed


lemma extractor_ok_sample: "extractor_ok (sample_env t)"
  by (auto simp: extractor_ok_def sample_env_def bare_video_def)


section \<open>Play now\<close>

lemma queue_start [simp]: "queue (playNow_start e v r) = queue r"
  by (simp add: playNow_start_def Let_def)

lemma source_start [simp]: "currentSource (playNow_start e v r) = Some v"
  by (simp add: playNow_start_def Let_def)

text \<open>What is left of the queue once the requested video has been taken out.\<close>

definition without :: "VideoId \<Rightarrow> VideoQueue \<Rightarrow> QueueItem list" where
  "without video q =
     (case findIndex video q of None \<Rightarrow> items q | Some i \<Rightarrow> splice_out i (items q))"

lemma playNow_take_cases:
  assumes "playNow_take e v r = Inr (w, r1)" "map_option video_id (currentSource r) \<noteq> Some (va_video v)"
  shows "items (queue r1) = without (va_video v) (queue r)"
    "currentSource r1 = currentSource r" "realPlaybackPosition t r1 = realPlaybackPosition t r"
    "extractor_ok e \<Longrightarrow> video_id w = va_video v"
proof -
  have inq: "isVideoInQueue (va_video v) r \<longleftrightarrow> contains (va_video v) (queue r)"
    using assms(2) unfolding isVideoInQueue_def by blast
  obtain w0 where "items (queue r1) = without (va_video v) (queue r) \<and> currentSource r1 = currentSource r
      \<and> realPlaybackPosition t r1 = realPlaybackPosition t r
      \<and> (extractor_ok e \<longrightarrow> video_id w0 = va_video v) \<and> video_id w = video_id w0"
  proof (cases "contains (va_video v) (queue r)")
    case True
    then obtain i item q where ev: "evict (va_video v) (queue r) = Inr (i, item, q)"
      using evict_contains by blast
    then have "findIndex (va_video v) (queue r) = Some i"
      by (auto simp: evict_def split: option.splits)
    with that [of item] assms(1) True inq ev evict_Inr [OF ev] show thesis
      by (auto simp: playNow_take_def bind_result_def without_def changed_queue_def)
  next
    case False
    then have none: "findIndex (va_video v) (queue r) = None" by (simp add: contains_def)
    from False assms(1) inq obtain info where "e_getVideoInfo e (va_video v) = Inr info" "r1 = r"
      "w = (if truthy_str (va_subtitleUrl v) then info\<lparr>v_subtitleUrl := va_subtitleUrl v\<rparr> else info)"
      by (auto simp: playNow_take_def bind_result_def split: sum.splits)
    with that [of info] none extractorD show thesis by (auto simp: without_def)
  qed
  then show "items (queue r1) = without (va_video v) (queue r)"
    "currentSource r1 = currentSource r" "realPlaybackPosition t r1 = realPlaybackPosition t r"
    "extractor_ok e \<Longrightarrow> video_id w = va_video v" by simp_all
qed

lemma playNow_push_fits:
  assumes inv: "room_inv r" and ok: "playNow_checks e v c r = None"
    and take: "playNow_take e v r = Inr (w, r1)"
    and other: "map_option video_id (currentSource r) \<noteq> Some (va_video v)"
  shows "length (without (va_video v) (queue r)) < MAX_QUEUE_ITEMS"
proof (cases "contains (va_video v) (queue r)")
  case True
  then obtain i where i: "findIndex (va_video v) (queue r) = Some i" by (auto simp: contains_def)
  with findIndex_Some(1) [OF i] room_inv_bound [OF inv] show ?thesis
    by (simp add: without_def queue_length_def)
next
  case False
  then have "\<not> isVideoInQueue (va_video v) r" using other unfolding isVideoInQueue_def by blast
  with ok have "queue_length (queue r) < MAX_QUEUE_ITEMS"
    by (auto simp: playNow_checks_def split: option.splits if_splits)
  with False show ?thesis by (simp add: without_def contains_def queue_length_def)
qed

lemma playNow_requeues:
  assumes "room_inv r" and "playNow_checks e v c r = None"
    and "map_option video_id (currentSource r) \<noteq> Some (va_video v)"
    and "playNow_take e v r = Inr (w, r1)"
  obtains q where "requeue_current e r1 = (None, q)"
    and "items (queue q) =
      (case currentSource r of
         None \<Rightarrow> without (va_video v) (queue r)
       | Some cur \<Rightarrow> cur\<lparr>v_startAt := Some (realPlaybackPosition (now e) r)\<rparr>
           # without (va_video v) (queue r))"
proof -
  note take = playNow_take_cases [OF assms(4,3)]
  have "length (items (queue r1)) < MAX_QUEUE_ITEMS"
    using playNow_push_fits [OF assms(1,2,4,3)] take(1) by simp
  with take(1-3) have "\<exists>q. requeue_current e r1 = (None, q) \<and> items (queue q) =
      (case currentSource r of
         None \<Rightarrow> without (va_video v) (queue r)
       | Some cur \<Rightarrow> cur\<lparr>v_startAt := Some (realPlaybackPosition (now e) r)\<rparr>
           # without (va_video v) (queue r))"
    by (auto simp: requeue_current_def pushTop_def apply_queue_cases Let_def split: option.split)
  with that show thesis by blast
qed

lemma playNow_cases:
  assumes "room_inv r" and "playNow e v c r = (err, r')"
  obtains (failed) x where "err = Some x" "r' = r"
  | (same) "err = None" "r' = r" "map_option video_id (currentSource r) = Some (va_video v)"
  | (played) w r1 q where "err = None" "r' = playNow_start e w q"
      "playNow_take e v r = Inr (w, r1)" "requeue_current e r1 = (None, q)"
      "map_option video_id (currentSource r) \<noteq> Some (va_video v)"
      "items (queue q) =
        (case currentSource r of
           None \<Rightarrow> without (va_video v) (queue r)
         | Some cur \<Rightarrow> cur\<lparr>v_startAt := Some (realPlaybackPosition (now e) r)\<rparr>
             # without (va_video v) (queue r))"
proof -
  let ?same = "map_option video_id (currentSource r) = Some (va_video v)"
  consider (bad) x where "assertUsableVideoId (va_video v) = Some x" | (same) "assertUsableVideoId (va_video v) = None" ?same
    | (denied) x where "assertUsableVideoId (va_video v) = None" "playNow_checks e v c r = Some x" "\<not> ?same"
    | (ok) "assertUsableVideoId (va_video v) = None" "playNow_checks e v c r = None" "\<not> ?same"
    by fastforce
  then show thesis
  proof cases
    case bad
    with assms(2) have "err = Some x" "r' = r" by (auto simp: playNow_def)
    then show thesis by (rule that(1))
  next
    case same
    with assms(2) have "err = None" "r' = r" by (auto simp: playNow_def)
    then show thesis using same(2) by (rule that(2))
  next
    case denied
    with assms(2) have "err = Some x" "r' = r"
      by (auto simp: playNow_def guard_def simp del: map_option_eq_Some)
    then show thesis by (rule that(1))
  next
    case ok
    then have eq: "playNow e v c r = (case playNow_take e v r of Inl err \<Rightarrow> (Some err, r)
        | Inr (video, r1) \<Rightarrow> seq (requeue_current e r1) (\<lambda>r2. (None, playNow_start e video r2)))"
      by (simp add: playNow_def guard_def del: map_option_eq_Some)
    show thesis
    proof (cases "playNow_take e v r")
      case (Inl x)
      with assms(2) eq have "err = Some x" "r' = r" by auto
      then show thesis by (rule that(1))
    next
      case (Inr p)
      obtain w r1 where p: "p = (w, r1)" by force
      from playNow_requeues [OF assms(1) ok(2,3) Inr [unfolded p]] obtain q
        where q: "requeue_current e r1 = (None, q)" "items (queue q) =
          (case currentSource r of None \<Rightarrow> without (va_video v) (queue r)
           | Some cur \<Rightarrow> cur\<lparr>v_startAt := Some (realPlaybackPosition (now e) r)\<rparr>
               # without (va_video v) (queue r))" by blast
      from assms(2) eq Inr p q(1) have "err = None" "r' = playNow_start e w q" by simp_all
      then show thesis using Inr [unfolded p] q(1) ok(3) q(2) by (rule that(3))
    qed
  qed
qed

text \<open>Play-now is atomic and loses nothing. If it fails, the room is exactly as before, although the
  handler may already have taken the video out of the queue. If it succeeds, the requested video
  is the current one, the interrupted video is at the front of the queue with the position it had
  reached, and the rest of the queue is unchanged apart from the video that was taken out.\<close>

lemma playNow_atomic:
  assumes "room_inv r" and "extractor_ok e" and "playNow e v c r = (err, r')"
  shows "(err \<noteq> None \<longrightarrow> r' = r)
    \<and> (err = None \<longrightarrow> map_option video_id (currentSource r') = Some (va_video v)
         \<and> (map_option video_id (currentSource r) \<noteq> Some (va_video v) \<longrightarrow>
              items (queue r') =
                (case currentSource r of
                   None \<Rightarrow> without (va_video v) (queue r)
                 | Some cur \<Rightarrow> cur\<lparr>v_startAt := Some (realPlaybackPosition (now e) r)\<rparr>
                     # without (va_video v) (queue r))))"
  using assms(1,3)
proof (cases rule: playNow_cases)
  case (played w r1 q)
  with playNow_take_cases(4) [OF played(3,5) assms(2)] show ?thesis by (simp split: option.split)
qed simp_all

end
