(* ===== verification/RoomVotes.thy ===== *)
theory RoomVotes
  imports RoomQueueing
begin

text \<open>
  The order of the queue: looping, votes for videos, votes to skip, and undo of a removal or skip.
\<close>

section \<open>The next video\<close>

lemma clear_for_dequeue_fields [simp]:
  "queue (clear_for_dequeue e r) = queue r" "queueMode (clear_for_dequeue e r) = queueMode r"
  "currentSource (clear_for_dequeue e r) = currentSource r"
  by (simp_all add: clear_for_dequeue_def Let_def)

lemma start_dequeued_fields [simp]:
  "queue (start_dequeued e r) = queue r" "currentSource (start_dequeued e r) = currentSource r"
  by (simp_all add: start_dequeued_def)

lemma take_next_fields:
  assumes "items (queue r) = x # xs"
  shows "items (queue (take_next e r)) = xs" "currentSource (take_next e r) = Some x"
  using assms by (simp_all add: take_next_def dequeue_def Let_def)

lemma finish_dequeue_fields [simp]:
  "queue (finish_dequeue e r) = queue r" "currentSource (finish_dequeue e r) = currentSource r"
  by (simp_all add: finish_dequeue_def Let_def)

lemma dequeueNext_queue:
  assumes "queueMode r \<noteq> Dj" "queueMode r \<noteq> Loop" "items (queue r) = x # xs"
  shows "items (queue (dequeueNext e r)) = xs" "currentSource (dequeueNext e r) = Some x"
proof -
  let ?s = "clear_for_dequeue e r"
  have "dequeueNext e r = finish_dequeue e (take_next e ?s)"
    using assms by (simp add: dequeueNext_def dequeue_by_mode_def queue_length_def split: option.split)
  then show "items (queue (dequeueNext e r)) = xs" "currentSource (dequeueNext e r) = Some x"
    using take_next_fields [of ?s x xs e] assms(3) by simp_all
qed

text \<open>A looping room loses nothing: when a video ends it goes to the back of the queue, without its
  trim, and the front of the queue becomes the current video; this also holds for a full queue,
  and a room with a single video plays it again.\<close>

lemma loop_rotates:
  assumes "queueMode r = Loop" and "currentSource r = Some v"
  shows "items (queue (dequeueNext e r)) = tl (items (queue r) @ [clearQueueItemTrim v])
    \<and> currentSource (dequeueNext e r) = Some (hd (items (queue r) @ [clearQueueItemTrim v]))"
proof -
  let ?s = "changed_queue (enqueueOverflow [clearQueueItemTrim v] (queue r)) (clear_for_dequeue e r)"
  have q: "items (queue ?s) = items (queue r) @ [clearQueueItemTrim v]"
    by (simp add: enqueueOverflow_def)
  have "dequeueNext e r = finish_dequeue e (take_next e ?s)"
    using assms by (simp add: dequeueNext_def dequeue_by_mode_def Let_def)
  moreover obtain x xs where x: "items (queue r) @ [clearQueueItemTrim v] = x # xs"
    by (cases "items (queue r)") auto
  ultimately show ?thesis
    using take_next_fields [of ?s x xs e] q by (simp del: changed_queue_fields)
qed

section \<open>Votes\<close>

lemma prefix_append_cases: "a @ b = c @ d \<Longrightarrow> prefix a c \<or> prefix c a"
  by (metis prefixI prefix_same_cases)

lemma services_prefix_free:
  "list_all (\<lambda>s. list_all (\<lambda>t. prefix s t \<longrightarrow> s = t) ALL_VIDEO_SERVICES) ALL_VIDEO_SERVICES"
  by (simp add: ALL_VIDEO_SERVICES_def)

text \<open>The key \<^verbatim>\<open>service + id\<close> is unambiguous because no service name begins with another.\<close>

lemma vote_key_inject:
  assumes "fst a \<in> set ALL_VIDEO_SERVICES" "fst b \<in> set ALL_VIDEO_SERVICES" "vote_key a = vote_key b"
  shows "a = b"
proof -
  have "prefix (fst a) (fst b) \<or> prefix (fst b) (fst a)"
    using assms(3) unfolding vote_key_def by (rule prefix_append_cases)
  then have "fst a = fst b"
    using services_prefix_free assms(1,2) unfolding list_all_iff by metis
  with assms(3) show ?thesis by (simp add: vote_key_def prod_eq_iff)
qed

lemma vote_effect:
  assumes "vote video add c r = (None, r')" and "cx_clientId c = Some cid"
  shows "map_of (votes r') k =
    (if k = vote_key video
     then (case map_of (votes r) k of
             Some cs \<Rightarrow> Some (if add then js_add cid cs else js_delete cid cs)
           | None \<Rightarrow> if add then Some [cid] else None)
     else map_of (votes r) k)"
  using assms
  by (auto simp: vote_def Let_def update_conv' markDirty_def split: if_splits option.splits)

text \<open>A vote counts once and for one video: after a vote of a viewer the number of votes of that video
  is the number of distinct viewers who voted for it, with the voter included or withdrawn; voting
  again changes nothing, and no other video of a known service gains or loses a vote.\<close>

lemma vote_counts_once:
  assumes "room_inv r" and "vote video add c r = (None, r')" and "cx_clientId c = Some cid"
    and "vs = (case map_of (votes r) (vote_key video) of None \<Rightarrow> {} | Some cs \<Rightarrow> set cs)"
    and "video_id x = video"
  shows "vote_count r' x = card (if add then insert cid vs else vs - {cid})
    \<and> (\<forall>y. fst video \<in> set ALL_VIDEO_SERVICES \<and> v_service y \<in> set ALL_VIDEO_SERVICES
           \<and> video_id y \<noteq> video \<longrightarrow> vote_count r' y = vote_count r y)
    \<and> (\<forall>r''. vote video add c r' = (None, r'') \<longrightarrow> vote_count r'' x = vote_count r' x)"
proof -
  let ?k = "vote_key video"
  note eff = vote_effect [OF assms(2,3)]
  have ok: "votes_ok (votes r)" using assms(1) by (simp add: room_inv_def data_inv_votes_ok)
  have count: "vote_count s x = (case map_of (votes s) ?k of None \<Rightarrow> 0 | Some cs \<Rightarrow> length cs)" for s
    using assms(5) by (simp add: vote_count_def)
  have first: "vote_count r' x = card (if add then insert cid vs else vs - {cid})"
  proof (cases "map_of (votes r) ?k")
    case None
    with assms(4) show ?thesis by (simp add: count eff)
  next
    case (Some cs)
    then have "distinct cs" by (rule votes_ok_distinct [OF ok])
    with Some assms(4) show ?thesis
      using js_set.count_elems [of "js_add cid cs"] js_set.count_elems [of "js_delete cid cs"]
      by (simp add: count eff)
  qed
  moreover have "vote_count r' y = vote_count r y"
    if "fst video \<in> set ALL_VIDEO_SERVICES" "v_service y \<in> set ALL_VIDEO_SERVICES" "video_id y \<noteq> video" for y
  proof -
    have "vote_key (video_id y) \<noteq> ?k" using vote_key_inject [of "video_id y" video] that by auto
    then show ?thesis by (simp add: vote_count_def eff)
  qed
  moreover have "vote_count r'' x = vote_count r' x" if "vote video add c r' = (None, r'')" for r''
    by (simp add: count eff vote_effect [OF that assms(3)] js_add_def js_delete_def split: option.split)
  ultimately show ?thesis by blast
qed

text \<open>In vote mode the tick orders the queue by votes: nothing is lost, a video with more votes comes
  first, and videos with equally many keep their order. The next video to be played has a maximal
  number of votes.\<close>

lemma vote_order:
  assumes "env_ok e" and "queueMode r = Vote"
  shows "mset (items (queue (tick_order e r))) = mset (items (queue r))
    \<and> sorted_wrt (\<lambda>x y. vote_count r y \<le> vote_count r x) (items (queue (tick_order e r)))
    \<and> (\<forall>n. filter (\<lambda>x. vote_count r x = n) (items (queue (tick_order e r)))
           = filter (\<lambda>x. vote_count r x = n) (items (queue r)))
    \<and> (\<forall>x xs y. items (queue (tick_order e r)) = x # xs \<longrightarrow> y \<in> set (items (queue r)) \<longrightarrow>
           vote_count r y \<le> vote_count r x)"
proof -
  let ?f = "e_orderBy e (vote_count r)"
  have st: "stable_desc (e_orderBy e)" using assms(1) by (simp add: env_ok_def)
  have items: "items (queue (tick_order e r)) = ?f (items (queue r))"
    using assms(2) by (simp add: tick_order_def orderBy_def markDirty_queue_def Let_def)
  have props: "mset (?f xs) = mset xs" "sorted_wrt (\<lambda>x y. vote_count r y \<le> vote_count r x) (?f xs)"
    "filter (\<lambda>x. vote_count r x = n) (?f xs) = filter (\<lambda>x. vote_count r x = n) xs" for xs n
    using st by (auto simp: stable_desc_def)
  have "vote_count r y \<le> vote_count r x"
    if "?f (items (queue r)) = x # xs" "y \<in> set (items (queue r))" for x xs y
  proof -
    have "y \<in> set (x # xs)" using that props(1) by (metis mset_eq_setD)
    with props(2) [of "items (queue r)"] that(1) show ?thesis by auto
  qed
  with props show ?thesis unfolding items by blast
qed

section \<open>Votes to skip\<close>

lemma getRole_cong:
  "owner a = owner b \<Longrightarrow> userRoles a = userRoles b \<Longrightarrow> getRole a = getRole b"
  by (auto simp: fun_eq_iff getRole_def isOwner_def split: option.splits)

lemma voter_roles_cong:
  assumes "owner a = owner b" "userRoles a = userRoles b" "realusers a = realusers b"
  shows "voter_roles a = voter_roles b"
proof -
  have "user_info a = user_info b"
    using getRole_cong [OF assms(1,2)] by (simp add: fun_eq_iff user_info_def)
  then have "getUserInfo a = getUserInfo b" using assms(3) by (simp add: getUserInfo_def [abs_def] users_def)
  with assms(3) show ?thesis by (simp add: voter_roles_def)
qed

lemma outside_start_dequeued [frame]: "outside (start_dequeued e r) = outside r"
  by (simp add: start_dequeued_def frame)

lemma votesToSkip_frames [simp]:
  "votesToSkip (set_videoSegments sg r) = votesToSkip r"
  "votesToSkip (changed_queue q r) = votesToSkip r"
  "votesToSkip (publishRoomEvent req c a k r) = votesToSkip r"
  "votesToSkip (start_dequeued e r) = votesToSkip r"
  by (simp_all add: set_videoSegments_def changed_queue_def publishRoomEvent_def publish_def
      record_event_def Let_def outside_fields(7) [OF outside_start_dequeued] split: option.split sum.split)

lemma votesToSkip_dequeue: "votesToSkip (dequeue_by_mode e r) = votesToSkip r"
proof -
  have "votesToSkip (take_next e s) = votesToSkip s" for s
    by (simp add: take_next_def Let_def split: prod.split option.split)
  moreover have "votesToSkip (clear_source e s) = votesToSkip s" for s
    by (simp add: clear_source_def Let_def)
  moreover have "votesToSkip (finish_dequeue e s) = votesToSkip s" for s
    by (simp add: finish_dequeue_def Let_def)
  ultimately show ?thesis by (simp add: dequeue_by_mode_def Let_def split: option.split)
qed

lemma toggle_skip_roles: "voter_roles (toggle_skip_vote c r) = voter_roles r"
  by (rule voter_roles_cong) (simp_all add: toggle_skip_vote_def Let_def)

lemma toggle_skip_frames:
  "grants (toggle_skip_vote c r) = grants r" "enableVoteSkip (toggle_skip_vote c r) = enableVoteSkip r"
  "currentSource (toggle_skip_vote c r) = currentSource r" "queue (toggle_skip_vote c r) = queue r"
  "realPlaybackPosition t (toggle_skip_vote c r) = realPlaybackPosition t r"
  by (simp_all add: toggle_skip_vote_def Let_def)

lemma skip_now_clears: "enableVoteSkip r \<Longrightarrow> votesToSkip (skip_now e c r) = []"
  by (simp add: skip_now_def dequeueNext_def votesToSkip_dequeue clear_for_dequeue_def Let_def)

text \<open>C38.
  Skipping by vote: a request toggles the viewer's vote, and the video is skipped exactly when at
  least half of the viewers who may skip have voted; otherwise the video, the position and the
  queue stay as they are. A skip clears all votes.\<close>

theorem vote_skip_majority:
  assumes "enableVoteSkip r" "currentSource r = Some v" "cx_clientId c = Some cid" "cid \<noteq> []"
    and "r1 = toggle_skip_vote c r" and "n = countEligibleVoters (voter_roles r) (grants r)"
  shows "set (votesToSkip r1) =
      (if cid \<in> set (votesToSkip r) then set (votesToSkip r) - {cid} else insert cid (set (votesToSkip r)))
    \<and> (n \<le> 2 * length (votesToSkip r1) \<longrightarrow>
         skip e c r = (None, skip_now e c r1) \<and> votesToSkip (snd (skip e c r)) = [])
    \<and> (2 * length (votesToSkip r1) < n \<longrightarrow>
         skip e c r = (None, r1) \<and> currentSource r1 = Some v \<and> queue r1 = queue r
         \<and> (\<forall>t. realPlaybackPosition t r1 = realPlaybackPosition t r))"
proof -
  have same: "voter_roles r1 = voter_roles r" "grants r1 = grants r" "enableVoteSkip r1"
    "currentSource r1 = Some v" "queue r1 = queue r" "\<forall>t. realPlaybackPosition t r1 = realPlaybackPosition t r"
    unfolding assms(5) toggle_skip_frames toggle_skip_roles using assms(1,2) by simp_all
  have met: "skip_threshold_met r1 \<longleftrightarrow> n \<le> 2 * length (votesToSkip r1)"
    unfolding skip_threshold_met_def same(1,2) assms(6) voteSkipThreshold_half by linarith
  have skip: "skip e c r = (None, if skip_threshold_met r1 then skip_now e c r1 else r1)"
    unfolding assms(5) skip_def using assms(1,2) by (simp add: Let_def)
  have votes: "set (votesToSkip r1) = (if cid \<in> set (votesToSkip r) then set (votesToSkip r) - {cid}
      else insert cid (set (votesToSkip r)))"
    unfolding assms(5) using assms(3,4) by (simp add: toggle_skip_vote_def)
  have clr: "votesToSkip (skip_now e c r1) = []" by (rule skip_now_clears [OF same(3)])
  show ?thesis
    unfolding votes skip using met same(4-6) clr by (cases "skip_threshold_met r1") auto
qed

theorem vote_skip_majority_witness:
  "votesToSkip (snd (skip (sample_env 1000) (sample_context ''alice'' UnregisteredUser)
     (sample_room\<lparr>enableVoteSkip := True\<rparr>))) = []"
proof -
  let ?r = "sample_room\<lparr>enableVoteSkip := True\<rparr>"
  let ?c = "sample_context ''alice'' UnregisteredUser"
  have g: "granted default_Grants UnregisteredUser ''playback.skip''"
    by (simp add: granted_def getMask_def parse_names)
  have n: "countEligibleVoters (voter_roles ?r) (grants ?r) = 2"
    using g by (simp add: voter_roles_def getUserInfo_def users_def user_info_def)
  have "length (votesToSkip (toggle_skip_vote ?c ?r)) = 1"
    by (simp add: toggle_skip_vote_def js_add_def Let_def)
  then have "countEligibleVoters (voter_roles ?r) (grants ?r) \<le> 2 * length (votesToSkip (toggle_skip_vote ?c ?r))"
    unfolding n by simp
  moreover have "enableVoteSkip ?r" "currentSource ?r = Some (sample_video ''a'')"
    "cx_clientId ?c = Some ''alice''" "''alice'' \<noteq> []" by simp_all
  ultimately show ?thesis
    using vote_skip_majority [OF _ _ _ _ refl refl, of ?r "sample_video ''a''" ?c "''alice''" "sample_env 1000"]
    by blast
qed

section \<open>Undo gives back\<close>

lemma find_index_exists: "x \<in> set xs \<Longrightarrow> P x \<Longrightarrow> \<exists>i. find_index P xs = Some i"
  by (induction xs) auto

lemma undo_own_event:
  assumes "ev \<in> set (recentEvents r)" "undoEventSchema ev"
  obtains ev' i where "undo_fields ev' = undo_fields ev"
    "undo e ev c r = seq (undo_apply e ev' c r) (\<lambda>s. (None, forget_event i r s))"
proof -
  obtain i where i: "findRecentEvent ev r = Some i"
    using find_index_exists [OF assms(1), of "\<lambda>c. undo_fields c = undo_fields ev"]
    by (auto simp: findRecentEvent_def)
  show thesis
  proof (rule that)
    show "undo_fields (recentEvents r ! i) = undo_fields ev"
      using find_index_Some [OF i [unfolded findRecentEvent_def]] by simp
    show "undo e ev c r = seq (undo_apply e (recentEvents r ! i) c r) (\<lambda>s. (None, forget_event i r s))"
      using i assms(2) by (simp add: undo_def)
  qed
qed

lemma forget_queue [simp]:
  "queue (forget_event i b r) = queue r" "currentSource (forget_event i b r) = currentSource r"
  "playbackPosition (forget_event i b r) = playbackPosition r"
  by (simp_all add: forget_event_def Let_def)

lemma published_event:
  assumes "cx_clientId c = Some cid" "getUserInfo r cid = Inr info"
  shows "Event req info a \<in> set (recentEvents (publishRoomEvent req c a None r))"
  using assms
  by (cases "recentEvents r")
    (auto simp: publishRoomEvent_def publish_def record_event_def RECENT_EVENTS_LIMIT_def Let_def)

lemma grants_publish [simp]:
  "grants (publishRoomEvent req c a k r) = grants r" "grants (changed_queue q r) = grants r"
  "currentSource (publishRoomEvent req c a k r) = currentSource r"
  by (simp_all add: publishRoomEvent_def publish_def record_event_def changed_queue_def Let_def
      split: option.split sum.split)

lemma getUserInfo_cong:
  assumes "owner a = owner b" "userRoles a = userRoles b" "realusers a = realusers b"
  shows "getUserInfo a = getUserInfo b"
proof -
  have "user_info a = user_info b"
    using getRole_cong [OF assms(1,2)] by (simp add: fun_eq_iff user_info_def)
  then show ?thesis using assms(3) by (simp add: getUserInfo_def [abs_def] users_def)
qed

text \<open>Undoing a removal puts the video back where it was: after a successful removal, the undo of the
  event that announced it succeeds for anyone who may add and reorder, and the queue is exactly
  what it was before.\<close>

lemma undo_restores_removed:
  assumes "room_inv r" and "removeFromQueue video c r = (None, r1)"
    and "cx_clientId c = Some cid" "getUserInfo r cid = Inr info"
    and "undo_video_ok video"
    and "granted (grants r) (cx_role c') ''manage-queue.add''"
    and "granted (grants r) (cx_role c') ''manage-queue.order''"
  shows "\<exists>ev\<in>set (recentEvents r1). event_request ev = RemoveRequest video
    \<and> fst (undo e ev c' r1) = None \<and> items (queue (snd (undo e ev c' r1))) = items (queue r)"
proof -
  obtain i w q where ev: "evict video (queue r) = Inr (i, w, q)"
    using assms(2) by (auto simp: removeFromQueue_def split: if_splits sum.splits)
  note out = evict_Inr [OF ev]
  define s where "s = markDirty PvoteCounts ((changed_queue q r)\<lparr>votes := AList.delete (vote_key video) (votes (changed_queue q r))\<rparr>)"
  let ?a = "no_context\<lparr>ev_video := Some w, ev_queueIdx := Some i\<rparr>"
  let ?ev = "Event (RemoveRequest video) info ?a"
  have "contains video (queue r)" using ev evict_contains by blast
  then have r1: "r1 = publishRoomEvent (RemoveRequest video) c ?a None s"
    using assms(2) ev by (simp add: removeFromQueue_def s_def Let_def)
  have "getUserInfo s = getUserInfo r"
    by (rule getUserInfo_cong) (simp_all add: s_def changed_queue_def)
  then have recd: "?ev \<in> set (recentEvents r1)"
    unfolding r1 using assms(3,4) by (intro published_event) simp_all
  have "undoEventSchema ?ev"
    using assms(5) out(3) by (simp add: undoEventSchema_def plain_add_def no_context_def)
  then obtain ev' j where ev': "undo_fields ev' = undo_fields ?ev"
    and un: "undo e ?ev c' r1 = seq (undo_apply e ev' c' r1) (\<lambda>s. (None, forget_event j r1 s))"
    using undo_own_event [OF recd] by blast
  have q1: "queue r1 = q" "grants r1 = grants r" by (simp_all add: r1 s_def)
  have perms: "first_error (check (grants r1) (cx_role c')) [''manage-queue.add'', ''manage-queue.order''] = None"
    using assms(6,7) q1 by (simp add: check_def)
  have len: "length (items q) + 1 \<le> MAX_QUEUE_ITEMS" "i \<le> length (items q)"
    using out room_inv_bound [OF assms(1)] by (simp_all add: queue_length_def)
  have again: "take i (items q) @ w # drop i (items q) = items (queue r)"
    using splice_out_in [OF out(1)] out(2,4) by (simp add: splice_in_def)
  have "undo_apply e ev' c' r1 = undo_remove ev' c' r1"
    using ev' by (simp add: undo_apply_def undo_fields_def)
  also have "\<dots> = apply_queue True (insert_at w (int i) q) r1"
    unfolding undo_remove_def perms using ev' q1
    by (simp add: guard_def undo_fields_def no_context_def)
  also have "\<dots> = (None, changed_queue (set_items (items (queue r)) q) r1)"
    using len by (simp add: insert_at_def apply_queue_cases again)
  finally have "undo e ?ev c' r1
      = (None, forget_event j r1 (changed_queue (set_items (items (queue r)) q) r1))" by (simp add: un)
  with recd show ?thesis by (intro bexI [of _ ?ev]) simp_all
qed

end
