(* ===== verification/RoomUndo.thy ===== *)
theory RoomUndo
  imports RoomVotes
begin

text \<open>Undoing a skip and a seek.\<close>

section \<open>What the next video leaves alone\<close>

text \<open>The viewers, their roles and the record of events.\<close>

definition people :: "Room \<Rightarrow> Grants \<times> UserAccount option \<times> (Role \<times> int list) list \<times> RoomUser list
    \<times> ServerMessageEvent list" where
  "people r = (grants r, owner r, userRoles r, realusers r, recentEvents r)"

lemma people_outside: "outside a = outside b \<Longrightarrow> people a = people b"
  using outside_fields [of a b] by (simp add: people_def)

lemma people_upd [simp]:
  "people (r\<lparr>queue := q\<rparr>) = people r" "people (r\<lparr>votes := vs\<rparr>) = people r"
  "people (r\<lparr>votesToSkip := cs\<rparr>) = people r" "people (r\<lparr>videoSegments := sg\<rparr>) = people r"
  "people (r\<lparr>wantSponsorBlock := b\<rparr>) = people r"
  by (simp_all add: people_def)

lemmas people_frame [simp] = frame [THEN people_outside]

lemma people_set [simp]:
  "people (changed_queue q r) = people r" "people (set_videoSegments sg r) = people r"
  by (simp_all add: changed_queue_def set_videoSegments_def)

lemma people_dequeue: "people (dequeueNext e r) = people r"
proof -
  have "people (take_next e s) = people s" for s
    by (simp add: take_next_def Let_def people_outside [OF outside_start_dequeued] split: prod.split option.split)
  moreover have "people (clear_source e s) = people s" for s
    by (simp add: clear_source_def Let_def)
  moreover have "people (finish_dequeue e s) = people s" for s
    by (simp add: finish_dequeue_def Let_def)
  moreover have "people (clear_for_dequeue e s) = people s" for s
    by (simp add: clear_for_dequeue_def Let_def)
  ultimately show ?thesis
    by (simp add: dequeueNext_def dequeue_by_mode_def Let_def split: option.split)
qed

lemma getUserInfo_people: "people a = people b \<Longrightarrow> getUserInfo a = getUserInfo b"
  by (rule getUserInfo_cong) (simp_all add: people_def)

section \<open>Undo of a skip\<close>



end
