(* ===== verification/RoomMirror.thy ===== *)
theory RoomMirror
  imports RoomUndo
begin

text \<open>
  The store of a client and its copy of the room. A client receives the whole state when it joins
  (\<^verbatim>\<open>sendSync\<close> of the client manager) and a \<^verbatim>\<open>sync\<close> message for every checkpoint afterwards; it
  merges each into its store (client/src/stores/room.ts). The lemmas show that every handler of
  the room marks what it changes, so that the copy cannot diverge.
\<close>

section \<open>The store\<close>

text \<open>
  \<^verbatim>\<open>grants\<close>, \<^verbatim>\<open>voteCounts\<close> and \<^verbatim>\<open>votesToSkip\<close> are kept in the form they have in the message; the
  store decodes them.
\<close>

record client_store =
  cs_props :: "sync_prop \<Rightarrow> sync_value"
  cs_playbackStartTime :: "int option"

text \<open>
  The \<^verbatim>\<open>SYNC\<close> mutation. A message that carries the name and the source is a full state, in which
  a missing preparation or gate mode has its default.
\<close>

fun full_default :: "sync_prop \<Rightarrow> sync_value option" where
  "full_default PplaybackPreparation = Some (VPreparation None)"
| "full_default PbufferGateMode = Some (VGateMode GateOff)"
| "full_default _ = None"

definition is_full :: "(sync_prop \<times> sync_value) list \<Rightarrow> bool" where
  "is_full kvs \<longleftrightarrow> map_of kvs Pname \<noteq> None \<and> map_of kvs PcurrentSource \<noteq> None"

definition merge :: "(sync_prop \<Rightarrow> sync_value) \<Rightarrow> (sync_prop \<times> sync_value) list \<Rightarrow> sync_prop \<Rightarrow> sync_value" where
  "merge st kvs p =
     (case map_of kvs p of
        Some v \<Rightarrow> v
      | None \<Rightarrow> (case (if is_full kvs then full_default p else None) of Some v \<Rightarrow> v | None \<Rightarrow> st p))"

fun deliver :: "(sync_prop \<Rightarrow> sync_value) \<Rightarrow> ServerMessage \<Rightarrow> sync_prop \<Rightarrow> sync_value" where
  "deliver st (MsgSync kvs) = merge st kvs"
| "deliver st _ = st"

text \<open>
  The \<^verbatim>\<open>sync\<close> action; \<open>t\<close> is \<^verbatim>\<open>syncAnchorNow()\<close>, the moment the message left the server as far as
  the client can measure it.
\<close>

definition client_sync :: "int \<Rightarrow> (sync_prop \<times> sync_value) list \<Rightarrow> client_store \<Rightarrow> client_store" where
  "client_sync t kvs st =
     (let playing = (cs_props st PisPlaying = VBool True);
          starts = (map_of kvs PisPlaying = Some (VBool True) \<and> \<not> playing);
          moved = (map_of kvs PcurrentSource \<notin> {None, Some (VSource None)}
                   \<or> map_of kvs PplaybackPosition \<noteq> None)
      in \<lparr>cs_props = merge (cs_props st) kvs,
          cs_playbackStartTime = (if starts \<or> (moved \<and> playing) then Some t
                                  else cs_playbackStartTime st)\<rparr>)"

section \<open>What the room still owes its clients\<close>

text \<open>
  \<open>mirror n st P r\<close>: a client whose store was \<open>st\<close> when the outbox had \<open>n\<close> messages, and which
  has merged every message since, has the present value of every property, except the dirty ones
  and those in \<open>P\<close>, which the running handler is about to mark. The position is a function of
  time and treated apart; \<^verbatim>\<open>restoreQueueBehavior\<close> is a plain field, never marked.
\<close>

definition val :: "Room \<Rightarrow> sync_prop \<Rightarrow> sync_value" where
  "val r p = (if p = PplaybackPosition \<or> p = PrestoreQueueBehavior then VBool True
              else syncable_value 0 r p)"

definition copy_of :: "nat \<Rightarrow> (sync_prop \<Rightarrow> sync_value) \<Rightarrow> Room \<Rightarrow> sync_prop \<Rightarrow> sync_value" where
  "copy_of n st r = foldl deliver st (drop n (outbox r))"

definition mirror :: "nat \<Rightarrow> (sync_prop \<Rightarrow> sync_value) \<Rightarrow> sync_prop set \<Rightarrow> Room \<Rightarrow> bool" where
  "mirror n st P r \<longleftrightarrow>
     n \<le> length (outbox r)
     \<and> (\<forall>p. p \<noteq> PplaybackPosition \<longrightarrow> p \<noteq> PrestoreQueueBehavior \<longrightarrow> p \<notin> P \<longrightarrow> p \<notin> set (dirty r) \<longrightarrow>
          copy_of n st r p = val r p
          \<and> (Pname \<in> set (dirty r) \<longrightarrow> full_default p \<noteq> None \<longrightarrow> full_default p = Some (val r p)))"

lemma val_upd [simp]:
  "val (r\<lparr>currentSource := v1\<rparr>) p = (if p = PcurrentSource then VSource v1 else val r p)"
  "val (r\<lparr>queue := v2\<rparr>) p = (if p = Pqueue then VItems (items v2) else val r p)"
  "val (r\<lparr>isPlaying := v3\<rparr>) p = (if p = PisPlaying then VBool v3 else val r p)"
  "val (r\<lparr>playbackSpeed := v4\<rparr>) p = (if p = PplaybackSpeed then VNumber v4 else val r p)"
  "val (r\<lparr>playbackPreparation := v5\<rparr>) p = (if p = PplaybackPreparation then VPreparation v5 else val r p)"
  "val (r\<lparr>grants := v6\<rparr>) p = (if p = Pgrants then VGrants (entries v6) else val r p)"
  "val (r\<lparr>videoSegments := v7\<rparr>) p = (if p = PvideoSegments then VSegments v7 else val r p)"
  "val (r\<lparr>prevQueue := v8\<rparr>) p = (if p = PprevQueue then VPrevQueue v8 else val r p)"
  "val (r\<lparr>votesToSkip := v9\<rparr>) p = (if p = PvotesToSkip then VClients v9 else val r p)"
  "val (r\<lparr>votes := v10\<rparr>) p
     = (if p = PvoteCounts then VCounts (map (\<lambda>(vid, cs). (vid, length cs)) v10) else val r p)"
  "val (r\<lparr>temporarySpeed := v11\<rparr>) p = (if p = PtemporaryPlaybackSpeed
     then VTemporary (map_option (\<lambda>s. (ts_clientId s, ts_gestureId s, ts_speed s)) v11) else val r p)"
  "val (r\<lparr>passwordHash := v12\<rparr>) p = (if p = PhasPassword then VBool (truthy_str v12) else val r p)"
  "val (r\<lparr>room_title := v13\<rparr>) p = (if p = Ptitle then VString v13 else val r p)"
  "val (r\<lparr>room_description := v14\<rparr>) p = (if p = Pdescription then VString v14 else val r p)"
  "val (r\<lparr>visibility := v15\<rparr>) p = (if p = Pvisibility then VVisibility v15 else val r p)"
  "val (r\<lparr>queueMode := v16\<rparr>) p = (if p = PqueueMode then VQueueMode v16 else val r p)"
  "val (r\<lparr>autoSkipSegmentCategories := v17\<rparr>) p
     = (if p = PautoSkipSegmentCategories then VCategories v17 else val r p)"
  "val (r\<lparr>enableVoteSkip := v18\<rparr>) p = (if p = PenableVoteSkip then VBool v18 else val r p)"
  "val (r\<lparr>bufferGateMode := v19\<rparr>) p = (if p = PbufferGateMode then VGateMode v19 else val r p)"
  "val (r\<lparr>danmakuSource := v20\<rparr>) p = (if p = PdanmakuSource then VDanmaku v20 else val r p)"
  by ((cases p; simp add: val_def voteCounts_def temporaryPlaybackSpeed_def hasPassword_def hasOwner_def))+

lemma val_other [simp]:
  "val (r\<lparr>playbackPosition := w1\<rparr>) p = val r p" "val (r\<lparr>playbackStart := w2\<rparr>) p = val r p"
  "val (r\<lparr>restoreQueueBehavior := w3\<rparr>) p = val r p" "val (r\<lparr>userRoles := w4\<rparr>) p = val r p"
  "val (r\<lparr>bufferGate := w5\<rparr>) p = val r p" "val (r\<lparr>bufferGateExhausted := w6\<rparr>) p = val r p"
  "val (r\<lparr>pendingLeaveEvents := w7\<rparr>) p = val r p" "val (r\<lparr>lastPlayAt := w8\<rparr>) p = val r p"
  "val (r\<lparr>bufferGateCooldownUntil := w9\<rparr>) p = val r p"
  "val (r\<lparr>restoredFromStorage := w10\<rparr>) p = val r p"
  "val (r\<lparr>temporarySpeedTimer := w11\<rparr>) p = val r p"
  "val (r\<lparr>playbackStartTimer := w12\<rparr>) p = val r p" "val (r\<lparr>resumeOnNextJoin := w13\<rparr>) p = val r p"
  "val (r\<lparr>realusers := w14\<rparr>) p = val r p" "val (r\<lparr>dirty := w15\<rparr>) p = val r p"
  "val (r\<lparr>recentEvents := w16\<rparr>) p = val r p" "val (r\<lparr>keepAlivePing := w17\<rparr>) p = val r p"
  "val (r\<lparr>wantSponsorBlock := w18\<rparr>) p = val r p"
  "val (r\<lparr>dontSkipSegmentsUntil := w19\<rparr>) p = val r p" "val (r\<lparr>db_notes := w20\<rparr>) p = val r p"
  "val (r\<lparr>outbox := w21\<rparr>) p = val r p" "val (r\<lparr>commands := w22\<rparr>) p = val r p"
  by ((cases p; simp add: val_def voteCounts_def temporaryPlaybackSpeed_def hasPassword_def hasOwner_def))+

lemma mirror_cong:
  assumes "outbox a = outbox b" and "dirty a = dirty b"
    and "\<And>p. p \<notin> P \<Longrightarrow> val a p = val b p"
  shows "mirror n st P a \<longleftrightarrow> mirror n st P b"
  using assms by (auto simp: mirror_def copy_of_def)

lemma mirror_other [simp]:
  "mirror n st P (r\<lparr>playbackPosition := w1\<rparr>) = mirror n st P r"
  "mirror n st P (r\<lparr>playbackStart := w2\<rparr>) = mirror n st P r"
  "mirror n st P (r\<lparr>restoreQueueBehavior := w3\<rparr>) = mirror n st P r"
  "mirror n st P (r\<lparr>userRoles := w4\<rparr>) = mirror n st P r"
  "mirror n st P (r\<lparr>bufferGate := w5\<rparr>) = mirror n st P r"
  "mirror n st P (r\<lparr>bufferGateExhausted := w6\<rparr>) = mirror n st P r"
  "mirror n st P (r\<lparr>pendingLeaveEvents := w7\<rparr>) = mirror n st P r"
  "mirror n st P (r\<lparr>lastPlayAt := w8\<rparr>) = mirror n st P r"
  "mirror n st P (r\<lparr>bufferGateCooldownUntil := w9\<rparr>) = mirror n st P r"
  "mirror n st P (r\<lparr>restoredFromStorage := w10\<rparr>) = mirror n st P r"
  "mirror n st P (r\<lparr>temporarySpeedTimer := w11\<rparr>) = mirror n st P r"
  "mirror n st P (r\<lparr>playbackStartTimer := w12\<rparr>) = mirror n st P r"
  "mirror n st P (r\<lparr>resumeOnNextJoin := w13\<rparr>) = mirror n st P r"
  "mirror n st P (r\<lparr>realusers := w14\<rparr>) = mirror n st P r"
  "mirror n st P (r\<lparr>recentEvents := w16\<rparr>) = mirror n st P r"
  "mirror n st P (r\<lparr>keepAlivePing := w17\<rparr>) = mirror n st P r"
  "mirror n st P (r\<lparr>wantSponsorBlock := w18\<rparr>) = mirror n st P r"
  "mirror n st P (r\<lparr>dontSkipSegmentsUntil := w19\<rparr>) = mirror n st P r"
  "mirror n st P (r\<lparr>db_notes := w20\<rparr>) = mirror n st P r"
  "mirror n st P (r\<lparr>commands := w22\<rparr>) = mirror n st P r"
  by ((rule mirror_cong; simp))+

text \<open>An update of a property that is about to be marked changes nothing.\<close>

lemma mirror_pending [simp]:
  "PcurrentSource \<in> P \<Longrightarrow> mirror n st P (r\<lparr>currentSource := v1\<rparr>) = mirror n st P r"
  "Pqueue \<in> P \<Longrightarrow> mirror n st P (r\<lparr>queue := v2\<rparr>) = mirror n st P r"
  "PisPlaying \<in> P \<Longrightarrow> mirror n st P (r\<lparr>isPlaying := v3\<rparr>) = mirror n st P r"
  "PplaybackSpeed \<in> P \<Longrightarrow> mirror n st P (r\<lparr>playbackSpeed := v4\<rparr>) = mirror n st P r"
  "PplaybackPreparation \<in> P \<Longrightarrow> mirror n st P (r\<lparr>playbackPreparation := v5\<rparr>) = mirror n st P r"
  "Pgrants \<in> P \<Longrightarrow> mirror n st P (r\<lparr>grants := v6\<rparr>) = mirror n st P r"
  "PvideoSegments \<in> P \<Longrightarrow> mirror n st P (r\<lparr>videoSegments := v7\<rparr>) = mirror n st P r"
  "PprevQueue \<in> P \<Longrightarrow> mirror n st P (r\<lparr>prevQueue := v8\<rparr>) = mirror n st P r"
  "PvotesToSkip \<in> P \<Longrightarrow> mirror n st P (r\<lparr>votesToSkip := v9\<rparr>) = mirror n st P r"
  "PvoteCounts \<in> P \<Longrightarrow> mirror n st P (r\<lparr>votes := v10\<rparr>) = mirror n st P r"
  "PtemporaryPlaybackSpeed \<in> P \<Longrightarrow> mirror n st P (r\<lparr>temporarySpeed := v11\<rparr>) = mirror n st P r"
  "PhasPassword \<in> P \<Longrightarrow> mirror n st P (r\<lparr>passwordHash := v12\<rparr>) = mirror n st P r"
  "Ptitle \<in> P \<Longrightarrow> mirror n st P (r\<lparr>room_title := v13\<rparr>) = mirror n st P r"
  "Pdescription \<in> P \<Longrightarrow> mirror n st P (r\<lparr>room_description := v14\<rparr>) = mirror n st P r"
  "Pvisibility \<in> P \<Longrightarrow> mirror n st P (r\<lparr>visibility := v15\<rparr>) = mirror n st P r"
  "PqueueMode \<in> P \<Longrightarrow> mirror n st P (r\<lparr>queueMode := v16\<rparr>) = mirror n st P r"
  "PautoSkipSegmentCategories \<in> P \<Longrightarrow>
     mirror n st P (r\<lparr>autoSkipSegmentCategories := v17\<rparr>) = mirror n st P r"
  "PenableVoteSkip \<in> P \<Longrightarrow> mirror n st P (r\<lparr>enableVoteSkip := v18\<rparr>) = mirror n st P r"
  "PbufferGateMode \<in> P \<Longrightarrow> mirror n st P (r\<lparr>bufferGateMode := v19\<rparr>) = mirror n st P r"
  "PdanmakuSource \<in> P \<Longrightarrow> mirror n st P (r\<lparr>danmakuSource := v20\<rparr>) = mirror n st P r"
  by ((rule mirror_cong; auto))+

lemma mirror_mono: "mirror n st P r \<Longrightarrow> P \<subseteq> Q \<Longrightarrow> mirror n st Q r"
  by (auto simp: mirror_def)

lemma mirror_insert [simp]: "mirror n st P r \<Longrightarrow> mirror n st (insert p P) r"
  by (rule mirror_mono) auto

lemma mirror_markDirty [simp]:
  "p \<noteq> Pname \<Longrightarrow> mirror n st P (markDirty p r) = mirror n st (insert p P) r"
  by (auto simp: mirror_def markDirty_def copy_of_def)

text \<open>Messages other than a checkpoint do not touch the store.\<close>

lemma mirror_publish:
  assumes "\<And>kvs. m \<noteq> MsgSync kvs"
  shows "mirror n st P r \<Longrightarrow> mirror n st P (publish m r)"
proof -
  have "deliver f m = f" for f using assms by (cases m) auto
  then show "mirror n st P r \<Longrightarrow> mirror n st P (publish m r)"
    by (auto simp: mirror_def publish_def copy_of_def)
qed

lemma mirror_publishRoomEvent [keeps]:
  "mirror n st P r \<Longrightarrow> mirror n st P (publishRoomEvent req c a k r)"
  by (auto simp: publishRoomEvent_def record_event_def Let_def intro!: mirror_publish
      split: option.splits sum.splits)

section \<open>The handlers mark what they change\<close>

lemma mirror_setters [keeps]:
  assumes "mirror n st P r"
  shows "mirror n st P (set_title v1 r)" "mirror n st P (set_description v2 r)"
    "mirror n st P (set_visibility v3 r)" "mirror n st P (set_queueMode v4 r)"
    "mirror n st P (set_autoSkipSegmentCategories v5 r)" "mirror n st P (set_playbackPosition v6 r)"
    "mirror n st P (set_playbackSpeed v7 r)" "mirror n st P (set_videoSegments v8 r)"
    "mirror n st P (set_prevQueue v9 r)" "mirror n st P (set_enableVoteSkip v10 r)"
    "mirror n st P (set_bufferGateMode v11 r)" "mirror n st P (set_danmakuSource v12 r)"
    "mirror n st P (setPasswordHash v13 r)" "mirror n st P (changed_queue q r)"
    "mirror n st P (flushPlaybackPosition t r)" "mirror n st P (clearPlaybackStartTimer r)"
    "mirror n st P (renewTemporaryPlaybackSpeed t r)" "mirror n st P (command cmd r)"
  using assms
  by (auto simp: set_title_def set_description_def set_visibility_def set_queueMode_def
      set_autoSkipSegmentCategories_def set_playbackPosition_def set_playbackSpeed_def
      set_videoSegments_def set_prevQueue_def set_enableVoteSkip_def set_bufferGateMode_def
      set_danmakuSource_def setPasswordHash_def changed_queue_def flushPlaybackPosition_def
      clearPlaybackStartTimer_def renewTemporaryPlaybackSpeed_def command_def)

lemma mirror_endTemporary [keeps]:
  "mirror n st P r \<Longrightarrow> mirror n st P (endTemporaryPlaybackSpeed t b r)"
  by (auto simp: endTemporaryPlaybackSpeed_def Let_def intro!: keeps split: option.split)

lemma mirror_cancel [keeps]: "mirror n st P r \<Longrightarrow> mirror n st P (cancelPlaybackPreparation r)"
  by (auto simp: cancelPlaybackPreparation_def Let_def intro!: keeps)

lemma mirror_source [keeps]:
  "mirror n st (insert PcurrentSource P) r \<Longrightarrow> mirror n st P (set_currentSource t v r)"
  by (auto simp: set_currentSource_def Let_def intro!: keeps)

lemma mirror_playing [keeps]: "mirror n st P r \<Longrightarrow> mirror n st P (set_isPlaying t v r)"
  by (auto simp: set_isPlaying_def Let_def intro!: keeps)

lemma mirror_play [keeps]:
  assumes "mirror n st P r"
  shows "mirror n st P (play t r)" "mirror n st P (pausePlaybackClock t r)"
    "mirror n st P (pause t b r)" "mirror n st P (seekRaw t x r)"
  using assms
  by (auto simp: play_def pausePlaybackClock_def pause_def seekRaw_def Let_def intro!: keeps)

lemma mirror_prepared [keeps]:
  "mirror n st P r \<Longrightarrow> mirror n st P (startPreparedPlayback t r)"
  by (auto simp: startPreparedPlayback_def Let_def intro!: keeps split: option.split)

lemma mirror_schedule [keeps]:
  "mirror n st P r \<Longrightarrow> mirror n st P (schedulePlaybackStart t f r)"
  by (auto simp: schedulePlaybackStart_def Let_def intro!: keeps split: option.split)

lemma mirror_drop [keeps]:
  "mirror n st P r \<Longrightarrow> mirror n st P (dropPlaybackParticipant t cid r)"
  by (auto simp: dropPlaybackParticipant_def Let_def intro!: keeps split: option.split list.split)

lemma mirror_refresh [keeps]:
  "mirror n st P r \<Longrightarrow> mirror n st P (refreshPlaybackPreparation r)"
  by (auto simp: refreshPlaybackPreparation_def cancelPlaybackPreparation_def
      clearPlaybackStartTimer_def Let_def intro!: keeps split: option.split list.split)

lemma mirror_prepare [keeps]:
  "mirror n st P r \<Longrightarrow> mirror n st P (prepareEmptyRoomPlayback e r)"
  by (auto simp: prepareEmptyRoomPlayback_def intro!: keeps split: option.split list.split)

lemma mirror_hold [keeps]:
  assumes "mirror n st P r"
  shows "mirror n st P (holdPlaybackForPreparation e r)" "mirror n st P (holdEmptyPlaybackForJoin t b r)"
  using assms
  by (auto simp: holdPlaybackForPreparation_def holdEmptyPlaybackForJoin_def Let_def intro!: keeps)

lemma mirror_finish [keeps]:
  "mirror n st P r \<Longrightarrow> mirror n st P (finishPlaybackPreparation t cid s pd r)"
  by (auto simp: finishPlaybackPreparation_def Let_def intro!: keeps split: option.split)

lemma mirror_gate [keeps]:
  "mirror n st P r \<Longrightarrow> mirror n st P (releaseBufferGate t b r)"
  by (auto simp: releaseBufferGate_def Let_def intro!: keeps split: option.split)

lemma mirror_evaluate [keeps]:
  "mirror n st P r \<Longrightarrow> mirror n st P (evaluateBufferGate t r)"
  by (auto simp: evaluateBufferGate_def Let_def intro!: keeps split: option.split)

lemma mirror_dequeued [keeps]:
  assumes "mirror n st P r"
  shows "mirror n st P (start_dequeued e r)" "mirror n st P (clear_source e r)"
    "mirror n st P (finish_dequeue e r)" "mirror n st P (clear_for_dequeue e r)"
  using assms
  by (auto simp: start_dequeued_def clear_source_def finish_dequeue_def clear_for_dequeue_def
      Let_def intro!: keeps)

lemma mirror_take_next [keeps]: "mirror n st P r \<Longrightarrow> mirror n st P (take_next e r)"
  by (auto simp: take_next_def Let_def intro!: keeps split: option.split prod.split)

lemma mirror_dequeueNext [keeps]: "mirror n st P r \<Longrightarrow> mirror n st P (dequeueNext e r)"
  by (auto simp: dequeueNext_def dequeue_by_mode_def Let_def intro!: keeps split: option.split)

subsection \<open>Queue requests\<close>

lemma val_queue: "val r Pqueue = VItems (items (queue r))"
  by (simp add: val_def)

lemma mirror_apply_queue:
  assumes "mirror n st P r" and "\<And>q. res = Inr q \<Longrightarrow> \<not> changed \<Longrightarrow> items q = items (queue r)"
  shows "mirror n st P (snd (apply_queue changed res r))"
proof -
  have same: "mirror n st P (r\<lparr>queue := q\<rparr>) = mirror n st P r" if "items q = items (queue r)" for q
    by (rule mirror_cong) (auto simp: that val_queue)
  show ?thesis
  proof (cases "\<exists>q. res = Inr q \<and> \<not> changed")
    case True
    with assms(2) obtain q where "res = Inr q" "\<not> changed" "items q = items (queue r)" by blast
    with same assms(1) show ?thesis by (simp add: apply_queue_def)
  next
    case False
    with assms(1) show ?thesis by (auto simp: apply_queue_def intro!: keeps split: sum.split)
  qed
qed

lemma mirror_guard [keeps]: "mirror n st P r \<Longrightarrow> mirror n st P (snd (guard err r))"
  by (simp add: guard_def)

lemmas mirror_seq = seq_keeps [where I = "mirror n st P" for n st P]

lemma mirror_add [keeps]: "mirror n st P r \<Longrightarrow> mirror n st P (snd (addToQueue e v vs url c r))"
  by (auto simp: addToQueue_def add_commit_def commit_one_def commit_many_def Let_def
      intro!: keeps mirror_seq mirror_apply_queue split: sum.split pending_add.split list.split)

lemma mirror_update [keeps]: "mirror n st P r \<Longrightarrow> mirror n st P (snd (updateQueueItem e v u c r))"
  by (auto simp: updateQueueItem_def intro!: keeps mirror_seq mirror_apply_queue split: sum.split)

lemma mirror_remove [keeps]: "mirror n st P r \<Longrightarrow> mirror n st P (snd (removeFromQueue v c r))"
  by (auto simp: removeFromQueue_def Let_def intro!: keeps split: sum.split)

lemma mirror_reorder [keeps]: "mirror n st P r \<Longrightarrow> mirror n st P (snd (reorderQueue i j r))"
  by (auto simp: reorderQueue_def move_def intro!: mirror_apply_queue split: if_splits)

lemma mirror_vote [keeps]: "mirror n st P r \<Longrightarrow> mirror n st P (snd (vote v a c r))"
  by (simp add: vote_def Let_def)

lemma mirror_shuffle [keeps]: "mirror n st P r \<Longrightarrow> mirror n st P (snd (shuffle_queue e c r))"
  by (auto simp: shuffle_queue_def intro!: keeps mirror_seq mirror_apply_queue)

lemma mirror_restore [keeps]: "mirror n st P r \<Longrightarrow> mirror n st P (snd (restoreQueue d c r))"
  by (auto simp: restoreQueue_def enqueue_def set_items_def markDirty_queue_def
      intro!: keeps mirror_seq mirror_apply_queue split: option.split)

lemma mirror_playNow_start:
  assumes "mirror n st (insert PcurrentSource P) r"
  shows "mirror n st P (playNow_start e v r)"
proof -
  have "mirror n st P (markDirty Pqueue (set_currentSource (now e) (Some v) r))"
    using mirror_mono [OF assms, of "insert PcurrentSource (insert Pqueue P)"]
    by (auto intro!: mirror_source)
  then show ?thesis by (auto simp: playNow_start_def Let_def intro!: keeps simp del: mirror_markDirty)
qed

lemma mirror_requeue:
  assumes "mirror n st P r" and "requeue_current e r = (None, r')"
  shows "mirror n st (insert PcurrentSource P) r'"
proof -
  have "mirror n st (insert PcurrentSource P) (snd (requeue_current e r))"
    using assms(1) by (auto simp: requeue_current_def Let_def intro!: mirror_apply_queue split: option.split)
  then show ?thesis by (simp add: assms(2))
qed

lemma mirror_playNow:
  assumes "room_inv r" and "mirror n st P r"
  shows "mirror n st P (snd (playNow e v c r))"
proof -
  obtain err r' where p: "playNow e v c r = (err, r')" by force
  from assms(1) p show ?thesis
  proof (cases rule: playNow_cases)
    case (played w r1 q)
    have "mirror n st P r1"
      using played(3) assms(2)
      by (auto simp: playNow_take_def bind_result_def intro!: keeps split: if_splits sum.splits)
    from mirror_requeue [OF this played(4)] show ?thesis
      by (simp add: p played(2) mirror_playNow_start)
  qed (use assms(2) p in simp_all)
qed

subsection \<open>User and playback requests\<close>

lemma mirror_syncUser [keeps]: "mirror n st P r \<Longrightarrow> mirror n st P (syncUser i r)"
  by (simp add: syncUser_def mirror_publish)

lemma mirror_sync_client [keeps]: "mirror n st P r \<Longrightarrow> mirror n st P (snd (sync_client cid r))"
  by (auto simp: sync_client_def intro!: keeps split: sum.split)

lemma mirror_noteJoin [keeps]: "mirror n st P r \<Longrightarrow> mirror n st P (snd (noteJoin tok cid r))"
  by (auto simp: noteJoin_def split: option.split)

lemma mirror_join [keeps]: "mirror n st P r \<Longrightarrow> mirror n st P (snd (joinRoom e i b c r))"
proof -
  have noted: "mirror n st P r3" if "noteJoin tok cid r2 = (b, r3)" "mirror n st P r2" for tok cid r2 b r3
    using mirror_noteJoin [OF that(2), of tok cid] that(1) by simp
  assume "mirror n st P r"
  then show ?thesis
    by (auto simp: joinRoom_def resume_or_prepare_def Let_def intro!: keeps
        split: option.split prod.split elim!: noted)
qed

lemma mirror_votes [keeps]: "mirror n st P r \<Longrightarrow> mirror n st P (withdraw_votes cid r)"
proof -
  have same: "map (\<lambda>(k, cs). (k, js_delete cid cs)) vs = vs"
    if "\<not> list_ex (\<lambda>(k, cs). cid \<in> set cs) vs" for vs :: "(string \<times> ClientId list) list"
    using that by (induction vs) (auto simp: js_delete_def filter_id_conv)
  have unchanged: "mirror n st P (a\<lparr>votes := vs\<rparr>) = mirror n st P a" if "vs = votes a" for a vs
    by (simp add: that)
  assume "mirror n st P r"
  then show ?thesis by (auto simp: withdraw_votes_def Let_def same unchanged)
qed

lemma mirror_leave_event [keeps]:
  "mirror n st P r \<Longrightarrow> mirror n st P (publishLeaveEvent t c u tok r)"
  "mirror n st P r \<Longrightarrow> mirror n st P (leave_timer token r)"
  by (auto simp: publishLeaveEvent_def leave_timer_def Let_def intro!: keeps split: option.split)

lemma mirror_user_requests [keeps]:
  assumes "mirror n st P r"
  shows "mirror n st P (snd (updateUser e i pd r))" "mirror n st P (snd (chat txt c r))"
    "mirror n st P (snd (promoteUser tgt role c r))" "mirror n st P (snd (kickUser cid c r))"
    "mirror n st P (snd (setGrants e g r))"
  using assms
  by (auto simp: updateUser_def chat_def promoteUser_def kickUser_def setGrants_def Let_def
      intro!: keeps mirror_seq mirror_publish split: option.split prod.split js_value.split sum.split)

lemma mirror_notes [keeps]:
  assumes "mirror n st P r"
  shows "mirror n st P (snd (addNote e txt c r))" "mirror n st P (snd (deleteNote i r))"
  using assms
  by (auto simp: addNote_def deleteNote_def publishNotes_def insert_note_def delete_note_def Let_def
      intro!: mirror_publish split: option.split js_value.split sum.split)

lemma mirror_assign [keeps]:
  assumes "\<And>x a. mirror n st P a \<Longrightarrow> mirror n st P (setter x a)" and "mirror n st P r"
  shows "mirror n st P (assign setter v r)"
  using assms by (auto simp: assign_def split: option.split)

lemma mirror_apply_grants: "mirror n st P r \<Longrightarrow> mirror n st P (snd (apply_grants gs r))"
  by (induction gs r rule: apply_grants.induct) (auto split: sum.split)

lemma mirror_settings [keeps]: "mirror n st P r \<Longrightarrow> mirror n st P (snd (applySettings e s c r))"
  by (auto simp: applySettings_def assign_settings_def Let_def
      intro!: keeps mirror_seq mirror_apply_grants split: prod.split)

lemma mirror_playback_requests [keeps]:
  assumes "mirror n st P r"
  shows "mirror n st P (snd (playback e s c r))" "mirror n st P (snd (skip e c r))"
    "mirror n st P (snd (seek e x c r))" "mirror n st P (snd (setPlaybackSpeed e v r))"
  using assms
  by (auto simp: playback_def skip_def skip_now_def toggle_skip_vote_def seek_def setPlaybackSpeed_def
      Let_def intro!: keeps split: js_value.split js_number.split)

lemma mirror_gesture_start [keeps]:
  "mirror n st P r \<Longrightarrow> mirror n st P (gesture_start e cid g v r)"
  by (auto simp: gesture_start_def set_playbackSpeed_def Let_def intro!: keeps split: option.split)

lemma mirror_gesture [keeps]:
  "mirror n st P r \<Longrightarrow> mirror n st P (snd (setTemporaryPlaybackSpeed e a g v c r))"
  by (auto simp: setTemporaryPlaybackSpeed_def Let_def intro!: keeps mirror_seq)

subsection \<open>The checkpoint\<close>

lemma deliver_checkpoint:
  "deliver st (sync_message t r) p =
     (if p \<in> set (dirty r) then syncable_value t r p
      else case (if {Pname, PcurrentSource} \<subseteq> set (dirty r) then full_default p else None) of
          Some v \<Rightarrow> v | None \<Rightarrow> st p)"
proof -
  have map: "map_of (map (\<lambda>p. (p, syncable_value t r p)) ps) q
      = (if q \<in> set ps then Some (syncable_value t r q) else None)" for ps q
    by (induction ps) auto
  show ?thesis by (simp add: sync_message_def merge_def is_full_def map)
qed

lemma syncable_val: "p \<noteq> PplaybackPosition \<Longrightarrow> p \<noteq> PrestoreQueueBehavior \<Longrightarrow> syncable_value t r p = val r p"
  by (cases p) (simp_all add: val_def)

text \<open>A checkpoint delivers every property that the client did not already have.\<close>

lemma checkpoint_delivers:
  assumes "mirror n st {} r" and "p \<noteq> PplaybackPosition" and "p \<noteq> PrestoreQueueBehavior"
  shows "deliver (copy_of n st r) (sync_message t r) p = val r p"
  using assms
  by (auto simp: deliver_checkpoint mirror_def syncable_val split: option.split)

lemma val_cleaned: "val (publish m (cleanDirty r)) p = val r p"
  by (cases "p = Pqueue") (simp_all add: publish_def cleanDirty_def clean_def val_queue)

lemma mirror_delivered:
  assumes "mirror n st {} r" and "d = [] \<or> set d = set (dirty r)"
  shows "mirror n st {} ((publish (sync_message t r) (cleanDirty r))\<lparr>dirty := d\<rparr>)"
proof -
  let ?r = "(publish (sync_message t r) (cleanDirty r))\<lparr>dirty := d\<rparr>"
  have n: "n \<le> length (outbox r)" using assms(1) by (simp add: mirror_def)
  then have "copy_of n st ?r = deliver (copy_of n st r) (sync_message t r)"
    by (simp add: copy_of_def publish_def cleanDirty_def)
  with checkpoint_delivers [OF assms(1)]
  have copy: "copy_of n st ?r p = val r p" if "p \<noteq> PplaybackPosition" "p \<noteq> PrestoreQueueBehavior" for p
    using that by simp
  have old: "full_default p = Some (val r p)"
    if "Pname \<in> set d" "p \<notin> set d" "full_default p \<noteq> None" "p \<noteq> PplaybackPosition"
      "p \<noteq> PrestoreQueueBehavior" for p
  proof -
    have "set d = set (dirty r)" using assms(2) that(1) by auto
    with assms(1) that show ?thesis unfolding mirror_def by blast
  qed
  have "n \<le> length (outbox ?r)" using n by (simp add: publish_def cleanDirty_def)
  moreover have "val ?r p = val r p" for p using val_cleaned [of _ r p] by simp
  moreover have "dirty ?r = d" by simp
  ultimately show ?thesis using copy old unfolding mirror_def by metis
qed

lemma mirror_checkpoint [keeps]:
  assumes "mirror n st {} r"
  shows "mirror n st {} (snd (syncDirty e r))"
proof -
  have add: "set (foldl (\<lambda>d p. js_add p d) [] ps) = set ps" for ps :: "sync_prop list"
    using js_Set_fold [of "[]" ps] by simp
  let ?r1 = "publish (sync_message (now e) r) (cleanDirty r)"
  have "?r1\<lparr>dirty := []\<rparr> = ?r1" "dirty ?r1 = []" by (simp_all add: publish_def cleanDirty_def)
  with mirror_delivered [OF assms, of "[]" "now e"]
    mirror_delivered [OF assms, of "foldl (\<lambda>d p. js_add p d) [] (dirty r)" "now e"] assms
  show ?thesis by (simp add: syncDirty_def Let_def add)
qed

lemma mirror_leaving [keeps]:
  assumes "mirror n st {} r"
  shows "mirror n st {} (end_own_gesture t cid r)" "mirror n st {} (rebuild_preparation e cid r)"
    "mirror n st {} (snd (empty_room e r))"
  using assms
  by (auto simp: end_own_gesture_def rebuild_preparation_def empty_room_def Let_def
      intro!: keeps split: option.split)

lemma mirror_leave [keeps]:
  assumes "mirror n st {} r"
  shows "mirror n st {} (snd (leaveRoom e c r))"
proof -
  have gate: "mirror n st {} (snd (seq p (\<lambda>r. (None, evaluateBufferGate (now e) r))))"
    if "mirror n st {} (snd p)" for p :: outcome
    using that by (intro mirror_seq) (simp_all add: keeps)
  show ?thesis
    using assms by (auto simp: leaveRoom_def Let_def keeps intro!: gate split: option.split sum.split)
qed

lemma mirror_unload [keeps]: "mirror n st {} r \<Longrightarrow> mirror n st {} (snd (onBeforeUnload e r))"
  by (auto simp: onBeforeUnload_def Let_def intro!: keeps)

subsection \<open>The tick, undo and the machine\<close>

lemma mirror_tick [keeps]:
  assumes "mirror n st P r"
  shows "mirror n st P (tick_preparation t r)" "mirror n st P (tick_gesture t r)"
    "mirror n st P (tick_next e r)" "mirror n st P (tick_keepalive e r)"
    "mirror n st P (tick_segments e r)"
proof -
  have "mirror n st P (tick_schedule t a)" "mirror n st P (tick_start t a)" if "mirror n st P a" for a
    using that by (auto simp: tick_schedule_def tick_start_def intro!: keeps split: option.split)
  with assms show "mirror n st P (tick_preparation t r)"
    by (simp add: tick_preparation_def keeps)
  have "mirror n st P (fetchSponsorBlockSegments e a)" "mirror n st P (skip_segment (now e) a)"
    if "mirror n st P a" for a
    using that
    by (auto simp: fetchSponsorBlockSegments_def skip_segment_def intro!: keeps mirror_publish
        split: option.split)
  with assms show "mirror n st P (tick_segments e r)"
    by (auto simp: tick_segments_def Let_def split: option.split)
qed (use assms in \<open>auto simp: tick_gesture_def tick_next_def tick_keepalive_def
    intro!: keeps split: option.split\<close>)

lemma mirror_order [keeps]:
  assumes "env_ok e" and "mirror n st P r"
  shows "mirror n st P (tick_order e r)"
proof -
  let ?f = "e_orderBy e (vote_count r)"
  have same: "snd (apply_queue False (Inr (orderBy ?f (queue r))) r) = r\<lparr>queue := orderBy ?f (queue r)\<rparr>"
    by (simp add: apply_queue_def)
  have "length (?f (items (queue r))) = length (items (queue r))"
    using assms(1) stable_desc_length by (auto simp: env_ok_def)
  then have "items (orderBy ?f (queue r)) = items (queue r)"
    if "\<not> (?f (items (queue r)) \<noteq> [] \<and> ?f (items (queue r)) \<noteq> items (queue r))"
    using that by (auto simp: orderBy_def Let_def)
  then have "mirror n st P (r\<lparr>queue := orderBy ?f (queue r)\<rparr>)"
    if "\<not> (?f (items (queue r)) \<noteq> [] \<and> ?f (items (queue r)) \<noteq> items (queue r))"
    using mirror_apply_queue [OF assms(2), of "Inr (orderBy ?f (queue r))" False] same that by simp
  with assms(2) show ?thesis by (auto simp: tick_order_def Let_def intro!: keeps)
qed

lemma mirror_handle:
  "room_inv r \<Longrightarrow> mirror n st {} r \<Longrightarrow> mirror n st {} (snd (handle e req c r))"
  by (cases req) (simp_all add: keeps mirror_playNow)

lemma mirror_basic:
  assumes "room_inv r" "mirror n st {} r"
  shows "mirror n st {} (snd (process_basic e req c r))"
  using mirror_handle [OF assms] assms(2)
  by (cases "fst (authorize req c r)") (auto simp: process_basic_def authorize_def guard_def)

lemma mirror_recent [simp]: "mirror n st P (forget_event i a r) = mirror n st P r"
  by (simp add: forget_event_def Let_def)

lemma mirror_undo_skip: "mirror n st {} r \<Longrightarrow> mirror n st {} (snd (undo_skip e ev c r))"
  unfolding undo_skip_def
  by (intro mirror_seq keeps)
    (auto intro!: keeps mirror_apply_queue split: option.split)

lemma mirror_undo_remove: "mirror n st {} r \<Longrightarrow> mirror n st {} (snd (undo_remove ev c r))"
  unfolding undo_remove_def
  by (intro mirror_seq keeps) (auto intro!: mirror_apply_queue split: option.split)

lemma mirror_undo_add:
  assumes "room_inv r" "mirror n st {} r"
  shows "mirror n st {} (snd (undo_add e ev c r))"
proof -
  have skip: "mirror n st {} (snd (seq (guard err r) (\<lambda>r. (None, set_currentSource (now e) None r))))" for err
    using assms(2) by (intro mirror_seq keeps) (simp_all add: keeps)
  have "mirror n st {} (snd (seq (guard err r) f))" if "mirror n st {} (snd (f r))" for err f
    using that assms(2) by (cases err) (simp_all add: guard_def seq_def)
  then show ?thesis
    unfolding undo_add_def using skip mirror_basic [OF assms]
    by (simp split: option.split)
qed

lemma mirror_undo_apply:
  assumes "room_inv r" "mirror n st {} r"
  shows "mirror n st {} (snd (undo_apply e ev c r))"
  using mirror_basic [OF assms] mirror_undo_skip [OF assms(2)] mirror_undo_remove [OF assms(2)]
    mirror_undo_add [OF assms] assms(2)
  by (simp add: undo_apply_def undo_seek_def split: option.split undo_kind.split)

lemma mirror_processRequest:
  assumes "room_inv r" "mirror n st {} r"
  shows "mirror n st {} (snd (processRequest e req c r))"
  using mirror_undo_apply [OF assms] mirror_basic [OF assms] assms(2)
  by (cases req) (auto simp: processRequest_def undo_def intro!: mirror_seq split: option.split)

lemma mirror_step:
  assumes "room_inv r \<and> mirror n st {} r" "event_ok ev"
  shows "room_inv (room_step r ev) \<and> mirror n st {} (room_step r ev)"
  using assms room_step_inv [of r ev]
  by (cases ev) (auto simp: event_ok_def update_room_def temporary_speed_timer_def
      playback_start_timer_def mirror_processRequest intro!: keeps split: option.split)

interpretation mirror_machine:
  invariant_machine room_step "\<lambda>r. room_inv r \<and> mirror n st {} r" event_ok for n st
  by unfold_locales (rule mirror_step)

section \<open>Joining\<close>

text \<open>The full state a client is sent when it joins.\<close>

lemma map_of_syncableState: "map_of (syncableState t r) p = Some (syncable_value t r p)"
  by (cases p) (simp_all add: syncableState_def syncableProps_def)

lemma merge_syncableState: "merge st (syncableState t r) p = syncable_value t r p"
  by (simp add: merge_def map_of_syncableState)

lemma join_mirror:
  assumes "mirror n st (- {PplaybackPreparation, PbufferGateMode}) r"
  shows "mirror (length (outbox r)) (merge st0 (syncableState t r)) {} r"
proof -
  have "full_default p = Some (val r p)"
    if "Pname \<in> set (dirty r)" "p \<notin> set (dirty r)" "full_default p \<noteq> None" for p
  proof -
    have "p = PplaybackPreparation \<or> p = PbufferGateMode" using that(3) by (cases p) simp_all
    then have "p \<noteq> PplaybackPosition" "p \<noteq> PrestoreQueueBehavior"
      "p \<notin> - {PplaybackPreparation, PbufferGateMode}" by auto
    with assms that show ?thesis unfolding mirror_def by blast
  qed
  moreover have "copy_of (length (outbox r)) (merge st0 (syncableState t r)) r p = val r p"
    if "p \<noteq> PplaybackPosition" "p \<noteq> PrestoreQueueBehavior" for p
    using syncable_val [OF that] by (simp add: copy_of_def merge_syncableState)
  ultimately show ?thesis by (auto simp: mirror_def)
qed

text \<open>A new room owes its clients everything but the two properties that have a default.\<close>

abbreviation undefaulted :: "sync_prop set" where
  "undefaulted \<equiv> - {PplaybackPreparation, PbufferGateMode}"

lemma mirror_plain:
  "mirror n st undefaulted (a\<lparr>isTemporary := b\<rparr>) = mirror n st undefaulted a"
  "mirror n st undefaulted (a\<lparr>owner := u\<rparr>) = mirror n st undefaulted a"
  "mirror n st undefaulted (a\<lparr>permissionsRevision := i\<rparr>) = mirror n st undefaulted a"
  by ((rule mirror_cong; (simp; fail)?; auto simp: val_def))+

lemma mirror_blank:
  "mirror 0 (\<lambda>p. the (full_default p)) undefaulted (set_name v (blank_room t g))"
proof -
  let ?r = "set_name v (blank_room t g)"
  have "outbox ?r = []" "playbackPreparation ?r = None" "bufferGateMode ?r = GateOff"
    by (simp_all add: set_name_def blank_room_def set_owner_def markDirty_def)
  then show ?thesis by (auto simp: mirror_def copy_of_def val_def)
qed

lemma mirror_options:
  "mirror 0 (\<lambda>p. the (full_default p)) undefaulted (assign_options t op (blank_room t g))"
  unfolding assign_options_def Let_def
  by (simp add: mirror_assign mirror_setters mirror_source mirror_playing mirror_plain
      set_owner_def mirror_blank)

lemma mirror_constructed:
  assumes "new_Room t op = Inr r"
  shows "mirror 0 (\<lambda>p. the (full_default p)) undefaulted r"
proof -
  obtain g where g: "constructor_grants op = Inr g"
    using assms by (auto simp: new_Room_def bind_result_def split: sum.splits)
  have "mirror 0 (\<lambda>p. the (full_default p)) undefaulted
      (restore_prevQueue (assign_options t op (blank_room t g)))"
    using mirror_options [of t op g]
    by (auto simp: restore_prevQueue_def Let_def intro!: keeps split: option.split)
  then show ?thesis using assms g by (auto simp: new_Room_def bind_result_def Let_def mirror_plain)
qed

lemma reachable_mirror: "reachable r \<Longrightarrow> \<exists>n st. mirror n st {} r"
proof (induction rule: reachable.induct)
  case (built op t r)
  from join_mirror [OF mirror_constructed [OF built(2)]] show ?case by blast
next
  case (stepped r ev)
  with reachable_inv mirror_step show ?case by blast
qed

lemma joined_mirror:
  assumes "reachable r"
  shows "mirror (length (outbox r)) (merge st0 (syncableState t r)) {} r"
proof -
  obtain n st where "mirror n st {} r" using reachable_mirror [OF assms] by blast
  then have "mirror n st (- {PplaybackPreparation, PbufferGateMode}) r" by (rule mirror_mono) simp
  then show ?thesis by (rule join_mirror)
qed

section \<open>The copy of the room\<close>

text \<open>A client merges the messages in the order in which they were published, each at some time.\<close>

fun client_run :: "client_store \<Rightarrow> (int \<times> ServerMessage) list \<Rightarrow> client_store" where
  "client_run st [] = st"
| "client_run st ((t, MsgSync kvs) # ms) = client_run (client_sync t kvs st) ms"
| "client_run st ((t, m) # ms) = client_run st ms"

lemma client_run_props: "cs_props (client_run st tms) = foldl deliver (cs_props st) (map snd tms)"
  by (induction st tms rule: client_run.induct) (simp_all add: client_sync_def Let_def)

lemma checkpoint_publishes:
  assumes "dirty r \<noteq> []"
  obtains d where "snd (syncDirty e r) = (publish (sync_message (now e) r) (cleanDirty r))\<lparr>dirty := d\<rparr>"
proof (cases "\<not> isTemporary r \<and> needs_persist r \<and> \<not> e_persist_ok e")
  case True
  with assms show thesis by (intro that) (simp add: syncDirty_def Let_def)
next
  case False
  have "dirty (publish (sync_message (now e) r) (cleanDirty r)) = []"
    by (simp add: publish_def cleanDirty_def)
  then have "publish (sync_message (now e) r) (cleanDirty r)
      = (publish (sync_message (now e) r) (cleanDirty r))\<lparr>dirty := []\<rparr>" by simp
  moreover have "snd (syncDirty e r) = publish (sync_message (now e) r) (cleanDirty r)"
    using False assms by (auto simp: syncDirty_def Let_def)
  ultimately show thesis using that [of "[]"] by argo
qed

lemma checkpoint_copy:
  assumes "mirror n st {} r" and "p \<noteq> PplaybackPosition" and "p \<noteq> PrestoreQueueBehavior"
  shows "copy_of n st (snd (syncDirty e r)) p = syncable_value t (snd (syncDirty e r)) p"
proof (cases "dirty r = []")
  case True
  with assms show ?thesis by (simp add: syncDirty_def mirror_def syncable_val)
next
  case False
  then obtain d where
    r1: "snd (syncDirty e r) = (publish (sync_message (now e) r) (cleanDirty r))\<lparr>dirty := d\<rparr>"
    by (rule checkpoint_publishes)
  have "n \<le> length (outbox r)" using assms(1) by (simp add: mirror_def)
  then have "copy_of n st (snd (syncDirty e r)) = deliver (copy_of n st r) (sync_message (now e) r)"
    by (simp add: r1 copy_of_def publish_def cleanDirty_def)
  moreover have "syncable_value t (snd (syncDirty e r)) p = val r p"
    unfolding syncable_val [OF assms(2,3)] r1 val_other val_cleaned ..
  ultimately show ?thesis using checkpoint_delivers [OF assms] by simp
qed

text \<open>C4.
  Clients converge. Take any room that can exist and a client that joins it, whatever its store
  held before; let any requests, ticks, timers and checkpoints follow. After the next checkpoint,
  even one whose database write fails, the client that has merged the published messages has
  exactly the values of the room for every synchronised property, apart from the position, which
  moves with time, and \<^verbatim>\<open>restoreQueueBehavior\<close>, which the room never marks as changed. So no handler
  forgets to mark what it changes, and a failed checkpoint loses nothing.\<close>

theorem clients_converge:
  assumes "reachable r" and "list_all event_ok es"
    and "r' = room_step (foldl room_step r es) (Checkpoint e)"
    and "st = client_sync t0 (syncableState t r) st0"
    and "map snd tms = drop (length (outbox r)) (outbox r')"
  shows "\<forall>p. p \<noteq> PplaybackPosition \<longrightarrow> p \<noteq> PrestoreQueueBehavior \<longrightarrow>
    cs_props (client_run st tms) p = syncable_value t' r' p"
proof -
  let ?st = "merge (cs_props st0) (syncableState t r)" and ?n = "length (outbox r)"
  have "room_inv r \<and> mirror ?n ?st {} r" using reachable_inv joined_mirror assms(1) by blast
  with assms(2) have m: "mirror ?n ?st {} (foldl room_step r es)"
    using mirror_machine.run_inv [of r ?n ?st es] by blast
  have "cs_props (client_run st tms) = copy_of ?n ?st r'"
    by (simp add: client_run_props assms(4,5) client_sync_def Let_def copy_of_def)
  then show ?thesis using checkpoint_copy [OF m] assms(3) by simp
qed

theorem clients_converge_witness:
  "\<exists>r. new_Room 0 sample_options = Inr r
     \<and> (let r0 = foldl room_step r sample_events;
            r1 = room_step r0 (Checkpoint (sample_env 2000));
            st = client_sync 1000 (syncableState 1000 r0)
                   \<lparr>cs_props = (\<lambda>_. VBool False), cs_playbackStartTime = None\<rparr>
        in cs_props (client_run st (map (Pair 2000) (drop (length (outbox r0)) (outbox r1)))) Pqueue
           = VItems (items (queue r1)))"
proof -
  obtain r where r: "new_Room 0 sample_options = Inr r"
    and reach: "reachable (foldl room_step r sample_events)" by (rule sample_reachable)
  have map: "map snd (map (Pair (2000::int)) ms) = ms" for ms :: "ServerMessage list"
    by (simp add: comp_def)
  show ?thesis
    using r clients_converge [OF reach, of "[]" _ "sample_env 2000", OF _ refl refl map, of 1000,
        THEN spec, of Pqueue]
    by (auto simp: Let_def)
qed

section \<open>The clock of a client\<close>

fun num_of :: "sync_value \<Rightarrow> rat" where
  "num_of (VNumber x) = x"
| "num_of _ = 0"

text \<open>Where the view of a room puts the playback head (\<^verbatim>\<open>roomPosition\<close> of client/src/views/Room.vue).\<close>

definition roomPosition :: "int \<Rightarrow> client_store \<Rightarrow> rat" where
  "roomPosition t st =
     (case cs_props st PcurrentSource of
        VSource (Some v) \<Rightarrow>
          if v_id v = [] then 0
          else if cs_props st PisPlaying = VBool True
          then (case cs_playbackStartTime st of
                  None \<Rightarrow> num_of (cs_props st PplaybackPosition)
                | Some s \<Rightarrow> calculateCurrentPosition s t (num_of (cs_props st PplaybackPosition))
                             (num_of (cs_props st PplaybackSpeed)))
          else num_of (cs_props st PplaybackPosition)
      | _ \<Rightarrow> 0)"

lemma real_running_split:
  assumes "playbackStart r = Some s" and "isPlaying r"
  shows "realPlaybackPosition t' r
    = calculateCurrentPosition t t' (realPlaybackPosition t r) (playbackSpeed r)"
  using assms
  by (simp add: realPlaybackPosition_def calcDurationFromPlaybackStart_def calculateCurrentPosition_def
      field_simps)

lemma client_checkpoint:
  assumes "cs_props st = copy_of n st0 r" and "mirror n st0 {} r" and "sync_message t r = MsgSync kvs"
  shows "p \<noteq> PplaybackPosition \<Longrightarrow> p \<noteq> PrestoreQueueBehavior \<Longrightarrow>
      cs_props (client_sync t kvs st) p = val r p"
    and "PplaybackPosition \<in> set (dirty r) \<Longrightarrow>
      cs_props (client_sync t kvs st) PplaybackPosition = VNumber (realPlaybackPosition t r)"
proof -
  have "cs_props (client_sync t kvs st) = deliver (copy_of n st0 r) (sync_message t r)"
    by (simp add: client_sync_def Let_def assms(1,3))
  then show "p \<noteq> PplaybackPosition \<Longrightarrow> p \<noteq> PrestoreQueueBehavior \<Longrightarrow>
      cs_props (client_sync t kvs st) p = val r p"
    and "PplaybackPosition \<in> set (dirty r) \<Longrightarrow>
      cs_props (client_sync t kvs st) PplaybackPosition = VNumber (realPlaybackPosition t r)"
    using checkpoint_delivers [OF assms(2)] by (simp_all add: deliver_checkpoint)
qed

lemma client_anchor:
  assumes "cs_props st = copy_of n st0 r" and "mirror n st0 {} r" and "sync_message t r = MsgSync kvs"
    and "PplaybackPosition \<in> set (dirty r)" and "isPlaying r"
  shows "cs_playbackStartTime (client_sync t kvs st) = Some t"
proof -
  have map: "map_of kvs p = (if p \<in> set (dirty r) then Some (syncable_value t r p) else None)" for p
  proof -
    have "map_of (map (\<lambda>p. (p, syncable_value t r p)) ps) p
        = (if p \<in> set ps then Some (syncable_value t r p) else None)" for ps by (induction ps) auto
    then show ?thesis using assms(3) by (auto simp: sync_message_def)
  qed
  have "cs_props st PisPlaying = VBool True" if "PisPlaying \<notin> set (dirty r)"
    using assms(1,2,5) that by (simp add: mirror_def val_def)
  then show ?thesis using assms(4,5) by (auto simp: client_sync_def Let_def map)
qed

text \<open>C5.
  A client is in step with the room: when a checkpoint carries the position of a room whose clock
  runs, a client that knew the rest of the state and anchors the message at the moment it was
  sent computes, at every later instant and until the room changes, exactly the position that
  the server computes, whatever the speed and whether or not the client was playing before.\<close>

theorem client_clock_in_step:
  assumes "mirror n st0 {} r" and "cs_props st = copy_of n st0 r"
    and "sync_message t r = MsgSync kvs" and "PplaybackPosition \<in> set (dirty r)"
    and "currentSource r = Some v" and "v_id v \<noteq> []"
    and "isPlaying r" and "playbackStart r \<noteq> None"
  shows "roomPosition t' (client_sync t kvs st) = realPlaybackPosition t' r"
proof -
  note got = client_checkpoint [OF assms(2,1,3)]
  have "cs_props (client_sync t kvs st) PcurrentSource = VSource (Some v)"
    "cs_props (client_sync t kvs st) PisPlaying = VBool True"
    "cs_props (client_sync t kvs st) PplaybackSpeed = VNumber (playbackSpeed r)"
    using assms(5,7) by (simp_all add: got(1) val_def)
  then show ?thesis
    using got(2) [OF assms(4)] client_anchor [OF assms(2,1,3,4,7)] assms(6-8)
      real_running_split [of r _ t' t]
    by (auto simp: roomPosition_def)
qed

theorem client_clock_in_step_witness:
  "\<exists>kvs. sync_message 3000 (markDirty PplaybackPosition sample_room) = MsgSync kvs
     \<and> roomPosition 5000 (client_sync 3000 kvs
         \<lparr>cs_props = val (markDirty PplaybackPosition sample_room), cs_playbackStartTime = None\<rparr>) = 5"
proof -
  let ?r = "markDirty PplaybackPosition sample_room"
  let ?st = "\<lparr>cs_props = val ?r, cs_playbackStartTime = None\<rparr>"
  have fields: "outbox ?r = []" "dirty ?r = [PhasOwner, PplaybackPosition]"
    "currentSource ?r = Some (sample_video ''a'')" "isPlaying ?r" "playbackStart ?r = Some 0"
    by (simp_all add: markDirty_def) (simp add: sample_room_def blank_room_def set_owner_def
        markDirty_def js_add_def)
  obtain kvs where kvs: "sync_message 3000 ?r = MsgSync kvs" by (simp add: sync_message_def)
  have "mirror 0 (val ?r) {} ?r" by (simp add: mirror_def fields copy_of_def)
  then have "roomPosition 5000 (client_sync 3000 kvs ?st) = realPlaybackPosition 5000 ?r"
    by (rule client_clock_in_step [OF _ _ kvs, where v = "sample_video ''a''"]) (simp_all add: copy_of_def fields)
  also have "\<dots> = 5" by (simp add: real_running markDirty_def)
  finally show ?thesis using kvs by blast
qed

end
