(* ===== verification/RoomFindings.thy ===== *)
theory RoomFindings
  imports RoomMirror
begin

text \<open>
  Two behaviours of the code that its comments do not intend: a setting that is never announced
  or saved, and a room whose clock stops while it says that it plays.
\<close>

section \<open>A setting that nobody is told about\<close>

lemma restore_behavior_gate [simp]:
  "restoreQueueBehavior (evaluateBufferGate t r) = restoreQueueBehavior r"
proof -
  have "restoreQueueBehavior (outside x) = restoreQueueBehavior x" for x by (simp add: outside_def)
  then show ?thesis by (metis outside_evaluate)
qed

definition restore_only :: "BehaviorOption \<Rightarrow> RoomSettings" where
  "restore_only v =
     \<lparr>st_title = None, st_description = None, st_visibility = None, st_queueMode = None,
      st_grants = None, st_autoSkipSegmentCategories = None, st_restoreQueueBehavior = Some v,
      st_enableVoteSkip = None, st_bufferGateMode = None, st_danmakuSource = None\<rparr>"

lemma apply_restore_only:
  assumes "granted (grants r) (cx_role c) ''configure-room.other''" and "restoreQueueBehavior r \<noteq> v"
  shows "applySettings e (restore_only v) c r
    = (None, evaluateBufferGate (now e) (r\<lparr>restoreQueueBehavior := v\<rparr>))"
  using assms
  by (auto simp: applySettings_def changed_settings_def restore_only_def drop_same_def settings_perms_def
      needed_def check_def guard_def canonical_categories_def assign_settings_def assign_def
      Let_def)

text \<open>Changing what happens to the queue of an unloaded room takes effect in the room, but the change
  is not marked: the checkpoint that follows neither tells the clients nor, when nothing else
  changed, writes the setting of a permanent room to the database.\<close>

lemma restore_setting_not_announced:
  assumes "granted (grants r) (cx_role c) ''configure-room.other''" and "restoreQueueBehavior r \<noteq> v"
    and "dirty r = []" and "bufferGate r = None" and "\<not> isPlaying r"
  shows "fst (applySettings e (restore_only v) c r) = None
    \<and> restoreQueueBehavior (snd (applySettings e (restore_only v) c r)) = v
    \<and> \<not> needs_persist (snd (applySettings e (restore_only v) c r))
    \<and> syncDirty e' (snd (applySettings e (restore_only v) c r))
        = (None, snd (applySettings e (restore_only v) c r))"
proof -
  have "dirty (evaluateBufferGate (now e) (r\<lparr>restoreQueueBehavior := v\<rparr>)) = []"
    using assms(3-5) by (simp add: evaluateBufferGate_def releaseBufferGate_def Let_def)
  then show ?thesis
    by (simp add: apply_restore_only [OF assms(1,2)] syncDirty_def needs_persist_def list_ex_iff)
qed

section \<open>A clock that stops\<close>

text \<open>
  A room that was rebuilt from storage hands over its next video paused. The mark for that is
  taken back by \<^verbatim>\<open>play\<close>, but not when a prepared video starts.
\<close>

lemma prepared_start_keeps_mark:
  "restoredFromStorage (startPreparedPlayback t r) = restoredFromStorage r"
  by (simp add: startPreparedPlayback_def set_isPlaying_def set_playbackPosition_def markDirty_def
      clearPlaybackStartTimer_def Let_def split: option.split)

lemma set_source_mark [simp]:
  "restoredFromStorage (set_currentSource t v r) = restoredFromStorage r"
  "isPlaying (set_currentSource t v r) = isPlaying r"
  by (simp_all add: set_currentSource_def cancelPlaybackPreparation_def clearPlaybackStartTimer_def
      endTemporaryPlaybackSpeed_def flushPlaybackPosition_def set_playbackPosition_def
      set_playbackSpeed_def markDirty_def Let_def split: option.split)

lemma take_next_restored:
  assumes "restoredFromStorage r" and "isPlaying r"
  shows "isPlaying (take_next e r) \<and> playbackStart (take_next e r) = None"
  using assms
  by (auto simp: take_next_def start_dequeued_def changed_queue_def set_playbackPosition_def
      set_videoSegments_def markDirty_def Let_def split: option.split prod.split)

lemma dequeue_restored:
  assumes "restoredFromStorage r" and "isPlaying r" and "bufferGate r = None" and "queueMode r \<noteq> Dj"
    and "items (queue r) \<noteq> []"
  shows "isPlaying (dequeueNext e r) \<and> playbackStart (dequeueNext e r) = None"
proof -
  let ?r = "clear_for_dequeue e r"
  have c: "restoredFromStorage ?r" "isPlaying ?r" "queueMode ?r \<noteq> Dj" "items (queue ?r) \<noteq> []"
    using assms by (simp_all add: clear_for_dequeue_def releaseBufferGate_def markDirty_def Let_def)
  have fin: "isPlaying (finish_dequeue e a) = isPlaying a" "playbackStart (finish_dequeue e a) = playbackStart a" for a
    by (simp_all add: finish_dequeue_def set_videoSegments_def set_playbackSpeed_def markDirty_def Let_def)
  have nxt: "isPlaying (take_next e ?r) \<and> playbackStart (take_next e ?r) = None"
    "isPlaying (take_next e (changed_queue q ?r)) \<and> playbackStart (take_next e (changed_queue q ?r)) = None"
    for q
    using c(1,2) by (auto intro!: take_next_restored simp: changed_queue_def markDirty_def)
  have len: "0 < queue_length (queue ?r)" "0 < queue_length (queue (changed_queue (enqueueOverflow vs (queue ?r)) ?r))" for vs
    using c(4) by (simp_all add: enqueueOverflow_def queue_length_def set_items_def markDirty_queue_def
        changed_queue_def markDirty_def)
  show ?thesis
    unfolding dequeueNext_def dequeue_by_mode_def Let_def
    using c(3) nxt len by (simp add: fin split: option.split)
qed

definition sample_preparation :: PlaybackPreparation where
  "sample_preparation =
     \<lparr>pp_id = ''p'', pp_clientId = ''alice'', pp_video = (''direct'', ''a''), pp_position = 0,
      pp_eligible = [''alice''], pp_ready = [], pp_deadlineAt = 0, pp_hardDeadlineAt = 0,
      pp_startAt = Some 1000, pp_fallback = None\<rparr>"

text \<open>A rebuilt room can freeze. When the first video of a room restored from storage is started by
  the preparation handshake rather than by an explicit play, the next dequeue leaves the room
  saying that it plays with no clock: its position is then the same at every instant, so the room
  never reaches the end of the video, while the viewers' players run on.\<close>

lemma restored_room_freezes:
  assumes "restoredFromStorage r" and "playbackPreparation r = Some p" and "pp_startAt p = Some s"
    and "s \<le> t + 50" and "bufferGate r = None" and "queueMode r \<noteq> Dj" and "items (queue r) \<noteq> []"
  shows "isPlaying (dequeueNext e (startPreparedPlayback t r))
    \<and> realPlaybackPosition t1 (dequeueNext e (startPreparedPlayback t r))
      = realPlaybackPosition t2 (dequeueNext e (startPreparedPlayback t r))"
proof -
  let ?r = "startPreparedPlayback t r"
  have "isPlaying ?r" "bufferGate ?r = None"
    using assms(2-5)
    by (simp_all add: startPreparedPlayback_def set_isPlaying_def set_playbackPosition_def markDirty_def
        clearPlaybackStartTimer_def Let_def)
  moreover have "queueMode ?r \<noteq> Dj" "items (queue ?r) \<noteq> []" using assms(6,7) by simp_all
  ultimately have "isPlaying (dequeueNext e ?r) \<and> playbackStart (dequeueNext e ?r) = None"
    using dequeue_restored prepared_start_keeps_mark assms(1) by blast
  then show ?thesis by (simp add: realPlaybackPosition_def)
qed

end
