(* ===== verification/RoomStorage.thy ===== *)
theory RoomStorage
  imports RoomSample
begin

text \<open>
  The room table: \<^verbatim>\<open>server/storage/room.ts\<close> over the columns of \<^verbatim>\<open>server/models/room.ts\<close>, and the
  settings that the checkpoint of \<^verbatim>\<open>server/room.ts\<close> writes. The table is the list of its rows; a
  query that the database does not answer is the argument \<open>up = False\<close>, and the join with the
  accounts is the argument \<open>accounts\<close>. Values of an enumeration column are the enumeration, so
  the validators of those columns cannot fail.

  Shown: a room that is saved comes back with the settings, the roles and exactly the permissions
  it had, under any spelling of its name.
\<close>

section \<open>Rows\<close>

record RoomAttributes =
  db_name :: string
  db_title :: string
  db_description :: string
  db_visibility :: Visibility
  db_queueMode :: QueueMode
  db_ownerId :: "int option"
  db_permissions :: "(int \<times> GrantMask) list"
  db_role_trusted :: "int list"
  db_role_mod :: "int list"
  db_role_admin :: "int list"
  db_autoSkipSegmentCategories :: "string list"
  db_prevQueue :: "QueueItem list option"
  db_restoreQueueBehavior :: BehaviorOption
  db_enableVoteSkip :: bool
  db_bufferGateMode :: BufferGateMode
  db_danmakuSource :: "RoomDanmakuSource option"
  db_passwordHash :: "string option"
  db_permissionsRevision :: "int option"

type_synonym room_table = "RoomAttributes list"

text \<open>\<^verbatim>\<open>ROOM_NAME_REGEX\<close> and the length check of the name column.\<close>

definition room_name_char :: "char \<Rightarrow> bool" where
  "room_name_char c \<longleftrightarrow>
     (let n = of_char c :: nat in
      48 \<le> n \<and> n \<le> 57 \<or> 65 \<le> n \<and> n \<le> 90 \<or> 97 \<le> n \<and> n \<le> 122) \<or> c = CHR ''_'' \<or> c = CHR ''-''"

definition ROOM_NAME_REGEX :: "string \<Rightarrow> bool" where
  "ROOM_NAME_REGEX name \<longleftrightarrow> name \<noteq> [] \<and> list_all room_name_char name"

definition valid_row :: "RoomAttributes \<Rightarrow> bool" where
  "valid_row row \<longleftrightarrow> ROOM_NAME_REGEX (db_name row) \<and> 3 \<le> length (db_name row) \<and> length (db_name row) \<le> 32"

text \<open>Both sides of the comparison go through the database's \<^verbatim>\<open>lower\<close>.\<close>

definition buildFindRoomWhere :: "string \<Rightarrow> RoomAttributes \<Rightarrow> bool" where
  "buildFindRoomWhere roomName row \<longleftrightarrow> lower (db_name row) = lower roomName"

section \<open>From a room to a row\<close>

text \<open>No row keeps the masks of administrators and owners: they always hold everything.\<close>

definition grantsFiltered :: "Grants \<Rightarrow> Grants" where
  "grantsFiltered g = deleteRole Owner (deleteRole Administrator g)"

definition stored_role :: "Role \<Rightarrow> (Role \<times> int list) list \<Rightarrow> int list" where
  "stored_role i roles = (case map_of roles i of None \<Rightarrow> [] | Some s \<Rightarrow> s)"

definition roomToDb :: "Room \<Rightarrow> RoomAttributes" where
  "roomToDb r =
     \<lparr>db_name = room_name r, db_title = room_title r, db_description = room_description r,
      db_visibility = visibility r, db_queueMode = queueMode r,
      db_ownerId = map_option user_id (owner r), db_permissions = entries (grantsFiltered (grants r)),
      db_role_trusted = stored_role TrustedUser (userRoles r),
      db_role_mod = stored_role Moderator (userRoles r),
      db_role_admin = stored_role Administrator (userRoles r),
      db_autoSkipSegmentCategories = autoSkipSegmentCategories r, db_prevQueue = prevQueue r,
      db_restoreQueueBehavior = restoreQueueBehavior r, db_enableVoteSkip = enableVoteSkip r,
      db_bufferGateMode = bufferGateMode r, db_danmakuSource = danmakuSource r,
      db_passwordHash = None, db_permissionsRevision = Some (permissionsRevision r)\<rparr>"

text \<open>
  A partial update carries the properties that are present. For the queue and the danmaku source
  \<^verbatim>\<open>null\<close> is a value of its own; an owner that is \<^verbatim>\<open>null\<close> is not written.
\<close>

record RoomStatePersistable =
  pt_title :: "string option"
  pt_description :: "string option"
  pt_visibility :: "Visibility option"
  pt_queueMode :: "QueueMode option"
  pt_autoSkipSegmentCategories :: "string list option"
  pt_grants :: "Grants option"
  pt_userRoles :: "(Role \<times> int list) list option"
  pt_owner :: "UserAccount option"
  pt_prevQueue :: "QueueItem list option option"
  pt_restoreQueueBehavior :: "BehaviorOption option"
  pt_enableVoteSkip :: "bool option"
  pt_bufferGateMode :: "BufferGateMode option"
  pt_danmakuSource :: "RoomDanmakuSource option option"
  pt_permissionsRevision :: "int option"

definition column :: "('a \<Rightarrow> RoomAttributes \<Rightarrow> RoomAttributes) \<Rightarrow> 'a option
    \<Rightarrow> (RoomAttributes \<Rightarrow> RoomAttributes) list" where
  "column write v = (case v of None \<Rightarrow> [] | Some x \<Rightarrow> [write x])"

text \<open>The column updates in the order of the object; none when the object is empty.\<close>

definition roomToDbPartial :: "RoomStatePersistable \<Rightarrow> (RoomAttributes \<Rightarrow> RoomAttributes) list" where
  "roomToDbPartial p =
     column (\<lambda>v row. row\<lparr>db_title := v\<rparr>) (pt_title p)
     @ column (\<lambda>v row. row\<lparr>db_description := v\<rparr>) (pt_description p)
     @ column (\<lambda>v row. row\<lparr>db_visibility := v\<rparr>) (pt_visibility p)
     @ column (\<lambda>v row. row\<lparr>db_queueMode := v\<rparr>) (pt_queueMode p)
     @ column (\<lambda>v row. row\<lparr>db_autoSkipSegmentCategories := v\<rparr>) (pt_autoSkipSegmentCategories p)
     @ column (\<lambda>v row. row\<lparr>db_restoreQueueBehavior := v\<rparr>) (pt_restoreQueueBehavior p)
     @ column (\<lambda>v row. row\<lparr>db_enableVoteSkip := v\<rparr>) (pt_enableVoteSkip p)
     @ column (\<lambda>v row. row\<lparr>db_bufferGateMode := v\<rparr>) (pt_bufferGateMode p)
     @ column (\<lambda>v row. row\<lparr>db_danmakuSource := v\<rparr>) (pt_danmakuSource p)
     @ column (\<lambda>v row. row\<lparr>db_permissionsRevision := Some v\<rparr>) (pt_permissionsRevision p)
     @ column (\<lambda>v row. row\<lparr>db_prevQueue := v\<rparr>) (pt_prevQueue p)
     @ column (\<lambda>g row. row\<lparr>db_permissions := entries (grantsFiltered g)\<rparr>) (pt_grants p)
     @ column (\<lambda>acc row. row\<lparr>db_ownerId := Some (user_id acc)\<rparr>) (pt_owner p)
     @ column (\<lambda>roles row. row\<lparr>db_role_trusted := stored_role TrustedUser roles,
          db_role_mod := stored_role Moderator roles,
          db_role_admin := stored_role Administrator roles\<rparr>) (pt_userRoles p)"

definition write_columns :: "(RoomAttributes \<Rightarrow> RoomAttributes) list \<Rightarrow> RoomAttributes \<Rightarrow> RoomAttributes" where
  "write_columns cs row = foldl (\<lambda>row c. c row) row cs"

section \<open>Queries\<close>

definition isRoomNameTaken :: "bool \<Rightarrow> string \<Rightarrow> room_table \<Rightarrow> ott_error + bool" where
  "isRoomNameTaken up roomName db =
     (if \<not> up then Inl (GenericError ''database'')
      else Inr (find (buildFindRoomWhere roomName) db \<noteq> None))"

definition saveRoom :: "bool \<Rightarrow> Room \<Rightarrow> room_table \<Rightarrow> ott_error + bool \<times> room_table" where
  "saveRoom up r db =
     (case isRoomNameTaken up (room_name r) db of
        Inl err \<Rightarrow> Inl err
      | Inr True \<Rightarrow> Inr (False, db)
      | Inr False \<Rightarrow> if valid_row (roomToDb r) then Inr (True, db @ [roomToDb r]) else Inr (False, db))"

text \<open>An update without columns only asks whether the room exists.\<close>

definition updateRoom :: "bool \<Rightarrow> string \<Rightarrow> RoomStatePersistable \<Rightarrow> room_table \<Rightarrow> bool \<times> room_table" where
  "updateRoom up roomName p db =
     (if \<not> up then (False, db)
      else (find (buildFindRoomWhere roomName) db \<noteq> None,
            map (\<lambda>row. if buildFindRoomWhere roomName row then write_columns (roomToDbPartial p) row else row) db))"

text \<open>The notes are keyed by the exact name, without a foreign key.\<close>

definition deleteAllNotes :: "string \<Rightarrow> (string \<Rightarrow> RoomNote list) \<Rightarrow> (string \<Rightarrow> RoomNote list)" where
  "deleteAllNotes roomName notes = notes(roomName := [])"

definition deleteRoom :: "bool \<Rightarrow> string \<Rightarrow> room_table \<Rightarrow> (string \<Rightarrow> RoomNote list)
    \<Rightarrow> ott_error + bool \<times> room_table \<times> (string \<Rightarrow> RoomNote list)" where
  "deleteRoom up roomName db notes =
     (if \<not> up then Inl (GenericError ''database'')
      else Inr (find (buildFindRoomWhere roomName) db \<noteq> None,
                filter (\<lambda>row. \<not> buildFindRoomWhere roomName row) db, deleteAllNotes roomName notes))"

definition getRoomPasswordHash :: "bool \<Rightarrow> string \<Rightarrow> room_table \<Rightarrow> ott_error + string option" where
  "getRoomPasswordHash up roomName db =
     (if \<not> up then Inl (GenericError ''database'')
      else Inr (case find (buildFindRoomWhere roomName) db of
                  None \<Rightarrow> None | Some row \<Rightarrow> db_passwordHash row))"

definition updateRoomPassword :: "bool \<Rightarrow> string \<Rightarrow> string option \<Rightarrow> room_table \<Rightarrow> bool \<times> room_table" where
  "updateRoomPassword up roomName hash db =
     (if \<not> up then (False, db)
      else (find (buildFindRoomWhere roomName) db \<noteq> None,
            map (\<lambda>row. if buildFindRoomWhere roomName row then row\<lparr>db_passwordHash := hash\<rparr> else row) db))"

text \<open>
  \<^verbatim>\<open>dbToRoomArgs\<close>: the options a row gives. Building the grants may throw, which the caller turns
  into a room that is not found.
\<close>

definition row_options :: "(int \<Rightarrow> UserAccount option) \<Rightarrow> RoomAttributes \<Rightarrow> Grants \<Rightarrow> RoomOptions" where
  "row_options accounts row g =
       \<lparr>op_name = db_name row, op_title = Some (db_title row), op_description = Some (db_description row),
        op_visibility = Some (db_visibility row), op_queueMode = Some (db_queueMode row),
        op_isTemporary = Some False,
        op_owner = map_option (\<lambda>acc. acc\<lparr>user_salt := None, user_hash := None\<rparr>)
          (case db_ownerId row of None \<Rightarrow> None | Some i \<Rightarrow> accounts i),
        op_currentSource = None, op_queue = [], op_playbackPosition = None, op_isPlaying = None,
        op_playbackSpeed = None, op_autoSkipSegmentCategories = Some (db_autoSkipSegmentCategories row),
        op_prevQueue = db_prevQueue row, op_restoreQueueBehavior = Some (db_restoreQueueBehavior row),
        op_enableVoteSkip = Some (db_enableVoteSkip row), op_bufferGateMode = Some (db_bufferGateMode row),
        op_danmakuSource = Some (db_danmakuSource row), op_passwordHash = db_passwordHash row,
        op_votesToSkip = [], op_resumeOnNextJoin = False, op_grants = Some (FromGrants g),
        op_permissionsRevision = db_permissionsRevision row,
        op_userRoles = Some [(TrustedUser, js_Set (db_role_trusted row)),
          (Moderator, js_Set (db_role_mod row)), (Administrator, js_Set (db_role_admin row))],
        op_playbackStart = None\<rparr>"

definition dbToRoomArgs :: "(int \<Rightarrow> UserAccount option) \<Rightarrow> RoomAttributes \<Rightarrow> ott_error + RoomOptions" where
  "dbToRoomArgs accounts row =
     bind_result (new_Grants (FromArray (db_permissions row))) (\<lambda>g. Inr (row_options accounts row g))"

definition getRoomByName :: "bool \<Rightarrow> (int \<Rightarrow> UserAccount option) \<Rightarrow> string \<Rightarrow> room_table \<Rightarrow> RoomOptions option" where
  "getRoomByName up accounts roomName db =
     (if \<not> up then None
      else case find (buildFindRoomWhere roomName) db of
          None \<Rightarrow> None
        | Some row \<Rightarrow> (case dbToRoomArgs accounts row of Inl _ \<Rightarrow> None | Inr op \<Rightarrow> Some op))"

record RoomListItem =
  li_name :: string
  li_title :: string
  li_description :: string
  li_visibility :: Visibility
  li_queueMode :: QueueMode
  li_isTemporary :: bool
  li_currentSource :: "QueueItem option"
  li_users :: nat
  li_hasPassword :: bool

definition getPermanentRoomList :: "bool \<Rightarrow> room_table \<Rightarrow> RoomListItem list" where
  "getPermanentRoomList includeUnlisted db =
     map (\<lambda>row. \<lparr>li_name = db_name row, li_title = db_title row, li_description = db_description row,
        li_visibility = db_visibility row, li_queueMode = db_queueMode row, li_isTemporary = False,
        li_currentSource = (case db_prevQueue row of Some (v # _) \<Rightarrow> Some v | _ \<Rightarrow> None), li_users = 0,
        li_hasPassword = truthy_str (db_passwordHash row)\<rparr>)
       (filter (\<lambda>row. includeUnlisted \<or> db_visibility row = Public) db)"

section \<open>What the room writes\<close>

text \<open>The settings of a checkpoint: the marked ones, and the queue whenever playback changed.\<close>

definition when_dirty :: "Room \<Rightarrow> sync_prop \<Rightarrow> 'a \<Rightarrow> 'a option" where
  "when_dirty r p v = (if p \<in> set (dirty r) then Some v else None)"

definition checkpoint_settings :: "int \<Rightarrow> Room \<Rightarrow> RoomStatePersistable" where
  "checkpoint_settings t r =
     \<lparr>pt_title = when_dirty r Ptitle (room_title r),
      pt_description = when_dirty r Pdescription (room_description r),
      pt_visibility = when_dirty r Pvisibility (visibility r),
      pt_queueMode = when_dirty r PqueueMode (queueMode r),
      pt_autoSkipSegmentCategories = when_dirty r PautoSkipSegmentCategories (autoSkipSegmentCategories r),
      pt_grants = when_dirty r Pgrants (grants r), pt_userRoles = None,
      pt_owner = (if PhasOwner \<in> set (dirty r) then owner r else None),
      pt_prevQueue = (if list_ex (\<lambda>p. p \<in> set (dirty r)) queueProps then Some (queueSnapshot t r) else None),
      pt_restoreQueueBehavior = when_dirty r PrestoreQueueBehavior (restoreQueueBehavior r),
      pt_enableVoteSkip = when_dirty r PenableVoteSkip (enableVoteSkip r),
      pt_bufferGateMode = when_dirty r PbufferGateMode (bufferGateMode r),
      pt_danmakuSource = when_dirty r PdanmakuSource (danmakuSource r),
      pt_permissionsRevision = None\<rparr>"

text \<open>\<^verbatim>\<open>updateRoom(this)\<close> after a promotion writes the whole room.\<close>

definition whole_room :: "Room \<Rightarrow> RoomStatePersistable" where
  "whole_room r =
     \<lparr>pt_title = Some (room_title r), pt_description = Some (room_description r),
      pt_visibility = Some (visibility r), pt_queueMode = Some (queueMode r),
      pt_autoSkipSegmentCategories = Some (autoSkipSegmentCategories r), pt_grants = Some (grants r),
      pt_userRoles = Some (userRoles r), pt_owner = owner r, pt_prevQueue = Some (prevQueue r),
      pt_restoreQueueBehavior = Some (restoreQueueBehavior r),
      pt_enableVoteSkip = Some (enableVoteSkip r), pt_bufferGateMode = Some (bufferGateMode r),
      pt_danmakuSource = Some (danmakuSource r),
      pt_permissionsRevision = Some (permissionsRevision r)\<rparr>"

section \<open>Grants survive the row\<close>

lemma getMask_filtered:
  "getMask (grantsFiltered g) s = (if s = Administrator \<or> s = Owner then None else getMask g s)"
  by (simp add: grantsFiltered_def deleteRole_def getMask_def delete_conv')

lemma filtered_distinct: "distinct (map fst g) \<Longrightarrow> distinct (map fst (grantsFiltered g))"
  by (simp add: grantsFiltered_def deleteRole_def distinct_delete)

lemma filtered_set:
  "set (grantsFiltered g) = {(q, w). (q, w) \<in> set g \<and> q \<noteq> Administrator \<and> q \<noteq> Owner}"
  by (auto simp: grantsFiltered_def deleteRole_def AList.delete_eq)

text \<open>A role below the administrators gets its bits from roles that the row keeps.\<close>

lemma loads_filtered:
  assumes "wf_grants g" "loads (grantsFiltered g) h" "s \<noteq> Owner" "s \<noteq> Administrator"
  shows "mask_of h s = mask_of g s"
proof -
  obtain k where "loads g k" and k: "setMapGrants (entries g) [] = Inr k"
    using setMapGrants_loads [OF loads_Nil, of g] assms(1) by (auto simp: wf_grants_def)
  moreover have "q \<noteq> Administrator" if "q \<le> s" for q
    using that assms(3,4) by (cases s; cases q) (auto simp: less_eq_Role_def)
  ultimately have "bit (mask_of h s) n = bit (mask_of k s) n" for n
    using assms(2,3) unfolding loads_def filtered_set by fastforce
  then show ?thesis
    using loads_wf [OF assms(1) \<open>loads g k\<close> assms(3)] by (metis bit_eqI)
qed

lemma rebuilt_grants:
  assumes "wf_grants g" and d: "distinct (map fst ps)"
    and loaded: "\<And>a s. loads ps a \<Longrightarrow> s \<noteq> Owner \<Longrightarrow> s \<noteq> Administrator \<Longrightarrow> mask_of a s = mask_of g s"
  shows "\<exists>h. new_Grants (FromArray (entries ps)) = Inr h \<and> wf_grants h \<and> (\<forall>s. mask_of h s = mask_of g s)"
proof -
  obtain a where a: "setAllGrants (FromArray (entries ps)) = Inr a" and la: "loads ps a"
    using setMapGrants_loads [OF loads_Nil, of ps] d by (auto simp: js_Map_id entries_keys)
  obtain b h where b: "force_all Administrator a = Inr b" and h: "force_all Owner b = Inr h"
    unfolding force_all_def using setRoleGrants_Inr by blast
  have new: "new_Grants (FromArray (entries ps)) = Inr h"
    using a b h by (simp add: new_Grants_def bind_result_def)
  have cl: "closed_grants a" "closed_grants b"
    using setAllGrants_closed [OF a] setRoleGrants_closed [OF _ b [unfolded force_all_def]] by auto
  have low: "mask_of h s = mask_of g s" if s: "s \<noteq> Owner" "s \<noteq> Administrator" for s
  proof -
    have below: "\<not> Administrator \<le> s" using s by (cases s) (auto simp: less_eq_Role_def)
    have "mask_of b s = mask_of a s"
      using bit_setRoleGrants [OF b [unfolded force_all_def], of s] s below cl(1)
      by (intro bit_eqI) (auto simp: Let_def closed_grants_def mask_le_bit)
    then show ?thesis
      using force_all_mask(3) [OF cl(2) h, of s] loaded [OF la s] s by simp
  qed
  have "mask_of h s = mask_of g s" for s
    using low [of s] new_Grants_wf [OF new] assms(1) by (cases s) (simp_all add: wf_grants_def)
  with new new_Grants_wf [OF new] show ?thesis by blast
qed

lemma wf_distinct: "wf_grants g \<Longrightarrow> distinct (map fst g)"
  by (simp add: wf_grants_def)

lemma stored_grants:
  "wf_grants g \<Longrightarrow> \<exists>h. new_Grants (FromArray (entries (grantsFiltered g))) = Inr h \<and> wf_grants h
    \<and> (\<forall>s. mask_of h s = mask_of g s)"
  by (rule rebuilt_grants [OF _ filtered_distinct [OF wf_distinct] loads_filtered])

lemma snapshot_grants:
  "wf_grants g \<Longrightarrow> \<exists>h. new_Grants (FromArray (entries g)) = Inr h \<and> wf_grants h \<and> (\<forall>s. mask_of h s = mask_of g s)"
  by (rule rebuilt_grants [OF _ wf_distinct loads_wf])

section \<open>What the constructor makes of options\<close>

lemma assign_hit: "(\<And>x s. F (f x s) = x) \<Longrightarrow> F (assign f v r) = or_else v (F r)"
  by (simp add: assign_def or_else_def split: option.split)

lemma assign_none: "assign f None r = r"
  by (simp add: assign_def)

lemmas option_setters = set_name_def set_title_def set_description_def set_visibility_def set_queueMode_def
  set_owner_def set_playbackPosition_def set_playbackSpeed_def set_autoSkipSegmentCategories_def
  set_enableVoteSkip_def set_bufferGateMode_def set_danmakuSource_def markDirty_def

text \<open>The settings of a room, which restoring the queue does not touch.\<close>

lemma restore_frames:
  "room_name (restore_prevQueue r) = room_name r"
  "room_title (restore_prevQueue r) = room_title r"
  "room_description (restore_prevQueue r) = room_description r"
  "visibility (restore_prevQueue r) = visibility r"
  "queueMode (restore_prevQueue r) = queueMode r"
  "isTemporary (restore_prevQueue r) = isTemporary r"
  "owner (restore_prevQueue r) = owner r"
  "autoSkipSegmentCategories (restore_prevQueue r) = autoSkipSegmentCategories r"
  "restoreQueueBehavior (restore_prevQueue r) = restoreQueueBehavior r"
  "enableVoteSkip (restore_prevQueue r) = enableVoteSkip r"
  "bufferGateMode (restore_prevQueue r) = bufferGateMode r"
  "danmakuSource (restore_prevQueue r) = danmakuSource r"
  "passwordHash (restore_prevQueue r) = passwordHash r"
  "grants (restore_prevQueue r) = grants r"
  by (auto simp: restore_prevQueue_def set_prevQueue_def markDirty_def Let_def split: option.split)

lemma prev_frames:
  "room_name (set_prevQueue v r) = room_name r"
  "room_title (set_prevQueue v r) = room_title r"
  "room_description (set_prevQueue v r) = room_description r"
  "visibility (set_prevQueue v r) = visibility r"
  "queueMode (set_prevQueue v r) = queueMode r"
  "isTemporary (set_prevQueue v r) = isTemporary r"
  "owner (set_prevQueue v r) = owner r"
  "autoSkipSegmentCategories (set_prevQueue v r) = autoSkipSegmentCategories r"
  "restoreQueueBehavior (set_prevQueue v r) = restoreQueueBehavior r"
  "enableVoteSkip (set_prevQueue v r) = enableVoteSkip r"
  "bufferGateMode (set_prevQueue v r) = bufferGateMode r"
  "danmakuSource (set_prevQueue v r) = danmakuSource r"
  "passwordHash (set_prevQueue v r) = passwordHash r"
  "grants (set_prevQueue v r) = grants r"
  by (simp_all add: set_prevQueue_def markDirty_def)

lemma engine_frames:
  "room_name (set_currentSource t v r) = room_name r" "room_name (set_isPlaying t b r) = room_name r"
  "room_title (set_currentSource t v r) = room_title r" "room_title (set_isPlaying t b r) = room_title r"
  "room_description (set_currentSource t v r) = room_description r" "room_description (set_isPlaying t b r) = room_description r"
  "visibility (set_currentSource t v r) = visibility r" "visibility (set_isPlaying t b r) = visibility r"
  "queueMode (set_currentSource t v r) = queueMode r" "queueMode (set_isPlaying t b r) = queueMode r"
  "isTemporary (set_currentSource t v r) = isTemporary r" "isTemporary (set_isPlaying t b r) = isTemporary r"
  "owner (set_currentSource t v r) = owner r" "owner (set_isPlaying t b r) = owner r"
  "autoSkipSegmentCategories (set_currentSource t v r) = autoSkipSegmentCategories r" "autoSkipSegmentCategories (set_isPlaying t b r) = autoSkipSegmentCategories r"
  "restoreQueueBehavior (set_currentSource t v r) = restoreQueueBehavior r" "restoreQueueBehavior (set_isPlaying t b r) = restoreQueueBehavior r"
  "enableVoteSkip (set_currentSource t v r) = enableVoteSkip r" "enableVoteSkip (set_isPlaying t b r) = enableVoteSkip r"
  "bufferGateMode (set_currentSource t v r) = bufferGateMode r" "bufferGateMode (set_isPlaying t b r) = bufferGateMode r"
  "danmakuSource (set_currentSource t v r) = danmakuSource r" "danmakuSource (set_isPlaying t b r) = danmakuSource r"
  "passwordHash (set_currentSource t v r) = passwordHash r" "passwordHash (set_isPlaying t b r) = passwordHash r"
  "grants (set_currentSource t v r) = grants r" "grants (set_isPlaying t b r) = grants r"
  by (simp_all add: set_currentSource_def set_isPlaying_def cancelPlaybackPreparation_def
      endTemporaryPlaybackSpeed_def clearPlaybackStartTimer_def flushPlaybackPosition_def option_setters Let_def split: option.split)

lemma built_settings:
  "room_name (assign_options t op r) = op_name op"
  "room_title (assign_options t op r) = or_else (op_title op) (room_title r)"
  "room_description (assign_options t op r) = or_else (op_description op) (room_description r)"
  "visibility (assign_options t op r) = or_else (op_visibility op) (visibility r)"
  "queueMode (assign_options t op r) = or_else (op_queueMode op) (queueMode r)"
  "isTemporary (assign_options t op r) = or_else (op_isTemporary op) (isTemporary r)"
  "owner (assign_options t op r) = op_owner op"
  "autoSkipSegmentCategories (assign_options t op r) = or_else (op_autoSkipSegmentCategories op) (autoSkipSegmentCategories r)"
  "restoreQueueBehavior (assign_options t op r) = or_else (op_restoreQueueBehavior op) (restoreQueueBehavior r)"
  "enableVoteSkip (assign_options t op r) = or_else (op_enableVoteSkip op) (enableVoteSkip r)"
  "bufferGateMode (assign_options t op r) = or_else (op_bufferGateMode op) (bufferGateMode r)"
  "danmakuSource (assign_options t op r) = or_else (op_danmakuSource op) (danmakuSource r)"
  "passwordHash (assign_options t op r) = op_passwordHash op"
  "grants (assign_options t op r) = grants r"
  unfolding assign_options_def Let_def
  by (simp_all add: prev_frames engine_frames option_setters
      assign_frame [where F = room_name]
      assign_frame [where F = room_title] assign_hit [where F = room_title]
      assign_frame [where F = room_description] assign_hit [where F = room_description]
      assign_frame [where F = visibility] assign_hit [where F = visibility]
      assign_frame [where F = queueMode] assign_hit [where F = queueMode]
      assign_frame [where F = isTemporary] assign_hit [where F = isTemporary]
      assign_frame [where F = owner]
      assign_frame [where F = autoSkipSegmentCategories] assign_hit [where F = autoSkipSegmentCategories]
      assign_frame [where F = restoreQueueBehavior] assign_hit [where F = restoreQueueBehavior]
      assign_frame [where F = enableVoteSkip] assign_hit [where F = enableVoteSkip]
      assign_frame [where F = bufferGateMode] assign_hit [where F = bufferGateMode]
      assign_frame [where F = danmakuSource] assign_hit [where F = danmakuSource]
      assign_frame [where F = passwordHash]
      assign_frame [where F = grants])

section \<open>Saving and loading\<close>

lemma write_columns_simps [simp]:
  "write_columns [] row = row" "write_columns (c # cs) row = write_columns cs (c row)"
  "write_columns (cs @ ds) row = write_columns ds (write_columns cs row)"
  by (simp_all add: write_columns_def)

lemma write_column: "write_columns (column f v) row = (case v of None \<Rightarrow> row | Some x \<Rightarrow> f x row)"
  by (simp add: column_def split: option.split)

lemma column_same: "f v row = row \<Longrightarrow> write_columns (column f (when_dirty r p v)) row = row"
  by (simp add: column_def when_dirty_def)

text \<open>A checkpoint of the room itself changes nothing but the queue in the row it was saved as.\<close>

lemma checkpoint_row:
  "write_columns (roomToDbPartial (checkpoint_settings t r)) (roomToDb r) =
     (roomToDb r)\<lparr>db_prevQueue := (if list_ex (\<lambda>p. p \<in> set (dirty r)) queueProps then queueSnapshot t r else prevQueue r)\<rparr>"
  unfolding roomToDbPartial_def checkpoint_settings_def
  by (simp add: column_same roomToDb_def) (auto simp: column_def when_dirty_def split: option.split if_splits)

lemma saveRoom_success:
  assumes "saveRoom True r db = Inr (True, db')"
  shows "db' = db @ [roomToDb r]" "find (buildFindRoomWhere (room_name r)) db = None"
  using assms by (auto simp: saveRoom_def isRoomNameTaken_def split: bool.splits if_splits)

lemma where_cong: "lower m = lower n \<Longrightarrow> buildFindRoomWhere m = buildFindRoomWhere n"
  by (simp add: buildFindRoomWhere_def fun_eq_iff)

lemma find_fresh:
  assumes "find P db = None" "P row"
  shows "find P (db @ [row]) = Some row" "find P (map (\<lambda>x. if P x then f x else x) db @ [row]) = Some row"
  using assms by (induction db) (auto split: if_splits)

lemma saved_row:
  assumes "saveRoom True r db = Inr (True, db1)" "updateRoom True (room_name r) p db1 = (ok, db2)"
    and "lower name = lower (room_name r)"
    and "db_name (write_columns (roomToDbPartial p) (roomToDb r)) = room_name r"
  shows "ok" "find (buildFindRoomWhere name) db2 = Some (write_columns (roomToDbPartial p) (roomToDb r))"
proof -
  have w: "buildFindRoomWhere (room_name r) (roomToDb r)" "buildFindRoomWhere name = buildFindRoomWhere (room_name r)"
    using assms(3) by (simp_all add: buildFindRoomWhere_def fun_eq_iff roomToDb_def)
  note sv = saveRoom_success [OF assms(1)]
  show ok using assms(2) w sv by (auto simp: updateRoom_def find_fresh)
  show "find (buildFindRoomWhere name) db2 = Some (write_columns (roomToDbPartial p) (roomToDb r))"
    using assms(2,4) w sv by (auto simp: updateRoom_def intro!: find_fresh(2)) (simp_all add: buildFindRoomWhere_def)
qed

text \<open>Building the room again from its row.\<close>

lemma restore_queue:
  assumes "currentSource r = None" "items (queue r) = []"
  shows "items (queue (restore_prevQueue r)) = (if restoreQueueBehavior r = Always then or_else (prevQueue r) [] else [])"
    "prevQueue (restore_prevQueue r) = (if restoreQueueBehavior r = Prompt then prevQueue r else None)"
  using assms
  by (cases "restoreQueueBehavior r"; auto simp: restore_prevQueue_def set_prevQueue_def markDirty_def or_else_def
      Let_def split: option.split)+

lemma source_frames:
  "currentSource (set_prevQueue v r) = currentSource r" "queue (set_prevQueue v r) = queue r"
  "currentSource (set_isPlaying t b r) = currentSource r" "queue (set_isPlaying t b r) = queue r"
  by (simp_all add: set_prevQueue_def markDirty_def set_isPlaying_def endTemporaryPlaybackSpeed_def
      clearPlaybackStartTimer_def flushPlaybackPosition_def option_setters Let_def split: option.split)

lemma built_queue:
  assumes "op_currentSource op = None"
  shows "currentSource (assign_options t op r) = currentSource r"
    "queue (assign_options t op r) = new_VideoQueue (op_queue op)"
  unfolding assign_options_def Let_def assms
  by (simp_all add: source_frames option_setters assign_frame [where F = currentSource] assign_frame [where F = queue])
    (simp add: assign_none assign_frame [where F = currentSource] option_setters)

lemma row_rebuilds:
  assumes "db_permissionsRevision row = Some v" "ROOM_PERMISSIONS_REVISION \<le> v"
  obtains r where "new_Room t (row_options accounts row g) = Inr r"
    "r = (restore_prevQueue (assign_options t (row_options accounts row g) (blank_room t g)))
       \<lparr>permissionsRevision := permissionsRevision r,
        userRoles := [(TrustedUser, js_Set (db_role_trusted row)), (Moderator, js_Set (db_role_mod row)),
          (Administrator, js_Set (db_role_admin row))],
        playbackStart := None, votesToSkip := []\<rparr>"
proof -
  have "constructor_grants (row_options accounts row g) = Inr g"
    using assms by (simp add: constructor_grants_def row_options_def bind_result_def or_else_def)
  then show thesis
    by (intro that) (simp_all add: new_Room_def bind_result_def Let_def, simp add: row_options_def or_else_def js_Set_def)
qed

lemma row_room:
  assumes "r = (restore_prevQueue (assign_options t (row_options accounts row g) (blank_room t g)))
       \<lparr>permissionsRevision := v, userRoles := roles, playbackStart := None, votesToSkip := []\<rparr>"
  shows "room_name r = db_name row" "room_title r = db_title row" "room_description r = db_description row"
    "visibility r = db_visibility row" "queueMode r = db_queueMode row" "isTemporary r = False"
    "autoSkipSegmentCategories r = db_autoSkipSegmentCategories row"
    "restoreQueueBehavior r = db_restoreQueueBehavior row" "enableVoteSkip r = db_enableVoteSkip row"
    "bufferGateMode r = db_bufferGateMode row" "danmakuSource r = db_danmakuSource row"
    "passwordHash r = db_passwordHash row" "grants r = g"
    "map_option user_id (owner r) = (case db_ownerId row of None \<Rightarrow> None | Some i \<Rightarrow> map_option user_id (accounts i))"
    "userRoles r = roles"
    "items (queue r) = (if db_restoreQueueBehavior row = Always then or_else (db_prevQueue row) [] else [])"
    "prevQueue r = (if db_restoreQueueBehavior row = Prompt then db_prevQueue row else None)"
proof -
  let ?op = "row_options accounts row g"
  have q: "currentSource (assign_options t ?op (blank_room t g)) = None"
    "items (queue (assign_options t ?op (blank_room t g))) = []"
    by (simp_all add: built_queue row_options_def) (simp_all add: blank_room_def set_owner_def new_VideoQueue_def)
  note built = restore_frames restore_queue [OF q] built_settings assign_options_prevQueue
  show "room_name r = db_name row" "room_title r = db_title row" "room_description r = db_description row"
    "visibility r = db_visibility row" "queueMode r = db_queueMode row" "isTemporary r = False"
    "autoSkipSegmentCategories r = db_autoSkipSegmentCategories row"
    "restoreQueueBehavior r = db_restoreQueueBehavior row" "enableVoteSkip r = db_enableVoteSkip row"
    "bufferGateMode r = db_bufferGateMode row" "danmakuSource r = db_danmakuSource row"
    "passwordHash r = db_passwordHash row" "grants r = g"
    "map_option user_id (owner r) = (case db_ownerId row of None \<Rightarrow> None | Some i \<Rightarrow> map_option user_id (accounts i))"
    "userRoles r = roles"
    "items (queue r) = (if db_restoreQueueBehavior row = Always then or_else (db_prevQueue row) [] else [])"
    "prevQueue r = (if db_restoreQueueBehavior row = Prompt then db_prevQueue row else None)"
    unfolding assms
    by (simp_all add: built)
      (simp_all add: row_options_def or_else_def blank_room_def set_owner_def option.map_comp comp_def split: option.split)
qed

lemma roles_rebuilt:
  "role_in [(TrustedUser, js_Set (stored_role TrustedUser roles)), (Moderator, js_Set (stored_role Moderator roles)),
     (Administrator, js_Set (stored_role Administrator roles))] uid promotable_desc = role_in roles uid promotable_desc"
  by (auto simp: promotable_desc_def stored_role_def split: option.splits)

text \<open>C8.
  A permanent room survives the loss of everything but the database. When it has been saved and
  its playback state checkpointed, loading it under any spelling of its name gives back its
  settings, for every role exactly the permissions the room had, and for every viewer the same
  role; the current video, at the position it had reached, is in front of its queue, which comes
  back at once, on request, or not at all, as the room was told.\<close>

theorem saved_room_reloads:
  assumes "wf_grants (grants r)" "ROOM_PERMISSIONS_REVISION \<le> permissionsRevision r"
    and "saveRoom True r db = Inr (True, db1)"
    and "updateRoom True (room_name r) (checkpoint_settings t r) db1 = (ok, db2)"
    and "list_ex (\<lambda>p. p \<in> set (dirty r)) queueProps"
    and "lower name = lower (room_name r)"
    and "\<And>own. owner r = Some own \<Longrightarrow> map_option user_id (accounts (user_id own)) = Some (user_id own)"
  shows "ok \<and> (\<exists>op r'. getRoomByName True accounts name db2 = Some op \<and> new_Room t' op = Inr r'
    \<and> room_name r' = room_name r \<and> room_title r' = room_title r
    \<and> room_description r' = room_description r \<and> visibility r' = visibility r
    \<and> queueMode r' = queueMode r \<and> autoSkipSegmentCategories r' = autoSkipSegmentCategories r
    \<and> restoreQueueBehavior r' = restoreQueueBehavior r \<and> enableVoteSkip r' = enableVoteSkip r
    \<and> bufferGateMode r' = bufferGateMode r \<and> danmakuSource r' = danmakuSource r
    \<and> (\<forall>role perm. granted (grants r') role perm = granted (grants r) role perm)
    \<and> (\<forall>u. getRole r' u = getRole r u)
    \<and> items (queue r') = (if restoreQueueBehavior r = Always then or_else (queueSnapshot t r) [] else [])
    \<and> prevQueue r' = (if restoreQueueBehavior r = Prompt then queueSnapshot t r else None))"
proof -
  obtain h where h: "new_Grants (FromArray (entries (grantsFiltered (grants r)))) = Inr h" "wf_grants h"
    "\<And>s. mask_of h s = mask_of (grants r) s" using stored_grants [OF assms(1)] by blast
  define row where "row = (roomToDb r)\<lparr>db_prevQueue := queueSnapshot t r\<rparr>"
  have f: "db_name row = room_name r" "db_title row = room_title r" "db_description row = room_description r"
    "db_visibility row = visibility r" "db_queueMode row = queueMode r"
    "db_ownerId row = map_option user_id (owner r)" "db_role_trusted row = stored_role TrustedUser (userRoles r)"
    "db_role_mod row = stored_role Moderator (userRoles r)" "db_role_admin row = stored_role Administrator (userRoles r)"
    "db_autoSkipSegmentCategories row = autoSkipSegmentCategories r" "db_prevQueue row = queueSnapshot t r"
    "db_restoreQueueBehavior row = restoreQueueBehavior r" "db_enableVoteSkip row = enableVoteSkip r"
    "db_bufferGateMode row = bufferGateMode r" "db_danmakuSource row = danmakuSource r"
    and perms: "db_permissions row = entries (grantsFiltered (grants r))"
    and rev: "db_permissionsRevision row = Some (permissionsRevision r)"
    by (simp_all add: row_def roomToDb_def)
  have row: "write_columns (roomToDbPartial (checkpoint_settings t r)) (roomToDb r) = row"
    using assms(5) by (simp add: checkpoint_row row_def)
  note sv = saved_row [OF assms(3,4,6), unfolded row, OF f(1)]
  have op: "getRoomByName True accounts name db2 = Some (row_options accounts row h)"
    by (simp add: getRoomByName_def sv(2) dbToRoomArgs_def bind_result_def perms h(1))
  have own: "(case db_ownerId row of None \<Rightarrow> None | Some i \<Rightarrow> map_option user_id (accounts i)) = map_option user_id (owner r)"
    using assms(7) by (cases "owner r") (simp_all add: f)
  obtain r' where r': "new_Room t' (row_options accounts row h) = Inr r'" and built:
    "r' = (restore_prevQueue (assign_options t' (row_options accounts row h) (blank_room t' h)))
       \<lparr>permissionsRevision := permissionsRevision r',
        userRoles := [(TrustedUser, js_Set (db_role_trusted row)), (Moderator, js_Set (db_role_mod row)),
          (Administrator, js_Set (db_role_admin row))],
        playbackStart := None, votesToSkip := []\<rparr>"
    by (rule row_rebuilds [OF rev assms(2)])
  note same = row_room [OF built, unfolded own, unfolded f]
  have "getRole r' u = getRole r u" for u
    using same(14) by (auto simp: getRole_def isOwner_def same(15) roles_rebuilt split: option.splits)
  moreover have "granted (grants r') role perm = granted (grants r) role perm" for role perm
    by (simp add: granted_iff same h(3))
  ultimately show ?thesis using sv(1) op r' same by (intro conjI exI) (assumption | blast)+
qed

definition saved_sample :: Room where
  "saved_sample = sample_room\<lparr>room_name := ''Lobby'', permissionsRevision := 1, dirty := [Pqueue]\<rparr>"

lemma saved_sample_row: "valid_row (roomToDb saved_sample)"
proof -
  have "db_name (roomToDb saved_sample) = ''Lobby''" by (simp add: roomToDb_def saved_sample_def)
  then show ?thesis by (simp add: valid_row_def ROOM_NAME_REGEX_def room_name_char_def)
qed

theorem saved_room_reloads_witness:
  "\<exists>op r'. getRoomByName True (\<lambda>_. None) ''lobby''
         (snd (updateRoom True ''Lobby'' (checkpoint_settings 5000 saved_sample) [roomToDb saved_sample])) = Some op
     \<and> new_Room 9000 op = Inr r'
     \<and> items (queue r') = [(sample_video ''a'')\<lparr>v_startAt := Some 5\<rparr>, sample_video ''b'', sample_video ''c'']"
proof -
  have n: "room_name saved_sample = ''Lobby''" by (simp add: saved_sample_def)
  have "saveRoom True saved_sample [] = Inr (True, [] @ [roomToDb saved_sample])"
    using saved_sample_row by (simp add: saveRoom_def isRoomNameTaken_def)
  moreover have "wf_grants (grants saved_sample)" "ROOM_PERMISSIONS_REVISION \<le> permissionsRevision saved_sample"
    "list_ex (\<lambda>p. p \<in> set (dirty saved_sample)) queueProps" "owner saved_sample = None"
    by (simp_all add: saved_sample_def wf_default ROOM_PERMISSIONS_REVISION_def queueProps_def)
  moreover have "lower ''lobby'' = lower (room_name saved_sample)"
    unfolding n by code_simp
  ultimately obtain op r' where "getRoomByName True (\<lambda>_. None) ''lobby''
         (snd (updateRoom True ''Lobby'' (checkpoint_settings 5000 saved_sample) [roomToDb saved_sample])) = Some op"
    "new_Room 9000 op = Inr r'"
    "items (queue r') = (if restoreQueueBehavior saved_sample = Always then or_else (queueSnapshot 5000 saved_sample) [] else [])"
    using saved_room_reloads [of saved_sample "[]" "[roomToDb saved_sample]" 5000
        "fst (updateRoom True ''Lobby'' (checkpoint_settings 5000 saved_sample) [roomToDb saved_sample])"
        "snd (updateRoom True ''Lobby'' (checkpoint_settings 5000 saved_sample) [roomToDb saved_sample])" "''lobby''" "\<lambda>_. None" 9000]
    by (auto simp: n)
  moreover have "restoreQueueBehavior saved_sample = Always" "queueSnapshot 5000 saved_sample =
      Some [(sample_video ''a'')\<lparr>v_startAt := Some 5\<rparr>, sample_video ''b'', sample_video ''c'']"
    by (simp_all add: saved_sample_def queueSnapshot_def realPlaybackPosition_def calcDurationFromPlaybackStart_def
        calculateCurrentPosition_def) (simp add: sample_room_def blank_room_def set_owner_def markDirty_def)
  ultimately show ?thesis by (auto simp: or_else_def)
qed

end
