(* ===== verification/RoomPassword.thy ===== *)
theory RoomPassword
  imports RoomStorage
begin

text \<open>
  \<^verbatim>\<open>server/room-password.ts\<close>: setting and checking the password of a room, the grants that let a
  token in for a day, the counter of wrong attempts, and the two slots in which passwords are
  hashed. Argon2, SHA-256 and the limiter package are parameters. The keys of the grants in
  Redis are the map from a key to the instant it expires.
\<close>

section \<open>Setting and checking\<close>

text \<open>\<open>hash\<close> is \<^verbatim>\<open>null\<close> to clear the password, or what Argon2 made of the new one.\<close>

definition setRoomPassword :: "bool \<Rightarrow> string option \<Rightarrow> Room \<Rightarrow> room_table \<Rightarrow> ott_error option \<times> Room \<times> room_table" where
  "setRoomPassword up hash r db =
     (if isTemporary r then (None, setPasswordHash hash r, db)
      else (let (updated, db1) = updateRoomPassword up (room_name r) hash db in
            if updated then (None, setPasswordHash hash r, db1)
            else (Some (GenericError ''Failed to persist the password''), r, db1)))"

text \<open>\<open>verify\<close> is \<^verbatim>\<open>argon2.verify\<close>; \<open>None\<close> is a rejection for a hash it cannot read.\<close>

definition verifyRoomPassword :: "(string \<Rightarrow> string \<Rightarrow> bool option) \<Rightarrow> Room \<Rightarrow> string \<Rightarrow> bool" where
  "verifyRoomPassword verify r password =
     (if \<not> truthy_str (passwordHash r) then True
      else case verify (the (passwordHash r)) password of None \<Rightarrow> False | Some b \<Rightarrow> b)"

section \<open>Grants\<close>

definition GRANT_TTL_SECONDS :: int where
  "GRANT_TTL_SECONDS = 60 * 60 * 24"

text \<open>\<open>sha\<close> gives the hexadecimal digest, of which the key has sixteen digits.\<close>

definition grant_version :: "(string \<Rightarrow> string) \<Rightarrow> Room \<Rightarrow> string" where
  "grant_version sha r = take 16 (sha (case passwordHash r of None \<Rightarrow> [] | Some h \<Rightarrow> h))"

definition grantKey :: "(string \<Rightarrow> string) \<Rightarrow> Room \<Rightarrow> AuthToken \<Rightarrow> string" where
  "grantKey sha r token =
     ''room-password:'' @ room_name r @ '':'' @ grant_version sha r @ '':'' @ token"

definition grantRoomAccess :: "(string \<Rightarrow> string) \<Rightarrow> int \<Rightarrow> Room \<Rightarrow> AuthToken \<Rightarrow> (string \<rightharpoonup> int) \<Rightarrow> (string \<rightharpoonup> int)" where
  "grantRoomAccess sha t r token store = store(grantKey sha r token \<mapsto> t + GRANT_TTL_SECONDS * 1000)"

definition key_exists :: "int \<Rightarrow> string \<Rightarrow> (string \<rightharpoonup> int) \<Rightarrow> bool" where
  "key_exists t k store = (case store k of None \<Rightarrow> False | Some expiry \<Rightarrow> t < expiry)"

definition hasRoomAccess :: "(string \<Rightarrow> string) \<Rightarrow> int \<Rightarrow> Room \<Rightarrow> AuthToken option \<Rightarrow> SessionInfo option
    \<Rightarrow> (string \<rightharpoonup> int) \<Rightarrow> bool" where
  "hasRoomAccess sha t r token session store =
     (if \<not> truthy_str (passwordHash r) then True
      else if (case (session, owner r) of
                 (Some (SessionUser uid), Some own) \<Rightarrow> user_id own = uid
               | _ \<Rightarrow> False) then True
      else if \<not> truthy_str token then False
      else key_exists t (grantKey sha r (the token)) store)"

section \<open>Wrong attempts\<close>

definition MAX_WRONG_ATTEMPTS :: nat where
  "MAX_WRONG_ATTEMPTS = 10"

definition limiterKey :: "string \<Rightarrow> string \<Rightarrow> string" where
  "limiterKey roomName ip = roomName @ ''_'' @ ip"

text \<open>
  An attempt against the limiter: it resolves with the points consumed so far and the
  milliseconds to the next window, rejects with the milliseconds a blocked key has to wait, or
  fails.
\<close>

datatype limiter_answer = Consumed nat int | Blocked int | StoreError

text \<open>\<^verbatim>\<open>Math.round(ms / 1000) || 1\<close>: the nearest second, halves upwards, and never zero.\<close>

definition retry_seconds :: "int \<Rightarrow> int" where
  "retry_seconds ms = (let s = (ms + 500) div 1000 in if s = 0 then 1 else s)"

definition consumeRoomPasswordAttempt :: "bool \<Rightarrow> (string \<Rightarrow> limiter_answer) \<Rightarrow> string \<Rightarrow> string \<Rightarrow> int" where
  "consumeRoomPasswordAttempt enabled consume roomName ip =
     (if \<not> enabled then 0
      else case consume (limiterKey roomName ip) of
          Consumed points ms \<Rightarrow> if MAX_WRONG_ATTEMPTS < points then retry_seconds ms else 0
        | StoreError \<Rightarrow> 0
        | Blocked ms \<Rightarrow> retry_seconds ms)"

section \<open>Hash slots\<close>

definition MAX_CONCURRENT_PASSWORD_HASHES :: nat where
  "MAX_CONCURRENT_PASSWORD_HASHES = 2"

text \<open>
  \<^verbatim>\<open>withPasswordHashSlot\<close> between its awaits. A call arrives and enters a slot or waits; a call
  that is done gives its slot up and wakes the first waiter; the woken call enters its slot when
  its continuation runs. \<open>woken\<close> counts the calls between the last two.
\<close>

record slots =
  activePasswordHashes :: nat
  passwordHashWaiters :: nat
  woken :: nat

datatype slot_event = Arrive | Finish | Resume

fun slot_step :: "slots \<Rightarrow> slot_event \<Rightarrow> slots" where
  "slot_step s Arrive =
     (if MAX_CONCURRENT_PASSWORD_HASHES \<le> activePasswordHashes s
      then s\<lparr>passwordHashWaiters := Suc (passwordHashWaiters s)\<rparr>
      else s\<lparr>activePasswordHashes := Suc (activePasswordHashes s)\<rparr>)"
| "slot_step s Finish =
     (if activePasswordHashes s = 0 then s
      else if passwordHashWaiters s = 0 then s\<lparr>activePasswordHashes := activePasswordHashes s - 1\<rparr>
      else s\<lparr>activePasswordHashes := activePasswordHashes s - 1,
             passwordHashWaiters := passwordHashWaiters s - 1, woken := Suc (woken s)\<rparr>)"
| "slot_step s Resume =
     (if woken s = 0 then s
      else s\<lparr>woken := woken s - 1, activePasswordHashes := Suc (activePasswordHashes s)\<rparr>)"

definition no_slots :: slots where
  "no_slots = \<lparr>activePasswordHashes = 0, passwordHashWaiters = 0, woken = 0\<rparr>"

text \<open>
  A schedule in which a woken call resumes before any other call arrives, which is what the
  microtask queue gives when nothing else is in it.
\<close>

fun prompt :: "slots \<Rightarrow> slot_event list \<Rightarrow> bool" where
  "prompt s [] = True"
| "prompt s (ev # evs) = ((ev = Arrive \<longrightarrow> woken s = 0) \<and> prompt (slot_step s ev) evs)"

definition slots_inv :: "slots \<Rightarrow> bool" where
  "slots_inv s \<longleftrightarrow>
     activePasswordHashes s + woken s \<le> MAX_CONCURRENT_PASSWORD_HASHES
     \<and> (0 < passwordHashWaiters s \<longrightarrow> activePasswordHashes s + woken s = MAX_CONCURRENT_PASSWORD_HASHES)"

lemma slots_step_inv:
  "slots_inv s \<Longrightarrow> (ev = Arrive \<Longrightarrow> woken s = 0) \<Longrightarrow> slots_inv (slot_step s ev)"
  by (cases ev) (auto simp: slots_inv_def MAX_CONCURRENT_PASSWORD_HASHES_def)

lemma slots_run_inv: "slots_inv s \<Longrightarrow> prompt s evs \<Longrightarrow> slots_inv (foldl slot_step s evs)"
  by (induction evs arbitrary: s) (auto intro: slots_step_inv)

text \<open>The two slots in which passwords are hashed. As long as a woken call resumes before the next one
  arrives, at most two hashes run at once, and nobody waits while a slot is free. The code
  relies on that order: it frees the slot before the woken call takes it, so a call that arrives in
  between takes the same slot, and with it a third hash runs.\<close>

lemma hash_slots:
  "(\<forall>evs. prompt no_slots evs \<longrightarrow>
      activePasswordHashes (foldl slot_step no_slots evs) \<le> 2
      \<and> (0 < passwordHashWaiters (foldl slot_step no_slots evs) \<longrightarrow>
          activePasswordHashes (foldl slot_step no_slots evs) + woken (foldl slot_step no_slots evs) = 2))
   \<and> activePasswordHashes (foldl slot_step no_slots [Arrive, Arrive, Arrive, Finish, Arrive, Resume]) = 3"
proof -
  have "slots_inv no_slots" by (simp add: slots_inv_def no_slots_def)
  then have "prompt no_slots evs \<Longrightarrow> slots_inv (foldl slot_step no_slots evs)" for evs
    by (rule slots_run_inv)
  then show ?thesis
    by (fastforce simp: slots_inv_def MAX_CONCURRENT_PASSWORD_HASHES_def no_slots_def)
qed

section \<open>A grant opens one room, for one token, under one password\<close>

lemma regex_no_colon: "ROOM_NAME_REGEX n \<Longrightarrow> CHR '':'' \<notin> set n"
  by (auto simp: ROOM_NAME_REGEX_def list_all_iff room_name_char_def)

lemma grantKey_inject:
  assumes "grantKey sha r token = grantKey sha r' token'" "\<And>x. 16 \<le> length (sha x)"
    and "ROOM_NAME_REGEX (room_name r)" "ROOM_NAME_REGEX (room_name r')"
  shows "room_name r = room_name r' \<and> grant_version sha r = grant_version sha r' \<and> token = token'"
proof -
  have l: "length (grant_version sha x) = 16" for x using assms(2) by (simp add: grant_version_def)
  have "room_name r @ CHR '':'' # (grant_version sha r @ '':'' @ token)
      = room_name r' @ CHR '':'' # (grant_version sha r' @ '':'' @ token')"
    using assms(1) by (simp add: grantKey_def)
  from split_first [OF this] assms(3,4) regex_no_colon
  have "room_name r = room_name r'" "grant_version sha r @ '':'' @ token = grant_version sha r' @ '':'' @ token'"
    by blast+
  then show ?thesis using l by (metis append_eq_append_conv same_append_eq)
qed

definition is_owner_session :: "Room \<Rightarrow> SessionInfo option \<Rightarrow> bool" where
  "is_owner_session r session \<longleftrightarrow>
     (case (session, owner r) of (Some (SessionUser uid), Some own) \<Rightarrow> user_id own = uid | _ \<Rightarrow> False)"

lemma access_iff:
  "hasRoomAccess sha t r (Some token) session store \<longleftrightarrow>
     \<not> truthy_str (passwordHash r) \<or> is_owner_session r session
     \<or> token \<noteq> [] \<and> key_exists t (grantKey sha r token) store"
  by (simp add: hasRoomAccess_def is_owner_session_def)

lemma old_grants_useless:
  assumes "\<And>tok tok'. grantKey sha r1 tok \<noteq> grantKey sha r tok'"
  shows "(foldl (\<lambda>s (t0, tok). grantRoomAccess sha t0 r tok s) store gs) (grantKey sha r1 token) = store (grantKey sha r1 token)"
  using assms by (induction gs arbitrary: store) (auto simp: grantRoomAccess_def)

text \<open>C11.
  Who knows the password gets in for a day, and a new password shuts everybody out. A token that
  was granted access has it for 24 hours; once the password is changed, no grant given
  under the old one opens the room, whatever tokens it was given to and when, except that the owner
  always may enter. (The digests of the two hashes are assumed to differ in their first sixteen
  digits.)\<close>

theorem password_change_revokes:
  assumes "setRoomPassword up (Some h) r db = (None, r1, db1)" "h \<noteq> []"
    and "grant_version sha r1 \<noteq> grant_version sha r" "\<And>x. 16 \<le> length (sha x)"
    and "ROOM_NAME_REGEX (room_name r)" "\<And>tok. store (grantKey sha r1 tok) = None"
  shows "(t < t0 + 86400000 \<longrightarrow> token \<noteq> [] \<longrightarrow>
      hasRoomAccess sha t r (Some token) session (grantRoomAccess sha t0 r token store))
    \<and> hasRoomAccess sha t r1 (Some token) session (foldl (\<lambda>s (t0, tok). grantRoomAccess sha t0 r tok s) store gs)
      = is_owner_session r session"
proof -
  have r1: "room_name r1 = room_name r" "owner r1 = owner r" "passwordHash r1 = Some h"
    using assms(1) by (auto simp: setRoomPassword_def setPasswordHash_def markDirty_def split: if_splits prod.splits)
  have "grantKey sha r1 tok \<noteq> grantKey sha r tok'" for tok tok'
    using grantKey_inject [of sha r1 tok r tok'] assms(3,4,5) r1(1) by metis
  from old_grants_useless [of sha r1 r, OF this] show ?thesis
    using assms(2,6) by (auto simp: access_iff r1 is_owner_session_def grantRoomAccess_def
        key_exists_def GRANT_TTL_SECONDS_def)
qed

text \<open>A stand-in for the digest: long enough, and different on the two hashes.\<close>

definition sample_sha :: "string \<Rightarrow> string" where
  "sample_sha x = take 16 (x @ replicate 16 CHR ''0'')"

theorem password_change_revokes_witness:
  "\<not> hasRoomAccess sample_sha 5000 (setPasswordHash (Some ''hash-b'') (sample_room\<lparr>room_name := ''lobby'', isTemporary := True, passwordHash := Some ''hash-a''\<rparr>))
      (Some ''token'') None
      (grantRoomAccess sample_sha 0 (sample_room\<lparr>room_name := ''lobby'', isTemporary := True, passwordHash := Some ''hash-a''\<rparr>) ''token'' Map.empty)"
proof -
  let ?r = "sample_room\<lparr>room_name := ''lobby'', isTemporary := True, passwordHash := Some ''hash-a''\<rparr>"
  have "ROOM_NAME_REGEX ''lobby''" by (simp add: ROOM_NAME_REGEX_def room_name_char_def)
  moreover have "grant_version sample_sha (setPasswordHash (Some ''hash-b'') ?r) \<noteq> grant_version sample_sha ?r"
    by (simp add: grant_version_def sample_sha_def setPasswordHash_def markDirty_def)
  ultimately show ?thesis
    using password_change_revokes [where r = ?r and h = "''hash-b''" and sha = sample_sha and up = True and db = "[]" and ?db1.0 = "[]"
        and ?r1.0 = "setPasswordHash (Some ''hash-b'') ?r" and store = Map.empty and t = 5000 and token = "''token''"
        and session = None and gs = "[(0, ''token'')]"]
    by (simp add: setRoomPassword_def sample_sha_def is_owner_session_def)
qed

end
