(* ===== verification/RoomIdentity.thy ===== *)
theory RoomIdentity
  imports RoomSafety
begin

text \<open>
  The name of a room, whether it is temporary, and its password are not the business of any
  request, tick or timer: no event but the change of the password itself touches them.
\<close>

definition kept :: "string \<times> bool \<times> string option \<Rightarrow> Room \<Rightarrow> bool" where
  "kept idn r \<longleftrightarrow> (room_name r, isTemporary r, passwordHash r) = idn"

lemma kept_upd [simp]:
  "kept idn (r\<lparr>room_title := v0\<rparr>) = kept idn r"
  "kept idn (r\<lparr>room_description := v1\<rparr>) = kept idn r"
  "kept idn (r\<lparr>visibility := v2\<rparr>) = kept idn r"
  "kept idn (r\<lparr>queueMode := v3\<rparr>) = kept idn r"
  "kept idn (r\<lparr>owner := v4\<rparr>) = kept idn r"
  "kept idn (r\<lparr>grants := v5\<rparr>) = kept idn r"
  "kept idn (r\<lparr>userRoles := v6\<rparr>) = kept idn r"
  "kept idn (r\<lparr>autoSkipSegmentCategories := v7\<rparr>) = kept idn r"
  "kept idn (r\<lparr>restoreQueueBehavior := v8\<rparr>) = kept idn r"
  "kept idn (r\<lparr>enableVoteSkip := v9\<rparr>) = kept idn r"
  "kept idn (r\<lparr>bufferGateMode := v10\<rparr>) = kept idn r"
  "kept idn (r\<lparr>danmakuSource := v11\<rparr>) = kept idn r"
  "kept idn (r\<lparr>bufferGateExhausted := v12\<rparr>) = kept idn r"
  "kept idn (r\<lparr>pendingLeaveEvents := v13\<rparr>) = kept idn r"
  "kept idn (r\<lparr>permissionsRevision := v14\<rparr>) = kept idn r"
  "kept idn (r\<lparr>bufferGate := v15\<rparr>) = kept idn r"
  "kept idn (r\<lparr>lastPlayAt := v16\<rparr>) = kept idn r"
  "kept idn (r\<lparr>bufferGateCooldownUntil := v17\<rparr>) = kept idn r"
  "kept idn (r\<lparr>restoredFromStorage := v18\<rparr>) = kept idn r"
  "kept idn (r\<lparr>currentSource := v19\<rparr>) = kept idn r"
  "kept idn (r\<lparr>queue := v20\<rparr>) = kept idn r"
  "kept idn (r\<lparr>prevQueue := v21\<rparr>) = kept idn r"
  "kept idn (r\<lparr>isPlaying := v22\<rparr>) = kept idn r"
  "kept idn (r\<lparr>playbackPosition := v23\<rparr>) = kept idn r"
  "kept idn (r\<lparr>playbackSpeed := v24\<rparr>) = kept idn r"
  "kept idn (r\<lparr>temporarySpeed := v25\<rparr>) = kept idn r"
  "kept idn (r\<lparr>temporarySpeedTimer := v26\<rparr>) = kept idn r"
  "kept idn (r\<lparr>playbackStartTimer := v27\<rparr>) = kept idn r"
  "kept idn (r\<lparr>playbackPreparation := v28\<rparr>) = kept idn r"
  "kept idn (r\<lparr>resumeOnNextJoin := v29\<rparr>) = kept idn r"
  "kept idn (r\<lparr>realusers := v30\<rparr>) = kept idn r"
  "kept idn (r\<lparr>votes := v31\<rparr>) = kept idn r"
  "kept idn (r\<lparr>videoSegments := v32\<rparr>) = kept idn r"
  "kept idn (r\<lparr>votesToSkip := v33\<rparr>) = kept idn r"
  "kept idn (r\<lparr>dirty := v34\<rparr>) = kept idn r"
  "kept idn (r\<lparr>recentEvents := v35\<rparr>) = kept idn r"
  "kept idn (r\<lparr>playbackStart := v36\<rparr>) = kept idn r"
  "kept idn (r\<lparr>keepAlivePing := v37\<rparr>) = kept idn r"
  "kept idn (r\<lparr>wantSponsorBlock := v38\<rparr>) = kept idn r"
  "kept idn (r\<lparr>dontSkipSegmentsUntil := v39\<rparr>) = kept idn r"
  "kept idn (r\<lparr>db_notes := v40\<rparr>) = kept idn r"
  "kept idn (r\<lparr>outbox := v41\<rparr>) = kept idn r"
  "kept idn (r\<lparr>commands := v42\<rparr>) = kept idn r"
  by (simp_all add: kept_def)

lemma kept_markDirty [simp]: "kept idn (markDirty p r) = kept idn r"
  by (simp add: markDirty_def)

lemma kept_setters [simp]:
  "kept idn (set_title v1 r) = kept idn r" "kept idn (set_description v2 r) = kept idn r"
  "kept idn (set_visibility v3 r) = kept idn r" "kept idn (set_queueMode v4 r) = kept idn r"
  "kept idn (set_autoSkipSegmentCategories v5 r) = kept idn r" "kept idn (set_playbackPosition v6 r) = kept idn r"
  "kept idn (set_playbackSpeed v7 r) = kept idn r" "kept idn (set_videoSegments v8 r) = kept idn r"
  "kept idn (set_prevQueue v9 r) = kept idn r" "kept idn (set_enableVoteSkip v10 r) = kept idn r"
  "kept idn (set_bufferGateMode v11 r) = kept idn r" "kept idn (set_danmakuSource v12 r) = kept idn r"
  "kept idn (changed_queue q r) = kept idn r" "kept idn (flushPlaybackPosition t r) = kept idn r"
  "kept idn (clearPlaybackStartTimer r) = kept idn r" "kept idn (publish msg r) = kept idn r"
  "kept idn (command cmd r) = kept idn r" "kept idn (record_event ev r) = kept idn r"
  by (simp_all add: set_title_def set_description_def set_visibility_def set_queueMode_def
      set_autoSkipSegmentCategories_def set_playbackPosition_def set_playbackSpeed_def set_videoSegments_def
      set_prevQueue_def set_enableVoteSkip_def set_bufferGateMode_def set_danmakuSource_def changed_queue_def
      flushPlaybackPosition_def clearPlaybackStartTimer_def publish_def command_def record_event_def Let_def)

lemma kept_renew [simp]: "kept idn (renewTemporaryPlaybackSpeed t r) = kept idn r"
  by (simp add: renewTemporaryPlaybackSpeed_def)

lemma kept_publishRoomEvent [simp]: "kept idn (publishRoomEvent req c add u r) = kept idn r"
  by (simp add: publishRoomEvent_def Let_def split: option.split sum.split)

lemma kept_endTemporary [keeps]:
  "kept idn r \<Longrightarrow> kept idn (endTemporaryPlaybackSpeed t b r)"
  by (auto simp: endTemporaryPlaybackSpeed_def Let_def intro!: keeps split: option.split)

lemma kept_cancel [keeps]: "kept idn r \<Longrightarrow> kept idn (cancelPlaybackPreparation r)"
  by (auto simp: cancelPlaybackPreparation_def Let_def intro!: keeps)

lemma kept_source [keeps]:
  "kept idn r \<Longrightarrow> kept idn (set_currentSource t v r)"
  by (auto simp: set_currentSource_def Let_def intro!: keeps)

lemma kept_playing [keeps]: "kept idn r \<Longrightarrow> kept idn (set_isPlaying t v r)"
  by (auto simp: set_isPlaying_def Let_def intro!: keeps)

lemma kept_play [keeps]:
  assumes "kept idn r"
  shows "kept idn (play t r)" "kept idn (pausePlaybackClock t r)"
    "kept idn (pause t b r)" "kept idn (seekRaw t x r)"
  using assms
  by (auto simp: play_def pausePlaybackClock_def pause_def seekRaw_def Let_def intro!: keeps)

lemma kept_prepared [keeps]:
  "kept idn r \<Longrightarrow> kept idn (startPreparedPlayback t r)"
  by (auto simp: startPreparedPlayback_def Let_def intro!: keeps split: option.split)

lemma kept_schedule [keeps]:
  "kept idn r \<Longrightarrow> kept idn (schedulePlaybackStart t f r)"
  by (auto simp: schedulePlaybackStart_def Let_def intro!: keeps split: option.split)

lemma kept_drop [keeps]:
  "kept idn r \<Longrightarrow> kept idn (dropPlaybackParticipant t cid r)"
  by (auto simp: dropPlaybackParticipant_def Let_def intro!: keeps split: option.split list.split)

lemma kept_refresh [keeps]:
  "kept idn r \<Longrightarrow> kept idn (refreshPlaybackPreparation r)"
  by (auto simp: refreshPlaybackPreparation_def cancelPlaybackPreparation_def
      clearPlaybackStartTimer_def Let_def intro!: keeps split: option.split list.split)

lemma kept_prepare [keeps]:
  "kept idn r \<Longrightarrow> kept idn (prepareEmptyRoomPlayback e r)"
  by (auto simp: prepareEmptyRoomPlayback_def intro!: keeps split: option.split list.split)

lemma kept_hold [keeps]:
  assumes "kept idn r"
  shows "kept idn (holdPlaybackForPreparation e r)" "kept idn (holdEmptyPlaybackForJoin t b r)"
  using assms
  by (auto simp: holdPlaybackForPreparation_def holdEmptyPlaybackForJoin_def Let_def intro!: keeps)

lemma kept_finish [keeps]:
  "kept idn r \<Longrightarrow> kept idn (finishPlaybackPreparation t cid s pd r)"
  by (auto simp: finishPlaybackPreparation_def Let_def intro!: keeps split: option.split)

lemma kept_gate [keeps]:
  "kept idn r \<Longrightarrow> kept idn (releaseBufferGate t b r)"
  by (auto simp: releaseBufferGate_def Let_def intro!: keeps split: option.split)

lemma kept_evaluate [keeps]:
  "kept idn r \<Longrightarrow> kept idn (evaluateBufferGate t r)"
  by (auto simp: evaluateBufferGate_def Let_def intro!: keeps split: option.split)

lemma kept_dequeued [keeps]:
  assumes "kept idn r"
  shows "kept idn (start_dequeued e r)" "kept idn (clear_source e r)"
    "kept idn (finish_dequeue e r)" "kept idn (clear_for_dequeue e r)"
  using assms
  by (auto simp: start_dequeued_def clear_source_def finish_dequeue_def clear_for_dequeue_def
      Let_def intro!: keeps)

lemma kept_take_next [keeps]: "kept idn r \<Longrightarrow> kept idn (take_next e r)"
  by (auto simp: take_next_def Let_def intro!: keeps split: option.split prod.split)

lemma kept_dequeueNext [keeps]: "kept idn r \<Longrightarrow> kept idn (dequeueNext e r)"
  by (auto simp: dequeueNext_def dequeue_by_mode_def Let_def intro!: keeps split: option.split)

lemma kept_apply_queue: "kept idn r \<Longrightarrow> kept idn (snd (apply_queue changed res r))"
  by (auto simp: apply_queue_def intro!: keeps split: sum.split)

lemma kept_guard [keeps]: "kept idn r \<Longrightarrow> kept idn (snd (guard err r))"
  by (simp add: guard_def)

lemmas kept_seq = seq_keeps [where I = "kept idn" for idn]

lemma kept_add [keeps]: "kept idn r \<Longrightarrow> kept idn (snd (addToQueue e v vs url c r))"
  by (auto simp: addToQueue_def add_commit_def commit_one_def commit_many_def Let_def
      intro!: keeps kept_seq kept_apply_queue split: sum.split pending_add.split list.split)

lemma kept_update [keeps]: "kept idn r \<Longrightarrow> kept idn (snd (updateQueueItem e v u c r))"
  by (auto simp: updateQueueItem_def intro!: keeps kept_seq kept_apply_queue split: sum.split)

lemma kept_remove [keeps]: "kept idn r \<Longrightarrow> kept idn (snd (removeFromQueue v c r))"
  by (auto simp: removeFromQueue_def Let_def intro!: keeps split: sum.split)

lemma kept_reorder [keeps]: "kept idn r \<Longrightarrow> kept idn (snd (reorderQueue i j r))"
  by (auto simp: reorderQueue_def move_def intro!: kept_apply_queue split: if_splits)

lemma kept_vote [keeps]: "kept idn r \<Longrightarrow> kept idn (snd (vote v a c r))"
  by (simp add: vote_def Let_def)

lemma kept_shuffle [keeps]: "kept idn r \<Longrightarrow> kept idn (snd (shuffle_queue e c r))"
  by (auto simp: shuffle_queue_def intro!: keeps kept_seq kept_apply_queue)

lemma kept_restore [keeps]: "kept idn r \<Longrightarrow> kept idn (snd (restoreQueue d c r))"
  by (auto simp: restoreQueue_def enqueue_def set_items_def markDirty_queue_def
      intro!: keeps kept_seq kept_apply_queue split: option.split)

lemma kept_playNow_parts:
  assumes "kept idn r"
  shows "kept idn (snd (requeue_current e r))" "kept idn (playNow_start e v r)"
  using assms
  by (auto simp: requeue_current_def playNow_start_def Let_def intro!: keeps kept_apply_queue split: option.split)

lemma kept_take: "kept idn r \<Longrightarrow> playNow_take e v r = Inr (w, r1) \<Longrightarrow> kept idn r1"
  by (auto simp: playNow_take_def bind_result_def split: sum.splits if_splits)

lemma kept_playNow [keeps]:
  assumes "kept idn r"
  shows "kept idn (snd (playNow e v c r))"
proof -
  have "kept idn (snd (case playNow_take e v a of Inl err \<Rightarrow> (Some err, a)
      | Inr (video, r1) \<Rightarrow> seq (requeue_current e r1) (\<lambda>r2. (None, playNow_start e video r2))))"
    if "kept idn a" for a
    using that kept_take [OF that]
    by (auto intro!: kept_seq kept_playNow_parts split: sum.split)
  with assms show ?thesis
    unfolding playNow_def by (auto intro!: kept_seq kept_guard split: option.split)
qed

lemma kept_syncUser [keeps]: "kept idn r \<Longrightarrow> kept idn (syncUser i r)"
  by (simp add: syncUser_def)

lemma kept_sync_client [keeps]: "kept idn r \<Longrightarrow> kept idn (snd (sync_client cid r))"
  by (auto simp: sync_client_def intro!: keeps split: sum.split)

lemma kept_noteJoin [keeps]: "kept idn r \<Longrightarrow> kept idn (snd (noteJoin tok cid r))"
  by (auto simp: noteJoin_def split: option.split)

lemma kept_join [keeps]: "kept idn r \<Longrightarrow> kept idn (snd (joinRoom e i b c r))"
proof -
  have noted: "kept idn r3" if "noteJoin tok cid r2 = (b, r3)" "kept idn r2" for tok cid r2 b r3
    using kept_noteJoin [OF that(2), of tok cid] that(1) by simp
  assume "kept idn r"
  then show ?thesis
    by (auto simp: joinRoom_def resume_or_prepare_def Let_def intro!: keeps
        split: option.split prod.split elim!: noted)
qed

lemma kept_votes [keeps]: "kept idn r \<Longrightarrow> kept idn (withdraw_votes cid r)"
  by (auto simp: withdraw_votes_def Let_def intro!: keeps)

lemma kept_leave_event [keeps]:
  "kept idn r \<Longrightarrow> kept idn (publishLeaveEvent t c u tok r)"
  "kept idn r \<Longrightarrow> kept idn (leave_timer token r)"
  by (auto simp: publishLeaveEvent_def leave_timer_def Let_def intro!: keeps split: option.split)

lemma kept_user_requests [keeps]:
  assumes "kept idn r"
  shows "kept idn (snd (updateUser e i pd r))" "kept idn (snd (chat txt c r))"
    "kept idn (snd (promoteUser tgt role c r))" "kept idn (snd (kickUser cid c r))"
    "kept idn (snd (setGrants e g r))"
  using assms
  by (auto simp: updateUser_def chat_def promoteUser_def kickUser_def setGrants_def Let_def
      intro!: keeps kept_seq split: option.split prod.split js_value.split sum.split)

lemma kept_notes [keeps]:
  assumes "kept idn r"
  shows "kept idn (snd (addNote e txt c r))" "kept idn (snd (deleteNote i r))"
  using assms
  by (auto simp: addNote_def deleteNote_def publishNotes_def insert_note_def delete_note_def Let_def
      split: option.split js_value.split sum.split)

lemma kept_assign [keeps]:
  assumes "\<And>x a. kept idn a \<Longrightarrow> kept idn (setter x a)" and "kept idn r"
  shows "kept idn (assign setter v r)"
  using assms by (auto simp: assign_def split: option.split)

lemma kept_apply_grants: "kept idn r \<Longrightarrow> kept idn (snd (apply_grants gs r))"
  by (induction gs r rule: apply_grants.induct) (auto split: sum.split)

lemma kept_settings [keeps]: "kept idn r \<Longrightarrow> kept idn (snd (applySettings e s c r))"
  by (auto simp: applySettings_def assign_settings_def Let_def
      intro!: keeps kept_seq kept_apply_grants split: prod.split)

lemma kept_playback_requests [keeps]:
  assumes "kept idn r"
  shows "kept idn (snd (playback e s c r))" "kept idn (snd (skip e c r))"
    "kept idn (snd (seek e x c r))" "kept idn (snd (setPlaybackSpeed e v r))"
  using assms
  by (auto simp: playback_def skip_def skip_now_def toggle_skip_vote_def seek_def setPlaybackSpeed_def
      Let_def intro!: keeps split: js_value.split js_number.split)

lemma kept_gesture_start [keeps]:
  "kept idn r \<Longrightarrow> kept idn (gesture_start e cid g v r)"
  by (auto simp: gesture_start_def set_playbackSpeed_def Let_def intro!: keeps split: option.split)

lemma kept_gesture [keeps]:
  "kept idn r \<Longrightarrow> kept idn (snd (setTemporaryPlaybackSpeed e a g v c r))"
  by (auto simp: setTemporaryPlaybackSpeed_def Let_def intro!: keeps kept_seq)

lemma kept_checkpoint [keeps]: "kept idn r \<Longrightarrow> kept idn (snd (syncDirty e r))"
  by (auto simp: syncDirty_def cleanDirty_def Let_def intro!: keeps)

lemma kept_leaving [keeps]:
  assumes "kept idn r"
  shows "kept idn (end_own_gesture t cid r)" "kept idn (rebuild_preparation e cid r)"
    "kept idn (snd (empty_room e r))"
  using assms
  by (auto simp: end_own_gesture_def rebuild_preparation_def empty_room_def Let_def
      intro!: keeps split: option.split)

lemma kept_leave [keeps]:
  assumes "kept idn r"
  shows "kept idn (snd (leaveRoom e c r))"
proof -
  have gate: "kept idn (snd (seq p (\<lambda>r. (None, evaluateBufferGate (now e) r))))"
    if "kept idn (snd p)" for p :: outcome
    using that by (intro kept_seq) (simp_all add: keeps)
  show ?thesis
    using assms by (auto simp: leaveRoom_def Let_def keeps intro!: gate split: option.split sum.split)
qed

lemma kept_unload [keeps]: "kept idn r \<Longrightarrow> kept idn (snd (onBeforeUnload e r))"
  by (auto simp: onBeforeUnload_def Let_def intro!: keeps)

lemma kept_tick [keeps]:
  assumes "kept idn r"
  shows "kept idn (tick_preparation t r)" "kept idn (tick_gesture t r)"
    "kept idn (tick_next e r)" "kept idn (tick_keepalive e r)"
    "kept idn (tick_segments e r)"
proof -
  have "kept idn (tick_schedule t a)" "kept idn (tick_start t a)" if "kept idn a" for a
    using that by (auto simp: tick_schedule_def tick_start_def intro!: keeps split: option.split)
  with assms show "kept idn (tick_preparation t r)"
    by (simp add: tick_preparation_def keeps)
  have "kept idn (fetchSponsorBlockSegments e a)" "kept idn (skip_segment (now e) a)"
    if "kept idn a" for a
    using that
    by (auto simp: fetchSponsorBlockSegments_def skip_segment_def intro!: keeps
        split: option.split)
  with assms show "kept idn (tick_segments e r)"
    by (auto simp: tick_segments_def Let_def split: option.split)
qed (use assms in \<open>auto simp: tick_gesture_def tick_next_def tick_keepalive_def
    intro!: keeps split: option.split\<close>)

lemma kept_order [keeps]: "kept idn r \<Longrightarrow> kept idn (tick_order e r)"
  by (auto simp: tick_order_def Let_def intro!: keeps kept_apply_queue)

lemma kept_handle:
  "kept idn r \<Longrightarrow> kept idn (snd (handle e req c r))"
  by (cases req) (simp_all add: keeps)

lemma kept_basic:
  assumes "kept idn r"
  shows "kept idn (snd (process_basic e req c r))"
  using kept_handle [OF assms] assms
  by (cases "fst (authorize req c r)") (auto simp: process_basic_def authorize_def guard_def)

lemma kept_recent [simp]: "kept idn (forget_event i a r) = kept idn r"
  by (simp add: forget_event_def Let_def)

lemma kept_undo_skip: "kept idn r \<Longrightarrow> kept idn (snd (undo_skip e ev c r))"
  unfolding undo_skip_def
  by (intro kept_seq keeps)
    (auto intro!: keeps kept_apply_queue split: option.split)

lemma kept_undo_remove: "kept idn r \<Longrightarrow> kept idn (snd (undo_remove ev c r))"
  unfolding undo_remove_def
  by (intro kept_seq keeps) (auto intro!: kept_apply_queue split: option.split)

lemma kept_undo_add:
  assumes "kept idn r"
  shows "kept idn (snd (undo_add e ev c r))"
proof -
  have skip: "kept idn (snd (seq (guard err r) (\<lambda>r. (None, set_currentSource (now e) None r))))" for err
    using assms by (intro kept_seq keeps) (simp_all add: keeps)
  have "kept idn (snd (seq (guard err r) f))" if "kept idn (snd (f r))" for err f
    using that assms by (cases err) (simp_all add: guard_def seq_def)
  then show ?thesis
    unfolding undo_add_def using skip kept_basic [OF assms]
    by (simp split: option.split)
qed

lemma kept_undo_apply:
  assumes "kept idn r"
  shows "kept idn (snd (undo_apply e ev c r))"
  using kept_basic [OF assms] kept_undo_skip [OF assms] kept_undo_remove [OF assms]
    kept_undo_add [OF assms] assms
  by (simp add: undo_apply_def undo_seek_def split: option.split undo_kind.split)

lemma kept_processRequest:
  assumes "kept idn r"
  shows "kept idn (snd (processRequest e req c r))"
  using kept_undo_apply [OF assms] kept_basic [OF assms] assms
  by (cases req) (auto simp: processRequest_def undo_def intro!: kept_seq split: option.split)

lemma kept_step:
  assumes "kept idn r" "\<And>h. ev \<noteq> SetPassword h"
  shows "kept idn (room_step r ev)"
  using assms
  by (cases ev) (auto simp: update_room_def temporary_speed_timer_def playback_start_timer_def
      kept_processRequest intro!: keeps split: option.split)

lemma room_step_name: "room_name (room_step r ev) = room_name r" "isTemporary (room_step r ev) = isTemporary r"
  using kept_step [of "(room_name r, isTemporary r, passwordHash r)" r ev]
  by (cases ev; simp add: kept_def setPasswordHash_def markDirty_def)+

end
