(* ===== verification/RoomManager.thy ===== *)
theory RoomManager
  imports RoomPassword RoomIdentity
begin

text \<open>
  \<^verbatim>\<open>server/roommanager.ts\<close>: the loaded rooms, and how a room is created, found, loaded from Redis
  or the database, swept once a second and unloaded.

  A loaded room has an identity, as a JavaScript object has, because the code removes rooms by
  identity. Redis is the map of the snapshots; a value that does not parse is \<open>Corrupt\<close>. The save
  to Redis is debounced: a checkpoint arms it and it happens later, or when the room is unloaded.
  The notes of a room live in their own table, keyed by its name.
\<close>

section \<open>State\<close>

datatype UnloadReason = Keepalive | Admin | Commanded | Shutdown

datatype manager_event = LoadEvent string | UnloadEvent string UnloadReason

datatype redis_value = Snapshot RoomStateStorable | Corrupt

record Loaded =
  lr_oid :: nat
  lr_room :: Room
  lr_epoch :: int
  lr_savePending :: bool

record Manager =
  rooms :: "Loaded list"
  nextOid :: nat
  redis :: "string \<rightharpoonup> redis_value"
  loadEpochKey :: int
  table :: room_table
  note_table :: "string \<Rightarrow> RoomNote list"
  bus :: "manager_event list"

text \<open>What the operations read: the room's environment, the accounts, and whether the database answers.\<close>

record world =
  w_env :: env
  w_accounts :: "int \<Rightarrow> UserAccount option"
  w_up :: bool

definition named :: "string \<Rightarrow> Loaded \<Rightarrow> bool" where
  "named n lr \<longleftrightarrow> lower (room_name (lr_room lr)) = lower n"

definition set_loaded :: "nat \<Rightarrow> (Loaded \<Rightarrow> Loaded) \<Rightarrow> Manager \<Rightarrow> Manager" where
  "set_loaded oid f m = m\<lparr>rooms := map (\<lambda>lr. if lr_oid lr = oid then f lr else lr) (rooms m)\<rparr>"

definition get_loaded :: "nat \<Rightarrow> Manager \<Rightarrow> Loaded option" where
  "get_loaded oid m = find (\<lambda>lr. lr_oid lr = oid) (rooms m)"

section \<open>Adding a room\<close>

definition addRoom :: "Room \<Rightarrow> Manager \<Rightarrow> nat \<times> Manager" where
  "addRoom r m =
     (let epoch = loadEpochKey m + 1;
          lr = \<lparr>lr_oid = nextOid m, lr_room = r\<lparr>db_notes := note_table m (room_name r)\<rparr>, lr_epoch = epoch, lr_savePending = False\<rparr>
      in (nextOid m,
          m\<lparr>rooms := rooms m @ [lr], nextOid := Suc (nextOid m),
            loadEpochKey := (if 2147483640 \<le> epoch then 0 else epoch),
            bus := bus m @ [LoadEvent (room_name r)]\<rparr>))"

section \<open>The checkpoint of a loaded room\<close>

text \<open>
  \<^verbatim>\<open>room.sync()\<close> with its effects outside the room: the settings go to the database, and a change of
  a stored property arms the debounced save.
\<close>

definition sync_loaded :: "world \<Rightarrow> Room \<Rightarrow> room_table \<Rightarrow> ott_error option \<times> Room \<times> room_table \<times> bool" where
  "sync_loaded w r db =
     (if dirty r = [] then (None, r, db, False)
      else
        (let (ok, db1) = (if \<not> isTemporary r \<and> needs_persist r
                          then updateRoom (w_up w) (room_name r) (checkpoint_settings (now (w_env w)) r) db
                          else (True, db));
             (err, r1) = syncDirty ((w_env w)\<lparr>e_persist_ok := ok\<rparr>) r
         in (err, r1, db1, list_ex (\<lambda>p. p \<in> set (dirty r)) storableProps)))"

text \<open>\<^verbatim>\<open>saveStateToRedis\<close>, when the debounced save fires or is flushed.\<close>

definition saveStateToRedis :: "int \<Rightarrow> Room \<Rightarrow> (string \<rightharpoonup> redis_value) \<Rightarrow> (string \<rightharpoonup> redis_value)" where
  "saveStateToRedis t r store = store(room_name r \<mapsto> Snapshot (serializeState t r))"

definition save_timer :: "int \<Rightarrow> nat \<Rightarrow> Manager \<Rightarrow> Manager" where
  "save_timer t oid m =
     (case get_loaded oid m of
        None \<Rightarrow> m
      | Some lr \<Rightarrow>
          if lr_savePending lr
          then (set_loaded oid (\<lambda>lr. lr\<lparr>lr_savePending := False\<rparr>) m)\<lparr>redis := saveStateToRedis t (lr_room lr) (redis m)\<rparr>
          else m)"

section \<open>Unloading\<close>

text \<open>
  The last checkpoint of \<^verbatim>\<open>room.onBeforeUnload()\<close>: when it fails, the room stays loaded and the
  error is the caller's.
\<close>

definition before_unload :: "world \<Rightarrow> Room \<Rightarrow> Room" where
  "before_unload w r =
     (let t = now (w_env w);
          r1 = (endTemporaryPlaybackSpeed t True (clearPlaybackStartTimer r))\<lparr>pendingLeaveEvents := []\<rparr>
      in if \<not> isTemporary r1 then markDirty PcurrentSource (pausePlaybackClock t r1) else r1)"

definition unload_checkpoint :: "world \<Rightarrow> Loaded \<Rightarrow> Manager \<Rightarrow> ott_error option \<times> Manager" where
  "unload_checkpoint w lr m =
     (let (err, r1, db1, armed) = sync_loaded w (before_unload w (lr_room lr)) (table m);
          pending = lr_savePending lr \<or> armed;
          m1 = (set_loaded (lr_oid lr) (\<lambda>lr. lr\<lparr>lr_room := r1, lr_savePending := pending\<rparr>) m)\<lparr>table := db1\<rparr>
      in if err \<noteq> None then (err, m1)
         else if pending
         then (None, (set_loaded (lr_oid lr) (\<lambda>lr. lr\<lparr>lr_savePending := False\<rparr>) m1)
                       \<lparr>redis := saveStateToRedis (now (w_env w)) r1 (redis m1)\<rparr>)
         else (None, m1))"

text \<open>The removal itself, after the awaits: by identity, and with the keys of Redis unless they are to stay.\<close>

definition remove_loaded :: "nat \<Rightarrow> UnloadReason \<Rightarrow> bool \<Rightarrow> Manager \<Rightarrow> (ott_error, Manager) thrown" where
  "remove_loaded oid reason preserveRedis m =
     (case get_loaded oid m of
        None \<Rightarrow> (Some (RoomNotFound []), m)
      | Some lr \<Rightarrow>
          (let n = room_name (lr_room lr) in
           (None, m\<lparr>rooms := filter (\<lambda>x. lr_oid x \<noteq> oid) (rooms m),
                    note_table := (note_table m)(n := db_notes (lr_room lr)),
                    redis := (if preserveRedis then redis m else (redis m)(n := None)),
                    bus := bus m @ [UnloadEvent n reason]\<rparr>)))"

definition unloadRoom :: "world \<Rightarrow> string \<Rightarrow> UnloadReason \<Rightarrow> bool option \<Rightarrow> Manager \<Rightarrow> (ott_error, Manager) thrown" where
  "unloadRoom w roomName reason preserve m =
     (case find (named roomName) (rooms m) of
        None \<Rightarrow> (Some (RoomNotFound roomName), m)
      | Some lr \<Rightarrow>
          seq (if reason \<noteq> Commanded then unload_checkpoint w lr m else (None, m))
            (remove_loaded (lr_oid lr) reason
               (case preserve of Some b \<Rightarrow> b | None \<Rightarrow> reason = Commanded)))"

section \<open>The sweep\<close>

text \<open>One room of the sweep. Errors are logged and swallowed.\<close>

definition sweep_one :: "world \<Rightarrow> nat \<Rightarrow> Manager \<Rightarrow> Manager" where
  "sweep_one w oid m =
     (case get_loaded oid m of
        None \<Rightarrow> m
      | Some lr \<Rightarrow>
          (let (err, r1, db1, armed) = sync_loaded w (update_room (w_env w) (lr_room lr)) (table m);
               m1 = (set_loaded oid (\<lambda>lr. lr\<lparr>lr_room := r1, lr_savePending := lr_savePending lr \<or> armed\<rparr>) m)\<lparr>table := db1\<rparr>
           in if isStale (w_env w) r1 then snd (unloadRoom w (room_name r1) Keepalive None m1) else m1))"

text \<open>The sweep goes over the rooms that were loaded when it began.\<close>

definition update_all :: "world \<Rightarrow> Manager \<Rightarrow> Manager" where
  "update_all w m = foldl (\<lambda>m oid. sweep_one w oid m) m (map lr_oid (rooms m))"

definition shutdown :: "world \<Rightarrow> Manager \<Rightarrow> Manager" where
  "shutdown w m =
     foldl (\<lambda>m n. snd (unloadRoom w n Shutdown (Some True) m)) m (map (\<lambda>lr. room_name (lr_room lr)) (rooms m))"

section \<open>Creating a room\<close>

text \<open>The last steps: the room is ticked and checkpointed once before it is admitted.\<close>

definition admit :: "world \<Rightarrow> Room \<Rightarrow> Manager \<Rightarrow> (ott_error, Manager) thrown" where
  "admit w r m =
     (let (err, r1, db1, armed) = sync_loaded w (update_room (w_env w) r) (table m);
          m1 = m\<lparr>table := db1\<rparr>
      in if err \<noteq> None then (err, m1)
         else (let (oid, m2) = addRoom r1 m1
               in (None, set_loaded oid (\<lambda>lr. lr\<lparr>lr_savePending := armed\<rparr>) m2)))"

text \<open>\<open>hash\<close> is what Argon2 gives for the password, if the caller set one.\<close>

definition createRoom :: "world \<Rightarrow> RoomOptions \<Rightarrow> string option \<Rightarrow> Manager \<Rightarrow> (ott_error, Manager) thrown" where
  "createRoom w op hash m =
     (if list_ex (named (op_name op)) (rooms m) then (Some (RoomNameTaken (op_name op)), m)
      else if redis m (op_name op) \<noteq> None then (Some (RoomNameTaken (op_name op)), m)
      else case isRoomNameTaken (w_up w) (op_name op) (table m) of
          Inl err \<Rightarrow> (Some err, m)
        | Inr True \<Rightarrow> (Some (RoomNameTaken (op_name op)), m)
        | Inr False \<Rightarrow>
            (case new_Room (now (w_env w)) op of
               Inl err \<Rightarrow> (Some err, m)
             | Inr r \<Rightarrow>
                 (case (if isTemporary r then Inr (True, table m) else saveRoom (w_up w) r (table m)) of
                    Inl err \<Rightarrow> (Some err, m)
                  | Inr (saved, db) \<Rightarrow>
                      if \<not> saved then (Some (GenericError ''Failed to save room''), m\<lparr>table := db\<rparr>)
                      else if hash = None then admit w r (m\<lparr>table := db\<rparr>)
                      else (case setRoomPassword (w_up w) hash r db of
                              (Some err, r2, db2) \<Rightarrow> (Some err, m\<lparr>table := db2\<rparr>)
                            | (None, r2, db2) \<Rightarrow> admit w r2 (m\<lparr>table := db2\<rparr>)))))"

section \<open>Finding and loading a room\<close>

text \<open>
  The options a snapshot gives. The owner is known by id only, and the snapshot has no password:
  that of a permanent room is read from the database.
\<close>

definition snapshot_options :: "RoomStateStorable \<Rightarrow> Grants \<Rightarrow> string option \<Rightarrow> RoomOptions" where
  "snapshot_options s g hash =
     \<lparr>op_name = ss_name s, op_title = Some (ss_title s), op_description = Some (ss_description s),
      op_visibility = Some (ss_visibility s), op_queueMode = Some (ss_queueMode s),
      op_isTemporary = Some (ss_isTemporary s),
      op_owner = map_option (\<lambda>i. \<lparr>user_id = i, username = [], user_email = None, user_salt = None,
        user_hash = None, user_discordId = None\<rparr>) (ss_owner s),
      op_currentSource = Some (ss_currentSource s), op_queue = ss_queue s,
      op_playbackPosition = Some (ss_playbackPosition s),
      op_isPlaying = Some (ss_isTemporary s \<and> ss_isPlaying s),
      op_playbackSpeed = Some (ss_playbackSpeed s),
      op_autoSkipSegmentCategories = Some (ss_autoSkipSegmentCategories s),
      op_prevQueue = ss_prevQueue s, op_restoreQueueBehavior = Some (ss_restoreQueueBehavior s),
      op_enableVoteSkip = Some (ss_enableVoteSkip s), op_bufferGateMode = Some (ss_bufferGateMode s),
      op_danmakuSource = Some (ss_danmakuSource s), op_passwordHash = hash, op_votesToSkip = [],
      op_resumeOnNextJoin = ss_resumeOnNextJoin s, op_grants = Some (FromGrants g),
      op_permissionsRevision = Some (ss_permissionsRevision s),
      op_userRoles = Some (map (\<lambda>(role, ids). (role, js_Set ids)) (ss_userRoles s)),
      op_playbackStart = ss_playbackStart s\<rparr>"

text \<open>\<^verbatim>\<open>redisStateToState\<close>: the grants are rebuilt, which fails for a role that does not exist.\<close>

definition redisStateToState :: "redis_value \<Rightarrow> (RoomStateStorable \<times> Grants) option" where
  "redisStateToState v =
     (case v of
        Corrupt \<Rightarrow> None
      | Snapshot s \<Rightarrow> (case new_Grants (FromArray (ss_grants s)) of Inl _ \<Rightarrow> None | Inr g \<Rightarrow> Some (s, g)))"

text \<open>
  \<^verbatim>\<open>getRoom\<close> looks through the loaded rooms first. Everything after that waits for Redis or the
  database, so other calls can run between the two parts.
\<close>

definition getRoom_find :: "string \<Rightarrow> Manager \<Rightarrow> nat option" where
  "getRoom_find roomName m = map_option lr_oid (find (named roomName) (rooms m))"

definition build_room :: "world \<Rightarrow> RoomOptions \<Rightarrow> (Room \<Rightarrow> Room) \<Rightarrow> Manager \<Rightarrow> (ott_error + nat) \<times> Manager" where
  "build_room w op finish m =
     (case new_Room (now (w_env w)) op of
        Inl err \<Rightarrow> (Inl err, m)
      | Inr r \<Rightarrow> (let (oid, m1) = addRoom (finish r) m in (Inr oid, m1)))"

definition getRoom_load :: "world \<Rightarrow> string \<Rightarrow> Manager \<Rightarrow> (ott_error + nat) \<times> Manager" where
  "getRoom_load w roomName m =
     (let stored = redis m roomName;
          fixedState = Option.bind stored redisStateToState;
          m1 = (if stored \<noteq> None \<and> fixedState = None then m\<lparr>redis := (redis m)(roomName := None)\<rparr> else m)
      in case fixedState of
          Some (s, g) \<Rightarrow>
            (case (if ss_isTemporary s then Inr None else getRoomPasswordHash (w_up w) (ss_name s) (table m)) of
               Inl err \<Rightarrow> (Inl err, m1)
             | Inr hash \<Rightarrow> build_room w (snapshot_options s g hash) id m1)
        | None \<Rightarrow>
            (case getRoomByName (w_up w) (w_accounts w) roomName (table m1) of
               None \<Rightarrow> (Inl (RoomNotFound roomName), m1)
             | Some op \<Rightarrow> build_room w op (\<lambda>r. r\<lparr>restoredFromStorage := True\<rparr>) m1))"

definition getRoom :: "world \<Rightarrow> string \<Rightarrow> bool \<Rightarrow> Manager \<Rightarrow> (ott_error + nat) \<times> Manager" where
  "getRoom w roomName mustAlreadyBeLoaded m =
     (case getRoom_find roomName m of
        Some oid \<Rightarrow> (Inr oid, m)
      | None \<Rightarrow> if mustAlreadyBeLoaded then (Inl (RoomNotFound roomName), m) else getRoom_load w roomName m)"

section \<open>The manager as a machine\<close>

text \<open>
  The operations, one at a time, with what happens inside the loaded rooms and in Redis: an event
  of a room, the firing of a debounced save, and the expiry or loss of a key.
\<close>

datatype manager_op =
    Create world RoomOptions "string option"
  | Get world string bool
  | UnloadOp world string UnloadReason "bool option"
  | Sweep world
  | ShutdownOp world
  | SaveTimer int nat
  | InRoom nat room_event
  | RedisLost string

primrec manager_step :: "Manager \<Rightarrow> manager_op \<Rightarrow> Manager" where
  "manager_step m (Create w op hash) = snd (createRoom w op hash m)"
| "manager_step m (Get w n must) = snd (getRoom w n must m)"
| "manager_step m (UnloadOp w n reason preserve) = snd (unloadRoom w n reason preserve m)"
| "manager_step m (Sweep w) = update_all w m"
| "manager_step m (ShutdownOp w) = shutdown w m"
| "manager_step m (SaveTimer t oid) = save_timer t oid m"
| "manager_step m (InRoom oid ev) = set_loaded oid (\<lambda>lr. lr\<lparr>lr_room := room_step (lr_room lr) ev\<rparr>) m"
| "manager_step m (RedisLost n) = m\<lparr>redis := (redis m)(n := None)\<rparr>"

section \<open>Names stay unique\<close>

definition lname :: "Loaded \<Rightarrow> string" where
  "lname lr = lower (room_name (lr_room lr))"

definition manager_inv :: "Manager \<Rightarrow> bool" where
  "manager_inv m \<longleftrightarrow>
     distinct (map lname (rooms m)) \<and> distinct (map lr_oid (rooms m))
     \<and> list_all (\<lambda>lr. lr_oid lr < nextOid m) (rooms m)
     \<and> (\<forall>n s. redis m n = Some (Snapshot s) \<longrightarrow> ss_name s = n)"

lemma find_named: "find (named n) (rooms m) = None \<longleftrightarrow> lower n \<notin> lname ` set (rooms m)"
  by (force simp: find_None_iff named_def lname_def)

lemma inv_set_loaded:
  assumes "manager_inv m" "\<And>lr. lr_oid (f lr) = lr_oid lr"
    and "\<And>lr. lr \<in> set (rooms m) \<Longrightarrow> lr_oid lr = oid \<Longrightarrow> room_name (lr_room (f lr)) = room_name (lr_room lr)"
  shows "manager_inv (set_loaded oid f m)"
proof -
  let ?f = "\<lambda>lr. if lr_oid lr = oid then f lr else lr"
  have "map lname (map ?f (rooms m)) = map lname (rooms m)" "map lr_oid (map ?f (rooms m)) = map lr_oid (rooms m)"
    using assms(2,3) by (auto simp: lname_def)
  with assms(1) show ?thesis
    unfolding manager_inv_def set_loaded_def
    by (auto simp: list_all_iff assms(2) simp del: map_map)
qed

lemma inv_other [simp]:
  "manager_inv (m\<lparr>table := db\<rparr>) = manager_inv m" "manager_inv (m\<lparr>bus := b\<rparr>) = manager_inv m"
  "manager_inv (m\<lparr>note_table := ns\<rparr>) = manager_inv m" "manager_inv (m\<lparr>loadEpochKey := k\<rparr>) = manager_inv m"
  by (simp_all add: manager_inv_def)

lemma inv_redis:
  "manager_inv m \<Longrightarrow> manager_inv (m\<lparr>redis := (redis m)(n := None)\<rparr>)"
  "manager_inv m \<Longrightarrow> manager_inv (m\<lparr>redis := saveStateToRedis t r (redis m)\<rparr>)"
  by (auto simp: manager_inv_def saveStateToRedis_def serializeState_def)

lemma inv_addRoom:
  assumes "manager_inv m" "lower (room_name r) \<notin> lname ` set (rooms m)"
  shows "manager_inv (snd (addRoom r m))"
  using assms by (force simp: manager_inv_def addRoom_def Let_def lname_def list_all_iff)

lemma inv_remove: "manager_inv m \<Longrightarrow> manager_inv (snd (remove_loaded oid reason keep m))"
  by (auto simp: manager_inv_def remove_loaded_def Let_def distinct_map inj_on_def list_all_iff split: option.split)

lemma sync_kept:
  assumes "sync_loaded w r db = (err, r1, db1, armed)" "kept i r"
  shows "kept i r1"
  using assms kept_checkpoint [OF assms(2)]
  by (auto simp: sync_loaded_def Let_def split: if_splits prod.splits) (metis snd_conv)+

lemma kept_self: "kept (room_name r, isTemporary r, passwordHash r) r"
  by (simp add: kept_def)

lemma kept_name: "kept (room_name r, isTemporary r, passwordHash r) r1 \<Longrightarrow> room_name r1 = room_name r"
  by (simp add: kept_def)

lemma kept_before_unload: "kept i r \<Longrightarrow> kept i (before_unload w r)"
  by (auto simp: before_unload_def Let_def intro!: keeps)

lemma kept_tick_all: "kept i r \<Longrightarrow> kept i (update_room e r)"
  using kept_step [of i r "Tick e"] by simp

lemma same_oid:
  "manager_inv m \<Longrightarrow> a \<in> set (rooms m) \<Longrightarrow> b \<in> set (rooms m) \<Longrightarrow> lr_oid a = lr_oid b \<Longrightarrow> a = b"
  by (auto simp: manager_inv_def distinct_map inj_on_def)

lemma find_mem: "find P xs = Some x \<Longrightarrow> x \<in> set xs \<and> P x"
  by (auto simp: find_Some_iff)

lemma inv_set_room:
  assumes "manager_inv m" "lr \<in> set (rooms m)" "room_name r1 = room_name (lr_room lr)"
  shows "manager_inv (set_loaded (lr_oid lr) (\<lambda>x. x\<lparr>lr_room := r1, lr_savePending := p x\<rparr>) m)"
  using assms same_oid [OF assms(1) _ assms(2)] by (intro inv_set_loaded) auto

lemma inv_pending: "manager_inv m \<Longrightarrow> manager_inv (set_loaded oid (\<lambda>x. x\<lparr>lr_savePending := p x\<rparr>) m)"
  by (rule inv_set_loaded) auto

lemma inv_save: "manager_inv m \<Longrightarrow> manager_inv (save_timer t oid m)"
  using inv_redis(2) [OF inv_pending] by (auto simp: save_timer_def set_loaded_def split: option.split)

lemma inv_unload_checkpoint:
  assumes "manager_inv m" "lr \<in> set (rooms m)"
  shows "manager_inv (snd (unload_checkpoint w lr m))"
proof -
  obtain err r1 db1 armed where s: "sync_loaded w (before_unload w (lr_room lr)) (table m) = (err, r1, db1, armed)"
    by (metis prod_cases4)
  have "room_name r1 = room_name (lr_room lr)"
    using sync_kept [OF s kept_before_unload [OF kept_self]] by (rule kept_name)
  then have m: "manager_inv ((set_loaded (lr_oid lr) (\<lambda>lr. lr\<lparr>lr_room := r1, lr_savePending := p\<rparr>) m)\<lparr>table := db1\<rparr>)" for p
    using inv_set_room [OF assms] by simp
  show ?thesis
    using m inv_redis(2) [OF inv_pending [OF m]] by (auto simp: unload_checkpoint_def s Let_def set_loaded_def)
qed

lemma inv_unload:
  assumes "manager_inv m"
  shows "manager_inv (snd (unloadRoom w n reason keep m))"
proof (cases "find (named n) (rooms m)")
  case (Some lr)
  have "lr \<in> set (rooms m)" using find_mem [OF Some] ..
  then have "manager_inv (snd (if reason \<noteq> Commanded then unload_checkpoint w lr m else (None, m)))"
    using inv_unload_checkpoint [OF assms] assms by simp
  then show ?thesis unfolding unloadRoom_def Some option.case by (rule seq_keeps) (rule inv_remove)
qed (simp add: unloadRoom_def assms)

lemma inv_sweep_one:
  assumes "manager_inv m"
  shows "manager_inv (sweep_one w oid m)"
proof (cases "get_loaded oid m")
  case (Some lr)
  obtain err r1 db1 armed where s: "sync_loaded w (update_room (w_env w) (lr_room lr)) (table m) = (err, r1, db1, armed)"
    by (metis prod_cases4)
  have lr: "lr \<in> set (rooms m)" "lr_oid lr = oid" using find_mem [OF Some [unfolded get_loaded_def]] by auto
  have "room_name r1 = room_name (lr_room lr)"
    using sync_kept [OF s kept_tick_all [OF kept_self]] by (rule kept_name)
  then have "manager_inv (set_loaded oid (\<lambda>x. x\<lparr>lr_room := r1, lr_savePending := lr_savePending x \<or> armed\<rparr>) m)"
    using inv_set_room [OF assms lr(1), of r1 "\<lambda>x. lr_savePending x \<or> armed"] lr(2) by simp
  then show ?thesis by (auto simp: sweep_one_def Some s Let_def intro!: inv_unload)
qed (simp add: sweep_one_def assms)

lemma inv_fold: "(\<And>m x. manager_inv m \<Longrightarrow> manager_inv (f m x)) \<Longrightarrow> manager_inv m \<Longrightarrow> manager_inv (foldl f m xs)"
  by (induction xs arbitrary: m) auto

lemma new_Room_name: "new_Room t op = Inr r \<Longrightarrow> room_name r = op_name op"
  by (auto simp: new_Room_def bind_result_def Let_def restore_frames built_settings split: sum.splits)

lemma inv_build:
  assumes "manager_inv m" "lower (op_name op) \<notin> lname ` set (rooms m)" "\<And>r. room_name (finish r) = room_name r"
  shows "manager_inv (snd (build_room w op finish m))"
  using inv_addRoom [OF assms(1)] assms
  by (auto simp: build_room_def case_prod_unfold Let_def new_Room_name split: sum.split)

lemma getRoomByName_name:
  "getRoomByName up acc n db = Some op \<Longrightarrow> lower (op_name op) = lower n"
  by (auto simp: getRoomByName_def dbToRoomArgs_def bind_result_def row_options_def buildFindRoomWhere_def
      find_Some_iff split: if_splits option.splits sum.splits)

lemma state_snapshot: "redisStateToState v = Some (s, g) \<Longrightarrow> v = Snapshot s \<and> new_Grants (FromArray (ss_grants s)) = Inr g"
  by (cases v) (auto simp: redisStateToState_def split: sum.splits)

lemma inv_load:
  assumes "manager_inv m" "lower n \<notin> lname ` set (rooms m)"
  shows "manager_inv (snd (getRoom_load w n m))"
proof (cases "Option.bind (redis m n) redisStateToState")
  case None
  define m1 where "m1 = (if redis m n \<noteq> None then m\<lparr>redis := (redis m)(n := None)\<rparr> else m)"
  have m1: "manager_inv m1" "rooms m1 = rooms m" using assms(1) inv_redis(1) by (auto simp: m1_def)
  have "getRoom_load w n m = (case getRoomByName (w_up w) (w_accounts w) n (table m1) of
      None \<Rightarrow> (Inl (RoomNotFound n), m1)
    | Some op \<Rightarrow> build_room w op (\<lambda>r. r\<lparr>restoredFromStorage := True\<rparr>) m1)"
    by (cases "redis m n") (use None in \<open>simp_all add: getRoom_load_def m1_def Let_def split: option.split\<close>)
  moreover have "manager_inv (snd (build_room w op (\<lambda>r. r\<lparr>restoredFromStorage := True\<rparr>) m1))"
    if "getRoomByName (w_up w) (w_accounts w) n (table m1) = Some op" for op
    using getRoomByName_name [OF that] assms(2) m1 by (intro inv_build) auto
  ultimately show ?thesis using m1(1) by (simp split: option.split)
next
  case (Some a)
  obtain s g where a: "a = (s, g)" by force
  then have "ss_name s = n"
    using Some assms(1) by (auto simp: manager_inv_def bind_eq_Some_conv dest!: state_snapshot)
  then have "manager_inv (snd (build_room w (snapshot_options s g hash) id m))" for hash
    using assms by (intro inv_build) (simp_all add: snapshot_options_def)
  then show ?thesis using assms(1) by (auto simp: getRoom_load_def Some a Let_def split: sum.split)
qed

lemma inv_getRoom: "manager_inv m \<Longrightarrow> manager_inv (snd (getRoom w n must m))"
  using find_named [of n m] by (auto simp: getRoom_def getRoom_find_def intro!: inv_load split: option.split)

lemma inv_admit:
  assumes "manager_inv m" "lower (room_name r) \<notin> lname ` set (rooms m)"
  shows "manager_inv (snd (admit w r m))"
proof -
  obtain err r1 db1 armed where s: "sync_loaded w (update_room (w_env w) r) (table m) = (err, r1, db1, armed)"
    by (metis prod_cases4)
  have "room_name r1 = room_name r" using sync_kept [OF s kept_tick_all [OF kept_self]] by (rule kept_name)
  then have "manager_inv (snd (addRoom r1 (m\<lparr>table := db1\<rparr>)))" using assms by (intro inv_addRoom) simp_all
  then show ?thesis using assms(1) by (auto simp: admit_def s Let_def case_prod_unfold intro!: inv_pending)
qed

lemma setRoomPassword_name: "setRoomPassword up h r db = (err, r1, db1) \<Longrightarrow> room_name r1 = room_name r"
  by (auto simp: setRoomPassword_def setPasswordHash_def markDirty_def split: if_splits prod.splits)

lemma inv_create:
  assumes "manager_inv m"
  shows "manager_inv (snd (createRoom w op hash m))"
proof (cases "list_ex (named (op_name op)) (rooms m)")
  case False
  then have free: "lower (op_name op) \<notin> lname ` set (rooms m)"
    by (force simp: list_ex_iff named_def lname_def)
  have "manager_inv (snd (admit w r (m\<lparr>table := db\<rparr>)))" if "room_name r = op_name op" for r db
    using that free assms by (intro inv_admit) simp_all
  moreover have "manager_inv (snd (admit w r m))" if "room_name r = op_name op" for r
    using that free assms by (intro inv_admit) simp_all
  ultimately show ?thesis using assms False
    by (auto simp: createRoom_def new_Room_name dest: setRoomPassword_name
        split: sum.splits bool.splits option.splits prod.splits)
qed (simp add: createRoom_def assms)

lemma manager_step_inv: "manager_inv m \<Longrightarrow> manager_inv (manager_step m x)"
proof (cases x)
  case (InRoom oid ev)
  assume "manager_inv m"
  then show ?thesis unfolding InRoom manager_step.simps
    by (rule inv_set_loaded) (simp_all add: room_step_name)
qed (auto simp: inv_create inv_getRoom inv_unload inv_save inv_redis update_all_def shutdown_def
    intro!: inv_fold inv_sweep_one inv_unload)

interpretation manager_machine: invariant_machine manager_step manager_inv "\<lambda>_. True"
  by unfold_locales (rule manager_step_inv)

definition no_rooms :: "room_table \<Rightarrow> Manager" where
  "no_rooms db = \<lparr>rooms = [], nextOid = 0, redis = Map.empty, loadEpochKey = 0, table = db,
     note_table = (\<lambda>_. []), bus = []\<rparr>"

lemma no_rooms_inv: "manager_inv (no_rooms db)"
  by (simp add: manager_inv_def no_rooms_def)

text \<open>C9.
  There is one room for each name. After any sequence of manager operations, carried out one at a
  time, no two loaded rooms have names that differ only in case, and looking a loaded room up under
  any spelling of its name finds that room and changes nothing.\<close>

theorem room_names_unique:
  "distinct (map (\<lambda>lr. lower (room_name (lr_room lr))) (rooms (foldl manager_step (no_rooms db) ops)))
   \<and> (\<forall>lr \<in> set (rooms (foldl manager_step (no_rooms db) ops)).
        \<forall>n w must. lower n = lower (room_name (lr_room lr)) \<longrightarrow>
          getRoom w n must (foldl manager_step (no_rooms db) ops) = (Inr (lr_oid lr), foldl manager_step (no_rooms db) ops))"
proof -
  let ?m = "foldl manager_step (no_rooms db) ops"
  have inv: "manager_inv ?m" using manager_machine.run_inv [OF no_rooms_inv, of ops db] by (simp add: list_all_iff)
  have u: "map (\<lambda>lr. lower (room_name (lr_room lr))) (rooms ?m) = map lname (rooms ?m)" by (simp add: lname_def)
  have "find (named n) (rooms ?m) = Some lr"
    if lr: "lr \<in> set (rooms ?m)" and n: "lower n = lower (room_name (lr_room lr))" for lr n
  proof -
    obtain x where x: "find (named n) (rooms ?m) = Some x"
      using lr n find_named [of n ?m] by (force simp: lname_def)
    then have "x \<in> set (rooms ?m)" "lname x = lname lr"
      using find_mem [OF x] n by (simp_all add: named_def lname_def)
    then show ?thesis using x lr inv by (auto simp: manager_inv_def distinct_map inj_on_def)
  qed
  moreover have "distinct (map (\<lambda>lr. lower (room_name (lr_room lr))) (rooms ?m))"
    using inv unfolding u manager_inv_def by blast
  ultimately show ?thesis by (simp add: getRoom_def getRoom_find_def)
qed

section \<open>Two loads at once\<close>

lemma build_success:
  assumes "build_room w op finish m = (Inr a, m1)"
  obtains r where "new_Room (now (w_env w)) op = Inr r" "a = nextOid m" "m1 = snd (addRoom (finish r) m)"
  using assms by (auto simp: build_room_def addRoom_def Let_def split: sum.splits)

lemma addRoom_fields:
  "redis (snd (addRoom r m)) = redis m" "table (snd (addRoom r m)) = table m"
  "nextOid (snd (addRoom r m)) = Suc (nextOid m)"
  "map lr_oid (rooms (snd (addRoom r m))) = map lr_oid (rooms m) @ [nextOid m]"
  "map lname (rooms (snd (addRoom r m))) = map lname (rooms m) @ [lower (room_name r)]"
  by (simp_all add: addRoom_def Let_def lname_def)

lemma addRoom_fst: "fst (addRoom r m) = nextOid m"
  by (simp add: addRoom_def Let_def)

text \<open>Loading the same name once more finds the same snapshot or row again.\<close>

lemma load_again:
  assumes "manager_inv m" "getRoom_load w n m = (Inr a, m1)"
  obtains op finish m0 where "build_room w op finish m0 = (Inr a, m1)" "getRoom_load w n m1 = build_room w op finish m1"
    "rooms m0 = rooms m" "nextOid m0 = nextOid m" "lower (op_name op) = lower n" "\<forall>r. room_name (finish r) = room_name r"
proof (cases "Option.bind (redis m n) redisStateToState")
  case None
  let ?m0 = "if redis m n \<noteq> None then m\<lparr>redis := (redis m)(n := None)\<rparr> else m"
  obtain op where op: "getRoomByName (w_up w) (w_accounts w) n (table m) = Some op"
    "build_room w op (\<lambda>r. r\<lparr>restoredFromStorage := True\<rparr>) ?m0 = (Inr a, m1)"
    using assms(2) None by (auto simp: getRoom_load_def Let_def split: option.splits if_splits)
  then have "redis m1 n = None" "table m1 = table m"
    by (auto elim!: build_success simp: addRoom_fields split: if_splits)
  then have "getRoom_load w n m1 = build_room w op (\<lambda>r. r\<lparr>restoredFromStorage := True\<rparr>) m1"
    using op(1) by (simp add: getRoom_load_def)
  with op(2) show ?thesis by (rule that) (use getRoomByName_name [OF op(1)] in simp_all)
next
  case (Some x)
  obtain s g where x: "x = (s, g)" by force
  obtain hash where h: "(if ss_isTemporary s then Inr None else getRoomPasswordHash (w_up w) (ss_name s) (table m)) = Inr hash"
    "build_room w (snapshot_options s g hash) id m = (Inr a, m1)"
    using assms(2) Some x by (auto simp: getRoom_load_def Let_def split: sum.splits if_splits)
  then have "redis m1 = redis m" "table m1 = table m" by (auto elim!: build_success simp: addRoom_fields)
  then have "getRoom_load w n m1 = build_room w (snapshot_options s g hash) id m1"
    using Some x h(1) by (auto simp: getRoom_load_def split: if_splits)
  moreover have "ss_name s = n"
    using Some x assms(1) by (auto simp: manager_inv_def bind_eq_Some_conv dest!: state_snapshot)
  moreover have "op_name (snapshot_options s g hash) = ss_name s" by (simp add: snapshot_options_def)
  ultimately show ?thesis by (intro that [OF h(2)]) simp_all
qed

text \<open>A room can be loaded twice. \<^verbatim>\<open>getRoom\<close> looks through the loaded rooms and then waits for Redis and
  the database before it adds the room, and does not look again. When two requests for a
  room that is not loaded overlap, both load it: two room objects with one name are swept and
  publish to the same clients, while every later request finds only the first of them.\<close>

lemma overlapping_loads_duplicate:
  assumes "manager_inv m" "getRoom_find n m = None" "getRoom_load w n m = (Inr a, m1)"
  shows "\<exists>b m2. getRoom_load w n m1 = (Inr b, m2) \<and> b \<noteq> a
    \<and> length (filter (named n) (rooms m2)) = 2
    \<and> getRoom w n False m2 = (Inr a, m2)"
proof -
  obtain op finish m0 where l: "build_room w op finish m0 = (Inr a, m1)" "getRoom_load w n m1 = build_room w op finish m1"
    "rooms m0 = rooms m" "nextOid m0 = nextOid m" "lower (op_name op) = lower n" "\<forall>r. room_name (finish r) = room_name r"
    by (rule load_again [OF assms(1,3)])
  obtain r where r: "new_Room (now (w_env w)) op = Inr r" "a = nextOid m0" "m1 = snd (addRoom (finish r) m0)"
    by (rule build_success [OF l(1)])
  define m2 where "m2 = snd (addRoom (finish r) m1)"
  have b: "getRoom_load w n m1 = (Inr (Suc a), m2)"
    unfolding l(2) build_room_def r(1) m2_def using r(2) addRoom_fields(3) [of "finish r" m0] r(3)
    by (simp add: addRoom_fst case_prod_unfold)
  obtain x y where rooms: "rooms m2 = rooms m @ [x, y]" and xy: "named n x" "named n y" "lr_oid x = a"
    using l(3-6) new_Room_name [OF r(1)] r(2,3) by (auto simp: m2_def addRoom_def Let_def named_def)
  have none: "\<not> named n lr" if "lr \<in> set (rooms m)" for lr
    using assms(2) that by (auto simp: getRoom_find_def find_None_iff)
  then have "filter (named n) (rooms m) = []" "find (named n) (rooms m2) = Some x"
    using rooms xy(1) by (auto simp: find_Some_iff nth_append intro!: exI [of _ "length (rooms m)"])
  with b rooms xy show ?thesis by (auto simp: getRoom_def getRoom_find_def)
qed

section \<open>Samples\<close>

definition sample_world :: "int \<Rightarrow> world" where
  "sample_world t = \<lparr>w_env = sample_env t, w_accounts = (\<lambda>_. None), w_up = True\<rparr>"

lemma addRoom_has: "\<exists>lr \<in> set (rooms (snd (addRoom r m))). room_name (lr_room lr) = room_name r"
  by (simp add: addRoom_def Let_def)

lemma nobody: "getRoom_find n (no_rooms db) = None"
  by (simp add: getRoom_find_def no_rooms_def)

lemma sample_load:
  obtains r where "getRoom_load (sample_world 0) ''lobby'' (no_rooms [roomToDb saved_sample])
      = (Inr 0, snd (addRoom (r\<lparr>restoredFromStorage := True\<rparr>) (no_rooms [roomToDb saved_sample])))"
    and "room_name r = ''Lobby''"
proof -
  have wf: "wf_grants (grants saved_sample)" by (simp add: saved_sample_def wf_default)
  obtain h where h: "new_Grants (FromArray (entries (grantsFiltered (grants saved_sample)))) = Inr h"
    using stored_grants [OF wf] by blast
  have f: "db_permissions (roomToDb saved_sample) = entries (grantsFiltered (grants saved_sample))"
    "db_permissionsRevision (roomToDb saved_sample) = Some 1" "db_name (roomToDb saved_sample) = ''Lobby''"
    by (simp_all add: roomToDb_def) (simp_all add: saved_sample_def)
  have "lower ''Lobby'' = lower ''lobby''" by code_simp
  then have op: "getRoomByName True (\<lambda>_. None) ''lobby'' [roomToDb saved_sample] = Some (row_options (\<lambda>_. None) (roomToDb saved_sample) h)"
    by (simp add: getRoomByName_def buildFindRoomWhere_def f h dbToRoomArgs_def bind_result_def)
  obtain r where r: "new_Room 0 (row_options (\<lambda>_. None) (roomToDb saved_sample) h) = Inr r"
    by (rule row_rebuilds [OF f(2)]) (simp_all add: ROOM_PERMISSIONS_REVISION_def)
  moreover have "op_name (row_options (\<lambda>_. None) (roomToDb saved_sample) h) = ''Lobby''"
    by (simp add: row_options_def f)
  ultimately show thesis
    using that [of r] op new_Room_name [OF r]
    by (simp add: getRoom_load_def no_rooms_def sample_world_def build_room_def) (simp add: addRoom_def Let_def)
qed

theorem room_names_unique_witness:
  "\<exists>m lr. m = foldl manager_step (no_rooms [roomToDb saved_sample]) [Get (sample_world 0) ''lobby'' False]
     \<and> lr \<in> set (rooms m) \<and> getRoom (sample_world 1) ''LOBBY'' True m = (Inr (lr_oid lr), m)"
proof -
  obtain r where r: "getRoom_load (sample_world 0) ''lobby'' (no_rooms [roomToDb saved_sample])
      = (Inr 0, snd (addRoom (r\<lparr>restoredFromStorage := True\<rparr>) (no_rooms [roomToDb saved_sample])))" "room_name r = ''Lobby''"
    by (rule sample_load)
  let ?m = "foldl manager_step (no_rooms [roomToDb saved_sample]) [Get (sample_world 0) ''lobby'' False]"
  have "?m = snd (addRoom (r\<lparr>restoredFromStorage := True\<rparr>) (no_rooms [roomToDb saved_sample]))"
    by (simp add: getRoom_def nobody r(1))
  then obtain lr where lr: "lr \<in> set (rooms ?m)" "room_name (lr_room lr) = ''Lobby''"
    using addRoom_has [of "r\<lparr>restoredFromStorage := True\<rparr>" "no_rooms [roomToDb saved_sample]"] r(2) by auto
  moreover have "lower ''LOBBY'' = lower ''Lobby''" by code_simp
  ultimately show ?thesis
    using room_names_unique [of "[roomToDb saved_sample]" "[Get (sample_world 0) ''lobby'' False]"] by (metis lr(2))
qed

end
