(* ===== verification/RoomReload.thy ===== *)
theory RoomReload
  imports RoomManager
begin

text \<open>
  What survives a restart: a temporary room comes back from Redis as it was, except for its
  password, and a row that predates the permission revisions forgets what was revoked.
\<close>

section \<open>Building a room from its snapshot\<close>

lemma playback_frames:
  "currentSource (set_prevQueue v r) = currentSource r" "queue (set_prevQueue v r) = queue r"
  "isPlaying (set_prevQueue v r) = isPlaying r" "playbackPosition (set_prevQueue v r) = playbackPosition r"
  "playbackSpeed (set_prevQueue v r) = playbackSpeed r" "temporarySpeed (set_prevQueue v r) = temporarySpeed r"
  "resumeOnNextJoin (set_prevQueue v r) = resumeOnNextJoin r"
  by (simp_all add: set_prevQueue_def markDirty_def)

lemma assign_some: "assign f (Some x) r = f x r"
  by (simp add: assign_def)

text \<open>Without a held gesture the setters of the source and of the clock do just that.\<close>

lemma plain_source:
  "temporarySpeed (set_currentSource t v r) = None" "currentSource (set_currentSource t v r) = v"
  by (simp_all add: set_currentSource_def cancelPlaybackPreparation_def clearPlaybackStartTimer_def
      endTemporaryPlaybackSpeed_def option_setters Let_def split: option.split)

lemma plain_playing:
  assumes "temporarySpeed r = None"
  shows "temporarySpeed (set_isPlaying t b r) = None" "playbackPosition (set_isPlaying t b r) = playbackPosition r"
    "playbackSpeed (set_isPlaying t b r) = playbackSpeed r" "isPlaying (set_isPlaying t b r) = b"
  using assms by (simp_all add: set_isPlaying_def endTemporaryPlaybackSpeed_def markDirty_def Let_def)

lemmas playback_assign = assign_frame [where F = currentSource] assign_frame [where F = queue]
  assign_frame [where F = isPlaying] assign_frame [where F = playbackPosition]
  assign_frame [where F = playbackSpeed] assign_frame [where F = temporarySpeed]

lemma built_playback:
  assumes "op_currentSource op = Some c" "op_playbackPosition op = Some x"
    "op_isPlaying op = Some b" "op_playbackSpeed op = Some sp"
  shows "currentSource (assign_options t op r) = c"
    "items (queue (assign_options t op r)) = op_queue op"
    "isPlaying (assign_options t op r) = b"
    "playbackPosition (assign_options t op r) = x"
    "playbackSpeed (assign_options t op r) = sp"
    "resumeOnNextJoin (assign_options t op r) = op_resumeOnNextJoin op"
  unfolding assign_options_def Let_def assms assign_some
  by (simp_all add: playback_frames playback_assign source_frames plain_source plain_playing option_setters new_VideoQueue_def)

text \<open>With a current source nothing is restored from an earlier queue.\<close>

lemma restore_idle:
  assumes "currentSource r \<noteq> None"
  shows "queue (restore_prevQueue r) = queue r" "currentSource (restore_prevQueue r) = currentSource r"
    "isPlaying (restore_prevQueue r) = isPlaying r" "playbackPosition (restore_prevQueue r) = playbackPosition r"
    "playbackSpeed (restore_prevQueue r) = playbackSpeed r" "resumeOnNextJoin (restore_prevQueue r) = resumeOnNextJoin r"
  using assms by (auto simp: restore_prevQueue_def playback_frames Let_def split: option.split)

lemma snapshot_rebuilds:
  assumes "ROOM_PERMISSIONS_REVISION \<le> ss_permissionsRevision s"
  shows "\<exists>v. new_Room t (snapshot_options s g hash) = Inr
    ((restore_prevQueue (assign_options t (snapshot_options s g hash) (blank_room t g)))
       \<lparr>permissionsRevision := v, userRoles := map (\<lambda>(role, ids). (role, js_Set ids)) (ss_userRoles s),
        playbackStart := ss_playbackStart s, votesToSkip := []\<rparr>)"
proof -
  have "constructor_grants (snapshot_options s g hash) = Inr g"
    using assms by (simp add: constructor_grants_def snapshot_options_def bind_result_def or_else_def)
  then show ?thesis
    by (simp add: new_Room_def bind_result_def Let_def) (auto simp: snapshot_options_def or_else_def js_Set_def)
qed

lemma snapshot_room:
  assumes "r = (restore_prevQueue (assign_options t (snapshot_options s g hash) (blank_room t g)))
       \<lparr>permissionsRevision := v, userRoles := roles, playbackStart := start, votesToSkip := []\<rparr>"
    and "ss_currentSource s \<noteq> None"
  shows "room_name r = ss_name s" "room_title r = ss_title s" "room_description r = ss_description s"
    "visibility r = ss_visibility s" "queueMode r = ss_queueMode s" "isTemporary r = ss_isTemporary s"
    "autoSkipSegmentCategories r = ss_autoSkipSegmentCategories s"
    "restoreQueueBehavior r = ss_restoreQueueBehavior s" "enableVoteSkip r = ss_enableVoteSkip s"
    "bufferGateMode r = ss_bufferGateMode s" "danmakuSource r = ss_danmakuSource s"
    "passwordHash r = hash" "grants r = g" "map_option user_id (owner r) = ss_owner s" "userRoles r = roles"
    "items (queue r) = ss_queue s" "currentSource r = ss_currentSource s"
    "isPlaying r = (ss_isTemporary s \<and> ss_isPlaying s)" "playbackPosition r = ss_playbackPosition s"
    "playbackSpeed r = ss_playbackSpeed s" "playbackStart r = start" "resumeOnNextJoin r = ss_resumeOnNextJoin s"
proof -
  let ?op = "snapshot_options s g hash"
  have op: "op_currentSource ?op = Some (ss_currentSource s)" "op_playbackPosition ?op = Some (ss_playbackPosition s)"
    "op_isPlaying ?op = Some (ss_isTemporary s \<and> ss_isPlaying s)" "op_playbackSpeed ?op = Some (ss_playbackSpeed s)"
    by (simp_all add: snapshot_options_def)
  note play = built_playback [OF op]
  have cs: "currentSource (assign_options t ?op (blank_room t g)) \<noteq> None" using assms(2) by (simp add: play)
  note built = restore_frames restore_idle [OF cs] built_settings play
  show "room_name r = ss_name s" "room_title r = ss_title s" "room_description r = ss_description s"
    "visibility r = ss_visibility s" "queueMode r = ss_queueMode s" "isTemporary r = ss_isTemporary s"
    "autoSkipSegmentCategories r = ss_autoSkipSegmentCategories s"
    "restoreQueueBehavior r = ss_restoreQueueBehavior s" "enableVoteSkip r = ss_enableVoteSkip s"
    "bufferGateMode r = ss_bufferGateMode s" "danmakuSource r = ss_danmakuSource s"
    "passwordHash r = hash" "grants r = g" "map_option user_id (owner r) = ss_owner s" "userRoles r = roles"
    "items (queue r) = ss_queue s" "currentSource r = ss_currentSource s"
    "isPlaying r = (ss_isTemporary s \<and> ss_isPlaying s)" "playbackPosition r = ss_playbackPosition s"
    "playbackSpeed r = ss_playbackSpeed s" "playbackStart r = start" "resumeOnNextJoin r = ss_resumeOnNextJoin s"
    unfolding assms(1)
    by (simp_all add: built)
      (simp_all add: snapshot_options_def or_else_def blank_room_def set_owner_def option.map_comp comp_def option.map_ident)
qed

section \<open>Unloading a temporary room\<close>

text \<open>A temporary room is checkpointed without the database, so nothing can fail.\<close>

lemma temporary_checkpoint:
  assumes "isTemporary r" "temporarySpeed r = None"
  shows "\<exists>r1. sync_loaded w (before_unload w r) db = (None, r1, db, list_ex (\<lambda>p. p \<in> set (dirty r)) storableProps)
    \<and> serializeState t r1 = serializeState t r \<and> db_notes r1 = db_notes r \<and> room_name r1 = room_name r"
proof -
  let ?b = "r\<lparr>playbackStartTimer := None, temporarySpeedTimer := None, pendingLeaveEvents := []\<rparr>"
  have b: "before_unload w r = ?b"
    using assms by (simp add: before_unload_def endTemporaryPlaybackSpeed_def clearPlaybackStartTimer_def Let_def)
  show ?thesis
    unfolding b using assms
    by (simp add: sync_loaded_def syncDirty_def Let_def publish_def cleanDirty_def storableProps_def
        serializeState_def bufferingGateHeld_def realPlaybackPosition_def calcDurationFromPlaybackStart_def clean_def)
qed

lemma get_set_loaded:
  assumes "\<And>lr. lr_oid (f lr) = lr_oid lr"
  shows "get_loaded oid (set_loaded oid f m) = map_option f (get_loaded oid m)"
proof -
  have "find (\<lambda>lr. lr_oid lr = oid) (map (\<lambda>lr. if lr_oid lr = oid then f lr else lr) xs) =
      map_option f (find (\<lambda>lr. lr_oid lr = oid) xs)" for xs
    by (induction xs) (auto simp: assms)
  then show ?thesis by (simp add: get_loaded_def set_loaded_def)
qed

lemma others_set_loaded:
  assumes "\<And>lr. lr_oid (f lr) = lr_oid lr"
  shows "filter (\<lambda>x. lr_oid x \<noteq> oid) (rooms (set_loaded oid f m)) = filter (\<lambda>x. lr_oid x \<noteq> oid) (rooms m)"
proof -
  have "filter (\<lambda>x. lr_oid x \<noteq> oid) (map (\<lambda>lr. if lr_oid lr = oid then f lr else lr) xs) = filter (\<lambda>x. lr_oid x \<noteq> oid) xs" for xs
    by (induction xs) (auto simp: assms)
  then show ?thesis by (simp add: set_loaded_def)
qed

lemma loaded_self:
  assumes "manager_inv m" "find (named n) (rooms m) = Some lr"
  shows "get_loaded (lr_oid lr) m = Some lr"
proof -
  obtain x where x: "get_loaded (lr_oid lr) m = Some x"
    using find_mem [OF assms(2)] by (cases "get_loaded (lr_oid lr) m") (auto simp: get_loaded_def find_None_iff)
  then have "x \<in> set (rooms m)" "lr_oid x = lr_oid lr" using find_mem unfolding get_loaded_def by fastforce+
  then show ?thesis using same_oid [OF assms(1)] find_mem [OF assms(2)] x by blast
qed

lemma get_loaded_other [simp]:
  "get_loaded oid (m\<lparr>table := db\<rparr>) = get_loaded oid m" "get_loaded oid (m\<lparr>redis := rd\<rparr>) = get_loaded oid m"
  by (simp_all add: get_loaded_def)

lemma temporary_unload:
  assumes "manager_inv m" "find (named n) (rooms m) = Some lr" "isTemporary (lr_room lr)"
    and "temporarySpeed (lr_room lr) = None"
    and "lr_savePending lr \<or> list_ex (\<lambda>p. p \<in> set (dirty (lr_room lr))) storableProps"
  obtains m1 where "unloadRoom w n Shutdown (Some True) m = (None, m1)"
    "redis m1 (room_name (lr_room lr)) = Some (Snapshot (serializeState (now (w_env w)) (lr_room lr)))"
    "note_table m1 (room_name (lr_room lr)) = db_notes (lr_room lr)"
    "rooms m1 = filter (\<lambda>x. lr_oid x \<noteq> lr_oid lr) (rooms m)"
proof -
  obtain r1 where r1: "sync_loaded w (before_unload w (lr_room lr)) (table m) =
      (None, r1, table m, list_ex (\<lambda>p. p \<in> set (dirty (lr_room lr))) storableProps)"
    "serializeState (now (w_env w)) r1 = serializeState (now (w_env w)) (lr_room lr)"
    "db_notes r1 = db_notes (lr_room lr)" "room_name r1 = room_name (lr_room lr)"
    using temporary_checkpoint [OF assms(3,4)] by blast
  define m1 where "m1 = (set_loaded (lr_oid lr) (\<lambda>x. x\<lparr>lr_savePending := False\<rparr>)
      (set_loaded (lr_oid lr) (\<lambda>x. x\<lparr>lr_room := r1, lr_savePending := True\<rparr>) m))
      \<lparr>redis := saveStateToRedis (now (w_env w)) r1 (redis m)\<rparr>"
  have c: "unload_checkpoint w lr m = (None, m1)"
    using assms(5) by (simp add: unload_checkpoint_def r1(1) m1_def set_loaded_def)
  have g: "get_loaded (lr_oid lr) m1 = Some (lr\<lparr>lr_room := r1, lr_savePending := False\<rparr>)"
    by (simp add: m1_def get_set_loaded loaded_self [OF assms(1,2)])
  have rs: "filter (\<lambda>x. lr_oid x \<noteq> lr_oid lr) (rooms m1) = filter (\<lambda>x. lr_oid x \<noteq> lr_oid lr) (rooms m)"
    by (simp add: m1_def others_set_loaded)
  define m2 where "m2 = m1\<lparr>rooms := filter (\<lambda>x. lr_oid x \<noteq> lr_oid lr) (rooms m),
      note_table := (note_table m1)(room_name (lr_room lr) := db_notes (lr_room lr)),
      bus := bus m1 @ [UnloadEvent (room_name (lr_room lr)) Shutdown]\<rparr>"
  have "unloadRoom w n Shutdown (Some True) m = (None, m2)"
    by (simp add: unloadRoom_def assms(2) c seq_def remove_loaded_def g Let_def rs r1 m2_def)
  then show thesis
    by (rule that) (simp_all add: m2_def, simp add: m1_def saveStateToRedis_def r1)
qed

lemma gone:
  assumes "manager_inv m" "find (named n) (rooms m) = Some lr" "lower k = lower n"
  shows "find (named k) (filter (\<lambda>x. lr_oid x \<noteq> lr_oid lr) (rooms m)) = None"
proof -
  have "lr_oid x = lr_oid lr" if "x \<in> set (rooms m)" "named k x" for x
  proof -
    have "lname x = lname lr" using that(2) find_mem [OF assms(2)] assms(3) by (simp add: named_def lname_def)
    then show ?thesis using that(1) find_mem [OF assms(2)] assms(1) by (auto simp: manager_inv_def distinct_map inj_on_def)
  qed
  then show ?thesis by (auto simp: find_None_iff)
qed

lemma role_in_sets: "role_in (map (\<lambda>(role, ids). (role, js_Set ids)) roles) uid is = role_in roles uid is"
proof -
  have "map_of (map (\<lambda>(role, ids). (role, js_Set ids)) roles) i = map_option js_Set (map_of roles i)" for i
    by (induction roles) auto
  then show ?thesis by (induction "is") (auto split: option.splits)
qed

text \<open>Loading a temporary room whose snapshot is in Redis.\<close>

lemma reload_snapshot:
  assumes "manager_inv m" "getRoom_find k m = None" "redis m k = Some (Snapshot s)" "ss_isTemporary s"
    and "new_Grants (FromArray (ss_grants s)) = Inr g" "ROOM_PERMISSIONS_REVISION \<le> ss_permissionsRevision s"
  obtains v t lr where "getRoom w k False m = (Inr (lr_oid lr), snd (addRoom
      ((restore_prevQueue (assign_options t (snapshot_options s g None) (blank_room t g)))
         \<lparr>permissionsRevision := v, userRoles := map (\<lambda>(role, ids). (role, js_Set ids)) (ss_userRoles s),
          playbackStart := ss_playbackStart s, votesToSkip := []\<rparr>) m))"
    "get_loaded (lr_oid lr) (snd (getRoom w k False m)) = Some lr"
    "lr_room lr = (restore_prevQueue (assign_options t (snapshot_options s g None) (blank_room t g)))
         \<lparr>permissionsRevision := v, userRoles := map (\<lambda>(role, ids). (role, js_Set ids)) (ss_userRoles s),
          playbackStart := ss_playbackStart s, votesToSkip := [], db_notes := note_table m k\<rparr>"
proof -
  define t where "t = now (w_env w)"
  obtain v where v: "new_Room t (snapshot_options s g None) = Inr
    ((restore_prevQueue (assign_options t (snapshot_options s g None) (blank_room t g)))
       \<lparr>permissionsRevision := v, userRoles := map (\<lambda>(role, ids). (role, js_Set ids)) (ss_userRoles s),
        playbackStart := ss_playbackStart s, votesToSkip := []\<rparr>)" (is "_ = Inr ?r")
    using snapshot_rebuilds [OF assms(6)] by blast
  have name: "room_name ?r = k"
    using new_Room_name [OF v] assms(1,3) by (simp add: snapshot_options_def manager_inv_def)
  have get: "getRoom w k False m = (Inr (nextOid m), snd (addRoom ?r m))"
    using v assms(2-5) by (simp add: getRoom_def getRoom_load_def redisStateToState_def build_room_def t_def)
      (simp add: addRoom_def Let_def)
  have fresh: "find (\<lambda>lr. lr_oid lr = nextOid m) (rooms m @ [x]) = Some x" if "lr_oid x = nextOid m" for x
    using assms(1) that by (auto simp: manager_inv_def list_all_iff find_Some_iff nth_append intro!: exI [of _ "length (rooms m)"])
      (metis nth_mem less_irrefl)
  show thesis
    by (rule that [where lr = "\<lparr>lr_oid = nextOid m, lr_room = ?r\<lparr>db_notes := note_table m (room_name ?r)\<rparr>,
          lr_epoch = loadEpochKey m + 1, lr_savePending = False\<rparr>"])
      (use get name fresh in \<open>simp_all add: get_loaded_def\<close>, simp_all add: addRoom_def Let_def)
qed

text \<open>The shutdown and the load that follows it, with all that the room has afterwards.\<close>

lemma restart:
  assumes "manager_inv m" "find (named n) (rooms m) = Some lr" "isTemporary (lr_room lr)"
    and "room_inv (lr_room lr)" "ROOM_PERMISSIONS_REVISION \<le> permissionsRevision (lr_room lr)"
    and "temporarySpeed (lr_room lr) = None" "currentSource (lr_room lr) \<noteq> None"
    and "lr_savePending lr \<or> list_ex (\<lambda>p. p \<in> set (dirty (lr_room lr))) storableProps"
  shows "\<exists>m1 oid m2 lr'. unloadRoom w n Shutdown (Some True) m = (None, m1)
    \<and> getRoom w' (room_name (lr_room lr)) False m1 = (Inr oid, m2) \<and> get_loaded oid m2 = Some lr'
    \<and> items (queue (lr_room lr')) = items (queue (lr_room lr)) \<and> currentSource (lr_room lr') = currentSource (lr_room lr)
    \<and> isPlaying (lr_room lr') = isPlaying (lr_room lr)
    \<and> (\<forall>t. realPlaybackPosition t (lr_room lr') = realPlaybackPosition t (lr_room lr))
    \<and> resumeOnNextJoin (lr_room lr') = (bufferingGateHeld (lr_room lr) \<or> resumeOnNextJoin (lr_room lr))
    \<and> (\<forall>role perm. granted (grants (lr_room lr')) role perm = granted (grants (lr_room lr)) role perm)
    \<and> (\<forall>u. getRole (lr_room lr') u = getRole (lr_room lr) u)
    \<and> room_title (lr_room lr') = room_title (lr_room lr) \<and> visibility (lr_room lr') = visibility (lr_room lr)
    \<and> queueMode (lr_room lr') = queueMode (lr_room lr) \<and> enableVoteSkip (lr_room lr') = enableVoteSkip (lr_room lr)
    \<and> bufferGateMode (lr_room lr') = bufferGateMode (lr_room lr)
    \<and> danmakuSource (lr_room lr') = danmakuSource (lr_room lr) \<and> db_notes (lr_room lr') = db_notes (lr_room lr)
    \<and> passwordHash (lr_room lr') = None"
proof -
  let ?r = "lr_room lr"
  obtain m1 where m1: "unloadRoom w n Shutdown (Some True) m = (None, m1)"
    "redis m1 (room_name ?r) = Some (Snapshot (serializeState (now (w_env w)) ?r))"
    "note_table m1 (room_name ?r) = db_notes ?r" "rooms m1 = filter (\<lambda>x. lr_oid x \<noteq> lr_oid lr) (rooms m)"
    by (rule temporary_unload [OF assms(1,2,3,6,8)])
  define s where "s = serializeState (now (w_env w)) ?r"
  have wf: "wf_grants (grants ?r)" using assms(4) by (simp add: room_inv_def data_inv_def)
  obtain g where g: "new_Grants (FromArray (entries (grants ?r))) = Inr g" "\<And>x. mask_of g x = mask_of (grants ?r) x"
    using snapshot_grants [OF wf] by blast
  have find: "getRoom_find (room_name ?r) m1 = None"
    using gone [OF assms(1,2), of "room_name ?r"] find_mem [OF assms(2)] by (simp add: getRoom_find_def m1(4) named_def)
  have inv: "manager_inv m1" using inv_unload [OF assms(1), of w n Shutdown "Some True"] m1(1) by simp
  have fs: "ss_isTemporary s" "ss_name s = room_name ?r" "ss_currentSource s = currentSource ?r" "ss_queue s = items (queue ?r)"
    "ss_isPlaying s = isPlaying ?r" "ss_playbackPosition s = playbackPosition ?r" "ss_playbackSpeed s = playbackSpeed ?r"
    "ss_playbackStart s = playbackStart ?r" "ss_resumeOnNextJoin s = (bufferingGateHeld ?r \<or> resumeOnNextJoin ?r)"
    "ss_grants s = entries (grants ?r)" "ss_userRoles s = userRoles ?r" "ss_owner s = map_option user_id (owner ?r)"
    "ss_permissionsRevision s = permissionsRevision ?r" "ss_title s = room_title ?r" "ss_visibility s = visibility ?r"
    "ss_queueMode s = queueMode ?r" "ss_enableVoteSkip s = enableVoteSkip ?r" "ss_bufferGateMode s = bufferGateMode ?r"
    "ss_danmakuSource s = danmakuSource ?r"
    using assms(3,6) by (simp_all add: s_def serializeState_def)
  obtain v t lr' where lr': "getRoom w' (room_name ?r) False m1 = (Inr (lr_oid lr'), snd (getRoom w' (room_name ?r) False m1))"
    "get_loaded (lr_oid lr') (snd (getRoom w' (room_name ?r) False m1)) = Some lr'"
    "lr_room lr' = (restore_prevQueue (assign_options t (snapshot_options s g None) (blank_room t g)))
         \<lparr>permissionsRevision := v, userRoles := map (\<lambda>(role, ids). (role, js_Set ids)) (ss_userRoles s),
          playbackStart := ss_playbackStart s, votesToSkip := [], db_notes := note_table m1 (room_name ?r)\<rparr>"
    by (rule reload_snapshot [OF inv find m1(2) [folded s_def], of g w']) (use fs g(1) assms(5) in simp_all)
  define q where "q = (restore_prevQueue (assign_options t (snapshot_options s g None) (blank_room t g)))
         \<lparr>permissionsRevision := v, userRoles := map (\<lambda>(role, ids). (role, js_Set ids)) (ss_userRoles s),
          playbackStart := ss_playbackStart s, votesToSkip := []\<rparr>"
  have q: "lr_room lr' = q\<lparr>db_notes := db_notes ?r\<rparr>" by (simp add: lr'(3) q_def m1(3))
  note f = snapshot_room [OF q_def, unfolded fs, OF assms(7)]
  have role: "getRole (lr_room lr') u = getRole ?r u" for u
    using f(14) by (auto simp: q f(15) getRole_def isOwner_def role_in_sets split: option.splits)
  have grant: "granted (grants (lr_room lr')) role perm = granted (grants ?r) role perm" for role perm
    by (simp add: q f(13) granted_iff g(2))
  have pos: "realPlaybackPosition t (lr_room lr') = realPlaybackPosition t ?r" for t
    using assms(3) by (simp add: q f fs(1) realPlaybackPosition_def calcDurationFromPlaybackStart_def split: option.split)
  show ?thesis
    by (rule exI [of _ m1], rule exI [of _ "lr_oid lr'"], rule exI [of _ "snd (getRoom w' (room_name ?r) False m1)"],
        rule exI [of _ lr'], intro conjI allI)
      (rule m1 lr' role grant pos | simp add: q f fs(1) assms(3))+
qed



text \<open>The password of a temporary room is lost on a restart: the snapshot does not carry it, and no
  row has it. Whoever was kept out before may enter without one.\<close>

lemma restart_drops_password:
  assumes "manager_inv m" "find (named n) (rooms m) = Some lr" "isTemporary (lr_room lr)"
    and "room_inv (lr_room lr)" "ROOM_PERMISSIONS_REVISION \<le> permissionsRevision (lr_room lr)"
    and "temporarySpeed (lr_room lr) = None" "currentSource (lr_room lr) \<noteq> None"
    and "lr_savePending lr \<or> list_ex (\<lambda>p. p \<in> set (dirty (lr_room lr))) storableProps"
    and "passwordHash (lr_room lr) = Some h" "h \<noteq> []"
  shows "\<not> hasRoomAccess sha t (lr_room lr) None (Some (SessionAnonymous u)) store
    \<and> (\<exists>m1 oid m2 lr'. unloadRoom w n Shutdown (Some True) m = (None, m1)
        \<and> getRoom w' (room_name (lr_room lr)) False m1 = (Inr oid, m2) \<and> get_loaded oid m2 = Some lr'
        \<and> (\<forall>sha t token session store. hasRoomAccess sha t (lr_room lr') token session store))"
proof -
  have "\<not> hasRoomAccess sha t (lr_room lr) None (Some (SessionAnonymous u)) store"
    using assms(9,10) by (simp add: hasRoomAccess_def split: option.split)
  moreover have "hasRoomAccess sha t r token session store" if "passwordHash r = None" for sha t r token session store
    using that by (simp add: hasRoomAccess_def)
  ultimately show ?thesis using restart [OF assms(1-8), of w w'] by blast
qed

section \<open>A room to restart\<close>

definition restart_sample :: Loaded where
  "restart_sample = \<lparr>lr_oid = 0, lr_room = sample_room\<lparr>room_name := ''lobby'', isTemporary := True,
     permissionsRevision := 1, passwordHash := Some ''hash''\<rparr>, lr_epoch = 1, lr_savePending = True\<rparr>"

definition restart_manager :: Manager where
  "restart_manager = (no_rooms [])\<lparr>rooms := [restart_sample], nextOid := 1\<rparr>"

lemma restart_sample_ok:
  "manager_inv restart_manager" "find (named ''Lobby'') (rooms restart_manager) = Some restart_sample"
  "isTemporary (lr_room restart_sample)" "room_inv (lr_room restart_sample)"
  "ROOM_PERMISSIONS_REVISION \<le> permissionsRevision (lr_room restart_sample)"
  "temporarySpeed (lr_room restart_sample) = None" "currentSource (lr_room restart_sample) \<noteq> None"
  "lr_savePending restart_sample" "passwordHash (lr_room restart_sample) = Some ''hash''"
  "room_name (lr_room restart_sample) = ''lobby''" "lr_room restart_sample = sample_room\<lparr>room_name := ''lobby'', isTemporary := True,
     permissionsRevision := 1, passwordHash := Some ''hash''\<rparr>"
proof -
  have "lower ''lobby'' = lower ''Lobby''" by code_simp
  then show "find (named ''Lobby'') (rooms restart_manager) = Some restart_sample"
    by (simp add: restart_manager_def named_def restart_sample_def)
  show "room_inv (lr_room restart_sample)"
    using sample_room_inv by (simp add: restart_sample_def room_inv_def play_inv_defs data_inv_def votes_ok_def)
qed (simp_all add: restart_manager_def restart_sample_def no_rooms_def manager_inv_def ROOM_PERMISSIONS_REVISION_def)


end
