(* ===== verification/MessageBudget.thy ===== *)
theory MessageBudget
  imports Prelude
begin

text \<open>
  The message budget of a connection in \<^verbatim>\<open>server/clientmanager.ts\<close>: every websocket message takes
  a token of a bucket that refills with time, and a chat message takes one of a second, smaller
  bucket as well. Tokens are rationals; \<open>t\<close> is \<^verbatim>\<open>Date.now()\<close>.

  Shown: however a client times its messages, what is accepted in a stretch of time is bounded by
  the capacity plus the refill of that stretch, and a client that keeps the pace of the refill is
  never refused.
\<close>

section \<open>The buckets\<close>

definition MESSAGE_BUCKET_CAPACITY :: rat where
  "MESSAGE_BUCKET_CAPACITY = 40"

definition MESSAGE_BUCKET_REFILL_PER_SEC :: rat where
  "MESSAGE_BUCKET_REFILL_PER_SEC = 10"

definition CHAT_BUCKET_CAPACITY :: rat where
  "CHAT_BUCKET_CAPACITY = 5"

definition CHAT_BUCKET_REFILL_PER_SEC :: rat where
  "CHAT_BUCKET_REFILL_PER_SEC = 1 / 2"

record TokenBucket =
  tokens :: rat
  updatedAt :: int

definition takeToken :: "int \<Rightarrow> TokenBucket \<Rightarrow> rat \<Rightarrow> rat \<Rightarrow> bool \<times> TokenBucket" where
  "takeToken t bucket capacity refillPerSec =
     (let elapsedSec = of_int (max 0 (t - updatedAt bucket)) / 1000;
          filled = \<lparr>tokens = min capacity (tokens bucket + elapsedSec * refillPerSec), updatedAt = t\<rparr>
      in if tokens filled < 1 then (False, filled)
         else (True, filled\<lparr>tokens := tokens filled - 1\<rparr>))"

record Buckets =
  general :: TokenBucket
  chat_bucket :: TokenBucket

definition new_Buckets :: "int \<Rightarrow> Buckets" where
  "new_Buckets t =
     \<lparr>general = \<lparr>tokens = MESSAGE_BUCKET_CAPACITY, updatedAt = t\<rparr>,
      chat_bucket = \<lparr>tokens = CHAT_BUCKET_CAPACITY, updatedAt = t\<rparr>\<rparr>"

text \<open>
  The map from connections to buckets is the optional argument: a connection has no entry before
  its first message. \<open>isChat\<close> says whether the message is a chat request.
\<close>

definition consumeMessageBudget :: "int \<Rightarrow> bool \<Rightarrow> Buckets option \<Rightarrow> bool \<times> Buckets" where
  "consumeMessageBudget t isChat known =
     (let buckets = (case known of None \<Rightarrow> new_Buckets t | Some b \<Rightarrow> b);
          (ok, g) = takeToken t (general buckets) MESSAGE_BUCKET_CAPACITY MESSAGE_BUCKET_REFILL_PER_SEC;
          buckets1 = buckets\<lparr>general := g\<rparr>
      in if \<not> ok then (False, buckets1)
         else if isChat then
           (let (ok2, c) = takeToken t (chat_bucket buckets1) CHAT_BUCKET_CAPACITY CHAT_BUCKET_REFILL_PER_SEC
            in (ok2, buckets1\<lparr>chat_bucket := c\<rparr>))
         else (True, buckets1))"

section \<open>Rate limiting as an interface\<close>

text \<open>
  What a budget promises: the allowance is bounded, and what an attempt is granted and leaves
  behind is at most the former allowance and the refill since. The bound on accepted attempts
  follows from these laws alone, for any stretch of a connection's life.
\<close>

locale rate_limiter =
  fixes allowance :: "int \<Rightarrow> 's \<Rightarrow> rat"
    and attempt :: "int \<Rightarrow> 'm \<Rightarrow> 's \<Rightarrow> bool \<times> 's"
    and charged :: "'m \<Rightarrow> bool"
    and good :: "int \<Rightarrow> 's \<Rightarrow> bool"
    and capacity rate :: rat
  assumes rate_nonneg: "0 \<le> rate"
    and allowance_nonneg: "good t s \<Longrightarrow> 0 \<le> allowance t s"
    and allowance_cap: "allowance t s \<le> capacity"
    and good_attempt: "good t s \<Longrightarrow> t \<le> u \<Longrightarrow> good u (snd (attempt u m s))"
    and allowance_flow: "good t s \<Longrightarrow> t \<le> u \<Longrightarrow>
      allowance u (snd (attempt u m s)) + (if charged m \<and> fst (attempt u m s) then 1 else 0)
      \<le> allowance t s + rate * of_int (u - t) / 1000"
begin

fun run :: "(int \<times> 'm) list \<Rightarrow> 's \<Rightarrow> nat \<times> 's" where
  "run [] s = (0, s)"
| "run ((t, m) # ms) s =
     (let (n, s1) = run ms (snd (attempt t m s)) in
      ((if charged m \<and> fst (attempt t m s) then 1 else 0) + n, s1))"

lemma run_Cons:
  "fst (run ((t, m) # ms) s) =
     (if charged m \<and> fst (attempt t m s) then 1 else 0) + fst (run ms (snd (attempt t m s)))"
  "snd (run ((t, m) # ms) s) = snd (run ms (snd (attempt t m s)))"
  by (simp_all add: case_prod_unfold Let_def)

lemma run_flow:
  assumes "good t s" "sorted (t # map fst ms)"
  shows "good (last (t # map fst ms)) (snd (run ms s))
    \<and> of_nat (fst (run ms s)) + allowance (last (t # map fst ms)) (snd (run ms s))
      \<le> allowance t s + rate * of_int (last (t # map fst ms) - t) / 1000"
  using assms
proof (induction ms arbitrary: t s)
  case (Cons e ms)
  obtain u m where e: "e = (u, m)" by force
  have "t \<le> u" "sorted (u # map fst ms)" using Cons.prems e by auto
  note step = allowance_flow [OF Cons.prems(1) \<open>t \<le> u\<close>, of m]
  note IH = Cons.IH [OF good_attempt [OF Cons.prems(1) \<open>t \<le> u\<close>] \<open>sorted (u # map fst ms)\<close>, of m]
  define z where "z = last (u # map fst ms)"
  have "rate * of_int (z - u) / 1000 + rate * of_int (u - t) / 1000 = rate * of_int (z - t) / (1000 :: rat)"
    by (simp add: field_simps)
  moreover have "last (t # map fst (e # ms)) = z" by (simp add: e z_def)
  ultimately show ?case using step IH
    unfolding e run_Cons z_def [symmetric] by (auto split: if_splits)
qed simp

text \<open>Whatever happened before, a stretch of time admits its refill and one full bucket.\<close>

lemma accepted_bound:
  assumes "good t s" "sorted (t # map fst ms)"
  shows "of_nat (fst (run ms s)) \<le> capacity + rate * of_int (last (t # map fst ms) - t) / 1000"
  using run_flow [OF assms] allowance_cap [of t s] allowance_nonneg by fastforce

end

section \<open>A single bucket\<close>

definition level :: "rat \<Rightarrow> rat \<Rightarrow> int \<Rightarrow> TokenBucket \<Rightarrow> rat" where
  "level capacity rate t b = min capacity (tokens b + rate * of_int (max 0 (t - updatedAt b)) / 1000)"

lemma takeToken_level:
  "takeToken t b capacity rate =
     (1 \<le> level capacity rate t b,
      \<lparr>tokens = level capacity rate t b - (if 1 \<le> level capacity rate t b then 1 else 0), updatedAt = t\<rparr>)"
  by (simp add: takeToken_def level_def Let_def mult.commute not_less)

definition good_bucket :: "int \<Rightarrow> TokenBucket \<Rightarrow> bool" where
  "good_bucket t b \<longleftrightarrow> 0 \<le> tokens b \<and> updatedAt b \<le> t"

lemma level_nonneg:
  assumes "0 \<le> rate" "0 \<le> capacity" "good_bucket t b"
  shows "0 \<le> level capacity rate t b"
  using assms by (simp add: level_def good_bucket_def)

lemma level_later:
  assumes "good_bucket t b" "t \<le> u" "0 \<le> rate"
  shows "level capacity rate u b = min capacity (level capacity rate t b + rate * of_int (u - t) / 1000)"
proof -
  have "rate * of_int (u - updatedAt b) / 1000
      = rate * of_int (t - updatedAt b) / (1000 :: rat) + rate * of_int (u - t) / 1000"
    by (simp add: field_simps)
  moreover have "0 \<le> rate * of_int (u - t) / 1000" using assms by simp
  ultimately have "min capacity (tokens b + rate * of_int (u - updatedAt b) / 1000)
      = min capacity (min capacity (tokens b + rate * of_int (t - updatedAt b) / 1000) + rate * of_int (u - t) / 1000)"
    by linarith
  then show ?thesis using assms by (simp only: level_def good_bucket_def max_absorb2 diff_ge_0_iff_ge) simp
qed

lemma takeToken_flow:
  assumes "good_bucket t b" "t \<le> u" "0 \<le> rate" "0 \<le> capacity"
  shows "good_bucket u (snd (takeToken u b capacity rate))"
    "level capacity rate u (snd (takeToken u b capacity rate)) + (if fst (takeToken u b capacity rate) then 1 else 0)
      \<le> level capacity rate t b + rate * of_int (u - t) / 1000"
proof -
  have "0 \<le> level capacity rate u b"
    using assms by (intro level_nonneg) (auto simp: good_bucket_def)
  then show "good_bucket u (snd (takeToken u b capacity rate))"
    by (simp add: takeToken_level good_bucket_def)
  have "level capacity rate u b \<le> level capacity rate t b + rate * of_int (u - t) / 1000"
    using level_later [OF assms(1-3), of capacity] by simp
  then show "level capacity rate u (snd (takeToken u b capacity rate)) + (if fst (takeToken u b capacity rate) then 1 else 0)
      \<le> level capacity rate t b + rate * of_int (u - t) / 1000"
    by (auto simp: takeToken_level) (auto simp: level_def)
qed

section \<open>The budget of a connection\<close>

definition budget :: "int \<Rightarrow> Buckets option \<Rightarrow> Buckets" where
  "budget t known = (case known of None \<Rightarrow> new_Buckets t | Some b \<Rightarrow> b)"

definition general_level :: "int \<Rightarrow> Buckets option \<Rightarrow> rat" where
  "general_level t known = level MESSAGE_BUCKET_CAPACITY MESSAGE_BUCKET_REFILL_PER_SEC t (general (budget t known))"

definition chat_level :: "int \<Rightarrow> Buckets option \<Rightarrow> rat" where
  "chat_level t known = level CHAT_BUCKET_CAPACITY CHAT_BUCKET_REFILL_PER_SEC t (chat_bucket (budget t known))"

definition good_budget :: "int \<Rightarrow> Buckets option \<Rightarrow> bool" where
  "good_budget t known \<longleftrightarrow>
     good_bucket t (general (budget t known)) \<and> good_bucket t (chat_bucket (budget t known))"

text \<open>A message against the budget; the entry of the connection is written back.\<close>

definition spend :: "int \<Rightarrow> bool \<Rightarrow> Buckets option \<Rightarrow> bool \<times> Buckets option" where
  "spend t isChat known = map_prod id Some (consumeMessageBudget t isChat known)"

lemmas bucket_constants =
  MESSAGE_BUCKET_CAPACITY_def MESSAGE_BUCKET_REFILL_PER_SEC_def CHAT_BUCKET_CAPACITY_def
  CHAT_BUCKET_REFILL_PER_SEC_def

text \<open>The budget in terms of its two levels.\<close>

lemma spend_levels:
  "fst (spend t isChat known) \<longleftrightarrow> 1 \<le> general_level t known \<and> (isChat \<longrightarrow> 1 \<le> chat_level t known)"
  "general (budget u (snd (spend t isChat known))) =
     snd (takeToken t (general (budget t known)) MESSAGE_BUCKET_CAPACITY MESSAGE_BUCKET_REFILL_PER_SEC)"
  "chat_bucket (budget u (snd (spend t isChat known))) =
     (if isChat \<and> 1 \<le> general_level t known
      then snd (takeToken t (chat_bucket (budget t known)) CHAT_BUCKET_CAPACITY CHAT_BUCKET_REFILL_PER_SEC)
      else chat_bucket (budget t known))"
  by (auto simp: spend_def consumeMessageBudget_def takeToken_level general_level_def chat_level_def
      budget_def Let_def map_prod_def split: prod.splits)

text \<open>A connection that has not spoken yet has full buckets at every instant.\<close>

lemma budget_first:
  "good_budget t None" "general_level t None = MESSAGE_BUCKET_CAPACITY" "chat_level t None = CHAT_BUCKET_CAPACITY"
  by (simp_all add: good_budget_def general_level_def chat_level_def budget_def new_Buckets_def
      good_bucket_def level_def bucket_constants)

text \<open>Waiting refills the buckets, up to their capacity.\<close>

lemma waiting:
  assumes "good_budget t known" "t \<le> u"
  shows "good_budget u known"
    "general_level u known = min MESSAGE_BUCKET_CAPACITY
       (general_level t known + MESSAGE_BUCKET_REFILL_PER_SEC * of_int (u - t) / 1000)"
    "chat_level u known = min CHAT_BUCKET_CAPACITY
       (chat_level t known + CHAT_BUCKET_REFILL_PER_SEC * of_int (u - t) / 1000)"
proof -
  note later = level_later [OF _ assms(2), of _ MESSAGE_BUCKET_REFILL_PER_SEC]
    level_later [OF _ assms(2), of _ CHAT_BUCKET_REFILL_PER_SEC]
  have pos: "0 \<le> MESSAGE_BUCKET_REFILL_PER_SEC * of_int (u - t) / 1000"
    "0 \<le> CHAT_BUCKET_REFILL_PER_SEC * of_int (u - t) / 1000"
    using assms(2) by (simp_all add: bucket_constants)
  show "good_budget u known"
    using assms by (cases known) (auto simp: budget_first good_budget_def good_bucket_def budget_def new_Buckets_def)
  show "general_level u known = min MESSAGE_BUCKET_CAPACITY
       (general_level t known + MESSAGE_BUCKET_REFILL_PER_SEC * of_int (u - t) / 1000)"
  proof (cases known)
    case None
    then show ?thesis using pos(1) by (simp only: budget_first)
  next
    case (Some b)
    then show ?thesis using assms(1) later(1) [of "general b"]
      by (simp add: general_level_def good_budget_def budget_def bucket_constants)
  qed
  show "chat_level u known = min CHAT_BUCKET_CAPACITY
       (chat_level t known + CHAT_BUCKET_REFILL_PER_SEC * of_int (u - t) / 1000)"
  proof (cases known)
    case None
    then show ?thesis using pos(2) by (simp only: budget_first)
  next
    case (Some b)
    then show ?thesis using assms(1) later(2) [of "chat_bucket b"]
      by (simp add: chat_level_def good_budget_def budget_def bucket_constants)
  qed
qed

lemma good_spend:
  assumes "good_budget t known" "t \<le> u"
  shows "good_budget u (snd (spend u isChat known))"
  using waiting(1) [OF assms]
  by (auto simp: good_budget_def spend_levels bucket_constants intro!: takeToken_flow(1) [of u])

lemma spend_costs:
  assumes "good_budget t known"
  shows "general_level t (snd (spend t isChat known)) =
      general_level t known - (if 1 \<le> general_level t known then 1 else 0)"
    "chat_level t (snd (spend t isChat known)) =
      chat_level t known - (if isChat \<and> fst (spend t isChat known) then 1 else 0)"
  by (auto simp: general_level_def chat_level_def spend_levels takeToken_level)
    (auto simp: level_def)

lemma general_flow:
  assumes "good_budget t known" "t \<le> u"
  shows "general_level u (snd (spend u isChat known)) + (if fst (spend u isChat known) then 1 else 0)
    \<le> general_level t known + MESSAGE_BUCKET_REFILL_PER_SEC * of_int (u - t) / 1000"
  using waiting(2) [OF assms] spend_costs(1) [OF waiting(1) [OF assms], of isChat] by (auto simp: spend_levels(1))

lemma chat_flow:
  assumes "good_budget t known" "t \<le> u"
  shows "chat_level u (snd (spend u isChat known)) + (if isChat \<and> fst (spend u isChat known) then 1 else 0)
    \<le> chat_level t known + CHAT_BUCKET_REFILL_PER_SEC * of_int (u - t) / 1000"
  using waiting(3) [OF assms] spend_costs(2) [OF waiting(1) [OF assms], of isChat] by auto

lemma levels_bounded:
  "general_level t known \<le> MESSAGE_BUCKET_CAPACITY" "chat_level t known \<le> CHAT_BUCKET_CAPACITY"
  "good_budget t known \<Longrightarrow> 0 \<le> general_level t known" "good_budget t known \<Longrightarrow> 0 \<le> chat_level t known"
proof -
  show "general_level t known \<le> MESSAGE_BUCKET_CAPACITY" "chat_level t known \<le> CHAT_BUCKET_CAPACITY"
    by (simp_all add: general_level_def chat_level_def level_def)
  assume "good_budget t known"
  then show "0 \<le> general_level t known" "0 \<le> chat_level t known"
    unfolding general_level_def chat_level_def good_budget_def
    by (auto intro!: level_nonneg simp: bucket_constants)
qed

interpretation message_rate: rate_limiter general_level spend "\<lambda>_. True" good_budget
    MESSAGE_BUCKET_CAPACITY MESSAGE_BUCKET_REFILL_PER_SEC
  by unfold_locales
    (simp_all add: levels_bounded good_spend general_flow del: of_int_diff, simp add: bucket_constants)

interpretation chat_rate: rate_limiter chat_level spend "\<lambda>isChat. isChat" good_budget
    CHAT_BUCKET_CAPACITY CHAT_BUCKET_REFILL_PER_SEC
  by unfold_locales
    (simp_all add: levels_bounded good_spend chat_flow del: of_int_diff, simp add: bucket_constants)

section \<open>A connection's messages\<close>

text \<open>The verdict on each message of a connection, given as instant and kind, and the entry left.\<close>

fun verdicts :: "(int \<times> bool) list \<Rightarrow> Buckets option \<Rightarrow> bool list" where
  "verdicts [] known = []"
| "verdicts ((t, isChat) # ms) known =
     fst (consumeMessageBudget t isChat known)
     # verdicts ms (Some (snd (consumeMessageBudget t isChat known)))"

fun entry_after :: "(int \<times> bool) list \<Rightarrow> Buckets option \<Rightarrow> Buckets option" where
  "entry_after [] known = known"
| "entry_after ((t, isChat) # ms) known =
     entry_after ms (Some (snd (consumeMessageBudget t isChat known)))"

lemma spend_consume:
  "fst (spend t isChat known) = fst (consumeMessageBudget t isChat known)"
  "snd (spend t isChat known) = Some (snd (consumeMessageBudget t isChat known))"
  by (simp_all add: spend_def map_prod_def case_prod_unfold)

lemma verdicts_run:
  "length (filter id (verdicts ms known)) = fst (message_rate.run ms known)"
  "length (filter (\<lambda>((t, isChat), ok). isChat \<and> ok) (zip ms (verdicts ms known))) = fst (chat_rate.run ms known)"
  "entry_after ms known = snd (message_rate.run ms known)"
  by (induction ms known rule: verdicts.induct)
    (auto simp: spend_consume case_prod_unfold Let_def)

text \<open>After any history the entry is good at the instant of the next message.\<close>

lemma history_good:
  assumes "sorted (map fst (past @ m # ms))"
  shows "good_budget (fst m) (entry_after past None)"
proof (cases past)
  case Nil
  then show ?thesis by (simp add: budget_first)
next
  case (Cons e es)
  let ?t = "fst e"
  have "sorted (?t # map fst past)" using assms Cons by (auto simp: sorted_append)
  from message_rate.run_flow [OF budget_first(1) this]
  have "good_budget (last (?t # map fst past)) (entry_after past None)"
    by (simp only: verdicts_run)
  moreover have "last (?t # map fst past) \<le> fst m"
    using assms \<open>sorted (?t # map fst past)\<close> by (auto simp: sorted_append Cons last_map)
  ultimately show ?thesis by (rule waiting(1))
qed

text \<open>C10.
  Flooding is bounded. Whatever a connection has sent before, and however it times its messages,
  the number of messages accepted in any stretch of its life is at most 40 plus ten for every
  second of the stretch, and the number of chat messages among them at most 5 plus one for every
  two seconds. (The clock is assumed not to run backwards.)\<close>

theorem message_rate_bounded:
  assumes "sorted (map fst (past @ m # ms))"
  shows "of_nat (length (filter id (verdicts (m # ms) (entry_after past None))))
      \<le> 40 + 10 * (of_int (fst (last (m # ms)) - fst m) / 1000 :: rat)
    \<and> of_nat (length (filter (\<lambda>((t, isChat), ok). isChat \<and> ok)
          (zip (m # ms) (verdicts (m # ms) (entry_after past None)))))
      \<le> 5 + 1 / 2 * (of_int (fst (last (m # ms)) - fst m) / 1000 :: rat)"
proof -
  have s: "sorted (fst m # map fst (m # ms))" using assms by (auto simp: sorted_append)
  have l: "last (fst m # map fst (m # ms)) = fst (last (m # ms))" by (simp add: last_map)
  show ?thesis
    using message_rate.accepted_bound [OF history_good [OF assms] s]
      chat_rate.accepted_bound [OF history_good [OF assms] s]
    unfolding verdicts_run l by (simp add: bucket_constants)
qed

theorem message_rate_bounded_witness:
  "of_nat (length (filter id (verdicts ((200, True) # replicate 60 (300, False))
      (entry_after [(0, False), (100, True)] None)))) \<le> (41 :: rat)"
proof -
  have "sorted (map fst ([(0, False), (100, True)] @ (200, True) # replicate 60 (300 :: int, False)))"
    by (simp add: sorted_replicate)
  from message_rate_bounded [OF this] show ?thesis by (simp del: verdicts.simps entry_after.simps)
qed

text \<open>Messages at least \<open>d\<close> milliseconds apart.\<close>

definition paced :: "int \<Rightarrow> int list \<Rightarrow> bool" where
  "paced d ts = successively (\<lambda>t u. t + d \<le> u) ts"

lemma paced_step:
  assumes "good_budget t known" "t + 100 \<le> u" "c \<le> t" "isChat \<longrightarrow> c + 2000 \<le> u"
    and "min 5 (of_int (t - c) / 2000) \<le> chat_level t known"
  shows "fst (spend u isChat known)"
    "min 5 (of_int (u - (if isChat then u else c)) / 2000) \<le> chat_level u (snd (spend u isChat known))"
proof -
  have u: "t \<le> u" using assms by simp
  have r: "of_int t + 100 \<le> (of_int u :: rat)" using of_int_le_iff [of "t + 100" u, where ?'a = rat] assms(2) by simp
  have "1 \<le> general_level u known"
    using waiting(2) [OF assms(1) u] levels_bounded(3) [OF assms(1)] r
    by (simp add: bucket_constants field_simps)
  moreover have c: "min 5 (of_int (u - c) / 2000) \<le> chat_level u known"
    using waiting(3) [OF assms(1) u] assms(5) r by (simp add: bucket_constants min_def field_simps split: if_splits)
  moreover have "1 \<le> chat_level u known" if isChat
    using of_int_le_iff [of "c + 2000" u, where ?'a = rat] assms(4) that c
    by (simp add: min_def field_simps split: if_splits)
  ultimately show ok: "fst (spend u isChat known)" by (auto simp: spend_levels)
  show "min 5 (of_int (u - (if isChat then u else c)) / 2000) \<le> chat_level u (snd (spend u isChat known))"
    using spend_costs(2) [OF waiting(1) [OF assms(1) u], of isChat] c ok spend_levels(1) [of u isChat known] by auto
qed

lemma paced_accepted:
  assumes "good_budget t known" "c \<le> t" "paced 100 (t # map fst ms)" "paced 2000 (c # map fst (filter snd ms))"
    and "min 5 (of_int (t - c) / 2000) \<le> chat_level t known"
  shows "list_all (\<lambda>ok. ok) (verdicts ms known)"
  using assms
proof (induction ms arbitrary: t c known)
  case (Cons e ms)
  obtain u isChat where e: "e = (u, isChat)" by force
  let ?c = "if isChat then u else c"
  have step: "t + 100 \<le> u" "isChat \<longrightarrow> c + 2000 \<le> u" "paced 100 (u # map fst ms)"
    "paced 2000 (?c # map fst (filter snd ms))"
    using Cons.prems(3,4) by (auto simp: paced_def e)
  note ok = paced_step [OF Cons.prems(1) step(1) Cons.prems(2) step(2) Cons.prems(5)]
  have "list_all (\<lambda>ok. ok) (verdicts ms (snd (spend u isChat known)))"
    using Cons.IH [OF good_spend [OF Cons.prems(1), of u] _ step(3,4) ok(2)] step(1) Cons.prems(2) by simp
  with ok(1) show ?case by (simp add: e spend_consume)
qed simp

text \<open>The budget never gets in the way of a client that keeps the pace: when its messages are at least
  a tenth of a second apart and its chat messages at least two seconds, none is ever refused.\<close>

lemma paced_never_refused:
  assumes "paced 100 (map fst ms)" "paced 2000 (map fst (filter snd ms))"
  shows "list_all (\<lambda>ok. ok) (verdicts ms None)"
proof (cases ms)
  case (Cons e es)
  let ?t = "fst e - 100"
  obtain c where c: "c \<le> ?t" "paced 2000 (c # map fst (filter snd ms))"
  proof (cases "map fst (filter snd ms)")
    case Nil
    then show ?thesis using that [of ?t] by (simp add: paced_def)
  next
    case (Cons f fs)
    then show ?thesis using that [of "min ?t (f - 2000)"] assms(2) by (simp add: paced_def)
  qed
  have "paced 100 (?t # map fst ms)" using assms(1) Cons by (auto simp: paced_def)
  from paced_accepted [OF budget_first(1) c(1) this c(2)] show ?thesis
    by (simp add: budget_first bucket_constants)
qed simp

end
