(* ===== verification/Voice.thy ===== *)
theory Voice
  imports RoomUsers
begin

text \<open>
  \<^verbatim>\<open>server/voice.ts\<close>: the relay channels of the voice chat, as the operator configures them, and
  the TURN credentials that are fetched from Cloudflare and kept until they expire.

  The configuration is the record \<open>voice_conf\<close>; \<^verbatim>\<open>JSON.parse\<close> and the numeric value of a string
  are functions of it. A request to Cloudflare is an argument, with the instant of its answer.
  A request that several callers wait for is one refresh.
\<close>

section \<open>Values of JSON\<close>

datatype json = NullV | BoolV bool | NumV js_number | StrV string | ArrV "json list" | ObjV "(string \<times> json) list"

record RtcIceServer =
  urls :: "string list"
  ice_username :: "json option"
  ice_credential :: "json option"

record TurnEndpoint =
  te_id :: string
  monthlyLimitMb :: rat
  keyId :: "string option"
  apiToken :: "string option"
  staticIceServers :: "RtcIceServer list option"

datatype channel_kind = Cloudflare | Static

record TurnChannel =
  tc_id :: string
  tc_kind :: channel_kind
  endpoints :: "TurnEndpoint list"

record voice_conf =
  vc_enabled :: bool
  vc_ice_servers :: string
  vc_turn_ice_servers :: string
  vc_turn_channels :: string
  vc_key_id :: string
  vc_api_token :: string
  vc_ttl_seconds :: js_number
  vc_max_participants :: int
  vc_max_rooms :: int
  vc_bitrate_kbps :: rat
  vc_parse :: "string \<Rightarrow> json option"
  vc_number :: "string \<Rightarrow> js_number"

definition isVoiceEnabled :: "voice_conf \<Rightarrow> bool" where
  "isVoiceEnabled vc = vc_enabled vc"

definition DEFAULT_CHANNEL_LIMIT_MB :: rat where "DEFAULT_CHANNEL_LIMIT_MB = 700000"
definition CLOUDFLARE_TURN_MIN_TTL_SECONDS :: rat where "CLOUDFLARE_TURN_MIN_TTL_SECONDS = 300"
definition CLOUDFLARE_TURN_MAX_TTL_SECONDS :: rat where "CLOUDFLARE_TURN_MAX_TTL_SECONDS = 48 * 60 * 60"
definition CLOUDFLARE_TURN_DEFAULT_TTL_SECONDS :: rat where "CLOUDFLARE_TURN_DEFAULT_TTL_SECONDS = 24 * 60 * 60"
definition CLOUDFLARE_TURN_REFRESH_RATIO :: rat where "CLOUDFLARE_TURN_REFRESH_RATIO = 8 / 10"
definition CLOUDFLARE_TURN_FAILURE_COOLDOWN_MS :: rat where "CLOUDFLARE_TURN_FAILURE_COOLDOWN_MS = 30000"

text \<open>A member of an object; \<^verbatim>\<open>null\<close> and an absent member are the same to \<^verbatim>\<open>??\<close>.\<close>

definition str_member :: "string \<Rightarrow> (string \<times> json) list \<Rightarrow> string" where
  "str_member k obj = (case map_of obj k of Some (StrV s) \<Rightarrow> trim s | _ \<Rightarrow> [])"

text \<open>\<^verbatim>\<open>Number(v)\<close>: an array goes through its text.\<close>

fun to_number :: "(string \<Rightarrow> js_number) \<Rightarrow> json \<Rightarrow> js_number" where
  "to_number num NullV = Fin 0"
| "to_number num (BoolV b) = Fin (if b then 1 else 0)"
| "to_number num (NumV x) = x"
| "to_number num (StrV s) = num s"
| "to_number num (ArrV []) = Fin 0"
| "to_number num (ArrV [BoolV b]) = NaN"
| "to_number num (ArrV [v]) = to_number num v"
| "to_number num _ = NaN"

section \<open>ICE servers\<close>

definition urls_of :: "json option \<Rightarrow> string list option" where
  "urls_of v =
     (case v of
        Some (StrV s) \<Rightarrow> Some [s]
      | Some (ArrV us) \<Rightarrow>
          if us \<noteq> [] \<and> list_all (\<lambda>u. case u of StrV _ \<Rightarrow> True | _ \<Rightarrow> False) us
          then Some (map (\<lambda>u. case u of StrV s \<Rightarrow> s | _ \<Rightarrow> []) us) else None
      | _ \<Rightarrow> None)"

fun ice_entry :: "json \<Rightarrow> RtcIceServer option" where
  "ice_entry (ObjV obj) =
     map_option (\<lambda>us. \<lparr>urls = us, ice_username = map_of obj ''username'', ice_credential = map_of obj ''credential''\<rparr>)
       (urls_of (map_of obj ''urls''))"
| "ice_entry _ = None"

text \<open>One bad entry spoils the list: \<^verbatim>\<open>map\<close> throws.\<close>

fun ice_entries :: "json list \<Rightarrow> RtcIceServer list option" where
  "ice_entries [] = Some []"
| "ice_entries (e # es) =
     (case ice_entry e of
        None \<Rightarrow> None
      | Some s \<Rightarrow> map_option (\<lambda>ss. s # ss) (ice_entries es))"

definition parseIceServers :: "(string \<Rightarrow> json option) \<Rightarrow> string \<Rightarrow> RtcIceServer list \<Rightarrow> RtcIceServer list" where
  "parseIceServers parse raw fallback =
     (if trim raw = [] then fallback
      else case parse (trim raw) of
          Some (ArrV es) \<Rightarrow>
            if es = [] then fallback else (case ice_entries es of None \<Rightarrow> fallback | Some ss \<Rightarrow> ss)
        | _ \<Rightarrow> fallback)"

definition DEFAULT_DIRECT_ICE_SERVERS :: "RtcIceServer list" where
  "DEFAULT_DIRECT_ICE_SERVERS =
     [\<lparr>urls = [''stun:stun.l.google.com:19302''], ice_username = None, ice_credential = None\<rparr>,
      \<lparr>urls = [''stun:stun.cloudflare.com:3478''], ice_username = None, ice_credential = None\<rparr>]"

definition getDirectIceServers :: "voice_conf \<Rightarrow> RtcIceServer list" where
  "getDirectIceServers vc = parseIceServers (vc_parse vc) (vc_ice_servers vc) DEFAULT_DIRECT_ICE_SERVERS"

definition getStaticRelayIceServers :: "voice_conf \<Rightarrow> RtcIceServer list" where
  "getStaticRelayIceServers vc = parseIceServers (vc_parse vc) (vc_turn_ice_servers vc) []"

section \<open>Channels\<close>

text \<open>A limit that is not a positive number is replaced by the default.\<close>

definition limit_or_default :: "js_number \<Rightarrow> rat" where
  "limit_or_default x = (case x of Fin l \<Rightarrow> if 0 < l then l else DEFAULT_CHANNEL_LIMIT_MB | _ \<Rightarrow> DEFAULT_CHANNEL_LIMIT_MB)"

definition member_limit :: "voice_conf \<Rightarrow> (string \<times> json) list \<Rightarrow> rat \<Rightarrow> rat" where
  "member_limit vc obj dflt =
     limit_or_default (case map_of obj ''monthlyLimitMb'' of
        None \<Rightarrow> Fin dflt | Some NullV \<Rightarrow> Fin dflt | Some v \<Rightarrow> to_number (vc_number vc) v)"

text \<open>Decimal digits of an index, for the generated ids.\<close>

fun show_nat :: "nat \<Rightarrow> string" where
  "show_nat n = (if n < 10 then [char_of (48 + n)] else show_nat (n div 10) @ [char_of (48 + n mod 10)])"

declare show_nat.simps [simp del]

fun parse_keys :: "voice_conf \<Rightarrow> string \<Rightarrow> rat \<Rightarrow> nat \<Rightarrow> string list \<Rightarrow> json list \<Rightarrow> TurnEndpoint list option" where
  "parse_keys vc cid cap i seen [] = Some []"
| "parse_keys vc cid cap i seen (ObjV key # rest) =
     (let eid = (if str_member ''id'' key \<noteq> [] then str_member ''id'' key else cid @ ''-'' @ show_nat (Suc i));
          kid = str_member ''keyId'' key; token = str_member ''apiToken'' key
      in if kid = [] \<or> token = [] \<or> eid \<in> set seen then None
         else map_option (\<lambda>es. \<lparr>te_id = eid, monthlyLimitMb = member_limit vc key cap, keyId = Some kid,
                apiToken = Some token, staticIceServers = None\<rparr> # es)
              (parse_keys vc cid cap (Suc i) (js_add eid seen) rest))"
| "parse_keys vc cid cap i seen (_ # rest) = None"

definition parseEndpoints :: "voice_conf \<Rightarrow> string \<Rightarrow> (string \<times> json) list \<Rightarrow> rat \<Rightarrow> TurnEndpoint list option" where
  "parseEndpoints vc cid obj cap =
     (case map_of obj ''keys'' of
        Some (ArrV ks) \<Rightarrow> if ks = [] then None else parse_keys vc cid cap 0 [] ks
      | _ \<Rightarrow>
          (let kid = str_member ''keyId'' obj; token = str_member ''apiToken'' obj
           in if kid = [] \<or> token = [] then None
              else Some [\<lparr>te_id = ''default'', monthlyLimitMb = cap, keyId = Some kid, apiToken = Some token,
                          staticIceServers = None\<rparr>]))"

definition static_endpoint :: "rat \<Rightarrow> RtcIceServer list \<Rightarrow> TurnEndpoint" where
  "static_endpoint cap servers =
     \<lparr>te_id = ''static'', monthlyLimitMb = cap, keyId = None, apiToken = None, staticIceServers = Some servers\<rparr>"

definition parse_channel :: "voice_conf \<Rightarrow> string \<Rightarrow> (string \<times> json) list \<Rightarrow> TurnChannel option" where
  "parse_channel vc cid obj =
     (let cap = member_limit vc obj DEFAULT_CHANNEL_LIMIT_MB in
      if map_of obj ''kind'' \<noteq> Some (StrV ''static'')
      then map_option (\<lambda>es. \<lparr>tc_id = cid, tc_kind = Cloudflare, endpoints = es\<rparr>) (parseEndpoints vc cid obj cap)
      else if getStaticRelayIceServers vc = [] then None
      else Some \<lparr>tc_id = cid, tc_kind = Static, endpoints = [static_endpoint cap (getStaticRelayIceServers vc)]\<rparr>)"

fun parse_channels :: "voice_conf \<Rightarrow> string list \<Rightarrow> json list \<Rightarrow> TurnChannel list option" where
  "parse_channels vc seen [] = Some []"
| "parse_channels vc seen (ObjV obj # rest) =
     (let cid = str_member ''id'' obj in
      if cid = [] \<or> cid \<in> set seen then None
      else case parse_channel vc cid obj of
          None \<Rightarrow> None
        | Some c \<Rightarrow> map_option (\<lambda>cs. c # cs) (parse_channels vc (js_add cid seen) rest))"
| "parse_channels vc seen (_ # rest) = None"

text \<open>A list that does not parse disables every channel; without a list, the single settings give at most two.\<close>

definition parseTurnChannels :: "voice_conf \<Rightarrow> TurnChannel list" where
  "parseTurnChannels vc =
     (if trim (vc_turn_channels vc) \<noteq> [] then
        (case vc_parse vc (trim (vc_turn_channels vc)) of
           Some (ArrV es) \<Rightarrow>
             if es = [] then [] else (case parse_channels vc [] es of None \<Rightarrow> [] | Some cs \<Rightarrow> cs)
         | _ \<Rightarrow> [])
      else
        (let kid = trim (vc_key_id vc); token = trim (vc_api_token vc); servers = getStaticRelayIceServers vc in
         (if kid \<noteq> [] \<and> token \<noteq> []
          then [\<lparr>tc_id = ''cloudflare'', tc_kind = Cloudflare, endpoints =
                  [\<lparr>te_id = ''default'', monthlyLimitMb = DEFAULT_CHANNEL_LIMIT_MB, keyId = Some kid,
                    apiToken = Some token, staticIceServers = None\<rparr>]\<rparr>] else [])
         @ (if servers \<noteq> []
            then [\<lparr>tc_id = ''static'', tc_kind = Static, endpoints = [static_endpoint DEFAULT_CHANNEL_LIMIT_MB servers]\<rparr>]
            else [])))"

text \<open>The parsed list is kept until one of the four settings it depends on changes.\<close>

record channel_cache =
  cachedChannelsKey :: "string option"
  cachedChannels :: "TurnChannel list"

definition no_channels :: channel_cache where
  "no_channels = \<lparr>cachedChannelsKey = None, cachedChannels = []\<rparr>"

definition channels_key :: "voice_conf \<Rightarrow> string" where
  "channels_key vc = vc_turn_channels vc @ [CHR 0x00] @ vc_key_id vc @ [CHR 0x00] @ vc_api_token vc @ [CHR 0x00] @ vc_turn_ice_servers vc"

definition getTurnChannels :: "voice_conf \<Rightarrow> channel_cache \<Rightarrow> TurnChannel list \<times> channel_cache" where
  "getTurnChannels vc c =
     (if cachedChannelsKey c = Some (channels_key vc) then (cachedChannels c, c)
      else (parseTurnChannels vc, \<lparr>cachedChannelsKey = Some (channels_key vc), cachedChannels = parseTurnChannels vc\<rparr>))"

section \<open>What Cloudflare answers\<close>

definition isTurnUrl :: "string \<Rightarrow> bool" where
  "isTurnUrl url \<longleftrightarrow> prefix ''turn:'' url \<or> prefix ''turns:'' url"

text \<open>\<^verbatim>\<open>/:53(?:\?|$)/\<close>, somewhere in the URL.\<close>

definition on_port_53 :: "string \<Rightarrow> bool" where
  "on_port_53 url \<longleftrightarrow> list_ex (\<lambda>t. prefix '':53?'' t \<or> t = '':53'') (suffixes url)"

definition withoutPort53 :: "string list \<Rightarrow> string list" where
  "withoutPort53 us = filter (\<lambda>u. \<not> on_port_53 u) us"

definition only_str :: "json option \<Rightarrow> json option" where
  "only_str v = (case v of Some (StrV s) \<Rightarrow> Some (StrV s) | _ \<Rightarrow> None)"

fun parseIceServerEntry :: "json \<Rightarrow> RtcIceServer option" where
  "parseIceServerEntry (ObjV obj) =
     (case urls_of (map_of obj ''urls'') of
        None \<Rightarrow> None
      | Some us \<Rightarrow>
          if withoutPort53 us = [] then None
          else Some \<lparr>urls = withoutPort53 us, ice_username = only_str (map_of obj ''username''),
                     ice_credential = only_str (map_of obj ''credential'')\<rparr>)"
| "parseIceServerEntry _ = None"

text \<open>Only entries with a TURN address are relays.\<close>

definition parseCloudflareIceServers :: "json option \<Rightarrow> RtcIceServer list" where
  "parseCloudflareIceServers v =
     (case v of
        Some (ArrV es) \<Rightarrow> filter (\<lambda>s. list_ex isTurnUrl (urls s)) (List.map_filter parseIceServerEntry es)
      | _ \<Rightarrow> [])"

section \<open>Credentials\<close>

record CloudflareTurnCache =
  ch_keyId :: string
  ch_ttlSeconds :: rat
  ch_iceServers :: "RtcIceServer list"
  refreshAt :: rat
  expiresAt :: rat

text \<open>
  The state, with the keys that were used for requests so far. \<open>net\<close> is the outside: the clock, the
  instant at which an answer arrives, and the body of the answer if there is one.
\<close>

record turn_state =
  cloudflareCaches :: "string \<rightharpoonup> CloudflareTurnCache"
  cloudflareFailures :: "string \<rightharpoonup> string \<times> rat"
  requests :: "string list"

record net =
  n_now :: rat
  n_later :: rat
  n_fetch :: "string \<Rightarrow> string \<Rightarrow> rat \<Rightarrow> json option"

definition no_credentials :: turn_state where
  "no_credentials = \<lparr>cloudflareCaches = Map.empty, cloudflareFailures = Map.empty, requests = []\<rparr>"

definition getCloudflareTurnTtlSeconds :: "voice_conf \<Rightarrow> rat" where
  "getCloudflareTurnTtlSeconds vc =
     min (max (case vc_ttl_seconds vc of Fin x \<Rightarrow> x | _ \<Rightarrow> CLOUDFLARE_TURN_DEFAULT_TTL_SECONDS)
            CLOUDFLARE_TURN_MIN_TTL_SECONDS)
       CLOUDFLARE_TURN_MAX_TTL_SECONDS"

definition endpointCacheKey :: "string \<Rightarrow> string \<Rightarrow> string" where
  "endpointCacheKey channelId endpointId = channelId @ '':'' @ endpointId"

definition or_empty :: "string option \<Rightarrow> string" where
  "or_empty v = (case v of None \<Rightarrow> [] | Some s \<Rightarrow> s)"

definition fetchCloudflareTurnIceServers :: "net \<Rightarrow> TurnEndpoint \<Rightarrow> rat \<Rightarrow> RtcIceServer list option" where
  "fetchCloudflareTurnIceServers n ep ttl =
     (case n_fetch n (or_empty (keyId ep)) (or_empty (apiToken ep)) ttl of
        Some (ObjV body) \<Rightarrow>
          (let servers = parseCloudflareIceServers (map_of body ''iceServers'') in
           if servers = [] then None else Some servers)
      | _ \<Rightarrow> None)"

definition refreshCloudflareTurnCache ::
    "net \<Rightarrow> TurnChannel \<Rightarrow> TurnEndpoint \<Rightarrow> rat \<Rightarrow> turn_state \<Rightarrow> RtcIceServer list \<times> turn_state" where
  "refreshCloudflareTurnCache n ch ep ttl st =
     (let k = endpointCacheKey (tc_id ch) (te_id ep); kid = or_empty (keyId ep); t = n_later n;
          st1 = st\<lparr>requests := requests st @ [k]\<rparr>
      in case fetchCloudflareTurnIceServers n ep ttl of
          Some servers \<Rightarrow>
            (servers, st1\<lparr>cloudflareCaches := (cloudflareCaches st)(k \<mapsto>
                 \<lparr>ch_keyId = kid, ch_ttlSeconds = ttl, ch_iceServers = servers,
                  refreshAt = t + ttl * 1000 * CLOUDFLARE_TURN_REFRESH_RATIO, expiresAt = t + ttl * 1000\<rparr>),
               cloudflareFailures := (cloudflareFailures st)(k := None)\<rparr>)
        | None \<Rightarrow>
            (case cloudflareCaches st k of
               Some c \<Rightarrow> if Some (ch_keyId c) = keyId ep \<and> t < expiresAt c then ch_iceServers c else []
             | None \<Rightarrow> [],
             st1\<lparr>cloudflareFailures := (cloudflareFailures st)(k \<mapsto> (kid, t + CLOUDFLARE_TURN_FAILURE_COOLDOWN_MS))\<rparr>))"

text \<open>A credential that is due for renewal is still handed out while the renewal runs in the background.\<close>

definition getCloudflareTurnIceServers ::
    "voice_conf \<Rightarrow> net \<Rightarrow> TurnChannel \<Rightarrow> TurnEndpoint \<Rightarrow> turn_state \<Rightarrow> RtcIceServer list \<times> turn_state" where
  "getCloudflareTurnIceServers vc n ch ep st =
     (let ttl = getCloudflareTurnTtlSeconds vc; k = endpointCacheKey (tc_id ch) (te_id ep);
          cache = (case cloudflareCaches st k of
                     Some c \<Rightarrow> if Some (ch_keyId c) = keyId ep \<and> ch_ttlSeconds c = ttl then Some c else None
                   | None \<Rightarrow> None);
          cooling = (case cloudflareFailures st k of
                       Some (kid, until) \<Rightarrow> Some kid = keyId ep \<and> n_now n < until
                     | None \<Rightarrow> False)
      in case cache of
          Some c \<Rightarrow>
            if n_now n < refreshAt c then (ch_iceServers c, st)
            else if n_now n < expiresAt c then (ch_iceServers c, snd (refreshCloudflareTurnCache n ch ep ttl st))
            else if cooling then ([], st)
            else refreshCloudflareTurnCache n ch ep ttl st
        | None \<Rightarrow> if cooling then ([], st) else refreshCloudflareTurnCache n ch ep ttl st)"

definition findChannel :: "TurnChannel list \<Rightarrow> string \<Rightarrow> TurnChannel option" where
  "findChannel chs cid = find (\<lambda>c. tc_id c = cid) chs"

definition pick_endpoint :: "TurnChannel \<Rightarrow> string option \<Rightarrow> TurnEndpoint option" where
  "pick_endpoint ch eid =
     (case (if truthy_str eid then find (\<lambda>e. te_id e = the eid) (endpoints ch) else None) of
        Some e \<Rightarrow> Some e
      | None \<Rightarrow> (case endpoints ch of [] \<Rightarrow> None | e # _ \<Rightarrow> Some e))"

definition endpoint_servers ::
    "voice_conf \<Rightarrow> net \<Rightarrow> TurnChannel \<Rightarrow> TurnEndpoint \<Rightarrow> turn_state \<Rightarrow> RtcIceServer list \<times> turn_state" where
  "endpoint_servers vc n ch ep st =
     (case staticIceServers ep of
        Some servers \<Rightarrow> (servers, st)
      | None \<Rightarrow> getCloudflareTurnIceServers vc n ch ep st)"

definition getChannelRelayIceServers ::
    "voice_conf \<Rightarrow> TurnChannel list \<Rightarrow> net \<Rightarrow> string \<Rightarrow> string option \<Rightarrow> turn_state \<Rightarrow> RtcIceServer list \<times> turn_state" where
  "getChannelRelayIceServers vc chs n cid eid st =
     (case findChannel chs cid of
        None \<Rightarrow> ([], st)
      | Some ch \<Rightarrow>
          (case pick_endpoint ch eid of
             None \<Rightarrow> ([], st)
           | Some ep \<Rightarrow> endpoint_servers vc n ch ep st))"

text \<open>The first endpoint of any channel that has servers.\<close>

fun first_servers ::
    "voice_conf \<Rightarrow> TurnChannel list \<Rightarrow> net \<Rightarrow> (string \<times> string) list \<Rightarrow> turn_state \<Rightarrow> RtcIceServer list \<times> turn_state" where
  "first_servers vc chs n [] st = ([], st)"
| "first_servers vc chs n ((cid, eid) # rest) st =
     (let (servers, st1) = getChannelRelayIceServers vc chs n cid (Some eid) st
      in if servers \<noteq> [] then (servers, st1) else first_servers vc chs n rest st1)"

definition all_endpoints :: "TurnChannel list \<Rightarrow> (string \<times> string) list" where
  "all_endpoints chs = concat (map (\<lambda>ch. map (\<lambda>ep. (tc_id ch, te_id ep)) (endpoints ch)) chs)"

definition getRelayIceServers ::
    "voice_conf \<Rightarrow> TurnChannel list \<Rightarrow> net \<Rightarrow> turn_state \<Rightarrow> RtcIceServer list \<times> turn_state" where
  "getRelayIceServers vc chs n st = first_servers vc chs n (all_endpoints chs) st"

definition hasRelayConfigured :: "TurnChannel list \<Rightarrow> bool" where
  "hasRelayConfigured chs \<longleftrightarrow> chs \<noteq> []"

definition warmRelayChannels :: "voice_conf \<Rightarrow> TurnChannel list \<Rightarrow> net \<Rightarrow> turn_state \<Rightarrow> turn_state" where
  "warmRelayChannels vc chs n st =
     foldl (\<lambda>st (cid, eid). snd (getChannelRelayIceServers vc chs n cid (Some eid) st)) st (all_endpoints chs)"

definition getVoiceIceServers ::
    "voice_conf \<Rightarrow> TurnChannel list \<Rightarrow> net \<Rightarrow> bool \<Rightarrow> string option \<Rightarrow> string option \<Rightarrow> turn_state
     \<Rightarrow> RtcIceServer list \<times> turn_state" where
  "getVoiceIceServers vc chs n includeRelay cid eid st =
     (let direct = getDirectIceServers vc in
      if \<not> includeRelay then (direct, st)
      else if truthy_str cid then
        (case findChannel chs (the cid) of
           None \<Rightarrow> (direct, st)
         | Some ch \<Rightarrow>
             (let eid1 = (case eid of Some e \<Rightarrow> Some e
                          | None \<Rightarrow> (case endpoints ch of [] \<Rightarrow> None | e # _ \<Rightarrow> Some (te_id e)));
                  (servers, st1) = getChannelRelayIceServers vc chs n (tc_id ch) eid1 st
              in (direct @ servers, st1)))
      else (let (servers, st1) = first_servers vc chs n (all_endpoints chs) st in (direct @ servers, st1)))"

section \<open>A configuration gives well-formed channels\<close>

definition wf_endpoint :: "channel_kind \<Rightarrow> TurnEndpoint \<Rightarrow> bool" where
  "wf_endpoint kind e \<longleftrightarrow> te_id e \<noteq> [] \<and> 0 < monthlyLimitMb e
     \<and> (case kind of
          Cloudflare \<Rightarrow> truthy_str (keyId e) \<and> truthy_str (apiToken e) \<and> staticIceServers e = None
        | Static \<Rightarrow> staticIceServers e \<notin> {None, Some []})"

definition wf_channel :: "TurnChannel \<Rightarrow> bool" where
  "wf_channel ch \<longleftrightarrow> tc_id ch \<noteq> [] \<and> endpoints ch \<noteq> [] \<and> distinct (map te_id (endpoints ch))
     \<and> list_all (wf_endpoint (tc_kind ch)) (endpoints ch)"

lemma limit_pos [simp]: "0 < limit_or_default x" "0 < member_limit vc obj d"
  by (simp_all add: limit_or_default_def member_limit_def DEFAULT_CHANNEL_LIMIT_MB_def split: js_number.split)

lemma keys_wf:
  "parse_keys vc cid cap i seen ks = Some es \<Longrightarrow> cid \<noteq> [] \<Longrightarrow>
     list_all (wf_endpoint Cloudflare) es \<and> distinct (map te_id es) \<and> (\<forall>e \<in> set es. te_id e \<notin> set seen)
     \<and> length es = length ks"
proof (induction ks arbitrary: i seen es)
  case (Cons k ks)
  show ?case
  proof (cases k)
    case (ObjV key)
    then obtain eid e es1 where "es = e # es1" "te_id e = eid" "eid \<notin> set seen" "wf_endpoint Cloudflare e"
      and "parse_keys vc cid cap (Suc i) (js_add eid seen) ks = Some es1"
      using Cons.prems by (auto simp: Let_def wf_endpoint_def split: if_splits)
    with Cons.IH [of "Suc i" "js_add eid seen" es1] Cons.prems(2) show ?thesis by auto
  qed (use Cons.prems in auto)
qed simp

lemma endpoints_wf:
  assumes "parseEndpoints vc cid obj cap = Some es" "cid \<noteq> []" "0 < cap"
  shows "list_all (wf_endpoint Cloudflare) es" "distinct (map te_id es)" "es \<noteq> []"
  using assms keys_wf [of vc cid cap 0 "[]"]
  by (fastforce simp: parseEndpoints_def Let_def wf_endpoint_def split: option.splits json.splits if_splits)+

lemma channel_wf:
  assumes "parse_channel vc cid obj = Some ch" "cid \<noteq> []"
  shows "wf_channel ch" "tc_id ch = cid"
  using assms endpoints_wf [of vc cid obj "member_limit vc obj DEFAULT_CHANNEL_LIMIT_MB"]
  by (auto simp: parse_channel_def Let_def wf_channel_def wf_endpoint_def static_endpoint_def split: if_splits)

lemma channels_wf:
  "parse_channels vc seen es = Some cs \<Longrightarrow>
     list_all wf_channel cs \<and> distinct (map tc_id cs) \<and> (\<forall>c \<in> set cs. tc_id c \<notin> set seen)"
proof (induction es arbitrary: seen cs)
  case (Cons e es)
  then show ?case by (cases e) (fastforce simp: Let_def channel_wf split: if_splits option.splits)+
qed simp

lemma turn_channels_wf:
  "distinct (map tc_id (parseTurnChannels vc))" "list_all wf_channel (parseTurnChannels vc)"
  using channels_wf [of vc "[]"]
  by (auto simp: parseTurnChannels_def Let_def wf_channel_def wf_endpoint_def static_endpoint_def
      DEFAULT_CHANNEL_LIMIT_MB_def split: option.split json.split)


section \<open>The cache of the channels does not show\<close>

definition plain_settings :: "voice_conf \<Rightarrow> bool" where
  "plain_settings vc \<longleftrightarrow> CHR 0x00 \<notin> set (vc_turn_channels vc) \<union> set (vc_key_id vc) \<union> set (vc_api_token vc)"

lemma channels_key_inject:
  assumes "channels_key vc = channels_key vc'" "plain_settings vc" "plain_settings vc'"
  shows "vc_turn_channels vc = vc_turn_channels vc'" "vc_key_id vc = vc_key_id vc'"
    "vc_api_token vc = vc_api_token vc'" "vc_turn_ice_servers vc = vc_turn_ice_servers vc'"
  using assms unfolding channels_key_def plain_settings_def by (auto dest!: split_first)

definition cache_inv :: "(string \<Rightarrow> json option) \<Rightarrow> (string \<Rightarrow> js_number) \<Rightarrow> channel_cache \<Rightarrow> bool" where
  "cache_inv parse num c \<longleftrightarrow>
     (\<forall>k. cachedChannelsKey c = Some k \<longrightarrow>
        (\<exists>vc. plain_settings vc \<and> vc_parse vc = parse \<and> vc_number vc = num \<and> k = channels_key vc
           \<and> cachedChannels c = parseTurnChannels vc))"

lemma parse_depends:
  assumes "vc_turn_channels vc' = vc_turn_channels vc" "vc_key_id vc' = vc_key_id vc" "vc_api_token vc' = vc_api_token vc"
    and "vc_turn_ice_servers vc' = vc_turn_ice_servers vc" "vc_parse vc' = vc_parse vc" "vc_number vc' = vc_number vc"
  shows "parseTurnChannels vc' = parseTurnChannels vc"
proof -
  have st: "getStaticRelayIceServers vc' = getStaticRelayIceServers vc" using assms by (simp add: getStaticRelayIceServers_def)
  have cap: "member_limit vc' = member_limit vc" unfolding member_limit_def assms(6) ..
  have keys: "parse_keys vc' cid cap i seen ks = parse_keys vc cid cap i seen ks" for cid cap i seen ks
  proof (induction ks arbitrary: i seen)
    case (Cons k ks)
    then show ?case by (cases k) (simp_all add: cap Let_def)
  qed simp
  have ch: "parse_channel vc' = parse_channel vc"
    unfolding parse_channel_def parseEndpoints_def st cap keys ..
  have chs: "parse_channels vc' seen es = parse_channels vc seen es" for seen es
  proof (induction es arbitrary: seen)
    case (Cons e es)
    then show ?case by (cases e) (simp_all add: ch Let_def split: option.split)
  qed simp
  show ?thesis unfolding parseTurnChannels_def st chs assms(1,2,3,5) ..
qed

lemma cache_sound:
  assumes "cache_inv (vc_parse vc) (vc_number vc) c" "plain_settings vc"
  shows "fst (getTurnChannels vc c) = parseTurnChannels vc"
    "cache_inv (vc_parse vc) (vc_number vc) (snd (getTurnChannels vc c))"
proof -
  have "parseTurnChannels vc' = parseTurnChannels vc"
    if "channels_key vc = channels_key vc'" "plain_settings vc'" "vc_parse vc' = vc_parse vc" "vc_number vc' = vc_number vc" for vc'
    using channels_key_inject [OF that(1) assms(2) that(2)] that(3,4) by (intro parse_depends) simp_all
  then show "fst (getTurnChannels vc c) = parseTurnChannels vc"
    using assms(1) by (auto simp: getTurnChannels_def cache_inv_def)
  show "cache_inv (vc_parse vc) (vc_number vc) (snd (getTurnChannels vc c))"
    using assms by (auto simp: getTurnChannels_def cache_inv_def)
qed

text \<open>Keeping the parsed channel list does not show: after any sequence of look-ups under changing
  settings, a look-up returns exactly what parsing the current settings would give. (A setting of
  the environment never contains the character that separates them in the key.)\<close>

lemma channel_cache_transparent:
  assumes "list_all plain_settings (vcs @ [vc])"
    and "list_all (\<lambda>v. vc_parse v = vc_parse vc \<and> vc_number v = vc_number vc) vcs"
  shows "fst (getTurnChannels vc (foldl (\<lambda>c v. snd (getTurnChannels v c)) no_channels vcs)) = parseTurnChannels vc"
proof -
  have "cache_inv (vc_parse vc) (vc_number vc) (foldl (\<lambda>c v. snd (getTurnChannels v c)) c vcs)"
    if "cache_inv (vc_parse vc) (vc_number vc) c" for c
    using assms that
  proof (induction vcs arbitrary: c)
    case (Cons v vcs)
    then have "cache_inv (vc_parse vc) (vc_number vc) (snd (getTurnChannels v c))" using cache_sound(2) [of v c] by simp
    with Cons show ?case by simp
  qed simp
  moreover have "cache_inv (vc_parse vc) (vc_number vc) no_channels" by (simp add: cache_inv_def no_channels_def)
  ultimately show ?thesis using assms(1) by (auto intro: cache_sound(1))
qed

definition sample_conf :: voice_conf where
  "sample_conf = \<lparr>vc_enabled = True, vc_ice_servers = [], vc_turn_ice_servers = [], vc_turn_channels = [],
     vc_key_id = ''key'', vc_api_token = ''secret'', vc_ttl_seconds = Fin 86400, vc_max_participants = 4,
     vc_max_rooms = 1, vc_bitrate_kbps = 32, vc_parse = (\<lambda>_. None), vc_number = (\<lambda>_. NaN)\<rparr>"

section \<open>Credentials are valid when they are handed out\<close>

definition relay_server :: "RtcIceServer \<Rightarrow> bool" where
  "relay_server s \<longleftrightarrow> list_ex isTurnUrl (urls s) \<and> list_all (\<lambda>u. \<not> on_port_53 u) (urls s)"

lemma entry_no_53: "parseIceServerEntry e = Some s \<Longrightarrow> list_all (\<lambda>u. \<not> on_port_53 u) (urls s)"
  by (cases e) (auto simp: withoutPort53_def list_all_iff split: option.splits if_splits)

lemma parsed_relays: "list_all relay_server (parseCloudflareIceServers v)"
  using entry_no_53
  by (auto simp: parseCloudflareIceServers_def relay_server_def list_all_iff map_filter_def split: option.split json.split)

lemma fetched_relays: "fetchCloudflareTurnIceServers n ep ttl = Some ss \<Longrightarrow> list_all relay_server ss \<and> ss \<noteq> []"
  by (auto simp: fetchCloudflareTurnIceServers_def Let_def parsed_relays split: option.splits json.splits if_splits)

definition turn_inv :: "turn_state \<Rightarrow> bool" where
  "turn_inv st \<longleftrightarrow> (\<forall>k c. cloudflareCaches st k = Some c \<longrightarrow>
     list_all relay_server (ch_iceServers c) \<and> 300 \<le> ch_ttlSeconds c \<and> ch_ttlSeconds c \<le> 172800
     \<and> refreshAt c + ch_ttlSeconds c * 200 = expiresAt c)"

lemma ttl_bounds: "300 \<le> getCloudflareTurnTtlSeconds vc" "getCloudflareTurnTtlSeconds vc \<le> 172800"
  by (simp_all add: getCloudflareTurnTtlSeconds_def CLOUDFLARE_TURN_MIN_TTL_SECONDS_def CLOUDFLARE_TURN_MAX_TTL_SECONDS_def)

lemma refresh_inv:
  assumes "turn_inv st"
  shows "turn_inv (snd (refreshCloudflareTurnCache n ch ep (getCloudflareTurnTtlSeconds vc) st))"
  using assms fetched_relays [of n ep "getCloudflareTurnTtlSeconds vc"] ttl_bounds [of vc]
  by (auto simp: refreshCloudflareTurnCache_def turn_inv_def Let_def CLOUDFLARE_TURN_REFRESH_RATIO_def algebra_simps split: option.split)

lemma get_inv: "turn_inv st \<Longrightarrow> turn_inv (snd (getCloudflareTurnIceServers vc n ch ep st))"
  using refresh_inv by (simp add: getCloudflareTurnIceServers_def Let_def split: option.split)

interpretation turn_machine: invariant_machine
  "\<lambda>st (vc, n, ch, ep). snd (getCloudflareTurnIceServers vc n ch ep st)" turn_inv "\<lambda>_. True"
  by unfold_locales (auto intro: get_inv)

lemma refresh_servers:
  assumes "refreshCloudflareTurnCache n ch ep (getCloudflareTurnTtlSeconds vc) st = (servers, st')" "servers \<noteq> []"
    and "keyId ep = Some kid"
  shows "\<exists>c. cloudflareCaches st' (endpointCacheKey (tc_id ch) (te_id ep)) = Some c \<and> ch_iceServers c = servers
    \<and> ch_keyId c = kid \<and> n_later n < expiresAt c"
  using assms ttl_bounds(1) [of vc]
  by (auto simp: refreshCloudflareTurnCache_def Let_def or_empty_def split: option.splits if_splits)


definition sample_turn :: json where
  "sample_turn = ObjV [(''iceServers'', ArrV [ObjV [(''urls'', ArrV [StrV ''turn:relay:3478'', StrV ''turn:relay:53''])]])]"

definition sample_net :: "rat \<Rightarrow> bool \<Rightarrow> net" where
  "sample_net t up = \<lparr>n_now = t, n_later = t + 100, n_fetch = (\<lambda>_ _ _. if up then Some sample_turn else None)\<rparr>"

definition sample_endpoint :: TurnEndpoint where
  "sample_endpoint = \<lparr>te_id = ''default'', monthlyLimitMb = 700000, keyId = Some ''key'', apiToken = Some ''secret'', staticIceServers = None\<rparr>"

definition sample_channel :: TurnChannel where
  "sample_channel = \<lparr>tc_id = ''cloudflare'', tc_kind = Cloudflare, endpoints = [sample_endpoint]\<rparr>"

lemma key_sample [simp]: "keyId sample_endpoint = Some ''key''"
  by (simp add: sample_endpoint_def)

lemma sample_times [simp]: "n_now (sample_net t up) = t" "n_later (sample_net t up) = t + 100"
  by (simp_all add: sample_net_def)

lemma sample_fetch:
  "fetchCloudflareTurnIceServers (sample_net t up) sample_endpoint ttl =
     (if up then Some [\<lparr>urls = [''turn:relay:3478''], ice_username = None, ice_credential = None\<rparr>] else None)"
proof -
  have "on_port_53 ''turn:relay:53''" "\<not> on_port_53 ''turn:relay:3478''" "isTurnUrl ''turn:relay:3478''" by code_simp+
  then show ?thesis
    by (simp add: fetchCloudflareTurnIceServers_def sample_net_def sample_turn_def parseCloudflareIceServers_def
        map_filter_def urls_of_def withoutPort53_def only_str_def Let_def)
qed

lemma sample_credential:
  "getCloudflareTurnIceServers sample_conf (sample_net t up) sample_channel sample_endpoint no_credentials =
     refreshCloudflareTurnCache (sample_net t up) sample_channel sample_endpoint 86400 no_credentials"
  by (simp add: getCloudflareTurnIceServers_def no_credentials_def getCloudflareTurnTtlSeconds_def sample_conf_def
      CLOUDFLARE_TURN_MIN_TTL_SECONDS_def CLOUDFLARE_TURN_MAX_TTL_SECONDS_def)


text \<open>After a failed request the server leaves Cloudflare alone for thirty seconds, as long as it has no
  credential that is still valid. When it has one that is due for renewal, the pause is not kept:
  every look-up sends another request, although the comment on the constant says otherwise.\<close>

lemma cooldown_kept_without_credential:
  assumes "fetchCloudflareTurnIceServers n ep (getCloudflareTurnTtlSeconds vc) = None" "keyId ep = Some kid"
    and "refreshCloudflareTurnCache n ch ep (getCloudflareTurnTtlSeconds vc) st = (servers, st1)"
    and "n_now n' < n_later n + 30000"
  shows "(cloudflareCaches st (endpointCacheKey (tc_id ch) (te_id ep)) = None \<longrightarrow>
      getCloudflareTurnIceServers vc n' ch ep st1 = ([], st1))
    \<and> (\<forall>c. cloudflareCaches st (endpointCacheKey (tc_id ch) (te_id ep)) = Some c \<and> ch_keyId c = kid
          \<and> ch_ttlSeconds c = getCloudflareTurnTtlSeconds vc \<and> refreshAt c \<le> n_now n' \<and> n_now n' < expiresAt c \<longrightarrow>
        requests (snd (getCloudflareTurnIceServers vc n' ch ep st1))
          = requests st1 @ [endpointCacheKey (tc_id ch) (te_id ep)])"
proof -
  let ?k = "endpointCacheKey (tc_id ch) (te_id ep)"
  have st1: "cloudflareCaches st1 = cloudflareCaches st" "cloudflareFailures st1 ?k = Some (kid, n_later n + 30000)"
    using assms(1-3) by (auto simp: refreshCloudflareTurnCache_def Let_def or_empty_def CLOUDFLARE_TURN_FAILURE_COOLDOWN_MS_def)
  then show ?thesis
    using assms(2,4)
    by (auto simp: getCloudflareTurnIceServers_def refreshCloudflareTurnCache_def Let_def split: option.split)
qed

end
