(* ===== verification/VoiceBudget.thy ===== *)
theory VoiceBudget
  imports Voice
begin

text \<open>
  \<^verbatim>\<open>server/voice-budget.ts\<close>: how much relayed traffic each account has carried this month, which
  relay a room gets, and whether a viewer may join the voice chat.

  The counters live in Redis, one integer for each key; a key whose read or write fails is one for which
  the argument \<open>up\<close> is false. The month is an argument, as the clock gives it.
\<close>

section \<open>Counters\<close>

type_synonym counters = "string \<rightharpoonup> int"

definition BYTES_PER_MB :: rat where "BYTES_PER_MB = 1000000"
definition BYTES_PER_GB :: rat where "BYTES_PER_GB = 1000000000"
definition RELAY_USD_PER_GB :: rat where "RELAY_USD_PER_GB = 5 / 100"

definition endpointUsageKey :: "string \<Rightarrow> string \<Rightarrow> string \<Rightarrow> string" where
  "endpointUsageKey month cid eid = ''voice:relay-bytes:'' @ month @ '':'' @ cid @ '':'' @ eid"

definition actualEndpointUsageKey :: "string \<Rightarrow> string \<Rightarrow> string \<Rightarrow> string" where
  "actualEndpointUsageKey month cid eid = ''voice:cloudflare-egress:'' @ month @ '':'' @ cid @ '':'' @ eid"

definition parseBytes :: "int option \<Rightarrow> int option" where
  "parseBytes raw = map_option (\<lambda>n. if 0 < n then n else 0) raw"

text \<open>\<^verbatim>\<open>Math.round\<close>\<close>

definition js_round :: "rat \<Rightarrow> int" where
  "js_round x = \<lfloor>x + 1 / 2\<rfloor>"

definition getEndpointEstimatedBytes :: "string \<Rightarrow> counters \<Rightarrow> string \<Rightarrow> string \<Rightarrow> int" where
  "getEndpointEstimatedBytes month s cid eid =
     (case parseBytes (s (endpointUsageKey month cid eid)) of None \<Rightarrow> 0 | Some n \<Rightarrow> n)"

definition addEndpointEstimatedBytes :: "string \<Rightarrow> string \<Rightarrow> string \<Rightarrow> rat \<Rightarrow> counters \<Rightarrow> counters" where
  "addEndpointEstimatedBytes month cid eid bytes s =
     (if bytes \<le> 0 then s
      else (let k = endpointUsageKey month cid eid
            in s(k \<mapsto> (case s k of None \<Rightarrow> 0 | Some n \<Rightarrow> n) + js_round bytes)))"

definition getEndpointActualBytes :: "string \<Rightarrow> counters \<Rightarrow> string \<Rightarrow> string \<Rightarrow> int option" where
  "getEndpointActualBytes month s cid eid = parseBytes (s (actualEndpointUsageKey month cid eid))"

definition resetUsage :: "string \<Rightarrow> TurnChannel list \<Rightarrow> counters \<Rightarrow> counters" where
  "resetUsage month chs s =
     foldl (\<lambda>s (cid, eid). s(endpointUsageKey month cid eid := None, actualEndpointUsageKey month cid eid := None))
       s (all_endpoints chs)"

section \<open>The state of the channels\<close>

record VoiceEndpointState =
  es_channelId :: string
  es_endpointId :: string
  es_limitMb :: rat
  es_estimatedMb :: rat
  es_actualMb :: "rat option"
  es_usageMb :: rat
  es_remainingMb :: rat
  es_allowed :: bool

record VoiceChannelState =
  cs_id :: string
  cs_kind :: channel_kind
  cs_limitMb :: rat
  cs_estimatedMb :: rat
  cs_actualMb :: "rat option"
  cs_usageMb :: rat
  cs_remainingMb :: rat
  cs_allowed :: bool
  cs_endpoints :: "VoiceEndpointState list"

text \<open>The analytics win over the estimate. A counter that cannot be read closes the endpoint.\<close>

definition endpoint_state :: "(string \<Rightarrow> bool) \<Rightarrow> string \<Rightarrow> counters \<Rightarrow> TurnChannel \<Rightarrow> TurnEndpoint \<Rightarrow> VoiceEndpointState" where
  "endpoint_state up month s ch ep =
     (let kE = endpointUsageKey month (tc_id ch) (te_id ep); kA = actualEndpointUsageKey month (tc_id ch) (te_id ep);
          estimated = (if up kE then getEndpointEstimatedBytes month s (tc_id ch) (te_id ep) else 0);
          actual = (if up kA then getEndpointActualBytes month s (tc_id ch) (te_id ep) else None);
          usage = rat_of_int (case actual of Some n \<Rightarrow> n | None \<Rightarrow> estimated);
          limitBytes = monthlyLimitMb ep * BYTES_PER_MB
      in \<lparr>es_channelId = tc_id ch, es_endpointId = te_id ep, es_limitMb = monthlyLimitMb ep,
          es_estimatedMb = rat_of_int estimated / BYTES_PER_MB,
          es_actualMb = map_option (\<lambda>n. rat_of_int n / BYTES_PER_MB) actual, es_usageMb = usage / BYTES_PER_MB,
          es_remainingMb = max 0 ((limitBytes - usage) / BYTES_PER_MB),
          es_allowed = (up kE \<and> up kA \<and> usage < limitBytes)\<rparr>)"

definition channel_state :: "(string \<Rightarrow> bool) \<Rightarrow> string \<Rightarrow> counters \<Rightarrow> TurnChannel \<Rightarrow> VoiceChannelState" where
  "channel_state up month s ch =
     (let es = map (endpoint_state up month s ch) (endpoints ch);
          usageMb = sum_list (map es_usageMb es); limitMb = sum_list (map es_limitMb es)
      in \<lparr>cs_id = tc_id ch, cs_kind = tc_kind ch, cs_limitMb = limitMb, cs_estimatedMb = sum_list (map es_estimatedMb es),
          cs_actualMb = (if list_ex (\<lambda>e. es_actualMb e \<noteq> None) es
                         then Some (sum_list (map (\<lambda>e. case es_actualMb e of Some x \<Rightarrow> x | None \<Rightarrow> es_estimatedMb e) es))
                         else None),
          cs_usageMb = usageMb, cs_remainingMb = max 0 (limitMb - usageMb), cs_allowed = list_ex es_allowed es,
          cs_endpoints = es\<rparr>)"

definition getChannelStates :: "(string \<Rightarrow> bool) \<Rightarrow> string \<Rightarrow> counters \<Rightarrow> TurnChannel list \<Rightarrow> VoiceChannelState list" where
  "getChannelStates up month s chs = map (channel_state up month s) chs"

section \<open>Choosing a relay\<close>

record RelaySelection =
  rs_channel :: TurnChannel
  rs_endpoint :: TurnEndpoint

record relay_state =
  channelCursor :: nat
  activeEndpoints :: "string \<rightharpoonup> string"
  turn :: turn_state

definition available_channels :: "VoiceChannelState list \<Rightarrow> TurnChannel list \<Rightarrow> (TurnChannel \<times> VoiceChannelState) list" where
  "available_channels states chs =
     sort_key (\<lambda>(ch, st). cs_usageMb st)
       (List.map_filter (\<lambda>ch. case find (\<lambda>st. cs_id st = tc_id ch) states of
            Some st \<Rightarrow> if cs_allowed st then Some (ch, st) else None
          | None \<Rightarrow> None) chs)"

text \<open>The least-used channels take turns; the others follow in the order of their usage.\<close>

definition ordered_channels :: "nat \<Rightarrow> (TurnChannel \<times> VoiceChannelState) list \<Rightarrow> (TurnChannel \<times> VoiceChannelState) list" where
  "ordered_channels cursor available =
     (let minUsage = cs_usageMb (snd (hd available));
          leastUsed = filter (\<lambda>(ch, st). cs_usageMb st = minUsage) available;
          start = cursor mod length leastUsed
      in drop start leastUsed @ take start leastUsed @ filter (\<lambda>(ch, st). cs_usageMb st \<noteq> minUsage) available)"

definition ordered_endpoints :: "string option \<Rightarrow> TurnEndpoint list \<Rightarrow> TurnEndpoint list" where
  "ordered_endpoints active eps =
     (if truthy_str active
      then filter (\<lambda>e. Some (te_id e) = active) eps @ filter (\<lambda>e. Some (te_id e) \<noteq> active) eps
      else eps)"

fun try_endpoints ::
    "voice_conf \<Rightarrow> TurnChannel list \<Rightarrow> net \<Rightarrow> TurnChannel \<Rightarrow> VoiceEndpointState list \<Rightarrow> TurnEndpoint list \<Rightarrow> turn_state
     \<Rightarrow> TurnEndpoint option \<times> turn_state" where
  "try_endpoints vc chs n ch states [] st = (None, st)"
| "try_endpoints vc chs n ch states (ep # eps) st =
     (if (case map_of (rev (map (\<lambda>e. (es_endpointId e, e)) states)) (te_id ep) of
            Some e \<Rightarrow> es_allowed e | None \<Rightarrow> False)
      then (let (servers, st1) = getChannelRelayIceServers vc chs n (tc_id ch) (Some (te_id ep)) st
            in if servers \<noteq> [] then (Some ep, st1) else try_endpoints vc chs n ch states eps st1)
      else try_endpoints vc chs n ch states eps st)"

fun try_channels ::
    "voice_conf \<Rightarrow> TurnChannel list \<Rightarrow> net \<Rightarrow> (TurnChannel \<times> VoiceChannelState) list \<Rightarrow> relay_state
     \<Rightarrow> RelaySelection option \<times> relay_state" where
  "try_channels vc chs n [] rs = (None, rs)"
| "try_channels vc chs n ((ch, state) # rest) rs =
     (case try_endpoints vc chs n ch (cs_endpoints state)
         (ordered_endpoints (activeEndpoints rs (tc_id ch)) (endpoints ch)) (turn rs) of
        (Some ep, st1) \<Rightarrow>
          (Some \<lparr>rs_channel = ch, rs_endpoint = ep\<rparr>,
           rs\<lparr>turn := st1, activeEndpoints := (activeEndpoints rs)(tc_id ch \<mapsto> te_id ep), channelCursor := Suc (channelCursor rs)\<rparr>)
      | (None, st1) \<Rightarrow> try_channels vc chs n rest (rs\<lparr>turn := st1\<rparr>))"

definition selectRelayChannel ::
    "voice_conf \<Rightarrow> (string \<Rightarrow> bool) \<Rightarrow> string \<Rightarrow> counters \<Rightarrow> TurnChannel list \<Rightarrow> net \<Rightarrow> relay_state
     \<Rightarrow> RelaySelection option \<times> relay_state" where
  "selectRelayChannel vc up month s chs n rs =
     (if chs = [] then (None, rs)
      else (let available = available_channels (getChannelStates up month s chs) chs
            in if available = [] then (None, rs)
               else try_channels vc chs n (ordered_channels (channelCursor rs) available) rs))"

definition isRelayAllowedNow :: "(string \<Rightarrow> bool) \<Rightarrow> string \<Rightarrow> counters \<Rightarrow> TurnChannel list \<Rightarrow> bool" where
  "isRelayAllowedNow up month s chs = list_ex (\<lambda>st. list_ex es_allowed (cs_endpoints st)) (getChannelStates up month s chs)"

section \<open>Joining\<close>

datatype VoiceDeniedReason = VoiceDisabled | RoomFull | TooManyRooms | OverBudget

record VoiceJoinDecision =
  vj_allowed :: bool
  vj_reason :: "VoiceDeniedReason option"
  vj_includeRelay :: bool

definition decideVoiceJoin :: "voice_conf \<Rightarrow> TurnChannel list \<Rightarrow> nat \<Rightarrow> bool \<Rightarrow> nat \<Rightarrow> VoiceJoinDecision" where
  "decideVoiceJoin vc chs roomParticipants roomAlreadyInVoice voiceRoomCount =
     (if 0 < vc_max_participants vc \<and> vc_max_participants vc \<le> int roomParticipants
      then \<lparr>vj_allowed = False, vj_reason = Some RoomFull, vj_includeRelay = False\<rparr>
      else if 0 < vc_max_rooms vc \<and> \<not> roomAlreadyInVoice \<and> vc_max_rooms vc \<le> int voiceRoomCount
      then \<lparr>vj_allowed = False, vj_reason = Some TooManyRooms, vj_includeRelay = False\<rparr>
      else \<lparr>vj_allowed = True, vj_reason = None, vj_includeRelay = hasRelayConfigured chs\<rparr>)"

section \<open>Recording the usage\<close>

record VoiceRoomUsage =
  vu_participants :: nat
  vu_channelId :: "string option"
  vu_endpointId :: "string option"

definition room_bytes :: "voice_conf \<Rightarrow> rat \<Rightarrow> nat \<Rightarrow> rat" where
  "room_bytes vc tick p = of_nat (p * (p - 1)) * vc_bitrate_kbps vc * 1000 * tick / 8"

text \<open>The traffic of one tick, summed for each endpoint; the key of the map joins the two ids.\<close>

definition add_room :: "voice_conf \<Rightarrow> rat \<Rightarrow> (string \<times> (string \<times> string \<times> rat)) list \<Rightarrow> VoiceRoomUsage
    \<Rightarrow> (string \<times> (string \<times> string \<times> rat)) list" where
  "add_room vc tick m u =
     (case (vu_channelId u, vu_endpointId u) of
        (Some cid, Some eid) \<Rightarrow>
          if vu_participants u < 2 then m
          else (let k = cid @ [CHR 0x00] @ eid; bytes = room_bytes vc tick (vu_participants u)
                in case map_of m k of
                    Some (c, e, b) \<Rightarrow> AList.update k (c, e, b + bytes) m
                  | None \<Rightarrow> AList.update k (cid, eid, bytes) m)
      | _ \<Rightarrow> m)"

text \<open>A write that fails ends the loop; the error is logged.\<close>

fun add_all :: "(string \<Rightarrow> bool) \<Rightarrow> string \<Rightarrow> (string \<times> string \<times> rat) list \<Rightarrow> counters \<Rightarrow> counters" where
  "add_all up month [] s = s"
| "add_all up month ((cid, eid, bytes) # rest) s =
     (if up (endpointUsageKey month cid eid)
      then add_all up month rest (addEndpointEstimatedBytes month cid eid bytes s) else s)"

definition recordUsage :: "voice_conf \<Rightarrow> (string \<Rightarrow> bool) \<Rightarrow> string \<Rightarrow> rat \<Rightarrow> VoiceRoomUsage list \<Rightarrow> counters \<Rightarrow> counters" where
  "recordUsage vc up month tick rooms s = add_all up month (map snd (foldl (add_room vc tick) [] rooms)) s"

record VoiceUsageSnapshot =
  us_enabled :: bool
  us_relayConfigured :: bool
  us_relayAllowed :: bool
  us_monthlyUsageMb :: rat
  us_estimatedMonthlyCostUsd :: rat
  us_channels :: "VoiceChannelState list"

definition getVoiceUsageSnapshot :: "voice_conf \<Rightarrow> (string \<Rightarrow> bool) \<Rightarrow> string \<Rightarrow> counters \<Rightarrow> TurnChannel list \<Rightarrow> VoiceUsageSnapshot" where
  "getVoiceUsageSnapshot vc up month s chs =
     (let states = getChannelStates up month s chs;
          usageBytes = sum_list (map (\<lambda>st. cs_usageMb st * BYTES_PER_MB) states)
      in \<lparr>us_enabled = isVoiceEnabled vc, us_relayConfigured = hasRelayConfigured chs,
          us_relayAllowed = isRelayAllowedNow up month s chs, us_monthlyUsageMb = usageBytes / BYTES_PER_MB,
          us_estimatedMonthlyCostUsd =
            rat_of_int (js_round (usageBytes / BYTES_PER_GB * RELAY_USD_PER_GB * 10000)) / 10000,
          us_channels = states\<rparr>)"

section \<open>The choice stays within the budget\<close>

text \<open>What an endpoint has carried this month, in bytes: measured if there is a measurement, else estimated.\<close>

definition spent :: "string \<Rightarrow> counters \<Rightarrow> string \<Rightarrow> string \<Rightarrow> int" where
  "spent month s cid eid =
     (case s (actualEndpointUsageKey month cid eid) of
        Some n \<Rightarrow> max 0 n
      | None \<Rightarrow> (case s (endpointUsageKey month cid eid) of Some n \<Rightarrow> max 0 n | None \<Rightarrow> 0))"

definition within_budget :: "(string \<Rightarrow> bool) \<Rightarrow> string \<Rightarrow> counters \<Rightarrow> TurnChannel \<Rightarrow> TurnEndpoint \<Rightarrow> bool" where
  "within_budget up month s ch ep \<longleftrightarrow>
     up (endpointUsageKey month (tc_id ch) (te_id ep)) \<and> up (actualEndpointUsageKey month (tc_id ch) (te_id ep))
     \<and> rat_of_int (spent month s (tc_id ch) (te_id ep)) < monthlyLimitMb ep * 1000000"

lemma allowed_iff: "es_allowed (endpoint_state up month s ch ep) \<longleftrightarrow> within_budget up month s ch ep"
  by (auto simp: endpoint_state_def within_budget_def spent_def Let_def getEndpointEstimatedBytes_def getEndpointActualBytes_def
      parseBytes_def BYTES_PER_MB_def max_def split: option.split)

lemma state_fields [simp]:
  "es_endpointId (endpoint_state up month s ch ep) = te_id ep" "cs_id (channel_state up month s ch) = tc_id ch"
  "cs_endpoints (channel_state up month s ch) = map (endpoint_state up month s ch) (endpoints ch)"
  "cs_allowed (channel_state up month s ch) = list_ex (within_budget up month s ch) (endpoints ch)"
  by (simp_all add: endpoint_state_def channel_state_def Let_def list_ex_iff flip: allowed_iff)

lemma find_by_id: "distinct (map f xs) \<Longrightarrow> x \<in> set xs \<Longrightarrow> find (\<lambda>y. f y = f x) xs = Some x"
  by (induction xs) force+

lemma find_state:
  assumes "distinct (map tc_id chs)" "ch \<in> set chs"
  shows "find (\<lambda>st. cs_id st = tc_id ch) (getChannelStates up month s chs) = Some (channel_state up month s ch)"
  using assms unfolding getChannelStates_def by (induction chs) force+

text \<open>The channels that are tried: those with an endpoint within its budget, by usage.\<close>

lemma available_set:
  assumes "distinct (map tc_id chs)"
  shows "set (available_channels (getChannelStates up month s chs) chs) =
    {(ch, channel_state up month s ch) | ch. ch \<in> set chs \<and> list_ex (within_budget up month s ch) (endpoints ch)}"
proof -
  have "List.map_filter (\<lambda>ch. case find (\<lambda>st. cs_id st = tc_id ch) (getChannelStates up month s chs) of
            Some st \<Rightarrow> if cs_allowed st then Some (ch, st) else None | None \<Rightarrow> None) chs
      = List.map_filter (\<lambda>ch. if list_ex (within_budget up month s ch) (endpoints ch)
            then Some (ch, channel_state up month s ch) else None) chs"
    by (simp add: map_filter_def find_state [OF assms] cong: map_cong filter_cong)
  then show ?thesis by (auto simp: available_channels_def map_filter_def)
qed

lemma ordered_set: "available \<noteq> [] \<Longrightarrow> set (ordered_channels c available) = set available"
  by (auto simp: ordered_channels_def Let_def dest: in_set_dropD in_set_takeD)
    (metis (mono_tags, lifting) Un_iff append_take_drop_id case_prodI mem_Collect_eq set_append set_filter)

lemma sorted_min_first:
  fixes f :: "'a \<Rightarrow> 'b::linorder"
  assumes "\<And>x. x \<in> set xs \<Longrightarrow> f x = m" "sorted (map f ys)" "\<And>y. y \<in> set ys \<Longrightarrow> m \<le> f y"
  shows "sorted (map f (xs @ ys))"
  using assms by (induction xs) auto

lemma ordered_sorted:
  assumes "sorted (map (\<lambda>(ch, st). cs_usageMb st) available)" "available \<noteq> []"
  shows "sorted (map (\<lambda>(ch, st). cs_usageMb st) (ordered_channels c available))"
proof -
  define f :: "TurnChannel \<times> VoiceChannelState \<Rightarrow> rat" where "f = (\<lambda>(ch, st). cs_usageMb st)"
  define m where "m = f (hd available)"
  define k where "k = c mod length (filter (\<lambda>x. f x = m) available)"
  have ordered: "ordered_channels c available = (drop k (filter (\<lambda>x. f x = m) available) @ take k (filter (\<lambda>x. f x = m) available))
      @ filter (\<lambda>x. f x \<noteq> m) available"
    by (simp add: ordered_channels_def Let_def f_def m_def k_def case_prod_unfold)
  have "m \<le> f x" if "x \<in> set available" for x
    using assms that unfolding m_def f_def [symmetric] by (cases available) auto
  then have "sorted (map f (ordered_channels c available))"
    unfolding ordered using sorted_filter [OF assms(1) [folded f_def]]
    by (intro sorted_min_first [where m = m]) (auto dest: in_set_dropD in_set_takeD)
  then show ?thesis by (simp add: f_def)
qed

section \<open>What the attempts find\<close>

definition serves :: "voice_conf \<Rightarrow> TurnChannel list \<Rightarrow> net \<Rightarrow> TurnChannel \<Rightarrow> TurnEndpoint \<Rightarrow> bool" where
  "serves vc chs n ch ep \<longleftrightarrow> (\<forall>st. fst (getChannelRelayIceServers vc chs n (tc_id ch) (Some (te_id ep)) st) \<noteq> [])"

lemma ordered_endpoints_set [simp]: "set (ordered_endpoints a eps) = set eps"
  by (auto simp: ordered_endpoints_def)

lemma state_of:
  assumes "distinct (map te_id (endpoints ch))" "ep \<in> set (endpoints ch)"
  shows "map_of (rev (map (\<lambda>e. (es_endpointId e, e)) (map (endpoint_state up month s ch) (endpoints ch)))) (te_id ep)
    = Some (endpoint_state up month s ch ep)"
  using assms by (intro map_of_is_SomeI) (auto simp: rev_map [symmetric] comp_def)

lemma try_endpoints_sound:
  "try_endpoints vc chs n ch states eps st = (Some ep, st') \<Longrightarrow>
     ep \<in> set eps \<and> (\<exists>e. map_of (rev (map (\<lambda>e. (es_endpointId e, e)) states)) (te_id ep) = Some e \<and> es_allowed e)"
  by (induction eps arbitrary: st) (auto simp: Let_def split: if_splits prod.splits option.splits)

lemma try_endpoints_complete:
  assumes "ep \<in> set eps" "serves vc chs n ch ep"
    and "map_of (rev (map (\<lambda>e. (es_endpointId e, e)) states)) (te_id ep) = Some e" "es_allowed e"
  shows "\<exists>ep' st'. try_endpoints vc chs n ch states eps st = (Some ep', st')"
  using assms(1)
proof (induction eps arbitrary: st)
  case (Cons x eps)
  obtain servers st1 where g: "getChannelRelayIceServers vc chs n (tc_id ch) (Some (te_id x)) st = (servers, st1)" by fastforce
  show ?case
  proof (cases "x = ep")
    case True
    then have "servers \<noteq> []" using assms(2) g unfolding serves_def by (metis fst_conv)
    then show ?thesis using True assms(3,4) g by simp
  next
    case False
    then show ?thesis using Cons g by (auto simp: Let_def)
  qed
qed simp

lemma try_channels_sound:
  "try_channels vc chs n l rs = (Some sel, rs') \<Longrightarrow>
     \<exists>state st st'. (rs_channel sel, state) \<in> set l
       \<and> (\<exists>a. try_endpoints vc chs n (rs_channel sel) (cs_endpoints state) (ordered_endpoints a (endpoints (rs_channel sel))) st
            = (Some (rs_endpoint sel), st'))"
  by (induction l arbitrary: rs) (fastforce split: prod.splits option.splits)+

lemma try_channels_complete:
  assumes "(ch, state) \<in> set l" "sorted (map (\<lambda>(ch, st). cs_usageMb st) l)"
    and "\<And>a st. \<exists>ep st'. try_endpoints vc chs n ch (cs_endpoints state) (ordered_endpoints a (endpoints ch)) st = (Some ep, st')"
  shows "\<exists>sel rs' state'. try_channels vc chs n l rs = (Some sel, rs') \<and> (rs_channel sel, state') \<in> set l
    \<and> cs_usageMb state' \<le> cs_usageMb state"
  using assms(1,2)
proof (induction l arbitrary: rs)
  case (Cons x l)
  obtain c s0 where x: "x = (c, s0)" by fastforce
  obtain r st1 where r: "try_endpoints vc chs n c (cs_endpoints s0) (ordered_endpoints (activeEndpoints rs (tc_id c)) (endpoints c)) (turn rs) = (r, st1)"
    by fastforce
  show ?case
  proof (cases r)
    case (Some ep)
    then show ?thesis using r x Cons.prems by auto
  next
    case None
    then have "x \<noteq> (ch, state)" using assms(3) [of "activeEndpoints rs (tc_id c)" "turn rs"] x r by auto
    then have "(ch, state) \<in> set l" using Cons.prems(1) by simp
    then show ?thesis using Cons.IH [of "rs\<lparr>turn := st1\<rparr>"] Cons.prems(2) None x r by fastforce
  qed
qed simp

lemma static_serves:
  assumes "distinct (map tc_id chs)" "ch \<in> set chs" "wf_channel ch" "ep \<in> set (endpoints ch)"
    and "staticIceServers ep = Some (x # xs)"
  shows "serves vc chs n ch ep"
proof -
  have f: "findChannel chs (tc_id ch) = Some ch" using assms(1,2) by (simp add: findChannel_def find_by_id)
  have w: "distinct (map te_id (endpoints ch))" "te_id ep \<noteq> []"
    using assms(3,4) by (auto simp: wf_channel_def wf_endpoint_def list_all_iff)
  have "pick_endpoint ch (Some (te_id ep)) = Some ep"
    using w assms(4) find_by_id [of te_id "endpoints ch" ep] by (simp add: pick_endpoint_def)
  then show ?thesis using f assms(5) by (simp add: serves_def getChannelRelayIceServers_def endpoint_servers_def)
qed

definition wf_channels :: "TurnChannel list \<Rightarrow> bool" where
  "wf_channels chs \<longleftrightarrow> distinct (map tc_id chs) \<and> list_all wf_channel chs"

lemma wf_channelsD:
  assumes "wf_channels chs" "ch \<in> set chs"
  shows "wf_channel ch" "distinct (map te_id (endpoints ch))" "distinct (map tc_id chs)"
  using assms by (auto simp: wf_channels_def list_all_iff wf_channel_def)

abbreviation candidates where
  "candidates up month s chs \<equiv> available_channels (getChannelStates up month s chs) chs"

lemma select_tries:
  "candidates up month s chs \<noteq> [] \<Longrightarrow>
     selectRelayChannel vc up month s chs n rs
       = try_channels vc chs n (ordered_channels (channelCursor rs) (candidates up month s chs)) rs"
  by (auto simp: selectRelayChannel_def available_channels_def Let_def map_filter_def)

lemma selection_sound:
  assumes "wf_channels chs" "selectRelayChannel vc up month s chs n rs = (Some sel, rs')"
  shows "rs_channel sel \<in> set chs \<and> rs_endpoint sel \<in> set (endpoints (rs_channel sel))
    \<and> within_budget up month s (rs_channel sel) (rs_endpoint sel)"
proof -
  have d: "distinct (map tc_id chs)" using assms(1) by (simp add: wf_channels_def)
  have ne: "candidates up month s chs \<noteq> []"
    using assms(2) by (auto simp: selectRelayChannel_def Let_def split: if_splits)
  from try_channels_sound [OF assms(2) [unfolded select_tries [OF ne]]] obtain state st st' a where
    "(rs_channel sel, state) \<in> set (candidates up month s chs)"
    and t: "try_endpoints vc chs n (rs_channel sel) (cs_endpoints state) (ordered_endpoints a (endpoints (rs_channel sel))) st
          = (Some (rs_endpoint sel), st')"
    using ordered_set [OF ne] by auto
  then have c: "rs_channel sel \<in> set chs" "state = channel_state up month s (rs_channel sel)"
    by (auto simp: available_set [OF d])
  then show ?thesis
    using try_endpoints_sound [OF t] state_of [OF wf_channelsD(2) [OF assms(1) c(1)]] by (auto simp: allowed_iff)
qed

lemma selection_complete:
  assumes wf: "wf_channels chs" and h: "ch \<in> set chs" "ep \<in> set (endpoints ch)" "within_budget up month s ch ep" "serves vc chs n ch ep"
  shows "\<exists>sel rs'. selectRelayChannel vc up month s chs n rs = (Some sel, rs')
    \<and> cs_usageMb (channel_state up month s (rs_channel sel)) \<le> cs_usageMb (channel_state up month s ch)"
proof -
  let ?av = "candidates up month s chs" let ?l = "ordered_channels (channelCursor rs) ?av"
  note set_av = available_set [OF wf_channelsD(3) [OF wf h(1)], of up month s]
  have mem: "(ch, channel_state up month s ch) \<in> set ?av" using h by (auto simp: set_av list_ex_iff)
  then have ne: "?av \<noteq> []" by auto
  have "\<exists>ep' st'. try_endpoints vc chs n ch (cs_endpoints (channel_state up month s ch)) (ordered_endpoints a (endpoints ch)) st = (Some ep', st')" for a st
    using try_endpoints_complete [OF _ h(4), of "ordered_endpoints a (endpoints ch)"] state_of [OF wf_channelsD(2) [OF wf h(1)] h(2)] h(2,3)
    by (simp add: allowed_iff)
  moreover have "sorted (map (\<lambda>(ch, st). cs_usageMb st) ?l)"
    using ne by (intro ordered_sorted) (simp_all add: available_channels_def)
  ultimately obtain sel rs' state' where "try_channels vc chs n ?l rs = (Some sel, rs')"
    "(rs_channel sel, state') \<in> set ?av" "cs_usageMb state' \<le> cs_usageMb (channel_state up month s ch)"
    using try_channels_complete [of ch "channel_state up month s ch" ?l] mem ordered_set [OF ne] by blast
  then show ?thesis using select_tries [OF ne] by (auto simp: set_av)
qed

lemma configured_channels: "wf_channels (parseTurnChannels vc)"
  using turn_channels_wf by (simp add: wf_channels_def)

text \<open>C27.
  A room is never given a relay that is over its cap. The endpoint that is chosen belongs to a
  configured channel, both its counters could be read, and what it has carried this month is below its
  own limit. And a relay is found when there is one: if some static endpoint is within its budget, a
  choice is made, and no channel is chosen that has carried more than that endpoint's.\<close>

theorem relay_within_budget:
  "(selectRelayChannel vc up month s (parseTurnChannels vc) n rs = (Some sel, rs') \<longrightarrow>
      rs_channel sel \<in> set (parseTurnChannels vc) \<and> rs_endpoint sel \<in> set (endpoints (rs_channel sel))
      \<and> within_budget up month s (rs_channel sel) (rs_endpoint sel))
   \<and> (\<forall>ch ep servers. ch \<in> set (parseTurnChannels vc) \<and> ep \<in> set (endpoints ch) \<and> within_budget up month s ch ep
        \<and> staticIceServers ep = Some servers \<longrightarrow>
        (\<exists>sel rs'. selectRelayChannel vc up month s (parseTurnChannels vc) n rs = (Some sel, rs')
           \<and> cs_usageMb (channel_state up month s (rs_channel sel)) \<le> cs_usageMb (channel_state up month s ch)))"
proof -
  let ?chs = "parseTurnChannels vc"
  have srv: "serves vc ?chs n ch ep" if "ch \<in> set ?chs" "ep \<in> set (endpoints ch)" "staticIceServers ep = Some servers" for ch ep servers
  proof -
    have w: "wf_channel ch" "distinct (map tc_id ?chs)" using wf_channelsD [OF configured_channels that(1)] by auto
    then have "servers \<noteq> []"
      using that(2,3) by (cases "tc_kind ch") (auto simp: wf_channel_def wf_endpoint_def list_all_iff)
    then show ?thesis using static_serves [OF w(2) that(1) w(1) that(2)] that(3) by (cases servers) auto
  qed
  show ?thesis
  proof (intro conjI allI impI, goal_cases)
    case (4 ch ep servers)
    then show ?case using srv by (intro selection_complete [OF configured_channels]) auto
  qed (use selection_sound [OF configured_channels] in auto)
qed

definition static_conf :: voice_conf where
  "static_conf = sample_conf\<lparr>vc_key_id := [], vc_turn_ice_servers := ''[...]'',
     vc_parse := (\<lambda>_. Some (ArrV [ObjV [(''urls'', StrV ''turn:relay:3478'')]]))\<rparr>"

definition relay_server_sample :: RtcIceServer where
  "relay_server_sample = \<lparr>urls = [''turn:relay:3478''], ice_username = None, ice_credential = None\<rparr>"

lemma static_channels:
  "parseTurnChannels static_conf =
     [\<lparr>tc_id = ''static'', tc_kind = Static, endpoints = [static_endpoint 700000 [relay_server_sample]]\<rparr>]"
proof -
  have "trim ''[...]'' \<noteq> []" "trim [] = []" by code_simp+
  then show ?thesis
    by (simp add: parseTurnChannels_def static_conf_def sample_conf_def getStaticRelayIceServers_def parseIceServers_def
        urls_of_def relay_server_sample_def DEFAULT_CHANNEL_LIMIT_MB_def)
qed

definition no_relay :: relay_state where
  "no_relay = \<lparr>channelCursor = 0, activeEndpoints = Map.empty, turn = no_credentials\<rparr>"

theorem relay_within_budget_witness:
  "\<exists>sel rs'. selectRelayChannel static_conf (\<lambda>_. True) ''2026-11'' Map.empty (parseTurnChannels static_conf) (sample_net 0 True) no_relay
     = (Some sel, rs')"
proof -
  let ?ch = "hd (parseTurnChannels static_conf)" let ?ep = "hd (endpoints ?ch)"
  have "?ch \<in> set (parseTurnChannels static_conf)" "?ep \<in> set (endpoints ?ch)" "staticIceServers ?ep = Some [relay_server_sample]"
    "within_budget (\<lambda>_. True) ''2026-11'' Map.empty ?ch ?ep"
    by (simp_all add: static_channels static_endpoint_def within_budget_def spent_def)
  then show ?thesis using conjunct2 [OF relay_within_budget] by blast
qed

section \<open>What a tick adds\<close>

text \<open>The traffic of the rooms that use an endpoint.\<close>

definition uses :: "string \<Rightarrow> string \<Rightarrow> VoiceRoomUsage \<Rightarrow> bool" where
  "uses cid eid u \<longleftrightarrow> 2 \<le> vu_participants u \<and> vu_channelId u = Some cid \<and> vu_endpointId u = Some eid"

definition traffic :: "voice_conf \<Rightarrow> rat \<Rightarrow> VoiceRoomUsage list \<Rightarrow> string \<Rightarrow> string \<Rightarrow> rat" where
  "traffic vc tick us cid eid = sum_list (map (\<lambda>u. room_bytes vc tick (vu_participants u)) (filter (uses cid eid) us))"

definition plain_ids :: "VoiceRoomUsage \<Rightarrow> bool" where
  "plain_ids u \<longleftrightarrow> (case vu_channelId u of Some cid \<Rightarrow> CHR 0x00 \<notin> set cid \<and> CHR '':'' \<notin> set cid | None \<Rightarrow> True)"

abbreviation joined_key :: "string \<Rightarrow> string \<Rightarrow> string" where
  "joined_key cid eid \<equiv> cid @ CHR 0x00 # eid"

text \<open>The map after some rooms: one entry for each endpoint in use, with its traffic.\<close>

definition sums_of :: "voice_conf \<Rightarrow> rat \<Rightarrow> VoiceRoomUsage list \<Rightarrow> (string \<times> (string \<times> string \<times> rat)) list \<Rightarrow> bool" where
  "sums_of vc tick us m \<longleftrightarrow> distinct (map fst m)
     \<and> (\<forall>k c e b. (k, c, e, b) \<in> set m \<longrightarrow> k = joined_key c e \<and> CHR 0x00 \<notin> set c \<and> CHR '':'' \<notin> set c)
     \<and> (\<forall>c e. CHR 0x00 \<notin> set c \<longrightarrow>
          map_of m (joined_key c e) = (if list_ex (uses c e) us then Some (c, e, traffic vc tick us c e) else None))"

lemma traffic_snoc:
  "traffic vc tick (us @ [u]) c e = traffic vc tick us c e + (if uses c e u then room_bytes vc tick (vu_participants u) else 0)"
  by (simp add: traffic_def)

lemma traffic_unused: "\<not> list_ex (uses c e) us \<Longrightarrow> traffic vc tick us c e = 0"
  by (simp add: traffic_def list_ex_iff filter_empty_conv [THEN iffD2])

lemma joined_inject: "CHR 0x00 \<notin> set c \<Longrightarrow> CHR 0x00 \<notin> set c' \<Longrightarrow> joined_key c e = joined_key c' e' \<longleftrightarrow> c = c' \<and> e = e'"
  using split_first [of c "CHR 0x00" e c' e'] by auto

lemma add_room_sums:
  assumes "sums_of vc tick us m" "plain_ids u"
  shows "sums_of vc tick (us @ [u]) (add_room vc tick m u)"
proof (cases "\<exists>c e. uses c e u")
  case True
  then obtain c e where u: "uses c e u" by blast
  then have uses: "uses c' e' u \<longleftrightarrow> c' = c \<and> e' = e" for c' e' by (auto simp: uses_def)
  have c: "CHR 0x00 \<notin> set c" "CHR '':'' \<notin> set c" using assms(2) u by (auto simp: plain_ids_def uses_def)
  have mo: "map_of m (joined_key c e) = (if list_ex (uses c e) us then Some (c, e, traffic vc tick us c e) else None)"
    using assms(1) c(1) by (simp add: sums_of_def)
  have add: "add_room vc tick m u = AList.update (joined_key c e) (c, e, traffic vc tick (us @ [u]) c e) m"
    using u mo by (auto simp: add_room_def uses_def traffic_snoc Let_def traffic_unused)
  have "(k, c', e', b) \<in> set (add_room vc tick m u) \<Longrightarrow> (k, c', e', b) \<in> set m \<or> k = joined_key c e \<and> c' = c \<and> e' = e" for k c' e' b
    using assms(1) unfolding add
    by (metis (no_types, lifting) Pair_inject distinct_update fun_upd_apply map_of_eq_Some_iff option.inject sums_of_def update_conv')
  moreover have "distinct (map fst (add_room vc tick m u))" using assms(1) by (simp add: add sums_of_def distinct_update)
  moreover have "map_of (add_room vc tick m u) (joined_key c' e')
      = (if list_ex (uses c' e') (us @ [u]) then Some (c', e', traffic vc tick (us @ [u]) c' e') else None)" if "CHR 0x00 \<notin> set c'" for c' e'
    using assms(1) that c(1) unfolding add by (auto simp: update_conv' sums_of_def joined_inject uses traffic_snoc)
  ultimately show ?thesis using assms(1) c unfolding sums_of_def by blast
next
  case False
  then have "add_room vc tick m u = m" by (auto simp: add_room_def uses_def split: option.split)
  with assms(1) False show ?thesis by (simp add: sums_of_def traffic_snoc)
qed

lemma rooms_sums: "list_all plain_ids us \<Longrightarrow> sums_of vc tick us (foldl (add_room vc tick) [] us)"
  by (induction us rule: rev_induct) (auto simp: add_room_sums, simp add: sums_of_def)

lemma usage_key_inject:
  "CHR '':'' \<notin> set c \<Longrightarrow> CHR '':'' \<notin> set c' \<Longrightarrow>
     endpointUsageKey month c e = endpointUsageKey month c' e' \<longleftrightarrow> c = c' \<and> e = e'"
  using split_first [of c "CHR '':''" e c' e'] by (auto simp: endpointUsageKey_def)

definition counted :: "counters \<Rightarrow> string \<Rightarrow> int" where
  "counted s k = (case s k of None \<Rightarrow> 0 | Some n \<Rightarrow> n)"

lemma counted_add:
  assumes "CHR '':'' \<notin> set c" "CHR '':'' \<notin> set c'" "0 \<le> b"
  shows "counted (addEndpointEstimatedBytes month c' e' b s) (endpointUsageKey month c e)
    = counted s (endpointUsageKey month c e) + (if c' = c \<and> e' = e then js_round b else 0)"
proof -
  have "js_round 0 = 0" by (simp add: js_round_def floor_unique)
  then show ?thesis
    using assms by (auto simp: addEndpointEstimatedBytes_def counted_def Let_def usage_key_inject split: option.split)
qed

lemma counted_all:
  assumes "CHR '':'' \<notin> set c" "\<And>c' e' b. (c', e', b) \<in> set l \<Longrightarrow> CHR '':'' \<notin> set c' \<and> 0 \<le> b"
  shows "counted (add_all (\<lambda>_. True) month l s) (endpointUsageKey month c e)
    = counted s (endpointUsageKey month c e) + sum_list (map (\<lambda>(c', e', b). if c' = c \<and> e' = e then js_round b else 0) l)"
  using assms(2)
proof (induction l arbitrary: s)
  case (Cons x l)
  obtain c' e' b where x: "x = (c', e', b)" by (cases x)
  show ?case using Cons.IH [of "addEndpointEstimatedBytes month c' e' b s"] Cons.prems counted_add [OF assms(1), of c' b month e' s e]
    by (fastforce simp: x)
qed simp

lemma sum_one:
  assumes "distinct (map fst m)" "\<forall>(k, c', e', b) \<in> set m. k = joined_key c' e' \<and> CHR 0x00 \<notin> set c'" "CHR 0x00 \<notin> set c"
  shows "sum_list (map (\<lambda>(c', e', b). if c' = c \<and> e' = e then js_round b else 0) (map snd m))
    = (case map_of m (joined_key c e) of Some (_, _, b) \<Rightarrow> js_round b | None \<Rightarrow> 0)"
  using assms(1,2)
proof (induction m)
  case (Cons x m)
  obtain k c' e' b where x: "x = (k, c', e', b)" by (metis surj_pair)
  have k: "joined_key c e = k \<longleftrightarrow> c' = c \<and> e' = e" using Cons.prems(2) x joined_inject [OF assms(3)] by auto
  have "map_of m k = None" using Cons.prems(1) x by (simp add: map_of_eq_None_iff)
  then show ?case using Cons k x by auto
qed simp

text \<open>The monthly estimate of an endpoint grows by exactly the traffic of the rooms that use it. After a tick,
  its counter is higher by the rounded sum, over the rooms with at least two participants that were
  given this endpoint, of the streams between every two of them; rooms without a relay and lonely
  participants add nothing, and no other endpoint's counter moves. (Channel ids are assumed not to contain
  the separators of the keys.)\<close>

lemma usage_recorded:
  assumes "list_all plain_ids rooms" "CHR 0x00 \<notin> set cid" "CHR '':'' \<notin> set cid" "0 \<le> vc_bitrate_kbps vc" "0 \<le> tick"
  shows "counted (recordUsage vc (\<lambda>_. True) month tick rooms s) (endpointUsageKey month cid eid)
    = counted s (endpointUsageKey month cid eid) + js_round (traffic vc tick rooms cid eid)"
proof -
  define m where "m = foldl (add_room vc tick) [] rooms"
  have m: "sums_of vc tick rooms m" unfolding m_def by (rule rooms_sums [OF assms(1)])
  have pos: "0 \<le> traffic vc tick rooms c e" for c e
    using assms(4,5) by (auto simp: traffic_def room_bytes_def intro!: sum_list_nonneg)
  have b: "CHR '':'' \<notin> set c' \<and> 0 \<le> b" if mem: "(c', e', b) \<in> set (map snd m)" for c' e' b
  proof -
    obtain k where k: "(k, c', e', b) \<in> set m" using mem by force
    then have f: "k = joined_key c' e'" "CHR 0x00 \<notin> set c'" "CHR '':'' \<notin> set c'" "distinct (map fst m)"
      using m unfolding sums_of_def by blast+
    then have "map_of m (joined_key c' e') = Some (c', e', b)" using k by simp
    then have "b = traffic vc tick rooms c' e'" using m f(2) unfolding sums_of_def by (auto split: if_splits)
    then show ?thesis using f(3) pos by simp
  qed
  have "sum_list (map (\<lambda>(c', e', b). if c' = cid \<and> e' = eid then js_round b else 0) (map snd m))
      = (case map_of m (joined_key cid eid) of Some (_, _, b) \<Rightarrow> js_round b | None \<Rightarrow> 0)"
    using m assms(2) by (intro sum_one) (auto simp: sums_of_def)
  also have "\<dots> = js_round (traffic vc tick rooms cid eid)"
    using m assms(2) by (auto simp: sums_of_def traffic_unused js_round_def floor_unique)
  finally have "sum_list (map (\<lambda>(c', e', b). if c' = cid \<and> e' = eid then js_round b else 0) (map snd m))
      = js_round (traffic vc tick rooms cid eid)" .
  moreover have "counted (add_all (\<lambda>_. True) month (map snd m) s) (endpointUsageKey month cid eid)
      = counted s (endpointUsageKey month cid eid)
        + sum_list (map (\<lambda>(c', e', b). if c' = cid \<and> e' = eid then js_round b else 0) (map snd m))"
    by (rule counted_all [OF assms(3)]) (rule b)
  ultimately show ?thesis by (simp add: recordUsage_def m_def)
qed

definition sample_usage :: "nat \<Rightarrow> VoiceRoomUsage" where
  "sample_usage p = \<lparr>vu_participants = p, vu_channelId = Some ''static'', vu_endpointId = Some ''static''\<rparr>"

end
