(* ===== verification/ClientManager.thy ===== *)
theory ClientManager
  imports RoomManager MessageBudget VoiceBudget
begin

text \<open>
  \<^verbatim>\<open>server/clientmanager.ts\<close> and \<^verbatim>\<open>server/client.ts\<close>: the connections, how one is authenticated and
  joins its room, what its messages do, how the messages of a room reach everybody in it, and the
  voice chat.

  A connection is an object with an identity; the code's arrays and maps hold identities here. A
  handler is cut where it waits for something that other handlers may overtake: authentication,
  joining (which looks up the room, then the access, then enters) and disconnecting are
  separate steps, and \<^verbatim>\<open>pendingRoomJoins\<close> says how far a join has come. What is sent is appended to
  a list. A message that the schema of \<^verbatim>\<open>server/ws-schemas.ts\<close> refuses is \<open>Malformed\<close>.
\<close>

section \<open>Connections\<close>

datatype OttWebsocketError =
    AWAY | UNKNOWN | INVALID_CONNECTION_URL | ROOM_NOT_FOUND | ROOM_UNLOADED | MISSING_TOKEN | KICKED
  | ROOM_PASSWORD_REQUIRED | OtherCode int

datatype ClientJoinStatus = WaitingForAuth | Joined

text \<open>A socket of this server, or one that a balancer holds.\<close>

datatype client_link = DirectLink | BalancerLink string

record Client =
  cl_id :: ClientId
  cl_room :: string
  cl_token :: "AuthToken option"
  cl_session :: "SessionInfo option"
  joinStatus :: ClientJoinStatus
  isReconnect :: bool
  cl_link :: client_link
  isAlive :: bool
  lastLatencyReplyAt :: int

definition new_Client :: "string \<Rightarrow> ClientId \<Rightarrow> client_link \<Rightarrow> bool \<Rightarrow> Client" where
  "new_Client room cid link reconnect =
     \<lparr>cl_id = cid, cl_room = room, cl_token = None, cl_session = None, joinStatus = WaitingForAuth,
      isReconnect = reconnect, cl_link = link, isAlive = True, lastLatencyReplyAt = 0\<rparr>"

definition getClientInfo :: "Client \<Rightarrow> ClientInfo" where
  "getClientInfo c =
     (case cl_session c of
        None \<Rightarrow> \<lparr>ci_id = cl_id c, ci_username = None, ci_user_id = None, ci_status = None, ci_diagnostics = None\<rparr>
      | Some (SessionUser uid) \<Rightarrow>
          \<lparr>ci_id = cl_id c, ci_username = None, ci_user_id = Some uid, ci_status = None, ci_diagnostics = None\<rparr>
      | Some (SessionAnonymous name) \<Rightarrow>
          \<lparr>ci_id = cl_id c, ci_username = Some name, ci_user_id = None, ci_status = None, ci_diagnostics = None\<rparr>)"

text \<open>What a failed request is reported with; the code sends the name and the text of the exception.\<close>

datatype hub_error = RoomError ott_error | MissingToken | LengthOutOfRange string | TooManyRequests

datatype hub_message =
    RoomMsg ServerMessage
  | UserInit "RoomUserInfo list"
  | UserRemove ClientId
  | You ClientId
  | VoiceMsg "ClientId list" "RtcIceServer list" bool "VoiceDeniedReason option"
  | SignalMsg ClientId string
  | ErrorMsg hub_error
  | Pong rat
  | Announcement string

datatype delivery =
    ToSocket nat hub_message
  | ToBalancer string string "ClientId option" hub_message
  | CloseSocket nat OttWebsocketError
  | KickVia string ClientId OttWebsocketError
  | PingSocket nat
  | Terminate nat

text \<open>How far a join has come: looking for the room, waiting for the access to it, inside.\<close>

datatype join_stage = Finding | Checking nat | Entering nat

record Hub =
  clients :: "nat \<rightharpoonup> Client"
  nextClient :: nat
  connections :: "nat list"
  roomJoins :: "string \<rightharpoonup> nat list"
  pendingRoomJoins :: "nat \<rightharpoonup> join_stage"
  voiceParticipants :: "(string \<times> ClientId list) list"
  roomRelayChannels :: "string \<rightharpoonup> RelaySelection"
  messageBuckets :: "nat \<rightharpoonup> Buckets"
  balancerConns :: "string list"
  manager :: Manager
  relay :: relay_state
  sent :: "delivery list"

text \<open>What the handlers read from outside: the rooms' world, the voice settings, the network, and the store of access grants.\<close>

record outside =
  o_world :: world
  o_voice :: voice_conf
  o_net :: net
  o_month :: string
  o_up :: "string \<Rightarrow> bool"
  o_counters :: counters
  o_sha :: "string \<Rightarrow> string"
  o_grants :: "string \<rightharpoonup> int"

abbreviation o_env :: "outside \<Rightarrow> env" where
  "o_env w \<equiv> w_env (o_world w)"

abbreviation o_now :: "outside \<Rightarrow> int" where
  "o_now w \<equiv> now (o_env w)"

section \<open>Sending\<close>

definition emit :: "delivery list \<Rightarrow> Hub \<Rightarrow> Hub" where
  "emit ds h = h\<lparr>sent := sent h @ ds\<rparr>"

definition send :: "nat \<Rightarrow> hub_message \<Rightarrow> Hub \<Rightarrow> Hub" where
  "send oid msg h =
     (case clients h oid of
        None \<Rightarrow> h
      | Some c \<Rightarrow>
          (case cl_link c of
             DirectLink \<Rightarrow> emit [ToSocket oid msg] h
           | BalancerLink b \<Rightarrow> emit [ToBalancer b (cl_room c) (Some (cl_id c)) msg] h))"

definition balancer_of :: "Hub \<Rightarrow> nat \<Rightarrow> string option" where
  "balancer_of h oid =
     (case clients h oid of
        Some c \<Rightarrow> (case cl_link c of BalancerLink b \<Rightarrow> Some b | DirectLink \<Rightarrow> None)
      | None \<Rightarrow> None)"

text \<open>A socket gets the message itself; a balancer gets it once for all its clients.\<close>

definition broadcast :: "string \<Rightarrow> hub_message \<Rightarrow> Hub \<Rightarrow> Hub" where
  "broadcast roomName msg h =
     (case roomJoins h roomName of
        None \<Rightarrow> h
      | Some oids \<Rightarrow>
          emit (map (\<lambda>oid. ToSocket oid msg) (filter (\<lambda>oid. balancer_of h oid = None) oids)
                @ map (\<lambda>b. ToBalancer b roomName None msg)
                    (filter (\<lambda>b. b \<in> set (balancerConns h)) (js_Set (List.map_filter (balancer_of h) oids)))) h)"

definition getClient :: "ClientId \<Rightarrow> Hub \<Rightarrow> nat option" where
  "getClient cid h = find (\<lambda>oid. map_option cl_id (clients h oid) = Some cid) (connections h)"

definition set_client :: "nat \<Rightarrow> (Client \<Rightarrow> Client) \<Rightarrow> Hub \<Rightarrow> Hub" where
  "set_client oid f h = h\<lparr>clients := (clients h)(oid := map_option f (clients h oid))\<rparr>"

section \<open>Voice\<close>

definition hasTurnUrl :: "RtcIceServer \<Rightarrow> bool" where
  "hasTurnUrl server = list_ex isTurnUrl (urls server)"

definition in_voice :: "Hub \<Rightarrow> string \<Rightarrow> ClientId list" where
  "in_voice h roomName = (case map_of (voiceParticipants h) roomName of None \<Rightarrow> [] | Some ps \<Rightarrow> ps)"

definition buildVoiceMessage :: "outside \<Rightarrow> string \<Rightarrow> RelaySelection option \<Rightarrow> VoiceDeniedReason option \<Rightarrow> Hub \<Rightarrow> hub_message \<times> Hub" where
  "buildVoiceMessage w roomName selection denied h =
     (let (servers, st) = getVoiceIceServers (o_voice w) (parseTurnChannels (o_voice w)) (o_net w) (selection \<noteq> None)
            (map_option (\<lambda>s. tc_id (rs_channel s)) selection) (map_option (\<lambda>s. te_id (rs_endpoint s)) selection) (turn (relay h))
      in (VoiceMsg (in_voice h roomName) servers (selection \<noteq> None \<and> list_ex hasTurnUrl servers) denied,
          h\<lparr>relay := (relay h)\<lparr>turn := st\<rparr>\<rparr>))"

definition getRoomRelayChannel :: "outside \<Rightarrow> string \<Rightarrow> Hub \<Rightarrow> RelaySelection option \<times> Hub" where
  "getRoomRelayChannel w roomName h =
     (case roomRelayChannels h roomName of
        Some sel \<Rightarrow> (Some sel, h)
      | None \<Rightarrow>
          (case selectRelayChannel (o_voice w) (o_up w) (o_month w) (o_counters w) (parseTurnChannels (o_voice w)) (o_net w) (relay h) of
             (Some sel, rs) \<Rightarrow> (Some sel, h\<lparr>relay := rs, roomRelayChannels := (roomRelayChannels h)(roomName \<mapsto> sel)\<rparr>)
           | (None, rs) \<Rightarrow> (None, h\<lparr>relay := rs\<rparr>)))"

text \<open>The end of both changes of presence: a room that is empty is forgotten, and everybody hears the new list.\<close>

definition forget_empty :: "string \<Rightarrow> Hub \<Rightarrow> Hub" where
  "forget_empty roomName h =
     (if in_voice h roomName = []
      then h\<lparr>voiceParticipants := AList.delete roomName (voiceParticipants h),
             roomRelayChannels := (roomRelayChannels h)(roomName := None)\<rparr>
      else h)"

definition publish_voice :: "outside \<Rightarrow> string \<Rightarrow> Hub \<Rightarrow> Hub" where
  "publish_voice w roomName h =
     (let (selection, h1) = (if in_voice h roomName \<noteq> [] then getRoomRelayChannel w roomName h else (None, h));
          (msg, h2) = buildVoiceMessage w roomName selection None h1
      in broadcast roomName msg h2)"

definition relayVoiceSignal :: "nat \<Rightarrow> Client \<Rightarrow> ClientId \<Rightarrow> string \<Rightarrow> Hub \<Rightarrow> Hub" where
  "relayVoiceSignal oid c to signal h =
     (if cl_id c \<notin> set (in_voice h (cl_room c)) \<or> to \<notin> set (in_voice h (cl_room c)) then h
      else case getClient to h of
          None \<Rightarrow> h
        | Some target \<Rightarrow>
            if map_option cl_room (clients h target) \<noteq> Some (cl_room c) then h
            else send target (SignalMsg (cl_id c) signal) h)"

definition deny_voice :: "outside \<Rightarrow> nat \<Rightarrow> string \<Rightarrow> VoiceDeniedReason option \<Rightarrow> Hub \<Rightarrow> Hub" where
  "deny_voice w oid roomName reason h =
     (let (msg, h1) = buildVoiceMessage w roomName None reason h in send oid msg h1)"

definition other_voice_rooms :: "string \<Rightarrow> Hub \<Rightarrow> nat" where
  "other_voice_rooms roomName h = length (filter (\<lambda>(n, ps). n \<noteq> roomName \<and> ps \<noteq> []) (voiceParticipants h))"

definition setVoicePresence :: "outside \<Rightarrow> nat \<Rightarrow> Client \<Rightarrow> bool \<Rightarrow> Hub \<Rightarrow> Hub" where
  "setVoicePresence w oid c joinedVoice h =
     (if \<not> isVoiceEnabled (o_voice w) \<or> joinStatus c \<noteq> Joined
      then (if joinedVoice then deny_voice w oid (cl_room c) (Some VoiceDisabled) h else h)
      else
        (let ps = in_voice h (cl_room c);
             decision = decideVoiceJoin (o_voice w) (parseTurnChannels (o_voice w)) (length ps) (ps \<noteq> []) (other_voice_rooms (cl_room c) h)
         in if joinedVoice \<and> cl_id c \<notin> set ps \<and> \<not> vj_allowed decision
            then deny_voice w oid (cl_room c) (vj_reason decision) (forget_empty (cl_room c) h)
            else publish_voice w (cl_room c)
                   (forget_empty (cl_room c)
                     (h\<lparr>voiceParticipants := AList.update (cl_room c)
                          (if joinedVoice then js_add (cl_id c) ps else js_delete (cl_id c) ps) (voiceParticipants h)\<rparr>))))"

definition removeFromVoice :: "outside \<Rightarrow> Client \<Rightarrow> Hub \<Rightarrow> Hub" where
  "removeFromVoice w c h =
     (if cl_id c \<notin> set (in_voice h (cl_room c)) then h
      else publish_voice w (cl_room c)
             (forget_empty (cl_room c)
               (h\<lparr>voiceParticipants := AList.update (cl_room c) (js_delete (cl_id c) (in_voice h (cl_room c))) (voiceParticipants h)\<rparr>)))"

section \<open>Leaving and kicking\<close>

text \<open>The part of \<^verbatim>\<open>onClientDisconnect\<close> before its first wait; the rest is \<open>finish_leave\<close>.\<close>

definition onClientDisconnect :: "outside \<Rightarrow> nat \<Rightarrow> Hub \<Rightarrow> Hub" where
  "onClientDisconnect w oid h =
     (case clients h oid of
        None \<Rightarrow> h
      | Some c \<Rightarrow>
          removeFromVoice w c
            (if oid \<in> set (connections h)
             then h\<lparr>connections := remove1 oid (connections h),
                    roomJoins := (roomJoins h)(cl_room c := map_option (remove1 oid) (roomJoins h (cl_room c)))\<rparr>
             else h))"

text \<open>Closing a socket only starts the handshake; a client behind a balancer is gone at once.\<close>

definition kick :: "outside \<Rightarrow> OttWebsocketError \<Rightarrow> nat \<Rightarrow> Hub \<Rightarrow> Hub" where
  "kick w code oid h =
     (case clients h oid of
        None \<Rightarrow> h
      | Some c \<Rightarrow>
          (case cl_link c of
             DirectLink \<Rightarrow> emit [CloseSocket oid code] h
           | BalancerLink b \<Rightarrow> onClientDisconnect w oid (emit [KickVia b (cl_id c) code] h)))"

definition handleCommand :: "outside \<Rightarrow> ClientManagerCommand \<Rightarrow> Hub \<Rightarrow> Hub" where
  "handleCommand w cmd h =
     (case cmd of KickCommand cid \<Rightarrow> (case getClient cid h of None \<Rightarrow> h | Some oid \<Rightarrow> kick w KICKED oid h))"

section \<open>Requests to a room\<close>

text \<open>
  Something happens in a loaded room: what the room publishes goes to everybody in it
  (\<^verbatim>\<open>onRoomPublish\<close>), and its commands are carried out.
\<close>

definition deliver_room :: "outside \<Rightarrow> Room \<Rightarrow> Hub \<Rightarrow> Hub" where
  "deliver_room w r h =
     foldl (\<lambda>h cmd. handleCommand w cmd h)
       (foldl (\<lambda>h msg. broadcast (room_name r) (RoomMsg msg) h) h (outbox r)) (commands r)"

definition in_room :: "outside \<Rightarrow> nat \<Rightarrow> (Room \<Rightarrow> outcome) \<Rightarrow> Hub \<Rightarrow> ott_error option \<times> Hub" where
  "in_room w roid f h =
     (case get_loaded roid (manager h) of
        None \<Rightarrow> (None, h)
      | Some lr \<Rightarrow>
          (let (err, r1) = f ((lr_room lr)\<lparr>outbox := [], commands := []\<rparr>)
           in (err, deliver_room w r1
                 (h\<lparr>manager := set_loaded roid (\<lambda>lr. lr\<lparr>lr_room := r1\<lparr>outbox := [], commands := []\<rparr>\<rparr>) (manager h)\<rparr>))))"

definition makeRoomRequest :: "outside \<Rightarrow> Client \<Rightarrow> RoomRequest \<Rightarrow> Hub \<Rightarrow> hub_error option \<times> Hub" where
  "makeRoomRequest w c request h =
     (if \<not> truthy_str (cl_token c) then (Some MissingToken, h)
      else case getRoom_find (cl_room c) (manager h) of
          None \<Rightarrow> (None, h)
        | Some roid \<Rightarrow>
            (let (err, h1) = in_room w roid
                   (processUnauthorizedRequest (o_env w) request \<lparr>au_token = the (cl_token c), au_clientId = Some (cl_id c)\<rparr>) h
             in (map_option RoomError err, h1)))"

section \<open>Messages\<close>

datatype ClientMessage =
    Malformed
  | AuthMsg AuthToken
  | Reauthenticate AuthToken
  | KickMe "OttWebsocketError option"
  | StatusMsg PlayerStatus "PlaybackPrepared option" "PlaybackDiagnostics option"
  | DiagnosticsMsg PlaybackDiagnostics
  | NotifyUsernameChanged
  | Req RoomRequest
  | ReqUnknown
  | VoiceJoin bool
  | Signal ClientId string
  | Ping rat

text \<open>Membership and identity are never a client's request.\<close>

definition CLIENT_ROOM_REQUEST_TYPES :: "RoomRequest \<Rightarrow> bool" where
  "CLIENT_ROOM_REQUEST_TYPES req =
     (case req of JoinRequest _ _ \<Rightarrow> False | LeaveRequest \<Rightarrow> False | UpdateUser _ _ \<Rightarrow> False | _ \<Rightarrow> True)"

definition digit :: "char \<Rightarrow> bool" where
  "digit ch = (let n = of_char ch :: nat in 48 \<le> n \<and> n \<le> 57)"

definition digits_upto :: "nat \<Rightarrow> string \<Rightarrow> string option" where
  "digits_upto k s =
     (let ds = takeWhile digit s in if ds \<noteq> [] \<and> length ds \<le> k then Some (dropWhile digit s) else None)"

text \<open>\<^verbatim>\<open>/^\/playGV\d{1,10}-\d{1,3}-\d{1,4}\/$/\<close>\<close>

definition play_page :: "string \<Rightarrow> bool" where
  "play_page s \<longleftrightarrow> prefix ''/playGV'' s \<and>
     (case digits_upto 10 (drop 7 s) of
        Some (d # t) \<Rightarrow> d = CHR ''-'' \<and>
          (case digits_upto 3 t of
             Some (d' # t') \<Rightarrow> d' = CHR ''-'' \<and> digits_upto 4 t' = Some ''/''
           | _ \<Rightarrow> False)
      | _ \<Rightarrow> False)"

definition RoomDanmakuSourceSchema :: "RoomDanmakuSource \<Rightarrow> bool" where
  "RoomDanmakuSourceSchema d \<longleftrightarrow>
     1 \<le> length (dm_videoUrl d) \<and> length (dm_videoUrl d) \<le> 2048 \<and> 1 \<le> length (dm_label d) \<and> length (dm_label d) \<le> 200
     \<and> (case dm_page d of None \<Rightarrow> True | Some p \<Rightarrow> play_page p)
     \<and> (case dm_episodeId d of None \<Rightarrow> True | Some e \<Rightarrow> 1 \<le> length e \<and> length e \<le> 64)
     \<and> - 600 \<le> dm_offset d \<and> dm_offset d \<le> 600"

text \<open>\<^verbatim>\<open>RoomSettingsSchema\<close>: the first complaint decides the error.\<close>

definition has :: "('a \<Rightarrow> bool) \<Rightarrow> 'a option \<Rightarrow> bool" where
  "has P v = (case v of None \<Rightarrow> False | Some x \<Rightarrow> P x)"

definition settings_error :: "RoomSettings \<Rightarrow> hub_error option" where
  "settings_error st =
     (if has (\<lambda>s. 254 < length s) (st_title st) then Some (LengthOutOfRange ''title'')
      else if has (\<lambda>s. CHR 0x0A \<in> set s \<or> CHR 0x0D \<in> set s) (st_title st) then Some (RoomError (BadApiArgument ''settings''))
      else if has (\<lambda>s. 5000 < length s) (st_description st) then Some (LengthOutOfRange ''description'')
      else if has (\<lambda>cs. \<not> list_all (\<lambda>c. c \<in> set ALL_SKIP_CATEGORIES) cs) (st_autoSkipSegmentCategories st)
      then Some (RoomError (BadApiArgument ''settings''))
      else if has (has (\<lambda>d. \<not> RoomDanmakuSourceSchema d)) (st_danmakuSource st) then Some (RoomError (BadApiArgument ''settings''))
      else None)"

definition request_error :: "RoomRequest \<Rightarrow> hub_error option" where
  "request_error req =
     (case req of
        ApplySettingsRequest st \<Rightarrow> settings_error st
      | ChatRequest txt \<Rightarrow>
          (case txt of
             JString s \<Rightarrow> if s = [] \<or> MAX_CHAT_MESSAGE_LENGTH < length s then Some (LengthOutOfRange ''chat message'') else None
           | _ \<Rightarrow> Some (LengthOutOfRange ''chat message''))
      | _ \<Rightarrow> None)"

text \<open>Every connection of a token learns the new session; an unknown token ends the loop.\<close>

fun update_sessions :: "outside \<Rightarrow> AuthToken \<Rightarrow> nat list \<Rightarrow> Hub \<Rightarrow> hub_error option \<times> Hub" where
  "update_sessions w token [] h = (None, h)"
| "update_sessions w token (oid # oids) h =
     (case clients h oid of
        None \<Rightarrow> update_sessions w token oids h
      | Some c \<Rightarrow>
          if cl_token c \<noteq> Some token then update_sessions w token oids h
          else (case e_getSessionInfo (o_env w) token of
                  Inl err \<Rightarrow> (Some (RoomError err), h)
                | Inr session \<Rightarrow>
                    (let c1 = c\<lparr>cl_session := Some session\<rparr>
                     in seq (makeRoomRequest w c1 (UpdateUser (getClientInfo c1) None) (set_client oid (\<lambda>_. c1) h))
                          (update_sessions w token oids))))"

definition onUserModified :: "outside \<Rightarrow> AuthToken \<Rightarrow> Hub \<Rightarrow> hub_error option \<times> Hub" where
  "onUserModified w token h = update_sessions w token (connections h) h"

definition bare_info :: "Client \<Rightarrow> ClientInfo" where
  "bare_info c = \<lparr>ci_id = cl_id c, ci_username = None, ci_user_id = None, ci_status = None, ci_diagnostics = None\<rparr>"

definition dispatch :: "outside \<Rightarrow> nat \<Rightarrow> Client \<Rightarrow> ClientMessage \<Rightarrow> Hub \<Rightarrow> hub_error option \<times> Hub" where
  "dispatch w oid c msg h =
     (case msg of
        Ping t0 \<Rightarrow> (None, send oid (Pong t0) h)
      | KickMe reason \<Rightarrow> (None, kick w (case reason of Some code \<Rightarrow> code | None \<Rightarrow> UNKNOWN) oid h)
      | StatusMsg status prepared diag \<Rightarrow>
          makeRoomRequest w c (UpdateUser ((bare_info c)\<lparr>ci_status := Some status, ci_diagnostics := diag\<rparr>) prepared) h
      | DiagnosticsMsg diag \<Rightarrow> makeRoomRequest w c (UpdateUser ((bare_info c)\<lparr>ci_diagnostics := Some diag\<rparr>) None) h
      | ReqUnknown \<Rightarrow> (None, kick w UNKNOWN oid h)
      | Req req \<Rightarrow>
          if \<not> CLIENT_ROOM_REQUEST_TYPES req then (None, kick w UNKNOWN oid h)
          else (case request_error req of Some err \<Rightarrow> (Some err, h) | None \<Rightarrow> makeRoomRequest w c req h)
      | VoiceJoin joined \<Rightarrow> (None, setVoicePresence w oid c joined h)
      | Signal to payload \<Rightarrow> (None, relayVoiceSignal oid c to payload h)
      | NotifyUsernameChanged \<Rightarrow>
          (case cl_token c of None \<Rightarrow> (None, h) | Some token \<Rightarrow> (None, snd (onUserModified w token h)))
      | _ \<Rightarrow> (None, h))"

definition is_chat :: "ClientMessage \<Rightarrow> bool" where
  "is_chat msg = (case msg of Req (ChatRequest _) \<Rightarrow> True | _ \<Rightarrow> False)"

definition onClientMessage :: "outside \<Rightarrow> nat \<Rightarrow> ClientMessage \<Rightarrow> Hub \<Rightarrow> Hub" where
  "onClientMessage w oid msg h =
     (case clients h oid of
        None \<Rightarrow> h
      | Some c \<Rightarrow>
          (let (ok, buckets) = consumeMessageBudget (o_now w) (is_chat msg) (messageBuckets h oid);
               h1 = h\<lparr>messageBuckets := (messageBuckets h)(oid \<mapsto> buckets)\<rparr>
           in if \<not> ok then send oid (ErrorMsg TooManyRequests) h1
              else (case dispatch w oid c msg h1 of
                      (None, h2) \<Rightarrow> h2
                    | (Some MissingToken, h2) \<Rightarrow> kick w MISSING_TOKEN oid h2
                    | (Some err, h2) \<Rightarrow> send oid (ErrorMsg err) h2)))"

section \<open>Connecting and joining\<close>

definition addClient :: "Client \<Rightarrow> Hub \<Rightarrow> Hub" where
  "addClient c h =
     h\<lparr>clients := (clients h)(nextClient h \<mapsto> c), nextClient := Suc (nextClient h), connections := connections h @ [nextClient h]\<rparr>"

text \<open>The room name comes out of the URL of the connection.\<close>

definition onDirectConnect :: "string \<Rightarrow> ClientId \<Rightarrow> bool \<Rightarrow> Hub \<Rightarrow> Hub" where
  "onDirectConnect roomName cid reconnect h =
     (if \<not> ROOM_NAME_REGEX roomName then emit [CloseSocket (nextClient h) INVALID_CONNECTION_URL] (h\<lparr>nextClient := Suc (nextClient h)\<rparr>)
      else addClient (new_Client roomName cid DirectLink reconnect) h)"

text \<open>A connection authenticates once. Its status says joined from here on, although the room has not been found yet.\<close>

definition auth :: "outside \<Rightarrow> AuthToken \<Rightarrow> nat \<Rightarrow> Hub \<Rightarrow> Hub" where
  "auth w token oid h =
     (case clients h oid of
        None \<Rightarrow> h
      | Some c \<Rightarrow>
          if token = [] \<or> 1024 < length token \<or> cl_token c \<noteq> None then kick w MISSING_TOKEN oid h
          else (case e_getSessionInfo (o_env w) token of
                  Inl _ \<Rightarrow> kick w MISSING_TOKEN oid (set_client oid (\<lambda>c. c\<lparr>cl_token := Some token\<rparr>) h)
                | Inr session \<Rightarrow>
                    (set_client oid (\<lambda>c. c\<lparr>cl_token := Some token, cl_session := Some session, joinStatus := Joined\<rparr>) h)
                      \<lparr>pendingRoomJoins := (pendingRoomJoins h)(oid \<mapsto> Finding)\<rparr>))"

definition end_join :: "nat \<Rightarrow> Hub \<Rightarrow> Hub" where
  "end_join oid h = h\<lparr>pendingRoomJoins := (pendingRoomJoins h)(oid := None)\<rparr>"

text \<open>The three parts of \<^verbatim>\<open>joinAuthenticatedClient\<close>. First the room is found.\<close>

definition join_find :: "outside \<Rightarrow> nat \<Rightarrow> Hub \<Rightarrow> Hub" where
  "join_find w oid h =
     (case clients h oid of
        None \<Rightarrow> h
      | Some c \<Rightarrow>
          (let (result, m1) = getRoom (o_world w) (cl_room c) False (manager h); h1 = h\<lparr>manager := m1\<rparr>
           in if oid \<notin> set (connections h) then end_join oid h1
              else (case result of
                      Inl _ \<Rightarrow> kick w ROOM_NOT_FOUND oid (end_join oid h1)
                    | Inr roid \<Rightarrow> h1\<lparr>pendingRoomJoins := (pendingRoomJoins h1)(oid \<mapsto> Checking roid)\<rparr>)))"

text \<open>Then the access is checked, the client gets the state of the room, a seat, and becomes a user.\<close>

definition take_seat :: "nat \<Rightarrow> string \<Rightarrow> Hub \<Rightarrow> Hub" where
  "take_seat oid roomName h =
     h\<lparr>roomJoins := (roomJoins h)(roomName \<mapsto> (case roomJoins h roomName of None \<Rightarrow> [] | Some oids \<Rightarrow> oids) @ [oid])\<rparr>"

definition join_enter :: "outside \<Rightarrow> nat \<Rightarrow> nat \<Rightarrow> Hub \<Rightarrow> Hub" where
  "join_enter w oid roid h =
     (case (clients h oid, get_loaded roid (manager h)) of
        (Some c, Some lr) \<Rightarrow>
          (if \<not> hasRoomAccess (o_sha w) (o_now w) (lr_room lr) (cl_token c) (cl_session c) (o_grants w)
           then kick w ROOM_PASSWORD_REQUIRED oid (end_join oid h)
           else
             (let n = room_name (lr_room lr); c1 = c\<lparr>cl_room := n\<rparr>;
                  h1 = snd (in_room w roid (\<lambda>r. (None, holdEmptyPlaybackForJoin (o_now w) (isReconnect c) r)) (set_client oid (\<lambda>_. c1) h));
                  state = (case get_loaded roid (manager h1) of Some lr1 \<Rightarrow> syncableState (o_now w) (lr_room lr1) | None \<Rightarrow> []);
                  h2 = take_seat oid n (send oid (RoomMsg (MsgSync state)) h1);
                  h3 = snd (makeRoomRequest w c1 (JoinRequest (getClientInfo c1) (isReconnect c1)) h2)
              in h3\<lparr>pendingRoomJoins := (pendingRoomJoins h3)(oid \<mapsto> Entering roid)\<rparr>))
      | _ \<Rightarrow> end_join oid h)"

text \<open>Last, a client that is still there gets the position, the notes, the users, its own id and the voice chat.\<close>

definition join_finish :: "outside \<Rightarrow> nat \<Rightarrow> nat \<Rightarrow> Hub \<Rightarrow> Hub" where
  "join_finish w oid roid h =
     (let h1 = end_join oid h in
      case (clients h oid, get_loaded roid (manager h)) of
        (Some c, Some lr) \<Rightarrow>
          if oid \<notin> set (connections h) then h1
          else
            (let r = lr_room lr;
                 h2 = send oid (You (cl_id c))
                        (send oid (UserInit (users r))
                          (send oid (RoomMsg (MsgNotes (if isTemporary r then [] else listNotes r) MAX_NOTES_PER_ROOM MAX_NOTE_LENGTH))
                            (send oid (RoomMsg (MsgSync [(PplaybackPosition, VNumber (realPlaybackPosition (o_now w) r))])) h1)));
                 (msg, h3) = buildVoiceMessage w (room_name r) (roomRelayChannels h2 (room_name r)) None h2
             in if isVoiceEnabled (o_voice w) then send oid msg h3 else h2)
      | _ \<Rightarrow> h1)"

definition join_step :: "outside \<Rightarrow> nat \<Rightarrow> Hub \<Rightarrow> Hub" where
  "join_step w oid h =
     (case pendingRoomJoins h oid of
        None \<Rightarrow> h
      | Some Finding \<Rightarrow> join_find w oid h
      | Some (Checking roid) \<Rightarrow> join_enter w oid roid h
      | Some (Entering roid) \<Rightarrow> join_finish w oid roid h)"

text \<open>A login changes who is behind an open connection.\<close>

definition onClientReauth :: "outside \<Rightarrow> nat \<Rightarrow> AuthToken \<Rightarrow> Hub \<Rightarrow> Hub" where
  "onClientReauth w oid token h =
     (case clients h oid of
        None \<Rightarrow> h
      | Some c \<Rightarrow>
          (case getRoom (o_world w) (cl_room c) False (manager h) of
             (Inl _, m1) \<Rightarrow> h\<lparr>manager := m1\<rparr>
           | (Inr roid, m1) \<Rightarrow>
               (let h1 = h\<lparr>manager := m1\<rparr> in
                case get_loaded roid m1 of
                  None \<Rightarrow> h1
                | Some lr \<Rightarrow>
                    if getUser (lr_room lr) (cl_id c) = None then h1
                    else
                      (let (err, h2) = in_room w roid (\<lambda>r.
                             (let r1 = r\<lparr>realusers := map (\<lambda>u. if ru_id u = cl_id c
                                    then snd (updateInfo (o_env w) (getClientInfo c) (u\<lparr>ru_token := token\<rparr>)) else u) (realusers r)\<rparr>
                              in case getUserInfo r1 (cl_id c) of Inl err \<Rightarrow> (Some err, r1) | Inr info \<Rightarrow> (None, syncUser info r1))) h1;
                           state = (case get_loaded roid (manager h2) of Some lr1 \<Rightarrow> syncableState (o_now w) (lr_room lr1) | None \<Rightarrow> [])
                       in if err \<noteq> None then h2 else send oid (RoomMsg (MsgSync state)) h2))))"

definition reauthenticate :: "outside \<Rightarrow> AuthToken \<Rightarrow> nat \<Rightarrow> Hub \<Rightarrow> Hub" where
  "reauthenticate w token oid h =
     (if token = [] \<or> 1024 < length token then h
      else case e_getSessionInfo (o_env w) token of
          Inl _ \<Rightarrow> h
        | Inr session \<Rightarrow>
            onClientReauth w oid token (set_client oid (\<lambda>c. c\<lparr>cl_token := Some token, cl_session := Some session\<rparr>) h))"

definition LATENCY_PROBE_INTERVAL_MS :: int where "LATENCY_PROBE_INTERVAL_MS = 1000"

definition replyToLatencyProbe :: "outside \<Rightarrow> rat \<Rightarrow> nat \<Rightarrow> Hub \<Rightarrow> Hub" where
  "replyToLatencyProbe w t0 oid h =
     (case clients h oid of
        None \<Rightarrow> h
      | Some c \<Rightarrow>
          if o_now w - lastLatencyReplyAt c < LATENCY_PROBE_INTERVAL_MS then h
          else send oid (Pong t0) (set_client oid (\<lambda>c. c\<lparr>lastLatencyReplyAt := o_now w\<rparr>) h))"

text \<open>What a socket of this server does with a message: \<^verbatim>\<open>DirectClient.onData\<close>.\<close>

definition onData :: "outside \<Rightarrow> ClientMessage \<Rightarrow> nat \<Rightarrow> Hub \<Rightarrow> Hub" where
  "onData w msg oid h =
     (case msg of
        Malformed \<Rightarrow> kick w UNKNOWN oid h
      | AuthMsg token \<Rightarrow> auth w token oid h
      | Reauthenticate token \<Rightarrow> reauthenticate w token oid h
      | _ \<Rightarrow>
          if map_option joinStatus (clients h oid) \<noteq> Some Joined then kick w MISSING_TOKEN oid h
          else (case msg of Ping t0 \<Rightarrow> replyToLatencyProbe w t0 oid h | _ \<Rightarrow> onClientMessage w oid msg h))"

text \<open>The timeout of ten seconds for a connection that does not authenticate.\<close>

definition auth_timeout :: "outside \<Rightarrow> nat \<Rightarrow> Hub \<Rightarrow> Hub" where
  "auth_timeout w oid h = (if map_option joinStatus (clients h oid) = Some WaitingForAuth then kick w MISSING_TOKEN oid h else h)"

text \<open>The rest of \<^verbatim>\<open>onClientDisconnect\<close>, once a join that was under way is over.\<close>

definition finish_leave :: "outside \<Rightarrow> nat \<Rightarrow> Hub \<Rightarrow> Hub" where
  "finish_leave w oid h =
     (case clients h oid of
        None \<Rightarrow> h
      | Some c \<Rightarrow>
          if pendingRoomJoins h oid \<noteq> None \<or> joinStatus c \<noteq> Joined then h
          else (case getRoom_find (cl_room c) (manager h) of
                  None \<Rightarrow> h
                | Some roid \<Rightarrow>
                    (case get_loaded roid (manager h) of
                       None \<Rightarrow> h
                     | Some lr \<Rightarrow>
                         if getUser (lr_room lr) (cl_id c) = None then h
                         else broadcast (room_name (lr_room lr)) (UserRemove (cl_id c))
                                (snd (in_room w roid (processRequestUnsafe (o_env w) LeaveRequest (cl_id c)) h)))))"

section \<open>What sending and voice leave alone\<close>

lemma emit_frame [simp]:
  "clients (emit ds h) = clients h" "nextClient (emit ds h) = nextClient h" "connections (emit ds h) = connections h"
  "roomJoins (emit ds h) = roomJoins h" "pendingRoomJoins (emit ds h) = pendingRoomJoins h"
  "voiceParticipants (emit ds h) = voiceParticipants h" "roomRelayChannels (emit ds h) = roomRelayChannels h"
  "messageBuckets (emit ds h) = messageBuckets h" "manager (emit ds h) = manager h" "balancerConns (emit ds h) = balancerConns h"
  by (simp_all add: emit_def)

lemma send_frame [simp]:
  "clients (send oid msg h) = clients h" "nextClient (send oid msg h) = nextClient h" "connections (send oid msg h) = connections h"
  "roomJoins (send oid msg h) = roomJoins h" "pendingRoomJoins (send oid msg h) = pendingRoomJoins h"
  "voiceParticipants (send oid msg h) = voiceParticipants h" "roomRelayChannels (send oid msg h) = roomRelayChannels h"
  "messageBuckets (send oid msg h) = messageBuckets h" "manager (send oid msg h) = manager h" "balancerConns (send oid msg h) = balancerConns h"
  by (simp_all add: send_def split: option.split client_link.split)

lemma broadcast_frame [simp]:
  "clients (broadcast n msg h) = clients h" "nextClient (broadcast n msg h) = nextClient h" "connections (broadcast n msg h) = connections h"
  "roomJoins (broadcast n msg h) = roomJoins h" "pendingRoomJoins (broadcast n msg h) = pendingRoomJoins h"
  "voiceParticipants (broadcast n msg h) = voiceParticipants h" "roomRelayChannels (broadcast n msg h) = roomRelayChannels h"
  "messageBuckets (broadcast n msg h) = messageBuckets h" "manager (broadcast n msg h) = manager h" "balancerConns (broadcast n msg h) = balancerConns h"
  by (simp_all add: broadcast_def split: option.split)

lemma build_frame [simp]:
  "clients (snd (buildVoiceMessage w n sel d h)) = clients h" "nextClient (snd (buildVoiceMessage w n sel d h)) = nextClient h"
  "connections (snd (buildVoiceMessage w n sel d h)) = connections h" "roomJoins (snd (buildVoiceMessage w n sel d h)) = roomJoins h"
  "pendingRoomJoins (snd (buildVoiceMessage w n sel d h)) = pendingRoomJoins h"
  "voiceParticipants (snd (buildVoiceMessage w n sel d h)) = voiceParticipants h"
  "roomRelayChannels (snd (buildVoiceMessage w n sel d h)) = roomRelayChannels h"
  "messageBuckets (snd (buildVoiceMessage w n sel d h)) = messageBuckets h" "manager (snd (buildVoiceMessage w n sel d h)) = manager h"
  "balancerConns (snd (buildVoiceMessage w n sel d h)) = balancerConns h"
  by (simp_all add: buildVoiceMessage_def Let_def split: prod.split)

lemma relay_frame [simp]:
  "clients (snd (getRoomRelayChannel w n h)) = clients h" "nextClient (snd (getRoomRelayChannel w n h)) = nextClient h"
  "connections (snd (getRoomRelayChannel w n h)) = connections h" "roomJoins (snd (getRoomRelayChannel w n h)) = roomJoins h"
  "pendingRoomJoins (snd (getRoomRelayChannel w n h)) = pendingRoomJoins h"
  "voiceParticipants (snd (getRoomRelayChannel w n h)) = voiceParticipants h"
  "messageBuckets (snd (getRoomRelayChannel w n h)) = messageBuckets h" "manager (snd (getRoomRelayChannel w n h)) = manager h"
  "balancerConns (snd (getRoomRelayChannel w n h)) = balancerConns h"
  by (simp_all add: getRoomRelayChannel_def split: option.split prod.split)

lemma publish_voice_frame [simp]:
  "clients (publish_voice w n h) = clients h" "nextClient (publish_voice w n h) = nextClient h"
  "connections (publish_voice w n h) = connections h" "roomJoins (publish_voice w n h) = roomJoins h"
  "pendingRoomJoins (publish_voice w n h) = pendingRoomJoins h" "voiceParticipants (publish_voice w n h) = voiceParticipants h"
  "messageBuckets (publish_voice w n h) = messageBuckets h" "manager (publish_voice w n h) = manager h"
  "balancerConns (publish_voice w n h) = balancerConns h"
proof -
  let ?r = "if in_voice h n \<noteq> [] then getRoomRelayChannel w n h else (None, h)"
  have p: "publish_voice w n h = broadcast n (fst (buildVoiceMessage w n (fst ?r) None (snd ?r))) (snd (buildVoiceMessage w n (fst ?r) None (snd ?r)))"
    by (simp add: publish_voice_def Let_def case_prod_unfold)
  show "clients (publish_voice w n h) = clients h" "nextClient (publish_voice w n h) = nextClient h"
    "connections (publish_voice w n h) = connections h" "roomJoins (publish_voice w n h) = roomJoins h"
    "pendingRoomJoins (publish_voice w n h) = pendingRoomJoins h" "voiceParticipants (publish_voice w n h) = voiceParticipants h"
    "messageBuckets (publish_voice w n h) = messageBuckets h" "manager (publish_voice w n h) = manager h"
    "balancerConns (publish_voice w n h) = balancerConns h"
    unfolding p by simp_all
qed

lemma forget_frame [simp]:
  "clients (forget_empty n h) = clients h" "nextClient (forget_empty n h) = nextClient h"
  "connections (forget_empty n h) = connections h" "roomJoins (forget_empty n h) = roomJoins h"
  "pendingRoomJoins (forget_empty n h) = pendingRoomJoins h" "messageBuckets (forget_empty n h) = messageBuckets h"
  "manager (forget_empty n h) = manager h" "balancerConns (forget_empty n h) = balancerConns h"
  by (simp_all add: forget_empty_def)

lemma removeFromVoice_frame [simp]:
  "clients (removeFromVoice w c h) = clients h" "nextClient (removeFromVoice w c h) = nextClient h"
  "connections (removeFromVoice w c h) = connections h" "roomJoins (removeFromVoice w c h) = roomJoins h"
  "pendingRoomJoins (removeFromVoice w c h) = pendingRoomJoins h" "messageBuckets (removeFromVoice w c h) = messageBuckets h"
  "manager (removeFromVoice w c h) = manager h" "balancerConns (removeFromVoice w c h) = balancerConns h"
  by (simp_all add: removeFromVoice_def)

text \<open>A kick never adds anybody to a list.\<close>

lemma disconnect_lists:
  "connections (onClientDisconnect w oid h) = (if clients h oid = None then connections h else remove1 oid (connections h))"
  "roomJoins (onClientDisconnect w oid h) n =
     (case clients h oid of
        Some c \<Rightarrow> if oid \<in> set (connections h) \<and> n = cl_room c then map_option (remove1 oid) (roomJoins h n) else roomJoins h n
      | None \<Rightarrow> roomJoins h n)"
  by (auto simp: onClientDisconnect_def remove1_idem split: option.split)

definition seats :: "Hub \<Rightarrow> string \<Rightarrow> nat list" where
  "seats h n = (case roomJoins h n of None \<Rightarrow> [] | Some oids \<Rightarrow> oids)"

lemma length_remove1_le: "length (remove1 x xs) \<le> length xs"
  by (simp add: length_remove1)

lemma kick_shrinks:
  "length (seats (kick w code oid h) n) \<le> length (seats h n)" "length (connections (kick w code oid h)) \<le> length (connections h)"
  by (auto simp: kick_def seats_def disconnect_lists length_remove1_le split: option.split client_link.split)

section \<open>Unloading a room, shutting down\<close>

definition roomUnloadReasons :: "UnloadReason \<Rightarrow> OttWebsocketError" where
  "roomUnloadReasons reason = (case reason of Keepalive \<Rightarrow> ROOM_UNLOADED | Admin \<Rightarrow> ROOM_UNLOADED | Commanded \<Rightarrow> AWAY | Shutdown \<Rightarrow> AWAY)"

text \<open>
  The loops go over the live arrays by position, while a kick may take elements out of them.
\<close>

function kick_seats :: "outside \<Rightarrow> OttWebsocketError \<Rightarrow> string \<Rightarrow> nat \<Rightarrow> Hub \<Rightarrow> Hub" where
  "kick_seats w code n i h =
     (if i < length (seats h n) then kick_seats w code n (Suc i) (kick w code (seats h n ! i) h) else h)"
  by auto
termination
proof (relation "measure (\<lambda>(w, code, n, i, h). length (seats h n) - i)", goal_cases)
  case (2 w code n i h)
  then show ?case using kick_shrinks(1) [of w code "seats h n ! i" h n] by simp
qed simp

function kick_connections :: "outside \<Rightarrow> nat \<Rightarrow> Hub \<Rightarrow> Hub" where
  "kick_connections w i h =
     (if i < length (connections h) then kick_connections w (Suc i) (kick w AWAY (connections h ! i) h) else h)"
  by auto
termination
proof (relation "measure (\<lambda>(w, i, h). length (connections h) - i)", goal_cases)
  case (2 w i h)
  then show ?case using kick_shrinks(2) [of w AWAY "connections h ! i" h] by simp
qed simp

declare kick_seats.simps [simp del] kick_connections.simps [simp del]

definition onRoomUnload :: "outside \<Rightarrow> string \<Rightarrow> UnloadReason \<Rightarrow> Hub \<Rightarrow> Hub" where
  "onRoomUnload w roomName reason h =
     (let h1 = kick_seats w (roomUnloadReasons reason) roomName 0 h
      in h1\<lparr>roomJoins := (roomJoins h1)(roomName := None), voiceParticipants := AList.delete roomName (voiceParticipants h1),
            roomRelayChannels := (roomRelayChannels h1)(roomName := None)\<rparr>)"

definition shutdown_clients :: "outside \<Rightarrow> Hub \<Rightarrow> Hub" where
  "shutdown_clients w h = kick_connections w 0 h"

text \<open>A balancer's client parses the text again, and one that is not JSON gets lost there.\<close>

definition onAnnouncement :: "bool \<Rightarrow> string \<Rightarrow> Hub \<Rightarrow> Hub" where
  "onAnnouncement isJson text h =
     foldl (\<lambda>h oid. if balancer_of h oid = None \<or> isJson then send oid (Announcement text) h else h) h (connections h)"

definition sweep_client :: "Hub \<Rightarrow> nat \<Rightarrow> Hub" where
  "sweep_client h oid =
     (case clients h oid of
        None \<Rightarrow> h
      | Some c \<Rightarrow>
          if cl_link c \<noteq> DirectLink then h
          else if \<not> isAlive c then emit [Terminate oid] h
          else emit [PingSocket oid] (set_client oid (\<lambda>c. c\<lparr>isAlive := False\<rparr>) h))"

definition sweepDeadClients :: "Hub \<Rightarrow> Hub" where
  "sweepDeadClients h = foldl sweep_client h (connections h)"

definition onPong :: "nat \<Rightarrow> Hub \<Rightarrow> Hub" where
  "onPong oid h = set_client oid (\<lambda>c. c\<lparr>isAlive := True\<rparr>) h"

text \<open>
  The manager acts: what the loaded rooms published goes out, and every room it unloads sends its
  clients away. (The last words of a room that is unloaded are not followed.)
\<close>

definition flush_rooms :: "outside \<Rightarrow> Hub \<Rightarrow> Hub" where
  "flush_rooms w h =
     foldl (\<lambda>h lr. deliver_room w (lr_room lr) h)
       (h\<lparr>manager := (manager h)\<lparr>rooms := map (\<lambda>lr. lr\<lparr>lr_room := (lr_room lr)\<lparr>outbox := [], commands := []\<rparr>\<rparr>) (rooms (manager h))\<rparr>\<rparr>)
       (rooms (manager h))"

definition manage :: "outside \<Rightarrow> manager_op \<Rightarrow> Hub \<Rightarrow> Hub" where
  "manage w op h =
     (let m1 = manager_step ((manager h)\<lparr>bus := []\<rparr>) op
      in foldl (\<lambda>h ev. case ev of UnloadEvent n reason \<Rightarrow> onRoomUnload w n reason h | LoadEvent _ \<Rightarrow> h)
           (flush_rooms w (h\<lparr>manager := m1\<lparr>bus := []\<rparr>\<rparr>)) (bus m1))"

text \<open>What a balancer asks for.\<close>

datatype MsgB2M =
    B2MLoad string
  | B2MUnload string
  | B2MJoin string ClientId AuthToken
  | B2MLeave ClientId
  | B2MClientMsg ClientId ClientMessage
  | B2MInit

definition onBalancerMessage :: "outside \<Rightarrow> string \<Rightarrow> MsgB2M \<Rightarrow> Hub \<Rightarrow> Hub" where
  "onBalancerMessage w conn msg h =
     (case msg of
        B2MLoad room \<Rightarrow> manage w (Get (o_world w) room False) h
      | B2MUnload room \<Rightarrow> manage w (UnloadOp (o_world w) room Commanded None) h
      | B2MJoin room cid token \<Rightarrow>
          auth w token (nextClient h) (addClient (new_Client room cid (BalancerLink conn) False) h)
      | B2MLeave cid \<Rightarrow>
          (case getClient cid h of
             Some oid \<Rightarrow> if balancer_of h oid \<noteq> None then onClientDisconnect w oid h else h
           | None \<Rightarrow> h)
      | B2MClientMsg cid m \<Rightarrow>
          (case getClient cid h of
             Some oid \<Rightarrow> if balancer_of h oid \<noteq> None then onClientMessage w oid m h else h
           | None \<Rightarrow> h)
      | B2MInit \<Rightarrow> h)"

definition onBalancerDisconnect :: "outside \<Rightarrow> string \<Rightarrow> Hub \<Rightarrow> Hub" where
  "onBalancerDisconnect w conn h =
     foldl (\<lambda>h oid. onClientDisconnect w oid h) (h\<lparr>balancerConns := filter (\<lambda>b. b \<noteq> conn) (balancerConns h)\<rparr>)
       (filter (\<lambda>oid. balancer_of h oid = Some conn) (connections h))"

section \<open>The hub as a machine\<close>

datatype hub_event =
    Connect string ClientId bool
  | Data ClientMessage nat
  | AuthTimeout nat
  | JoinStep nat
  | Closed nat
  | FinishLeave nat
  | BalancerUp string
  | BalancerDown string
  | FromBalancer string MsgB2M
  | Manage manager_op
  | UserModified AuthToken
  | Announce bool string
  | SweepDead
  | PongFrom nat

definition hub_step :: "Hub \<Rightarrow> outside \<times> hub_event \<Rightarrow> Hub" where
  "hub_step h we = (case we of (w, ev) \<Rightarrow>
     (case ev of
        Connect room cid reconnect \<Rightarrow> onDirectConnect room cid reconnect h
      | Data msg oid \<Rightarrow> if oid \<in> set (connections h) \<and> balancer_of h oid = None then onData w msg oid h else h
      | AuthTimeout oid \<Rightarrow> auth_timeout w oid h
      | JoinStep oid \<Rightarrow> join_step w oid h
      | Closed oid \<Rightarrow> if balancer_of h oid = None then onClientDisconnect w oid h else h
      | FinishLeave oid \<Rightarrow> if oid \<in> set (connections h) then h else finish_leave w oid h
      | BalancerUp b \<Rightarrow> h\<lparr>balancerConns := js_add b (balancerConns h)\<rparr>
      | BalancerDown b \<Rightarrow> onBalancerDisconnect w b h
      | FromBalancer b msg \<Rightarrow> onBalancerMessage w b msg h
      | Manage op \<Rightarrow> manage w op h
      | UserModified token \<Rightarrow> snd (onUserModified w token h)
      | Announce isJson text \<Rightarrow> onAnnouncement isJson text h
      | SweepDead \<Rightarrow> sweepDeadClients h
      | PongFrom oid \<Rightarrow> onPong oid h))"

text \<open>What is read by others: the connection of a token in a room, and the rooms whose use of the relays is counted.\<close>

definition getClientByToken :: "AuthToken \<Rightarrow> string \<Rightarrow> Hub \<Rightarrow> nat option" where
  "getClientByToken token roomName h =
     find (\<lambda>oid. case clients h oid of
             Some c \<Rightarrow> truthy_str (cl_token c) \<and> cl_token c = Some token \<and> cl_room c = roomName
           | None \<Rightarrow> False) (connections h)"

definition usage_tick :: "outside \<Rightarrow> rat \<Rightarrow> Hub \<Rightarrow> counters" where
  "usage_tick w tickSeconds h =
     recordUsage (o_voice w) (o_up w) (o_month w) tickSeconds
       (map (\<lambda>(roomName, ps).
          \<lparr>vu_participants = length ps, vu_channelId = map_option (\<lambda>s. tc_id (rs_channel s)) (roomRelayChannels h roomName),
           vu_endpointId = map_option (\<lambda>s. te_id (rs_endpoint s)) (roomRelayChannels h roomName)\<rparr>) (voiceParticipants h))
       (o_counters w)"

section \<open>What any handler keeps\<close>

text \<open>
  Most handlers do not touch the connections, the seats and the voice chat except by disconnecting
  somebody, by a change of presence or by unloading a room, and no handler takes a token away. A property that
  those three keep is kept by everything but connecting, authenticating and joining.
\<close>

definition keeps_token :: "Client option \<Rightarrow> Client option \<Rightarrow> bool" where
  "keeps_token x y = rel_option (\<lambda>c c'. cl_token c \<noteq> None \<longrightarrow> cl_token c' \<noteq> None) x y"

lemma keeps_token_refl [simp]: "keeps_token x x"
  by (cases x) (simp_all add: keeps_token_def)

definition steady :: "Hub \<Rightarrow> Hub \<Rightarrow> bool" where
  "steady h h' \<longleftrightarrow> nextClient h' = nextClient h \<and> pendingRoomJoins h' = pendingRoomJoins h \<and> connections h' = connections h
     \<and> (\<forall>oid. keeps_token (clients h oid) (clients h' oid))"

lemma steady_set_client: "(\<And>c. clients h oid = Some c \<Longrightarrow> cl_token c \<noteq> None \<Longrightarrow> cl_token (f c) \<noteq> None) \<Longrightarrow> steady h (set_client oid f h)"
  by (cases "clients h oid") (auto simp: steady_def set_client_def, auto simp: keeps_token_def)

text \<open>The events that connect, authenticate or join somebody.\<close>

definition joining :: "hub_event \<Rightarrow> bool" where
  "joining ev \<longleftrightarrow>
     (case ev of Connect _ _ _ \<Rightarrow> True | Data (AuthMsg _) _ \<Rightarrow> True | JoinStep _ \<Rightarrow> True | FromBalancer _ (B2MJoin _ _ _) \<Rightarrow> True
      | _ \<Rightarrow> False)"

locale lobby_requests =
  fixes P :: "Hub \<Rightarrow> bool" and ok :: "outside \<Rightarrow> bool"
  assumes calm: "P h \<Longrightarrow> steady h h' \<Longrightarrow> roomJoins h' = roomJoins h \<Longrightarrow> voiceParticipants h' = voiceParticipants h \<Longrightarrow>
      roomRelayChannels h' = roomRelayChannels h \<Longrightarrow> P h'"
    and disconnect: "P h \<Longrightarrow> ok w \<Longrightarrow> P (onClientDisconnect w oid h)"
    and presence: "P h \<Longrightarrow> ok w \<Longrightarrow> P (setVoicePresence w oid c b h)"
begin

lemma P_send [intro]: "P h \<Longrightarrow> P (send oid msg h)"
  by (erule calm) (simp_all add: steady_def)

lemma P_emit [intro]: "P h \<Longrightarrow> P (emit ds h)"
  by (erule calm) (simp_all add: steady_def)

lemma P_broadcast [intro]: "P h \<Longrightarrow> P (broadcast n msg h)"
  by (erule calm) (simp_all add: steady_def)

lemma P_set_client:
  "P h \<Longrightarrow> (\<And>c. clients h oid = Some c \<Longrightarrow> cl_token c \<noteq> None \<Longrightarrow> cl_token (f c) \<noteq> None) \<Longrightarrow> P (set_client oid f h)"
  by (erule calm [OF _ steady_set_client]) (simp_all add: set_client_def)

lemma P_updates [intro]:
  assumes "P h"
  shows "P (set_client oid (isAlive_update g) h)" "P (set_client oid (lastLatencyReplyAt_update k) h)"
    "P (set_client oid (\<lambda>c. c\<lparr>cl_token := Some token, cl_session := session\<rparr>) h)"
    "clients h oid = Some c \<Longrightarrow> P (set_client oid (\<lambda>_. c\<lparr>cl_session := session\<rparr>) h)"
    "clients h oid = Some c \<Longrightarrow> P (set_client oid (\<lambda>_. c\<lparr>cl_room := n\<rparr>) h)"
  by (rule P_set_client [OF assms]; simp)+

lemma P_manager [intro]: "P h \<Longrightarrow> P (h\<lparr>manager := m\<rparr>)"
  by (erule calm) (simp_all add: steady_def)

lemma P_build [intro]: "P h \<Longrightarrow> P (snd (buildVoiceMessage w n sel d h))"
  by (erule calm) (simp_all add: steady_def)

lemma P_signal [intro]: "P h \<Longrightarrow> P (relayVoiceSignal oid c to payload h)"
  by (auto simp: relayVoiceSignal_def split: option.split)

lemma P_kick [intro]: "P h \<Longrightarrow> ok w \<Longrightarrow> P (kick w code oid h)"
  by (auto simp: kick_def intro: disconnect split: option.split client_link.split)

lemma P_deliver [intro]: "P h \<Longrightarrow> ok w \<Longrightarrow> P (deliver_room w r h)"
proof -
  assume "P h" "ok w"
  have "P h' \<Longrightarrow> P (foldl (\<lambda>h msg. broadcast (room_name r) (RoomMsg msg) h) h' ms)" for h' ms
    by (induction ms arbitrary: h') auto
  moreover have "P h' \<Longrightarrow> P (foldl (\<lambda>h cmd. handleCommand w cmd h) h' cs)" for h' cs
    using \<open>ok w\<close> by (induction cs arbitrary: h') (auto simp: handleCommand_def split: ClientManagerCommand.split option.split)
  ultimately show ?thesis using \<open>P h\<close> by (simp add: deliver_room_def)
qed

lemma P_in_room [intro]: "P h \<Longrightarrow> ok w \<Longrightarrow> P (snd (in_room w roid f h))"
  by (auto simp: in_room_def Let_def split: option.split prod.split)

lemma P_request [intro]: "P h \<Longrightarrow> ok w \<Longrightarrow> P (snd (makeRoomRequest w c req h))"
  using P_in_room by (auto simp: makeRoomRequest_def Let_def split: option.split prod.split) (metis snd_conv)

lemma P_sessions [intro]: "P h \<Longrightarrow> ok w \<Longrightarrow> P (snd (update_sessions w token oids h))"
proof (induction oids arbitrary: h)
  case (Cons oid oids)
  have go: "P (snd (seq (makeRoomRequest w c1 req (set_client oid (\<lambda>_. c\<lparr>cl_session := x\<rparr>) h)) (update_sessions w token oids)))"
    if "clients h oid = Some c" for c c1 req x
    by (rule seq_keeps [where I = P]) (use Cons that in auto)
  show ?case using Cons go by (simp add: Let_def split: option.split sum.split)
qed simp

lemma P_dispatch [intro]: "P h \<Longrightarrow> ok w \<Longrightarrow> P (snd (dispatch w oid c msg h))"
  by (cases msg) (auto simp: dispatch_def onUserModified_def intro: presence split: option.split)

lemma P_message [intro]: "P h \<Longrightarrow> ok w \<Longrightarrow> P (onClientMessage w oid msg h)"
proof -
  assume h: "P h" "ok w"
  have "P (h\<lparr>messageBuckets := b\<rparr>)" for b using h(1) by (rule calm) (simp_all add: steady_def)
  then have d: "P (snd (dispatch w oid c msg (h\<lparr>messageBuckets := b\<rparr>)))" "P (h\<lparr>messageBuckets := b\<rparr>)" for b c using h(2) by blast+
  have "P h2" if "dispatch w oid c msg (h\<lparr>messageBuckets := b\<rparr>) = (e, h2)" for e h2 b c using d(1) [of c b] that by simp
  then show ?thesis
    using h d(2) by (auto simp: onClientMessage_def Let_def split: option.split prod.split hub_error.split)
qed

lemma P_reauth [intro]: "P h \<Longrightarrow> ok w \<Longrightarrow> P (reauthenticate w token oid h)"
proof -
  assume h: "P h" "ok w"
  have in_room: "P h2" if "in_room w roid f h1 = (e, h2)" "P h1" for roid f h1 e h2
    using P_in_room [OF that(2) h(2), of roid f] that(1) by simp
  have "P (onClientReauth w oid token h')" if "P h'" for h'
    using that by (auto simp: onClientReauth_def Let_def split: option.split prod.split sum.split dest!: in_room)
  then show ?thesis using h by (auto simp: reauthenticate_def split: sum.split)
qed

lemma P_leave [intro]: "P h \<Longrightarrow> ok w \<Longrightarrow> P (finish_leave w oid h)"
  by (auto simp: finish_leave_def split: option.split)

lemma P_kick_seats [intro]: "P h \<Longrightarrow> ok w \<Longrightarrow> P (kick_seats w code n i h)"
  by (induction w code n i h rule: kick_seats.induct) (subst kick_seats.simps, auto)

end

locale lobby_core = lobby_requests +
  assumes unload: "P h \<Longrightarrow> P (h\<lparr>roomJoins := (roomJoins h)(n := None), voiceParticipants := AList.delete n (voiceParticipants h),
        roomRelayChannels := (roomRelayChannels h)(n := None)\<rparr>)"
begin

lemma P_unload [intro]: "P h \<Longrightarrow> ok w \<Longrightarrow> P (onRoomUnload w n reason h)"
  unfolding onRoomUnload_def Let_def by (intro unload P_kick_seats)

lemma P_manage [intro]:
  assumes "P h" "ok w"
  shows "P (manage w op h)"
proof -
  have flush: "P (foldl (\<lambda>h lr. deliver_room w (lr_room lr) h) h' lrs)" if "P h'" for h' lrs
    using that assms(2) by (induction lrs arbitrary: h') auto
  have unloads: "P (foldl (\<lambda>h ev. case ev of UnloadEvent n reason \<Rightarrow> onRoomUnload w n reason h | LoadEvent _ \<Rightarrow> h) h' evs)" if "P h'" for h' evs
    using that assms(2) by (induction evs arbitrary: h') (auto split: manager_event.split)
  show ?thesis
    unfolding manage_def flush_rooms_def Let_def by (intro unloads flush P_manager assms)
qed

lemma P_fold_clients: "(\<And>h oid. P h \<Longrightarrow> P (f h oid)) \<Longrightarrow> P h \<Longrightarrow> P (foldl f h oids)"
  by (induction oids arbitrary: h) auto

lemma P_balancer_down [intro]: "P h \<Longrightarrow> ok w \<Longrightarrow> P (onBalancerDisconnect w b h)"
proof -
  assume h: "P h" "ok w"
  have "P (h\<lparr>balancerConns := bs\<rparr>)" for bs using h(1) by (rule calm) (simp_all add: steady_def)
  then show ?thesis using h(2) unfolding onBalancerDisconnect_def by (intro P_fold_clients disconnect)
qed

lemma P_sweep [intro]: "P h \<Longrightarrow> P (sweepDeadClients h)"
  unfolding sweepDeadClients_def by (rule P_fold_clients) (auto simp: sweep_client_def split: option.split)

lemma P_announce [intro]: "P h \<Longrightarrow> P (onAnnouncement isJson text h)"
  unfolding onAnnouncement_def by (rule P_fold_clients) auto

lemma P_data: "P h \<Longrightarrow> ok w \<Longrightarrow> \<forall>token. msg \<noteq> AuthMsg token \<Longrightarrow> P (onData w msg oid h)"
  by (cases msg) (auto simp: onData_def replyToLatencyProbe_def split: option.split)

lemma P_balancer: "P h \<Longrightarrow> ok w \<Longrightarrow> \<forall>n cid token. msg \<noteq> B2MJoin n cid token \<Longrightarrow> P (onBalancerMessage w b msg h)"
  by (cases msg) (auto simp: onBalancerMessage_def intro: disconnect split: option.split)

lemma P_quiet:
  assumes "P h" "ok w" "\<not> joining ev"
  shows "P (hub_step h (w, ev))"
proof (cases ev)
  case (BalancerUp b)
  have "P (h\<lparr>balancerConns := bs\<rparr>)" for bs using assms(1) by (rule calm) (simp_all add: steady_def)
  then show ?thesis by (simp add: hub_step_def BalancerUp)
next
  case (Data msg oid)
  then have "\<forall>token. msg \<noteq> AuthMsg token" using assms(3) by (auto simp: joining_def)
  then show ?thesis using P_data assms(1,2) Data by (simp add: hub_step_def)
next
  case (FromBalancer b msg)
  then have "\<forall>n cid token. msg \<noteq> B2MJoin n cid token" using assms(3) by (auto simp: joining_def)
  then show ?thesis using P_balancer assms(1,2) FromBalancer by (simp add: hub_step_def)
qed (use assms in \<open>auto simp: joining_def hub_step_def auth_timeout_def onUserModified_def onPong_def intro: disconnect\<close>)

end

text \<open>A property of the seats and the voice chat alone is kept by everything but the step of a join that enters.\<close>

locale lobby_property = lobby_core +
  assumes frame: "P h \<Longrightarrow> roomJoins h' = roomJoins h \<Longrightarrow> voiceParticipants h' = voiceParticipants h \<Longrightarrow>
      roomRelayChannels h' = roomRelayChannels h \<Longrightarrow> P h'"
begin

lemma P_pending [intro]: "P h \<Longrightarrow> P (h\<lparr>pendingRoomJoins := p\<rparr>)"
  by (rule frame) simp_all

lemma P_end_join [intro]: "P h \<Longrightarrow> P (end_join oid h)"
  by (rule frame) (simp_all add: end_join_def)

lemma P_any_client [intro]: "P h \<Longrightarrow> P (set_client oid f h)"
  by (rule frame) (simp_all add: set_client_def)

lemma P_add [intro]: "P h \<Longrightarrow> P (addClient c h)"
  by (rule frame) (simp_all add: addClient_def)

lemma P_connect [intro]: "P h \<Longrightarrow> P (onDirectConnect n cid b h)"
proof -
  assume "P h"
  then have "P (h\<lparr>nextClient := k\<rparr>)" for k by (rule frame) simp_all
  with \<open>P h\<close> show ?thesis by (auto simp: onDirectConnect_def)
qed

lemma P_auth [intro]: "P h \<Longrightarrow> ok w \<Longrightarrow> P (auth w token oid h)"
  by (auto simp: auth_def split: option.split sum.split)

lemma P_find [intro]: "P h \<Longrightarrow> ok w \<Longrightarrow> P (join_find w oid h)"
  by (auto simp: join_find_def Let_def split: option.split prod.split sum.split)

lemma P_finish [intro]: "P h \<Longrightarrow> P (join_finish w oid roid h)"
  by (erule frame) (simp_all add: join_finish_def Let_def case_prod_unfold end_join_def split: option.split)

text \<open>Only a join that enters needs an argument of its own.\<close>

lemma P_step:
  assumes "P h" "ok w"
    and "\<And>oid roid. ev = JoinStep oid \<Longrightarrow> pendingRoomJoins h oid = Some (Checking roid) \<Longrightarrow> P (join_enter w oid roid h)"
  shows "P (hub_step h (w, ev))"
proof (cases "joining ev")
  case True
  then show ?thesis
    using assms
    by (auto simp: joining_def hub_step_def onData_def onBalancerMessage_def join_step_def
        split: hub_event.splits ClientMessage.splits MsgB2M.splits option.split join_stage.split)
qed (use assms(1,2) in \<open>rule P_quiet\<close>)

text \<open>Entering, up to the seat that is taken.\<close>

lemma P_enter:
  assumes "P h" "ok w" "\<And>h' lr c. P h' \<Longrightarrow> get_loaded roid (manager h) = Some lr \<Longrightarrow> clients h oid = Some c \<Longrightarrow>
      hasRoomAccess (o_sha w) (o_now w) (lr_room lr) (cl_token c) (cl_session c) (o_grants w) \<Longrightarrow> P (take_seat oid (room_name (lr_room lr)) h')"
  shows "P (join_enter w oid roid h)"
proof (cases "clients h oid = None \<or> get_loaded roid (manager h) = None")
  case False
  then obtain c lr where c: "clients h oid = Some c" "get_loaded roid (manager h) = Some lr" by auto
  show ?thesis
  proof (cases "hasRoomAccess (o_sha w) (o_now w) (lr_room lr) (cl_token c) (cl_session c) (o_grants w)")
    case True
    have "P (take_seat oid (room_name (lr_room lr)) (send oid msg (snd (in_room w roid f (set_client oid g h)))))" for msg f g
      using assms(1,2) by (intro assms(3) [OF _ c(2,1) True]) blast
    then show ?thesis using c True assms(2) by (simp add: join_enter_def Let_def) blast
  qed (use c assms(1,2) in \<open>auto simp: join_enter_def\<close>)
qed (use assms(1) in \<open>auto simp: join_enter_def split: option.split\<close>)

end

end
