(* ===== verification/ClientSafety.thy ===== *)
theory ClientSafety
  imports ClientManager
begin

text \<open>
  What holds of the connections of \<^verbatim>\<open>server/clientmanager.ts\<close> whatever happens: the limits of the
  voice chat, who may hear a room, whom a signal reaches.
\<close>

section \<open>The limits of the voice chat\<close>

definition voice_set_ok :: "voice_conf \<Rightarrow> ClientId list \<Rightarrow> bool" where
  "voice_set_ok vc ps \<longleftrightarrow> ps \<noteq> [] \<and> distinct ps \<and> (0 < vc_max_participants vc \<longrightarrow> int (length ps) \<le> vc_max_participants vc)"

definition voice_inv :: "voice_conf \<Rightarrow> Hub \<Rightarrow> bool" where
  "voice_inv vc h \<longleftrightarrow> distinct (map fst (voiceParticipants h)) \<and> list_all (\<lambda>(n, ps). voice_set_ok vc ps) (voiceParticipants h)
     \<and> (0 < vc_max_rooms vc \<longrightarrow> int (length (voiceParticipants h)) \<le> vc_max_rooms vc)"

text \<open>The presence of one room changes to \<open>ps\<close>, which may be empty.\<close>

definition put_voice :: "string \<Rightarrow> ClientId list \<Rightarrow> Hub \<Rightarrow> Hub" where
  "put_voice n ps h = forget_empty n (h\<lparr>voiceParticipants := AList.update n ps (voiceParticipants h)\<rparr>)"

lemma map_of_update_same [simp]: "map_of (AList.update n ps al) n = Some ps"
  by (simp add: update_conv')

lemma length_update: "distinct (map fst al) \<Longrightarrow> length (AList.update n ps al) = (if n \<in> fst ` set al then length al else Suc (length al))"
  by (induction al) auto

lemma list_all_update: "list_all (\<lambda>(n, ps). Q ps) al \<Longrightarrow> Q ps \<Longrightarrow> list_all (\<lambda>(n, ps). Q ps) (AList.update n ps al)"
  by (induction al) auto

lemma delete_update: "AList.delete n (AList.update n ps al) = AList.delete n al"
  by (induction al) (auto simp: AList.delete_eq)

lemma put_voice_fields:
  "voiceParticipants (put_voice n ps h) = (if ps = [] then AList.delete n (voiceParticipants h) else AList.update n ps (voiceParticipants h))"
  "roomRelayChannels (put_voice n ps h) = (if ps = [] then (roomRelayChannels h)(n := None) else roomRelayChannels h)"
  by (simp_all add: put_voice_def forget_empty_def in_voice_def delete_update)

lemma put_voice_inv:
  assumes "voice_inv vc h" "ps \<noteq> [] \<Longrightarrow> voice_set_ok vc ps"
    and "ps \<noteq> [] \<Longrightarrow> n \<notin> fst ` set (voiceParticipants h) \<Longrightarrow> 0 < vc_max_rooms vc \<Longrightarrow>
      int (length (voiceParticipants h)) < vc_max_rooms vc"
  shows "voice_inv vc (put_voice n ps h)"
proof -
  let ?v = "voiceParticipants h"
  have v: "distinct (map fst ?v)" "list_all (\<lambda>(n, ps). voice_set_ok vc ps) ?v"
    and len: "0 < vc_max_rooms vc \<Longrightarrow> int (length ?v) \<le> vc_max_rooms vc"
    using assms(1) by (simp_all add: voice_inv_def)
  show ?thesis
  proof (cases "ps = []")
    case True
    have "length (AList.delete n ?v) \<le> length ?v" by (simp add: AList.delete_eq)
    moreover have "list_all (\<lambda>(n, ps). voice_set_ok vc ps) (AList.delete n ?v)"
      using v(2) by (simp add: list_all_iff AList.delete_eq)
    ultimately show ?thesis
      unfolding voice_inv_def put_voice_fields using True v len by (simp add: distinct_delete) linarith
  next
    case False
    have "list_all (\<lambda>(n, ps). voice_set_ok vc ps) (AList.update n ps ?v)" using list_all_update [OF v(2)] assms(2) False by blast
    moreover have "int (length (AList.update n ps ?v)) \<le> vc_max_rooms vc" if "0 < vc_max_rooms vc"
      using len [OF that] assms(3) False that by (auto simp: length_update [OF v(1)])
    ultimately show ?thesis
      unfolding voice_inv_def put_voice_fields using False v by (simp add: distinct_update)
  qed
qed

lemma voice_of:
  assumes "voice_inv vc h"
  shows "distinct (in_voice h n)" "in_voice h n \<noteq> [] \<longleftrightarrow> n \<in> fst ` set (voiceParticipants h)"
    "0 < vc_max_participants vc \<Longrightarrow> int (length (in_voice h n)) \<le> vc_max_participants vc"
proof -
  have some: "voice_set_ok vc ps" if "map_of (voiceParticipants h) n = Some ps" for ps
    using assms map_of_SomeD [OF that] by (auto simp: voice_inv_def list_all_iff)
  show "distinct (in_voice h n)" "0 < vc_max_participants vc \<Longrightarrow> int (length (in_voice h n)) \<le> vc_max_participants vc"
    using some by (cases "map_of (voiceParticipants h) n"; simp add: in_voice_def voice_set_ok_def)+
  have "map_of (voiceParticipants h) n = None \<longleftrightarrow> n \<notin> fst ` set (voiceParticipants h)" by (rule map_of_eq_None_iff)
  then show "in_voice h n \<noteq> [] \<longleftrightarrow> n \<in> fst ` set (voiceParticipants h)"
    using some by (cases "map_of (voiceParticipants h) n") (auto simp: in_voice_def voice_set_ok_def)
qed

lemma voice_frame: "voice_inv vc h \<Longrightarrow> voiceParticipants h' = voiceParticipants h \<Longrightarrow> voice_inv vc h'"
  by (simp add: voice_inv_def)

lemma publish_inv: "voice_inv vc h \<Longrightarrow> voice_inv vc (publish_voice w n h)"
  by (erule voice_frame) simp

lemma forget_inv: "voice_inv vc h \<Longrightarrow> voice_inv vc (forget_empty n h)"
  using put_voice_inv [of vc h "[]" n]
  by (auto simp: put_voice_def forget_empty_def in_voice_def delete_update voice_inv_def)

lemma voice_leave_inv:
  assumes "voice_inv vc h"
  shows "voice_inv vc (put_voice n (js_delete cid (in_voice h n)) h)"
proof (rule put_voice_inv [OF assms])
  have "length (js_delete cid (in_voice h n)) \<le> length (in_voice h n)" by (simp add: js_delete_def)
  then show "voice_set_ok vc (js_delete cid (in_voice h n))" if "js_delete cid (in_voice h n) \<noteq> []"
    using that voice_of [OF assms, of n] by (auto simp: voice_set_ok_def)
  show "int (length (voiceParticipants h)) < vc_max_rooms vc"
    if "js_delete cid (in_voice h n) \<noteq> []" "n \<notin> fst ` set (voiceParticipants h)"
    using that voice_of(2) [OF assms, of n] by (auto simp: js_delete_def)
qed

lemma other_rooms:
  assumes "voice_inv vc h" "n \<notin> fst ` set (voiceParticipants h)"
  shows "other_voice_rooms n h = length (voiceParticipants h)"
proof -
  have "filter (\<lambda>(k, ps). k \<noteq> n \<and> ps \<noteq> []) (voiceParticipants h) = voiceParticipants h"
    using assms by (force simp: filter_id_conv voice_inv_def list_all_iff voice_set_ok_def)
  then show ?thesis by (simp add: other_voice_rooms_def)
qed

lemma voice_join_inv:
  assumes "voice_inv vc h"
    and "cid \<in> set (in_voice h n) \<or> vj_allowed (decideVoiceJoin vc chs (length (in_voice h n)) (in_voice h n \<noteq> []) (other_voice_rooms n h))"
  shows "voice_inv vc (put_voice n (js_add cid (in_voice h n)) h)"
proof (rule put_voice_inv [OF assms(1)])
  show "voice_set_ok vc (js_add cid (in_voice h n))"
    using assms(2) voice_of [OF assms(1), of n] by (auto simp: voice_set_ok_def js_add_def decideVoiceJoin_def split: if_splits)
  show "int (length (voiceParticipants h)) < vc_max_rooms vc"
    if "n \<notin> fst ` set (voiceParticipants h)" "0 < vc_max_rooms vc"
    using assms(2) that voice_of(2) [OF assms(1), of n] other_rooms [OF assms(1) that(1)]
    by (auto simp: decideVoiceJoin_def split: if_splits)
qed

lemma presence_inv:
  assumes "voice_inv vc h" "o_voice w = vc"
  shows "voice_inv vc (setVoicePresence w oid c joined h)"
proof -
  have deny: "voice_inv vc (deny_voice w oid n d h')" if "voice_inv vc h'" for n d h'
    by (rule voice_frame [OF that]) (simp_all add: deny_voice_def Let_def case_prod_unfold)
  let ?n = "cl_room c"
  have leave: "voice_inv vc (publish_voice w ?n (put_voice ?n (js_delete (cl_id c) (in_voice h ?n)) h))"
    by (intro publish_inv voice_leave_inv assms(1))
  have join: "voice_inv vc (publish_voice w ?n (put_voice ?n (js_add (cl_id c) (in_voice h ?n)) h))"
    if "cl_id c \<in> set (in_voice h ?n) \<or> vj_allowed (decideVoiceJoin vc (parseTurnChannels vc) (length (in_voice h ?n))
          (in_voice h ?n \<noteq> []) (other_voice_rooms ?n h))"
    by (intro publish_inv voice_join_inv [OF assms(1) that])
  show ?thesis
    unfolding setVoicePresence_def Let_def put_voice_def [symmetric] assms(2)
    using deny [OF assms(1)] deny [OF forget_inv [OF assms(1)]] leave join assms(1) by (simp split: if_split)
qed

lemma disconnect_inv:
  assumes "voice_inv vc h"
  shows "voice_inv vc (onClientDisconnect w oid h)"
proof -
  have "voice_inv vc (removeFromVoice w c h')" if "voice_inv vc h'" for c h'
    unfolding removeFromVoice_def put_voice_def [symmetric] using that by (auto intro!: publish_inv voice_leave_inv)
  moreover have "voice_inv vc (h\<lparr>connections := cs, roomJoins := rj\<rparr>)" for cs rj using assms by (rule voice_frame) simp_all
  ultimately show ?thesis using assms by (simp add: onClientDisconnect_def split: option.split)
qed

interpretation voice_lobby: lobby_property "voice_inv vc" "\<lambda>w. o_voice w = vc" for vc
proof unfold_locales
  show "voice_inv vc h'" if "voice_inv vc h" "roomJoins h' = roomJoins h" "voiceParticipants h' = voiceParticipants h"
    "roomRelayChannels h' = roomRelayChannels h" for h h'
    using that by (simp add: voice_inv_def)
  show "voice_inv vc (h\<lparr>roomJoins := (roomJoins h)(n := None), voiceParticipants := AList.delete n (voiceParticipants h),
      roomRelayChannels := (roomRelayChannels h)(n := None)\<rparr>)" if "voice_inv vc h" for h n
    by (rule voice_frame [OF put_voice_inv [of vc h "[]" n]]) (use that in \<open>simp_all add: put_voice_fields\<close>)
qed (auto intro: presence_inv disconnect_inv voice_frame)

interpretation voice_machine: invariant_machine hub_step "voice_inv vc" "\<lambda>we. o_voice (fst we) = vc" for vc
proof
  fix h and we :: "outside \<times> hub_event"
  assume h: "voice_inv vc h" "o_voice (fst we) = vc"
  obtain w ev where we: "we = (w, ev)" by fastforce
  have "voice_inv vc (take_seat oid n h')" if "voice_inv vc h'" for oid n h'
    by (rule voice_frame [OF that]) (simp_all add: take_seat_def)
  then show "voice_inv vc (hub_step h we)"
    using h unfolding we by (intro voice_lobby.P_step voice_lobby.P_enter) auto
qed

definition no_clients :: "Manager \<Rightarrow> Hub" where
  "no_clients m =
     \<lparr>clients = Map.empty, nextClient = 0, connections = [], roomJoins = Map.empty, pendingRoomJoins = Map.empty,
      voiceParticipants = [], roomRelayChannels = Map.empty, messageBuckets = Map.empty, balancerConns = [], manager = m,
      relay = no_relay, sent = []\<rparr>"


text \<open>C26.
  The limits of the voice chat hold at every moment, whatever connects, disconnects, joins, is
  unloaded, and in whatever order: no room has more participants than configured, nobody is in the
  list of a room twice, and no more rooms talk at a time than configured.\<close>

theorem voice_limits:
  assumes "list_all (\<lambda>we. o_voice (fst we) = vc) es" and "h = foldl hub_step (no_clients m) es"
  shows "distinct (in_voice h n) \<and> (0 < vc_max_participants vc \<longrightarrow> int (length (in_voice h n)) \<le> vc_max_participants vc)
    \<and> (0 < vc_max_rooms vc \<longrightarrow> int (card {n. in_voice h n \<noteq> []}) \<le> vc_max_rooms vc)"
proof -
  have "voice_inv vc (no_clients m)" by (simp add: voice_inv_def no_clients_def)
  then have inv: "voice_inv vc h" unfolding assms(2) using assms(1) by (rule voice_machine.run_inv)
  have rooms: "{n. in_voice h n \<noteq> []} = fst ` set (voiceParticipants h)" using voice_of(2) [OF inv] by blast
  have "card {n. in_voice h n \<noteq> []} = length (voiceParticipants h)"
    using inv distinct_card [of "map fst (voiceParticipants h)"] unfolding rooms by (simp add: voice_inv_def)
  then show ?thesis using inv voice_of [OF inv, of n] by (auto simp: voice_inv_def)
qed

section \<open>Who hears a room\<close>

lemma seats_take: "seats (take_seat oid k h) n = (if n = k then seats h n @ [oid] else seats h n)"
  by (simp add: take_seat_def seats_def split: option.split)

lemma seats_disconnect: "set (seats (onClientDisconnect w oid h) n) \<subseteq> set (seats h n)"
  by (cases "roomJoins h n") (auto simp: seats_def disconnect_lists split: option.split dest: set_mp [OF set_remove1_subset])

lemma presence_frame [simp]:
  "roomJoins (setVoicePresence w oid c b h) = roomJoins h" "clients (setVoicePresence w oid c b h) = clients h"
  "nextClient (setVoicePresence w oid c b h) = nextClient h" "connections (setVoicePresence w oid c b h) = connections h"
  "pendingRoomJoins (setVoicePresence w oid c b h) = pendingRoomJoins h"
  by (simp_all add: setVoicePresence_def deny_voice_def Let_def case_prod_unfold)

definition unseated :: "nat \<Rightarrow> string \<Rightarrow> Hub \<Rightarrow> bool" where
  "unseated oid n h \<longleftrightarrow> oid \<notin> set (seats h n)"

interpretation seat_lobby: lobby_property "unseated oid n" "\<lambda>_. True" for oid n
proof unfold_locales
  show "unseated oid n (onClientDisconnect w oid' h)" if "unseated oid n h" for h w oid'
    using that seats_disconnect [of w oid' h n] by (auto simp: unseated_def)
qed (simp_all add: unseated_def seats_def)

definition entitled :: "outside \<Rightarrow> nat \<Rightarrow> string \<Rightarrow> Hub \<Rightarrow> bool" where
  "entitled w oid n h \<longleftrightarrow>
     (case (clients h oid, pendingRoomJoins h oid) of
        (Some c, Some (Checking roid)) \<Rightarrow>
          (case get_loaded roid (manager h) of
             Some lr \<Rightarrow> room_name (lr_room lr) = n
               \<and> hasRoomAccess (o_sha w) (o_now w) (lr_room lr) (cl_token c) (cl_session c) (o_grants w)
           | None \<Rightarrow> False)
      | _ \<Rightarrow> False)"

lemma seat_gained:
  assumes "unseated oid n h" "\<not> unseated oid n (hub_step h (w, ev))"
  shows "ev = JoinStep oid \<and> entitled w oid n h"
proof (rule ccontr)
  assume no: "\<not> ?thesis"
  have "unseated oid n (hub_step h (w, ev))"
  proof (rule seat_lobby.P_step [OF assms(1) TrueI])
    fix oid' roid
    assume j: "ev = JoinStep oid'" "pendingRoomJoins h oid' = Some (Checking roid)"
    show "unseated oid n (join_enter w oid' roid h)"
    proof (rule seat_lobby.P_enter [OF assms(1) TrueI])
      fix h' lr c
      assume "unseated oid n h'" "get_loaded roid (manager h) = Some lr" "clients h oid' = Some c"
        "hasRoomAccess (o_sha w) (o_now w) (lr_room lr) (cl_token c) (cl_session c) (o_grants w)"
      then show "unseated oid n (take_seat oid' (room_name (lr_room lr)) h')"
        using no j by (auto simp: unseated_def seats_take entitled_def)
    qed
  qed
  with assms(2) show False by blast
qed

text \<open>C12.
  Whoever is sent what happens in a room was let into that room: a seat in the list that a
  room's messages go to is only ever taken by the step that has just checked the access of that very
  connection, with its token and session, to that very room, and found it granted.\<close>

theorem subscribers_had_access:
  assumes "oid \<in> set (seats (foldl hub_step (no_clients m) es) n)"
  shows "\<exists>ds w rest. es = ds @ (w, JoinStep oid) # rest \<and> entitled w oid n (foldl hub_step (no_clients m) ds)"
  using assms
proof (induction es rule: rev_induct)
  case Nil
  then show ?case by (simp add: seats_def no_clients_def)
next
  case (snoc we es)
  let ?h = "foldl hub_step (no_clients m) es"
  obtain w ev where we: "we = (w, ev)" by fastforce
  show ?case
  proof (cases "unseated oid n ?h")
    case True
    then have "ev = JoinStep oid \<and> entitled w oid n ?h"
      using snoc.prems by (intro seat_gained) (simp_all add: we unseated_def)
    then show ?thesis using we by blast
  next
    case False
    then obtain ds w' rest where "es = ds @ (w', JoinStep oid) # rest" "entitled w' oid n (foldl hub_step (no_clients m) ds)"
      using snoc.IH by (auto simp: unseated_def)
    then show ?thesis by auto
  qed
qed

section \<open>One seat for each connection\<close>

text \<open>
  The identities are fresh, a connection is listed once and has at most one seat in all rooms, and
  only one with a token has a seat or is joining; while it is looking for its room or waiting for the access
  it has no seat yet, the connections in \<open>X\<close> apart.
\<close>

definition has_token :: "Hub \<Rightarrow> nat \<Rightarrow> bool" where
  "has_token h oid \<longleftrightarrow> (case clients h oid of Some c \<Rightarrow> cl_token c \<noteq> None | None \<Rightarrow> False)"

definition undecided :: "join_stage option \<Rightarrow> bool" where
  "undecided p \<longleftrightarrow> (case p of Some Finding \<Rightarrow> True | Some (Checking _) \<Rightarrow> True | _ \<Rightarrow> False)"

definition seat_inv :: "nat set \<Rightarrow> Hub \<Rightarrow> bool" where
  "seat_inv X h \<longleftrightarrow>
     (\<forall>oid. clients h oid \<noteq> None \<longrightarrow> oid < nextClient h) \<and> (\<forall>oid \<in> set (connections h). clients h oid \<noteq> None)
     \<and> distinct (connections h)
     \<and> (\<forall>n. distinct (seats h n)) \<and> (\<forall>n k oid. oid \<in> set (seats h n) \<longrightarrow> oid \<in> set (seats h k) \<longrightarrow> n = k)
     \<and> (\<forall>oid. pendingRoomJoins h oid \<noteq> None \<longrightarrow> has_token h oid)
     \<and> (\<forall>n. \<forall>oid \<in> set (seats h n). has_token h oid \<and> (undecided (pendingRoomJoins h oid) \<longrightarrow> oid \<in> X))"

lemma steady_token: "steady h h' \<Longrightarrow> has_token h oid \<Longrightarrow> has_token h' oid"
  by (auto simp: steady_def has_token_def keeps_token_def rel_option_iff split: option.splits dest: spec [of _ oid])

lemma steady_known: "steady h h' \<Longrightarrow> clients h' oid = None \<longleftrightarrow> clients h oid = None"
  by (auto simp: steady_def keeps_token_def rel_option_iff split: option.splits dest: spec [of _ oid])

lemma seat_inv_shrink:
  assumes "seat_inv X h" "steady (h\<lparr>connections := connections h'\<rparr>) h'" "\<And>n. set (seats h' n) \<subseteq> set (seats h n)" "\<And>n. distinct (seats h' n)"
    and "set (connections h') \<subseteq> set (connections h)" "distinct (connections h')"
  shows "seat_inv X h'"
proof -
  have same: "nextClient h' = nextClient h" "pendingRoomJoins h' = pendingRoomJoins h" using assms(2) by (simp_all add: steady_def)
  have token: "has_token h' oid" if "has_token h oid" for oid
    using steady_token [OF assms(2), of oid] that by (simp add: has_token_def)
  have known: "clients h' oid = None \<longleftrightarrow> clients h oid = None" for oid using steady_known [OF assms(2), of oid] by simp
  show ?thesis
    using assms(1,3,4,5,6) token unfolding seat_inv_def same known by (intro conjI; meson subset_iff)
qed

interpretation seat_core: lobby_core "seat_inv X" "\<lambda>_. True" for X
proof
  fix h h' and w :: outside and n :: string and oid c b
  assume inv: "seat_inv X h"
  have d: "distinct (connections h)" "\<And>n. distinct (seats h n)" using inv by (auto simp: seat_inv_def)
  show "seat_inv X h'" if "steady h h'" "roomJoins h' = roomJoins h"
    using inv by (rule seat_inv_shrink) (use that d in \<open>auto simp: steady_def seats_def\<close>)
  show "seat_inv X (setVoicePresence w oid c b h)"
    using inv by (rule seat_inv_shrink) (use d in \<open>auto simp: steady_def seats_def\<close>)
  show "seat_inv X (h\<lparr>roomJoins := (roomJoins h)(n := None), voiceParticipants := AList.delete n (voiceParticipants h),
      roomRelayChannels := (roomRelayChannels h)(n := None)\<rparr>)"
    using inv by (rule seat_inv_shrink) (use d in \<open>auto simp: steady_def seats_def split: if_splits\<close>)
  show "seat_inv X (onClientDisconnect w oid h)"
  proof (rule seat_inv_shrink [OF inv])
    show "distinct (seats (onClientDisconnect w oid h) n)" for n
      using d(2) [of n] by (cases "roomJoins h n") (auto simp: seats_def disconnect_lists split: option.split)
    show "steady (h\<lparr>connections := connections (onClientDisconnect w oid h)\<rparr>) (onClientDisconnect w oid h)"
      by (simp add: steady_def onClientDisconnect_def split: option.split)
  qed (use d seats_disconnect in \<open>auto simp: disconnect_lists dest: set_mp [OF set_remove1_subset]\<close>)
qed

lemma known_fresh: "seat_inv X h \<Longrightarrow> clients h (nextClient h) = None"
  by (auto simp: seat_inv_def)

lemma seat_add:
  assumes "seat_inv X h"
  shows "seat_inv X (addClient c h)"
proof -
  have token: "has_token (addClient c h) oid" if "has_token h oid" for oid
    using that known_fresh [OF assms] by (auto simp: has_token_def addClient_def split: option.splits)
  have "clients (addClient c h) oid = None \<longleftrightarrow> oid \<noteq> nextClient h \<and> clients h oid = None" for oid by (simp add: addClient_def)
  moreover have "nextClient h \<notin> set (connections h)" using assms known_fresh [OF assms] by (auto simp: seat_inv_def)
  ultimately show ?thesis
    using assms token unfolding seat_inv_def by (auto simp: addClient_def seats_def less_Suc_eq)
qed

lemma seat_connect: "seat_inv X h \<Longrightarrow> seat_inv X (onDirectConnect n cid b h)"
proof -
  assume inv: "seat_inv X h"
  have "seat_inv X (h\<lparr>nextClient := Suc (nextClient h)\<rparr>)"
    using inv by (auto simp: seat_inv_def seats_def has_token_def less_Suc_eq)
  with inv show ?thesis by (auto simp: onDirectConnect_def intro: seat_add)
qed

lemma seat_pending:
  assumes "seat_inv X h" "p \<noteq> None \<Longrightarrow> has_token h oid" "undecided p \<Longrightarrow> \<forall>n. oid \<notin> set (seats h n)"
  shows "seat_inv (X - {oid}) (h\<lparr>pendingRoomJoins := (pendingRoomJoins h)(oid := p)\<rparr>)"
  using assms by (auto simp: seat_inv_def seats_def has_token_def)

lemma seat_end: "seat_inv {} h \<Longrightarrow> seat_inv {} (end_join oid h)"
  using seat_pending [of "{}" h None oid] by (simp add: end_join_def undecided_def)

lemma seat_free:
  assumes "seat_inv {} h" "\<not> has_token h oid \<or> undecided (pendingRoomJoins h oid)"
  shows "oid \<notin> set (seats h n)"
  using assms by (auto simp: seat_inv_def)

lemma seat_auth:
  assumes "seat_inv {} h"
  shows "seat_inv {} (auth w token oid h)"
proof (cases "clients h oid")
  case (Some c)
  have token: "seat_inv {} (set_client oid (\<lambda>c. c\<lparr>cl_token := Some token\<rparr>) h)"
    using assms by (rule seat_core.P_set_client) simp
  have "seat_inv {} ((set_client oid f h)\<lparr>pendingRoomJoins := (pendingRoomJoins h)(oid \<mapsto> Finding)\<rparr>)"
    if f: "f = (\<lambda>c. c\<lparr>cl_token := Some token, cl_session := s, joinStatus := Joined\<rparr>)" "cl_token c = None" for f s
  proof -
    have inv: "seat_inv {} (set_client oid f h)" using assms by (rule seat_core.P_set_client) (simp add: f)
    have "\<not> has_token h oid" using Some f(2) by (simp add: has_token_def)
    then have "oid \<notin> set (seats (set_client oid f h) n)" for n
      using seat_free [OF assms] by (simp add: seats_def set_client_def)
    moreover have "has_token (set_client oid f h) oid" using Some f by (simp add: has_token_def set_client_def)
    ultimately show ?thesis using seat_pending [OF inv, of "Some Finding" oid] by (simp add: set_client_def)
  qed
  then show ?thesis using Some token assms by (auto simp: auth_def split: sum.split)
qed (use assms in \<open>simp add: auth_def\<close>)

lemma seat_find:
  assumes "seat_inv {} h" "pendingRoomJoins h oid = Some Finding"
  shows "seat_inv {} (join_find w oid h)"
proof -
  have m: "seat_inv {} (h\<lparr>manager := m\<rparr>)" for m using assms(1) by blast
  have "has_token h oid" using assms by (auto simp: seat_inv_def)
  then have "seat_inv {} (h\<lparr>manager := m, pendingRoomJoins := (pendingRoomJoins h)(oid \<mapsto> Checking roid)\<rparr>)" for m roid
    using seat_pending [OF m [of m], of "Some (Checking roid)" oid] seat_free [OF assms(1), of oid] assms(2)
    by (simp add: has_token_def seats_def undecided_def)
  then show ?thesis using assms(1) m seat_end seat_core.P_kick
    by (auto simp: join_find_def Let_def split: option.split prod.split sum.split)
qed

lemma seat_taken:
  assumes "seat_inv {} h" "undecided (pendingRoomJoins h oid)"
  shows "seat_inv {oid} (take_seat oid n h)"
proof -
  have free: "oid \<notin> set (seats h k)" for k using seat_free [OF assms(1)] assms(2) by blast
  have "has_token h oid" using assms by (auto simp: seat_inv_def undecided_def split: option.splits)
  moreover have "has_token (take_seat oid n h) x = has_token h x" for x by (simp add: has_token_def take_seat_def)
  ultimately show ?thesis
    using assms(1) free unfolding seat_inv_def by (auto simp: seats_take) (auto simp: take_seat_def)
qed

text \<open>What happens in a room does not change how far the joins are.\<close>

interpretation pending_core: lobby_core "\<lambda>h. pendingRoomJoins h = p" "\<lambda>_. True" for p
  by unfold_locales (auto simp: steady_def onClientDisconnect_def split: option.split)

lemma seat_enter:
  assumes "seat_inv {} h" "pendingRoomJoins h oid = Some (Checking roid)"
  shows "seat_inv {} (join_enter w oid roid h)"
proof (cases "clients h oid = None \<or> get_loaded roid (manager h) = None")
  case False
  then obtain c lr where c: "clients h oid = Some c" "get_loaded roid (manager h) = Some lr" by auto
  have denied: "seat_inv {} (kick w code oid (end_join oid h))" for code
    using seat_core.P_kick [OF seat_end [OF assms(1)]] by simp
  have "seat_inv {} (h3\<lparr>pendingRoomJoins := (pendingRoomJoins h3)(oid \<mapsto> Entering roid)\<rparr>)"
    if h1: "h1 = send oid msg (snd (in_room w roid f (set_client oid (\<lambda>_. c\<lparr>cl_room := n\<rparr>) h)))"
      and h3: "h3 = snd (makeRoomRequest w c1 req (take_seat oid n h1))" for h1 h3 f n msg c1 req
  proof -
    have 1: "seat_inv {} h1" unfolding h1 using assms(1) c(1) by (intro seat_core.P_send seat_core.P_in_room seat_core.P_updates) auto
    have "pendingRoomJoins h1 = pendingRoomJoins h"
      unfolding h1 by (intro pending_core.P_send pending_core.P_in_room) (simp_all add: set_client_def)
    then have 3: "seat_inv {oid} h3"
      unfolding h3 using seat_taken [OF 1] assms(2) by (intro seat_core.P_request) (auto simp: undecided_def)
    have "pendingRoomJoins h3 = pendingRoomJoins (take_seat oid n h1)" unfolding h3 by (rule pending_core.P_request) simp_all
    then have "pendingRoomJoins h3 oid \<noteq> None"
      using \<open>pendingRoomJoins h1 = pendingRoomJoins h\<close> assms(2) by (simp add: take_seat_def)
    then have "has_token h3 oid" using 3 by (auto simp: seat_inv_def)
    then show ?thesis using seat_pending [OF 3, of "Some (Entering roid)" oid] by (simp add: undecided_def)
  qed
  then show ?thesis using c denied by (simp add: join_enter_def Let_def)
qed (use seat_end [OF assms(1)] in \<open>auto simp: join_enter_def split: option.split\<close>)

lemma seat_finish:
  assumes "seat_inv {} h"
  shows "seat_inv {} (join_finish w oid roid h)"
proof -
  have build: "seat_inv {} h2" if "buildVoiceMessage w n sel d h1 = (msg, h2)" "seat_inv {} h1" for n sel d msg h1 h2
    using seat_core.P_build [OF that(2), of w n sel d] that(1) by simp
  show ?thesis
    using seat_end [OF assms, of oid] by (auto simp: join_finish_def Let_def split: option.split prod.split dest!: build)
qed

interpretation seat_machine: invariant_machine hub_step "seat_inv {}" "\<lambda>_. True"
proof
  fix h and we :: "outside \<times> hub_event"
  assume inv: "seat_inv {} h"
  obtain w ev where we: "we = (w, ev)" by fastforce
  show "seat_inv {} (hub_step h we)"
  proof (cases "joining ev")
    case True
    have "seat_inv {} (join_step w oid h)" for oid
      using inv seat_find seat_enter seat_finish by (auto simp: join_step_def split: option.split join_stage.split)
    then show ?thesis
      using True inv seat_connect seat_auth seat_add
      by (auto simp: we joining_def hub_step_def onData_def onBalancerMessage_def
          split: hub_event.splits ClientMessage.splits MsgB2M.splits)
  qed (use inv in \<open>simp add: we seat_core.P_quiet\<close>)
qed

lemma seat_reachable: "seat_inv {} (foldl hub_step (no_clients m) es)"
  by (rule seat_machine.run_inv) (auto simp: seat_inv_def no_clients_def seats_def list_all_iff)

section \<open>Whom a message reaches\<close>

lemma count_map_inj: "inj f \<Longrightarrow> count_list (map f xs) (f x) = count_list xs x"
  by (induction xs) (auto dest: injD)

lemma count_distinct: "distinct xs \<Longrightarrow> count_list xs x = (if x \<in> set xs then 1 else 0)"
  by (induction xs) auto

lemma count_outside: "x \<notin> range f \<Longrightarrow> count_list (map f xs) x = 0"
  by (induction xs) auto

text \<open>C13.
  A message of a room reaches everybody who is in it, exactly once, and nobody else: whatever has
  happened before, every socket with a seat in the room is sent one copy, every balancer that is up
  and holds a client of the room is sent one copy for all of them, and nothing else is sent.\<close>

theorem broadcast_exactly_once:
  assumes "h = foldl hub_step (no_clients m) es"
  shows "\<exists>ds. sent (broadcast n msg h) = sent h @ ds
    \<and> (\<forall>oid. count_list ds (ToSocket oid msg) = (if oid \<in> set (seats h n) \<and> balancer_of h oid = None then 1 else 0))
    \<and> (\<forall>b. count_list ds (ToBalancer b n None msg) =
          (if b \<in> set (balancerConns h) \<and> (\<exists>oid \<in> set (seats h n). balancer_of h oid = Some b) then 1 else 0))
    \<and> set ds \<subseteq> range (\<lambda>oid. ToSocket oid msg) \<union> range (\<lambda>b. ToBalancer b n None msg)"
proof -
  let ?socks = "filter (\<lambda>oid. balancer_of h oid = None) (seats h n)"
  let ?bals = "filter (\<lambda>b. b \<in> set (balancerConns h)) (js_Set (List.map_filter (balancer_of h) (seats h n)))"
  let ?ds = "map (\<lambda>oid. ToSocket oid msg) ?socks @ map (\<lambda>b. ToBalancer b n None msg) ?bals"
  have "sent (broadcast n msg h) = sent h @ ?ds"
    by (cases "roomJoins h n") (simp_all add: broadcast_def seats_def emit_def js_Set_def List.map_filter_def)
  moreover have "distinct (seats h n)" using seat_reachable [of m es] unfolding assms by (simp add: seat_inv_def)
  then have "count_list ?ds (ToSocket oid msg) = (if oid \<in> set (seats h n) \<and> balancer_of h oid = None then 1 else 0)" for oid
    by (auto simp: count_map_inj [where f = "\<lambda>oid. ToSocket oid msg"] inj_on_def count_distinct count_outside image_iff)
  moreover have "count_list ?ds (ToBalancer b n None msg) =
      (if b \<in> set (balancerConns h) \<and> (\<exists>oid \<in> set (seats h n). balancer_of h oid = Some b) then 1 else 0)" for b
    by (auto simp: count_map_inj [where f = "\<lambda>b. ToBalancer b n None msg"] inj_on_def count_distinct count_outside image_iff List.map_filter_def)
  moreover have "set ?ds \<subseteq> range (\<lambda>oid. ToSocket oid msg) \<union> range (\<lambda>b. ToBalancer b n None msg)" by auto
  ultimately show ?thesis by blast
qed

end
