(* ===== verification/ClientGuards.thy ===== *)
theory ClientGuards
  imports ClientSafety
begin

text \<open>
  What a connection can and cannot cause: messages that are turned away, signals between two
  participants, dead sockets, the unloading of a room; and where the code of
  \<^verbatim>\<open>server/clientmanager.ts\<close> lets something through that it means to stop.
\<close>

section \<open>Messages that are turned away\<close>

text \<open>No message, one before the authentication, one that only the server may make, or one the schema of its request refuses.\<close>

definition turned_away :: "Client \<Rightarrow> ClientMessage \<Rightarrow> bool" where
  "turned_away c msg \<longleftrightarrow>
     (case msg of
        Malformed \<Rightarrow> True
      | AuthMsg _ \<Rightarrow> False
      | Reauthenticate _ \<Rightarrow> False
      | Req req \<Rightarrow> joinStatus c = WaitingForAuth \<or> \<not> CLIENT_ROOM_REQUEST_TYPES req \<or> request_error req \<noteq> None
      | ReqUnknown \<Rightarrow> True
      | _ \<Rightarrow> joinStatus c = WaitingForAuth)"

definition only_answers :: "nat \<Rightarrow> Hub \<Rightarrow> Hub \<Rightarrow> bool" where
  "only_answers oid h h' \<longleftrightarrow>
     (\<exists>b d. h' = emit [d] (h\<lparr>messageBuckets := b\<rparr>)
        \<and> (d = CloseSocket oid UNKNOWN \<or> d = CloseSocket oid MISSING_TOKEN \<or> (\<exists>err. d = ToSocket oid (ErrorMsg err))))"

lemma only_answersI:
  assumes "clients h oid = Some c" "cl_link c = DirectLink"
  shows "only_answers oid h (kick w UNKNOWN oid (h\<lparr>messageBuckets := b\<rparr>))"
    "only_answers oid h (kick w MISSING_TOKEN oid (h\<lparr>messageBuckets := b\<rparr>))"
    "only_answers oid h (send oid (ErrorMsg err) (h\<lparr>messageBuckets := b\<rparr>))"
    "only_answers oid h (kick w UNKNOWN oid h)" "only_answers oid h (kick w MISSING_TOKEN oid h)"
proof -
  have k: "only_answers oid h (kick w code oid (h\<lparr>messageBuckets := b\<rparr>))" if "code = UNKNOWN \<or> code = MISSING_TOKEN" for code b
    unfolding only_answers_def using assms that by (auto simp: kick_def)
  show "only_answers oid h (kick w UNKNOWN oid (h\<lparr>messageBuckets := b\<rparr>))"
    "only_answers oid h (kick w MISSING_TOKEN oid (h\<lparr>messageBuckets := b\<rparr>))"
    "only_answers oid h (kick w UNKNOWN oid h)" "only_answers oid h (kick w MISSING_TOKEN oid h)"
    using k [of _ b] k [of _ "messageBuckets h"] by simp_all
  show "only_answers oid h (send oid (ErrorMsg err) (h\<lparr>messageBuckets := b\<rparr>))"
    unfolding only_answers_def using assms by (auto simp: send_def)
qed

lemma bad_request_answered:
  assumes "clients h oid = Some c" "cl_link c = DirectLink"
    and "msg = ReqUnknown \<or> (\<exists>req. msg = Req req \<and> (\<not> CLIENT_ROOM_REQUEST_TYPES req \<or> request_error req \<noteq> None))"
  shows "only_answers oid h (onClientMessage w oid msg h)"
proof -
  obtain ok b where b: "consumeMessageBudget (o_now w) (is_chat msg) (messageBuckets h oid) = (ok, b)" by fastforce
  let ?h = "h\<lparr>messageBuckets := (messageBuckets h)(oid \<mapsto> b)\<rparr>"
  have "dispatch w oid c msg ?h = (None, kick w UNKNOWN oid ?h) \<or> (\<exists>err. dispatch w oid c msg ?h = (Some err, ?h))"
    using assms(3) by (auto simp: dispatch_def)
  then show ?thesis
    using only_answersI(1-3) [OF assms(1,2), where b = "(messageBuckets h)(oid \<mapsto> b)"] assms(1) b
    by (auto simp: onClientMessage_def Let_def split: hub_error.split)
qed


section \<open>Signals\<close>

definition signal_to :: "delivery \<Rightarrow> nat option \<Rightarrow> ClientId \<Rightarrow> string \<Rightarrow> ClientId \<Rightarrow> string \<Rightarrow> bool" where
  "signal_to d target to roomName from payload \<longleftrightarrow>
     (case d of
        ToSocket oid msg \<Rightarrow> target = Some oid \<and> msg = SignalMsg from payload
      | ToBalancer b n cid msg \<Rightarrow> n = roomName \<and> cid = Some to \<and> msg = SignalMsg from payload
      | _ \<Rightarrow> False)"

lemma getClient_known:
  assumes "getClient cid h = Some target"
  shows "target \<in> set (connections h) \<and> (\<exists>c :: Client. clients h target = Some c \<and> cl_id c = cid)"
  using find_mem [of "\<lambda>oid. map_option cl_id (clients h oid) = Some cid" "connections h" target] assms by (auto simp: getClient_def)

lemma relay_cases:
  "relayVoiceSignal oid c to payload h = h
   \<or> (\<exists>t. relayVoiceSignal oid c to payload h = send t (SignalMsg (cl_id c) payload) h \<and> getClient to h = Some t
        \<and> cl_id c \<in> set (in_voice h (cl_room c)) \<and> to \<in> set (in_voice h (cl_room c)) \<and> map_option cl_room (clients h t) = Some (cl_room c))"
  by (cases "getClient to h") (simp_all add: relayVoiceSignal_def)

text \<open>A signal cannot be used to reach anybody but a fellow participant: whatever a connection asks to
  be relayed, at most one thing is sent; what is sent is either the error that the sender is over its
  budget, sent to the sender, or the signal itself with the sender's true id, to an open
  connection with the id that was asked for, in the sender's room, both of them in the voice
  chat of that room. Nothing else changes but the budget.\<close>

lemma voice_signals_confined:
  assumes "clients h oid = Some c"
  shows "\<exists>ds b. onClientMessage w oid (Signal to payload) h = emit ds (h\<lparr>messageBuckets := b\<rparr>) \<and> length ds \<le> 1
    \<and> (\<forall>d \<in> set ds.
         emit [d] h = send oid (ErrorMsg TooManyRequests) h
         \<or> cl_id c \<in> set (in_voice h (cl_room c)) \<and> to \<in> set (in_voice h (cl_room c))
           \<and> (\<exists>target \<in> set (connections h). \<exists>c' :: Client. clients h target = Some c' \<and> cl_id c' = to \<and> cl_room c' = cl_room c
                \<and> signal_to d (Some target) to (cl_room c) (cl_id c) payload))"
proof -
  obtain ok b where b: "consumeMessageBudget (o_now w) False (messageBuckets h oid) = (ok, b)" by fastforce
  let ?h = "h\<lparr>messageBuckets := (messageBuckets h)(oid \<mapsto> b)\<rparr>"
  have same: "in_voice ?h n = in_voice h n" "getClient to ?h = getClient to h" "clients ?h = clients h" for n
    by (simp_all add: in_voice_def getClient_def)
  have no: "h' = emit [] h'" for h' by (simp add: emit_def)
  have send: "\<exists>d. send t m ?h = emit [d] ?h \<and> emit [d] h = send t m h" if "clients h t \<noteq> None" for t m
    using that by (auto simp: send_def split: client_link.split)
  consider "\<not> ok" | (quiet) "ok" "relayVoiceSignal oid c to payload ?h = ?h"
    | (relay) t where "ok" "relayVoiceSignal oid c to payload ?h = send t (SignalMsg (cl_id c) payload) ?h" "getClient to h = Some t"
        "cl_id c \<in> set (in_voice h (cl_room c))" "to \<in> set (in_voice h (cl_room c))" "map_option cl_room (clients h t) = Some (cl_room c)"
    using relay_cases [of oid c to payload ?h] unfolding same by blast
  then show ?thesis
  proof cases
    case 1
    obtain d where d: "send oid (ErrorMsg TooManyRequests) ?h = emit [d] ?h" "emit [d] h = send oid (ErrorMsg TooManyRequests) h"
      using send assms by blast
    have "onClientMessage w oid (Signal to payload) h = emit [d] ?h"
      using 1 assms b d(1) by (simp add: onClientMessage_def is_chat_def)
    then show ?thesis using d(2) by (intro exI [of _ "[d]"] exI [of _ "(messageBuckets h)(oid \<mapsto> b)"]) simp
  next
    case quiet
    then have "onClientMessage w oid (Signal to payload) h = emit [] ?h"
      using assms b by (simp add: onClientMessage_def is_chat_def dispatch_def no [symmetric])
    then show ?thesis by (intro exI [of _ "[]"] exI [of _ "(messageBuckets h)(oid \<mapsto> b)"]) simp
  next
    case (relay t)
    obtain c' :: Client where c': "clients h t = Some c'" "cl_id c' = to" "t \<in> set (connections h)" using getClient_known [OF relay(3)] by blast
    let ?d = "case cl_link c' of DirectLink \<Rightarrow> ToSocket t (SignalMsg (cl_id c) payload)
      | BalancerLink k \<Rightarrow> ToBalancer k (cl_room c') (Some (cl_id c')) (SignalMsg (cl_id c) payload)"
    have "onClientMessage w oid (Signal to payload) h = emit [?d] ?h"
      using assms b relay(1,2) c' by (simp add: onClientMessage_def is_chat_def dispatch_def send_def split: client_link.split)
    moreover have "signal_to ?d (Some t) to (cl_room c) (cl_id c) payload"
      using c' relay(6) by (simp add: signal_to_def split: client_link.split)
    ultimately show ?thesis
      using relay(4-6) c' by (intro exI [of _ "[?d]"] exI [of _ "(messageBuckets h)(oid \<mapsto> b)"]) auto
  qed
qed

section \<open>Dead sockets\<close>

definition sweep_out :: "Client option \<Rightarrow> nat \<Rightarrow> delivery list" where
  "sweep_out oc oid =
     (case oc of
        None \<Rightarrow> []
      | Some c \<Rightarrow> if cl_link c \<noteq> DirectLink then [] else if isAlive c then [PingSocket oid] else [Terminate oid])"

definition probed :: "Client option \<Rightarrow> Client option" where
  "probed oc = map_option (\<lambda>c. if cl_link c = DirectLink then c\<lparr>isAlive := False\<rparr> else c) oc"

lemma sweep_client_does:
  "sent (sweep_client h oid) = sent h @ sweep_out (clients h oid) oid"
  "clients (sweep_client h oid) = (clients h)(oid := probed (clients h oid))" "connections (sweep_client h oid) = connections h"
  by (auto simp: sweep_client_def sweep_out_def probed_def emit_def set_client_def split: option.split)

lemma sweep_fold:
  assumes "distinct oids"
  shows "sent (foldl sweep_client h oids) = sent h @ concat (map (\<lambda>oid. sweep_out (clients h oid) oid) oids)
    \<and> clients (foldl sweep_client h oids) = (\<lambda>oid. if oid \<in> set oids then probed (clients h oid) else clients h oid)
    \<and> connections (foldl sweep_client h oids) = connections h"
  using assms
proof (induction oids arbitrary: h)
  case (Cons oid oids)
  let ?h = "sweep_client h oid"
  have same: "map (\<lambda>x. sweep_out (clients ?h x) x) oids = map (\<lambda>x. sweep_out (clients h x) x) oids"
    using Cons.prems by (auto simp: sweep_client_does)
  have "sent (foldl sweep_client ?h oids) = sent ?h @ concat (map (\<lambda>x. sweep_out (clients ?h x) x) oids)"
    and rest: "clients (foldl sweep_client ?h oids) = (\<lambda>x. if x \<in> set oids then probed (clients ?h x) else clients ?h x)"
      "connections (foldl sweep_client ?h oids) = connections ?h"
    using Cons.IH [of ?h] Cons.prems by simp_all
  then show ?case unfolding same using rest Cons.prems by (auto simp: sweep_client_does)
qed simp

lemma swept:
  assumes "distinct (connections h)" "oid \<in> set (connections h)"
  shows "Terminate oid \<in> set (drop (length (sent h)) (sent (sweepDeadClients h)))
      \<longleftrightarrow> Terminate oid \<in> set (sweep_out (clients h oid) oid)"
    "clients (sweepDeadClients h) oid = probed (clients h oid)" "connections (sweepDeadClients h) = connections h"
proof -
  have "Terminate oid \<in> set (sweep_out oc x) \<Longrightarrow> x = oid" for oc x
    by (auto simp: sweep_out_def split: option.splits if_splits)
  then show "Terminate oid \<in> set (drop (length (sent h)) (sent (sweepDeadClients h)))
      \<longleftrightarrow> Terminate oid \<in> set (sweep_out (clients h oid) oid)"
    using sweep_fold [OF assms(1), of h] assms(2) by (auto simp: sweepDeadClients_def)
qed (use sweep_fold [OF assms(1), of h] assms(2) in \<open>simp_all add: sweepDeadClients_def\<close>)

text \<open>A socket that stays silent is dropped and one that answers is not: after a sweep, every open
  socket of this server is terminated by the next sweep unless its answer to the ping came in
  between, whatever happened before.\<close>

lemma silent_socket_terminated:
  assumes "h = foldl hub_step (no_clients m) es" "oid \<in> set (connections h)" "balancer_of h oid = None"
    and "h1 = sweepDeadClients h"
  shows "Terminate oid \<in> set (drop (length (sent h1)) (sent (sweepDeadClients h1)))
    \<and> Terminate oid \<notin> set (drop (length (sent (onPong oid h1))) (sent (sweepDeadClients (onPong oid h1))))"
proof -
  have inv: "seat_inv {} h" unfolding assms(1) by (rule seat_reachable)
  then obtain c where c: "clients h oid = Some c" and d: "distinct (connections h)" using assms(2) by (auto simp: seat_inv_def)
  have link: "cl_link c = DirectLink" using assms(3) c by (simp add: balancer_of_def split: client_link.splits)
  have h1: "connections h1 = connections h" "clients h1 oid = probed (clients h oid)"
    using swept [OF d assms(2)] by (simp_all add: assms(4))
  let ?p = "onPong oid h1"
  have p: "connections ?p = connections h" "clients ?p oid = Some (c\<lparr>isAlive := True\<rparr>)"
    using h1 c link by (simp_all add: onPong_def set_client_def probed_def)
  show ?thesis
    using swept(1) [of h1 oid] swept(1) [of ?p oid] d assms(2) h1 p c link by (simp add: sweep_out_def probed_def)
qed

section \<open>Unloading a room\<close>

lemma kick_socket:
  assumes "clients h oid \<noteq> None" "balancer_of h oid = None"
  shows "kick w code oid h = emit [CloseSocket oid code] h"
  using assms by (auto simp: kick_def balancer_of_def split: option.splits client_link.splits)

lemma token_known: "has_token h oid \<Longrightarrow> clients h oid \<noteq> None"
  by (auto simp: has_token_def split: option.splits)

lemma emit_emit [simp]: "emit es (emit ds h) = emit (ds @ es) h"
  by (simp add: emit_def)

lemma emit_nil [simp]: "emit [] h = h"
  by (simp add: emit_def)

lemma kick_seats_sockets:
  assumes "\<And>oid. oid \<in> set (seats h n) \<Longrightarrow> clients h oid \<noteq> None \<and> balancer_of h oid = None"
  shows "kick_seats w code n i h = emit (map (\<lambda>oid. CloseSocket oid code) (drop i (seats h n))) h"
  using assms
proof (induction w code n i h rule: kick_seats.induct)
  case (1 w code n i h)
  show ?case
  proof (cases "i < length (seats h n)")
    case True
    let ?oid = "seats h n ! i"
    have k: "kick w code ?oid h = emit [CloseSocket ?oid code] h" using kick_socket "1.prems" True by simp
    have e: "seats (emit ds h) n = seats h n" "balancer_of (emit ds h) = balancer_of h" for ds
      by (simp_all add: seats_def balancer_of_def fun_eq_iff)
    show ?thesis
      using "1.IH" [OF True] "1.prems" True Cons_nth_drop_Suc [OF True] by (subst kick_seats.simps) (simp add: k e flip: Cons_nth_drop_Suc)
  qed (subst kick_seats.simps, simp)
qed

text \<open>When a room is unloaded, every socket in it is closed exactly once, with the code that says why, in
  the order in which they joined, and afterwards nobody has a seat or talks in it: the loop reaches all
  of them, provided no client of a balancer is among them.\<close>

lemma unload_closes_every_socket:
  assumes "h = foldl hub_step (no_clients m) es" "\<And>oid. oid \<in> set (seats h n) \<Longrightarrow> balancer_of h oid = None"
  shows "sent (onRoomUnload w n reason h) = sent h @ map (\<lambda>oid. CloseSocket oid (roomUnloadReasons reason)) (seats h n)
    \<and> distinct (seats h n) \<and> seats (onRoomUnload w n reason h) n = [] \<and> in_voice (onRoomUnload w n reason h) n = []"
proof -
  have inv: "seat_inv {} h" unfolding assms(1) by (rule seat_reachable)
  then have "has_token h oid" if "oid \<in> set (seats h n)" for oid using that by (simp add: seat_inv_def)
  then have known: "clients h oid \<noteq> None" if "oid \<in> set (seats h n)" for oid using that token_known by blast
  have "kick_seats w code n 0 h = emit (map (\<lambda>oid. CloseSocket oid code) (drop 0 (seats h n))) h" for code
    by (rule kick_seats_sockets) (use known assms(2) in blast)
  moreover have "distinct (seats h n)" using inv by (simp add: seat_inv_def)
  moreover have "map_of (AList.delete n al) n = None" for al :: "(string \<times> ClientId list) list" by (simp add: delete_conv')
  ultimately show ?thesis by (simp add: onRoomUnload_def seats_def in_voice_def emit_def)
qed

text \<open>With clients of a balancer the loop loses its place: of two, the second one stays connected, without a seat.\<close>

lemma unload_skips_balancer_client:
  assumes "seats h n = [a, b]" "a \<noteq> b" "{a, b} \<subseteq> set (connections h)"
    and "clients h a = Some ca" "cl_link ca = BalancerLink k" "cl_room ca = n"
  shows "b \<in> set (connections (onRoomUnload w n reason h)) \<and> seats (onRoomUnload w n reason h) n = []"
proof -
  have rj: "roomJoins h n = Some [a, b]" using assms(1) by (auto simp: seats_def split: option.splits)
  have k: "kick w code a h = onClientDisconnect w a (emit [KickVia k (cl_id ca) code] h)" for code
    using assms(4,5) by (simp add: kick_def)
  have "seats (kick w code a h) n = [b]" for code
    using assms rj by (simp add: k seats_def disconnect_lists)
  then have "kick_seats w code n 0 h = kick w code a h" for code
    using assms(1) by (subst kick_seats.simps) (simp, subst kick_seats.simps, simp)
  then show ?thesis
    using assms by (simp add: onRoomUnload_def Let_def seats_def k disconnect_lists)
qed

section \<open>A seat for nobody\<close>

text \<open>A seat that no connection is behind any more is not given back by whatever happens in the rooms.\<close>

definition ghost :: "nat \<Rightarrow> string \<Rightarrow> Hub \<Rightarrow> bool" where
  "ghost oid n h \<longleftrightarrow> oid \<in> set (seats h n) \<and> oid \<notin> set (connections h)"

interpretation ghost_requests: lobby_requests "ghost oid n" "\<lambda>_. True" for oid n
proof
  show "ghost oid n (onClientDisconnect w oid' h)" if "ghost oid n h" for w oid' h
    using that in_set_remove1 [of oid oid'] by (cases "roomJoins h n"; cases "oid = oid'")
      (auto simp: ghost_def seats_def disconnect_lists split: option.split dest: set_mp [OF set_remove1_subset])
qed (auto simp: ghost_def steady_def seats_def)

interpretation away_requests: lobby_requests "\<lambda>h. oid \<notin> set (connections h)" "\<lambda>_. True" for oid
  by unfold_locales (auto simp: steady_def disconnect_lists dest: set_mp [OF set_remove1_subset])

text \<open>
  A connection that closes while its access is being checked is given a seat afterwards, and the
  disconnect, which is over, does not take it away again: the list of the room keeps an entry that nobody is behind.
\<close>

lemma disconnect_during_check_leaves_seat:
  assumes "pendingRoomJoins h oid = Some (Checking roid)" "clients h oid = Some c" "cl_link c = DirectLink"
    and "distinct (connections h)" "get_loaded roid (manager h) = Some lr"
    and "hasRoomAccess (o_sha w') (o_now w') (lr_room lr) (cl_token c) (cl_session c) (o_grants w')"
  shows "ghost oid (room_name (lr_room lr)) (hub_step (hub_step h (w, Closed oid)) (w', JoinStep oid))"
proof -
  let ?h = "hub_step h (w, Closed oid)" and ?n = "room_name (lr_room lr)"
  have h: "?h = onClientDisconnect w oid h" using assms(2,3) by (simp add: hub_step_def balancer_of_def)
  have same: "clients ?h = clients h" "pendingRoomJoins ?h = pendingRoomJoins h" "manager ?h = manager h"
    unfolding h by (simp_all add: onClientDisconnect_def split: option.split)
  have gone: "oid \<notin> set (connections ?h)" unfolding h using assms(2,4) by (simp add: disconnect_lists)
  have "ghost oid ?n (take_seat oid ?n (send oid msg (snd (in_room w' roid f (set_client oid g ?h)))))" for msg f g
  proof -
    have "oid \<notin> set (connections (snd (in_room w' roid f (set_client oid g ?h))))"
      by (rule away_requests.P_in_room) (use gone in \<open>simp_all add: set_client_def\<close>)
    then show ?thesis by (simp add: ghost_def seats_take) (simp add: take_seat_def)
  qed
  then have "ghost oid ?n (snd (makeRoomRequest w' c1 req (take_seat oid ?n (send oid msg (snd (in_room w' roid f (set_client oid g ?h)))))))"
    for c1 req msg f g by (rule ghost_requests.P_request) simp
  moreover have "ghost oid ?n (h'\<lparr>pendingRoomJoins := p\<rparr>) = ghost oid ?n h'" for h' p by (simp add: ghost_def seats_def)
  ultimately show ?thesis
    using assms(1,2,5,6) by (simp add: hub_step_def [of ?h] join_step_def join_enter_def same Let_def)
qed

section \<open>A visitor of a room\<close>

definition sample_outside :: "int \<Rightarrow> outside" where
  "sample_outside t =
     \<lparr>o_world = sample_world t, o_voice = sample_conf, o_net = sample_net 0 True, o_month = ''2026-11'', o_up = (\<lambda>_. True),
      o_counters = Map.empty, o_sha = sample_sha, o_grants = Map.empty\<rparr>"

definition lobby_room :: "string option \<Rightarrow> Room" where
  "lobby_room hash = sample_room\<lparr>room_name := ''lobby'', passwordHash := hash\<rparr>"

definition lobby_manager :: "string option \<Rightarrow> Manager" where
  "lobby_manager hash = (no_rooms [])\<lparr>rooms := [\<lparr>lr_oid = 0, lr_room = lobby_room hash, lr_epoch = 1, lr_savePending = False\<rparr>], nextOid := 1\<rparr>"

text \<open>The connection is made, authenticated, and has found its room.\<close>

definition arriving :: "(outside \<times> hub_event) list" where
  "arriving = [(sample_outside 1000, Connect ''lobby'' ''carol'' False), (sample_outside 1000, Data (AuthMsg ''carol-token'') 0),
     (sample_outside 1000, JoinStep 0)]"

definition carol :: Client where
  "carol = (new_Client ''lobby'' ''carol'' DirectLink False)
     \<lparr>cl_token := Some ''carol-token'', cl_session := Some (SessionAnonymous ''anon''), joinStatus := Joined\<rparr>"

definition arrived :: "string option \<Rightarrow> Hub" where
  "arrived hash = (no_clients (lobby_manager hash))
     \<lparr>clients := [0 \<mapsto> carol], nextClient := 1, connections := [0], pendingRoomJoins := [0 \<mapsto> Checking 0]\<rparr>"

lemma arrives: "foldl hub_step (no_clients (lobby_manager hash)) arriving = arrived hash"
proof -
  have "ROOM_NAME_REGEX ''lobby''" by (simp add: ROOM_NAME_REGEX_def room_name_char_def)
  then show ?thesis
    by (simp add: arriving_def hub_step_def onDirectConnect_def addClient_def no_clients_def onData_def auth_def balancer_of_def
        new_Client_def sample_outside_def sample_world_def sample_env_def set_client_def join_step_def join_find_def getRoom_def
        getRoom_find_def lobby_manager_def no_rooms_def named_def lobby_room_def arrived_def carol_def)
qed

text \<open>A wrong password: the socket is told to close, and the join is over.\<close>

lemma locked_out:
  "hub_step (arrived (Some ''hash'')) (sample_outside 1000, JoinStep 0) =
     (arrived (Some ''hash''))\<lparr>pendingRoomJoins := Map.empty, sent := [CloseSocket 0 ROOM_PASSWORD_REQUIRED]\<rparr>"
  by (simp add: hub_step_def join_step_def join_enter_def arrived_def no_clients_def lobby_manager_def no_rooms_def get_loaded_def
      hasRoomAccess_def carol_def new_Client_def lobby_room_def sample_outside_def key_exists_def end_join_def kick_def emit_def)

text \<open>What the room does with a request of somebody who is not one of its users.\<close>

lemma sample_session [simp]: "e_getSessionInfo (sample_env t) token = Inr (SessionAnonymous ''anon'')"
  by (simp add: sample_env_def)

lemma pause_commands: "commands (pause t gate r) = commands r"
  by (simp add: pause_def pausePlaybackClock_def endTemporaryPlaybackSpeed_def cancelPlaybackPreparation_def clearPlaybackStartTimer_def
      set_isPlaying_def flushPlaybackPosition_def set_playbackPosition_def set_playbackSpeed_def markDirty_def Let_def split: option.split)

lemma event_commands: "commands (publishRoomEvent req cx a k r) = commands r" "isPlaying (publishRoomEvent req cx a k r) = isPlaying r"
  by (simp_all add: publishRoomEvent_def record_event_def publish_def Let_def split: option.split sum.split)

lemma stranger_pauses:
  obtains r where "processUnauthorizedRequest (sample_env 2000) (PlaybackRequest False)
      \<lparr>au_token = ''carol-token'', au_clientId = Some ''carol''\<rparr> ((lobby_room hash)\<lparr>outbox := [], commands := []\<rparr>) = (None, r)"
    and "\<not> isPlaying r" "commands r = []"
proof -
  let ?r = "(lobby_room hash)\<lparr>outbox := [], commands := []\<rparr>"
  have "getUser ?r ''carol'' = None" "grants ?r = default_Grants" by (simp_all add: getUser_def lobby_room_def)
  moreover have "check default_Grants UnregisteredUser ''playback.play-pause'' = None" by simp
  moreover have "\<not> isPlaying (pause t False r)" for t r by (simp add: pause_def)
  ultimately show thesis
    using that by (simp del: check_None add: event_commands pause_commands processUnauthorizedRequest_def deriveRequestContext_def bind_result_def processRequest_def process_basic_def
        authorize_def getRoleFromSession_def guard_def playback_def seq_def)
qed

lemma broadcast_nobody: "roomJoins h n = None \<Longrightarrow> broadcast n msg h = h"
  by (simp add: broadcast_def)

text \<open>
  The visitor who is locked out is still heard: until the close handshake is over, the room carries
  out what the socket asks, since neither \<^verbatim>\<open>onClientMessage\<close> nor the room asks whether
  the connection was let in.
\<close>

lemma locked_out_still_heard:
  assumes "h = foldl hub_step (no_clients (lobby_manager (Some ''hash'')))
      (arriving @ [(sample_outside 1000, JoinStep 0), (sample_outside 2000, Data (Req (PlaybackRequest False)) 0)])"
  shows "CloseSocket 0 ROOM_PASSWORD_REQUIRED \<in> set (sent h) \<and> seats h ''lobby'' = []
    \<and> (\<exists>lr :: Loaded. get_loaded 0 (manager h) = Some lr \<and> \<not> isPlaying (lr_room lr))"
proof -
  obtain r where r: "processUnauthorizedRequest (sample_env 2000) (PlaybackRequest False)
      \<lparr>au_token = ''carol-token'', au_clientId = Some ''carol''\<rparr> ((lobby_room (Some ''hash''))\<lparr>outbox := [], commands := []\<rparr>) = (None, r)"
    "\<not> isPlaying r" "commands r = []" by (rule stranger_pauses)
  have quiet: "deliver_room w r h = h" if "roomJoins h = Map.empty" for w h
  proof -
    have "foldl (\<lambda>h msg. broadcast (room_name r) (RoomMsg msg) h) h ms = h" for ms
      using that by (induction ms) (simp_all add: broadcast_nobody)
    then show ?thesis using r(3) by (simp add: deliver_room_def)
  qed
  let ?h = "(arrived (Some ''hash''))\<lparr>pendingRoomJoins := Map.empty, sent := [CloseSocket 0 ROOM_PASSWORD_REQUIRED]\<rparr>"
  obtain b where b: "consumeMessageBudget 2000 False None = (True, b)"
    by (simp add: consumeMessageBudget_def takeToken_def new_Buckets_def MESSAGE_BUCKET_CAPACITY_def)
  have "h = hub_step ?h (sample_outside 2000, Data (Req (PlaybackRequest False)) 0)"
    unfolding assms by (simp add: arrives locked_out)
  also have "\<dots> = onClientMessage (sample_outside 2000) 0 (Req (PlaybackRequest False)) ?h"
    by (simp add: hub_step_def balancer_of_def arrived_def carol_def new_Client_def onData_def)
  finally show ?thesis
    using r(1,2)
    by (simp add: onClientMessage_def arrived_def is_chat_def dispatch_def CLIENT_ROOM_REQUEST_TYPES_def request_error_def
        makeRoomRequest_def carol_def new_Client_def sample_outside_def sample_world_def getRoom_find_def lobby_manager_def named_def
        in_room_def get_loaded_def no_clients_def Let_def quiet b seats_def set_loaded_def lobby_room_def)
qed

section \<open>A visitor who gets in\<close>

text \<open>A join gives the client manager no commands, so nobody is kicked during one.\<close>

lemma pauseClock_commands [simp]: "commands (pausePlaybackClock t r) = commands r"
  by (simp add: pausePlaybackClock_def endTemporaryPlaybackSpeed_def set_isPlaying_def flushPlaybackPosition_def
      set_playbackPosition_def set_playbackSpeed_def markDirty_def Let_def split: option.split)

lemma dirty_commands [simp]: "commands (markDirty p r) = commands r"
  by (simp add: markDirty_def)

lemma hold_commands [simp]: "commands (holdEmptyPlaybackForJoin t b r) = commands r"
  by (simp add: holdEmptyPlaybackForJoin_def)

lemma resume_commands [simp]: "commands (resume_or_prepare e reconnect role r) = commands r"
  by (simp add: resume_or_prepare_def prepareEmptyRoomPlayback_def play_def set_isPlaying_def cancelPlaybackPreparation_def
      clearPlaybackStartTimer_def Let_def split: option.split list.split)

lemma noteJoin_commands [simp]: "commands (snd (noteJoin token cid r)) = commands r"
  by (simp add: noteJoin_def split: option.split)

lemma sync_client_commands [simp]: "commands (snd (sync_client cid r)) = commands r"
  by (simp add: sync_client_def syncUser_def publish_def split: sum.split)

lemma join_commands [simp]: "commands (snd (joinRoom e info reconnect c r)) = commands r"
  by (simp add: joinRoom_def event_commands case_prod_unfold Let_def split: option.split)

lemma request_join_commands: "commands (snd (processUnauthorizedRequest e (JoinRequest info reconnect) au r)) = commands r"
  by (simp add: processUnauthorizedRequest_def processRequest_def process_basic_def authorize_def guard_def seq_def Let_def split: sum.split)

lemma deliver_quiet:
  assumes "commands r = []"
  shows "roomJoins (deliver_room w r h) = roomJoins h" "connections (deliver_room w r h) = connections h" "clients (deliver_room w r h) = clients h"
proof -
  have "roomJoins h' = roomJoins h \<and> connections h' = connections h \<and> clients h' = clients h"
    if "h' = foldl (\<lambda>h msg. broadcast (room_name r) (RoomMsg msg) h) h ms" for h' ms
    using that by (induction ms arbitrary: h) auto
  with assms show "roomJoins (deliver_room w r h) = roomJoins h" "connections (deliver_room w r h) = connections h"
    "clients (deliver_room w r h) = clients h" by (simp_all add: deliver_room_def)
qed

lemma in_room_quiet:
  assumes "\<And>r. commands (snd (f r)) = commands r"
  shows "roomJoins (snd (in_room w roid f h)) = roomJoins h" "connections (snd (in_room w roid f h)) = connections h"
    "clients (snd (in_room w roid f h)) = clients h"
  by (auto simp: in_room_def assms deliver_quiet Let_def case_prod_unfold split: option.split)

lemma join_request_quiet:
  "roomJoins (snd (makeRoomRequest w c (JoinRequest info reconnect) h)) = roomJoins h"
  "connections (snd (makeRoomRequest w c (JoinRequest info reconnect) h)) = connections h"
  "clients (snd (makeRoomRequest w c (JoinRequest info reconnect) h)) = clients h"
  by (simp_all add: makeRoomRequest_def in_room_quiet request_join_commands case_prod_unfold Let_def split: option.split)

lemma join_enters:
  assumes "clients h oid = Some c" "get_loaded roid (manager h) = Some lr"
    and "hasRoomAccess (o_sha w) (o_now w) (lr_room lr) (cl_token c) (cl_session c) (o_grants w)"
  shows "roomJoins (join_enter w oid roid h) = (roomJoins h)(room_name (lr_room lr) \<mapsto> seats h (room_name (lr_room lr)) @ [oid])"
    "connections (join_enter w oid roid h) = connections h"
    "clients (join_enter w oid roid h) = (clients h)(oid \<mapsto> c\<lparr>cl_room := room_name (lr_room lr)\<rparr>)"
  using assms
  by (simp_all add: join_enter_def Let_def join_request_quiet in_room_quiet take_seat_def set_client_def seats_def)

text \<open>C30.
  Whoever may enter gets in: the step that finds the access granted gives the connection a seat at
  the end of the room's list, under the name the room itself has, and leaves every other seat and every
  connection as it was, whatever happens in the room because of the join.\<close>

theorem access_gives_seat:
  assumes "pendingRoomJoins h oid = Some (Checking roid)" "clients h oid = Some c" "get_loaded roid (manager h) = Some lr"
    and "hasRoomAccess (o_sha w) (o_now w) (lr_room lr) (cl_token c) (cl_session c) (o_grants w)"
    and "h' = hub_step h (w, JoinStep oid)"
  shows "seats h' n = (if n = room_name (lr_room lr) then seats h n @ [oid] else seats h n)
    \<and> connections h' = connections h \<and> clients h' = (clients h)(oid \<mapsto> c\<lparr>cl_room := room_name (lr_room lr)\<rparr>)"
proof -
  have "h' = join_enter w oid roid h" using assms(1,5) by (simp add: hub_step_def join_step_def)
  then show ?thesis using join_enters [OF assms(2-4)] by (simp add: seats_def)
qed

section \<open>The properties on the sample\<close>

lemma lobby_loaded: "get_loaded 0 (manager (arrived hash)) = Some \<lparr>lr_oid = 0, lr_room = lobby_room hash, lr_epoch = 1, lr_savePending = False\<rparr>"
  by (simp add: arrived_def no_clients_def lobby_manager_def get_loaded_def)

lemma arrived_fields:
  "clients (arrived hash) 0 = Some carol" "connections (arrived hash) = [0]" "pendingRoomJoins (arrived hash) 0 = Some (Checking 0)"
  "roomJoins (arrived hash) = Map.empty" "sent (arrived hash) = []" "cl_link carol = DirectLink" "joinStatus carol = Joined"
  "cl_room carol = ''lobby''" "cl_id carol = ''carol''"
  by (simp_all add: arrived_def no_clients_def carol_def new_Client_def)

lemma open_lobby: "hasRoomAccess sha t (lobby_room None) token session store" "room_name (lobby_room hash) = ''lobby''"
  by (simp_all add: hasRoomAccess_def lobby_room_def)

definition entering :: "(outside \<times> hub_event) list" where
  "entering = arriving @ [(sample_outside 1000, JoinStep 0)]"

definition inside :: Hub where
  "inside = foldl hub_step (no_clients (lobby_manager None)) entering"

lemma inside_fields:
  "seats inside ''lobby'' = [0]" "connections inside = [0]" "clients inside 0 = Some carol" "balancer_of inside 0 = None"
proof -
  have i: "inside = join_enter (sample_outside 1000) 0 0 (arrived None)"
    by (simp add: inside_def entering_def arrives hub_step_def join_step_def arrived_fields)
  note e = join_enters [OF arrived_fields(1) lobby_loaded, of "sample_outside 1000", unfolded Loaded.simps, OF open_lobby(1)]
  show "seats inside ''lobby'' = [0]" "connections inside = [0]" "clients inside 0 = Some carol"
    unfolding i by (simp_all add: seats_def e open_lobby arrived_fields carol_def new_Client_def)
  then show "balancer_of inside 0 = None" by (simp add: balancer_of_def arrived_fields)
qed

theorem access_gives_seat_witness:
  "seats (hub_step (arrived None) (sample_outside 1000, JoinStep 0)) ''lobby'' = [0]"
  using access_gives_seat [of "arrived None" 0 0 carol, OF arrived_fields(3,1) lobby_loaded _ refl, of "sample_outside 1000" "''lobby''"]
  by (simp add: open_lobby seats_def arrived_fields)

theorem subscribers_had_access_witness:
  "\<exists>ds w rest. entering = ds @ (w, JoinStep 0) # rest \<and> entitled w 0 ''lobby'' (foldl hub_step (no_clients (lobby_manager None)) ds)"
  by (rule subscribers_had_access) (use inside_fields in \<open>simp add: inside_def\<close>)

theorem broadcast_exactly_once_witness:
  "\<exists>ds. sent (broadcast ''lobby'' (Announcement ''hello'') inside) = sent inside @ ds \<and> count_list ds (ToSocket 0 (Announcement ''hello'')) = 1"
  using broadcast_exactly_once [OF inside_def, of "''lobby''" "Announcement ''hello''"] inside_fields by auto


theorem voice_limits_witness:
  "in_voice (foldl hub_step (no_clients (lobby_manager None)) (arriving @ [(sample_outside 2000, Data (VoiceJoin True) 0)])) ''lobby'' = [''carol'']
   \<and> int (length (in_voice (foldl hub_step (no_clients (lobby_manager None)) (arriving @ [(sample_outside 2000, Data (VoiceJoin True) 0)])) ''lobby'')) \<le> 4"
proof -
  have conf: "list_all (\<lambda>we. o_voice (fst we) = sample_conf) (arriving @ [(sample_outside 2000, Data (VoiceJoin True) 0)])"
    by (simp add: arriving_def sample_outside_def)
  obtain b where b: "consumeMessageBudget 2000 False None = (True, b)"
    by (simp add: consumeMessageBudget_def takeToken_def new_Buckets_def MESSAGE_BUCKET_CAPACITY_def)
  have "in_voice (hub_step (arrived None) (sample_outside 2000, Data (VoiceJoin True) 0)) ''lobby'' = [''carol'']"
    using b by (simp add: hub_step_def balancer_of_def onData_def onClientMessage_def arrived_fields is_chat_def dispatch_def
        setVoicePresence_def isVoiceEnabled_def decideVoiceJoin_def in_voice_def sample_outside_def sample_world_def sample_conf_def
        arrived_def no_clients_def forget_empty_def js_add_def other_voice_rooms_def Let_def)
  then show ?thesis
    using voice_limits [OF conf refl, of "lobby_manager None" "''lobby''"] by (simp add: sample_conf_def arrives)
qed

end
