(* ===== verification/PlaybackSync.thy ===== *)
theory PlaybackSync
  imports Models
begin

text \<open>
  \<^verbatim>\<open>client/src/util/playback-sync.ts\<close>: how a browser keeps its player on the clock of the room. A
  small drift is recovered by playing a little faster or slower (a bend), a large one by a
  seek. The engine is a record; what it asks of the page (the time, the state of the player, the rate
  of the room) is a \<open>reading\<close>, constant between two awaits. A tick is cut where it waits for the
  position of the player, and where it waits for the player to carry something out; a rejected change of
  the rate is an event of its own. What the engine tells the player is appended to \<open>sy_out\<close>.
\<close>

section \<open>State\<close>

record PlaybackSyncState =
  ps_source :: "nat option"
  ps_player :: "nat option"
  ps_ready :: bool
  ps_error :: bool
  ps_blocked :: bool
  ps_seeking :: bool
  ps_recovering :: bool
  ps_buffering :: bool
  ps_bufferAhead :: "rat option"
  ps_live :: bool
  ps_playing :: bool
  ps_temporarySpeed :: bool
  ps_position :: js_number

text \<open>\<^verbatim>\<open>PlaybackSyncOptions\<close> at one instant; \<open>rd_sync\<close> is the position of a player that reports it at once.\<close>

record reading =
  rd_now :: int
  rd_state :: PlaybackSyncState
  rd_allowRateBend :: "bool option"
  rd_base :: "js_number option"
  rd_setter :: bool
  rd_sync :: "js_number option"

datatype sync_out = SeekTo rat string int | SetRate rat

record position_request =
  rq_id :: nat
  rq_generation :: nat
  rq_source :: "nat option"
  rq_player :: "nat option"

record PlaybackSync =
  sy_source :: "nat option"
  sy_player :: "nat option"
  sy_generation :: nat
  sy_lastSeekAt :: "int option"
  sy_bufferedSinceLastSeek :: bool
  sy_initialSyncUntil :: int
  sy_pendingSeek :: bool
  sy_pendingSeekToleratesDrift :: bool
  sy_pendingSeekReason :: string
  sy_inFlight :: "nat option"
  sy_nextRequest :: nat
  sy_waiting :: "position_request list"
  sy_tolerant :: "string list"
  sy_disposed :: bool
  sy_bendStartedAt :: "int option"
  sy_bendBase :: "rat option"
  sy_bendOffset :: "rat option"
  sy_appliedRate :: "rat option"
  sy_bendPeak :: rat
  sy_bendDeadlineAt :: rat
  sy_rateWrites :: nat
  sy_deadlineSeeks :: nat
  sy_maxAbsDrift :: js_number
  sy_out :: "sync_out list"

definition createPlaybackSync :: PlaybackSync where
  "createPlaybackSync =
     \<lparr>sy_source = None, sy_player = None, sy_generation = 0, sy_lastSeekAt = None, sy_bufferedSinceLastSeek = False,
      sy_initialSyncUntil = 0, sy_pendingSeek = False, sy_pendingSeekToleratesDrift = False, sy_pendingSeekReason = [],
      sy_inFlight = None, sy_nextRequest = 0, sy_waiting = [], sy_tolerant = [], sy_disposed = False, sy_bendStartedAt = None,
      sy_bendBase = None, sy_bendOffset = None, sy_appliedRate = None, sy_bendPeak = 0, sy_bendDeadlineAt = 0, sy_rateWrites = 0,
      sy_deadlineSeeks = 0, sy_maxAbsDrift = Fin 0, sy_out = []\<rparr>"

definition PLAYBACK_INITIAL_SYNC_COOLDOWN_MS :: int where "PLAYBACK_INITIAL_SYNC_COOLDOWN_MS = 8000"
definition PLAYBACK_INITIAL_MAX_DRIFT_SECONDS :: rat where "PLAYBACK_INITIAL_MAX_DRIFT_SECONDS = 10"
definition PLAYBACK_MIN_SEEK_BUFFER_SECONDS :: rat where "PLAYBACK_MIN_SEEK_BUFFER_SECONDS = 3 / 2"
definition BEND_START :: rat where "BEND_START = 3 / 10"
definition BEND_STOP :: rat where "BEND_STOP = 15 / 100"
definition MAX_BEND :: rat where "MAX_BEND = 8 / 100"
definition HARD_SEEK_DRIFT :: rat where "HARD_SEEK_DRIFT = 3"
definition CATCHUP_FULL :: rat where "CATCHUP_FULL = 1"
definition CATCHUP_MAX_BEND :: rat where "CATCHUP_MAX_BEND = 15 / 100"
definition BEND_DEADLINE_MS :: rat where "BEND_DEADLINE_MS = 8000"
definition MAX_BEND_DEADLINE_MS :: rat where "MAX_BEND_DEADLINE_MS = 30000"
definition RATE_WRITE_THRESHOLD :: rat where "RATE_WRITE_THRESHOLD = 2 / 1000"

lemmas bend_constants = BEND_START_def BEND_STOP_def MAX_BEND_def HARD_SEEK_DRIFT_def CATCHUP_FULL_def CATCHUP_MAX_BEND_def
  BEND_DEADLINE_MS_def MAX_BEND_DEADLINE_MS_def RATE_WRITE_THRESHOLD_def

section \<open>Bending the rate\<close>

definition bendCeiling :: "rat \<Rightarrow> rat" where
  "bendCeiling magnitude =
     (if magnitude \<le> CATCHUP_FULL then MAX_BEND
      else MAX_BEND + (min magnitude HARD_SEEK_DRIFT - CATCHUP_FULL) / (HARD_SEEK_DRIFT - CATCHUP_FULL) * (CATCHUP_MAX_BEND - MAX_BEND))"

definition bendDeadlineMs :: "rat \<Rightarrow> rat \<Rightarrow> rat" where
  "bendDeadlineMs magnitude ceil = min MAX_BEND_DEADLINE_MS (max BEND_DEADLINE_MS (magnitude / ceil * 1000 * (125 / 100)))"

definition getBendBase :: "reading \<Rightarrow> rat option" where
  "getBendBase rd =
     (if rd_allowRateBend rd = Some False then None
      else case rd_base rd of
          Some (Fin b) \<Rightarrow> if rd_setter rd \<and> 0 < b then Some b else None
        | _ \<Rightarrow> None)"

definition writeRate :: "reading \<Rightarrow> rat \<Rightarrow> PlaybackSync \<Rightarrow> PlaybackSync" where
  "writeRate rd rate s =
     (if (case sy_appliedRate s of None \<Rightarrow> False | Some a \<Rightarrow> \<bar>rate - a\<bar> \<le> RATE_WRITE_THRESHOLD) then s
      else s\<lparr>sy_appliedRate := Some rate, sy_rateWrites := Suc (sy_rateWrites s),
             sy_out := sy_out s @ (if rd_setter rd then [SetRate rate] else [])\<rparr>)"

text \<open>The rejection of an earlier write.\<close>

definition rate_failed :: "nat \<Rightarrow> PlaybackSync \<Rightarrow> PlaybackSync" where
  "rate_failed g s = (if \<not> sy_disposed s \<and> g = sy_generation s then s\<lparr>sy_appliedRate := None\<rparr> else s)"

definition cancelBend :: "reading \<Rightarrow> PlaybackSync \<Rightarrow> PlaybackSync" where
  "cancelBend rd s =
     (let base = (case getBendBase rd of Some b \<Rightarrow> Some b | None \<Rightarrow> sy_bendBase s);
          s1 = (if sy_bendStartedAt s \<noteq> None then (case base of Some b \<Rightarrow> writeRate rd b s | None \<Rightarrow> s) else s)
      in s1\<lparr>sy_bendStartedAt := None, sy_bendBase := None, sy_bendOffset := None, sy_bendPeak := 0, sy_bendDeadlineAt := 0,
            sy_appliedRate := None\<rparr>)"

definition invalidateRate :: "reading \<Rightarrow> PlaybackSync \<Rightarrow> PlaybackSync" where
  "invalidateRate rd s = cancelBend rd (s\<lparr>sy_generation := Suc (sy_generation s), sy_inFlight := None\<rparr>)"

definition resetMetrics :: "PlaybackSync \<Rightarrow> PlaybackSync" where
  "resetMetrics s = s\<lparr>sy_rateWrites := 0, sy_deadlineSeeks := 0, sy_maxAbsDrift := Fin 0\<rparr>"

definition reset_sync :: "reading \<Rightarrow> PlaybackSync \<Rightarrow> PlaybackSync" where
  "reset_sync rd s =
     resetMetrics ((invalidateRate rd s)
       \<lparr>sy_lastSeekAt := None, sy_bufferedSinceLastSeek := False, sy_initialSyncUntil := rd_now rd + PLAYBACK_INITIAL_SYNC_COOLDOWN_MS,
        sy_pendingSeek := True, sy_pendingSeekToleratesDrift := False, sy_pendingSeekReason := ''reset'', sy_inFlight := None\<rparr>)"

section \<open>Seeking\<close>

definition canSeek :: "PlaybackSyncState \<Rightarrow> PlaybackSync \<Rightarrow> bool" where
  "canSeek st s \<longleftrightarrow> \<not> sy_disposed s \<and> ps_source st \<noteq> None \<and> ps_player st \<noteq> None \<and> ps_ready st \<and> \<not> ps_error st
     \<and> (case ps_position st of Fin p \<Rightarrow> 0 \<le> p | _ \<Rightarrow> False)"

definition canObserve :: "PlaybackSyncState \<Rightarrow> PlaybackSync \<Rightarrow> bool" where
  "canObserve st s \<longleftrightarrow> canSeek st s \<and> \<not> ps_blocked st \<and> \<not> ps_seeking st \<and> \<not> ps_recovering st \<and> \<not> ps_buffering st"

definition hasSeekBuffer :: "PlaybackSyncState \<Rightarrow> bool" where
  "hasSeekBuffer st = (case ps_bufferAhead st of None \<Rightarrow> True | Some b \<Rightarrow> PLAYBACK_MIN_SEEK_BUFFER_SECONDS \<le> b)"

definition canSeekNow :: "reading \<Rightarrow> PlaybackSync \<Rightarrow> bool" where
  "canSeekNow rd s \<longleftrightarrow> canObserve (rd_state rd) s
     \<and> (case sy_lastSeekAt s of None \<Rightarrow> True | Some t \<Rightarrow> (if sy_bufferedSinceLastSeek s then 8000 else 2000) \<le> rd_now rd - t)"

text \<open>The room's position, which \<open>canSeek\<close> has found to be a number.\<close>

definition room_pos :: "PlaybackSyncState \<Rightarrow> rat" where
  "room_pos st = (case ps_position st of Fin p \<Rightarrow> p | _ \<Rightarrow> 0)"

definition seek_sync :: "reading \<Rightarrow> string \<Rightarrow> PlaybackSync \<Rightarrow> PlaybackSync" where
  "seek_sync rd reason s =
     (let s1 = cancelBend rd (if reason = ''bend-deadline'' then s\<lparr>sy_deadlineSeeks := Suc (sy_deadlineSeeks s)\<rparr> else s)
      in s1\<lparr>sy_lastSeekAt := Some (rd_now rd), sy_bufferedSinceLastSeek := ps_buffering (rd_state rd),
            sy_out := sy_out s1 @ [SeekTo (room_pos (rd_state rd)) reason (rd_now rd)]\<rparr>)"

text \<open>\<^verbatim>\<open>Math.max\<close> of a finite or unbounded peak with a new magnitude.\<close>

fun js_peak :: "js_number \<Rightarrow> js_number \<Rightarrow> js_number" where
  "js_peak (Fin a) (Fin b) = Fin (max a b)"
| "js_peak NaN _ = NaN"
| "js_peak _ NaN = NaN"
| "js_peak _ _ = PosInf"

definition distance :: "PlaybackSyncState \<Rightarrow> js_number \<Rightarrow> js_number" where
  "distance st position = (case position of Fin p \<Rightarrow> Fin \<bar>room_pos st - p\<bar> | NaN \<Rightarrow> NaN | _ \<Rightarrow> PosInf)"

text \<open>\<^verbatim>\<open>seekIfDriftIsLarge\<close> once the position is known.\<close>

definition seekIfDriftIsLarge :: "reading \<Rightarrow> string \<Rightarrow> js_number \<Rightarrow> PlaybackSync \<Rightarrow> PlaybackSync" where
  "seekIfDriftIsLarge rd reason position s =
     (let latest = rd_state rd in
      if sy_disposed s \<or> ps_live latest \<or> sy_source s \<noteq> ps_source latest \<or> sy_player s \<noteq> ps_player latest \<or> \<not> canSeek latest s then s
      else
        (let s1 = s\<lparr>sy_maxAbsDrift := js_peak (sy_maxAbsDrift s) (distance latest position)\<rparr>;
             canBend = ps_playing latest \<and> \<not> ps_temporarySpeed latest \<and> getBendBase rd \<noteq> None;
             limit = (if canBend then HARD_SEEK_DRIFT else BEND_START)
         in if (case position of Fin p \<Rightarrow> limit < \<bar>room_pos latest - p\<bar> | _ \<Rightarrow> True) \<and> hasSeekBuffer latest
            then seek_sync rd reason s1 else s1))"

section \<open>The tick\<close>

text \<open>Another source or player starts over.\<close>

definition follow_source :: "reading \<Rightarrow> PlaybackSync \<Rightarrow> PlaybackSync" where
  "follow_source rd s =
     (let st = rd_state rd in
      if sy_source s \<noteq> ps_source st \<or> sy_player s \<noteq> ps_player st
      then reset_sync rd (s\<lparr>sy_source := ps_source st, sy_player := ps_player st\<rparr>) else s)"

text \<open>No bend outlives the conditions under which a drift can be observed.\<close>

definition settle_bend :: "reading \<Rightarrow> PlaybackSync \<Rightarrow> PlaybackSync" where
  "settle_bend rd s =
     (let st = rd_state rd; s1 = s\<lparr>sy_bufferedSinceLastSeek := sy_bufferedSinceLastSeek s \<or> ps_buffering st\<rparr>
      in if \<not> canObserve st s1 \<or> \<not> ps_playing st \<or> ps_temporarySpeed st then cancelBend rd s1 else s1)"

definition run_pending :: "reading \<Rightarrow> PlaybackSync \<Rightarrow> PlaybackSync" where
  "run_pending rd s =
     (let reason = sy_pendingSeekReason s; s1 = s\<lparr>sy_pendingSeek := False, sy_pendingSeekToleratesDrift := False\<rparr>
      in if \<not> sy_pendingSeekToleratesDrift s then seek_sync rd reason s1
         else (case rd_sync rd of
                 Some position \<Rightarrow> seekIfDriftIsLarge rd reason position s1
               | None \<Rightarrow> s1\<lparr>sy_tolerant := sy_tolerant s1 @ [reason]\<rparr>))"

definition ask_position :: "reading \<Rightarrow> PlaybackSync \<Rightarrow> PlaybackSync" where
  "ask_position rd s =
     s\<lparr>sy_inFlight := Some (sy_nextRequest s), sy_nextRequest := Suc (sy_nextRequest s),
       sy_waiting := sy_waiting s @ [\<lparr>rq_id = sy_nextRequest s, rq_generation = sy_generation s,
         rq_source = ps_source (rd_state rd), rq_player = ps_player (rd_state rd)\<rparr>]\<rparr>"

text \<open>Up to the point where the position of the player is asked for.\<close>

definition tick_sync :: "reading \<Rightarrow> PlaybackSync \<Rightarrow> PlaybackSync" where
  "tick_sync rd s =
     (if sy_disposed s then s
      else
        (let st = rd_state rd; s1 = follow_source rd s
         in if ps_live st then cancelBend rd s1
            else
              (let s2 = settle_bend rd s1
               in if \<not> canSeek st s2 then s2
                  else if sy_pendingSeek s2 then run_pending rd s2
                  else if sy_inFlight s2 \<noteq> None \<or> \<not> canObserve st s2 then s2
                  else ask_position rd s2)))"

text \<open>The bend itself, for a drift that is neither gone nor to be closed by a seek.\<close>

definition bend :: "reading \<Rightarrow> rat \<Rightarrow> rat \<Rightarrow> PlaybackSync \<Rightarrow> PlaybackSync" where
  "bend rd base drift s =
     (let magnitude = \<bar>drift\<bar>; ceil = bendCeiling magnitude; s1 = s\<lparr>sy_bendBase := Some base\<rparr>; offset = sgn drift * ceil in
      case sy_bendStartedAt s of
        None \<Rightarrow>
          writeRate rd (base * (1 + offset))
            (s1\<lparr>sy_bendStartedAt := Some (rd_now rd), sy_bendPeak := magnitude,
                sy_bendDeadlineAt := of_int (rd_now rd) + bendDeadlineMs magnitude ceil, sy_bendOffset := Some offset\<rparr>)
      | Some startedAt \<Rightarrow>
          if (case sy_bendOffset s of None \<Rightarrow> False | Some o' \<Rightarrow> sgn o' \<noteq> sgn drift)
          then writeRate rd (base * (1 + offset))
                 (s1\<lparr>sy_bendPeak := magnitude, sy_bendDeadlineAt := of_int (rd_now rd) + bendDeadlineMs magnitude ceil,
                     sy_bendOffset := Some offset\<rparr>)
          else if sy_bendPeak s < magnitude
          then (let s2 = s1\<lparr>sy_bendPeak := magnitude, sy_bendDeadlineAt := of_int startedAt + bendDeadlineMs magnitude ceil\<rparr>
                in if (case sy_bendOffset s of None \<Rightarrow> True | Some o' \<Rightarrow> RATE_WRITE_THRESHOLD < \<bar>offset - o'\<bar>)
                   then writeRate rd (base * (1 + offset)) (s2\<lparr>sy_bendOffset := Some offset\<rparr>) else s2)
          else (case (sy_appliedRate s, sy_bendOffset s) of
                  (None, Some o') \<Rightarrow> writeRate rd (base * (1 + o')) s1
                | _ \<Rightarrow> s1))"

text \<open>The rest of a tick for a player whose rate can be changed; \<open>True\<close> while the player is being waited for.\<close>

definition steer :: "reading \<Rightarrow> rat \<Rightarrow> rat \<Rightarrow> PlaybackSync \<Rightarrow> bool \<times> PlaybackSync" where
  "steer rd base drift s =
     (let s1 = (if sy_bendBase s \<noteq> None \<and> sy_bendBase s \<noteq> Some base then cancelBend rd s else s)
      in if (if sy_bendStartedAt s1 \<noteq> None then \<bar>drift\<bar> \<le> BEND_STOP + 1 / 1000000000 else \<bar>drift\<bar> < BEND_START)
         then (False, cancelBend rd s1)
         else if sy_bendStartedAt s1 \<noteq> None \<and> sy_bendDeadlineAt s1 \<le> of_int (rd_now rd)
         then (let s2 = cancelBend rd s1
               in if canSeekNow rd s2 \<and> hasSeekBuffer (rd_state rd) then (True, seek_sync rd ''bend-deadline'' s2) else (False, s2))
         else (True, bend rd base drift s1))"

definition seek_limit :: "reading \<Rightarrow> bool \<Rightarrow> PlaybackSync \<Rightarrow> rat" where
  "seek_limit rd canBend s =
     (if canBend then (if rd_now rd < sy_initialSyncUntil s then PLAYBACK_INITIAL_MAX_DRIFT_SECONDS else HARD_SEEK_DRIFT) else 1)"

text \<open>What is done about a position that has arrived in time.\<close>

definition correct :: "reading \<Rightarrow> js_number \<Rightarrow> PlaybackSync \<Rightarrow> bool \<times> PlaybackSync" where
  "correct rd position s =
     (let latest = rd_state rd in
      case position of
        Fin p \<Rightarrow>
          if \<not> canObserve latest s then (False, cancelBend rd s)
          else
            (let drift = room_pos latest - p; base = getBendBase rd;
                 canBend = (ps_playing latest \<and> \<not> ps_temporarySpeed latest \<and> base \<noteq> None);
                 s1 = s\<lparr>sy_maxAbsDrift := js_peak (sy_maxAbsDrift s) (Fin \<bar>drift\<bar>)\<rparr>
             in if seek_limit rd canBend s1 < \<bar>drift\<bar> \<and> canSeekNow rd s1 \<and> hasSeekBuffer latest then (True, seek_sync rd ''drift-large'' s1)
                else if \<not> canBend then (False, cancelBend rd s1)
                else steer rd (the base) drift s1)
      | _ \<Rightarrow> (False, cancelBend rd s))"

definition finish_request :: "nat \<Rightarrow> PlaybackSync \<Rightarrow> PlaybackSync" where
  "finish_request i s = (if sy_inFlight s = Some i then s\<lparr>sy_inFlight := None\<rparr> else s)"

text \<open>The rest of the tick, when the position arrives (\<open>None\<close>: reading it failed).\<close>

definition tick_answer :: "reading \<Rightarrow> nat \<Rightarrow> js_number option \<Rightarrow> PlaybackSync \<Rightarrow> PlaybackSync" where
  "tick_answer rd i answer s =
     (case find (\<lambda>q. rq_id q = i) (sy_waiting s) of
        None \<Rightarrow> s
      | Some q \<Rightarrow>
          (let s1 = s\<lparr>sy_waiting := filter (\<lambda>q. rq_id q \<noteq> i) (sy_waiting s)\<rparr>; latest = rd_state rd in
           if answer = None \<or> sy_inFlight s1 \<noteq> Some i \<or> rq_generation q \<noteq> sy_generation s1
              \<or> rq_source q \<noteq> ps_source latest \<or> rq_player q \<noteq> ps_player latest
           then finish_request i s1
           else (let (awaits, s2) = correct rd (the answer) s1 in if awaits then s2 else finish_request i s2)))"

definition tolerant_answer :: "reading \<Rightarrow> js_number \<Rightarrow> PlaybackSync \<Rightarrow> PlaybackSync" where
  "tolerant_answer rd position s =
     (case sy_tolerant s of
        [] \<Rightarrow> s
      | reason # rest \<Rightarrow> seekIfDriftIsLarge rd reason position (s\<lparr>sy_tolerant := rest\<rparr>))"

definition requestSeek :: "reading \<Rightarrow> string \<Rightarrow> bool \<Rightarrow> PlaybackSync \<Rightarrow> PlaybackSync" where
  "requestSeek rd reason tolerateSmallDrift s =
     tick_sync rd ((invalidateRate rd (s\<lparr>sy_pendingSeek := True, sy_pendingSeekToleratesDrift := tolerateSmallDrift,
       sy_pendingSeekReason := reason\<rparr>))\<lparr>sy_inFlight := None\<rparr>)"

definition dispose :: "reading \<Rightarrow> PlaybackSync \<Rightarrow> PlaybackSync" where
  "dispose rd s = (cancelBend rd s)\<lparr>sy_disposed := True, sy_generation := Suc (sy_generation (cancelBend rd s)), sy_inFlight := None\<rparr>"

definition getMetrics :: "PlaybackSync \<Rightarrow> nat \<times> nat \<times> js_number" where
  "getMetrics s = (sy_rateWrites s, sy_deadlineSeeks s, sy_maxAbsDrift s)"

section \<open>The engine as a machine\<close>

datatype sync_event =
    SyncTick
  | PositionIs nat "js_number option"
  | TolerantPositionIs js_number
  | Settled nat
  | RateFailed nat
  | RequestSeek string bool
  | ResetAll
  | InvalidateRate
  | ResetMetrics
  | Dispose

definition sync_step :: "PlaybackSync \<Rightarrow> reading \<times> sync_event \<Rightarrow> PlaybackSync" where
  "sync_step s re = (case re of (rd, ev) \<Rightarrow>
     (case ev of
        SyncTick \<Rightarrow> tick_sync rd s
      | PositionIs i answer \<Rightarrow> tick_answer rd i answer s
      | TolerantPositionIs position \<Rightarrow> tolerant_answer rd position s
      | Settled i \<Rightarrow> finish_request i s
      | RateFailed g \<Rightarrow> rate_failed g s
      | RequestSeek reason tolerant \<Rightarrow> requestSeek rd reason tolerant s
      | ResetAll \<Rightarrow> reset_sync rd s
      | InvalidateRate \<Rightarrow> invalidateRate rd s
      | ResetMetrics \<Rightarrow> resetMetrics s
      | Dispose \<Rightarrow> dispose rd s))"

end
