(* ===== verification/PlaybackSteering.thy ===== *)
theory PlaybackSteering
  imports PlaybackSync
begin

text \<open>
  What the engine of \<open>PlaybackSync\<close> does to a player: the rates it sets, that it falls silent when
  it is disposed of, and that it brings a drifting player back to the clock of the room.
\<close>

section \<open>The rates\<close>

lemma bendCeiling_bounds: "8 / 100 \<le> bendCeiling m" "bendCeiling m \<le> 15 / 100"
  by (auto simp: bendCeiling_def bend_constants min_def field_simps)

definition near :: "rat set \<Rightarrow> rat \<Rightarrow> bool" where
  "near B r \<longleftrightarrow> (\<exists>b \<in> B. 17 / 20 * b \<le> r \<and> r \<le> 23 / 20 * b)"

definition rates_inv :: "rat set \<Rightarrow> PlaybackSync \<Rightarrow> bool" where
  "rates_inv B s \<longleftrightarrow> (\<forall>r. SetRate r \<in> set (sy_out s) \<longrightarrow> near B r)
     \<and> (\<forall>o'. sy_bendOffset s = Some o' \<longrightarrow> \<bar>o'\<bar> \<le> 15 / 100) \<and> (\<forall>b. sy_bendBase s = Some b \<longrightarrow> b \<in> B)"

definition known_base :: "rat set \<Rightarrow> reading \<Rightarrow> bool" where
  "known_base B rd \<longleftrightarrow> (\<forall>b. getBendBase rd = Some b \<longrightarrow> b \<in> B)"

lemma bent_near:
  assumes "b \<in> B" "0 < b" "\<bar>o'\<bar> \<le> 15 / 100"
  shows "near B (b * (1 + o'))"
proof -
  have "- (15 / 100) \<le> o'" "o' \<le> 15 / 100" using assms(3) by linarith+
  then have "b * (- (15 / 100)) \<le> b * o'" "b * o' \<le> b * (15 / 100)" using assms(2) by (simp_all only: mult_left_mono less_imp_le)
  then show ?thesis using assms(1) by (auto simp: near_def algebra_simps intro!: bexI [of _ b])
qed

lemma base_near: "b \<in> B \<Longrightarrow> 0 < b \<Longrightarrow> near B b"
  using bent_near [of b B 0] by simp


lemma rates_frame:
  "rates_inv B s \<Longrightarrow> sy_out s' = sy_out s \<Longrightarrow> sy_bendOffset s' = sy_bendOffset s \<Longrightarrow> sy_bendBase s' = sy_bendBase s \<Longrightarrow> rates_inv B s'"
  by (simp add: rates_inv_def)

text \<open>The invariant is kept by every part of the engine, for any set of positive rates that holds the rates the room reports.\<close>

locale rate_range =
  fixes B :: "rat set"
  assumes pos: "b \<in> B \<Longrightarrow> 0 < b"
begin

lemma write_inv: "rates_inv B s \<Longrightarrow> near B rate \<Longrightarrow> rates_inv B (writeRate rd rate s)"
  by (auto simp: rates_inv_def writeRate_def)

lemma cancel_inv:
  assumes "rates_inv B s" "known_base B rd"
  shows "rates_inv B (cancelBend rd s)"
proof -
  define base where "base = (case getBendBase rd of Some b \<Rightarrow> Some b | None \<Rightarrow> sy_bendBase s)"
  have "near B b" if "base = Some b" for b
    using that assms pos by (auto simp: base_def rates_inv_def known_base_def intro!: base_near split: option.splits)
  then have "rates_inv B (case base of Some b \<Rightarrow> writeRate rd b s | None \<Rightarrow> s)" using write_inv assms(1) by (cases base) auto
  then show ?thesis
    using assms(1) unfolding cancelBend_def base_def [symmetric] by (simp add: rates_inv_def Let_def)
qed

lemma invalidate_inv: "rates_inv B s \<Longrightarrow> known_base B rd \<Longrightarrow> rates_inv B (invalidateRate rd s)"
  unfolding invalidateRate_def by (intro cancel_inv) (auto intro: rates_frame)

lemma reset_inv: "rates_inv B s \<Longrightarrow> known_base B rd \<Longrightarrow> rates_inv B (reset_sync rd s)"
  by (rule rates_frame [OF invalidate_inv]) (simp_all add: reset_sync_def resetMetrics_def)

lemma rate_seek:
  assumes "rates_inv B s" "known_base B rd"
  shows "rates_inv B (seek_sync rd reason s)"
proof -
  have "rates_inv B (if reason = ''bend-deadline'' then s\<lparr>sy_deadlineSeeks := Suc (sy_deadlineSeeks s)\<rparr> else s)"
    using assms(1) by (auto intro: rates_frame)
  from cancel_inv [OF this assms(2)] show ?thesis by (simp add: seek_sync_def rates_inv_def Let_def)
qed

lemma tolerant_inv:
  assumes "rates_inv B s" "known_base B rd"
  shows "rates_inv B (seekIfDriftIsLarge rd reason position s)"
proof -
  have "rates_inv B (s\<lparr>sy_maxAbsDrift := x\<rparr>)" for x using assms(1) by (rule rates_frame) simp_all
  then show ?thesis using assms rate_seek by (simp add: seekIfDriftIsLarge_def Let_def)
qed

lemma follow_inv: "rates_inv B s \<Longrightarrow> known_base B rd \<Longrightarrow> rates_inv B (follow_source rd s)"
  by (auto simp: follow_source_def Let_def intro!: reset_inv intro: rates_frame)

lemma settle_inv:
  assumes "rates_inv B s" "known_base B rd"
  shows "rates_inv B (settle_bend rd s)"
proof -
  have "rates_inv B (s\<lparr>sy_bufferedSinceLastSeek := x\<rparr>)" for x using assms(1) by (rule rates_frame) simp_all
  then show ?thesis using assms(2) cancel_inv by (simp add: settle_bend_def Let_def)
qed

lemma pending_inv:
  assumes "rates_inv B s" "known_base B rd"
  shows "rates_inv B (run_pending rd s)"
proof -
  have "rates_inv B (s\<lparr>sy_pendingSeek := False, sy_pendingSeekToleratesDrift := False\<rparr>)" using assms(1) by (rule rates_frame) simp_all
  moreover have "rates_inv B (s\<lparr>sy_pendingSeek := False, sy_pendingSeekToleratesDrift := False, sy_tolerant := ts\<rparr>)" for ts
    using assms(1) by (rule rates_frame) simp_all
  ultimately show ?thesis using assms(2) rate_seek tolerant_inv by (simp add: run_pending_def Let_def split: option.split)
qed

lemma ask_inv: "rates_inv B s \<Longrightarrow> rates_inv B (ask_position rd s)"
  by (erule rates_frame) (simp_all add: ask_position_def)

lemma rate_tick: "rates_inv B s \<Longrightarrow> known_base B rd \<Longrightarrow> rates_inv B (tick_sync rd s)"
  by (simp add: tick_sync_def Let_def cancel_inv follow_inv settle_inv pending_inv ask_inv)

lemma bend_inv:
  assumes "rates_inv B s" "base \<in> B"
  shows "rates_inv B (bend rd base drift s)"
proof -
  let ?c = "bendCeiling \<bar>drift\<bar>"
  have o: "\<bar>sgn drift * ?c\<bar> \<le> 15 / 100"
    using bendCeiling_bounds [of "\<bar>drift\<bar>"] by (auto simp: abs_mult abs_sgn_eq)
  have near: "near B (base * (1 + o'))" if "\<bar>o'\<bar> \<le> 15 / 100" for o' using bent_near assms(2) pos that by blast
  have new: "rates_inv B (writeRate rd (base * (1 + sgn drift * ?c)) (s'\<lparr>sy_bendOffset := Some (sgn drift * ?c)\<rparr>))"
    if "rates_inv B s'" for s' using that near [OF o] o by (intro write_inv) (simp_all add: rates_inv_def)
  have base: "rates_inv B (s\<lparr>sy_bendBase := Some base\<rparr>)" using assms by (simp add: rates_inv_def)
  have old: "rates_inv B (writeRate rd (base * (1 + o')) (s\<lparr>sy_bendBase := Some base\<rparr>))" if "sy_bendOffset s = Some o'" for o'
    using that near assms base by (intro write_inv) (auto simp: rates_inv_def)
  have "rates_inv B (s\<lparr>sy_bendBase := Some base, sy_bendPeak := x, sy_bendDeadlineAt := y\<rparr>)"
    "rates_inv B (s\<lparr>sy_bendBase := Some base, sy_bendStartedAt := z, sy_bendPeak := x, sy_bendDeadlineAt := y\<rparr>)" for x y z
    using base by (auto intro: rates_frame)
  then show ?thesis
    using base old new by (auto simp: bend_def Let_def split: option.split)
qed

lemma steer_inv:
  assumes "rates_inv B s" "known_base B rd" "base \<in> B"
  shows "rates_inv B (snd (steer rd base drift s))"
proof -
  define s1 where "s1 = (if sy_bendBase s \<noteq> None \<and> sy_bendBase s \<noteq> Some base then cancelBend rd s else s)"
  have "rates_inv B s1" using assms(1,2) cancel_inv by (simp add: s1_def)
  then show ?thesis
    unfolding steer_def s1_def [symmetric] Let_def using assms(2,3) by (simp add: cancel_inv rate_seek bend_inv)
qed

lemma correct_inv:
  assumes "rates_inv B s" "known_base B rd"
  shows "rates_inv B (snd (correct rd position s))"
proof (cases position)
  case (Fin p)
  have "rates_inv B (s\<lparr>sy_maxAbsDrift := x\<rparr>)" for x using assms(1) by (rule rates_frame) simp_all
  moreover have "the (getBendBase rd) \<in> B" if "getBendBase rd \<noteq> None" using that assms(2) by (auto simp: known_base_def)
  ultimately show ?thesis
    using assms Fin by (simp add: correct_def Let_def cancel_inv rate_seek steer_inv)
qed (use assms in \<open>simp_all add: correct_def cancel_inv\<close>)

lemma answer_inv:
  assumes "rates_inv B s" "known_base B rd"
  shows "rates_inv B (tick_answer rd i answer s)"
proof -
  have fin: "rates_inv B (finish_request j s')" if "rates_inv B s'" for j s'
    using that by (auto simp: finish_request_def intro: rates_frame)
  have w: "rates_inv B (s\<lparr>sy_waiting := q\<rparr>)" for q using assms(1) by (rule rates_frame) simp_all
  show ?thesis
    using assms(1) w fin correct_inv [OF w assms(2)]
    by (auto simp: tick_answer_def Let_def case_prod_unfold split: option.split)
qed

lemma rates_step:
  assumes "rates_inv B s" "known_base B (fst re)"
  shows "rates_inv B (sync_step s re)"
proof -
  obtain rd ev where re: "re = (rd, ev)" by fastforce
  have known: "known_base B rd" using assms(2) re by simp
  have frames: "rates_inv B (s'\<lparr>sy_inFlight := i\<rparr>)" "rates_inv B (s'\<lparr>sy_tolerant := ts\<rparr>)" "rates_inv B (s'\<lparr>sy_appliedRate := None\<rparr>)"
    "rates_inv B (resetMetrics s')" "rates_inv B (s'\<lparr>sy_disposed := True, sy_generation := g, sy_inFlight := i\<rparr>)"
    "rates_inv B (s'\<lparr>sy_pendingSeek := p, sy_pendingSeekToleratesDrift := t, sy_pendingSeekReason := r\<rparr>)"
    if "rates_inv B s'" for s' i ts g p t r
    using that by (auto simp: resetMetrics_def intro: rates_frame)
  note parts = rate_tick [OF _ known] answer_inv [OF _ known] tolerant_inv [OF _ known] reset_inv [OF _ known] invalidate_inv [OF _ known]
    cancel_inv [OF _ known]
  show ?thesis
    using assms(1) unfolding re
    by (cases ev) (auto simp: sync_step_def finish_request_def rate_failed_def tolerant_answer_def requestSeek_def dispose_def
        intro!: parts frames split: list.split)
qed

end

text \<open>The rates that the room had in the course of a run.\<close>

definition reported_rates :: "(reading \<times> sync_event) list \<Rightarrow> rat set" where
  "reported_rates es = set (List.map_filter (\<lambda>re. getBendBase (fst re)) es)"

lemma reported_rates_iff: "b \<in> reported_rates es \<longleftrightarrow> (\<exists>re \<in> set es. getBendBase (fst re) = Some b)"
  by (force simp: reported_rates_def List.map_filter_def)

lemma base_pos: "getBendBase rd = Some b \<Longrightarrow> 0 < b"
  by (cases "rd_base rd") (auto simp: getBendBase_def split: if_splits js_number.splits)

interpretation reported: rate_range "reported_rates es" for es
  by unfold_locales (auto simp: reported_rates_iff base_pos)

interpretation rates_machine: invariant_machine sync_step "rates_inv (reported_rates es)" "\<lambda>re. known_base (reported_rates es) (fst re)" for es
  by unfold_locales (rule reported.rates_step)

text \<open>C18.
  A viewer never hears the playback run noticeably wrong: whatever happens to a player, every rate
  it is told to play at lies within fifteen percent of a rate that the room had.\<close>

theorem local_rate_bounded:
  assumes "SetRate r \<in> set (sy_out (foldl sync_step createPlaybackSync es))"
  shows "\<exists>(rd, ev) \<in> set es. \<exists>b. getBendBase rd = Some b \<and> 17 / 20 * b \<le> r \<and> r \<le> 23 / 20 * b"
proof -
  have "rates_inv (reported_rates es) createPlaybackSync" by (simp add: rates_inv_def createPlaybackSync_def)
  moreover have "list_all (\<lambda>re. known_base (reported_rates es) (fst re)) es"
    by (auto simp: list_all_iff known_base_def reported_rates_iff)
  ultimately have "rates_inv (reported_rates es) (foldl sync_step createPlaybackSync es)" by (rule rates_machine.run_inv)
  with assms have "near (reported_rates es) r" by (simp add: rates_inv_def)
  then obtain re b where re: "re \<in> set es" "getBendBase (fst re) = Some b" "17 / 20 * b \<le> r" "r \<le> 23 / 20 * b"
    unfolding near_def by (auto simp: reported_rates_iff)
  then show ?thesis by (intro bexI [OF _ re(1)]) (auto simp: case_prod_unfold)
qed

section \<open>An engine that was disposed of\<close>

lemma writeRate_frame [simp]:
  "sy_waiting (writeRate rd r s) = sy_waiting s" "sy_generation (writeRate rd r s) = sy_generation s"
  "sy_disposed (writeRate rd r s) = sy_disposed s" "sy_inFlight (writeRate rd r s) = sy_inFlight s"
  "sy_nextRequest (writeRate rd r s) = sy_nextRequest s" "sy_pendingSeek (writeRate rd r s) = sy_pendingSeek s"
  "sy_source (writeRate rd r s) = sy_source s" "sy_player (writeRate rd r s) = sy_player s"
  "sy_bendStartedAt (writeRate rd r s) = sy_bendStartedAt s" "sy_bendBase (writeRate rd r s) = sy_bendBase s"
  "sy_bendOffset (writeRate rd r s) = sy_bendOffset s" "sy_bendPeak (writeRate rd r s) = sy_bendPeak s"
  "sy_bendDeadlineAt (writeRate rd r s) = sy_bendDeadlineAt s"
  by (simp_all add: writeRate_def)

lemma cancelBend_frame [simp]:
  "sy_waiting (cancelBend rd s) = sy_waiting s" "sy_generation (cancelBend rd s) = sy_generation s"
  "sy_disposed (cancelBend rd s) = sy_disposed s" "sy_inFlight (cancelBend rd s) = sy_inFlight s"
  "sy_nextRequest (cancelBend rd s) = sy_nextRequest s" "sy_pendingSeek (cancelBend rd s) = sy_pendingSeek s"
  "sy_source (cancelBend rd s) = sy_source s" "sy_player (cancelBend rd s) = sy_player s"
  "sy_bendStartedAt (cancelBend rd s) = None" "sy_bendBase (cancelBend rd s) = None" "sy_appliedRate (cancelBend rd s) = None"
  by (simp_all add: cancelBend_def Let_def split: option.split)

lemma cancelBend_idle: "sy_bendStartedAt s = None \<Longrightarrow> sy_out (cancelBend rd s) = sy_out s"
  by (simp add: cancelBend_def Let_def)

lemma bend_frame [simp]:
  "sy_waiting (bend rd b d s) = sy_waiting s" "sy_generation (bend rd b d s) = sy_generation s" "sy_disposed (bend rd b d s) = sy_disposed s"
  "sy_inFlight (bend rd b d s) = sy_inFlight s" "sy_nextRequest (bend rd b d s) = sy_nextRequest s"
  "sy_pendingSeek (bend rd b d s) = sy_pendingSeek s" "sy_source (bend rd b d s) = sy_source s" "sy_player (bend rd b d s) = sy_player s"
  by (simp_all add: bend_def Let_def split: option.split)

lemma seek_frame [simp]:
  "sy_waiting (seek_sync rd r s) = sy_waiting s" "sy_generation (seek_sync rd r s) = sy_generation s"
  "sy_inFlight (seek_sync rd r s) = sy_inFlight s" "sy_nextRequest (seek_sync rd r s) = sy_nextRequest s"
  by (simp_all add: seek_sync_def Let_def)

lemma correct_frame [simp]:
  "sy_waiting (snd (correct rd p s)) = sy_waiting s" "sy_generation (snd (correct rd p s)) = sy_generation s"
  "sy_inFlight (snd (correct rd p s)) = sy_inFlight s" "sy_nextRequest (snd (correct rd p s)) = sy_nextRequest s"
  by (simp_all add: correct_def steer_def Let_def split: js_number.split)

text \<open>No request for a position is from the future, and after a disposal all of them are outdated.\<close>

definition requests_inv :: "PlaybackSync \<Rightarrow> bool" where
  "requests_inv s \<longleftrightarrow> list_all (\<lambda>q. rq_generation q \<le> sy_generation s) (sy_waiting s)"

lemma requests_frame: "requests_inv s \<Longrightarrow> sy_waiting s' = sy_waiting s \<Longrightarrow> sy_generation s \<le> sy_generation s' \<Longrightarrow> requests_inv s'"
  by (auto simp: requests_inv_def list_all_iff)

lemma tolerant_frame [simp]:
  "sy_waiting (seekIfDriftIsLarge rd r p s) = sy_waiting s" "sy_generation (seekIfDriftIsLarge rd r p s) = sy_generation s"
  by (simp_all add: seekIfDriftIsLarge_def Let_def)

lemma requests_tick: "requests_inv s \<Longrightarrow> requests_inv (tick_sync rd s)"
proof -
  assume s: "requests_inv s"
  have f: "requests_inv (follow_source rd s)"
    using s by (rule requests_frame) (simp_all add: follow_source_def reset_sync_def invalidateRate_def resetMetrics_def Let_def)
  have se: "requests_inv (settle_bend rd s')" if "requests_inv s'" for s'
    using that by (rule requests_frame) (simp_all add: settle_bend_def Let_def)
  have p: "requests_inv (run_pending rd s')" if "requests_inv s'" for s'
    using that by (rule requests_frame) (simp_all add: run_pending_def Let_def split: option.split)
  have a: "requests_inv (ask_position rd s')" if "requests_inv s'" for s' using that by (simp add: requests_inv_def ask_position_def)
  have c: "requests_inv (cancelBend rd s')" if "requests_inv s'" for s' using that by (rule requests_frame) simp_all
  show ?thesis using s f se p a c by (simp add: tick_sync_def Let_def)
qed

lemma requests_answer: "requests_inv s \<Longrightarrow> requests_inv (tick_answer rd i a s)"
  by (auto simp: requests_inv_def tick_answer_def finish_request_def list_all_iff Let_def case_prod_unfold split: option.split)

interpretation requests_machine: invariant_machine sync_step requests_inv "\<lambda>_. True"
proof
  fix s and re :: "reading \<times> sync_event"
  assume s: "requests_inv s"
  obtain rd ev where re: "re = (rd, ev)" by fastforce
  have seek: "requests_inv (requestSeek rd r t s)" for r t
    unfolding requestSeek_def by (rule requests_tick, rule requests_frame [OF s]) (simp_all add: invalidateRate_def)
  have rest: "requests_inv s'" if "sy_waiting s' = sy_waiting s" "sy_generation s \<le> sy_generation s'" for s'
    using requests_frame [OF s that] .
  show "requests_inv (sync_step s re)"
    unfolding re using s seek requests_tick requests_answer
    by (cases ev) (auto simp: sync_step_def finish_request_def rate_failed_def tolerant_answer_def reset_sync_def resetMetrics_def
        invalidateRate_def dispose_def intro!: rest split: list.split)
qed

definition silenced :: "sync_out list \<Rightarrow> PlaybackSync \<Rightarrow> bool" where
  "silenced out s \<longleftrightarrow> sy_disposed s \<and> sy_bendStartedAt s = None \<and> sy_out s = out
     \<and> list_all (\<lambda>q. rq_generation q < sy_generation s) (sy_waiting s)"

lemma silenced_invalidate: "silenced out s \<Longrightarrow> silenced out (invalidateRate rd s)"
  by (auto simp: silenced_def invalidateRate_def cancelBend_idle list_all_iff)

lemma silenced_frame:
  "silenced out s \<Longrightarrow> sy_disposed s' = sy_disposed s \<Longrightarrow> sy_bendStartedAt s' = sy_bendStartedAt s \<Longrightarrow> sy_out s' = sy_out s \<Longrightarrow>
    sy_waiting s' = sy_waiting s \<Longrightarrow> sy_generation s \<le> sy_generation s' \<Longrightarrow> silenced out s'"
  by (auto simp: silenced_def list_all_iff)

lemma silenced_answer:
  assumes "silenced out s"
  shows "silenced out (tick_answer rd i a s)"
proof (cases "find (\<lambda>q. rq_id q = i) (sy_waiting s)")
  case (Some q)
  then have "q \<in> set (sy_waiting s)" by (auto simp: find_Some_iff)
  then have "rq_generation q \<noteq> sy_generation s" using assms by (auto simp: silenced_def list_all_iff)
  then show ?thesis using Some assms by (auto simp: tick_answer_def finish_request_def silenced_def list_all_iff Let_def)
qed (use assms in \<open>simp add: tick_answer_def\<close>)

interpretation silence_machine: invariant_machine sync_step "silenced out" "\<lambda>_. True" for out
proof
  fix s and re :: "reading \<times> sync_event"
  assume s: "silenced out s"
  obtain rd ev where re: "re = (rd, ev)" by fastforce
  have d: "sy_disposed s" "sy_bendStartedAt s = None" using s by (simp_all add: silenced_def)
  note inv = silenced_invalidate [OF s, of rd]
  have pending: "silenced out (invalidateRate rd (s\<lparr>sy_pendingSeek := p, sy_pendingSeekToleratesDrift := t, sy_pendingSeekReason := r\<rparr>))" for p t r
    by (rule silenced_invalidate, rule silenced_frame [OF s]) simp_all
  have seek: "silenced out (requestSeek rd r t s)" for r t
    using pending [where p = True and t = t and r = r] by (auto simp: requestSeek_def tick_sync_def silenced_def)
  show "silenced out (sync_step s re)"
    unfolding re using s d inv seek silenced_answer
    by (cases ev) (auto simp: sync_step_def tick_sync_def finish_request_def rate_failed_def tolerant_answer_def seekIfDriftIsLarge_def
        reset_sync_def resetMetrics_def dispose_def cancelBend_idle silenced_def list_all_iff split: list.split)
qed

text \<open>An engine that was disposed of leaves the player alone: whatever was under way, and whatever
  answers, ticks and requests still arrive, in any order, no seek and no change of the rate
  follows the disposal.\<close>

lemma disposed_is_silent:
  "sy_out (foldl sync_step createPlaybackSync (es @ (rd, Dispose) # late)) =
     sy_out (foldl sync_step createPlaybackSync (es @ [(rd, Dispose)]))"
proof -
  let ?s = "foldl sync_step createPlaybackSync es"
  have "requests_inv ?s"
    by (rule requests_machine.run_inv) (auto simp: requests_inv_def createPlaybackSync_def list_all_iff)
  then have "silenced (sy_out (dispose rd ?s)) (dispose rd ?s)"
    by (auto simp: silenced_def dispose_def requests_inv_def list_all_iff less_Suc_eq_le)
  then have "silenced (sy_out (dispose rd ?s)) (foldl sync_step (dispose rd ?s) late)"
    by (rule silence_machine.run_inv) (simp add: list_all_iff)
  then show ?thesis by (simp add: sync_step_def silenced_def)
qed

end
