(* ===== verification/PlaybackConvergence.thy ===== *)
theory PlaybackConvergence
  imports PlaybackSteering
begin

text \<open>
  The engine of \<open>PlaybackSync\<close> in a loop with a player that does what it is told: a drift of up to
  three seconds is played off without a seek and with two changes of the rate.
\<close>

section \<open>One observation\<close>

text \<open>A tick whose position arrives at once; \<open>d\<close> is how far the player is behind the room.\<close>

definition observe :: "reading \<Rightarrow> rat \<Rightarrow> PlaybackSync \<Rightarrow> PlaybackSync" where
  "observe rd d s =
     foldl sync_step s [(rd, SyncTick), (rd, PositionIs (sy_nextRequest s) (Some (Fin (room_pos (rd_state rd) - d)))), (rd, Settled (sy_nextRequest s))]"

text \<open>The player plays undisturbed in a room that plays at the rate \<open>b\<close>, and its rate can be changed.\<close>

definition attentive :: "rat \<Rightarrow> PlaybackSync \<Rightarrow> reading \<Rightarrow> bool" where
  "attentive b s rd \<longleftrightarrow> sy_source s = ps_source (rd_state rd) \<and> sy_player s = ps_player (rd_state rd)
     \<and> canObserve (rd_state rd) s \<and> \<not> ps_live (rd_state rd) \<and> ps_playing (rd_state rd) \<and> \<not> ps_temporarySpeed (rd_state rd)
     \<and> getBendBase rd = Some b"

definition idle :: "PlaybackSync \<Rightarrow> bool" where
  "idle s \<longleftrightarrow> sy_inFlight s = None \<and> \<not> sy_pendingSeek s \<and> sy_waiting s = []"

text \<open>The state in which the arrived position finds the engine.\<close>

definition asked :: "rat \<Rightarrow> PlaybackSync \<Rightarrow> PlaybackSync" where
  "asked d s = s\<lparr>sy_inFlight := Some (sy_nextRequest s), sy_nextRequest := Suc (sy_nextRequest s),
     sy_maxAbsDrift := js_peak (sy_maxAbsDrift s) (Fin \<bar>d\<bar>)\<rparr>"

lemma observe_steers:
  assumes "attentive b s rd" "idle s" "\<bar>d\<bar> \<le> 3"
  shows "observe rd d s = (snd (steer rd b d (asked d s)))\<lparr>sy_inFlight := None\<rparr>"
proof -
  let ?n = "sy_nextRequest s"
  let ?q = "\<lparr>rq_id = ?n, rq_generation = sy_generation s, rq_source = ps_source (rd_state rd), rq_player = ps_player (rd_state rd)\<rparr>"
  let ?s1 = "s\<lparr>sy_inFlight := Some ?n, sy_nextRequest := Suc ?n\<rparr>"
  have dis: "\<not> sy_disposed s" "canSeek (rd_state rd) s" using assms(1) by (auto simp: attentive_def canObserve_def canSeek_def)
  have buf: "\<not> ps_buffering (rd_state rd)" using assms(1) by (simp add: attentive_def canObserve_def)
  have can: "canObserve st (s\<lparr>sy_bufferedSinceLastSeek := x\<rparr>) = canObserve st s" for st x by (simp add: canObserve_def canSeek_def)
  have tick: "sync_step s (rd, SyncTick) = ?s1\<lparr>sy_waiting := [?q]\<rparr>"
    using assms(1,2) dis buf by (simp add: sync_step_def tick_sync_def follow_source_def settle_bend_def ask_position_def attentive_def idle_def can Let_def)
  have wait: "?s1\<lparr>sy_waiting := []\<rparr> = ?s1" using assms(2) by (simp add: idle_def)
  have obs: "canObserve (rd_state rd) ?s1" using assms(1) by (simp add: attentive_def canObserve_def canSeek_def)
  have correct: "correct rd (Fin (room_pos (rd_state rd) - d)) ?s1 = steer rd b d (asked d s)"
    using obs assms(1,3) by (auto simp: correct_def attentive_def seek_limit_def asked_def PLAYBACK_INITIAL_MAX_DRIFT_SECONDS_def HARD_SEEK_DRIFT_def Let_def)
  have flight: "sy_inFlight (snd (steer rd b d (asked d s))) = Some ?n"
    using correct_frame(3) [of rd "Fin (room_pos (rd_state rd) - d)" ?s1] unfolding correct by simp
  have "sync_step (?s1\<lparr>sy_waiting := [?q]\<rparr>) (rd, PositionIs ?n (Some (Fin (room_pos (rd_state rd) - d)))) =
      (case steer rd b d (asked d s) of (awaits, s2) \<Rightarrow> if awaits then s2 else finish_request ?n s2)"
    by (simp add: sync_step_def tick_answer_def wait correct Let_def)
  then show ?thesis
    unfolding observe_def by (simp add: tick flight sync_step_def [of _ "(rd, Settled ?n)"] finish_request_def case_prod_unfold)
qed

section \<open>A bend\<close>

text \<open>A bend by \<open>c\<close> in the direction \<open>\<sigma>\<close> that began at \<open>t0\<close> for a drift of \<open>m\<close>.\<close>

definition bending :: "rat \<Rightarrow> int \<Rightarrow> rat \<Rightarrow> rat \<Rightarrow> PlaybackSync \<Rightarrow> bool" where
  "bending b t0 \<sigma> m s \<longleftrightarrow> sy_bendStartedAt s = Some t0 \<and> sy_bendBase s = Some b \<and> sy_bendOffset s = Some (\<sigma> * bendCeiling m)
     \<and> sy_appliedRate s = Some (b * (1 + \<sigma> * bendCeiling m)) \<and> sy_bendPeak s = m
     \<and> sy_bendDeadlineAt s = of_int t0 + bendDeadlineMs m (bendCeiling m)"

definition unbent :: "PlaybackSync \<Rightarrow> bool" where
  "unbent s \<longleftrightarrow> sy_bendStartedAt s = None \<and> sy_bendBase s = None \<and> sy_appliedRate s = None"

text \<open>What every observation of an undisturbed player leaves alone.\<close>

definition same_player :: "PlaybackSync \<Rightarrow> PlaybackSync \<Rightarrow> bool" where
  "same_player s s' \<longleftrightarrow> sy_source s' = sy_source s \<and> sy_player s' = sy_player s \<and> sy_disposed s' = sy_disposed s"

lemma same_attentive: "same_player s s' \<Longrightarrow> attentive b s rd \<Longrightarrow> attentive b s' rd"
  by (simp add: same_player_def attentive_def canObserve_def canSeek_def)

lemma same_player_trans: "same_player s s' \<Longrightarrow> same_player s' s'' \<Longrightarrow> same_player s s''"
  by (simp add: same_player_def)

lemma asked_fields [simp]:
  "sy_bendStartedAt (asked d s) = sy_bendStartedAt s" "sy_bendBase (asked d s) = sy_bendBase s" "sy_bendOffset (asked d s) = sy_bendOffset s"
  "sy_appliedRate (asked d s) = sy_appliedRate s" "sy_bendPeak (asked d s) = sy_bendPeak s" "sy_bendDeadlineAt (asked d s) = sy_bendDeadlineAt s"
  "sy_out (asked d s) = sy_out s" "sy_source (asked d s) = sy_source s" "sy_player (asked d s) = sy_player s"
  "sy_disposed (asked d s) = sy_disposed s" "sy_pendingSeek (asked d s) = sy_pendingSeek s" "sy_waiting (asked d s) = sy_waiting s"
  by (simp_all add: asked_def)

lemma base_setter: "getBendBase rd = Some b \<Longrightarrow> rd_setter rd"
  by (cases "rd_base rd") (auto simp: getBendBase_def split: if_splits js_number.splits)

lemma bend_starts:
  assumes "attentive b s rd" "idle s" "unbent s" "3 / 10 \<le> \<bar>d\<bar>" "\<bar>d\<bar> \<le> 3"
  shows "bending b (rd_now rd) (sgn d) \<bar>d\<bar> (observe rd d s)" "idle (observe rd d s)" "same_player s (observe rd d s)"
    "sy_out (observe rd d s) = sy_out s @ [SetRate (b * (1 + sgn d * bendCeiling \<bar>d\<bar>))]"
proof -
  have set: "rd_setter rd" using assms(1) base_setter by (auto simp: attentive_def)
  have st: "steer rd b d (asked d s) = (True, bend rd b d (asked d s))"
    using assms(3,4) by (simp add: steer_def unbent_def bend_constants)
  show "bending b (rd_now rd) (sgn d) \<bar>d\<bar> (observe rd d s)"
    "sy_out (observe rd d s) = sy_out s @ [SetRate (b * (1 + sgn d * bendCeiling \<bar>d\<bar>))]"
    using assms(3) set unfolding observe_steers [OF assms(1,2,5)] st
    by (simp_all add: bending_def unbent_def bend_def writeRate_def Let_def)
  show "idle (observe rd d s)" "same_player s (observe rd d s)"
    using assms(2) unfolding observe_steers [OF assms(1,2,5)] st by (simp_all add: idle_def same_player_def)
qed

lemma bend_holds:
  assumes "attentive b s rd" "idle s" "bending b t0 \<sigma> m s" "\<sigma> = 1 \<or> \<sigma> = - 1"
    and "15 / 100 + 1 / 1000000000 < a" "a \<le> m" "m \<le> 3" "of_int (rd_now rd) < of_int t0 + bendDeadlineMs m (bendCeiling m)"
  shows "bending b t0 \<sigma> m (observe rd (\<sigma> * a) s)" "idle (observe rd (\<sigma> * a) s)" "same_player s (observe rd (\<sigma> * a) s)"
    "sy_out (observe rd (\<sigma> * a) s) = sy_out s"
proof -
  let ?d = "\<sigma> * a"
  have pos: "0 < a" "0 < bendCeiling m" using assms(5) bendCeiling_bounds(1) [of m] by simp_all
  have d: "\<bar>?d\<bar> = a" "sgn ?d = \<sigma>" "sgn (\<sigma> * bendCeiling m) = \<sigma>" using assms(4) pos by auto
  have "bend rd b ?d (asked ?d s) = (asked ?d s)\<lparr>sy_bendBase := Some b\<rparr>"
    using assms(3,6) d by (simp add: bend_def bending_def Let_def)
  then have st: "steer rd b ?d (asked ?d s) = (True, (asked ?d s)\<lparr>sy_bendBase := Some b\<rparr>)"
    using assms(3,5,8) d by (simp add: steer_def bending_def BEND_STOP_def)
  have le: "\<bar>?d\<bar> \<le> 3" using d(1) assms(6,7) by simp
  show "bending b t0 \<sigma> m (observe rd ?d s)" "idle (observe rd ?d s)" "same_player s (observe rd ?d s)" "sy_out (observe rd ?d s) = sy_out s"
    using assms(2,3) unfolding observe_steers [OF assms(1,2) le] st by (simp_all add: bending_def idle_def same_player_def)
qed

lemma bend_ends:
  assumes "attentive b s rd" "idle s" "bending b t0 \<sigma> m s" "\<sigma> = 1 \<or> \<sigma> = - 1" "4 / 5 \<le> b" "\<bar>d\<bar> \<le> 15 / 100 + 1 / 1000000000"
  shows "unbent (observe rd d s)" "idle (observe rd d s)" "sy_out (observe rd d s) = sy_out s @ [SetRate b]"
proof -
  have base: "getBendBase rd = Some b" using assms(1) by (simp add: attentive_def)
  have st: "steer rd b d (asked d s) = (False, cancelBend rd (asked d s))"
    using assms(3,6) by (simp add: steer_def bending_def BEND_STOP_def)
  have "4 / 5 * (8 / 100) \<le> b * bendCeiling m" using assms(5) bendCeiling_bounds(1) [of m] by (intro mult_mono) auto
  moreover have "\<bar>b - b * (1 + \<sigma> * bendCeiling m)\<bar> = b * bendCeiling m"
    using assms(4,5) bendCeiling_bounds(1) [of m] by (auto simp: algebra_simps abs_mult)
  ultimately have far: "\<not> \<bar>b - b * (1 + \<sigma> * bendCeiling m)\<bar> \<le> RATE_WRITE_THRESHOLD" by (simp add: RATE_WRITE_THRESHOLD_def)
  have le: "\<bar>d\<bar> \<le> 3" using assms(6) by simp
  show "unbent (observe rd d s)" "idle (observe rd d s)"
    using assms(2) unfolding observe_steers [OF assms(1,2) le] st by (simp_all add: unbent_def idle_def)
  show "sy_out (observe rd d s) = sy_out s @ [SetRate b]"
    using assms(3) far base base_setter [OF base] unfolding observe_steers [OF assms(1,2) le] st
    by (simp add: cancelBend_def bending_def writeRate_def Let_def)
qed

section \<open>The loop\<close>

text \<open>
  The player runs at the rate it was last told, the room at \<open>b\<close>; between two readings the drift
  changes by the difference of the two.
\<close>

definition player_rate :: "rat \<Rightarrow> PlaybackSync \<Rightarrow> rat" where
  "player_rate b s = (case sy_appliedRate s of Some r \<Rightarrow> r | None \<Rightarrow> b)"

fun follow :: "rat \<Rightarrow> reading list \<Rightarrow> int \<Rightarrow> rat \<Rightarrow> PlaybackSync \<Rightarrow> rat \<times> PlaybackSync" where
  "follow b [] t d s = (d, s)"
| "follow b (rd # rds) t d s =
     (let d' = d - (player_rate b s - b) * of_int (rd_now rd - t) / 1000 in follow b rds (rd_now rd) d' (observe rd d' s))"

text \<open>The engine ticks at least four times a second.\<close>

fun paced :: "int \<Rightarrow> reading list \<Rightarrow> bool" where
  "paced t [] = True"
| "paced t (rd # rds) = (t < rd_now rd \<and> rd_now rd \<le> t + 250 \<and> paced (rd_now rd) rds)"

lemma ceiling_enough: "m \<le> 3 \<Longrightarrow> m \<le> 20 * bendCeiling m"
  by (auto simp: bendCeiling_def bend_constants min_def field_simps)

text \<open>At a rate of at least four fifths the deadline lies beyond the time the bend takes.\<close>

lemma deadline_enough:
  assumes "0 < m" "m \<le> 3" "4 / 5 \<le> b" "0 < m - b * bendCeiling m * x / 1000"
  shows "x < bendDeadlineMs m (bendCeiling m)" "x < 25000"
proof -
  let ?c = "bendCeiling m"
  have c: "0 < ?c" "m \<le> 20 * ?c" using bendCeiling_bounds(1) [of m] ceiling_enough [OF assms(2)] by simp_all
  have "x < m / ?c * 1000 * (125 / 100)"
  proof (cases "x \<le> 0")
    case True
    have "0 < m / ?c" using assms(1) c(1) by simp
    then have "0 < m / ?c * 1000 * (125 / 100)" by simp
    with True show ?thesis by linarith
  next
    case False
    have "4 / 5 * (?c * x) \<le> b * (?c * x)" using assms(3) False c(1) by (intro mult_right_mono) auto
    then have "4 / 5 * (?c * x) < 1000 * m" using assms(4) by (simp add: algebra_simps)
    then show ?thesis using c(1) by (simp add: field_simps)
  qed
  moreover have "m / ?c \<le> 20" using c by (simp add: field_simps)
  ultimately show "x < bendDeadlineMs m ?c" "x < 25000" by (simp_all add: bendDeadlineMs_def bend_constants)
qed

text \<open>A bend that has gone on until \<open>t\<close>, with \<open>m - b c (t - t0)\<close> of the drift left, comes to its end.\<close>

lemma bend_completes:
  assumes "bending b t0 \<sigma> m s" "idle s" "\<sigma> = 1 \<or> \<sigma> = - 1" "4 / 5 \<le> b" "b \<le> 8" "0 < m" "m \<le> 3"
    and "a = m - b * bendCeiling m * of_int (t - t0) / 1000" "15 / 100 + 1 / 1000000000 < a" "t0 \<le> t"
    and "paced t rds" "\<And>rd. rd \<in> set rds \<Longrightarrow> attentive b s rd" "t0 + 25000 \<le> last (t # map rd_now rds)"
  shows "\<exists>pre post d' s'. rds = pre @ post \<and> follow b pre t (\<sigma> * a) s = (d', s') \<and> \<bar>d'\<bar> \<le> 15 / 100 + 1 / 1000000000
    \<and> unbent s' \<and> idle s' \<and> sy_out s' = sy_out s @ [SetRate b]"
  using assms
proof (induction rds arbitrary: t a s)
  case Nil
  have "of_int (t - t0) < (25000 :: rat)" using Nil.prems by (intro deadline_enough(2) [of m b]) auto
  then have "t - t0 < 25000" by linarith
  then show ?case using Nil.prems(13) by simp
next
  case (Cons rd rds)
  let ?c = "bendCeiling m"
  define x where "x = b * ?c * of_int (rd_now rd - t) / 1000"
  define a' where "a' = a - x"
  have c: "0 < ?c" "?c \<le> 15 / 100" using bendCeiling_bounds [of m] by simp_all
  have step: "0 < rd_now rd - t" "rd_now rd - t \<le> 250" "paced (rd_now rd) rds" using Cons.prems(11) by simp_all
  have "0 < b" using Cons.prems(4) by simp
  then have bc: "0 < b * ?c" "b * ?c \<le> 8 * (15 / 100)" using mult_mono [OF Cons.prems(5) c(2)] c(1) by simp_all
  have gap: "0 < of_int (rd_now rd - t) / (1000 :: rat)" "of_int (rd_now rd - t) / (1000 :: rat) \<le> 250 / 1000"
    using step(1,2) by (simp_all del: of_int_diff)
  have x: "0 < x" "x \<le> 8 * (15 / 100) * (250 / 1000)"
    unfolding x_def times_divide_eq_right [symmetric] using mult_mono [OF bc(2) gap(2)] mult_pos_pos [OF bc(1) gap(1)] gap(1) by (simp_all del: of_int_diff)
  have a': "a' = m - b * ?c * of_int (rd_now rd - t0) / 1000"
    using Cons.prems(8) by (simp add: a'_def x_def algebra_simps add_divide_distrib diff_divide_distrib)
  have drift: "\<sigma> * a - (player_rate b s - b) * of_int (rd_now rd - t) / 1000 = \<sigma> * a'"
    using Cons.prems(1) by (simp add: player_rate_def bending_def a'_def x_def algebra_simps)
  have att: "attentive b s rd" using Cons.prems(12) by simp
  show ?case
  proof (cases "\<bar>a'\<bar> \<le> 15 / 100 + 1 / 1000000000")
    case True
    then have "\<bar>\<sigma> * a'\<bar> \<le> 15 / 100 + 1 / 1000000000" using Cons.prems(3) by auto
    from bend_ends [OF att Cons.prems(2,1,3,4) this] have "follow b [rd] t (\<sigma> * a) s = (\<sigma> * a', observe rd (\<sigma> * a') s)"
      "unbent (observe rd (\<sigma> * a') s)" "idle (observe rd (\<sigma> * a') s)" "sy_out (observe rd (\<sigma> * a') s) = sy_out s @ [SetRate b]"
      by (simp_all add: drift Let_def del: of_int_diff)
    then show ?thesis
      using \<open>\<bar>\<sigma> * a'\<bar> \<le> 15 / 100 + 1 / 1000000000\<close> by (intro exI [of _ "[rd]"] exI [of _ rds]) simp
  next
    case False
    then have big: "15 / 100 + 1 / 1000000000 < a'" using Cons.prems(9) x unfolding a'_def abs_le_iff by linarith
    have le: "a' \<le> m" using big bc(1) Cons.prems(10) step(1) unfolding a' by (simp del: of_int_diff)
    have "0 < a'" using big by simp
    then have "of_int (rd_now rd - t0) < bendDeadlineMs m ?c" unfolding a' by (rule deadline_enough(1) [OF Cons.prems(6,7,4)])
    then have now: "of_int (rd_now rd) < of_int t0 + bendDeadlineMs m ?c" by simp
    let ?s = "observe rd (\<sigma> * a') s"
    note h = bend_holds [OF att Cons.prems(2,1,3) big le Cons.prems(7) now]
    have "\<exists>pre post d' s'. rds = pre @ post \<and> follow b pre (rd_now rd) (\<sigma> * a') ?s = (d', s') \<and> \<bar>d'\<bar> \<le> 15 / 100 + 1 / 1000000000
        \<and> unbent s' \<and> idle s' \<and> sy_out s' = sy_out ?s @ [SetRate b]"
    proof (rule Cons.IH [OF h(1,2) Cons.prems(3-7) a' big _ step(3)])
      show "attentive b ?s r" if "r \<in> set rds" for r using Cons.prems(12) [of r] that same_attentive [OF h(3)] by simp
    qed (use Cons.prems(10,13) step(1) in simp_all)
    then obtain pre post d' s' where "rds = pre @ post" "follow b pre (rd_now rd) (\<sigma> * a') ?s = (d', s')"
      "\<bar>d'\<bar> \<le> 15 / 100 + 1 / 1000000000" "unbent s'" "idle s'" "sy_out s' = sy_out s @ [SetRate b]" using h(4) by auto
    then show ?thesis by (intro exI [of _ "rd # pre"] exI [of _ post]) (simp add: drift Let_def del: of_int_diff)
  qed
qed

text \<open>C14.
  A viewer who has drifted is brought back without a jump. Let the player be between 0.3 and 3
  seconds off, ahead or behind, in a room that plays at a rate between 0.8 and 8, and let nothing else
  disturb it while the engine ticks at least four times a second for twenty-five seconds: then at some tick the
  drift is down to 0.15 seconds and the bend is over, and all that the player was told is one change of its rate and
  one change back to the rate of the room, and no seek.\<close>

theorem drift_is_played_off:
  assumes "idle s" "unbent s" "3 / 10 \<le> \<bar>d\<bar>" "\<bar>d\<bar> \<le> 3" "4 / 5 \<le> b" "b \<le> 8"
    and "\<And>rd. rd \<in> set (rd0 # rds) \<Longrightarrow> attentive b s rd" "paced (rd_now rd0) rds" "rd_now rd0 + 25000 \<le> rd_now (last (rd0 # rds))"
  shows "\<exists>pre post d' s'. rds = pre @ post \<and> follow b (rd0 # pre) (rd_now rd0) d s = (d', s')
    \<and> \<bar>d'\<bar> \<le> 15 / 100 + 1 / 1000000000 \<and> unbent s'
    \<and> sy_out s' = sy_out s @ [SetRate (b * (1 + sgn d * bendCeiling \<bar>d\<bar>)), SetRate b]"
proof -
  let ?s = "observe rd0 d s"
  have att: "attentive b s rd0" using assms(7) by simp
  note st = bend_starts [OF att assms(1-4)]
  have sg: "sgn d = 1 \<or> sgn d = - 1" and d: "d = sgn d * \<bar>d\<bar>" using assms(3) by (auto simp: sgn_if mult_sgn_abs)
  have "last (rd_now rd0 # map rd_now rds) = rd_now (last (rd0 # rds))" by (simp add: last_map)
  then have "\<exists>pre post d' s'. rds = pre @ post \<and> follow b pre (rd_now rd0) (sgn d * \<bar>d\<bar>) ?s = (d', s') \<and> \<bar>d'\<bar> \<le> 15 / 100 + 1 / 1000000000
      \<and> unbent s' \<and> idle s' \<and> sy_out s' = sy_out ?s @ [SetRate b]"
    using assms(3-9) st(1,2) sg
    by (intro bend_completes [of b "rd_now rd0" "sgn d" "\<bar>d\<bar>"]) (auto intro: same_attentive [OF st(3)])
  then show ?thesis using st(4) d [symmetric] by auto
qed

text \<open>Below that rate the deadline, which does not depend on it, comes first, and the viewer sees the jump after all.\<close>

definition sample_reading :: "rat \<Rightarrow> int \<Rightarrow> reading" where
  "sample_reading b t =
     \<lparr>rd_now = t, rd_state = \<lparr>ps_source = Some 1, ps_player = Some 1, ps_ready = True, ps_error = False, ps_blocked = False,
        ps_seeking = False, ps_recovering = False, ps_buffering = False, ps_bufferAhead = None, ps_live = False, ps_playing = True,
        ps_temporarySpeed = False, ps_position = Fin 100\<rparr>,
      rd_allowRateBend = None, rd_base = Some (Fin b), rd_setter = True, rd_sync = None\<rparr>"

definition sample_sync :: PlaybackSync where
  "sample_sync = createPlaybackSync\<lparr>sy_source := Some 1, sy_player := Some 1\<rparr>"

lemma slow_room_jumps:
  "sy_out (snd (follow (1 / 2) [sample_reading (1 / 2) 0, sample_reading (1 / 2) 15700] 0 1 sample_sync)) =
     [SetRate (54 / 100), SetRate (1 / 2), SeekTo 100 ''bend-deadline'' 15700]"
  by code_simp

section \<open>The properties on the sample\<close>

lemma sample_attentive: "0 < b \<Longrightarrow> attentive b sample_sync (sample_reading b t)"
  by (simp add: attentive_def sample_sync_def sample_reading_def createPlaybackSync_def canObserve_def canSeek_def getBendBase_def)

definition sample_ticks :: "nat \<Rightarrow> nat \<Rightarrow> reading list" where
  "sample_ticks i j = map (\<lambda>k. sample_reading 1 (250 * int k)) [i ..< j]"

lemma sample_paced: "i < j \<Longrightarrow> paced (250 * int i) (sample_ticks (Suc i) j)"
proof (induction "j - i" arbitrary: i)
  case (Suc n)
  show ?case
  proof (cases "Suc i < j")
    case True
    then have "sample_ticks (Suc i) j = sample_reading 1 (250 * int (Suc i)) # sample_ticks (Suc (Suc i)) j"
      by (simp add: sample_ticks_def upt_conv_Cons)
    moreover have "paced (250 * int (Suc i)) (sample_ticks (Suc (Suc i)) j)" by (rule Suc.hyps(1)) (use Suc.hyps(2) True in simp_all)
    ultimately show ?thesis by (simp add: sample_reading_def)
  qed (use Suc in \<open>simp add: sample_ticks_def\<close>)
qed simp

theorem drift_is_played_off_witness:
  "\<exists>pre d' s'. follow 1 (sample_reading 1 0 # pre) 0 2 sample_sync = (d', s') \<and> \<bar>d'\<bar> \<le> 15 / 100 + 1 / 1000000000
    \<and> sy_out s' = [SetRate (1 + 115 / 1000), SetRate 1]"
proof -
  let ?r = "sample_reading 1 0" and ?rds = "sample_ticks 1 101"
  have "idle sample_sync" "unbent sample_sync" by (simp_all add: idle_def unbent_def sample_sync_def createPlaybackSync_def)
  moreover have "attentive 1 sample_sync rd" if "rd \<in> set (?r # ?rds)" for rd
    using that sample_attentive [of 1] by (auto simp: sample_ticks_def)
  moreover have "paced (rd_now ?r) ?rds" using sample_paced [of 0 101] by (simp add: sample_reading_def)
  moreover have "rd_now ?r + 25000 \<le> rd_now (last (?r # ?rds))"
    by (simp add: sample_ticks_def last_map sample_reading_def)
  ultimately show ?thesis
    using drift_is_played_off [of sample_sync 2 1 ?r ?rds]
    by (auto simp: bendCeiling_def bend_constants sample_sync_def createPlaybackSync_def sample_reading_def)
qed

theorem local_rate_bounded_witness:
  "\<exists>(rd, ev) \<in> set [(sample_reading 1 0, SyncTick), (sample_reading 1 100, SyncTick), (sample_reading 1 100, PositionIs 0 (Some (Fin 99)))].
     \<exists>b. getBendBase rd = Some b \<and> 17 / 20 * b \<le> 27 / 25 \<and> 27 / 25 \<le> 23 / 20 * b"
proof (rule local_rate_bounded)
  show "SetRate (27 / 25) \<in> set (sy_out (foldl sync_step createPlaybackSync
      [(sample_reading 1 0, SyncTick), (sample_reading 1 100, SyncTick), (sample_reading 1 100, PositionIs 0 (Some (Fin 99)))]))"
    by code_simp
qed

end
