(* ===== verification/PlaybackReady.thy ===== *)
theory PlaybackReady
  imports RoomPlayback PlaybackConvergence
begin

text \<open>
  \<^verbatim>\<open>client/src/util/playback-preparation.ts\<close>: a viewer brings its player to the position at which a
  paused room is about to start, waits until the picture is there, and tells the room so. The
  machine is cut at every await: a tick that is under way is a \<open>flight\<close>, and the answer to what it
  waits for is an event that comes with the state of the page at that moment.
\<close>

section \<open>State\<close>

datatype preparation_phase = PhaseIdle | PhaseAligning | PhasePreparing | PhaseWaitingAck | PhaseFailed

record MediaLoadingState =
  ml_phase :: "string option"
  ml_currentTime :: "js_number option"
  ml_bufferAhead :: "rat option"

text \<open>A source is an object, compared by identity as well as by what it names.\<close>

record PreparationInput =
  pi_preparation :: "PlaybackPreparation option"
  pi_clientId :: ClientId
  pi_source :: "(nat \<times> VideoId) option"
  pi_player :: "nat option"
  pi_connected :: bool
  pi_roomPlaying :: bool
  pi_ready :: bool
  pi_playing :: bool
  pi_blocked :: bool
  pi_error :: bool
  pi_seeking :: bool
  pi_recovering :: bool
  pi_loading :: "MediaLoadingState option"
  pi_visible :: bool

record preparation_context =
  pc_preparation :: PlaybackPreparation
  pc_source :: "(nat \<times> VideoId) option"
  pc_player :: "nat option"

datatype flight_stage = ReadPosition | PauseToSeek | Seek | PauseToAck | ReadPaused

record flight =
  fl_id :: nat
  fl_generation :: nat
  fl_preparation :: PlaybackPreparation
  fl_initial :: bool
  fl_stage :: flight_stage

datatype preparation_out =
    PhaseIs preparation_phase
  | PausePlayer
  | MovePlayer rat
  | SendReady PlaybackPrepared
  | SendFailed string string

record Preparation =
  pr_context :: "preparation_context option"
  pr_phase :: preparation_phase
  pr_generation :: nat
  pr_inFlight :: "nat option"
  pr_nextFlight :: nat
  pr_flights :: "flight list"
  pr_positioned :: bool
  pr_realignments :: nat
  pr_cancelledId :: "string option"
  pr_disposed :: bool
  pr_out :: "preparation_out list"

definition createPlaybackPreparation :: Preparation where
  "createPlaybackPreparation =
     \<lparr>pr_context = None, pr_phase = PhaseIdle, pr_generation = 0, pr_inFlight = None, pr_nextFlight = 0, pr_flights = [],
      pr_positioned = False, pr_realignments = 0, pr_cancelledId = None, pr_disposed = False, pr_out = []\<rparr>"

definition POSITION_TOLERANCE :: rat where "POSITION_TOLERANCE = 1 / 4"
definition MAX_REALIGNMENTS :: nat where "MAX_REALIGNMENTS = 2"

section \<open>Whose turn it is\<close>

definition publish_phase :: "preparation_phase \<Rightarrow> Preparation \<Rightarrow> Preparation" where
  "publish_phase next s = (if pr_phase s = next then s else s\<lparr>pr_phase := next, pr_out := pr_out s @ [PhaseIs next]\<rparr>)"

definition isPreparer :: "PreparationInput \<Rightarrow> Preparation \<Rightarrow> bool" where
  "isPreparer st s \<longleftrightarrow>
     (case pi_preparation st of
        None \<Rightarrow> False
      | Some p \<Rightarrow> \<not> pr_disposed s \<and> pi_connected st \<and> pi_visible st \<and> \<not> pi_roomPlaying st \<and> pi_clientId st \<noteq> []
          \<and> Some (pp_id p) \<noteq> pr_cancelledId s \<and> pi_clientId st \<in> set (pp_eligible p)
          \<and> map_option snd (pi_source st) = Some (pp_video p) \<and> 0 \<le> pp_position p)"

definition matches :: "PreparationInput \<Rightarrow> Preparation \<Rightarrow> bool" where
  "matches st s \<longleftrightarrow> isPreparer st s \<and>
     (case (pr_context s, pi_preparation st) of
        (Some c, Some p) \<Rightarrow> pp_id (pc_preparation c) = pp_id p \<and> pp_clientId (pc_preparation c) = pi_clientId st
          \<and> pp_position (pc_preparation c) = pp_position p \<and> pc_source c = pi_source st \<and> pc_player c = pi_player st
      | _ \<Rightarrow> False)"

definition reconcile :: "PreparationInput \<Rightarrow> Preparation \<Rightarrow> Preparation" where
  "reconcile st s =
     (if matches st s then s
      else
        (let context = (if isPreparer st s
               then Some \<lparr>pc_preparation = the (pi_preparation st), pc_source = pi_source st, pc_player = pi_player st\<rparr> else None)
         in publish_phase (if context \<noteq> None then PhaseAligning else PhaseIdle)
              (s\<lparr>pr_generation := Suc (pr_generation s), pr_inFlight := None, pr_positioned := False, pr_realignments := 0,
                 pr_context := context\<rparr>)))"

definition hasFrame :: "PreparationInput \<Rightarrow> bool" where
  "hasFrame st =
     (case pi_loading st of
        None \<Rightarrow> False
      | Some l \<Rightarrow> ml_phase l = None \<and> (case ml_currentTime l of None \<Rightarrow> False | Some t \<Rightarrow> isFinite t))"

definition canPosition :: "PreparationInput \<Rightarrow> bool" where
  "canPosition st \<longleftrightarrow> pi_ready st \<and> \<not> pi_error st \<and> \<not> pi_seeking st"

definition usable :: "PreparationInput \<Rightarrow> bool" where
  "usable st \<longleftrightarrow> canPosition st \<and> \<not> pi_recovering st"

definition fail :: "PreparationInput \<Rightarrow> string \<Rightarrow> Preparation \<Rightarrow> Preparation" where
  "fail st reason s =
     (if \<not> matches st s then s
      else
        (let s1 = publish_phase PhaseFailed (s\<lparr>pr_generation := Suc (pr_generation s), pr_inFlight := None\<rparr>)
         in s1\<lparr>pr_out := pr_out s1 @ [SendFailed (pp_id (the (pi_preparation st))) reason, PausePlayer]\<rparr>))"

section \<open>The tick\<close>

definition tick_preparing :: "PreparationInput \<Rightarrow> Preparation \<Rightarrow> Preparation" where
  "tick_preparing st s =
     (let s1 = reconcile st s in
      case pr_context s1 of
        None \<Rightarrow> s1
      | Some c \<Rightarrow>
          if pr_inFlight s1 \<noteq> None \<or> pr_phase s1 = PhaseFailed \<or> pr_phase s1 = PhaseWaitingAck \<or> \<not> canPosition st
             \<or> (pr_positioned s1 \<and> (\<not> usable st \<or> \<not> hasFrame st \<or> \<not> pi_playing st \<or> pi_blocked st))
          then s1
          else s1\<lparr>pr_inFlight := Some (pr_nextFlight s1), pr_nextFlight := Suc (pr_nextFlight s1),
                  pr_flights := pr_flights s1 @ [\<lparr>fl_id = pr_nextFlight s1, fl_generation = pr_generation s1,
                    fl_preparation = pc_preparation c, fl_initial = (\<not> pr_positioned s1), fl_stage = ReadPosition\<rparr>]\<rparr>)"

text \<open>\<^verbatim>\<open>current()\<close> and \<^verbatim>\<open>canContinue()\<close> of a tick.\<close>

definition current :: "PreparationInput \<Rightarrow> flight \<Rightarrow> Preparation \<Rightarrow> bool" where
  "current st f s \<longleftrightarrow> pr_generation s = fl_generation f \<and> pr_inFlight s = Some (fl_id f) \<and> matches st s"

definition canContinue :: "PreparationInput \<Rightarrow> flight \<Rightarrow> bool" where
  "canContinue st f = (if fl_initial f then canPosition st else usable st)"

definition land :: "flight \<Rightarrow> Preparation \<Rightarrow> Preparation" where
  "land f s = (if pr_inFlight s = Some (fl_id f) then s\<lparr>pr_inFlight := None\<rparr> else s)"

definition proceed :: "flight \<Rightarrow> flight_stage \<Rightarrow> Preparation \<Rightarrow> Preparation" where
  "proceed f stage s = s\<lparr>pr_flights := pr_flights s @ [f\<lparr>fl_stage := stage\<rparr>]\<rparr>"

definition crash :: "PreparationInput \<Rightarrow> flight \<Rightarrow> string \<Rightarrow> Preparation \<Rightarrow> Preparation" where
  "crash st f reason s = land f (if current st f s then fail st reason s else s)"

definition off_target :: "flight \<Rightarrow> rat \<Rightarrow> bool" where
  "off_target f position \<longleftrightarrow> POSITION_TOLERANCE < \<bar>position - pp_position (fl_preparation f)\<bar>"

definition source_service :: "PreparationInput \<Rightarrow> string" where
  "source_service st = (case pi_source st of None \<Rightarrow> [] | Some (_, video) \<Rightarrow> fst video)"

text \<open>The position of the player is known.\<close>

definition got_position :: "PreparationInput \<Rightarrow> flight \<Rightarrow> js_number \<Rightarrow> Preparation \<Rightarrow> Preparation" where
  "got_position st f position s =
     (if \<not> current st f s \<or> \<not> canContinue st f then land f s
      else case position of
          Fin x \<Rightarrow>
            if x < 0 then crash st f ''The player did not report a valid preparation position'' s
            else if off_target f x
            then (let s1 = (if pr_positioned s then s\<lparr>pr_realignments := Suc (pr_realignments s)\<rparr> else s)
                  in if pr_positioned s \<and> MAX_REALIGNMENTS \<le> pr_realignments s
                     then crash st f ''The first visible frame repeatedly missed the saved position'' s1
                     else (let s2 = publish_phase PhaseAligning s1
                           in proceed f PauseToSeek (s2\<lparr>pr_out := pr_out s2 @ [PausePlayer]\<rparr>)))
            else
              (let s1 = publish_phase PhasePreparing (s\<lparr>pr_positioned := True\<rparr>) in
               if \<not> usable st \<or> \<not> pi_playing st \<or> pi_blocked st \<or> \<not> hasFrame st then land f s1
               else if (case Option.bind (pi_loading st) ml_bufferAhead of
                          None \<Rightarrow> False
                        | Some ahead \<Rightarrow> ahead < playbackReadyBufferSeconds (source_service st))
               then land f s1
               else (let s2 = publish_phase PhaseWaitingAck s1
                     in proceed f PauseToAck (s2\<lparr>pr_out := pr_out s2 @ [PausePlayer]\<rparr>)))
        | _ \<Rightarrow> crash st f ''The player did not report a valid preparation position'' s)"

definition paused_to_seek :: "PreparationInput \<Rightarrow> flight \<Rightarrow> Preparation \<Rightarrow> Preparation" where
  "paused_to_seek st f s =
     (if \<not> current st f s \<or> \<not> canContinue st f then land f s
      else proceed f Seek (s\<lparr>pr_out := pr_out s @ [MovePlayer (pp_position (fl_preparation f))]\<rparr>))"

definition has_sought :: "PreparationInput \<Rightarrow> flight \<Rightarrow> Preparation \<Rightarrow> Preparation" where
  "has_sought st f s =
     (if \<not> current st f s then land f s else land f (publish_phase PhasePreparing (s\<lparr>pr_positioned := True\<rparr>)))"

text \<open>The check after each of the last two awaits.\<close>

definition withdraw :: "PreparationInput \<Rightarrow> flight \<Rightarrow> Preparation \<Rightarrow> Preparation" where
  "withdraw st f s = land f (if current st f s then publish_phase PhasePreparing s else s)"

definition paused_to_ack :: "PreparationInput \<Rightarrow> flight \<Rightarrow> Preparation \<Rightarrow> Preparation" where
  "paused_to_ack st f s =
     (if \<not> current st f s \<or> \<not> usable st \<or> pi_blocked st then withdraw st f s else proceed f ReadPaused s)"

definition got_paused_position :: "PreparationInput \<Rightarrow> flight \<Rightarrow> js_number \<Rightarrow> Preparation \<Rightarrow> Preparation" where
  "got_paused_position st f position s =
     (if \<not> current st f s \<or> \<not> usable st \<or> pi_blocked st then withdraw st f s
      else case position of
          Fin x \<Rightarrow>
            if off_target f x then land f (publish_phase PhasePreparing s)
            else land f (s\<lparr>pr_out := pr_out s @
                   [SendReady \<lparr>pd_id = pp_id (fl_preparation f), pd_position = Fin x,
                      pd_bufferAhead = Option.bind (pi_loading st) ml_bufferAhead, pd_firstFrame = Some True,
                      pd_visible = (if pi_visible st then None else Some False), pd_failed = None\<rparr>]\<rparr>)
        | _ \<Rightarrow> land f (publish_phase PhasePreparing s))"

text \<open>What an await gives: a position, the end of a pause or a seek, or a failure.\<close>

datatype await_answer = Position js_number | Done | Failed string

definition resume_flight :: "PreparationInput \<Rightarrow> nat \<Rightarrow> await_answer \<Rightarrow> Preparation \<Rightarrow> Preparation" where
  "resume_flight st i answer s =
     (case find (\<lambda>f. fl_id f = i) (pr_flights s) of
        None \<Rightarrow> s
      | Some f \<Rightarrow>
          (let s1 = s\<lparr>pr_flights := filter (\<lambda>f. fl_id f \<noteq> i) (pr_flights s)\<rparr> in
           case (answer, fl_stage f) of
             (Failed reason, _) \<Rightarrow> crash st f reason s1
           | (Position x, ReadPosition) \<Rightarrow> got_position st f x s1
           | (Done, PauseToSeek) \<Rightarrow> paused_to_seek st f s1
           | (Done, Seek) \<Rightarrow> has_sought st f s1
           | (Done, PauseToAck) \<Rightarrow> paused_to_ack st f s1
           | (Position x, ReadPaused) \<Rightarrow> got_paused_position st f x s1
           | _ \<Rightarrow> s))"

definition retry :: "PreparationInput \<Rightarrow> Preparation \<Rightarrow> Preparation" where
  "retry st s =
     (let s1 = reconcile st s in
      if pr_context s1 = None then s1
      else publish_phase PhaseAligning
             (s1\<lparr>pr_generation := Suc (pr_generation s1), pr_inFlight := None, pr_positioned := False, pr_realignments := 0\<rparr>))"

definition cancel :: "PreparationInput \<Rightarrow> Preparation \<Rightarrow> Preparation" where
  "cancel st s = reconcile st (s\<lparr>pr_cancelledId := map_option pp_id (pi_preparation st)\<rparr>)"

definition dispose_preparation :: "PreparationInput \<Rightarrow> Preparation \<Rightarrow> Preparation" where
  "dispose_preparation st s = reconcile st (s\<lparr>pr_disposed := True\<rparr>)"

datatype preparation_event = PrepTick | Answer nat await_answer | Retry | Cancel | PrepFail string | PrepDispose

definition preparation_step :: "Preparation \<Rightarrow> PreparationInput \<times> preparation_event \<Rightarrow> Preparation" where
  "preparation_step s se = (case se of (st, ev) \<Rightarrow>
     (case ev of
        PrepTick \<Rightarrow> tick_preparing st s
      | Answer i answer \<Rightarrow> resume_flight st i answer s
      | Retry \<Rightarrow> retry st s
      | Cancel \<Rightarrow> cancel st s
      | PrepFail reason \<Rightarrow> fail st reason s
      | PrepDispose \<Rightarrow> dispose_preparation st s))"

section \<open>What is sent\<close>

definition ready_reports :: "preparation_out list \<Rightarrow> PlaybackPrepared list" where
  "ready_reports out = List.map_filter (\<lambda>x. case x of SendReady pd \<Rightarrow> Some pd | _ \<Rightarrow> None) out"

lemma ready_reports_simps [simp]:
  "ready_reports [] = []" "ready_reports (xs @ ys) = ready_reports xs @ ready_reports ys"
  "ready_reports (PhaseIs p # xs) = ready_reports xs" "ready_reports (PausePlayer # xs) = ready_reports xs"
  "ready_reports (MovePlayer x # xs) = ready_reports xs" "ready_reports (SendFailed i r # xs) = ready_reports xs"
  "ready_reports (SendReady pd # xs) = pd # ready_reports xs"
  by (simp_all add: ready_reports_def List.map_filter_def)

lemma publish_reports [simp]: "ready_reports (pr_out (publish_phase p s)) = ready_reports (pr_out s)"
  by (simp add: publish_phase_def)

lemma land_out [simp]: "pr_out (land f s) = pr_out s"
  by (simp add: land_def)

lemma reconcile_reports [simp]: "ready_reports (pr_out (reconcile st s)) = ready_reports (pr_out s)"
  by (simp add: reconcile_def Let_def)

lemma fail_reports [simp]: "ready_reports (pr_out (fail st reason s)) = ready_reports (pr_out s)"
  by (simp add: fail_def Let_def)

lemma crash_reports [simp]: "ready_reports (pr_out (crash st f reason s)) = ready_reports (pr_out s)"
  by (simp add: crash_def)

lemma proceed_out [simp]: "pr_out (proceed f g s) = pr_out s"
  by (simp add: proceed_def)

lemma got_position_reports [simp]: "ready_reports (pr_out (got_position st f x s)) = ready_reports (pr_out s)"
  by (simp add: got_position_def Let_def split: js_number.split option.split)

lemma other_reports [simp]:
  "ready_reports (pr_out (paused_to_seek st f s)) = ready_reports (pr_out s)" "ready_reports (pr_out (has_sought st f s)) = ready_reports (pr_out s)"
  "ready_reports (pr_out (withdraw st f s)) = ready_reports (pr_out s)" "ready_reports (pr_out (paused_to_ack st f s)) = ready_reports (pr_out s)"
  "ready_reports (pr_out (tick_preparing st s)) = ready_reports (pr_out s)" "ready_reports (pr_out (retry st s)) = ready_reports (pr_out s)"
  "ready_reports (pr_out (cancel st s)) = ready_reports (pr_out s)" "ready_reports (pr_out (dispose_preparation st s)) = ready_reports (pr_out s)"
  by (simp_all add: paused_to_seek_def has_sought_def withdraw_def paused_to_ack_def tick_preparing_def retry_def cancel_def
      dispose_preparation_def Let_def split: option.split)

section \<open>A report is true\<close>

definition report :: "PreparationInput \<Rightarrow> flight \<Rightarrow> rat \<Rightarrow> PlaybackPrepared" where
  "report st f x =
     \<lparr>pd_id = pp_id (fl_preparation f), pd_position = Fin x, pd_bufferAhead = Option.bind (pi_loading st) ml_bufferAhead,
      pd_firstFrame = Some True, pd_visible = (if pi_visible st then None else Some False), pd_failed = None\<rparr>"

lemma paused_reports:
  "ready_reports (pr_out (got_paused_position st f position s)) = ready_reports (pr_out s)
   \<or> (\<exists>x. position = Fin x \<and> current st f s \<and> usable st \<and> \<not> pi_blocked st \<and> \<not> off_target f x
        \<and> ready_reports (pr_out (got_paused_position st f position s)) = ready_reports (pr_out s) @ [report st f x])"
  by (cases position) (simp_all add: got_paused_position_def report_def)

lemma matches_cong:
  "pr_disposed s' = pr_disposed s \<Longrightarrow> pr_cancelledId s' = pr_cancelledId s \<Longrightarrow> pr_context s' = pr_context s \<Longrightarrow> matches st s' = matches st s"
  by (cases "pi_preparation st") (simp_all add: matches_def isPreparer_def)

lemma current_flights [simp]: "current st f (s\<lparr>pr_flights := fs\<rparr>) = current st f s"
  by (simp add: current_def matches_cong [of "s\<lparr>pr_flights := fs\<rparr>" s])

lemma step_reports:
  assumes "ready_reports (pr_out (preparation_step s (st, ev))) \<noteq> ready_reports (pr_out s)"
  obtains f x where "f \<in> set (pr_flights s)" "current st f s" "usable st" "\<not> pi_blocked st" "\<not> off_target f x"
    "ready_reports (pr_out (preparation_step s (st, ev))) = ready_reports (pr_out s) @ [report st f x]"
proof -
  obtain i a where ev: "ev = Answer i a" using assms by (cases ev) (simp_all add: preparation_step_def)
  obtain f where f: "find (\<lambda>f. fl_id f = i) (pr_flights s) = Some f"
    using assms by (cases "find (\<lambda>f. fl_id f = i) (pr_flights s)") (simp_all add: ev preparation_step_def resume_flight_def)
  let ?s = "s\<lparr>pr_flights := filter (\<lambda>f. fl_id f \<noteq> i) (pr_flights s)\<rparr>"
  obtain p where p: "a = Position p" "fl_stage f = ReadPaused"
    using assms f by (cases a; cases "fl_stage f") (simp_all add: ev preparation_step_def resume_flight_def Let_def)
  have "preparation_step s (st, ev) = got_paused_position st f p ?s"
    using f p by (simp add: ev preparation_step_def resume_flight_def)
  moreover have "f \<in> set (pr_flights s)" using f by (auto simp: find_Some_iff)
  ultimately show thesis using that [of f] assms paused_reports [of st f p ?s] by auto
qed

text \<open>A tick that is under way and not outdated works for the preparation at hand.\<close>

definition flights_inv :: "Preparation \<Rightarrow> bool" where
  "flights_inv s \<longleftrightarrow> (\<forall>f \<in> set (pr_flights s). fl_generation f \<le> pr_generation s
     \<and> (fl_generation f = pr_generation s \<longrightarrow> map_option pc_preparation (pr_context s) = Some (fl_preparation f)))"

lemma flights_frame:
  "flights_inv s \<Longrightarrow> set (pr_flights s') \<subseteq> set (pr_flights s) \<Longrightarrow>
    pr_generation s < pr_generation s' \<or> pr_generation s' = pr_generation s \<and> pr_context s' = pr_context s \<Longrightarrow> flights_inv s'"
  by (fastforce simp: flights_inv_def)

lemma publish_frame [simp]:
  "pr_flights (publish_phase p s) = pr_flights s" "pr_generation (publish_phase p s) = pr_generation s"
  "pr_context (publish_phase p s) = pr_context s" "pr_inFlight (publish_phase p s) = pr_inFlight s"
  "pr_nextFlight (publish_phase p s) = pr_nextFlight s" "pr_positioned (publish_phase p s) = pr_positioned s"
  "pr_realignments (publish_phase p s) = pr_realignments s" "pr_disposed (publish_phase p s) = pr_disposed s"
  "pr_cancelledId (publish_phase p s) = pr_cancelledId s" "pr_phase (publish_phase p s) = p"
  by (auto simp: publish_phase_def)

lemma land_frame [simp]:
  "pr_flights (land f s) = pr_flights s" "pr_generation (land f s) = pr_generation s" "pr_context (land f s) = pr_context s"
  "pr_nextFlight (land f s) = pr_nextFlight s" "pr_positioned (land f s) = pr_positioned s" "pr_realignments (land f s) = pr_realignments s"
  "pr_disposed (land f s) = pr_disposed s" "pr_cancelledId (land f s) = pr_cancelledId s" "pr_phase (land f s) = pr_phase s"
  by (simp_all add: land_def)

lemma reconcile_flights: "flights_inv s \<Longrightarrow> flights_inv (reconcile st s)"
  by (erule flights_frame) (simp_all add: reconcile_def Let_def)

lemma tick_flights: "flights_inv s \<Longrightarrow> flights_inv (tick_preparing st s)"
  using reconcile_flights [of s st] by (auto simp: tick_preparing_def flights_inv_def Let_def split: option.split)

lemma fail_flights: "flights_inv s \<Longrightarrow> flights_inv (fail st reason s)"
  by (erule flights_frame) (simp_all add: fail_def Let_def)

lemma crash_flights: "flights_inv s \<Longrightarrow> flights_inv (crash st f reason s)"
proof -
  assume "flights_inv s"
  moreover have "flights_inv (land f s')" if "flights_inv s'" for s' using that by (rule flights_frame) simp_all
  ultimately show ?thesis using fail_flights by (simp add: crash_def)
qed

text \<open>The flight that was taken out may be put back at another stage.\<close>

lemma proceed_flights:
  assumes "flights_inv s" "flights_inv (s\<lparr>pr_flights := [f]\<rparr>)"
  shows "flights_inv (proceed f g s)"
  using assms by (auto simp: flights_inv_def proceed_def)

lemma same_flights:
  "flights_inv s \<Longrightarrow> pr_flights s' = pr_flights s \<Longrightarrow> pr_generation s' = pr_generation s \<Longrightarrow> pr_context s' = pr_context s \<Longrightarrow> flights_inv s'"
  by (erule flights_frame) simp_all

lemma handler_flights:
  assumes "flights_inv s" "flights_inv (s\<lparr>pr_flights := [f]\<rparr>)"
  shows "flights_inv (got_position st f x s)" "flights_inv (paused_to_seek st f s)" "flights_inv (has_sought st f s)"
    "flights_inv (paused_to_ack st f s)" "flights_inv (got_paused_position st f x s)"
proof -
  have keep: "flights_inv s'" if "pr_flights s' = pr_flights s" "pr_generation s' = pr_generation s" "pr_context s' = pr_context s" for s'
    using same_flights [OF assms(1) that] .
  have again: "flights_inv (proceed f g s')" if "pr_flights s' = pr_flights s" "pr_generation s' = pr_generation s" "pr_context s' = pr_context s" for s' g
    by (rule proceed_flights [OF keep [OF that]], rule same_flights [OF assms(2)]) (use that in simp_all)
  have crashed: "flights_inv (crash st f r s')" if "pr_flights s' = pr_flights s" "pr_generation s' = pr_generation s" "pr_context s' = pr_context s" for s' r
    using crash_flights [OF keep [OF that]] .
  show "flights_inv (got_position st f x s)"
    unfolding got_position_def Let_def by (auto intro!: keep again crashed split: js_number.split option.split)
  show "flights_inv (paused_to_seek st f s)" "flights_inv (has_sought st f s)" "flights_inv (paused_to_ack st f s)"
    unfolding paused_to_seek_def has_sought_def paused_to_ack_def withdraw_def by (auto intro!: keep again)
  show "flights_inv (got_paused_position st f x s)"
    unfolding got_paused_position_def withdraw_def by (auto intro!: keep split: js_number.split)
qed

lemma resume_flights:
  assumes "flights_inv s"
  shows "flights_inv (resume_flight st i a s)"
proof (cases "find (\<lambda>f. fl_id f = i) (pr_flights s)")
  case (Some f)
  let ?s = "s\<lparr>pr_flights := filter (\<lambda>f. fl_id f \<noteq> i) (pr_flights s)\<rparr>"
  have rest: "flights_inv ?s" using assms by (rule flights_frame) auto
  have "f \<in> set (pr_flights s)" using Some by (auto simp: find_Some_iff)
  then have "flights_inv (?s\<lparr>pr_flights := [f]\<rparr>)" using assms by (simp add: flights_inv_def)
  from handler_flights [OF rest this] show ?thesis
    using Some assms crash_flights [OF rest] by (cases a; cases "fl_stage f") (simp_all add: resume_flight_def Let_def)
qed (use assms in \<open>simp add: resume_flight_def\<close>)

interpretation flights_machine: invariant_machine preparation_step flights_inv "\<lambda>_. True"
proof
  fix s and se :: "PreparationInput \<times> preparation_event"
  assume s: "flights_inv s"
  obtain st ev where se: "se = (st, ev)" by fastforce
  have up: "flights_inv (s'\<lparr>pr_cancelledId := x\<rparr>)" "flights_inv (s'\<lparr>pr_disposed := True\<rparr>)"
    "flights_inv (publish_phase PhaseAligning (s'\<lparr>pr_generation := Suc (pr_generation s'), pr_inFlight := None, pr_positioned := False, pr_realignments := 0\<rparr>))"
    if "flights_inv s'" for s' x
    using that by (auto intro: flights_frame)
  show "flights_inv (preparation_step s se)"
    unfolding se using s up reconcile_flights [of _ st]
    by (cases ev) (auto simp: preparation_step_def retry_def cancel_def dispose_preparation_def tick_flights resume_flights fail_flights Let_def)
qed

text \<open>What is known when a report goes out.\<close>

lemma report_facts:
  assumes "s = foldl preparation_step createPlaybackPreparation es"
    and "ready_reports (pr_out (preparation_step s (st, ev))) = ready_reports (pr_out s) @ pds" "pd \<in> set pds"
  obtains p f x where "pi_preparation st = Some p" "isPreparer st s" "pp_id (fl_preparation f) = pp_id p"
    "pp_position (fl_preparation f) = pp_position p" "usable st" "\<not> pi_blocked st" "\<not> off_target f x" "pd = report st f x"
proof -
  have "flights_inv s" unfolding assms(1)
    by (rule flights_machine.run_inv) (simp_all add: flights_inv_def createPlaybackPreparation_def list_all_iff)
  moreover have "ready_reports (pr_out (preparation_step s (st, ev))) \<noteq> ready_reports (pr_out s)" using assms(2,3) by auto
  then obtain f x where f: "f \<in> set (pr_flights s)" "current st f s" "usable st" "\<not> pi_blocked st" "\<not> off_target f x"
    "ready_reports (pr_out (preparation_step s (st, ev))) = ready_reports (pr_out s) @ [report st f x]" by (rule step_reports)
  ultimately have "map_option pc_preparation (pr_context s) = Some (fl_preparation f)" by (auto simp: flights_inv_def current_def)
  then obtain p where p: "pi_preparation st = Some p" "isPreparer st s" "pp_id (fl_preparation f) = pp_id p"
    "pp_position (fl_preparation f) = pp_position p"
    using f(2) by (auto simp: current_def matches_def split: option.splits)
  moreover have "pd = report st f x" using assms(2,3) f(6) by auto
  ultimately show thesis using that f(3-5) by blast
qed


end
