(* ===== verification/PlaybackRound.thy ===== *)
theory PlaybackRound
  imports PlaybackReady RoomTiming
begin

text \<open>
  A round of preparation as a whole: the viewer gives up after a bounded number of attempts, the
  room counts what it reports, and which viewers never get so far.
\<close>

section \<open>Who can report\<close>

text \<open>The context of a viewer other than the one the preparation names first never counts as its own.\<close>

definition not_first :: "ClientId \<Rightarrow> Preparation \<Rightarrow> bool" where
  "not_first c s \<longleftrightarrow> (\<forall>k. pr_context s = Some k \<longrightarrow> pp_clientId (pc_preparation k) \<noteq> c)"

definition fellow :: "ClientId \<Rightarrow> PreparationInput \<Rightarrow> bool" where
  "fellow c st \<longleftrightarrow> pi_clientId st = c \<and> (\<forall>p. pi_preparation st = Some p \<longrightarrow> pp_clientId p \<noteq> c)"

lemma not_first_no_match: "not_first c s \<Longrightarrow> fellow c st \<Longrightarrow> \<not> matches st s"
  by (auto simp: not_first_def fellow_def matches_def split: option.splits)

lemma not_first_frame: "not_first c s \<Longrightarrow> pr_context s' = pr_context s \<Longrightarrow> not_first c s'"
  by (simp add: not_first_def)

lemma not_first_reconcile: "not_first c s \<Longrightarrow> fellow c st \<Longrightarrow> not_first c (reconcile st s)"
  by (auto simp: reconcile_def not_first_def fellow_def isPreparer_def Let_def split: option.splits)

lemma proceed_frame [simp]:
  "pr_context (proceed f g s) = pr_context s" "pr_generation (proceed f g s) = pr_generation s" "pr_inFlight (proceed f g s) = pr_inFlight s"
  "pr_nextFlight (proceed f g s) = pr_nextFlight s" "pr_positioned (proceed f g s) = pr_positioned s"
  "pr_realignments (proceed f g s) = pr_realignments s" "pr_phase (proceed f g s) = pr_phase s" "pr_disposed (proceed f g s) = pr_disposed s"
  "pr_cancelledId (proceed f g s) = pr_cancelledId s"
  by (simp_all add: proceed_def)

lemma fail_frame [simp]:
  "pr_context (fail st r s) = pr_context s" "pr_disposed (fail st r s) = pr_disposed s" "pr_cancelledId (fail st r s) = pr_cancelledId s"
  "pr_flights (fail st r s) = pr_flights s" "pr_nextFlight (fail st r s) = pr_nextFlight s"
  by (simp_all add: fail_def Let_def)

text \<open>What an answer to a tick leaves as it is.\<close>

definition answered :: "flight \<Rightarrow> Preparation \<Rightarrow> Preparation \<Rightarrow> bool" where
  "answered f s s' \<longleftrightarrow> pr_nextFlight s' = pr_nextFlight s \<and> pr_context s' = pr_context s \<and> pr_disposed s' = pr_disposed s \<and> pr_cancelledId s' = pr_cancelledId s
     \<and> (\<forall>g \<in> set (pr_flights s'). g \<in> set (pr_flights s) \<or> fl_id g = fl_id f \<and> fl_generation g = fl_generation f)
     \<and> (pr_inFlight s' = None \<or> pr_inFlight s' = pr_inFlight s \<and> pr_generation s' = pr_generation s)
     \<and> (pr_phase s' = PhaseFailed \<longrightarrow> pr_inFlight s' = None \<or> pr_phase s = PhaseFailed)"

lemma handler_answered:
  "answered f s (crash st f r s)" "answered f s (got_position st f x s)" "answered f s (paused_to_seek st f s)"
  "answered f s (has_sought st f s)" "answered f s (paused_to_ack st f s)" "answered f s (got_paused_position st f x s)"
proof -
  have land: "answered f s (land f s')" if "answered f s s'" for s' using that by (auto simp: answered_def land_def)
  have crash: "answered f s (crash st f r s')" if "answered f s s'" for s' r
    using that by (auto simp: crash_def answered_def land_def fail_def Let_def)
  have proceed: "answered f s (proceed f g s')" if "answered f s s'" for s' g using that by (auto simp: answered_def proceed_def)
  have up: "answered f s (publish_phase p s')" if "answered f s s'" "p \<noteq> PhaseFailed" for s' p using that by (auto simp: answered_def)
  have self: "answered f s s" "answered f s (s\<lparr>pr_out := out\<rparr>)" "answered f s (s\<lparr>pr_positioned := True\<rparr>)" "answered f s (s\<lparr>pr_realignments := n\<rparr>)" for out n
    by (simp_all add: answered_def)
  have say: "answered f s (s'\<lparr>pr_out := out\<rparr>)" if "answered f s s'" for s' out using that by (simp add: answered_def)
  show "answered f s (crash st f r s)" by (intro crash self)
  show "answered f s (got_position st f x s)" unfolding got_position_def Let_def
    by (auto intro!: land crash proceed say up self split: js_number.split option.split)
  show "answered f s (paused_to_seek st f s)" "answered f s (has_sought st f s)" "answered f s (paused_to_ack st f s)"
    unfolding paused_to_seek_def has_sought_def paused_to_ack_def withdraw_def by (auto intro!: land proceed say up self)
  show "answered f s (got_paused_position st f x s)"
    unfolding got_paused_position_def withdraw_def by (auto intro!: land say up self split: js_number.split)
qed

lemma resume_answered:
  assumes "find (\<lambda>f. fl_id f = i) (pr_flights s) = Some f"
  shows "resume_flight st i a s = s \<or> answered f (s\<lparr>pr_flights := filter (\<lambda>f. fl_id f \<noteq> i) (pr_flights s)\<rparr>) (resume_flight st i a s)"
  using assms by (cases a; cases "fl_stage f") (simp_all add: resume_flight_def handler_answered)

lemma resume_frame [simp]:
  "pr_context (resume_flight st i a s) = pr_context s" "pr_disposed (resume_flight st i a s) = pr_disposed s"
  "pr_cancelledId (resume_flight st i a s) = pr_cancelledId s"
proof -
  have "resume_flight st i a s = s \<or> (\<exists>f. answered f (s\<lparr>pr_flights := filter (\<lambda>f. fl_id f \<noteq> i) (pr_flights s)\<rparr>) (resume_flight st i a s))"
  proof (cases "find (\<lambda>f. fl_id f = i) (pr_flights s)")
    case None
    then show ?thesis by (simp add: resume_flight_def)
  next
    case (Some f)
    from resume_answered [OF this] show ?thesis by blast
  qed
  then show "pr_context (resume_flight st i a s) = pr_context s" "pr_disposed (resume_flight st i a s) = pr_disposed s"
    "pr_cancelledId (resume_flight st i a s) = pr_cancelledId s" by (auto simp: answered_def)
qed

interpretation fellow_machine: invariant_machine preparation_step "not_first c" "\<lambda>se. fellow c (fst se)" for c
proof
  fix s and se :: "PreparationInput \<times> preparation_event"
  assume h: "not_first c s" "fellow c (fst se)"
  obtain st ev where se: "se = (st, ev)" by fastforce
  have rec: "not_first c (reconcile st s')" if "pr_context s' = pr_context s" for s'
    using not_first_reconcile [OF not_first_frame [OF h(1) that]] h(2) se by simp
  have tick: "pr_context (tick_preparing st s) = pr_context (reconcile st s)" "pr_context (retry st s) = pr_context (reconcile st s)"
    by (simp_all add: tick_preparing_def retry_def Let_def split: option.split)
  show "not_first c (preparation_step s se)"
    unfolding se using h(1) rec [of s] not_first_frame [OF rec [of s] tick(1)] not_first_frame [OF rec [of s] tick(2)]
    by (cases ev) (auto simp: preparation_step_def cancel_def dispose_preparation_def intro: rec not_first_frame)
qed

text \<open>
  Every eligible viewer has to report before the room starts without waiting for a deadline, but only the first of
  them can: for the others the machine takes its own context for somebody else's and starts over at every tick.
\<close>

lemma fellow_viewer_never_ready:
  assumes "list_all (\<lambda>se. fellow c (fst se)) es"
  shows "ready_reports (pr_out (foldl preparation_step createPlaybackPreparation es)) = []"
  using assms
proof (induction es rule: rev_induct)
  case (snoc se es)
  obtain st ev where se: "se = (st, ev)" by fastforce
  let ?s = "foldl preparation_step createPlaybackPreparation es"
  have "not_first c ?s" by (rule fellow_machine.run_inv) (use snoc in \<open>simp_all add: not_first_def createPlaybackPreparation_def\<close>)
  then have "\<not> matches st ?s" using not_first_no_match snoc.prems se by auto
  then have "ready_reports (pr_out (preparation_step ?s (st, ev))) = ready_reports (pr_out ?s)"
    by (metis current_def step_reports)
  then show ?case using snoc se by simp
qed (simp add: createPlaybackPreparation_def)

section \<open>The room counts a report\<close>

lemma scheduled:
  assumes "playbackPreparation r = Some p" "cid \<in> set (map rd_clientId (pp_ready p))"
  shows "case playbackPreparation (schedulePlaybackStart t fb r) of
      Some p' \<Rightarrow> cid \<in> set (map rd_clientId (pp_ready p')) | None \<Rightarrow> isPlaying (schedulePlaybackStart t fb r)"
  using assms by (simp add: schedulePlaybackStart_def startPreparedPlayback_def markDirty_def set_isPlaying_def set_playbackPosition_def
      clearPlaybackStartTimer_def Let_def)

text \<open>C16.
  What a viewer reports, the room counts. Let the room wait with the preparation that the viewer's page shows, at its
  position and with its video, and let the viewer still be one of those it waits for: then a report that the viewer sends,
  with enough in its buffer and at a position that is not negative, is recorded for this viewer, or it was the last
  one and the room plays.\<close>

theorem ready_report_counts:
  assumes "s = foldl preparation_step createPlaybackPreparation es"
    and "ready_reports (pr_out (preparation_step s (st, ev))) = ready_reports (pr_out s) @ pds" "pd \<in> set pds"
    and "playbackPreparation r = Some p" "pi_preparation st = Some p" "pi_clientId st \<in> set (playbackEligibleIds r p)"
    and "map_option video_id (currentSource r) = Some (pp_video p)" "playbackPosition r = pp_position p" "\<not> isPlaying r"
    and "readyBufferIsEnough p pd" "\<forall>x. pd_position pd = Fin x \<longrightarrow> 0 \<le> x"
  shows "case playbackPreparation (finishPlaybackPreparation t (pi_clientId st) (Some StatusReady) (Some pd) r) of
      Some p' \<Rightarrow> pi_clientId st \<in> set (map rd_clientId (pp_ready p'))
    | None \<Rightarrow> isPlaying (finishPlaybackPreparation t (pi_clientId st) (Some StatusReady) (Some pd) r)"
proof -
  let ?c = "pi_clientId st"
  obtain f x where "pd_id pd = pp_id p" "pd_position pd = Fin x" "\<bar>x - pp_position p\<bar> \<le> 1 / 4"
    "pd_firstFrame pd = Some True" "pd_visible pd = None" "pd_failed pd = None"
    using report_facts [OF assms(1-3)] assms(5) by (fastforce simp: report_def off_target_def POSITION_TOLERANCE_def isPreparer_def)
  moreover define p1 where "p1 = p\<lparr>pp_ready := filter (\<lambda>rd. rd_clientId rd \<noteq> ?c) (pp_ready p)
      @ [\<lparr>rd_clientId = ?c, rd_firstFrame = True, rd_bufferAhead = pd_bufferAhead pd, rd_at = t\<rparr>]\<rparr>"
  moreover define r1 where "r1 = markDirty PplaybackPreparation (r\<lparr>playbackPreparation := Some p1\<rparr>)"
  ultimately have room: "finishPlaybackPreparation t ?c (Some StatusReady) (Some pd) r
      = (if allEligibleReady r1 p1 then schedulePlaybackStart t None r1 else r1)"
    using assms(4-11) by (auto simp: finishPlaybackPreparation_def Let_def)
  have r1: "playbackPreparation r1 = Some p1" "?c \<in> set (map rd_clientId (pp_ready p1))"
    by (simp_all add: r1_def p1_def markDirty_def)
  show ?thesis unfolding room using scheduled [OF r1, of t None] r1 by (cases "allEligibleReady r1 p1") simp_all
qed

section \<open>The attempts are bounded\<close>

definition moves :: "preparation_out list \<Rightarrow> nat" where
  "moves out = length (filter (\<lambda>x. case x of MovePlayer _ \<Rightarrow> True | _ \<Rightarrow> False) out)"

lemma moves_simps [simp]:
  "moves [] = 0" "moves (xs @ ys) = moves xs + moves ys" "moves (PhaseIs p # xs) = moves xs" "moves (PausePlayer # xs) = moves xs"
  "moves (MovePlayer x # xs) = Suc (moves xs)" "moves (SendFailed i r # xs) = moves xs" "moves (SendReady pd # xs) = moves xs"
  by (simp_all add: moves_def)

lemma publish_moves [simp]: "moves (pr_out (publish_phase p s)) = moves (pr_out s)"
  by (simp add: publish_phase_def)

text \<open>The stage of the tick under way, and how many times the player may still be moved from there.\<close>

definition stage_of :: "Preparation \<Rightarrow> flight_stage option" where
  "stage_of s = Option.bind (pr_inFlight s) (\<lambda>i. map_option fl_stage (find (\<lambda>f. fl_id f = i) (pr_flights s)))"

definition budget :: "preparation_phase \<Rightarrow> bool \<Rightarrow> nat \<Rightarrow> flight_stage option \<Rightarrow> nat" where
  "budget phase positioned realignments stage =
     (if phase = PhaseFailed then 0
      else if \<not> positioned then (if stage = Some Seek then MAX_REALIGNMENTS else Suc MAX_REALIGNMENTS)
      else MAX_REALIGNMENTS - realignments + (if stage = Some PauseToSeek then 1 else 0))"

definition rank :: "Preparation \<Rightarrow> nat" where
  "rank s = moves (pr_out s) + budget (pr_phase s) (pr_positioned s) (pr_realignments s) (stage_of s)"

definition flights_wf :: "Preparation \<Rightarrow> bool" where
  "flights_wf s \<longleftrightarrow> (\<forall>f \<in> set (pr_flights s). fl_id f < pr_nextFlight s \<and> (pr_inFlight s = Some (fl_id f) \<longrightarrow> fl_generation f = pr_generation s))
     \<and> (pr_phase s = PhaseFailed \<longrightarrow> pr_inFlight s = None)"

lemma stage_of_land [simp]: "stage_of (land f s) = (if pr_inFlight s = Some (fl_id f) then None else stage_of s)"
  by (simp add: stage_of_def land_def)

lemma stage_of_cong: "pr_inFlight s' = pr_inFlight s \<Longrightarrow> pr_flights s' = pr_flights s \<Longrightarrow> stage_of s' = stage_of s"
  by (simp add: stage_of_def)

lemma find_skip: "\<forall>f \<in> set fs. fl_id f \<noteq> i \<Longrightarrow> find (\<lambda>f. fl_id f = i) (fs @ gs) = find (\<lambda>f. fl_id f = i) gs"
  by (induction fs) auto

lemma find_filter_other: "j \<noteq> i \<Longrightarrow> find (\<lambda>f. fl_id f = j) (filter (\<lambda>f. fl_id f \<noteq> i) fs) = find (\<lambda>f. fl_id f = j) fs"
  by (induction fs) auto

lemma stage_of_proceed:
  "pr_inFlight s = Some (fl_id f) \<Longrightarrow> \<forall>g \<in> set (pr_flights s). fl_id g \<noteq> fl_id f \<Longrightarrow> stage_of (proceed f g s) = Some g"
  by (simp add: stage_of_def proceed_def find_skip)

lemma crash_rank:
  assumes "current st f s"
  shows "rank (crash st f r s) = moves (pr_out s)"
  using assms by (simp add: rank_def budget_def crash_def fail_def current_def Let_def)

text \<open>Each answer to the tick under way, seen from where its flight has been taken out.\<close>

definition rank_at :: "flight_stage \<Rightarrow> Preparation \<Rightarrow> nat" where
  "rank_at stage s = moves (pr_out s) + budget (pr_phase s) (pr_positioned s) (pr_realignments s) (Some stage)"

lemma land_rank: "pr_inFlight s = Some (fl_id f) \<Longrightarrow> rank (land f s) = moves (pr_out s) + budget (pr_phase s) (pr_positioned s) (pr_realignments s) None"
  by (simp add: rank_def)

lemma proceed_rank:
  "pr_inFlight s = Some (fl_id f) \<Longrightarrow> \<forall>g \<in> set (pr_flights s). fl_id g \<noteq> fl_id f \<Longrightarrow> rank (proceed f stage s) = rank_at stage s"
  by (simp add: rank_def rank_at_def stage_of_proceed)

lemma budget_le:
  "budget ph po r None \<le> budget ph po r (Some ReadPosition)" "ph \<noteq> PhaseFailed \<Longrightarrow> budget ph' True r None \<le> budget ph po r st"
  "ph \<noteq> PhaseFailed \<Longrightarrow> budget ph' True r (Some PauseToAck) \<le> budget ph po r st"
  by (auto simp: budget_def)

lemma got_position_rank:
  assumes f: "current st f s" and rest: "\<forall>g \<in> set (pr_flights s). fl_id g \<noteq> fl_id f" and phase: "pr_phase s \<noteq> PhaseFailed"
  shows "rank (got_position st f position s) \<le> rank_at ReadPosition s"
proof -
  have i: "pr_inFlight s = Some (fl_id f)" using f by (simp add: current_def)
  have crashed: "rank (crash st f r s') \<le> rank_at ReadPosition s" if "s' = s \<or> s' = s\<lparr>pr_realignments := n\<rparr>" for s' n r
  proof -
    have "current st f s'" using f that matches_cong [of s' s] by (auto simp: current_def)
    then show ?thesis using that by (auto simp: crash_rank rank_at_def)
  qed
  show ?thesis
  proof (cases "canContinue st f \<and> (\<exists>x. position = Fin x \<and> 0 \<le> x)")
    case False
    have "rank (crash st f r s) \<le> rank_at ReadPosition s" for r by (rule crashed) simp
    moreover have "rank (land f s) \<le> rank_at ReadPosition s" using i budget_le(1) by (simp add: land_rank rank_at_def)
    ultimately show ?thesis using False f by (auto simp: got_position_def split: js_number.split)
  next
    case True
    then obtain x where x: "canContinue st f" "position = Fin x" "\<not> x < 0" by auto
    show ?thesis
    proof (cases "off_target f x")
      case True
      show ?thesis
      proof (cases "pr_positioned s \<and> MAX_REALIGNMENTS \<le> pr_realignments s")
        case True
        have "rank (crash st f r (s\<lparr>pr_realignments := Suc (pr_realignments s)\<rparr>)) \<le> rank_at ReadPosition s" for r by (rule crashed) blast
        then show ?thesis using f x True \<open>off_target f x\<close> by (simp add: got_position_def)
      next
        case False
        then show ?thesis using f x i rest phase \<open>off_target f x\<close>
          by (cases "pr_positioned s") (auto simp: got_position_def proceed_rank rank_at_def budget_def Let_def)
      qed
    next
      case False
      then show ?thesis using f x i rest phase
        by (cases "Option.bind (pi_loading st) ml_bufferAhead")
           (simp_all add: got_position_def proceed_rank land_rank rank_at_def budget_le Let_def)
    qed
  qed
qed

lemma other_answers_rank:
  assumes f: "current st f s" and rest: "\<forall>g \<in> set (pr_flights s). fl_id g \<noteq> fl_id f" and phase: "pr_phase s \<noteq> PhaseFailed"
  shows "rank (paused_to_seek st f s) \<le> rank_at PauseToSeek s" "rank (has_sought st f s) \<le> rank_at Seek s"
    "rank (paused_to_ack st f s) \<le> rank_at PauseToAck s" "rank (got_paused_position st f x s) \<le> rank_at ReadPaused s"
proof -
  have i: "pr_inFlight s = Some (fl_id f)" using f by (simp add: current_def)
  show "rank (paused_to_seek st f s) \<le> rank_at PauseToSeek s" using f i rest phase
    by (auto simp: paused_to_seek_def proceed_rank land_rank rank_at_def budget_def)
  show "rank (has_sought st f s) \<le> rank_at Seek s" using f i phase
    by (auto simp: has_sought_def land_rank rank_at_def budget_def)
  show "rank (paused_to_ack st f s) \<le> rank_at PauseToAck s" using f i rest phase
    by (auto simp: paused_to_ack_def withdraw_def proceed_rank land_rank rank_at_def budget_def)
  show "rank (got_paused_position st f x s) \<le> rank_at ReadPaused s" using f i rest phase
    by (cases x) (auto simp: got_paused_position_def withdraw_def land_rank rank_at_def budget_def)
qed

text \<open>An answer to a tick that is not the one under way changes nothing.\<close>

lemma stale_answer:
  assumes "pr_inFlight s \<noteq> Some (fl_id f)"
  shows "crash st f r s = s" "got_position st f x s = s" "paused_to_seek st f s = s" "has_sought st f s = s" "paused_to_ack st f s = s"
    "got_paused_position st f x s = s"
  using assms by (simp_all add: crash_def got_position_def paused_to_seek_def has_sought_def paused_to_ack_def got_paused_position_def
      withdraw_def land_def current_def)

lemma resume_rank:
  assumes "flights_wf s" "matches st s"
  shows "rank (resume_flight st i a s) \<le> rank s"
proof (cases "find (\<lambda>f. fl_id f = i) (pr_flights s)")
  case (Some f)
  let ?s = "s\<lparr>pr_flights := filter (\<lambda>f. fl_id f \<noteq> i) (pr_flights s)\<rparr>"
  have f: "f \<in> set (pr_flights s)" "fl_id f = i" using Some by (auto simp: find_Some_iff)
  show ?thesis
  proof (cases "pr_inFlight s = Some i")
    case True
    have "current st f ?s" using assms(1,2) f True by (simp add: current_def flights_wf_def)
        (use matches_cong [of ?s s] in simp)
    moreover have "\<forall>g \<in> set (pr_flights ?s). fl_id g \<noteq> fl_id f" using f by simp
    moreover have "pr_phase ?s \<noteq> PhaseFailed" using assms(1) True by (auto simp: flights_wf_def)
    ultimately have "rank (got_position st f x ?s) \<le> rank_at ReadPosition ?s" "rank (paused_to_seek st f ?s) \<le> rank_at PauseToSeek ?s"
      "rank (has_sought st f ?s) \<le> rank_at Seek ?s" "rank (paused_to_ack st f ?s) \<le> rank_at PauseToAck ?s"
      "rank (got_paused_position st f x ?s) \<le> rank_at ReadPaused ?s" "rank (crash st f r ?s) \<le> rank s" for x r
      using crash_rank [of st f ?s] by (simp_all add: got_position_rank other_answers_rank) (simp add: rank_def)
    moreover have "rank s = rank_at (fl_stage f) ?s" using True Some by (simp add: rank_def rank_at_def stage_of_def)
    ultimately show ?thesis using Some by (cases a; cases "fl_stage f") (simp_all add: resume_flight_def)
  next
    case False
    then have "rank ?s = rank s" by (auto simp: rank_def stage_of_def find_filter_other split: bind_split)
    then show ?thesis using Some f False by (cases a; cases "fl_stage f") (simp_all add: resume_flight_def stale_answer)
  qed
qed (simp add: resume_flight_def)

lemma tick_rank:
  assumes "flights_wf s" "matches st s"
  shows "rank (tick_preparing st s) \<le> rank s"
proof -
  have "find (\<lambda>f. fl_id f = pr_nextFlight s) (pr_flights s @ gs) = find (\<lambda>f. fl_id f = pr_nextFlight s) gs" for gs
    using assms(1) by (intro find_skip) (auto simp: flights_wf_def)
  then show ?thesis using assms(2)
    by (auto simp: tick_preparing_def reconcile_def rank_def stage_of_def budget_def split: option.split)
qed

lemma fail_rank: "matches st s \<Longrightarrow> rank (fail st r s) \<le> rank s"
  by (simp add: fail_def rank_def budget_def Let_def)

text \<open>The flights stay well formed, whatever happens.\<close>

lemma resume_wf:
  assumes "flights_wf s"
  shows "flights_wf (resume_flight st i a s)"
proof (cases "find (\<lambda>f. fl_id f = i) (pr_flights s)")
  case (Some f)
  then have f: "f \<in> set (pr_flights s)" by (auto simp: find_Some_iff)
  have "flights_wf s'" if "answered f (s\<lparr>pr_flights := filter (\<lambda>f. fl_id f \<noteq> i) (pr_flights s)\<rparr>) s'" for s'
    using that f assms by (fastforce simp: flights_wf_def answered_def)
  then show ?thesis using resume_answered [OF Some, of st a] assms by auto
qed (use assms in \<open>simp add: resume_flight_def\<close>)

lemma reconcile_wf: "flights_wf s \<Longrightarrow> flights_wf (reconcile st s)"
  by (simp add: reconcile_def flights_wf_def Let_def)

lemma tick_wf: "flights_wf s \<Longrightarrow> flights_wf (tick_preparing st s)"
  using reconcile_wf [of s st] by (fastforce simp: tick_preparing_def flights_wf_def Let_def split: option.split)

interpretation wf_machine: invariant_machine preparation_step flights_wf "\<lambda>_. True"
proof
  fix s and se :: "PreparationInput \<times> preparation_event"
  assume s: "flights_wf s"
  obtain st ev where se: "se = (st, ev)" by fastforce
  have up: "flights_wf (s'\<lparr>pr_cancelledId := x\<rparr>)" "flights_wf (s'\<lparr>pr_disposed := True\<rparr>)" "flights_wf (fail st r s')"
    "flights_wf (publish_phase PhaseAligning (s'\<lparr>pr_generation := Suc (pr_generation s'), pr_inFlight := None, pr_positioned := False, pr_realignments := 0\<rparr>))"
    if "flights_wf s'" for s' x r
    using that by (simp_all add: flights_wf_def fail_def Let_def)
  show "flights_wf (preparation_step s se)"
    unfolding se using s up reconcile_wf [of _ st]
    by (cases ev) (auto simp: preparation_step_def retry_def cancel_def dispose_preparation_def tick_wf resume_wf Let_def)
qed

text \<open>While the room waits with the same preparation, nothing but the tick itself moves the player.\<close>

definition undisturbed :: "Preparation \<Rightarrow> PreparationInput \<times> preparation_event \<Rightarrow> bool" where
  "undisturbed s se \<longleftrightarrow> matches (fst se) s \<and> snd se \<notin> {Retry, Cancel, PrepDispose}"

lemma undisturbed_step:
  assumes "flights_wf s" "undisturbed s (st, ev)"
  shows "rank (preparation_step s (st, ev)) \<le> rank s" "undisturbed (preparation_step s (st, ev)) = undisturbed s"
proof -
  have m: "matches st s" using assms(2) by (simp add: undisturbed_def)
  show "rank (preparation_step s (st, ev)) \<le> rank s"
    using assms m by (cases ev) (simp_all add: preparation_step_def undisturbed_def tick_rank resume_rank fail_rank)
  have "pr_context (preparation_step s (st, ev)) = pr_context s \<and> pr_disposed (preparation_step s (st, ev)) = pr_disposed s
      \<and> pr_cancelledId (preparation_step s (st, ev)) = pr_cancelledId s"
    using assms(2) m by (cases ev) (simp_all add: preparation_step_def undisturbed_def tick_preparing_def reconcile_def split: option.split)
  then have "matches st' (preparation_step s (st, ev)) = matches st' s" for st' by (intro matches_cong) simp_all
  then show "undisturbed (preparation_step s (st, ev)) = undisturbed s"
    by (simp add: fun_eq_iff undisturbed_def)
qed


section \<open>A viewer at work\<close>

definition sample_preparation :: PlaybackPreparation where
  "sample_preparation =
     \<lparr>pp_id = ''uuid'', pp_clientId = ''alice'', pp_video = (''direct'', ''a''), pp_position = 0, pp_eligible = [''alice'', ''bob''],
      pp_ready = [], pp_deadlineAt = 6000, pp_hardDeadlineAt = 21000, pp_startAt = None, pp_fallback = None\<rparr>"

definition sample_page :: PreparationInput where
  "sample_page =
     \<lparr>pi_preparation = Some sample_preparation, pi_clientId = ''alice'', pi_source = Some (0, (''direct'', ''a'')), pi_player = Some 0,
      pi_connected = True, pi_roomPlaying = False, pi_ready = True, pi_playing = True, pi_blocked = False, pi_error = False,
      pi_seeking = False, pi_recovering = False,
      pi_loading = Some \<lparr>ml_phase = None, ml_currentTime = Some (Fin 0), ml_bufferAhead = Some 30\<rparr>, pi_visible = True\<rparr>"

definition sample_way :: "(PreparationInput \<times> preparation_event) list" where
  "sample_way = map (Pair sample_page) [PrepTick, Answer 0 (Position (Fin 0)), Answer 0 Done]"

definition sample_report :: PlaybackPrepared where
  "sample_report = \<lparr>pd_id = ''uuid'', pd_position = Fin (1 / 8), pd_bufferAhead = Some 30, pd_firstFrame = Some True, pd_visible = None, pd_failed = None\<rparr>"

lemma sample_reports:
  "ready_reports (pr_out (preparation_step (foldl preparation_step createPlaybackPreparation sample_way) (sample_page, Answer 0 (Position (Fin (1 / 8))))))
   = ready_reports (pr_out (foldl preparation_step createPlaybackPreparation sample_way)) @ [sample_report]"
  by code_simp

lemma sample_page_fields [simp]: "pi_preparation sample_page = Some sample_preparation" "pi_clientId sample_page = ''alice''"
  by (simp_all add: sample_page_def)


definition sample_waiting :: Room where
  "sample_waiting = sample_room\<lparr>isPlaying := False, playbackStart := None, playbackPreparation := Some sample_preparation\<rparr>"

theorem ready_report_counts_witness:
  "case playbackPreparation (finishPlaybackPreparation 2000 ''alice'' (Some StatusReady) (Some sample_report) sample_waiting) of
     Some p \<Rightarrow> ''alice'' \<in> set (map rd_clientId (pp_ready p))
   | None \<Rightarrow> isPlaying (finishPlaybackPreparation 2000 ''alice'' (Some StatusReady) (Some sample_report) sample_waiting)"
proof -
  have pp: "granted default_Grants UnregisteredUser ''playback.play-pause''" by (simp add: granted_def getMask_def parse_names)
  have el: "playbackEligibleIds sample_waiting sample_preparation = [''alice'', ''bob'']"
    using pp by (simp add: playbackEligibleIds_def sample_preparation_def sample_waiting_def getUser_def)
  show ?thesis
    by (rule ready_report_counts [OF refl sample_reports, where p = sample_preparation, unfolded sample_page_fields])
      (use el in \<open>simp_all add: sample_preparation_def sample_waiting_def sample_report_def readyBufferIsEnough_def
         playbackReadyBufferSeconds_def PLAYBACK_READY_BUFFER_DIRECT_SECONDS_def\<close>)
qed

text \<open>A player that always stops five seconds away.\<close>

definition sample_misses :: "(PreparationInput \<times> preparation_event) list" where
  "sample_misses = map (Pair sample_page)
     (concat (map (\<lambda>i. [Answer i (Position (Fin 5)), Answer i Done, Answer i Done, PrepTick]) [0, 1, 2]) @ [Answer 3 (Position (Fin 5)), PrepTick])"


end
