(* ===== verification/EdgeRoom.thy ===== *)
theory EdgeRoom
  imports RoomSync
begin

text \<open>
  The room rules of the edge deployment, \<^verbatim>\<open>packages/ott-edge/src/room-state.ts\<close> and
  \<^verbatim>\<open>commands.ts\<close>: a second implementation of a room, in which a room is one durable object, its
  snapshot is what is stored, and an alarm takes the place of the ticking interval.

  The class is the record \<open>edge_room\<close>, an extension of its snapshot; a command returns what it
  threw, if anything, together with the room it left. Of an \<^verbatim>\<open>ApiError\<close> the status and the
  name are kept. A resolved media item comes with the remark whether its \<^verbatim>\<open>subtitleUrl\<close> is present
  and \<^verbatim>\<open>undefined\<close>, which an object spread treats differently from an absent one.
\<close>

section \<open>Data\<close>

record GuestSession =
  gs_identity_id :: string
  gs_username :: string
  gs_expires_at :: int
  gs_token_hash :: string

record Member =
  mb_id :: ClientId
  mb_session :: GuestSession
  mb_status :: PlayerStatus

record edge_preparation =
  ep_id :: string
  ep_clientId :: ClientId
  ep_video :: VideoId
  ep_position :: rat
  ep_expiresAt :: int

record edge_gesture =
  eg_clientId :: ClientId
  eg_gestureId :: string
  eg_previousSpeed :: rat
  eg_expiresAt :: int

record EdgeSnapshot =
  sn_name :: string
  sn_title :: string
  sn_description :: string
  sn_isTemporary :: bool
  sn_visibility :: Visibility
  sn_queueMode :: QueueMode
  sn_ownerId :: string
  sn_roles :: "(string \<times> Role) list"
  sn_grants :: "(int \<times> GrantMask) list"
  sn_currentSource :: "QueueItem option"
  sn_queue :: "QueueItem list"
  sn_isPlaying :: bool
  sn_position :: rat
  sn_anchorAt :: int
  sn_playbackSpeed :: rat
  sn_resumeOnNextJoin :: bool
  sn_emptySince :: "int option"
  sn_preparation :: "edge_preparation option"
  sn_temporarySpeed :: "edge_gesture option"
  sn_votes :: "(string \<times> ClientId list) list"
  sn_votesToSkip :: "ClientId list"
  sn_enableVoteSkip :: bool
  sn_createdAt :: int

datatype Command =
    CmdPlayback bool
  | CmdSkip
  | CmdSeek rat
  | CmdAdd "VideoAdd option" "VideoAdd list option" "string option"
  | CmdRemove VideoId
  | CmdOrder nat nat
  | CmdVote VideoId bool
  | CmdPromote ClientId Role
  | CmdChat string
  | CmdApplySettings RoomSettings "(int \<times> GrantMask) list option"
  | CmdPlayNow VideoAdd
  | CmdShuffle
  | CmdPlaybackSpeed rat
  | CmdRestoreQueue "bool option"
  | CmdKick ClientId
  | CmdUpdateQueueItem VideoId QueueItemExtras
  | CmdTemporaryPlaybackSpeed GestureAction string VideoId

datatype edge_request = EdgeJoin ClientId string | EdgeLeave | EdgeCommand Command

datatype edge_value = Plain sync_value | Prepared "(string \<times> ClientId \<times> VideoId \<times> rat) option"

datatype edge_message =
    EdgeUser RoomUserInfo
  | EdgeUserRemoved ClientId
  | EdgeEvent edge_request string RoomEventContext
  | EdgeChat RoomUserInfo string
  | EdgeSync "(sync_prop \<times> edge_value) list"

record edge_room = EdgeSnapshot +
  er_members :: "Member list"
  er_dirty :: "sync_prop list"
  er_messages :: "edge_message list"
  er_kicks :: "ClientId list"

datatype edge_error = ApiError nat string | BadGrants ott_error

text \<open>What a call reads from outside: the clock, a fresh id, the random numbers of a shuffle and the size of the JSON text.\<close>

record edge_env =
  ee_now :: int
  ee_randomUUID :: string
  ee_randomInt :: "nat \<Rightarrow> nat"
  ee_jsonBytes :: "QueueItem option \<Rightarrow> QueueItem list \<Rightarrow> nat"

record room_options =
  ro_name :: string
  ro_title :: "string option"
  ro_description :: "string option"
  ro_isTemporary :: "bool option"
  ro_visibility :: "Visibility option"
  ro_queueMode :: "QueueMode option"

definition createSnapshot :: "int \<Rightarrow> room_options \<Rightarrow> GuestSession \<Rightarrow> ott_error + EdgeSnapshot" where
  "createSnapshot t options owner_session =
     bind_result defaultPermissions (\<lambda>g. Inr
       \<lparr>sn_name = ro_name options, sn_title = (if truthy_str (ro_title options) then the (ro_title options) else ro_name options),
        sn_description = or_else (ro_description options) [], sn_isTemporary = or_else (ro_isTemporary options) True,
        sn_visibility = or_else (ro_visibility options) Unlisted, sn_queueMode = or_else (ro_queueMode options) Manual,
        sn_ownerId = gs_identity_id owner_session, sn_roles = [], sn_grants = entries g, sn_currentSource = None, sn_queue = [],
        sn_isPlaying = False, sn_position = 0, sn_anchorAt = t, sn_playbackSpeed = 1, sn_resumeOnNextJoin = False,
        sn_emptySince = Some t, sn_preparation = None, sn_temporarySpeed = None, sn_votes = [], sn_votesToSkip = [],
        sn_enableVoteSkip = False, sn_createdAt = t\<rparr>)"

definition sameVideo :: "VideoId option \<Rightarrow> VideoId option \<Rightarrow> bool" where
  "sameVideo a b \<longleftrightarrow> a \<noteq> None \<and> a = b"

definition keyFor :: "VideoId \<Rightarrow> string" where
  "keyFor video = fst video @ snd video"

definition edge_rank :: "Role \<Rightarrow> int" where
  "edge_rank role = (if role = Owner then 100 else role_num role)"

section \<open>Looking at a room\<close>

definition new_edge_room :: "EdgeSnapshot \<Rightarrow> edge_room" where
  "new_edge_room s = EdgeSnapshot.extend s (edge_room.fields [] [] [] [])"

definition edge_role :: "edge_room \<Rightarrow> GuestSession \<Rightarrow> Role" where
  "edge_role r session =
     (if gs_identity_id session = sn_ownerId r then Owner
      else or_else (map_of (sn_roles r) (gs_identity_id session)) UnregisteredUser)"

definition edge_info :: "edge_room \<Rightarrow> Member \<Rightarrow> RoomUserInfo" where
  "edge_info r m =
     \<lparr>ui_id = mb_id m, ui_name = gs_username (mb_session m), ui_isLoggedIn = False, ui_status = mb_status m,
      ui_role = edge_role r (mb_session m)\<rparr>"

definition edge_users :: "edge_room \<Rightarrow> RoomUserInfo list" where
  "edge_users r = map (edge_info r) (er_members r)"

definition edge_member :: "edge_room \<Rightarrow> ClientId \<Rightarrow> Member option" where
  "edge_member r i = find (\<lambda>m. mb_id m = i) (er_members r)"

text \<open>The getter builds the table of grants anew each time; stored grants that it refuses would make it throw.\<close>

definition edge_grants :: "edge_room \<Rightarrow> ott_error + Grants" where
  "edge_grants r = new_Grants (FromArray (sn_grants r))"

definition can :: "edge_room \<Rightarrow> GuestSession \<Rightarrow> string \<Rightarrow> bool" where
  "can r session perm = (case edge_grants r of Inl _ \<Rightarrow> False | Inr g \<Rightarrow> granted g (edge_role r session) perm)"

definition edge_check :: "edge_room \<Rightarrow> GuestSession \<Rightarrow> string \<Rightarrow> edge_error option" where
  "edge_check r session perm = (if can r session perm then None else Some (ApiError 403 ''PermissionDeniedException''))"

fun commandPermissions :: "Command \<Rightarrow> string option" where
  "commandPermissions (CmdPlayback _) = Some ''playback.play-pause''"
| "commandPermissions CmdSkip = Some ''playback.skip''"
| "commandPermissions (CmdSeek _) = Some ''playback.seek''"
| "commandPermissions (CmdAdd _ _ _) = Some ''manage-queue.add''"
| "commandPermissions (CmdRemove _) = Some ''manage-queue.remove''"
| "commandPermissions (CmdOrder _ _) = Some ''manage-queue.order''"
| "commandPermissions (CmdVote _ _) = Some ''manage-queue.vote''"
| "commandPermissions (CmdChat _) = Some ''chat''"
| "commandPermissions (CmdPlayNow _) = Some ''manage-queue.play-now''"
| "commandPermissions CmdShuffle = Some ''manage-queue.order''"
| "commandPermissions (CmdPlaybackSpeed _) = Some ''playback.speed''"
| "commandPermissions (CmdRestoreQueue _) = Some ''manage-queue.add''"
| "commandPermissions (CmdKick _) = Some ''manage-users.kick''"
| "commandPermissions (CmdUpdateQueueItem _ _) = Some ''manage-queue.edit''"
| "commandPermissions (CmdTemporaryPlaybackSpeed _ _ _) = Some ''playback.speed''"
| "commandPermissions (CmdPromote _ _) = None"
| "commandPermissions (CmdApplySettings _ _) = None"

definition checkCommand :: "edge_room \<Rightarrow> Command \<Rightarrow> Member \<Rightarrow> edge_error option" where
  "checkCommand r cmd m =
     (case commandPermissions cmd of None \<Rightarrow> None | Some perm \<Rightarrow> edge_check r (mb_session m) perm)"

definition edge_position :: "int \<Rightarrow> ('a EdgeSnapshot_scheme) \<Rightarrow> rat" where
  "edge_position t r =
     max 0 (sn_position r + (if sn_isPlaying r then of_int (max 0 (t - sn_anchorAt r)) / 1000 * sn_playbackSpeed r else 0))"

section \<open>The clock\<close>

definition mark :: "sync_prop list \<Rightarrow> edge_room \<Rightarrow> edge_room" where
  "mark keys r = r\<lparr>er_dirty := foldl (\<lambda>d k. js_add k d) (er_dirty r) keys\<rparr>"

definition anchor :: "int \<Rightarrow> rat \<Rightarrow> edge_room \<Rightarrow> edge_room" where
  "anchor t x r = r\<lparr>sn_position := x, sn_anchorAt := t\<rparr>"

definition anchor_here :: "int \<Rightarrow> edge_room \<Rightarrow> edge_room" where
  "anchor_here t r = anchor t (edge_position t r) r"

definition playing :: "int \<Rightarrow> bool \<Rightarrow> edge_room \<Rightarrow> edge_room" where
  "playing t on r = mark [PisPlaying, PplaybackPosition] ((anchor_here t r)\<lparr>sn_isPlaying := on\<rparr>)"

definition clearPreparation :: "edge_room \<Rightarrow> edge_room" where
  "clearPreparation r = (if sn_preparation r = None then r else mark [PplaybackPreparation] (r\<lparr>sn_preparation := None\<rparr>))"

definition clearTemporarySpeed :: "int \<Rightarrow> edge_room \<Rightarrow> edge_room" where
  "clearTemporarySpeed t r =
     (case sn_temporarySpeed r of
        None \<Rightarrow> r
      | Some previous \<Rightarrow> mark [PtemporaryPlaybackSpeed, PplaybackSpeed, PplaybackPosition]
          ((anchor_here t r)\<lparr>sn_playbackSpeed := eg_previousSpeed previous, sn_temporarySpeed := None\<rparr>))"

definition edge_prepare :: "edge_env \<Rightarrow> ClientId option \<Rightarrow> edge_room \<Rightarrow> edge_room" where
  "edge_prepare e exclude r =
     (case sn_currentSource r of
        None \<Rightarrow> r
      | Some v \<Rightarrow>
          if \<not> sn_resumeOnNextJoin r \<or> sn_isPlaying r \<or> sn_preparation r \<noteq> None then r
          else
            (case find (\<lambda>m. Some (mb_id m) \<noteq> exclude \<and> can r (mb_session m) ''playback.play-pause'') (er_members r) of
               None \<Rightarrow> r
             | Some m \<Rightarrow> mark [PplaybackPreparation, PplaybackPosition, PisPlaying]
                 (r\<lparr>sn_preparation := Some
                      \<lparr>ep_id = ee_randomUUID e, ep_clientId = mb_id m, ep_video = video_id v,
                       ep_position = edge_position (ee_now e) r, ep_expiresAt = ee_now e + 30000\<rparr>\<rparr>)))"

section \<open>Messages\<close>

definition push :: "edge_message \<Rightarrow> edge_room \<Rightarrow> edge_room" where
  "push msg r = r\<lparr>er_messages := er_messages r @ [msg]\<rparr>"

definition edge_event :: "edge_request \<Rightarrow> Member \<Rightarrow> RoomEventContext \<Rightarrow> edge_room \<Rightarrow> edge_room" where
  "edge_event request m additional r = push (EdgeEvent request (gs_username (mb_session m)) additional) r"

section \<open>The queue\<close>

definition edge_votes :: "('a EdgeSnapshot_scheme) \<Rightarrow> QueueItem \<Rightarrow> nat" where
  "edge_votes r v = length (or_else (map_of (sn_votes r) (keyFor (video_id v))) [])"

definition orderVotes :: "edge_room \<Rightarrow> edge_room" where
  "orderVotes r =
     (if sn_queueMode r \<noteq> Vote then r else mark [Pqueue] (r\<lparr>sn_queue := sort_desc (edge_votes r) (sn_queue r)\<rparr>))"

definition checkQueueSize :: "edge_env \<Rightarrow> QueueItem list \<Rightarrow> QueueItem option \<Rightarrow> edge_error option" where
  "checkQueueSize e q source =
     (if 200 < length q \<or> 512 * 1024 < ee_jsonBytes e source q then Some (ApiError 400 ''OttException'') else None)"

definition edge_start :: "int \<Rightarrow> QueueItem option \<Rightarrow> edge_room \<Rightarrow> edge_room" where
  "edge_start t video r =
     (let r1 = clearPreparation (clearTemporarySpeed t r) in
      mark [PcurrentSource, PplaybackPosition, PisPlaying, PplaybackSpeed, PvotesToSkip, PplaybackPreparation]
        (r1\<lparr>sn_currentSource := video, sn_playbackSpeed := 1, sn_position := or_else (Option.bind video v_startAt) 0, sn_anchorAt := t,
            sn_isPlaying := (video \<noteq> None \<and> er_members r1 \<noteq> []), sn_resumeOnNextJoin := (video \<noteq> None \<and> er_members r1 = []),
            sn_votesToSkip := []\<rparr>))"

definition edge_next :: "int \<Rightarrow> edge_room \<Rightarrow> edge_room" where
  "edge_next t r =
     (let q = (case sn_currentSource r of Some v \<Rightarrow> if sn_queueMode r = Loop then sn_queue r @ [v] else sn_queue r | None \<Rightarrow> sn_queue r)
      in mark [Pqueue, PvoteCounts]
           (case q of
              [] \<Rightarrow> edge_start t None (r\<lparr>sn_queue := []\<rparr>)
            | v # vs \<Rightarrow> edge_start t (Some v) (r\<lparr>sn_queue := vs, sn_votes := AList.delete (keyFor (video_id v)) (sn_votes r)\<rparr>)))"

section \<open>Members\<close>

text \<open>\<^verbatim>\<open>Map.set\<close> keeps the place of a key that is present.\<close>

definition set_member :: "Member \<Rightarrow> Member list \<Rightarrow> Member list" where
  "set_member m ms = (if mb_id m \<in> mb_id ` set ms then map (\<lambda>m'. if mb_id m' = mb_id m then m else m') ms else ms @ [m])"

definition edge_join :: "edge_env \<Rightarrow> Member \<Rightarrow> edge_room \<Rightarrow> edge_room" where
  "edge_join e m r =
     (let r1 = r\<lparr>er_members := set_member m (er_members r), sn_emptySince := None\<rparr>;
          r2 = push (EdgeUser (edge_info r1 m)) r1
      in edge_prepare e None (edge_event (EdgeJoin (mb_id m) (gs_username (mb_session m))) m no_context r2))"

text \<open>The room without the member and without its votes.\<close>

definition forget_member :: "ClientId \<Rightarrow> Member \<Rightarrow> edge_room \<Rightarrow> edge_room" where
  "forget_member i m r =
     (let r1 = edge_event EdgeLeave m (no_context\<lparr>ev_user := Some (edge_info r m)\<rparr>) r;
          r2 = push (EdgeUserRemoved i) (r1\<lparr>er_members := filter (\<lambda>m. mb_id m \<noteq> i) (er_members r1)\<rparr>)
      in orderVotes (mark [PvoteCounts, PvotesToSkip]
           (r2\<lparr>sn_votes := map (\<lambda>(k, ids). (k, filter (\<lambda>x. x \<noteq> i) ids)) (sn_votes r2),
               sn_votesToSkip := filter (\<lambda>x. x \<noteq> i) (sn_votesToSkip r2)\<rparr>)))"

definition drop_claims :: "edge_env \<Rightarrow> ClientId \<Rightarrow> edge_room \<Rightarrow> edge_room" where
  "drop_claims e i r =
     (let r1 = (if map_option eg_clientId (sn_temporarySpeed r) = Some i then clearTemporarySpeed (ee_now e) r else r)
      in if map_option ep_clientId (sn_preparation r1) = Some i then clearPreparation r1 else r1)"

definition fall_idle :: "edge_env \<Rightarrow> edge_room \<Rightarrow> edge_room" where
  "fall_idle e r =
     (playing (ee_now e) False (r\<lparr>sn_resumeOnNextJoin := (sn_resumeOnNextJoin r \<or> sn_isPlaying r)\<rparr>))\<lparr>sn_emptySince := Some (ee_now e)\<rparr>"

definition edge_leave :: "edge_env \<Rightarrow> ClientId \<Rightarrow> edge_room \<Rightarrow> edge_room" where
  "edge_leave e i r =
     (case edge_member r i of
        None \<Rightarrow> r
      | Some m \<Rightarrow>
          (let r1 = drop_claims e i (forget_member i m r)
           in if er_members r1 = [] then fall_idle e r1 else edge_prepare e None r1))"

definition recover_empty :: "edge_env \<Rightarrow> edge_room \<Rightarrow> edge_room" where
  "recover_empty e r =
     (let r1 = clearPreparation (r\<lparr>sn_resumeOnNextJoin := (sn_resumeOnNextJoin r \<or> sn_isPlaying r \<or> sn_preparation r \<noteq> None),
            sn_isPlaying := False, sn_anchorAt := ee_now e, sn_emptySince := Some (or_else (sn_emptySince r) (ee_now e))\<rparr>)
      in case sn_temporarySpeed r1 of
           None \<Rightarrow> r1
         | Some g \<Rightarrow> r1\<lparr>sn_playbackSpeed := eg_previousSpeed g, sn_temporarySpeed := None\<rparr>)"

definition edge_recover :: "edge_env \<Rightarrow> edge_room \<Rightarrow> edge_room" where
  "edge_recover e r =
     (if er_members r = [] then recover_empty e r
      else
        (case sn_preparation r of
           None \<Rightarrow> r
         | Some p \<Rightarrow> if edge_member r (ep_clientId p) = None then edge_prepare e None (clearPreparation r) else r))"

definition note_status :: "ClientId \<Rightarrow> PlayerStatus \<Rightarrow> Member \<Rightarrow> edge_room \<Rightarrow> edge_room" where
  "note_status i status m r =
     (let r1 = r\<lparr>er_members := map (\<lambda>m'. if mb_id m' = i then m'\<lparr>mb_status := status\<rparr> else m') (er_members r)\<rparr>
      in push (EdgeUser (edge_info r1 (m\<lparr>mb_status := status\<rparr>))) r1)"

definition confirms :: "edge_env \<Rightarrow> Member \<Rightarrow> PlayerStatus \<Rightarrow> (string \<times> js_number) option \<Rightarrow> edge_room \<Rightarrow> bool" where
  "confirms e m status prepared r =
     (case (sn_preparation r, prepared) of
        (Some p, Some (pid, Fin x)) \<Rightarrow>
          ep_clientId p = mb_id m \<and> pid = ep_id p \<and> status = StatusReady \<and> ee_now e < ep_expiresAt p
          \<and> \<bar>x - ep_position p\<bar> \<le> 3 / 2 \<and> sameVideo (map_option video_id (sn_currentSource r)) (Some (ep_video p))
          \<and> can r (mb_session m) ''playback.play-pause''
      | _ \<Rightarrow> False)"

definition edge_status :: "edge_env \<Rightarrow> ClientId \<Rightarrow> PlayerStatus \<Rightarrow> (string \<times> js_number) option \<Rightarrow> edge_room \<Rightarrow> edge_room" where
  "edge_status e i status prepared r =
     (case edge_member r i of
        None \<Rightarrow> r
      | Some m \<Rightarrow>
          (let r1 = note_status i status m r in
           if \<not> confirms e m status prepared r1 then r1
           else playing (ee_now e) True ((clearPreparation r1)\<lparr>sn_resumeOnNextJoin := False\<rparr>)))"

section \<open>Commands\<close>

text \<open>A command throws, ends without an event, or ends with one.\<close>

datatype edge_result = Threw edge_error edge_room | Quiet edge_room | Told RoomEventContext edge_room

type_synonym resolved_item = "QueueItem \<times> bool"

definition js_greater :: "rat \<Rightarrow> js_number \<Rightarrow> bool" where
  "js_greater x y = (case y of Fin z \<Rightarrow> z < x | PosInf \<Rightarrow> False | NegInf \<Rightarrow> True | NaN \<Rightarrow> False)"

definition js_geq :: "rat \<Rightarrow> js_number \<Rightarrow> bool" where
  "js_geq x y = (case y of Fin z \<Rightarrow> z \<le> x | PosInf \<Rightarrow> False | NegInf \<Rightarrow> True | NaN \<Rightarrow> False)"

definition edge_end :: "QueueItem \<Rightarrow> js_number option" where
  "edge_end v = (case v_endAt v of Some x \<Rightarrow> Some x | None \<Rightarrow> v_length v)"

definition bad_request :: edge_error where "bad_request = ApiError 400 ''OttException''"
definition not_found :: edge_error where "not_found = ApiError 404 ''OttException''"
definition forbidden :: edge_error where "forbidden = ApiError 403 ''OttException''"

definition apply_seek :: "edge_env \<Rightarrow> rat \<Rightarrow> edge_room \<Rightarrow> edge_result" where
  "apply_seek e target r =
     (case sn_currentSource r of
        None \<Rightarrow> Threw bad_request r
      | Some v \<Rightarrow>
          if (case edge_end v of None \<Rightarrow> False | Some x \<Rightarrow> js_greater target x) then Threw bad_request r
          else
            (let r1 = mark [PplaybackPosition] (anchor (ee_now e) target r)
             in Told (no_context\<lparr>ev_prevPosition := Some (edge_position (ee_now e) r)\<rparr>)
                  (if sn_preparation r1 \<noteq> None then edge_prepare e None (clearPreparation r1) else r1)))"

definition apply_skip :: "edge_env \<Rightarrow> Member \<Rightarrow> edge_room \<Rightarrow> edge_result" where
  "apply_skip e m r =
     (let voting = (sn_enableVoteSkip r \<and> edge_rank (edge_role r (mb_session m)) < role_num Moderator);
          r1 = (if voting then mark [PvotesToSkip] (r\<lparr>sn_votesToSkip := js_add (mb_id m) (sn_votesToSkip r)\<rparr>) else r)
      in if voting \<and> 2 * length (sn_votesToSkip r1) \<le> length (er_members r1) then Quiet r1
         else Told (no_context\<lparr>ev_video := sn_currentSource r1, ev_prevPosition := Some (edge_position (ee_now e) r1)\<rparr>)
                (edge_next (ee_now e) r1))"

definition apply_add :: "edge_env \<Rightarrow> QueueItem list \<Rightarrow> edge_room \<Rightarrow> edge_result" where
  "apply_add e media r =
     (if media = [] \<or> 200 < length (sn_queue r) + length media then Threw bad_request r
      else case checkQueueSize e (sn_queue r @ media) (sn_currentSource r) of
          Some err \<Rightarrow> Threw err r
        | None \<Rightarrow>
            (let r1 = orderVotes (mark [Pqueue] (r\<lparr>sn_queue := sn_queue r @ media\<rparr>))
             in Told (no_context\<lparr>ev_videos := Some media\<rparr>)
                  (if sn_currentSource r1 = None then edge_next (ee_now e) r1 else r1)))"

definition queue_index :: "VideoId \<Rightarrow> QueueItem list \<Rightarrow> nat option" where
  "queue_index video q = (let n = length (takeWhile (\<lambda>v. video_id v \<noteq> video) q) in if n < length q then Some n else None)"

definition apply_remove :: "VideoId \<Rightarrow> edge_room \<Rightarrow> edge_result" where
  "apply_remove video r =
     (case queue_index video (sn_queue r) of
        None \<Rightarrow> Threw not_found r
      | Some i \<Rightarrow> Told (no_context\<lparr>ev_video := Some (sn_queue r ! i), ev_queueIdx := Some i\<rparr>)
          (mark [Pqueue, PvoteCounts]
             (r\<lparr>sn_queue := splice_out i (sn_queue r), sn_votes := AList.delete (keyFor video) (sn_votes r)\<rparr>)))"

definition apply_order :: "nat \<Rightarrow> nat \<Rightarrow> edge_room \<Rightarrow> edge_result" where
  "apply_order fromIdx toIdx r =
     (if length (sn_queue r) \<le> fromIdx \<or> length (sn_queue r) \<le> toIdx then Threw bad_request r
      else
        Told no_context (mark [Pqueue] (r\<lparr>sn_queue := splice_in toIdx (sn_queue r ! fromIdx) (splice_out fromIdx (sn_queue r))\<rparr>)))"

definition apply_vote :: "VideoId \<Rightarrow> bool \<Rightarrow> Member \<Rightarrow> edge_room \<Rightarrow> edge_result" where
  "apply_vote video add m r =
     (if video \<notin> video_id ` set (sn_queue r) then Threw not_found r
      else
        (let votes = js_Set (or_else (map_of (sn_votes r) (keyFor video)) []);
             votes1 = (if add then js_add (mb_id m) votes else js_delete (mb_id m) votes)
         in Told no_context (orderVotes (mark [PvoteCounts] (r\<lparr>sn_votes := AList.update (keyFor video) votes1 (sn_votes r)\<rparr>)))))"

definition apply_playNow :: "edge_env \<Rightarrow> VideoId \<Rightarrow> QueueItem list \<Rightarrow> edge_room \<Rightarrow> edge_result" where
  "apply_playNow e video media r =
     (if sameVideo (map_option video_id (sn_currentSource r)) (Some video) then Quiet r
      else case media of
          [] \<Rightarrow> Threw bad_request r
        | item # _ \<Rightarrow>
            (let rest = filter (\<lambda>v. video_id v \<noteq> video) (sn_queue r);
                 q = (case sn_currentSource r of None \<Rightarrow> rest | Some v \<Rightarrow> v # rest)
             in case checkQueueSize e q (Some item) of
                  Some err \<Rightarrow> Threw err r
                | None \<Rightarrow> Told no_context (mark [Pqueue, PvoteCounts]
                    (edge_start (ee_now e) (Some item) (r\<lparr>sn_queue := q, sn_votes := AList.delete (keyFor video) (sn_votes r)\<rparr>)))))"

primrec shuffle_from :: "(nat \<Rightarrow> nat) \<Rightarrow> nat \<Rightarrow> 'a list \<Rightarrow> 'a list" where
  "shuffle_from rnd 0 xs = xs"
| "shuffle_from rnd (Suc i) xs = (let j = rnd (Suc i + 1) in shuffle_from rnd i (xs[Suc i := xs ! j, j := xs ! Suc i]))"

definition apply_shuffle :: "edge_env \<Rightarrow> edge_room \<Rightarrow> edge_result" where
  "apply_shuffle e r =
     Told no_context (mark [Pqueue] (r\<lparr>sn_queue := shuffle_from (ee_randomInt e) (length (sn_queue r) - 1) (sn_queue r)\<rparr>))"

definition apply_speed :: "edge_env \<Rightarrow> rat \<Rightarrow> edge_room \<Rightarrow> edge_result" where
  "apply_speed e speed r =
     Told no_context (mark [PplaybackSpeed, PplaybackPosition]
       ((anchor_here (ee_now e) (clearTemporarySpeed (ee_now e) r))\<lparr>sn_playbackSpeed := speed\<rparr>))"

definition apply_gesture :: "edge_env \<Rightarrow> GestureAction \<Rightarrow> string \<Rightarrow> VideoId \<Rightarrow> Member \<Rightarrow> edge_room \<Rightarrow> edge_room" where
  "apply_gesture e action gestureId video m r =
     (if \<not> sameVideo (map_option video_id (sn_currentSource r)) (Some video) then r
      else
        (let owned = (case sn_temporarySpeed r of None \<Rightarrow> False | Some g \<Rightarrow> eg_clientId g = mb_id m \<and> eg_gestureId g = gestureId) in
         case action of
           GestureStop \<Rightarrow> if owned then clearTemporarySpeed (ee_now e) r else r
         | GestureRenew \<Rightarrow> if owned
             then r\<lparr>sn_temporarySpeed := map_option (\<lambda>g. g\<lparr>eg_expiresAt := ee_now e + 5000\<rparr>) (sn_temporarySpeed r)\<rparr> else r
         | _ \<Rightarrow>
             if \<not> sn_isPlaying r \<or> sn_temporarySpeed r \<noteq> None then r
             else mark [PplaybackPosition, PplaybackSpeed, PtemporaryPlaybackSpeed]
               ((anchor_here (ee_now e) r)
                  \<lparr>sn_temporarySpeed := Some \<lparr>eg_clientId = mb_id m, eg_gestureId = gestureId,
                      eg_previousSpeed = sn_playbackSpeed r, eg_expiresAt = ee_now e + 5000\<rparr>,
                   sn_playbackSpeed := 2\<rparr>)))"

text \<open>An object spread: the keys of the second win where they are present.\<close>

definition over :: "'a option \<Rightarrow> 'a option \<Rightarrow> 'a option" where
  "over a b = (if b \<noteq> None then b else a)"

definition spread_item :: "QueueItem \<Rightarrow> resolved_item \<Rightarrow> QueueItem" where
  "spread_item a bc = (case bc of (b, cleared) \<Rightarrow>
     \<lparr>v_service = v_service b, v_id = v_id b, v_title = over (v_title a) (v_title b), v_description = over (v_description a) (v_description b),
      v_length = over (v_length a) (v_length b), v_isLive = over (v_isLive a) (v_isLive b), v_thumbnail = over (v_thumbnail a) (v_thumbnail b),
      v_mime = over (v_mime a) (v_mime b), v_width = over (v_width a) (v_width b), v_height = over (v_height a) (v_height b),
      v_cors = over (v_cors a) (v_cors b), v_mediaAccess = over (v_mediaAccess a) (v_mediaAccess b),
      v_highlight = (v_highlight a \<or> v_highlight b), v_hls_url = over (v_hls_url a) (v_hls_url b), v_dash_url = over (v_dash_url a) (v_dash_url b),
      v_src_url = over (v_src_url a) (v_src_url b), v_subtitleUrl = (if cleared then None else over (v_subtitleUrl a) (v_subtitleUrl b)),
      v_startAt = over (v_startAt a) (v_startAt b), v_endAt = over (v_endAt a) (v_endAt b)\<rparr>)"

definition apply_update :: "edge_env \<Rightarrow> VideoId \<Rightarrow> resolved_item list \<Rightarrow> edge_room \<Rightarrow> edge_result" where
  "apply_update e video media r =
     (case (queue_index video (sn_queue r), media) of
        (Some i, item # _) \<Rightarrow>
          (let q = (sn_queue r)[i := spread_item (sn_queue r ! i) item]
           in case checkQueueSize e q (sn_currentSource r) of
                Some err \<Rightarrow> Threw err r
              | None \<Rightarrow> Told no_context (mark [Pqueue] (r\<lparr>sn_queue := q\<rparr>)))
      | _ \<Rightarrow> Threw not_found r)"

definition role_name :: "Role \<Rightarrow> string option" where
  "role_name role =
     (case role of Administrator \<Rightarrow> Some ''admin'' | Moderator \<Rightarrow> Some ''moderator'' | TrustedUser \<Rightarrow> Some ''trusted-user'' | _ \<Rightarrow> None)"

definition check_role :: "edge_room \<Rightarrow> Member \<Rightarrow> string \<Rightarrow> Role \<Rightarrow> edge_error option" where
  "check_role r m verb role =
     (case role_name role of None \<Rightarrow> None | Some n \<Rightarrow> edge_check r (mb_session m) (''manage-users.'' @ verb @ n))"

definition promotion_error :: "edge_room \<Rightarrow> Member \<Rightarrow> ClientId \<Rightarrow> Role \<Rightarrow> edge_error option" where
  "promotion_error r m target role =
     (case edge_member r target of
        None \<Rightarrow> Some forbidden
      | Some peer \<Rightarrow>
          (let old = edge_role r (mb_session peer) in
           if role = Owner \<or> old = Owner \<or> edge_rank (edge_role r (mb_session m)) \<le> max (edge_rank old) (edge_rank role) then Some forbidden
           else case check_role r m ''demote-'' old of
               Some err \<Rightarrow> Some err
             | None \<Rightarrow>
                 (case check_role r m ''promote-'' role of
                    Some err \<Rightarrow> Some err
                  | None \<Rightarrow>
                      if gs_identity_id (mb_session peer) \<notin> fst ` set (sn_roles r) \<and> 500 \<le> length (sn_roles r)
                      then Some bad_request else None)))"

definition apply_promote :: "edge_env \<Rightarrow> ClientId \<Rightarrow> Role \<Rightarrow> Member \<Rightarrow> edge_room \<Rightarrow> edge_result" where
  "apply_promote e target role m r =
     (case promotion_error r m target role of
        Some err \<Rightarrow> Threw err r
      | None \<Rightarrow>
          (let session = mb_session (the (edge_member r target));
               r1 = r\<lparr>sn_roles := AList.update (gs_identity_id session) role (sn_roles r)\<rparr>;
               r2 = r1\<lparr>er_messages := er_messages r1 @ map (\<lambda>peer. EdgeUser (edge_info r1 peer))
                       (filter (\<lambda>peer. gs_identity_id (mb_session peer) = gs_identity_id session) (er_members r1))\<rparr>
           in Told no_context
                (if map_option ep_clientId (sn_preparation r2) = Some target \<and> \<not> can r2 session ''playback.play-pause''
                 then edge_prepare e None (clearPreparation r2) else r2)))"

definition apply_kick :: "edge_env \<Rightarrow> ClientId \<Rightarrow> Member \<Rightarrow> edge_room \<Rightarrow> edge_result" where
  "apply_kick e target m r =
     (case edge_member r target of
        None \<Rightarrow> Threw forbidden r
      | Some peer \<Rightarrow>
          if edge_rank (edge_role r (mb_session m)) \<le> edge_rank (edge_role r (mb_session peer)) then Threw forbidden r
          else Told no_context (edge_leave e target (r\<lparr>er_kicks := er_kicks r @ [target]\<rparr>)))"

section \<open>Settings\<close>

text \<open>The grants of a settings command are the pairs it carries; the field for grants of the other settings is not used here.\<close>

definition edge_changed_grants :: "edge_room \<Rightarrow> (int \<times> GrantMask) list option \<Rightarrow> ott_error + Grants option" where
  "edge_changed_grants r wire =
     (case wire of
        None \<Rightarrow> Inr None
      | Some es \<Rightarrow> bind_result (new_Grants (FromArray es)) (\<lambda>g. bind_result (edge_grants r) (\<lambda>old.
          Inr (if list_ex (\<lambda>(role, w). getMask old role \<noteq> Some w) g then Some g else None))))"

text \<open>The keys of the settings that are present, with the permission each needs; \<open>None\<close> stands for the grants.\<close>

definition settings_keys :: "RoomSettings \<Rightarrow> bool \<Rightarrow> string option list" where
  "settings_keys st has_grants =
     (if st_title st \<noteq> None then [Some ''configure-room.set-title''] else [])
     @ (if st_description st \<noteq> None then [Some ''configure-room.set-description''] else [])
     @ (if st_visibility st \<noteq> None then [Some ''configure-room.set-visibility''] else [])
     @ (if st_queueMode st \<noteq> None then [Some ''configure-room.set-queue-mode''] else [])
     @ (if has_grants then [None] else [])
     @ (if st_autoSkipSegmentCategories st \<noteq> None then [Some ''configure-room.other''] else [])
     @ (if st_restoreQueueBehavior st \<noteq> None then [Some ''configure-room.other''] else [])
     @ (if st_enableVoteSkip st \<noteq> None then [Some ''configure-room.other''] else [])
     @ (if st_bufferGateMode st \<noteq> None then [Some ''configure-room.other''] else [])
     @ (if st_danmakuSource st \<noteq> None then [Some ''configure-room.other''] else [])"

fun edge_settings_error :: "edge_room \<Rightarrow> Member \<Rightarrow> bool \<Rightarrow> string option list \<Rightarrow> edge_error option" where
  "edge_settings_error r m grantsChanged [] = None"
| "edge_settings_error r m grantsChanged (None # ks) =
     (if grantsChanged \<and> edge_role r (mb_session m) \<noteq> Owner then Some forbidden else edge_settings_error r m grantsChanged ks)"
| "edge_settings_error r m grantsChanged (Some perm # ks) =
     (case edge_check r (mb_session m) perm of Some err \<Rightarrow> Some err | None \<Rightarrow> edge_settings_error r m grantsChanged ks)"

definition unsupported_settings :: "RoomSettings \<Rightarrow> bool" where
  "unsupported_settings st \<longleftrightarrow>
     st_visibility st = Some Private \<or> st_queueMode st = Some Dj \<or> or_else (st_autoSkipSegmentCategories st) [] \<noteq> []
     \<or> (st_restoreQueueBehavior st \<noteq> None \<and> st_restoreQueueBehavior st \<noteq> Some Always)"

definition assign_one :: "'a option \<Rightarrow> ('a \<Rightarrow> edge_room \<Rightarrow> edge_room) \<Rightarrow> sync_prop \<Rightarrow> edge_room \<Rightarrow> edge_room" where
  "assign_one x put key r = (case x of None \<Rightarrow> r | Some v \<Rightarrow> mark [key] (put v r))"

definition assign_all :: "RoomSettings \<Rightarrow> edge_room \<Rightarrow> edge_room" where
  "assign_all st r =
     assign_one (st_enableVoteSkip st) (\<lambda>v r. r\<lparr>sn_enableVoteSkip := v\<rparr>) PenableVoteSkip
      (assign_one (st_queueMode st) (\<lambda>v r. r\<lparr>sn_queueMode := v\<rparr>) PqueueMode
        (assign_one (st_visibility st) (\<lambda>v r. r\<lparr>sn_visibility := v\<rparr>) Pvisibility
          (assign_one (st_description st) (\<lambda>v r. r\<lparr>sn_description := v\<rparr>) Pdescription
            (assign_one (st_title st) (\<lambda>v r. r\<lparr>sn_title := v\<rparr>) Ptitle r))))"

definition adopt_grants :: "edge_env \<Rightarrow> Grants \<Rightarrow> edge_room \<Rightarrow> edge_room" where
  "adopt_grants e g r =
     (let r1 = mark [Pgrants] (r\<lparr>sn_grants := entries g\<rparr>);
          preparer = (case sn_preparation r1 of None \<Rightarrow> edge_member r1 [] | Some p \<Rightarrow> edge_member r1 (ep_clientId p));
          r2 = (case preparer of
                  None \<Rightarrow> r1
                | Some m \<Rightarrow> if can r1 (mb_session m) ''playback.play-pause'' then r1 else clearPreparation r1)
      in edge_prepare e None r2)"

definition edge_settings :: "edge_env \<Rightarrow> RoomSettings \<Rightarrow> (int \<times> GrantMask) list option \<Rightarrow> Member \<Rightarrow> edge_room \<Rightarrow> edge_result" where
  "edge_settings e st wire m r =
     (case edge_changed_grants r wire of
        Inl err \<Rightarrow> Threw (BadGrants err) r
      | Inr new_grants \<Rightarrow>
          (case edge_settings_error r m (new_grants \<noteq> None) (settings_keys st (wire \<noteq> None)) of
             Some err \<Rightarrow> Threw err r
           | None \<Rightarrow>
               if unsupported_settings st then Threw bad_request r
               else
                 (let r1 = assign_all st r
                  in Told no_context (orderVotes (case new_grants of None \<Rightarrow> r1 | Some g \<Rightarrow> adopt_grants e g r1)))))"

section \<open>Dispatch\<close>

definition edge_dispatch :: "edge_env \<Rightarrow> Command \<Rightarrow> Member \<Rightarrow> resolved_item list \<Rightarrow> edge_room \<Rightarrow> edge_result" where
  "edge_dispatch e cmd m media r =
     (case cmd of
        CmdChat text \<Rightarrow> Quiet (push (EdgeChat (edge_info r m) text) r)
      | CmdPlayback state \<Rightarrow>
          if sn_currentSource r = None then Quiet r
          else Told no_context (playing (ee_now e) state ((clearPreparation r)\<lparr>sn_resumeOnNextJoin := False\<rparr>))
      | CmdSeek target \<Rightarrow> apply_seek e target r
      | CmdSkip \<Rightarrow> apply_skip e m r
      | CmdAdd _ _ _ \<Rightarrow> apply_add e (map fst media) r
      | CmdRemove video \<Rightarrow> apply_remove video r
      | CmdOrder fromIdx toIdx \<Rightarrow> apply_order fromIdx toIdx r
      | CmdVote video add \<Rightarrow> apply_vote video add m r
      | CmdPlayNow add \<Rightarrow> apply_playNow e (va_video add) (map fst media) r
      | CmdShuffle \<Rightarrow> apply_shuffle e r
      | CmdPlaybackSpeed speed \<Rightarrow> apply_speed e speed r
      | CmdTemporaryPlaybackSpeed action gestureId video \<Rightarrow> Quiet (apply_gesture e action gestureId video m r)
      | CmdUpdateQueueItem video _ \<Rightarrow> apply_update e video media r
      | CmdPromote target role \<Rightarrow> apply_promote e target role m r
      | CmdKick target \<Rightarrow> apply_kick e target m r
      | CmdApplySettings st wire \<Rightarrow> edge_settings e st wire m r
      | CmdRestoreQueue _ \<Rightarrow> Quiet r)"

definition edge_apply :: "edge_env \<Rightarrow> Command \<Rightarrow> Member \<Rightarrow> resolved_item list \<Rightarrow> edge_room \<Rightarrow> (edge_error, edge_room) thrown" where
  "edge_apply e cmd m media r =
     (case checkCommand r cmd m of
        Some err \<Rightarrow> (Some err, r)
      | None \<Rightarrow>
          (case edge_dispatch e cmd m media r of
             Threw err r1 \<Rightarrow> (Some err, r1)
           | Quiet r1 \<Rightarrow> (None, r1)
           | Told additional r1 \<Rightarrow> (None, edge_event (EdgeCommand cmd) m additional r1)))"

section \<open>Alarm, synchronisation and storage\<close>

definition edge_tick :: "edge_env \<Rightarrow> edge_room \<Rightarrow> edge_room" where
  "edge_tick e r =
     (let r1 = (case sn_temporarySpeed r of None \<Rightarrow> r | Some g \<Rightarrow> if eg_expiresAt g \<le> ee_now e then clearTemporarySpeed (ee_now e) r else r);
          r2 = (case sn_preparation r1 of
                  None \<Rightarrow> r1
                | Some p \<Rightarrow> if ep_expiresAt p \<le> ee_now e then edge_prepare e (Some (ep_clientId p)) (clearPreparation r1) else r1)
      in case Option.bind (sn_currentSource r2) edge_end of
           None \<Rightarrow> r2
         | Some x \<Rightarrow> if sn_isPlaying r2 \<and> js_geq (edge_position (ee_now e) r2) x then edge_next (ee_now e) r2 else r2)"

definition fullSync :: "int \<Rightarrow> edge_room \<Rightarrow> (sync_prop \<times> edge_value) list" where
  "fullSync t r =
     [(Pname, Plain (VString (sn_name r))), (Ptitle, Plain (VString (sn_title r))), (Pdescription, Plain (VString (sn_description r))),
      (PisTemporary, Plain (VBool (sn_isTemporary r))), (Pvisibility, Plain (VVisibility (sn_visibility r))),
      (PqueueMode, Plain (VQueueMode (sn_queueMode r))), (PisPlaying, Plain (VBool (sn_isPlaying r))),
      (PplaybackPosition, Plain (VNumber (edge_position t r))), (PplaybackSpeed, Plain (VNumber (sn_playbackSpeed r))),
      (PcurrentSource, Plain (VSource (sn_currentSource r))), (Pqueue, Plain (VItems (sn_queue r))), (PprevQueue, Plain (VPrevQueue None)),
      (PhasOwner, Plain (VBool True)), (Pgrants, Plain (VGrants (sn_grants r))),
      (PvoteCounts, Plain (VCounts (map (\<lambda>(k, ids). (k, length ids)) (sn_votes r)))), (PvotesToSkip, Plain (VClients (sn_votesToSkip r))),
      (PenableVoteSkip, Plain (VBool (sn_enableVoteSkip r))), (PautoSkipSegmentCategories, Plain (VCategories [])),
      (PvideoSegments, Plain (VSegments [])), (PrestoreQueueBehavior, Plain (VBehavior Always)),
      (PplaybackPreparation, Prepared (map_option (\<lambda>p. (ep_id p, ep_clientId p, ep_video p, ep_position p)) (sn_preparation r))),
      (PtemporaryPlaybackSpeed, Plain (VTemporary (map_option (\<lambda>g. (eg_clientId g, eg_gestureId g, 2)) (sn_temporarySpeed r))))]"

definition drain :: "int \<Rightarrow> edge_room \<Rightarrow> (edge_message list \<times> ClientId list) \<times> edge_room" where
  "drain t r =
     (let sync = List.map_filter (\<lambda>k. map_option (Pair k) (map_of (fullSync t r) k)) (er_dirty r)
      in ((er_messages r @ (if er_dirty r = [] then [] else [EdgeSync sync]), er_kicks r),
          r\<lparr>er_dirty := [], er_messages := [], er_kicks := []\<rparr>))"

definition persisted :: "int \<Rightarrow> edge_room \<Rightarrow> EdgeSnapshot \<times> edge_room" where
  "persisted t r = (let r1 = anchor_here t r in (EdgeSnapshot.truncate r1, r1))"

text \<open>\<^verbatim>\<open>Math.min\<close> and \<^verbatim>\<open>Math.max\<close> give NaN when an argument is.\<close>

fun js_min :: "js_number \<Rightarrow> js_number \<Rightarrow> js_number" where
  "js_min NaN _ = NaN" | "js_min _ NaN = NaN" | "js_min NegInf _ = NegInf" | "js_min _ NegInf = NegInf"
| "js_min PosInf y = y" | "js_min x PosInf = x" | "js_min (Fin x) (Fin y) = Fin (min x y)"

fun js_max :: "js_number \<Rightarrow> js_number \<Rightarrow> js_number" where
  "js_max NaN _ = NaN" | "js_max _ NaN = NaN" | "js_max PosInf _ = PosInf" | "js_max _ PosInf = PosInf"
| "js_max NegInf y = y" | "js_max x NegInf = x" | "js_max (Fin x) (Fin y) = Fin (max x y)"

text \<open>\<^verbatim>\<open>Date.now() + Math.max(1, ((end - position) / speed) * 1000)\<close> for a positive speed.\<close>

definition end_alarm :: "int \<Rightarrow> rat \<Rightarrow> rat \<Rightarrow> js_number \<Rightarrow> js_number" where
  "end_alarm t position speed stop =
     (case stop of
        Fin x \<Rightarrow> Fin (of_int t + max 1 ((x - position) / speed * 1000))
      | PosInf \<Rightarrow> PosInf
      | NegInf \<Rightarrow> Fin (of_int t + 1)
      | NaN \<Rightarrow> NaN)"

definition alarm_times :: "int \<Rightarrow> rat \<Rightarrow> rat \<Rightarrow> edge_room \<Rightarrow> js_number list" where
  "alarm_times t idleMs checkpointMs r =
     (case sn_emptySince r of Some since \<Rightarrow> if sn_isTemporary r then [Fin (of_int since + idleMs)] else [] | None \<Rightarrow> [])
     @ (case sn_temporarySpeed r of None \<Rightarrow> [] | Some g \<Rightarrow> [Fin (of_int (eg_expiresAt g))])
     @ (case sn_preparation r of None \<Rightarrow> [] | Some p \<Rightarrow> [Fin (of_int (ep_expiresAt p))])
     @ (if sn_isPlaying r \<and> er_members r \<noteq> []
        then Fin (of_int (sn_anchorAt r) + checkpointMs)
             # (case Option.bind (sn_currentSource r) edge_end of
                  None \<Rightarrow> []
                | Some x \<Rightarrow> [end_alarm t (edge_position t r) (sn_playbackSpeed r) x])
        else [])"

definition nextAlarm :: "int \<Rightarrow> rat \<Rightarrow> rat \<Rightarrow> edge_room \<Rightarrow> js_number option" where
  "nextAlarm t idleMs checkpointMs r =
     (case alarm_times t idleMs checkpointMs r of
        [] \<Rightarrow> None
      | x # xs \<Rightarrow> Some (js_max (Fin (of_int t + 1)) (foldl js_min x xs)))"

section \<open>The machine\<close>

text \<open>What \<^verbatim>\<open>commandSchema\<close> lets through, as far as it bounds values.\<close>

definition finitePosition :: "rat \<Rightarrow> bool" where
  "finitePosition x \<longleftrightarrow> 0 \<le> x \<and> x \<le> 31 * 86400"

definition edge_videoId :: "VideoId \<Rightarrow> bool" where
  "edge_videoId v \<longleftrightarrow> fst v \<in> {''direct'', ''hls'', ''dash''} \<and> 1 \<le> length (snd v) \<and> length (snd v) \<le> 4096"

fun commandSchema :: "Command \<Rightarrow> bool" where
  "commandSchema (CmdSeek x) = finitePosition x"
| "commandSchema (CmdRemove v) = edge_videoId v"
| "commandSchema (CmdVote v _) = edge_videoId v"
| "commandSchema (CmdPromote target _) = (length target \<le> 128)"
| "commandSchema (CmdChat text) = (1 \<le> length text \<and> length text \<le> 1000)"
| "commandSchema (CmdPlayNow add) = edge_videoId (va_video add)"
| "commandSchema (CmdPlaybackSpeed x) = (1 / 4 \<le> x \<and> x \<le> 4)"
| "commandSchema (CmdKick target) = (length target \<le> 128)"
| "commandSchema (CmdUpdateQueueItem v _) = edge_videoId v"
| "commandSchema (CmdTemporaryPlaybackSpeed action gestureId v) = (action \<noteq> GestureOther \<and> 1 \<le> length gestureId \<and> length gestureId \<le> 64 \<and> edge_videoId v)"
| "commandSchema _ = True"

text \<open>
  One call into the room at a time, as the object serialises them. A command may come from a
  member that is not in the room, over HTTP; a restart loses the sockets that are not named.
\<close>

datatype edge_call =
    CallJoin Member
  | CallLeave ClientId
  | CallStatus ClientId PlayerStatus "(string \<times> js_number) option"
  | CallCommand Command Member "resolved_item list"
  | CallTick
  | CallSession ClientId GuestSession
  | CallDrain
  | CallPersist
  | CallRestart "ClientId list"

definition edge_restart :: "edge_env \<Rightarrow> ClientId list \<Rightarrow> edge_room \<Rightarrow> edge_room" where
  "edge_restart e alive r =
     edge_recover e ((new_edge_room (EdgeSnapshot.truncate r))\<lparr>er_members := filter (\<lambda>m. mb_id m \<in> set alive) (er_members r)\<rparr>)"

definition edge_step :: "edge_room \<Rightarrow> edge_env \<times> edge_call \<Rightarrow> edge_room" where
  "edge_step r ec = (case ec of (e, call) \<Rightarrow>
     (case call of
        CallJoin m \<Rightarrow> edge_join e m r
      | CallLeave i \<Rightarrow> edge_leave e i r
      | CallStatus i status prepared \<Rightarrow> edge_status e i status prepared r
      | CallCommand cmd m media \<Rightarrow> snd (edge_apply e cmd m media r)
      | CallTick \<Rightarrow> edge_tick e r
      | CallSession i session \<Rightarrow> r\<lparr>er_members := map (\<lambda>m. if mb_id m = i then m\<lparr>mb_session := session\<rparr> else m) (er_members r)\<rparr>
      | CallDrain \<Rightarrow> snd (drain (ee_now e) r)
      | CallPersist \<Rightarrow> snd (persisted (ee_now e) r)
      | CallRestart alive \<Rightarrow> edge_restart e alive r))"

end
