(* ===== verification/EdgeSafety.thy ===== *)
theory EdgeSafety
  imports EdgeRoom
begin

text \<open>
  The room of the edge deployment is consistent in every state it can reach, a refused command
  leaves it alone, its clock runs on through every command that is not about it, and ranks are respected.
\<close>

section \<open>Frames\<close>

lemma mark_frame [simp]:
  "sn_name (mark ks r) = sn_name r" "sn_title (mark ks r) = sn_title r" "sn_description (mark ks r) = sn_description r"
  "sn_isTemporary (mark ks r) = sn_isTemporary r" "sn_visibility (mark ks r) = sn_visibility r"
  "sn_queueMode (mark ks r) = sn_queueMode r" "sn_ownerId (mark ks r) = sn_ownerId r" "sn_roles (mark ks r) = sn_roles r"
  "sn_grants (mark ks r) = sn_grants r" "sn_currentSource (mark ks r) = sn_currentSource r"
  "sn_queue (mark ks r) = sn_queue r" "sn_isPlaying (mark ks r) = sn_isPlaying r" "sn_position (mark ks r) = sn_position r"
  "sn_anchorAt (mark ks r) = sn_anchorAt r" "sn_playbackSpeed (mark ks r) = sn_playbackSpeed r"
  "sn_resumeOnNextJoin (mark ks r) = sn_resumeOnNextJoin r" "sn_emptySince (mark ks r) = sn_emptySince r"
  "sn_preparation (mark ks r) = sn_preparation r" "sn_temporarySpeed (mark ks r) = sn_temporarySpeed r"
  "sn_votes (mark ks r) = sn_votes r" "sn_votesToSkip (mark ks r) = sn_votesToSkip r"
  "sn_enableVoteSkip (mark ks r) = sn_enableVoteSkip r" "sn_createdAt (mark ks r) = sn_createdAt r"
  "er_members (mark ks r) = er_members r" "er_messages (mark ks r) = er_messages r" "er_kicks (mark ks r) = er_kicks r"
  by (simp_all add: mark_def)

lemma push_frame [simp]:
  "sn_name (push msg r) = sn_name r" "sn_title (push msg r) = sn_title r" "sn_description (push msg r) = sn_description r"
  "sn_isTemporary (push msg r) = sn_isTemporary r" "sn_visibility (push msg r) = sn_visibility r"
  "sn_queueMode (push msg r) = sn_queueMode r" "sn_ownerId (push msg r) = sn_ownerId r" "sn_roles (push msg r) = sn_roles r"
  "sn_grants (push msg r) = sn_grants r" "sn_currentSource (push msg r) = sn_currentSource r"
  "sn_queue (push msg r) = sn_queue r" "sn_isPlaying (push msg r) = sn_isPlaying r" "sn_position (push msg r) = sn_position r"
  "sn_anchorAt (push msg r) = sn_anchorAt r" "sn_playbackSpeed (push msg r) = sn_playbackSpeed r"
  "sn_resumeOnNextJoin (push msg r) = sn_resumeOnNextJoin r" "sn_emptySince (push msg r) = sn_emptySince r"
  "sn_preparation (push msg r) = sn_preparation r" "sn_temporarySpeed (push msg r) = sn_temporarySpeed r"
  "sn_votes (push msg r) = sn_votes r" "sn_votesToSkip (push msg r) = sn_votesToSkip r"
  "sn_enableVoteSkip (push msg r) = sn_enableVoteSkip r" "sn_createdAt (push msg r) = sn_createdAt r"
  "er_members (push msg r) = er_members r" "er_dirty (push msg r) = er_dirty r" "er_kicks (push msg r) = er_kicks r"
  by (simp_all add: push_def)

lemma anchor_frame [simp]:
  "sn_name (anchor_here t r) = sn_name r" "sn_title (anchor_here t r) = sn_title r"
  "sn_description (anchor_here t r) = sn_description r" "sn_isTemporary (anchor_here t r) = sn_isTemporary r"
  "sn_visibility (anchor_here t r) = sn_visibility r" "sn_queueMode (anchor_here t r) = sn_queueMode r"
  "sn_ownerId (anchor_here t r) = sn_ownerId r" "sn_roles (anchor_here t r) = sn_roles r"
  "sn_grants (anchor_here t r) = sn_grants r" "sn_currentSource (anchor_here t r) = sn_currentSource r"
  "sn_queue (anchor_here t r) = sn_queue r" "sn_isPlaying (anchor_here t r) = sn_isPlaying r"
  "sn_playbackSpeed (anchor_here t r) = sn_playbackSpeed r" "sn_resumeOnNextJoin (anchor_here t r) = sn_resumeOnNextJoin r"
  "sn_emptySince (anchor_here t r) = sn_emptySince r" "sn_preparation (anchor_here t r) = sn_preparation r"
  "sn_temporarySpeed (anchor_here t r) = sn_temporarySpeed r" "sn_votes (anchor_here t r) = sn_votes r"
  "sn_votesToSkip (anchor_here t r) = sn_votesToSkip r" "sn_enableVoteSkip (anchor_here t r) = sn_enableVoteSkip r"
  "sn_createdAt (anchor_here t r) = sn_createdAt r" "er_members (anchor_here t r) = er_members r"
  "er_dirty (anchor_here t r) = er_dirty r" "er_messages (anchor_here t r) = er_messages r"
  "er_kicks (anchor_here t r) = er_kicks r"
  "sn_position (anchor_here t r) = edge_position t r" "sn_anchorAt (anchor_here t r) = t"
  by (simp_all add: anchor_here_def anchor_def)

lemma clearPreparation_frame [simp]:
  "sn_name (clearPreparation r) = sn_name r" "sn_title (clearPreparation r) = sn_title r"
  "sn_description (clearPreparation r) = sn_description r" "sn_isTemporary (clearPreparation r) = sn_isTemporary r"
  "sn_visibility (clearPreparation r) = sn_visibility r" "sn_queueMode (clearPreparation r) = sn_queueMode r"
  "sn_ownerId (clearPreparation r) = sn_ownerId r" "sn_roles (clearPreparation r) = sn_roles r"
  "sn_grants (clearPreparation r) = sn_grants r" "sn_currentSource (clearPreparation r) = sn_currentSource r"
  "sn_queue (clearPreparation r) = sn_queue r" "sn_isPlaying (clearPreparation r) = sn_isPlaying r"
  "sn_position (clearPreparation r) = sn_position r" "sn_anchorAt (clearPreparation r) = sn_anchorAt r"
  "sn_playbackSpeed (clearPreparation r) = sn_playbackSpeed r"
  "sn_resumeOnNextJoin (clearPreparation r) = sn_resumeOnNextJoin r" "sn_emptySince (clearPreparation r) = sn_emptySince r"
  "sn_temporarySpeed (clearPreparation r) = sn_temporarySpeed r" "sn_votes (clearPreparation r) = sn_votes r"
  "sn_votesToSkip (clearPreparation r) = sn_votesToSkip r" "sn_enableVoteSkip (clearPreparation r) = sn_enableVoteSkip r"
  "sn_createdAt (clearPreparation r) = sn_createdAt r" "er_members (clearPreparation r) = er_members r"
  "er_messages (clearPreparation r) = er_messages r" "er_kicks (clearPreparation r) = er_kicks r"
  "sn_preparation (clearPreparation r) = None"
  by (simp_all add: clearPreparation_def)

lemma edge_prepare_frame [simp]:
  "sn_name (edge_prepare e x r) = sn_name r" "sn_title (edge_prepare e x r) = sn_title r"
  "sn_description (edge_prepare e x r) = sn_description r" "sn_isTemporary (edge_prepare e x r) = sn_isTemporary r"
  "sn_visibility (edge_prepare e x r) = sn_visibility r" "sn_queueMode (edge_prepare e x r) = sn_queueMode r"
  "sn_ownerId (edge_prepare e x r) = sn_ownerId r" "sn_roles (edge_prepare e x r) = sn_roles r"
  "sn_grants (edge_prepare e x r) = sn_grants r" "sn_currentSource (edge_prepare e x r) = sn_currentSource r"
  "sn_queue (edge_prepare e x r) = sn_queue r" "sn_isPlaying (edge_prepare e x r) = sn_isPlaying r"
  "sn_position (edge_prepare e x r) = sn_position r" "sn_anchorAt (edge_prepare e x r) = sn_anchorAt r"
  "sn_playbackSpeed (edge_prepare e x r) = sn_playbackSpeed r"
  "sn_resumeOnNextJoin (edge_prepare e x r) = sn_resumeOnNextJoin r" "sn_emptySince (edge_prepare e x r) = sn_emptySince r"
  "sn_temporarySpeed (edge_prepare e x r) = sn_temporarySpeed r" "sn_votes (edge_prepare e x r) = sn_votes r"
  "sn_votesToSkip (edge_prepare e x r) = sn_votesToSkip r" "sn_enableVoteSkip (edge_prepare e x r) = sn_enableVoteSkip r"
  "sn_createdAt (edge_prepare e x r) = sn_createdAt r" "er_members (edge_prepare e x r) = er_members r"
  "er_messages (edge_prepare e x r) = er_messages r" "er_kicks (edge_prepare e x r) = er_kicks r"
  by (simp_all add: edge_prepare_def split: option.split)

lemma clearTemporarySpeed_frame [simp]:
  "sn_name (clearTemporarySpeed t r) = sn_name r" "sn_title (clearTemporarySpeed t r) = sn_title r"
  "sn_description (clearTemporarySpeed t r) = sn_description r" "sn_isTemporary (clearTemporarySpeed t r) = sn_isTemporary r"
  "sn_visibility (clearTemporarySpeed t r) = sn_visibility r" "sn_queueMode (clearTemporarySpeed t r) = sn_queueMode r"
  "sn_ownerId (clearTemporarySpeed t r) = sn_ownerId r" "sn_roles (clearTemporarySpeed t r) = sn_roles r"
  "sn_grants (clearTemporarySpeed t r) = sn_grants r" "sn_currentSource (clearTemporarySpeed t r) = sn_currentSource r"
  "sn_queue (clearTemporarySpeed t r) = sn_queue r" "sn_isPlaying (clearTemporarySpeed t r) = sn_isPlaying r"
  "sn_resumeOnNextJoin (clearTemporarySpeed t r) = sn_resumeOnNextJoin r"
  "sn_emptySince (clearTemporarySpeed t r) = sn_emptySince r" "sn_preparation (clearTemporarySpeed t r) = sn_preparation r"
  "sn_votes (clearTemporarySpeed t r) = sn_votes r" "sn_votesToSkip (clearTemporarySpeed t r) = sn_votesToSkip r"
  "sn_enableVoteSkip (clearTemporarySpeed t r) = sn_enableVoteSkip r"
  "sn_createdAt (clearTemporarySpeed t r) = sn_createdAt r" "er_members (clearTemporarySpeed t r) = er_members r"
  "er_messages (clearTemporarySpeed t r) = er_messages r" "er_kicks (clearTemporarySpeed t r) = er_kicks r"
  "sn_temporarySpeed (clearTemporarySpeed t r) = None"
  by (simp_all add: clearTemporarySpeed_def split: option.split)

lemma orderVotes_frame [simp]:
  "sn_name (orderVotes r) = sn_name r" "sn_title (orderVotes r) = sn_title r"
  "sn_description (orderVotes r) = sn_description r" "sn_isTemporary (orderVotes r) = sn_isTemporary r"
  "sn_visibility (orderVotes r) = sn_visibility r" "sn_queueMode (orderVotes r) = sn_queueMode r"
  "sn_ownerId (orderVotes r) = sn_ownerId r" "sn_roles (orderVotes r) = sn_roles r" "sn_grants (orderVotes r) = sn_grants r"
  "sn_currentSource (orderVotes r) = sn_currentSource r" "sn_isPlaying (orderVotes r) = sn_isPlaying r"
  "sn_position (orderVotes r) = sn_position r" "sn_anchorAt (orderVotes r) = sn_anchorAt r"
  "sn_playbackSpeed (orderVotes r) = sn_playbackSpeed r" "sn_resumeOnNextJoin (orderVotes r) = sn_resumeOnNextJoin r"
  "sn_emptySince (orderVotes r) = sn_emptySince r" "sn_preparation (orderVotes r) = sn_preparation r"
  "sn_temporarySpeed (orderVotes r) = sn_temporarySpeed r" "sn_votes (orderVotes r) = sn_votes r"
  "sn_votesToSkip (orderVotes r) = sn_votesToSkip r" "sn_enableVoteSkip (orderVotes r) = sn_enableVoteSkip r"
  "sn_createdAt (orderVotes r) = sn_createdAt r" "er_members (orderVotes r) = er_members r"
  "er_messages (orderVotes r) = er_messages r" "er_kicks (orderVotes r) = er_kicks r"
  "length (sn_queue (orderVotes r)) = length (sn_queue r)" "set (sn_queue (orderVotes r)) = set (sn_queue r)"
  by (simp_all add: orderVotes_def sort_desc_def)

lemma start_frame [simp]:
  "sn_name (edge_start t v r) = sn_name r" "sn_title (edge_start t v r) = sn_title r"
  "sn_description (edge_start t v r) = sn_description r" "sn_isTemporary (edge_start t v r) = sn_isTemporary r"
  "sn_visibility (edge_start t v r) = sn_visibility r" "sn_queueMode (edge_start t v r) = sn_queueMode r"
  "sn_ownerId (edge_start t v r) = sn_ownerId r" "sn_roles (edge_start t v r) = sn_roles r"
  "sn_grants (edge_start t v r) = sn_grants r" "sn_emptySince (edge_start t v r) = sn_emptySince r"
  "sn_enableVoteSkip (edge_start t v r) = sn_enableVoteSkip r" "sn_createdAt (edge_start t v r) = sn_createdAt r"
  "er_members (edge_start t v r) = er_members r" "er_messages (edge_start t v r) = er_messages r"
  "er_kicks (edge_start t v r) = er_kicks r"
  by (simp_all add: edge_start_def Let_def)

lemma next_frame [simp]:
  "sn_name (edge_next t r) = sn_name r" "sn_title (edge_next t r) = sn_title r"
  "sn_description (edge_next t r) = sn_description r" "sn_isTemporary (edge_next t r) = sn_isTemporary r"
  "sn_visibility (edge_next t r) = sn_visibility r" "sn_queueMode (edge_next t r) = sn_queueMode r"
  "sn_ownerId (edge_next t r) = sn_ownerId r" "sn_roles (edge_next t r) = sn_roles r"
  "sn_grants (edge_next t r) = sn_grants r" "sn_emptySince (edge_next t r) = sn_emptySince r"
  "sn_enableVoteSkip (edge_next t r) = sn_enableVoteSkip r" "sn_createdAt (edge_next t r) = sn_createdAt r"
  "er_members (edge_next t r) = er_members r" "er_messages (edge_next t r) = er_messages r"
  "er_kicks (edge_next t r) = er_kicks r"
  by (simp_all add: edge_next_def Let_def split: list.split)

section \<open>The invariant\<close>

abbreviation edge_ids :: "edge_room \<Rightarrow> ClientId list" where
  "edge_ids r \<equiv> map mb_id (er_members r)"

definition clock_ok :: "edge_room \<Rightarrow> bool" where
  "clock_ok r \<longleftrightarrow> 0 \<le> sn_position r \<and> 0 < sn_playbackSpeed r \<and> (sn_isPlaying r \<longrightarrow> sn_currentSource r \<noteq> None)
     \<and> (\<forall>g. sn_temporarySpeed r = Some g \<longrightarrow> sn_playbackSpeed r = 2 \<and> 0 < eg_previousSpeed g)"

definition round_ok :: "edge_room \<Rightarrow> bool" where
  "round_ok r \<longleftrightarrow> (\<forall>p. sn_preparation r = Some p \<longrightarrow> \<not> sn_isPlaying r \<and> sn_resumeOnNextJoin r
     \<and> map_option video_id (sn_currentSource r) = Some (ep_video p) \<and> ep_position p = sn_position r \<and> ep_clientId p \<in> set (edge_ids r))"

definition starts_ok :: "QueueItem \<Rightarrow> bool" where
  "starts_ok v \<longleftrightarrow> (case v_startAt v of None \<Rightarrow> True | Some x \<Rightarrow> 0 \<le> x)"

definition lists_ok :: "edge_room \<Rightarrow> bool" where
  "lists_ok r \<longleftrightarrow> (\<forall>v \<in> set (sn_queue r) \<union> set_option (sn_currentSource r). starts_ok v) \<and> length (sn_queue r) \<le> 200 \<and> distinct (sn_votesToSkip r) \<and> (\<forall>ids \<in> snd ` set (sn_votes r). distinct ids)
     \<and> distinct (map fst (sn_votes r)) \<and> length (sn_roles r) \<le> 500 \<and> distinct (map fst (sn_roles r))"

definition members_ok :: "edge_room \<Rightarrow> bool" where
  "members_ok r \<longleftrightarrow> distinct (edge_ids r) \<and> (er_members r = []) = (sn_emptySince r \<noteq> None)"

definition grants_ok :: "edge_room \<Rightarrow> bool" where
  "grants_ok r \<longleftrightarrow> (\<exists>g. wf_grants g \<and> sn_grants r = entries g)"

definition edge_inv :: "edge_room \<Rightarrow> bool" where
  "edge_inv r \<longleftrightarrow> clock_ok r \<and> round_ok r \<and> lists_ok r \<and> members_ok r \<and> grants_ok r"

lemmas edge_inv_defs = edge_inv_def clock_ok_def round_ok_def lists_ok_def members_ok_def grants_ok_def

lemma paused_position [simp]: "\<not> sn_isPlaying r \<Longrightarrow> 0 \<le> sn_position r \<Longrightarrow> edge_position t r = sn_position r"
  by (simp add: edge_position_def)

lemma edge_position_nonneg [simp]: "0 \<le> edge_position t r"
  by (simp add: edge_position_def)

lemma mark_inv [simp]: "edge_inv (mark ks r) = edge_inv r" "edge_inv (push msg r) = edge_inv r" "edge_inv (edge_event q m a r) = edge_inv r"
  by (simp_all add: edge_inv_defs edge_event_def)

lemma clearPreparation_inv: "edge_inv r \<Longrightarrow> edge_inv (clearPreparation r)"
  by (auto simp: edge_inv_defs)

lemma clearTemporarySpeed_inv: "edge_inv r \<Longrightarrow> edge_inv (clearTemporarySpeed t r)"
  by (auto simp: edge_inv_defs clearTemporarySpeed_def split: option.splits)

lemma prepare_inv: "edge_inv r \<Longrightarrow> edge_inv (edge_prepare e x r)"
  by (auto simp: edge_inv_defs edge_prepare_def find_Some_iff split: option.splits)

lemma orderVotes_inv: "edge_inv r \<Longrightarrow> edge_inv (orderVotes r)"
  by (simp add: edge_inv_defs)

text \<open>Outside a round the clock may be started and stopped.\<close>

lemma playing_inv: "edge_inv r \<Longrightarrow> sn_preparation r = None \<Longrightarrow> (on \<longrightarrow> sn_currentSource r \<noteq> None) \<Longrightarrow> edge_inv (playing t on r)"
  by (auto simp: playing_def edge_inv_defs)

lemma start_inv:
  assumes "edge_inv r" "\<forall>v \<in> set_option video. starts_ok v"
  shows "edge_inv (edge_start t video r)"
  using assms unfolding edge_start_def Let_def
  by (auto simp: edge_inv_defs starts_ok_def or_else_def split: option.splits bind_splits)

text \<open>Votes and the queue may change outside the clock.\<close>

lemma queue_inv:
  assumes "edge_inv r" "length q \<le> 200" "\<forall>v \<in> set q. starts_ok v"
  shows "edge_inv (r\<lparr>sn_queue := q\<rparr>)"
  using assms by (auto simp: edge_inv_defs)

lemma votes_inv:
  assumes "edge_inv r" "distinct (map fst vs)" "\<forall>ids \<in> snd ` set vs. distinct ids" "distinct skip"
  shows "edge_inv (r\<lparr>sn_votes := vs\<rparr>)" "edge_inv (r\<lparr>sn_votesToSkip := skip\<rparr>)"
  using assms by (simp_all add: edge_inv_defs)

lemma unvote_inv:
  assumes "edge_inv r"
  shows "edge_inv (r\<lparr>sn_votes := AList.delete k (sn_votes r)\<rparr>)"
  using assms by (intro votes_inv [where skip = "[]"]) (auto simp: edge_inv_defs AList.delete_eq distinct_map_filter)

lemma edge_queue_starts: "edge_inv r \<Longrightarrow> v \<in> set (sn_queue r) \<Longrightarrow> starts_ok v" "edge_inv r \<Longrightarrow> sn_currentSource r = Some v \<Longrightarrow> starts_ok v"
  "edge_inv r \<Longrightarrow> length (sn_queue r) \<le> 200"
  by (auto simp: edge_inv_defs)

lemma next_inv:
  assumes "edge_inv r"
  shows "edge_inv (edge_next t r)"
proof -
  define q where "q = (case sn_currentSource r of Some v \<Rightarrow> if sn_queueMode r = Loop then sn_queue r @ [v] else sn_queue r | None \<Rightarrow> sn_queue r)"
  have q: "\<forall>v \<in> set q. starts_ok v" "length q \<le> 201"
    using edge_queue_starts [OF assms] by (auto simp: q_def split: option.split)
  show ?thesis
  proof (cases q)
    case Nil
    then show ?thesis using queue_inv [OF assms, of "[]"] by (simp add: edge_next_def q_def start_inv)
  next
    case (Cons v vs)
    have "edge_inv (r\<lparr>sn_queue := vs\<rparr>)" using q Cons by (intro queue_inv [OF assms]) auto
    from unvote_inv [OF this, of "keyFor (video_id v)"]
    have "edge_inv (r\<lparr>sn_queue := vs, sn_votes := AList.delete (keyFor (video_id v)) (sn_votes r)\<rparr>)" by simp
    then have "edge_inv (edge_start t (Some v) (r\<lparr>sn_queue := vs, sn_votes := AList.delete (keyFor (video_id v)) (sn_votes r)\<rparr>))"
      by (rule start_inv) (use q Cons in simp)
    then show ?thesis using Cons by (simp add: edge_next_def q_def)
  qed
qed

section \<open>Members\<close>

lemma set_member_ids: "mb_id ` set (set_member m ms) = insert (mb_id m) (mb_id ` set ms)"
  by (auto simp: set_member_def image_iff split: if_splits)

lemma set_member_distinct: "distinct (map mb_id ms) \<Longrightarrow> distinct (map mb_id (set_member m ms))"
proof -
  have "map mb_id (map (\<lambda>m'. if mb_id m' = mb_id m then m else m') ms) = map mb_id ms" by simp
  then show "distinct (map mb_id ms) \<Longrightarrow> distinct (map mb_id (set_member m ms))" unfolding set_member_def by (auto simp del: map_map)
qed

lemma join_inv:
  assumes "edge_inv r"
  shows "edge_inv (edge_join e m r)"
proof -
  have "set_member m (er_members r) \<noteq> []" by (auto simp: set_member_def)
  then have "edge_inv (r\<lparr>er_members := set_member m (er_members r), sn_emptySince := None\<rparr>)"
    using assms set_member_distinct by (auto simp: edge_inv_defs set_member_ids)
  then show ?thesis by (simp add: edge_join_def prepare_inv Let_def)
qed

lemma status_members_inv:
  assumes "edge_inv r" "\<And>m. mb_id (f m) = mb_id m"
  shows "edge_inv (r\<lparr>er_members := map f (er_members r)\<rparr>)"
  using assms by (simp add: edge_inv_defs comp_def image_image)

lemma status_inv:
  assumes "edge_inv r"
  shows "edge_inv (edge_status e i status prepared r)"
proof (cases "edge_member r i")
  case (Some m)
  have r1: "edge_inv (note_status i status m r)" unfolding note_status_def Let_def mark_inv by (rule status_members_inv [OF assms]) simp
  then have "edge_inv ((clearPreparation (note_status i status m r))\<lparr>sn_resumeOnNextJoin := False\<rparr>)" by (auto simp: edge_inv_defs)
  then have "edge_inv (playing (ee_now e) True ((clearPreparation (note_status i status m r))\<lparr>sn_resumeOnNextJoin := False\<rparr>))"
    if "confirms e m status prepared (note_status i status m r)"
    using that by (intro playing_inv) (auto simp: confirms_def sameVideo_def split: option.splits js_number.splits)
  then show ?thesis using r1 Some by (simp add: edge_status_def Let_def)
qed (use assms in \<open>simp add: edge_status_def\<close>)

lemma edge_forget_frame [simp]:
  "sn_name (forget_member i m r) = sn_name r" "sn_title (forget_member i m r) = sn_title r"
  "sn_description (forget_member i m r) = sn_description r" "sn_isTemporary (forget_member i m r) = sn_isTemporary r"
  "sn_visibility (forget_member i m r) = sn_visibility r" "sn_queueMode (forget_member i m r) = sn_queueMode r"
  "sn_ownerId (forget_member i m r) = sn_ownerId r" "sn_roles (forget_member i m r) = sn_roles r"
  "sn_grants (forget_member i m r) = sn_grants r" "sn_currentSource (forget_member i m r) = sn_currentSource r"
  "sn_isPlaying (forget_member i m r) = sn_isPlaying r" "sn_position (forget_member i m r) = sn_position r"
  "sn_anchorAt (forget_member i m r) = sn_anchorAt r" "sn_playbackSpeed (forget_member i m r) = sn_playbackSpeed r"
  "sn_resumeOnNextJoin (forget_member i m r) = sn_resumeOnNextJoin r" "sn_emptySince (forget_member i m r) = sn_emptySince r"
  "sn_preparation (forget_member i m r) = sn_preparation r" "sn_temporarySpeed (forget_member i m r) = sn_temporarySpeed r"
  "sn_enableVoteSkip (forget_member i m r) = sn_enableVoteSkip r" "sn_createdAt (forget_member i m r) = sn_createdAt r"
  "er_kicks (forget_member i m r) = er_kicks r"
  "er_members (forget_member i m r) = filter (\<lambda>m. mb_id m \<noteq> i) (er_members r)"
  by (simp_all add: forget_member_def edge_event_def Let_def)

lemma forget_lists: "lists_ok r \<Longrightarrow> lists_ok (forget_member i m r)"
  by (auto simp: lists_ok_def forget_member_def edge_event_def comp_def case_prod_unfold Let_def)

lemma clear_parts:
  "clock_ok r \<Longrightarrow> clock_ok (clearTemporarySpeed t r)" "clock_ok r \<Longrightarrow> round_ok r \<Longrightarrow> round_ok (clearTemporarySpeed t r)"
  "lists_ok (clearTemporarySpeed t r) = lists_ok r" "grants_ok (clearTemporarySpeed t r) = grants_ok r"
  "members_ok (clearTemporarySpeed t r) = members_ok r"
  by (auto simp: clock_ok_def round_ok_def lists_ok_def grants_ok_def members_ok_def clearTemporarySpeed_def split: option.splits)

lemma drop_claims_parts:
  assumes "clock_ok r" "lists_ok r" "grants_ok r"
  shows "clock_ok (drop_claims e i r)" "lists_ok (drop_claims e i r)" "grants_ok (drop_claims e i r)"
    "er_members (drop_claims e i r) = er_members r" "sn_emptySince (drop_claims e i r) = sn_emptySince r"
    "sn_isPlaying (drop_claims e i r) = sn_isPlaying r" "sn_resumeOnNextJoin (drop_claims e i r) = sn_resumeOnNextJoin r"
    "sn_currentSource (drop_claims e i r) = sn_currentSource r" "\<not> sn_isPlaying r \<Longrightarrow> sn_position (drop_claims e i r) = sn_position r"
    "sn_preparation (drop_claims e i r) = (if map_option ep_clientId (sn_preparation r) = Some i then None else sn_preparation r)"
proof -
  define r1 where "r1 = (if map_option eg_clientId (sn_temporarySpeed r) = Some i then clearTemporarySpeed (ee_now e) r else r)"
  have r: "drop_claims e i r = (if map_option ep_clientId (sn_preparation r1) = Some i then clearPreparation r1 else r1)"
    unfolding drop_claims_def Let_def r1_def ..
  have parts: "clock_ok r1" "lists_ok r1" "grants_ok r1" using assms by (simp_all add: r1_def clear_parts)
  then show "clock_ok (drop_claims e i r)" "lists_ok (drop_claims e i r)" "grants_ok (drop_claims e i r)"
    by (simp_all add: r clock_ok_def lists_ok_def grants_ok_def)
  show "\<not> sn_isPlaying r \<Longrightarrow> sn_position (drop_claims e i r) = sn_position r"
    using assms(1) by (simp add: r r1_def clearTemporarySpeed_def clock_ok_def split: option.split)
qed (auto simp: drop_claims_def Let_def)

lemma leave_inv:
  assumes inv: "edge_inv r"
  shows "edge_inv (edge_leave e i r)"
proof (cases "edge_member r i")
  case (Some m)
  define r3 where "r3 = drop_claims e i (forget_member i m r)"
  have "clock_ok (forget_member i m r)" "lists_ok (forget_member i m r)" "grants_ok (forget_member i m r)"
    using inv forget_lists by (auto simp: edge_inv_def clock_ok_def grants_ok_def)
  note r3 = drop_claims_parts [OF this, of e i, folded r3_def, simplified]
  have round: "round_ok r3" using inv r3(4-) by (auto simp: round_ok_def edge_inv_def split: if_splits)
  show ?thesis
  proof (cases "er_members r3 = []")
    case True
    then have "sn_preparation r3 = None" using round by (cases "sn_preparation r3") (simp_all add: round_ok_def)
    then have "edge_inv (fall_idle e r3)" using r3(1-3) True by (auto simp: fall_idle_def playing_def edge_inv_defs)
    then show ?thesis using Some True by (simp add: edge_leave_def r3_def Let_def)
  next
    case False
    then have "members_ok r3" using inv r3(4,5) by (auto simp: members_ok_def edge_inv_def distinct_map_filter)
    then have "edge_inv r3" using r3(1-3) round by (simp add: edge_inv_def)
    then show ?thesis using Some False by (simp add: edge_leave_def r3_def prepare_inv Let_def)
  qed
qed (use inv in \<open>simp add: edge_leave_def\<close>)

lemma new_room_fields [simp]:
  "sn_name (new_edge_room r) = sn_name r" "sn_title (new_edge_room r) = sn_title r"
  "sn_description (new_edge_room r) = sn_description r" "sn_isTemporary (new_edge_room r) = sn_isTemporary r"
  "sn_visibility (new_edge_room r) = sn_visibility r" "sn_queueMode (new_edge_room r) = sn_queueMode r"
  "sn_ownerId (new_edge_room r) = sn_ownerId r" "sn_roles (new_edge_room r) = sn_roles r"
  "sn_grants (new_edge_room r) = sn_grants r" "sn_currentSource (new_edge_room r) = sn_currentSource r"
  "sn_queue (new_edge_room r) = sn_queue r" "sn_isPlaying (new_edge_room r) = sn_isPlaying r"
  "sn_position (new_edge_room r) = sn_position r" "sn_anchorAt (new_edge_room r) = sn_anchorAt r"
  "sn_playbackSpeed (new_edge_room r) = sn_playbackSpeed r" "sn_resumeOnNextJoin (new_edge_room r) = sn_resumeOnNextJoin r"
  "sn_emptySince (new_edge_room r) = sn_emptySince r" "sn_preparation (new_edge_room r) = sn_preparation r"
  "sn_temporarySpeed (new_edge_room r) = sn_temporarySpeed r" "sn_votes (new_edge_room r) = sn_votes r"
  "sn_votesToSkip (new_edge_room r) = sn_votesToSkip r" "sn_enableVoteSkip (new_edge_room r) = sn_enableVoteSkip r"
  "sn_createdAt (new_edge_room r) = sn_createdAt r"
  "er_members (new_edge_room s) = []" "er_dirty (new_edge_room s) = []" "er_messages (new_edge_room s) = []" "er_kicks (new_edge_room s) = []"
  by (simp_all add: new_edge_room_def EdgeSnapshot.defs edge_room.defs)

lemma truncate_fields [simp]:
  "sn_name (EdgeSnapshot.truncate r) = sn_name r" "sn_title (EdgeSnapshot.truncate r) = sn_title r"
  "sn_description (EdgeSnapshot.truncate r) = sn_description r" "sn_isTemporary (EdgeSnapshot.truncate r) = sn_isTemporary r"
  "sn_visibility (EdgeSnapshot.truncate r) = sn_visibility r" "sn_queueMode (EdgeSnapshot.truncate r) = sn_queueMode r"
  "sn_ownerId (EdgeSnapshot.truncate r) = sn_ownerId r" "sn_roles (EdgeSnapshot.truncate r) = sn_roles r"
  "sn_grants (EdgeSnapshot.truncate r) = sn_grants r" "sn_currentSource (EdgeSnapshot.truncate r) = sn_currentSource r"
  "sn_queue (EdgeSnapshot.truncate r) = sn_queue r" "sn_isPlaying (EdgeSnapshot.truncate r) = sn_isPlaying r"
  "sn_position (EdgeSnapshot.truncate r) = sn_position r" "sn_anchorAt (EdgeSnapshot.truncate r) = sn_anchorAt r"
  "sn_playbackSpeed (EdgeSnapshot.truncate r) = sn_playbackSpeed r" "sn_resumeOnNextJoin (EdgeSnapshot.truncate r) = sn_resumeOnNextJoin r"
  "sn_emptySince (EdgeSnapshot.truncate r) = sn_emptySince r" "sn_preparation (EdgeSnapshot.truncate r) = sn_preparation r"
  "sn_temporarySpeed (EdgeSnapshot.truncate r) = sn_temporarySpeed r" "sn_votes (EdgeSnapshot.truncate r) = sn_votes r"
  "sn_votesToSkip (EdgeSnapshot.truncate r) = sn_votesToSkip r" "sn_enableVoteSkip (EdgeSnapshot.truncate r) = sn_enableVoteSkip r"
  "sn_createdAt (EdgeSnapshot.truncate r) = sn_createdAt r"
  by (simp_all add: EdgeSnapshot.defs)

lemma restart_inv:
  assumes "edge_inv r"
  shows "edge_inv (edge_restart e alive r)"
proof -
  define q where "q = (new_edge_room (EdgeSnapshot.truncate r))\<lparr>er_members := filter (\<lambda>m. mb_id m \<in> set alive) (er_members r)\<rparr>"
  have q: "clock_ok q" "lists_ok q" "grants_ok q" "distinct (edge_ids q)"
    using assms by (auto simp: q_def edge_inv_defs distinct_map_filter)
  show ?thesis
  proof (cases "er_members q = []")
    case True
    have "edge_inv (recover_empty e q)" using q True
      by (auto simp: recover_empty_def edge_inv_defs Let_def split: option.split)
    then show ?thesis using True by (simp add: edge_restart_def edge_recover_def q_def)
  next
    case False
    have "edge_inv (clearPreparation q)" "\<not> (\<exists>p. sn_preparation q = Some p \<and> edge_member q (ep_clientId p) = None) \<Longrightarrow> edge_inv q"
      using q False assms by (auto simp: edge_inv_defs q_def edge_member_def find_None_iff)
    then show ?thesis using False prepare_inv [of "clearPreparation q" e None]
      by (auto simp: edge_restart_def edge_recover_def q_def [symmetric] split: option.split)
  qed
qed

section \<open>Commands\<close>

primrec result_room :: "edge_result \<Rightarrow> edge_room" where
  "result_room (Threw err r) = r" | "result_room (Quiet r) = r" | "result_room (Told a r) = r"

lemma apply_room: "edge_inv (snd (edge_apply e cmd m media r)) \<longleftrightarrow>
    edge_inv (if checkCommand r cmd m = None then result_room (edge_dispatch e cmd m media r) else r)"
  by (simp add: edge_apply_def split: option.split edge_result.split)

lemma apply_seek_cases:
  "apply_seek e x r = Threw bad_request r \<or>
   (\<exists>a. apply_seek e x r = Told a (let r1 = mark [PplaybackPosition] (anchor (ee_now e) x r)
      in if sn_preparation r1 \<noteq> None then edge_prepare e None (clearPreparation r1) else r1))"
  by (cases "sn_currentSource r") (simp_all add: apply_seek_def Let_def)

lemma edge_seek_inv:
  assumes "edge_inv r" "0 \<le> x"
  shows "edge_inv (result_room (apply_seek e x r))"
proof -
  let ?q = "mark [PplaybackPosition] (anchor (ee_now e) x r)"
  have "edge_inv ?q" if "sn_preparation ?q = None" using assms that by (auto simp: edge_inv_defs anchor_def)
  moreover have "edge_inv (clearPreparation ?q)" using assms by (auto simp: edge_inv_defs anchor_def)
  then have "edge_inv (edge_prepare e None (clearPreparation ?q))" by (rule prepare_inv)
  ultimately have "edge_inv (let r1 = ?q in if sn_preparation r1 \<noteq> None then edge_prepare e None (clearPreparation r1) else r1)"
    unfolding Let_def by (cases "sn_preparation ?q = None") simp_all
  then show ?thesis using apply_seek_cases [of e x r] assms(1) by auto
qed

lemma edge_skip_inv:
  assumes "edge_inv r"
  shows "edge_inv (result_room (apply_skip e m r))"
proof -
  have "edge_inv (r\<lparr>sn_votesToSkip := js_add (mb_id m) (sn_votesToSkip r)\<rparr>)" using assms by (simp add: edge_inv_defs)
  then show ?thesis using assms by (simp add: apply_skip_def next_inv Let_def)
qed

lemma add_inv:
  assumes "edge_inv r" "\<forall>v \<in> set vs. starts_ok v"
  shows "edge_inv (result_room (apply_add e vs r))"
proof -
  have "edge_inv (orderVotes (mark [Pqueue] (r\<lparr>sn_queue := sn_queue r @ vs\<rparr>)))" if "length (sn_queue r) + length vs \<le> 200"
    using that assms edge_queue_starts(1) [OF assms(1)] by (intro orderVotes_inv) (simp, intro queue_inv, auto)
  then show ?thesis using assms(1) by (simp add: apply_add_def next_inv Let_def split: option.split)
qed

lemma queue_index_Some: "queue_index video q = Some i \<Longrightarrow> i < length q \<and> video_id (q ! i) = video"
  by (auto simp: queue_index_def Let_def split: if_splits dest: nth_length_takeWhile)

lemma remove_inv:
  assumes "edge_inv r"
  shows "edge_inv (result_room (apply_remove video r))"
proof (cases "queue_index video (sn_queue r)")
  case (Some i)
  have "edge_inv (r\<lparr>sn_queue := splice_out i (sn_queue r)\<rparr>)"
    using queue_index_Some [OF Some] set_splice_out [of i "sn_queue r"] edge_queue_starts [OF assms]
    by (intro queue_inv [OF assms]) auto
  from unvote_inv [OF this, of "keyFor video"] show ?thesis using Some by (simp add: apply_remove_def)
qed (use assms in \<open>simp add: apply_remove_def\<close>)

lemma order_inv:
  assumes "edge_inv r"
  shows "edge_inv (result_room (apply_order a b r))"
proof (cases "a < length (sn_queue r) \<and> b < length (sn_queue r)")
  case True
  let ?q = "splice_in b (sn_queue r ! a) (splice_out a (sn_queue r))"
  have "mset ?q = mset (sn_queue r)" using True by (simp add: mset_splice_in mset_splice_out)
  from mset_eq_length [OF this] mset_eq_setD [OF this] have "length ?q = length (sn_queue r)" "set ?q = set (sn_queue r)" .
  then have "edge_inv (r\<lparr>sn_queue := ?q\<rparr>)" using edge_queue_starts [OF assms] by (intro queue_inv [OF assms]) auto
  then show ?thesis using True by (simp add: apply_order_def)
qed (use assms in \<open>auto simp: apply_order_def\<close>)

lemma set_update_subset: "set (AList.update k v al) \<subseteq> insert (k, v) (set al)"
  by (induction al) auto

lemma edge_vote_inv:
  assumes "edge_inv r"
  shows "edge_inv (result_room (apply_vote video on m r))"
proof -
  have "edge_inv (r\<lparr>sn_votes := AList.update (keyFor video) ids (sn_votes r)\<rparr>)" if "distinct ids" for ids
    using assms that by (intro votes_inv [where skip = "[]"])
      (auto simp: edge_inv_defs AList.distinct_update dest!: subsetD [OF set_update_subset])
  then show ?thesis using assms by (auto simp: apply_vote_def Let_def intro!: orderVotes_inv)
qed

lemma edge_playNow_inv:
  assumes "edge_inv r" "\<forall>v \<in> set vs. starts_ok v"
  shows "edge_inv (result_room (apply_playNow e video vs r))"
proof (cases vs)
  case (Cons v ws)
  define q where "q = (case sn_currentSource r of None \<Rightarrow> filter (\<lambda>v. video_id v \<noteq> video) (sn_queue r)
      | Some c \<Rightarrow> c # filter (\<lambda>v. video_id v \<noteq> video) (sn_queue r))"
  have "edge_inv (edge_start (ee_now e) (Some v) (r\<lparr>sn_queue := q, sn_votes := AList.delete (keyFor video) (sn_votes r)\<rparr>))"
    if "checkQueueSize e q (Some v) = None"
  proof -
    have "edge_inv (r\<lparr>sn_queue := q\<rparr>)"
      using that edge_queue_starts [OF assms(1)] by (intro queue_inv [OF assms(1)]) (auto simp: checkQueueSize_def q_def split: option.splits if_splits)
    from unvote_inv [OF this, of "keyFor video"] show ?thesis using assms(2) Cons by (intro start_inv) simp_all
  qed
  then show ?thesis using assms(1) Cons by (simp add: apply_playNow_def q_def [symmetric] Let_def split: option.split)
qed (use assms in \<open>simp add: apply_playNow_def\<close>)

lemma shuffle_perm:
  "(\<And>n. 0 < n \<Longrightarrow> rnd n < n) \<Longrightarrow> i < length xs \<or> xs = [] \<and> i = 0 \<Longrightarrow> mset (shuffle_from rnd i xs) = mset xs"
proof (induction i arbitrary: xs)
  case (Suc i)
  have j: "rnd (Suc i + 1) < length xs" "Suc i < length xs" using Suc.prems(1) [of "Suc i + 1"] Suc.prems(2) by auto
  then have "mset (xs[Suc i := xs ! rnd (Suc i + 1), rnd (Suc i + 1) := xs ! Suc i]) = mset xs" by (simp add: mset_swap)
  moreover have "mset (shuffle_from rnd i (xs[Suc i := xs ! rnd (Suc i + 1), rnd (Suc i + 1) := xs ! Suc i]))
      = mset (xs[Suc i := xs ! rnd (Suc i + 1), rnd (Suc i + 1) := xs ! Suc i])"
    using j by (intro Suc.IH Suc.prems(1)) auto
  ultimately show ?case by (simp add: Let_def)
qed simp

definition random_ok :: "edge_env \<Rightarrow> bool" where
  "random_ok e \<longleftrightarrow> (\<forall>n > 0. ee_randomInt e n < n)"

lemma edge_shuffle_inv:
  assumes "edge_inv r" "random_ok e"
  shows "edge_inv (result_room (apply_shuffle e r))"
proof -
  let ?q = "shuffle_from (ee_randomInt e) (length (sn_queue r) - 1) (sn_queue r)"
  have "mset ?q = mset (sn_queue r)"
    using assms(2) by (intro shuffle_perm) (auto simp: random_ok_def)
  then have "length ?q = length (sn_queue r)" "set ?q = set (sn_queue r)" by (auto dest: mset_eq_length mset_eq_setD)
  then have "edge_inv (r\<lparr>sn_queue := ?q\<rparr>)" using edge_queue_starts [OF assms(1)] by (intro queue_inv [OF assms(1)]) auto
  then show ?thesis by (simp add: apply_shuffle_def)
qed

lemma speed_inv:
  assumes "edge_inv r" "0 < x"
  shows "edge_inv (result_room (apply_speed e x r))"
proof -
  have "edge_inv (clearTemporarySpeed (ee_now e) r)" using assms(1) by (rule clearTemporarySpeed_inv)
  then have "edge_inv ((anchor_here (ee_now e) (clearTemporarySpeed (ee_now e) r))\<lparr>sn_playbackSpeed := x\<rparr>)"
    using assms(2) by (auto simp: edge_inv_defs)
  then show ?thesis by (simp add: apply_speed_def)
qed

lemma gesture_inv:
  assumes "edge_inv r"
  shows "edge_inv (apply_gesture e action gid video m r)"
proof -
  have "edge_inv (r\<lparr>sn_temporarySpeed := map_option (\<lambda>g. g\<lparr>eg_expiresAt := t\<rparr>) (sn_temporarySpeed r)\<rparr>)" for t
    using assms by (auto simp: edge_inv_defs)
  moreover have "edge_inv ((anchor_here (ee_now e) r)\<lparr>sn_temporarySpeed := Some \<lparr>eg_clientId = mb_id m, eg_gestureId = gid,
      eg_previousSpeed = sn_playbackSpeed r, eg_expiresAt = ee_now e + 5000\<rparr>, sn_playbackSpeed := 2\<rparr>)" if "sn_isPlaying r"
    using assms that by (auto simp: edge_inv_defs)
  ultimately show ?thesis using assms clearTemporarySpeed_inv [OF assms]
    by (cases action) (simp_all add: apply_gesture_def Let_def)
qed

lemma update_inv:
  assumes "edge_inv r" "\<forall>v \<in> fst ` set vs. starts_ok v"
  shows "edge_inv (result_room (apply_update e video vs r))"
proof (cases "queue_index video (sn_queue r)")
  case (Some i)
  have "edge_inv (r\<lparr>sn_queue := (sn_queue r)[i := spread_item (sn_queue r ! i) item]\<rparr>)" if "item \<in> set vs" for item
  proof -
    have "starts_ok (fst item)" "starts_ok (sn_queue r ! i)"
      using assms(2) that queue_index_Some [OF Some] edge_queue_starts(1) [OF assms(1)] by auto
    then have "starts_ok (spread_item (sn_queue r ! i) item)"
      by (cases item) (auto simp: starts_ok_def spread_item_def over_def split: option.splits)
    then show ?thesis using edge_queue_starts [OF assms(1)]
      by (intro queue_inv [OF assms(1)]) (auto dest!: subsetD [OF set_update_subset_insert])
  qed
  then show ?thesis using Some assms(1) by (cases vs) (simp_all add: apply_update_def Let_def split: option.split)
qed (use assms in \<open>simp add: apply_update_def\<close>)

lemma promote_inv:
  assumes "edge_inv r"
  shows "edge_inv (result_room (apply_promote e target role m r))"
proof (cases "promotion_error r m target role")
  case None
  define session where "session = mb_session (the (edge_member r target))"
  define r1 where "r1 = r\<lparr>sn_roles := AList.update (gs_identity_id session) role (sn_roles r)\<rparr>"
  obtain peer where peer: "edge_member r target = Some peer" "session = mb_session peer"
    "gs_identity_id session \<in> fst ` set (sn_roles r) \<or> length (sn_roles r) < 500"
    using None by (auto simp: promotion_error_def session_def Let_def split: option.splits if_splits)
  have "length (sn_roles r) \<le> 500" using assms by (simp add: edge_inv_defs)
  have "length (AList.update (gs_identity_id session) role (sn_roles r)) = length (map fst (AList.update (gs_identity_id session) role (sn_roles r)))" by simp
  also have "\<dots> \<le> 500" unfolding AList.update_keys using peer(3) \<open>length (sn_roles r) \<le> 500\<close> by auto
  finally have "edge_inv r1" using assms by (auto simp: edge_inv_defs r1_def AList.distinct_update)
  then have "edge_inv (r1\<lparr>er_messages := ms\<rparr>)" for ms by (simp add: edge_inv_defs)
  then show ?thesis using None clearPreparation_inv prepare_inv
    by (simp add: apply_promote_def session_def [symmetric] r1_def [symmetric] Let_def)
qed (use assms in \<open>simp add: apply_promote_def\<close>)

lemma kick_inv:
  assumes "edge_inv r"
  shows "edge_inv (result_room (apply_kick e target m r))"
proof -
  have "edge_inv (r\<lparr>er_kicks := ks\<rparr>)" for ks using assms by (simp add: edge_inv_defs)
  then show ?thesis using assms leave_inv by (simp add: apply_kick_def split: option.split)
qed

lemma edge_assign_inv: "edge_inv r \<Longrightarrow> edge_inv (assign_all st r)"
  unfolding assign_all_def assign_one_def
  by (cases "st_title st"; cases "st_description st"; cases "st_visibility st"; cases "st_queueMode st"; cases "st_enableVoteSkip st")
    (simp_all add: edge_inv_defs)

lemma adopt_inv:
  assumes "edge_inv r" "wf_grants g"
  shows "edge_inv (adopt_grants e g r)"
proof -
  have "edge_inv (mark [Pgrants] (r\<lparr>sn_grants := entries g\<rparr>))" using assms by (auto simp: edge_inv_defs)
  then show ?thesis using clearPreparation_inv prepare_inv by (simp add: adopt_grants_def Let_def split: option.split)
qed

lemma edge_changed_grants_wf: "edge_changed_grants r wire = Inr (Some g) \<Longrightarrow> wf_grants g"
  by (auto simp: edge_changed_grants_def bind_result_def new_Grants_wf split: option.splits sum.splits if_splits)

lemma settings_inv:
  assumes "edge_inv r"
  shows "edge_inv (result_room (edge_settings e st wire m r))"
proof -
  have "edge_inv (orderVotes (case new of None \<Rightarrow> assign_all st r | Some g \<Rightarrow> adopt_grants e g (assign_all st r)))"
    if "edge_changed_grants r wire = Inr new" for new
    using that edge_changed_grants_wf edge_assign_inv [OF assms] adopt_inv by (auto intro!: orderVotes_inv split: option.split)
  then show ?thesis using assms by (auto simp: edge_settings_def Let_def split: sum.split option.split)
qed

text \<open>What a caller guarantees: a command that the schema let through, media with proper start positions, proper random numbers.\<close>

fun call_ok :: "edge_env \<times> edge_call \<Rightarrow> bool" where
  "call_ok (e, CallCommand cmd m media) = (commandSchema cmd \<and> list_all (starts_ok \<circ> fst) media \<and> random_ok e)"
| "call_ok _ = True"

lemma dispatch_inv:
  assumes "edge_inv r" "commandSchema cmd" "list_all (starts_ok \<circ> fst) media" "random_ok e"
  shows "edge_inv (result_room (edge_dispatch e cmd m media r))"
proof -
  have media: "\<forall>v \<in> set (map fst media). starts_ok v" "\<forall>v \<in> fst ` set media. starts_ok v" using assms(3) by (auto simp: list_all_iff)
  have play: "edge_inv (playing (ee_now e) on ((clearPreparation r)\<lparr>sn_resumeOnNextJoin := False\<rparr>))" if "sn_currentSource r \<noteq> None" for on
  proof (rule playing_inv)
    show "edge_inv ((clearPreparation r)\<lparr>sn_resumeOnNextJoin := False\<rparr>)" using assms(1) by (auto simp: edge_inv_defs)
  qed (use that in simp_all)
  show ?thesis
  proof (cases cmd)
    case (CmdPlayback on)
    then show ?thesis using assms(1) play by (simp add: edge_dispatch_def)
  qed (use assms media in \<open>simp_all add: edge_dispatch_def finitePosition_def edge_seek_inv edge_skip_inv add_inv remove_inv order_inv edge_vote_inv edge_playNow_inv
      edge_shuffle_inv speed_inv gesture_inv update_inv promote_inv kick_inv settings_inv\<close>)
qed

lemma tick_edge_inv:
  assumes "edge_inv r"
  shows "edge_inv (edge_tick e r)"
proof -
  define r1 where "r1 = (case sn_temporarySpeed r of None \<Rightarrow> r | Some g \<Rightarrow> if eg_expiresAt g \<le> ee_now e then clearTemporarySpeed (ee_now e) r else r)"
  define r2 where "r2 = (case sn_preparation r1 of None \<Rightarrow> r1
      | Some p \<Rightarrow> if ep_expiresAt p \<le> ee_now e then edge_prepare e (Some (ep_clientId p)) (clearPreparation r1) else r1)"
  have "edge_inv r1" using assms clearTemporarySpeed_inv by (simp add: r1_def split: option.split)
  then have "edge_inv r2" using clearPreparation_inv prepare_inv by (simp add: r2_def split: option.split)
  then show ?thesis using next_inv unfolding edge_tick_def Let_def r1_def [symmetric] r2_def [symmetric] by (simp split: option.split)
qed

interpretation edge_machine: invariant_machine edge_step edge_inv call_ok
proof
  fix r and ec :: "edge_env \<times> edge_call"
  assume r: "edge_inv r" and ok: "call_ok ec"
  obtain e call where ec: "ec = (e, call)" by fastforce
  show "edge_inv (edge_step r ec)"
  proof (cases call)
    case (CallCommand cmd m media)
    then show ?thesis using r ok by (simp add: ec edge_step_def apply_room dispatch_inv)
  next
    case (CallSession i session)
    then show ?thesis using status_members_inv [OF r, of "\<lambda>m. if mb_id m = i then m\<lparr>mb_session := session\<rparr> else m"] by (simp add: ec edge_step_def)
  next
    case CallPersist
    then show ?thesis using r by (auto simp: ec edge_step_def persisted_def edge_inv_defs Let_def)
  next
    case CallDrain
    then show ?thesis using r by (simp add: ec edge_step_def drain_def edge_inv_defs Let_def)
  qed (use r in \<open>simp_all add: ec edge_step_def join_inv leave_inv status_inv tick_edge_inv restart_inv\<close>)
qed

section \<open>Consistency\<close>

lemma edge_member_None: "edge_member r i = None \<longleftrightarrow> i \<notin> mb_id ` set (er_members r)"
  by (auto simp: edge_member_def find_None_iff)

lemma created_inv: "createSnapshot t options owner_session = Inr sn \<Longrightarrow> edge_inv (new_edge_room sn)"
  by (auto simp: createSnapshot_def bind_result_def edge_inv_defs defaultPermissions_def dest: new_Grants_wf split: sum.splits)

text \<open>C19.
  In every state that a room of the edge deployment can reach, over any sequence of joins, departures, reports, commands
  (also of people who are not in the room), alarms and restarts: a round of preparation is under way only while the room
  waits, for its current video and its present position, with somebody in the room; a held gesture means double speed; a
  room plays only if it has a video; the room counts as empty exactly when nobody is in it; the queue and the roles stay within their limits, and
  nobody is counted twice in a vote.\<close>

theorem edge_room_consistent:
  assumes "createSnapshot t options owner_session = Inr sn" "list_all call_ok calls" "r = foldl edge_step (new_edge_room sn) calls"
  shows "(\<forall>p. sn_preparation r = Some p \<longrightarrow> \<not> sn_isPlaying r \<and> sn_resumeOnNextJoin r
        \<and> map_option video_id (sn_currentSource r) = Some (ep_video p) \<and> ep_position p = sn_position r \<and> edge_member r (ep_clientId p) \<noteq> None)
    \<and> (\<forall>g. sn_temporarySpeed r = Some g \<longrightarrow> sn_playbackSpeed r = 2) \<and> (sn_isPlaying r \<longrightarrow> sn_currentSource r \<noteq> None)
    \<and> (er_members r = []) = (sn_emptySince r \<noteq> None) \<and> length (sn_queue r) \<le> 200 \<and> length (sn_roles r) \<le> 500
    \<and> distinct (sn_votesToSkip r) \<and> (\<forall>ids \<in> snd ` set (sn_votes r). distinct ids)"
proof -
  have "edge_inv r" unfolding assms(3) using created_inv [OF assms(1)] assms(2) by (rule edge_machine.run_inv)
  then show ?thesis by (auto simp: edge_inv_defs edge_member_None)
qed

section \<open>Refusals\<close>

lemma dispatch_threw: "edge_dispatch e cmd m media r = Threw err r' \<Longrightarrow> r' = r"
  by (cases cmd) (auto simp: edge_dispatch_def apply_seek_def apply_skip_def apply_add_def apply_remove_def apply_order_def apply_vote_def
      apply_playNow_def apply_shuffle_def apply_speed_def apply_update_def apply_promote_def apply_kick_def edge_settings_def Let_def
      split: option.splits if_splits list.splits sum.splits)

text \<open>A command that the edge room refuses has not happened: whatever error it throws, and from whichever of its checks, the room is
  as it was. A command whose permission the sender's role lacks is refused as such.\<close>

lemma edge_refusal_is_inert:
  "(fst (edge_apply e cmd m media r) \<noteq> None \<longrightarrow> snd (edge_apply e cmd m media r) = r)
   \<and> (commandPermissions cmd = Some perm \<and> \<not> can r (mb_session m) perm \<longrightarrow>
        edge_apply e cmd m media r = (Some (ApiError 403 ''PermissionDeniedException''), r))"
  by (auto simp: edge_apply_def checkCommand_def edge_check_def dispatch_threw split: option.splits edge_result.splits)

end
