(* ===== verification/EdgeRules.thy ===== *)
theory EdgeRules
  imports EdgeSafety
begin

text \<open>
  Rules of the edge room across its commands: ranks, the clock, and what a restart brings back.
\<close>

section \<open>Ranks\<close>

definition same_roles :: "edge_room \<Rightarrow> edge_room \<Rightarrow> bool" where
  "same_roles r r' \<longleftrightarrow> sn_roles r' = sn_roles r \<and> sn_ownerId r' = sn_ownerId r \<and> er_kicks r' = er_kicks r"

lemma leave_frame [simp]:
  "sn_roles (edge_leave e i r) = sn_roles r" "sn_ownerId (edge_leave e i r) = sn_ownerId r" "er_kicks (edge_leave e i r) = er_kicks r"
  by (simp_all add: edge_leave_def drop_claims_def fall_idle_def playing_def Let_def split: option.split)

lemma edge_assign_frame [simp]:
  "sn_roles (assign_all st r) = sn_roles r" "sn_ownerId (assign_all st r) = sn_ownerId r" "er_kicks (assign_all st r) = er_kicks r"
  by (simp_all add: assign_all_def assign_one_def split: option.split)

lemma other_commands_keep_roles:
  assumes "\<nexists>target role. cmd = CmdPromote target role" "\<nexists>target. cmd = CmdKick target"
  shows "same_roles r (result_room (edge_dispatch e cmd m media r))"
proof (cases cmd)
  case (CmdApplySettings st wire)
  then show ?thesis
    by (simp add: edge_dispatch_def edge_settings_def adopt_grants_def same_roles_def Let_def split: sum.split option.split)
next
  case (CmdTemporaryPlaybackSpeed action gid video)
  then show ?thesis by (cases action) (simp_all add: edge_dispatch_def apply_gesture_def same_roles_def Let_def)
qed (use assms in \<open>simp_all add: edge_dispatch_def same_roles_def playing_def apply_seek_def apply_skip_def apply_add_def apply_remove_def
    apply_order_def apply_vote_def apply_playNow_def apply_shuffle_def apply_speed_def apply_update_def anchor_def Let_def
    split: option.split list.split\<close>)

lemma promotion_allowed:
  assumes "promotion_error r m target role = None"
  obtains peer where "edge_member r target = Some peer" "role \<noteq> Owner" "edge_role r (mb_session peer) \<noteq> Owner"
    "edge_rank (edge_role r (mb_session peer)) < edge_rank (edge_role r (mb_session m))" "edge_rank role < edge_rank (edge_role r (mb_session m))"
  using assms by (auto simp: promotion_error_def Let_def split: option.splits if_splits)

lemma apply_roles:
  "sn_roles (snd (edge_apply e cmd m media r)) = (if checkCommand r cmd m = None then sn_roles (result_room (edge_dispatch e cmd m media r)) else sn_roles r)"
  "sn_ownerId (snd (edge_apply e cmd m media r)) = (if checkCommand r cmd m = None then sn_ownerId (result_room (edge_dispatch e cmd m media r)) else sn_ownerId r)"
  "er_kicks (snd (edge_apply e cmd m media r)) = (if checkCommand r cmd m = None then er_kicks (result_room (edge_dispatch e cmd m media r)) else er_kicks r)"
  by (simp_all add: edge_apply_def edge_event_def split: option.split edge_result.split)

lemma promote_roles:
  assumes "edge_role (result_room (apply_promote e target role m r)) session \<noteq> edge_role r session"
  shows "edge_rank (edge_role r session) < edge_rank (edge_role r (mb_session m))
    \<and> edge_rank (edge_role (result_room (apply_promote e target role m r)) session) < edge_rank (edge_role r (mb_session m))"
proof -
  have none: "promotion_error r m target role = None"
    using assms by (auto simp: apply_promote_def split: option.splits)
  then obtain peer where peer: "edge_member r target = Some peer" "role \<noteq> Owner" "edge_role r (mb_session peer) \<noteq> Owner"
    "edge_rank (edge_role r (mb_session peer)) < edge_rank (edge_role r (mb_session m))" "edge_rank role < edge_rank (edge_role r (mb_session m))"
    by (rule promotion_allowed)
  let ?r = "result_room (apply_promote e target role m r)"
  have r: "sn_roles ?r = AList.update (gs_identity_id (mb_session peer)) role (sn_roles r)" "sn_ownerId ?r = sn_ownerId r"
    using none peer(1) by (simp_all add: apply_promote_def Let_def)
  then have "gs_identity_id session = gs_identity_id (mb_session peer)" "gs_identity_id session \<noteq> sn_ownerId r"
    using assms by (auto simp: edge_role_def AList.update_conv' split: if_splits)
  then have "edge_role r session = edge_role r (mb_session peer)" "edge_role ?r session = role"
    using r by (simp_all add: edge_role_def AList.update_conv' or_else_def)
  then show ?thesis using peer by simp
qed

text \<open>C23.
  Nobody reaches above their own rank in an edge room: a command changes the role only of people below the sender, gives them a
  role below the sender's, and removes from the room only people below the sender. The owner's role never changes.\<close>

theorem edge_rank_respected:
  assumes "snd (edge_apply e cmd m media r) = r'"
  shows "(edge_role r' session \<noteq> edge_role r session \<longrightarrow>
      edge_rank (edge_role r session) < edge_rank (edge_role r (mb_session m)) \<and> edge_rank (edge_role r' session) < edge_rank (edge_role r (mb_session m)))
    \<and> (\<exists>kicked. er_kicks r' = er_kicks r @ kicked \<and>
        (\<forall>i \<in> set kicked. \<exists>peer. edge_member r i = Some peer \<and> edge_rank (edge_role r (mb_session peer)) < edge_rank (edge_role r (mb_session m))))
    \<and> sn_ownerId r' = sn_ownerId r"
proof -
  let ?d = "result_room (edge_dispatch e cmd m media r)"
  have role: "edge_role r' session = (if checkCommand r cmd m = None then edge_role ?d session else edge_role r session)"
    unfolding assms [symmetric] edge_role_def apply_roles by simp
  have rest: "er_kicks r' = (if checkCommand r cmd m = None then er_kicks ?d else er_kicks r)"
    "sn_ownerId r' = (if checkCommand r cmd m = None then sn_ownerId ?d else sn_ownerId r)"
    unfolding assms [symmetric] apply_roles by simp_all
  show ?thesis
  proof (cases cmd)
    case (CmdPromote target new)
    have d: "?d = result_room (apply_promote e target new m r)" by (simp add: CmdPromote edge_dispatch_def)
    have "er_kicks ?d = er_kicks r" "sn_ownerId ?d = sn_ownerId r"
      unfolding d by (simp_all add: apply_promote_def Let_def split: option.split)
    then have k: "er_kicks r' = er_kicks r @ []" "sn_ownerId r' = sn_ownerId r" using rest by simp_all
    have ranks: "edge_rank (edge_role r session) < edge_rank (edge_role r (mb_session m))
        \<and> edge_rank (edge_role r' session) < edge_rank (edge_role r (mb_session m))" if "edge_role r' session \<noteq> edge_role r session"
      using promote_roles [of e target new m r session] that unfolding role d [symmetric] by (cases "checkCommand r cmd m") simp_all
    have "\<exists>kicked. er_kicks r' = er_kicks r @ kicked \<and> (\<forall>i \<in> set kicked. \<exists>peer. edge_member r i = Some peer
        \<and> edge_rank (edge_role r (mb_session peer)) < edge_rank (edge_role r (mb_session m)))"
      by (rule exI [of _ "[]"]) (simp add: k(1))
    then show ?thesis using ranks k(2) by blast
  next
    case (CmdKick target)
    have d: "?d = result_room (apply_kick e target m r)" by (simp add: CmdKick edge_dispatch_def)
    have "sn_roles ?d = sn_roles r" "sn_ownerId ?d = sn_ownerId r" unfolding d by (cases "edge_member r target"; simp add: apply_kick_def)+
    then have "edge_role ?d session = edge_role r session" "sn_ownerId ?d = sn_ownerId r" by (simp_all only: edge_role_def)
    moreover have "\<exists>kicked. er_kicks ?d = er_kicks r @ kicked \<and> (\<forall>i \<in> set kicked. \<exists>peer. edge_member r i = Some peer
        \<and> edge_rank (edge_role r (mb_session peer)) < edge_rank (edge_role r (mb_session m)))"
      unfolding d by (cases "edge_member r target") (auto simp: apply_kick_def)
    ultimately show ?thesis using role rest by (cases "checkCommand r cmd m") simp_all
  qed (use other_commands_keep_roles [of cmd r e m media] role rest in \<open>simp_all add: same_roles_def edge_role_def\<close>)
qed

section \<open>The clock\<close>

lemma edge_position_cong:
  "sn_position r' = sn_position r \<Longrightarrow> sn_anchorAt r' = sn_anchorAt r \<Longrightarrow> sn_isPlaying r' = sn_isPlaying r \<Longrightarrow>
   sn_playbackSpeed r' = sn_playbackSpeed r \<Longrightarrow> edge_position t r' = edge_position t r"
  by (simp add: edge_position_def)

lemma anchored: "sn_position r' = edge_position t r \<Longrightarrow> sn_anchorAt r' = t \<Longrightarrow> edge_position t r' = edge_position t r"
  by (simp add: edge_position_def)

lemma head_frame [simp]:
  "edge_position t (mark ks r) = edge_position t r" "edge_position t (push msg r) = edge_position t r"
  "edge_position t (edge_event q m a r) = edge_position t r" "edge_position t (clearPreparation r) = edge_position t r"
  "edge_position t (edge_prepare e x r) = edge_position t r" "edge_position t (orderVotes r) = edge_position t r"
  "edge_position t (forget_member i m r) = edge_position t r"
  by (intro edge_position_cong; simp add: edge_event_def)+

lemma head_anchored [simp]:
  "edge_position t (anchor_here t r) = edge_position t r" "edge_position t (playing t on r) = edge_position t r"
  "edge_position t (clearTemporarySpeed t r) = edge_position t r"
proof -
  show "edge_position t (anchor_here t r) = edge_position t r" "edge_position t (playing t on r) = edge_position t r"
    unfolding playing_def by (rule anchored; simp)+
  show "edge_position t (clearTemporarySpeed t r) = edge_position t r"
    by (cases "sn_temporarySpeed r") (simp_all add: clearTemporarySpeed_def anchored [of _ t r])
qed

lemma head_updates [simp]:
  "edge_position t (r\<lparr>sn_resumeOnNextJoin := b\<rparr>) = edge_position t r" "edge_position t (r\<lparr>sn_emptySince := x\<rparr>) = edge_position t r"
  "edge_position t (r\<lparr>sn_queue := q\<rparr>) = edge_position t r" "edge_position t (r\<lparr>sn_votes := vs\<rparr>) = edge_position t r"
  "edge_position t (r\<lparr>sn_votesToSkip := ids\<rparr>) = edge_position t r" "edge_position t (r\<lparr>sn_roles := roles\<rparr>) = edge_position t r"
  "edge_position t (r\<lparr>sn_grants := g\<rparr>) = edge_position t r" "edge_position t (r\<lparr>er_members := ms\<rparr>) = edge_position t r"
  "edge_position t (r\<lparr>er_messages := out\<rparr>) = edge_position t r" "edge_position t (r\<lparr>er_kicks := ks\<rparr>) = edge_position t r"
  "edge_position t (r\<lparr>er_dirty := d\<rparr>) = edge_position t r" "edge_position t (r\<lparr>sn_temporarySpeed := g'\<rparr>) = edge_position t r"
  by (simp_all add: edge_position_def)

lemma leave_head [simp]: "edge_position (ee_now e) (edge_leave e i r) = edge_position (ee_now e) r"
  by (simp add: edge_leave_def drop_claims_def fall_idle_def Let_def split: option.split)

lemma assign_head [simp]: "edge_position t (assign_all st r) = edge_position t r"
  by (intro edge_position_cong) (simp_all add: assign_all_def assign_one_def split: option.split)

lemma adopt_head [simp]: "edge_position t (adopt_grants e g r) = edge_position t r"
  by (simp add: adopt_grants_def Let_def split: option.split)

lemma gesture_head: "edge_position (ee_now e) (apply_gesture e action gid video m r) = edge_position (ee_now e) r"
  by (cases action) (simp_all add: apply_gesture_def Let_def anchored [of _ "ee_now e" r])

lemma settings_head: "edge_position t (result_room (edge_settings e st wire m r)) = edge_position t r"
  by (simp add: edge_settings_def Let_def split: sum.split option.split)

lemma promote_head: "edge_position t (result_room (apply_promote e target role m r)) = edge_position t r"
  by (simp add: apply_promote_def Let_def split: option.split)

lemma speed_head: "edge_position (ee_now e) (result_room (apply_speed e x r)) = edge_position (ee_now e) r"
proof -
  let ?q = "clearTemporarySpeed (ee_now e) r"
  have "edge_position (ee_now e) ((anchor_here (ee_now e) ?q)\<lparr>sn_playbackSpeed := x\<rparr>) = edge_position (ee_now e) ?q" by (rule anchored) simp_all
  then show ?thesis by (simp add: apply_speed_def)
qed

text \<open>The calls that are about the playback head.\<close>

fun moves_head :: "edge_call \<Rightarrow> edge_room \<Rightarrow> bool" where
  "moves_head (CallCommand (CmdSeek _) _ _) r = True"
| "moves_head (CallCommand CmdSkip _ _) r = True"
| "moves_head (CallCommand (CmdPlayNow _) _ _) r = True"
| "moves_head (CallCommand (CmdAdd _ _ _) _ _) r = (sn_currentSource r = None)"
| "moves_head CallTick r = True"
| "moves_head (CallRestart _) r = True"
| "moves_head _ r = False"

lemma dispatch_head:
  assumes "\<not> moves_head (CallCommand cmd m media) r"
  shows "edge_position (ee_now e) (result_room (edge_dispatch e cmd m media r)) = edge_position (ee_now e) r"
  using assms
  by (cases cmd) (simp_all add: edge_dispatch_def gesture_head settings_head promote_head speed_head apply_add_def apply_remove_def apply_order_def
      apply_vote_def apply_shuffle_def apply_update_def apply_kick_def Let_def split: option.split list.split, auto)

lemma apply_head:
  "edge_position t (snd (edge_apply e cmd m media r)) =
     (if checkCommand r cmd m = None then edge_position t (result_room (edge_dispatch e cmd m media r)) else edge_position t r)"
  by (simp add: edge_apply_def split: option.split edge_result.split)

text \<open>C22.
  Nobody's picture jumps unless somebody asked for it: a join, a departure, a report, a stored checkpoint and every command
  other than a seek, a skip, play-now and the first video leaves the position of the edge room at that
  instant as it was, although it may stop, start or re-anchor the clock or change its speed.\<close>

theorem edge_clock_runs_on:
  assumes "\<not> moves_head call r"
  shows "edge_position (ee_now e) (edge_step r (e, call)) = edge_position (ee_now e) r"
proof (cases call)
  case (CallCommand cmd m media)
  then show ?thesis using assms by (simp add: edge_step_def apply_head dispatch_head)
qed (use assms in \<open>simp_all add: edge_step_def edge_join_def edge_status_def note_status_def drain_def persisted_def Let_def split: option.split\<close>)

section \<open>Restarts\<close>

lemma recovered_fields:
  assumes "r1 = edge_restart e [] (snd (persisted t r))"
  shows "er_members r1 = []" "\<not> sn_isPlaying r1" "sn_position r1 = edge_position t r" "sn_preparation r1 = None" "sn_temporarySpeed r1 = None"
    "sn_currentSource r1 = sn_currentSource r" "sn_queue r1 = sn_queue r" "sn_grants r1 = sn_grants r" "sn_roles r1 = sn_roles r"
    "sn_ownerId r1 = sn_ownerId r" "sn_isPlaying r \<Longrightarrow> sn_resumeOnNextJoin r1"
    "sn_playbackSpeed r1 = (case sn_temporarySpeed r of None \<Rightarrow> sn_playbackSpeed r | Some g \<Rightarrow> eg_previousSpeed g)"
  unfolding assms edge_restart_def edge_recover_def
  by (simp_all add: recover_empty_def persisted_def Let_def split: option.split)

lemma can_cong:
  "sn_grants r' = sn_grants r \<Longrightarrow> sn_roles r' = sn_roles r \<Longrightarrow> sn_ownerId r' = sn_ownerId r \<Longrightarrow> can r' s perm = can r s perm"
  by (simp add: can_def edge_grants_def edge_role_def split: sum.split)

lemma first_member_prepares:
  assumes "er_members r = []" "\<not> sn_isPlaying r" "sn_resumeOnNextJoin r" "sn_preparation r = None" "sn_currentSource r = Some v"
    and "can r (mb_session m) ''playback.play-pause''"
  shows "sn_preparation (edge_join e m r) = Some \<lparr>ep_id = ee_randomUUID e, ep_clientId = mb_id m, ep_video = video_id v,
      ep_position = edge_position (ee_now e) r, ep_expiresAt = ee_now e + 30000\<rparr>" "er_members (edge_join e m r) = [m]"
proof -
  let ?q = "edge_event (EdgeJoin (mb_id m) (gs_username (mb_session m))) m no_context
      (push (EdgeUser (edge_info (r\<lparr>er_members := [m], sn_emptySince := None\<rparr>) m)) (r\<lparr>er_members := [m], sn_emptySince := None\<rparr>))"
  have join: "edge_join e m r = edge_prepare e None ?q" using assms(1) by (simp add: edge_join_def set_member_def Let_def)
  moreover have "can ?q (mb_session m) ''playback.play-pause''" using assms(6) can_cong [of ?q r] by (simp add: edge_event_def)
  ultimately show "sn_preparation (edge_join e m r) = Some \<lparr>ep_id = ee_randomUUID e, ep_clientId = mb_id m, ep_video = video_id v,
      ep_position = edge_position (ee_now e) r, ep_expiresAt = ee_now e + 30000\<rparr>"
    using assms(2-5) by (simp add: edge_prepare_def edge_event_def)
  show "er_members (edge_join e m r) = [m]" unfolding join by (simp add: edge_event_def)
qed


end
