(* ===== verification/EdgeMirror.thy ===== *)
theory EdgeMirror
  imports EdgeRules
begin

text \<open>
  What the clients of an edge room know: every change of a property they are sent is marked, so a
  copy that takes in each drained message agrees with the room. The specification is the relation
  \<open>agrees\<close>, which the room refines call by call.
\<close>

section \<open>Changes are marked\<close>

definition edge_prop :: "edge_room \<Rightarrow> sync_prop \<Rightarrow> edge_value option" where
  "edge_prop r = map_of (fullSync 0 r)"

definition marked_changes :: "edge_room \<Rightarrow> edge_room \<Rightarrow> bool" where
  "marked_changes r r' \<longleftrightarrow> set (er_dirty r) \<subseteq> set (er_dirty r') \<and> sn_name r' = sn_name r \<and> sn_isTemporary r' = sn_isTemporary r
     \<and> (Ptitle \<in> set (er_dirty r') \<or> sn_title r' = sn_title r) \<and> (Pdescription \<in> set (er_dirty r') \<or> sn_description r' = sn_description r)
     \<and> (Pvisibility \<in> set (er_dirty r') \<or> sn_visibility r' = sn_visibility r) \<and> (PqueueMode \<in> set (er_dirty r') \<or> sn_queueMode r' = sn_queueMode r)
     \<and> (PisPlaying \<in> set (er_dirty r') \<or> sn_isPlaying r' = sn_isPlaying r)
     \<and> (PplaybackSpeed \<in> set (er_dirty r') \<or> sn_playbackSpeed r' = sn_playbackSpeed r)
     \<and> (PcurrentSource \<in> set (er_dirty r') \<or> sn_currentSource r' = sn_currentSource r) \<and> (Pqueue \<in> set (er_dirty r') \<or> sn_queue r' = sn_queue r)
     \<and> (Pgrants \<in> set (er_dirty r') \<or> sn_grants r' = sn_grants r) \<and> (PvoteCounts \<in> set (er_dirty r') \<or> sn_votes r' = sn_votes r)
     \<and> (PvotesToSkip \<in> set (er_dirty r') \<or> sn_votesToSkip r' = sn_votesToSkip r)
     \<and> (PenableVoteSkip \<in> set (er_dirty r') \<or> sn_enableVoteSkip r' = sn_enableVoteSkip r)
     \<and> (PplaybackPreparation \<in> set (er_dirty r') \<or> sn_preparation r' = sn_preparation r)
     \<and> (PtemporaryPlaybackSpeed \<in> set (er_dirty r') \<or>
          map_option (\<lambda>g. (eg_clientId g, eg_gestureId g)) (sn_temporarySpeed r') = map_option (\<lambda>g. (eg_clientId g, eg_gestureId g)) (sn_temporarySpeed r))"

lemma mark_dirty [simp]: "set (er_dirty (mark ks r)) = set ks \<union> set (er_dirty r)"
proof -
  have "set (foldl (\<lambda>d k. js_add k d) d ks) = set ks \<union> set d" for d by (induction ks arbitrary: d) auto
  then show ?thesis by (simp add: mark_def)
qed

lemma anchor_dirty [simp]: "er_dirty (anchor t x r) = er_dirty r" by (simp add: anchor_def)

text \<open>A property that is not marked has its old value.\<close>

definition covered :: "edge_room \<Rightarrow> edge_room \<Rightarrow> bool" where
  "covered r r' \<longleftrightarrow> set (er_dirty r) \<subseteq> set (er_dirty r')
     \<and> (\<forall>k. k \<notin> set (er_dirty r') \<longrightarrow> k \<noteq> PplaybackPosition \<longrightarrow> edge_prop r' k = edge_prop r k)"

lemma covered_refl [simp]: "covered r r"
  by (simp add: covered_def)

lemma covered_trans: "covered r r' \<Longrightarrow> covered r' r'' \<Longrightarrow> covered r r''"
  unfolding covered_def by (metis subset_iff)

lemma coveredI:
  assumes "marked_changes r r'"
  shows "covered r r'"
proof -
  have "map_option (\<lambda>g. (eg_clientId g, eg_gestureId g, 2 :: rat)) x = map_option (\<lambda>(a, b). (a, b, 2)) (map_option (\<lambda>g. (eg_clientId g, eg_gestureId g)) x)"
    for x :: "edge_gesture option" by (cases x) simp_all
  then have "edge_prop r' k = edge_prop r k" if "k \<notin> set (er_dirty r')" "k \<noteq> PplaybackPosition" for k
    using assms that by (cases k) (simp_all add: marked_changes_def edge_prop_def fullSync_def)
  then show ?thesis using assms by (simp add: covered_def marked_changes_def)
qed

section \<open>Operations\<close>

lemma covered_clear: "covered r (clearPreparation r)" "covered r (clearTemporarySpeed t r)" "covered r (edge_prepare e x r)"
  "covered r (orderVotes r)" "covered r (playing t on r)" "covered r (push msg r)" "covered r (edge_event q m a r)" "covered r (mark ks r)"
proof -
  show "covered r (clearTemporarySpeed t r)"
    by (rule coveredI) (cases "sn_temporarySpeed r"; simp add: marked_changes_def clearTemporarySpeed_def subset_insertI2)
qed (rule coveredI, auto simp: marked_changes_def clearPreparation_def edge_prepare_def orderVotes_def playing_def edge_event_def split: option.split)+

lemma covered_then:
  assumes "covered r q"
  shows "covered r (mark ks q)" "covered r (push msg q)" "covered r (edge_event x m a q)" "covered r (clearPreparation q)" "covered r (clearTemporarySpeed t q)"
    "covered r (edge_prepare e y q)" "covered r (orderVotes q)" "covered r (playing t on q)"
  by (rule covered_trans [OF assms covered_clear(8)] covered_trans [OF assms covered_clear(6)] covered_trans [OF assms covered_clear(7)]
      covered_trans [OF assms covered_clear(1)] covered_trans [OF assms covered_clear(2)] covered_trans [OF assms covered_clear(3)]
      covered_trans [OF assms covered_clear(4)] covered_trans [OF assms covered_clear(5)])+

text \<open>A mark that comes last covers what was changed before the steps in between.\<close>

lemma edge_prop_mark [simp]: "edge_prop (mark ks r) = edge_prop r"
  by (simp add: edge_prop_def fullSync_def edge_position_def)

lemma covered_late: "covered r (mark ks q) \<Longrightarrow> covered q q' \<Longrightarrow> covered r (mark ks q')"
proof -
  assume "covered r (mark ks q)" "covered q q'"
  moreover from this(2) have "covered (mark ks q) (mark ks q')" by (auto simp: covered_def)
  ultimately show ?thesis using covered_trans by blast
qed

lemma start_covered: "covered r (edge_start t v r)"
proof -
  let ?q = "clearPreparation (clearTemporarySpeed t r)"
  have "covered r ?q" by (intro covered_then covered_refl)
  moreover have "covered ?q (edge_start t v r)"
    unfolding edge_start_def Let_def by (rule coveredI) (auto simp: marked_changes_def)
  ultimately show ?thesis by (rule covered_trans)
qed

lemma next_covered: "covered r (edge_next t r)"
proof -
  have "covered r (mark [Pqueue, PvoteCounts] (edge_start t v (r\<lparr>sn_queue := q, sn_votes := vs\<rparr>)))"
    "covered r (mark [Pqueue, PvoteCounts] (edge_start t v (r\<lparr>sn_queue := q\<rparr>)))" for v q vs
    by (rule covered_late [OF coveredI start_covered], auto simp: marked_changes_def)+
  then show ?thesis by (simp add: edge_next_def Let_def split: list.split)
qed

lemma forget_covered: "covered r (forget_member i m r)"
proof -
  let ?q = "push (EdgeUserRemoved i) ((edge_event EdgeLeave m (no_context\<lparr>ev_user := Some (edge_info r m)\<rparr>) r)\<lparr>er_members := filter (\<lambda>m. mb_id m \<noteq> i) (er_members r)\<rparr>)"
  have "covered r (mark [PvoteCounts, PvotesToSkip] (?q\<lparr>sn_votes := vs, sn_votesToSkip := ids\<rparr>))" for vs ids
    by (rule coveredI) (auto simp: marked_changes_def edge_event_def)
  from covered_then(7) [OF this] show ?thesis by (simp add: forget_member_def edge_event_def Let_def)
qed

lemma drop_covered: "covered r (drop_claims e i r)"
  by (simp add: drop_claims_def covered_then Let_def)

lemma edge_prop_unsynced [simp]:
  "edge_prop (q\<lparr>sn_resumeOnNextJoin := b\<rparr>) = edge_prop q" "edge_prop (q\<lparr>sn_emptySince := x\<rparr>) = edge_prop q" "edge_prop (q\<lparr>er_members := ms\<rparr>) = edge_prop q"
  "edge_prop (q\<lparr>er_messages := out\<rparr>) = edge_prop q" "edge_prop (q\<lparr>er_kicks := ks\<rparr>) = edge_prop q" "edge_prop (q\<lparr>sn_roles := roles\<rparr>) = edge_prop q"
  by (simp_all add: edge_prop_def fullSync_def edge_position_def)

lemma unsynced_covered:
  "covered r q \<Longrightarrow> covered r (q\<lparr>sn_resumeOnNextJoin := b\<rparr>)" "covered r q \<Longrightarrow> covered r (q\<lparr>sn_emptySince := x\<rparr>)"
  "covered r q \<Longrightarrow> covered r (q\<lparr>er_members := ms\<rparr>)" "covered r q \<Longrightarrow> covered r (q\<lparr>er_messages := out\<rparr>)"
  "covered r q \<Longrightarrow> covered r (q\<lparr>er_kicks := ks\<rparr>)" "covered r q \<Longrightarrow> covered r (q\<lparr>sn_roles := roles\<rparr>)"
  by (simp_all add: covered_def)

lemma leave_covered: "covered r (edge_leave e i r)"
proof (cases "edge_member r i")
  case (Some m)
  have "covered r (drop_claims e i (forget_member i m r))" by (rule covered_trans [OF forget_covered drop_covered])
  then show ?thesis using Some by (simp add: edge_leave_def fall_idle_def covered_then unsynced_covered Let_def)
qed (simp add: edge_leave_def)

lemma join_covered: "covered r (edge_join e m r)"
  unfolding edge_join_def Let_def by (intro covered_then unsynced_covered covered_refl)

lemma status_covered: "covered r (edge_status e i status prepared r)"
  by (simp add: edge_status_def note_status_def covered_then unsynced_covered Let_def split: option.split)

lemma tick_covered: "covered r (edge_tick e r)"
proof -
  define r1 where "r1 = (case sn_temporarySpeed r of None \<Rightarrow> r | Some g \<Rightarrow> if eg_expiresAt g \<le> ee_now e then clearTemporarySpeed (ee_now e) r else r)"
  define r2 where "r2 = (case sn_preparation r1 of None \<Rightarrow> r1
      | Some p \<Rightarrow> if ep_expiresAt p \<le> ee_now e then edge_prepare e (Some (ep_clientId p)) (clearPreparation r1) else r1)"
  have "covered r r1" by (simp add: r1_def covered_then split: option.split)
  then have "covered r r2" by (simp add: r2_def covered_then split: option.split)
  then have "covered r (edge_next (ee_now e) r2)" using covered_trans next_covered by blast
  with \<open>covered r r2\<close> show ?thesis unfolding edge_tick_def Let_def r1_def [symmetric] r2_def [symmetric] by (simp split: option.split)
qed

section \<open>Commands\<close>

lemma queue_covered: "covered r (mark [Pqueue] (r\<lparr>sn_queue := q\<rparr>))"
  by (rule coveredI) (auto simp: marked_changes_def)

lemma add_covered: "covered r (result_room (apply_add e vs r))"
proof -
  have "covered r (orderVotes (mark [Pqueue] (r\<lparr>sn_queue := q\<rparr>)))" for q by (rule covered_then(7) [OF queue_covered])
  then show ?thesis using covered_trans next_covered by (simp add: apply_add_def Let_def split: option.split) blast
qed

lemma seek_covered: "covered r (result_room (apply_seek e x r))"
proof -
  have "covered r (mark [PplaybackPosition] (anchor t x r))" for t by (rule coveredI) (auto simp: marked_changes_def anchor_def)
  then show ?thesis using apply_seek_cases [of e x r] by (auto simp: Let_def covered_then)
qed

lemma skip_covered: "covered r (result_room (apply_skip e m r))"
proof -
  have "covered r (mark [PvotesToSkip] (r\<lparr>sn_votesToSkip := ids\<rparr>))" for ids by (rule coveredI) (auto simp: marked_changes_def)
  then show ?thesis using covered_trans next_covered by (simp add: apply_skip_def Let_def) blast
qed

lemma playNow_covered: "covered r (result_room (apply_playNow e video vs r))"
proof -
  have "covered r (mark [Pqueue, PvoteCounts] (edge_start t v (r\<lparr>sn_queue := q, sn_votes := ws\<rparr>)))" for t v q ws
    by (rule covered_late [OF coveredI start_covered]) (auto simp: marked_changes_def)
  then show ?thesis by (simp add: apply_playNow_def Let_def split: list.split option.split)
qed

lemma vote_covered: "covered r (result_room (apply_vote video on m r))"
proof -
  have "covered r (orderVotes (mark [PvoteCounts] (r\<lparr>sn_votes := vs\<rparr>)))" for vs
    by (rule covered_then, rule coveredI) (auto simp: marked_changes_def)
  then show ?thesis by (simp add: apply_vote_def Let_def)
qed

lemma remove_covered: "covered r (result_room (apply_remove video r))"
proof -
  have "covered r (mark [Pqueue, PvoteCounts] (r\<lparr>sn_queue := q, sn_votes := vs\<rparr>))" for q vs by (rule coveredI) (auto simp: marked_changes_def)
  then show ?thesis by (simp add: apply_remove_def split: option.split)
qed

lemma speed_covered: "covered r (result_room (apply_speed e x r))"
proof -
  have "covered q (mark [PplaybackSpeed, PplaybackPosition] ((anchor_here (ee_now e) q)\<lparr>sn_playbackSpeed := x\<rparr>))" for q
    by (rule coveredI) (auto simp: marked_changes_def)
  from covered_trans [OF covered_clear(2) this] show ?thesis by (simp add: apply_speed_def)
qed

lemma gesture_covered: "covered r (apply_gesture e action gid video m r)"
proof -
  have "covered r (mark [PplaybackPosition, PplaybackSpeed, PtemporaryPlaybackSpeed] ((anchor_here (ee_now e) r)\<lparr>sn_temporarySpeed := g, sn_playbackSpeed := x\<rparr>))" for g x
    by (rule coveredI) (auto simp: marked_changes_def)
  moreover have "covered r (r\<lparr>sn_temporarySpeed := map_option (\<lambda>g. g\<lparr>eg_expiresAt := t\<rparr>) (sn_temporarySpeed r)\<rparr>)" for t
    by (rule coveredI) (cases "sn_temporarySpeed r"; simp add: marked_changes_def)
  ultimately show ?thesis by (cases action) (simp_all add: apply_gesture_def covered_clear Let_def)
qed

lemma promote_covered: "covered r (result_room (apply_promote e target role m r))"
  by (simp add: apply_promote_def covered_then unsynced_covered Let_def split: option.split)

lemma kick_covered: "covered r (result_room (apply_kick e target m r))"
  using covered_trans [OF unsynced_covered(5) [OF covered_refl] leave_covered] by (simp add: apply_kick_def split: option.split)

lemma assign_covered: "covered r (assign_all st r)"
proof -
  have one: "covered r (assign_one x put k q)" if "covered r q" "\<And>v. covered q (mark [k] (put v q))" for x put k q
    using covered_trans [OF that] that(1) by (simp add: assign_one_def split: option.split)
  have "covered q (mark [Ptitle] (q\<lparr>sn_title := a\<rparr>))" "covered q (mark [Pdescription] (q\<lparr>sn_description := a\<rparr>))"
    "covered q (mark [Pvisibility] (q\<lparr>sn_visibility := v\<rparr>))" "covered q (mark [PqueueMode] (q\<lparr>sn_queueMode := w\<rparr>))"
    "covered q (mark [PenableVoteSkip] (q\<lparr>sn_enableVoteSkip := b\<rparr>))" for q a v w b
    by (rule coveredI, auto simp: marked_changes_def)+
  then show ?thesis unfolding assign_all_def by (intro one covered_refl)
qed

lemma adopt_covered: "covered r (adopt_grants e g r)"
proof -
  have "covered r (mark [Pgrants] (r\<lparr>sn_grants := x\<rparr>))" for x by (rule coveredI) (auto simp: marked_changes_def)
  then show ?thesis by (simp add: adopt_grants_def covered_then Let_def split: option.split)
qed

lemma settings_covered: "covered r (result_room (edge_settings e st wire m r))"
proof -
  have "covered r (adopt_grants e g (assign_all st r))" for g by (rule covered_trans [OF assign_covered adopt_covered])
  then show ?thesis using assign_covered covered_then(7) by (simp add: edge_settings_def Let_def split: sum.split option.split)
qed

lemma dispatch_covered: "covered r (result_room (edge_dispatch e cmd m media r))"
proof (cases cmd)
  case (CmdOrder a b)
  then show ?thesis using queue_covered by (simp add: edge_dispatch_def apply_order_def Let_def)
next
  case CmdShuffle
  then show ?thesis using queue_covered by (simp add: edge_dispatch_def apply_shuffle_def)
next
  case (CmdUpdateQueueItem video extras)
  then show ?thesis using queue_covered by (simp add: edge_dispatch_def apply_update_def Let_def split: option.split list.split)
qed (simp_all add: edge_dispatch_def covered_then unsynced_covered add_covered seek_covered skip_covered playNow_covered vote_covered remove_covered
    speed_covered gesture_covered promote_covered kick_covered settings_covered)

lemma apply_covered: "covered r (snd (edge_apply e cmd m media r))"
  using dispatch_covered [of r e cmd m media] covered_then(3)
  by (cases "edge_dispatch e cmd m media r") (simp_all add: edge_apply_def split: option.split)

section \<open>The copy of a client\<close>

text \<open>A client of the room takes in what is drained; it is told all of the room when it joins.\<close>

definition edge_merge :: "(sync_prop \<Rightarrow> edge_value option) \<Rightarrow> edge_message list \<Rightarrow> sync_prop \<Rightarrow> edge_value option" where
  "edge_merge view msgs = foldl (\<lambda>v msg. case msg of EdgeSync es \<Rightarrow> v ++ map_of es | _ \<Rightarrow> v) view msgs"

definition mirror_step :: "(sync_prop \<Rightarrow> edge_value option) \<times> edge_room \<Rightarrow> edge_env \<times> edge_call \<Rightarrow> (sync_prop \<Rightarrow> edge_value option) \<times> edge_room" where
  "mirror_step vr ec = (case (vr, ec) of ((view, r), (e, call)) \<Rightarrow>
     (if call = CallDrain then edge_merge view (fst (fst (drain (ee_now e) r))) else view, edge_step r (e, call)))"

text \<open>Between two drains the messages of the room are no synchronisations.\<close>

definition no_sync :: "edge_room \<Rightarrow> bool" where
  "no_sync r \<longleftrightarrow> (\<forall>es. EdgeSync es \<notin> set (er_messages r))"

lemma no_sync_frame [simp]:
  "no_sync (mark ks r) = no_sync r" "no_sync (clearPreparation r) = no_sync r" "no_sync (clearTemporarySpeed t r) = no_sync r"
  "no_sync (edge_prepare e x r) = no_sync r" "no_sync (orderVotes r) = no_sync r" "no_sync (playing t on r) = no_sync r"
  "no_sync (edge_event q m a r) = no_sync r" "no_sync (edge_next t r) = no_sync r" "no_sync (edge_start t v r) = no_sync r"
  by (simp_all add: no_sync_def playing_def edge_event_def push_def)

lemma no_sync_leave: "no_sync r \<Longrightarrow> no_sync (edge_leave e i r)"
proof -
  have "no_sync (forget_member i m r) = no_sync r" for m by (simp add: forget_member_def no_sync_def edge_event_def push_def Let_def)
  moreover have "no_sync (drop_claims e i q) = no_sync q" "no_sync (fall_idle e q) = no_sync q" for q
    by (simp_all add: drop_claims_def fall_idle_def no_sync_def playing_def Let_def)
  ultimately show "no_sync r \<Longrightarrow> no_sync (edge_leave e i r)" by (simp add: edge_leave_def Let_def split: option.split)
qed

lemma no_sync_settings: "no_sync (result_room (edge_settings e st wire m r)) = no_sync r"
proof -
  have "no_sync (assign_all st r) = no_sync r" by (simp add: assign_all_def assign_one_def no_sync_def split: option.split)
  moreover have "no_sync (adopt_grants e g q) = no_sync q" for g q by (simp add: adopt_grants_def no_sync_def Let_def split: option.split)
  ultimately show ?thesis by (simp add: edge_settings_def Let_def split: sum.split option.split)
qed

lemma no_sync_promote: "no_sync (result_room (apply_promote e target role m r)) = no_sync r"
  by (auto simp: apply_promote_def no_sync_def Let_def split: option.split)

lemma no_sync_dispatch:
  assumes "no_sync r"
  shows "no_sync (result_room (edge_dispatch e cmd m media r))"
proof (cases cmd)
  case (CmdKick target)
  have "no_sync (r\<lparr>er_kicks := ks\<rparr>)" for ks using assms by (simp add: no_sync_def)
  from no_sync_leave [OF this] show ?thesis using CmdKick assms by (simp add: edge_dispatch_def apply_kick_def split: option.split)
next
  case (CmdTemporaryPlaybackSpeed action gid video)
  then show ?thesis using assms by (cases action) (simp_all add: edge_dispatch_def apply_gesture_def no_sync_def Let_def)
next
  case (CmdSeek x)
  then show ?thesis using assms by (simp add: edge_dispatch_def apply_seek_def no_sync_def anchor_def Let_def split: option.split)
qed (use assms in \<open>simp_all add: edge_dispatch_def no_sync_settings no_sync_promote\<close>,
    simp_all add: apply_skip_def apply_add_def apply_remove_def apply_order_def apply_vote_def apply_playNow_def
    apply_shuffle_def apply_speed_def apply_update_def Let_def no_sync_def playing_def push_def split: option.split list.split)

lemma no_sync_step:
  assumes "no_sync r"
  shows "no_sync (edge_step r (e, call))"
proof (cases call)
  case (CallCommand cmd m media)
  then show ?thesis using no_sync_dispatch [OF assms, of e cmd m media] assms
    by (cases "edge_dispatch e cmd m media r") (simp_all add: edge_step_def edge_apply_def split: option.split)
next
  case (CallStatus i status prepared)
  then show ?thesis using assms by (simp add: edge_step_def edge_status_def note_status_def no_sync_def push_def playing_def Let_def split: option.split)
next
  case (CallTick)
  then show ?thesis using assms by (simp add: edge_step_def edge_tick_def Let_def split: option.split)
next
  case (CallRestart alive)
  then show ?thesis by (simp add: edge_step_def edge_restart_def edge_recover_def recover_empty_def no_sync_def Let_def split: option.split)
qed (use assms in \<open>simp_all add: edge_step_def no_sync_leave edge_join_def, simp_all add: no_sync_def push_def edge_event_def drain_def persisted_def Let_def\<close>)

text \<open>The specification: the copy agrees with the room on what is not marked.\<close>

definition agrees :: "(sync_prop \<Rightarrow> edge_value option) \<times> edge_room \<Rightarrow> bool" where
  "agrees vr \<longleftrightarrow> (case vr of (view, r) \<Rightarrow> no_sync r
     \<and> (\<forall>k. k \<noteq> PplaybackPosition \<longrightarrow> k \<notin> set (er_dirty r) \<or> edge_prop r k = None \<longrightarrow> view k = edge_prop r k))"

lemma edge_prop_dom: "edge_prop r k = None \<longleftrightarrow> k \<in> {PhasPassword, PbufferGateMode, PdanmakuSource}"
  by (cases k) (simp_all add: edge_prop_def fullSync_def)

lemma edge_prop_time: "k \<noteq> PplaybackPosition \<Longrightarrow> map_of (fullSync t r) k = edge_prop r k"
  by (cases k) (simp_all add: edge_prop_def fullSync_def)

lemma map_of_selected: "map_of (List.map_filter (\<lambda>k. map_option (Pair k) (m k)) ks) k = (if k \<in> set ks then m k else None)"
  by (induction ks) (auto simp: List.map_filter_def split: option.split)

lemma merge_quiet: "no_sync r \<Longrightarrow> edge_merge view (er_messages r) = view"
proof -
  have "(\<forall>es. EdgeSync es \<notin> set msgs) \<Longrightarrow> edge_merge view msgs = view" for msgs
    unfolding edge_merge_def by (induction msgs) (auto split: edge_message.split)
  then show "no_sync r \<Longrightarrow> edge_merge view (er_messages r) = view" by (simp add: no_sync_def)
qed

lemma drain_agrees:
  assumes "agrees (view, r)" "k \<noteq> PplaybackPosition"
  shows "edge_merge view (fst (fst (drain t r))) k = edge_prop r k"
proof -
  have q: "edge_merge view (er_messages r) = view" using assms(1) by (intro merge_quiet) (simp add: agrees_def)
  have view: "k \<notin> set (er_dirty r) \<or> edge_prop r k = None \<Longrightarrow> view k = edge_prop r k" using assms by (simp add: agrees_def)
  have sync: "map_of (List.map_filter (\<lambda>k. map_option (Pair k) (map_of (fullSync t r) k)) (er_dirty r)) k
      = (if k \<in> set (er_dirty r) then edge_prop r k else None)"
    by (simp add: map_of_selected edge_prop_time [OF assms(2)])
  show ?thesis
  proof (cases "er_dirty r = []")
    case True
    then show ?thesis using q view by (simp add: drain_def)
  next
    case False
    then have "edge_merge view (fst (fst (drain t r))) k =
        (view ++ map_of (List.map_filter (\<lambda>k. map_option (Pair k) (map_of (fullSync t r) k)) (er_dirty r))) k"
      using q by (simp add: drain_def edge_merge_def Let_def)
    also have "\<dots> = edge_prop r k" using view sync by (cases "edge_prop r k") (auto simp: map_add_def)
    finally show ?thesis .
  qed
qed

lemma step_covered:
  assumes "call \<noteq> CallDrain" "\<nexists>alive. call = CallRestart alive"
  shows "covered r (edge_step r (e, call))"
proof (cases call)
  case CallPersist
  have "covered r (anchor_here t r)" for t by (rule coveredI) (simp add: marked_changes_def)
  then show ?thesis using CallPersist by (simp add: edge_step_def persisted_def Let_def)
qed (use assms in \<open>simp_all add: edge_step_def join_covered leave_covered status_covered apply_covered tick_covered unsynced_covered\<close>)

interpretation mirror_machine: invariant_machine mirror_step agrees "\<lambda>ec. \<nexists>alive. snd ec = CallRestart alive"
proof
  fix vr :: "(sync_prop \<Rightarrow> edge_value option) \<times> edge_room" and ec :: "edge_env \<times> edge_call"
  assume ok: "agrees vr" "\<nexists>alive. snd ec = CallRestart alive"
  obtain view r e call where vr: "vr = (view, r)" "ec = (e, call)" by (cases vr, cases ec) blast
  have sync: "no_sync (edge_step r (e, call))" using ok(1) no_sync_step by (simp add: vr agrees_def)
  show "agrees (mirror_step vr ec)"
  proof (cases "call = CallDrain")
    case True
    have "edge_prop (snd (drain t r)) = edge_prop r" for t by (simp add: drain_def edge_prop_def fullSync_def edge_position_def Let_def)
    then show ?thesis using sync ok(1) drain_agrees [of view r] True
      by (simp add: vr mirror_step_def agrees_def edge_step_def)
  next
    case False
    then have c: "covered r (edge_step r (e, call))" using ok(2) by (intro step_covered) (simp_all add: vr)
    have "view k = edge_prop (edge_step r (e, call)) k"
      if "k \<noteq> PplaybackPosition" "k \<notin> set (er_dirty (edge_step r (e, call))) \<or> edge_prop (edge_step r (e, call)) k = None" for k
    proof (cases "edge_prop r k = None")
      case True
      then show ?thesis using ok(1) that(1) edge_prop_dom [of r k] edge_prop_dom [of "edge_step r (e, call)" k] by (simp add: vr agrees_def)
    next
      case False
      then have "k \<notin> set (er_dirty (edge_step r (e, call)))" using that(2) edge_prop_dom [of r k] edge_prop_dom [of "edge_step r (e, call)" k] by auto
      then show ?thesis using ok(1) c that(1) by (auto simp: vr agrees_def covered_def)
    qed
    then show ?thesis using sync False by (simp add: vr mirror_step_def agrees_def)
  qed
qed

text \<open>C20.
  Every client of an edge room ends up with the room: a client that was told all of it, and from then on only takes in what the room
  sends after each of any sequence of joins, departures, reports, commands and alarms, agrees with the room after the next
  message on everything but the position, which it extrapolates. So no handler forgets to mark what it changes.\<close>

theorem edge_clients_converge:
  assumes "r0 = snd (drain t0 r)" "view0 = map_of (fullSync t0 r0)" "list_all (\<lambda>ec. \<nexists>alive. snd ec = CallRestart alive) calls"
    and "(view, r') = foldl mirror_step (view0, r0) (calls @ [(e, CallDrain)])" "k \<noteq> PplaybackPosition"
  shows "view k = map_of (fullSync t r') k"
proof -
  have "agrees (view0, r0)"
    using assms(1,2) edge_prop_time by (simp add: agrees_def no_sync_def drain_def Let_def)
  then have a: "agrees (foldl mirror_step (view0, r0) calls)" using assms(3) by (rule mirror_machine.run_inv)
  obtain v q where vq: "foldl mirror_step (view0, r0) calls = (v, q)" by fastforce
  have "view = edge_merge v (fst (fst (drain (ee_now e) q)))" "r' = snd (drain (ee_now e) q)"
    using assms(4) vq by (simp_all add: mirror_step_def edge_step_def)
  moreover have "edge_prop (snd (drain t r)) = edge_prop r" for t r by (simp add: drain_def edge_prop_def fullSync_def edge_position_def Let_def)
  ultimately show ?thesis using drain_agrees [of v q k] a vq assms(5) edge_prop_time [OF assms(5)] by simp
qed

end
