(* ===== verification/EdgeAlarm.thy ===== *)
theory EdgeAlarm
  imports EdgeMirror RoomStorage
begin

text \<open>
  The alarm of an edge room is set early enough for everything that is due, a concrete room for
  the witnesses, and what the room lets through.
\<close>

section \<open>The alarm\<close>

lemma earliest:
  assumes "\<forall>y \<in> set ys. isFinite y"
  shows "\<exists>a. foldl js_min (Fin x) ys = Fin a \<and> a \<le> x \<and> (\<forall>y. Fin y \<in> set ys \<longrightarrow> a \<le> y)"
  using assms
proof (induction ys arbitrary: x)
  case (Cons z zs)
  then obtain w where w: "z = Fin w" by (cases z) auto
  then show ?case using Cons.IH [of "min x w"] Cons.prems by fastforce
qed simp

lemma alarm_early:
  assumes "\<forall>y \<in> set (alarm_times t idleMs checkpointMs r). isFinite y" "Fin y \<in> set (alarm_times t idleMs checkpointMs r)"
  shows "\<exists>a. nextAlarm t idleMs checkpointMs r = Some (Fin a) \<and> of_int t < a \<and> a \<le> max (of_int t + 1) y"
proof -
  obtain x xs where xs: "alarm_times t idleMs checkpointMs r = x # xs" using assms(2) by (cases "alarm_times t idleMs checkpointMs r") auto
  obtain x' where x': "x = Fin x'" using assms(1) xs by (cases x) auto
  obtain a where "foldl js_min (Fin x') xs = Fin a" "a \<le> x'" "\<forall>y. Fin y \<in> set xs \<longrightarrow> a \<le> y"
    using earliest [of xs x'] assms(1) xs by auto
  then show ?thesis using xs x' assms(2) by (auto simp: nextAlarm_def)
qed

definition finite_end :: "edge_room \<Rightarrow> bool" where
  "finite_end r \<longleftrightarrow> (\<forall>x. Option.bind (sn_currentSource r) edge_end = Some x \<longrightarrow> isFinite x)"

lemma end_alarm_finite: "isFinite x \<Longrightarrow> isFinite (end_alarm t p s x)"
  by (cases x) (simp_all add: end_alarm_def)

lemma alarm_times_finite: "finite_end r \<Longrightarrow> \<forall>y \<in> set (alarm_times t idleMs checkpointMs r). isFinite y"
  by (cases "Option.bind (sn_currentSource r) edge_end")
    (auto simp: alarm_times_def finite_end_def end_alarm_finite split: option.splits if_splits)

text \<open>When the video has run out by then, the tick of that alarm goes on to the next one.\<close>

lemma tick_moves_on:
  assumes "sn_isPlaying r" "sn_currentSource r = Some v" "edge_end v = Some (Fin x)" "0 < sn_playbackSpeed r" "sn_preparation r = None" "sn_temporarySpeed r = None"
    and "of_int t + max 1 ((x - edge_position t r) / sn_playbackSpeed r * 1000) \<le> of_int (ee_now e)" "sn_anchorAt r \<le> t" "0 \<le> sn_position r"
  shows "edge_tick e r = edge_next (ee_now e) r"
proof -
  let ?s = "sn_playbackSpeed r"
  have adv: "edge_position u r = sn_position r + of_int (u - sn_anchorAt r) / 1000 * ?s" if "t \<le> u" for u
    using that assms(1,4,8,9) by (simp add: edge_position_def)
  have t: "(x - edge_position t r) / ?s * 1000 \<le> of_int (ee_now e) - of_int t" "t \<le> ee_now e" using assms(7) by linarith+
  then have "x - edge_position t r \<le> (of_int (ee_now e) - of_int t) / 1000 * ?s" using assms(4) by (simp add: field_simps)
  then have "x \<le> edge_position (ee_now e) r" using adv [of t] adv [OF t(2)] by (simp add: field_simps)
  then show ?thesis using assms(1-3,5,6) by (simp add: edge_tick_def js_geq_def)
qed


section \<open>A concrete room\<close>

definition edge_guest :: "string \<Rightarrow> GuestSession" where
  "edge_guest n = \<lparr>gs_identity_id = n, gs_username = n, gs_expires_at = 1000000, gs_token_hash = n @ ''-hash''\<rparr>"

definition edge_viewer :: "string \<Rightarrow> Member" where
  "edge_viewer n = \<lparr>mb_id = n @ ''-1'', mb_session = edge_guest n, mb_status = StatusNone\<rparr>"

definition edge_options :: room_options where
  "edge_options = \<lparr>ro_name = ''lobby'', ro_title = None, ro_description = None, ro_isTemporary = None, ro_visibility = None, ro_queueMode = None\<rparr>"

definition edge_at :: "int \<Rightarrow> edge_env" where
  "edge_at t = \<lparr>ee_now = t, ee_randomUUID = ''uuid'', ee_randomInt = (\<lambda>_. 0), ee_jsonBytes = (\<lambda>_ q. 100 * length q)\<rparr>"

definition edge_video :: QueueItem where
  "edge_video = (bare_video ''direct'' ''a'')\<lparr>v_length := Some (Fin 100)\<rparr>"

definition edge_sample :: edge_room where
  "edge_sample = new_edge_room
     \<lparr>sn_name = ''lobby'', sn_title = ''lobby'', sn_description = [], sn_isTemporary = True, sn_visibility = Unlisted, sn_queueMode = Manual,
      sn_ownerId = ''olga'', sn_roles = [], sn_grants = entries default_Grants, sn_currentSource = Some edge_video, sn_queue = [], sn_isPlaying = True,
      sn_position = 0, sn_anchorAt = 0, sn_playbackSpeed = 1, sn_resumeOnNextJoin = False, sn_emptySince = None, sn_preparation = None,
      sn_temporarySpeed = None, sn_votes = [], sn_votesToSkip = [], sn_enableVoteSkip = True, sn_createdAt = 0\<rparr>
     \<lparr>er_members := [edge_viewer ''olga'', edge_viewer ''gina'', edge_viewer ''gus'']\<rparr>"

lemma edge_sample_fields [simp]:
  "sn_grants edge_sample = entries default_Grants" "sn_roles edge_sample = []" "sn_ownerId edge_sample = ''olga''" "sn_isPlaying edge_sample"
  "sn_currentSource edge_sample = Some edge_video" "sn_position edge_sample = 0" "sn_anchorAt edge_sample = 0" "sn_playbackSpeed edge_sample = 1"
  "sn_temporarySpeed edge_sample = None" "sn_preparation edge_sample = None" "sn_queue edge_sample = []" "er_kicks edge_sample = []"
  "er_members edge_sample = [edge_viewer ''olga'', edge_viewer ''gina'', edge_viewer ''gus'']"
  by (simp_all add: edge_sample_def)

lemma edge_at_now [simp]: "ee_now (edge_at t) = t"
  by (simp add: edge_at_def)

text \<open>The stored grants of a reachable room are always read back, so the getter does not throw.\<close>

lemma can_granted:
  assumes "wf_grants g" "sn_grants r = entries g"
  shows "can r session perm = granted g (edge_role r session) perm"
proof -
  obtain h where "new_Grants (FromArray (entries g)) = Inr h" "\<forall>s. mask_of h s = mask_of g s"
    using snapshot_grants [OF assms(1)] by blast
  then show ?thesis using assms(2) by (simp add: can_def edge_grants_def granted_def)
qed

lemma sample_can [simp]: "can edge_sample session perm = granted default_Grants (edge_role edge_sample session) perm"
  by (rule can_granted [OF wf_default]) simp

lemma gina_role [simp]: "edge_role edge_sample (edge_guest ''gina'') = UnregisteredUser"
  by (simp add: edge_role_def edge_guest_def or_else_def)

lemma gina_session [simp]: "mb_session (edge_viewer n) = edge_guest n" "mb_id (edge_viewer n) = n @ ''-1''"
  by (simp_all add: edge_viewer_def)

theorem edge_room_consistent_witness:
  "\<exists>sn. createSnapshot 0 edge_options (edge_guest ''olga'') = Inr sn \<and>
     length (sn_queue (foldl edge_step (new_edge_room sn) [(edge_at 10, CallJoin (edge_viewer ''gina'')),
        (edge_at 20, CallCommand (CmdAdd None None (Some ''u'')) (edge_viewer ''gina'') [(edge_video, False)])])) \<le> 200"
proof -
  obtain sn where sn: "createSnapshot 0 edge_options (edge_guest ''olga'') = Inr sn"
    unfolding createSnapshot_def default_grants bind_result_def by simp
  have "list_all call_ok [(edge_at 10, CallJoin (edge_viewer ''gina'')),
      (edge_at 20, CallCommand (CmdAdd None None (Some ''u'')) (edge_viewer ''gina'') [(edge_video, False)])]"
    by (simp add: random_ok_def edge_at_def starts_ok_def edge_video_def bare_video_def)
  from edge_room_consistent [OF sn this refl] sn show ?thesis by auto
qed

theorem edge_rank_respected_witness:
  "\<exists>kicked. er_kicks (snd (edge_apply (edge_at 10) (CmdKick ''gina-1'') (edge_viewer ''olga'') [] edge_sample)) = kicked \<and>
     (\<forall>i \<in> set kicked. \<exists>peer. edge_member edge_sample i = Some peer
        \<and> edge_rank (edge_role edge_sample (mb_session peer)) < edge_rank (edge_role edge_sample (edge_guest ''olga'')))"
  using edge_rank_respected [OF refl, of "edge_at 10" "CmdKick ''gina-1''" "edge_viewer ''olga''" "[]" edge_sample] by simp

theorem edge_clock_runs_on_witness:
  "edge_position 5000 (edge_step edge_sample (edge_at 5000, CallCommand (CmdPlaybackSpeed 2) (edge_viewer ''olga'') [])) = 5"
  using edge_clock_runs_on [of "CallCommand (CmdPlaybackSpeed 2) (edge_viewer ''olga'') []" edge_sample "edge_at 5000"]
  by (simp add: edge_position_def)


theorem edge_clients_converge_witness:
  "let r0 = snd (drain 0 edge_sample);
       vr = foldl mirror_step (map_of (fullSync 0 r0), r0) ([(edge_at 1000, CallCommand CmdSkip (edge_viewer ''olga'') [])] @ [(edge_at 1000, CallDrain)])
   in fst vr PcurrentSource = map_of (fullSync 1000 (snd vr)) PcurrentSource"
  unfolding Let_def by (rule edge_clients_converge [OF refl refl _ prod.collapse]) simp_all


section \<open>What the room lets through\<close>

text \<open>Somebody who is not in the room, but holds a session, counts in a vote to skip.\<close>

lemma outsider_skips:
  assumes "edge_member r (mb_id m) = None" "sn_enableVoteSkip r" "edge_rank (edge_role r (mb_session m)) < role_num Moderator"
    and "can r (mb_session m) ''playback.skip''" "mb_id m \<notin> set (sn_votesToSkip r)" "length (er_members r) < 2 * Suc (length (sn_votesToSkip r))"
    and "sn_queueMode r = Manual" "sn_queue r = []"
  shows "sn_currentSource (snd (edge_apply e CmdSkip m [] r)) = None"
  using assms by (simp add: edge_apply_def checkCommand_def edge_check_def edge_dispatch_def apply_skip_def js_add_def edge_next_def edge_start_def
      edge_event_def Let_def split: option.split)

text \<open>A change of role reaches all connections of a person, the round of preparation only the one that was named.\<close>

lemma demoted_preparer_stays:
  assumes "apply_promote e target role m r = Told a r'" "sn_preparation r = Some p" "ep_clientId p \<noteq> target"
  shows "sn_preparation r' = Some p"
  using assms by (auto simp: apply_promote_def Let_def split: option.splits)

text \<open>A room without viewers can be set playing over HTTP; no alarm is then set for the end of the video.\<close>

lemma empty_room_plays:
  assumes "er_members r = []" "sn_currentSource r = Some v" "can r (mb_session m) ''playback.play-pause''"
    and "\<not> sn_isTemporary r" "sn_temporarySpeed r = None"
  shows "let r' = snd (edge_apply e (CmdPlayback True) m [] r) in sn_isPlaying r' \<and> nextAlarm t idleMs checkpointMs r' = None"
  using assms by (simp add: edge_apply_def checkCommand_def edge_check_def edge_dispatch_def playing_def edge_event_def nextAlarm_def alarm_times_def Let_def
      split: option.split)

end
