(* ===== verification/Spec2Isabelle.thy ===== *)
theory Spec2Isabelle
  imports RoomFindings RoomReload ClientGuards PlaybackRound EdgeAlarm
begin

text \<open>
  OpenTogetherTube: rooms in which people watch videos together. This development models the
  TypeScript server that owns the rooms (\<^verbatim>\<open>server/\<close>, \<^verbatim>\<open>common/\<close>) and the parts of the
  browser's side that follow one: its store (\<^verbatim>\<open>client/src/stores/room.ts\<close>) and the two controllers
  that steer the player (\<^verbatim>\<open>client/src/util/playback-sync.ts\<close>, \<^verbatim>\<open>playback-preparation.ts\<close>). A second
  room implementation for Cloudflare's edge (\<^verbatim>\<open>packages/ott-edge/src/room-state.ts\<close>) is modelled beside it.

  \<^bold>\<open>The program.\<close> A room holds a queue of videos, a playback head, its viewers and their roles,
  and the settings. Viewers send requests over a websocket; the client manager finds the room and
  hands it the request, the room checks the permission of the viewer's role, runs the handler and
  marks the properties it changed. A checkpoint a moment later sends the marked properties to all
  clients and writes them to Redis and, for a permanent room, to the database. The room manager
  ticks every loaded room once a second, loads rooms on demand and unloads the stale ones. The
  playback head is never stored: a room keeps the position at the last change of the clock and
  the instant of that change, and both sides extrapolate.

  \<^bold>\<open>Theories and what they translate.\<close>
  \<^item> \<open>Prelude\<close>: JavaScript numbers, wire values, \<^verbatim>\<open>Set\<close> and \<^verbatim>\<open>Map\<close>, exceptions as values with
    the state they leave behind (\<open>thrown\<close>, \<open>seq\<close>), and the locales \<open>set_container\<close> and \<open>invariant_machine\<close>.
  \<^item> \<open>Permissions\<close>: \<^verbatim>\<open>common/permissions.ts\<close>, \<^verbatim>\<open>userutils.ts\<close>, \<^verbatim>\<open>voteskip.ts\<close>.
  \<^item> \<open>Models\<close>, \<open>VideoQueue\<close>, \<open>Subtitles\<close>: \<^verbatim>\<open>common/models/*.ts\<close>, \<^verbatim>\<open>common/constants.ts\<close>,
    \<^verbatim>\<open>common/timestamp.ts\<close>, \<^verbatim>\<open>server/videoqueue.ts\<close>, \<^verbatim>\<open>common/subtitles.ts\<close>.
  \<^item> \<open>RoomState\<close>, \<open>RoomPlayback\<close>, \<open>RoomSync\<close>, \<open>RoomQueueOps\<close>, \<open>RoomUsers\<close>, \<open>RoomRequests\<close>,
    \<open>RoomTick\<close>: \<^verbatim>\<open>server/room.ts\<close> in the order fields and clock, playback engine, projections
    and checkpoint and constructor, requests on the queue, requests about viewers and settings,
    playback requests with undo and dispatch (\<open>processRequest\<close>), and the tick, the timers and the
    machine \<open>room_step\<close> whose events are all of these.
  \<^item> \<open>RoomInv\<close>, \<open>RoomSafety\<close>: the invariant of a room and that every event keeps it; \<open>reachable\<close>
    is the set of rooms that a constructor and any sequence of events give.
  \<^item> \<open>RoomClock\<close>, \<open>RoomTiming\<close>, \<open>RoomPresence\<close>: the position viewers see, the buffer gate, the
    preparation round, held gestures, and page refreshes.
  \<^item> \<open>RoomAccess\<close>: permissions of requests and of undo, promotion, kicking, settings.
  \<^item> \<open>RoomQueueing\<close>, \<open>RoomVotes\<close>, \<open>RoomUndo\<close>: additions, play-now, looping, votes, undo.
  \<^item> \<open>RoomMirror\<close>: the client's store; the abstract specification of the checkpoint protocol is
    that the client's copy agrees with the room on every property that is not marked, and every
    event of the room refines it.
  \<^item> \<open>RoomStorage\<close>: \<^verbatim>\<open>server/storage/room.ts\<close> and \<^verbatim>\<open>server/models/room.ts\<close>: the table of the
    permanent rooms, and that a saved room comes back.
  \<^item> \<open>RoomPassword\<close>: \<^verbatim>\<open>server/room-password.ts\<close>: who may enter, until when, and how many passwords
    are hashed at once.
  \<^item> \<open>RoomIdentity\<close>, \<open>RoomManager\<close>, \<open>RoomReload\<close>: \<^verbatim>\<open>server/roommanager.ts\<close> as a machine over the loaded
    rooms, Redis and the table: names are unique, and a restart gives a room back.
  \<^item> \<open>MessageBudget\<close>: the token buckets of \<^verbatim>\<open>server/clientmanager.ts\<close>, with the locale
    \<open>rate_limiter\<close> for what any bucket of this kind promises.
  \<^item> \<open>Voice\<close>, \<open>VoiceBudget\<close>: \<^verbatim>\<open>server/voice.ts\<close> and \<^verbatim>\<open>server/voice-budget.ts\<close>: relay channels,
    TURN credentials, the monthly budget of each account and the choice of a relay.
  \<^item> \<open>ClientManager\<close>: \<^verbatim>\<open>server/clientmanager.ts\<close> and \<^verbatim>\<open>server/client.ts\<close> as a machine \<open>hub_step\<close> over
    connections, seats, joins under way and the voice chat, on top of the room manager; the
    locales \<open>lobby_requests\<close>, \<open>lobby_core\<close> and \<open>lobby_property\<close> say what a property has to satisfy to
    be kept by all handlers, and are instantiated for the voice limits, for seats and for joins.
  \<^item> \<open>ClientSafety\<close>: nobody hears a room without having been let in, everybody in it hears each message
    once, the limits of the voice chat. \<open>ClientGuards\<close>: messages that are turned away, signals, dead
    sockets, unloading, and where the client manager lets something through.
  \<^item> \<open>PlaybackSync\<close>: \<^verbatim>\<open>client/src/util/playback-sync.ts\<close>, a controller that reads the player and the room
    at every tick and seeks or bends the rate; each await is an event of its own. \<open>PlaybackSteering\<close>: the
    rate it sets stays near the rate of the room (locale \<open>rate_range\<close>), and nothing happens after
    disposal. \<open>PlaybackConvergence\<close>: drift is played off, and in which rooms it is not.
  \<^item> \<open>PlaybackReady\<close>: \<^verbatim>\<open>client/src/util/playback-preparation.ts\<close>, how a viewer gets ready for the start of
    a paused room; a report is true. \<open>PlaybackRound\<close>: attempts are bounded by a rank that no event
    raises, the room counts a report, and which viewers never send one.
  \<^item> \<open>EdgeRoom\<close>: \<^verbatim>\<open>packages/ott-edge/src/room-state.ts\<close> and \<^verbatim>\<open>commands.ts\<close>, the machine \<open>edge_step\<close>.
    \<open>EdgeSafety\<close>: its invariant over all calls and restarts, and that a refused command changes
    nothing. \<open>EdgeRules\<close>: ranks, the clock, what a restart brings back. \<open>EdgeMirror\<close>: every change is
    marked, so clients converge. \<open>EdgeAlarm\<close>: the alarm is early enough, and what the room lets through.
  \<^item> \<open>RoomSample\<close>: a small concrete room for the witnesses. \<open>RoomFindings\<close>: behaviours of the
    code that its comments do not intend.
  \<^item> This theory: the properties of every reachable room.

  \<^bold>\<open>State and effects.\<close> A class is a record and a method a function on it. A method that throws
  returns the error together with the state it had reached. What the code reads from elsewhere
  (clock, session store, user table, media extractor, DNS, random ids, configuration, lodash's
  sort and shuffle) is a field of the record \<open>env\<close>; where a proof needs a promise of it, the
  promise is a named hypothesis (\<open>env_ok\<close>, \<open>extractor_ok\<close>). Published messages and commands are
  appended to lists. A timer is the instant at which it fires, and its body is an event.

  \<^bold>\<open>Abstractions.\<close> Positions and speeds are rationals instead of doubles, instants are integers
  (milliseconds). A handler is one step between two awaits that yield to other requests;
  \<^verbatim>\<open>addToQueue\<close>, which waits for the extractor, is split there, and so are joining and leaving in
  the client manager. The choice of a relay and the notes of a join are read within their step; a join whose room is
  unloaded meanwhile ends, and a store that fails while the access is checked is not followed. JSON text is replaced by the
  records it encodes, so an absent and an undefined property are the same. Characters are 8 bit,
  which concerns only \<^verbatim>\<open>trim\<close> and lengths. Settings are applied in the order of the schema. A
  token has one pending leave event. The client's grants and vote counts keep the form of the
  message. Metrics and log lines are left out. All recursion is structural or has a termination
  proof; no definition uses fuel.

  \<^bold>\<open>Not modelled.\<close> The REST handlers, the accounts and the service adapters are glue to Express,
  the database and third-party sites. The Vue components, the players, the durable object around the edge room, the Rust balancer and
  the visualisation packages are separate programs.
\<close>

section \<open>Every room that can exist\<close>



text \<open>C2.
  The three things that may hold the clock of a room never contradict each other. A preparation
  belongs to the video the room has, at the position the room has, in a room that is paused but
  means to play, and counts only eligible viewers as ready, each once. A held gesture belongs to
  a playing room whose speed is exactly the gesture's. The buffer gate holds only a room that it
  paused itself. Hence no two of them are in force at once.\<close>

theorem playback_never_contradicts:
  assumes "reachable r"
  shows "(\<forall>p. playbackPreparation r = Some p \<longrightarrow>
            \<not> isPlaying r \<and> resumeOnNextJoin r
            \<and> map_option video_id (currentSource r) = Some (pp_video p)
            \<and> pp_position p = playbackPosition r
            \<and> rd_clientId ` set (pp_ready p) \<subseteq> set (pp_eligible p)
            \<and> distinct (map rd_clientId (pp_ready p)))
    \<and> (\<forall>s. temporarySpeed r = Some s \<longrightarrow>
            isPlaying r \<and> currentSource r \<noteq> None \<and> playbackSpeed r = 2 \<and> ts_speed s = 2)
    \<and> (\<forall>g. bufferGate r = Some g \<longrightarrow>
            bg_pausedByGate g \<and> \<not> isPlaying r \<and> currentSource r \<noteq> None)
    \<and> (playbackPreparation r = None \<or> temporarySpeed r = None)
    \<and> (playbackPreparation r = None \<or> bufferGate r = None)
    \<and> (temporarySpeed r = None \<or> bufferGate r = None)"
  using reachable_inv [OF assms]
  by (auto simp: room_inv_def play_inv_defs TEMPORARY_PLAYBACK_SPEED_def split: option.splits)

theorem playback_never_contradicts_witness:
  "\<exists>r. new_Room 0 sample_options = Inr r
     \<and> (temporarySpeed (foldl room_step r sample_events) = None
        \<or> bufferGate (foldl room_step r sample_events) = None)"
proof -
  obtain r where "new_Room 0 sample_options = Inr r"
    and "reachable (foldl room_step r sample_events)" by (rule sample_reachable)
  then show ?thesis using playback_never_contradicts by blast
qed

text \<open>C34.
  The grants of a room keep their order for its whole life: administrators and owners hold every
  permission, whatever settings were applied, a role is never granted what is reserved to a
  higher role, and a higher role holds everything a lower one does.\<close>

theorem grants_stay_ordered:
  assumes "reachable r"
  shows "granted (grants r) Administrator perm \<and> granted (grants r) Owner perm
    \<and> (\<forall>role. mask_le (bits (getMask (grants r) role)) (getValidationMask role))
    \<and> (\<forall>low high. low \<noteq> Owner \<longrightarrow> high \<noteq> Owner \<longrightarrow> low \<le> high \<longrightarrow>
         granted (grants r) low perm \<longrightarrow> granted (grants r) high perm)"
proof -
  have wf: "wf_grants (grants r)"
    using reachable_inv [OF assms] by (simp add: room_inv_def data_inv_def)
  then have "granted (grants r) low perm \<Longrightarrow> granted (grants r) high perm"
    if "low \<noteq> Owner" "high \<noteq> Owner" "low \<le> high" for low high
    using that by (auto simp: granted_iff wf_grants_def closed_grants_def intro: mask_le_trans)
  moreover have "granted (grants r) Administrator perm" "granted (grants r) Owner perm"
    using wf parse_le_all by (auto simp: granted_iff wf_grants_def)
  ultimately show ?thesis using wf by (auto simp: wf_grants_def closed_grants_def)
qed

theorem grants_stay_ordered_witness:
  "\<exists>r. new_Room 0 sample_options = Inr r
     \<and> granted (grants (foldl room_step r sample_events)) Administrator ''manage-users.kick''"
proof -
  obtain r where "new_Room 0 sample_options = Inr r"
    and "reachable (foldl room_step r sample_events)" by (rule sample_reachable)
  then show ?thesis using grants_stay_ordered by blast
qed

end
